(* ===== verification/Prelude.thy ===== *)
theory Prelude
  imports Main "HOL-Library.AList"
begin

text \<open>
  Shared vocabulary of the development: computations that may raise (a sum type with a
  sequencing combinator and a "holds of every result" modality), Python strings as lists of
  code points with the few string methods the services use, and list lemmas.
\<close>

section \<open>Computations that may raise\<close>

text \<open>
  A Python function that may raise is a HOL function into \<open>'e + 'a\<close>: \<open>Inl\<close> is the
  exception, \<open>Inr\<close> the returned value. \<open>bindE\<close> runs one statement after another and
  stops at the first exception.
\<close>

definition bindE :: "'e + 'a \<Rightarrow> ('a \<Rightarrow> 'e + 'b) \<Rightarrow> 'e + 'b" where
  "bindE m f = (case m of Inl e \<Rightarrow> Inl e | Inr x \<Rightarrow> f x)"

definition assertE :: "bool \<Rightarrow> 'e \<Rightarrow> 'e + unit" where
  "assertE ok e = (if ok then Inr () else Inl e)"

fun foldE :: "('a \<Rightarrow> 's \<Rightarrow> 'e + 's) \<Rightarrow> 'a list \<Rightarrow> 's \<Rightarrow> 'e + 's" where
  "foldE f [] s = Inr s"
| "foldE f (x # xs) s = bindE (f x s) (foldE f xs)"

fun mapE :: "('a \<Rightarrow> 'e + 'b) \<Rightarrow> 'a list \<Rightarrow> 'e + 'b list" where
  "mapE f [] = Inr []"
| "mapE f (x # xs) = bindE (f x) (\<lambda>y. bindE (mapE f xs) (\<lambda>ys. Inr (y # ys)))"

lemma mapE_cong [fundef_cong]:
  "xs = ys \<Longrightarrow> (\<And>x. x \<in> set ys \<Longrightarrow> f x = g x) \<Longrightarrow> mapE f xs = mapE g ys"
  by (induction ys arbitrary: xs) auto

lemma bindE_simps [simp]: "bindE (Inl e) f = Inl e" "bindE (Inr x) f = f x"
  by (simp_all add: bindE_def)

lemma bindE_assoc: "bindE (bindE m f) g = bindE m (\<lambda>x. bindE (f x) g)"
  by (cases m) simp_all

lemma bindE_eq_Inr: "bindE m f = Inr y \<longleftrightarrow> (\<exists>x. m = Inr x \<and> f x = Inr y)"
  by (cases m) auto

lemma bindE_eq_Inl: "bindE m f = Inl e \<longleftrightarrow> m = Inl e \<or> (\<exists>x. m = Inr x \<and> f x = Inl e)"
  by (cases m) auto

lemma assertE_simps [simp]:
  "assertE True e = Inr ()" "assertE False e = Inl e"
  by (simp_all add: assertE_def)

lemma assertE_eq_Inr [simp]: "assertE b e = Inr u \<longleftrightarrow> b"
  by (simp add: assertE_def)

lemma assertE_eq_Inl [simp]: "assertE b e = Inl d \<longleftrightarrow> \<not> b \<and> d = e"
  by (auto simp: assertE_def)

text \<open>
  \<open>okp m P\<close>: if \<open>m\<close> returns then its result satisfies \<open>P\<close> (nothing is claimed when it
  raises: the request's transaction is rolled back). It distributes over \<open>bindE\<close>, so a
  proof about a handler walks through its statements in order.
\<close>

definition okp :: "'e + 'a \<Rightarrow> ('a \<Rightarrow> bool) \<Rightarrow> bool" where
  "okp m P = (case m of Inl e \<Rightarrow> True | Inr x \<Rightarrow> P x)"

lemma okp_simps [simp]: "okp (Inl e) P" "okp (Inr x) P \<longleftrightarrow> P x"
  by (simp_all add: okp_def)

lemma okp_bind [simp]: "okp (bindE m f) P \<longleftrightarrow> okp m (\<lambda>x. okp (f x) P)"
  by (cases m) simp_all

lemma okp_assert [simp]: "okp (assertE b e) P \<longleftrightarrow> (b \<longrightarrow> P ())"
  by (simp add: assertE_def)

lemma okp_if [simp]: "okp (if b then m else n) P \<longleftrightarrow> (b \<longrightarrow> okp m P) \<and> (\<not> b \<longrightarrow> okp n P)"
  by simp

lemma okpI: "(\<And>x. m = Inr x \<Longrightarrow> P x) \<Longrightarrow> okp m P"
  by (cases m) simp_all

lemma okpD: "okp m P \<Longrightarrow> m = Inr x \<Longrightarrow> P x"
  by simp

lemma okp_mono: "okp m P \<Longrightarrow> (\<And>x. m = Inr x \<Longrightarrow> P x \<Longrightarrow> Q x) \<Longrightarrow> okp m Q"
  by (cases m) simp_all

lemma okp_bindI: "okp m Q \<Longrightarrow> (\<And>x. m = Inr x \<Longrightarrow> Q x \<Longrightarrow> okp (f x) P) \<Longrightarrow> okp (bindE m f) P"
  by (cases m) simp_all

lemma okp_bind_any: "(\<And>x. m = Inr x \<Longrightarrow> okp (f x) P) \<Longrightarrow> okp (bindE m f) P"
  by (cases m) simp_all

lemma okp_cases:
  "(\<And>a b. x = (a, b) \<Longrightarrow> okp (f a b) P) \<Longrightarrow> okp (case x of (a, b) \<Rightarrow> f a b) P"
  "(v = None \<Longrightarrow> okp g P) \<Longrightarrow> (\<And>a. v = Some a \<Longrightarrow> okp (h a) P) \<Longrightarrow> okp (case v of None \<Rightarrow> g | Some a \<Rightarrow> h a) P"
  "okp (k y) P \<Longrightarrow> okp (Let y k) P"
  "(b \<Longrightarrow> okp m P) \<Longrightarrow> (\<not> b \<Longrightarrow> okp n P) \<Longrightarrow> okp (if b then m else n) P"
  by (cases x; cases v; simp)+

lemma okp_conj: "okp m P \<Longrightarrow> okp m Q \<Longrightarrow> okp m (\<lambda>x. P x \<and> Q x)"
  by (cases m) simp_all

lemma okp_True [simp]: "okp m (\<lambda>x. True)"
  by (cases m) simp_all

text \<open>The loop rule: an invariant kept by every iteration holds at the end.\<close>

lemma okp_foldE:
  assumes "I s" and "\<And>x t. x \<in> set xs \<Longrightarrow> I t \<Longrightarrow> okp (f x t) I"
  shows "okp (foldE f xs s) I"
  using assms
proof (induction xs arbitrary: s)
  case Nil
  then show ?case by simp
next
  case (Cons x xs)
  from Cons.prems have "okp (f x s) I" by simp
  then show ?case
  proof (cases "f x s")
    case (Inr t)
    with \<open>okp (f x s) I\<close> Cons show ?thesis by simp
  qed simp
qed

lemma foldE_total:
  assumes "\<And>x t. x \<in> set xs \<Longrightarrow> \<exists>t'. f x t = Inr t'"
  shows "\<exists>t. foldE f xs s = Inr t"
  using assms
proof (induction xs arbitrary: s)
  case (Cons x xs)
  from Cons.prems obtain t where "f x s = Inr t" by force
  with Cons show ?case by simp
qed simp

lemma foldE_append: "foldE f (xs @ ys) s = bindE (foldE f xs s) (foldE f ys)"
  by (induction xs arbitrary: s) (simp_all add: bindE_def split: sum.split)

section \<open>Python strings\<close>

text \<open>
  A Python \<open>str\<close> is a sequence of Unicode code points; \<open>len\<close> counts code points. A
  literal of the source that is ASCII is written \<open>lit ''...''\<close>, other literals are
  lists of code points. Case mapping is modelled on ASCII letters and is the identity on
  every other code point; this is exact for every string that the validators accept as a
  currency, market, side or handling in their canonical spelling.
\<close>

type_synonym pystr = "nat list"

definition lit :: "string \<Rightarrow> pystr" where
  "lit s = map of_char s"

lemma lit_Nil [simp]: "lit [] = []"
  and lit_Cons: "lit (c # cs) = of_char c # lit cs"
  by (simp_all add: lit_def)

lemma lit_inject [simp]: "lit a = lit b \<longleftrightarrow> a = b"
  unfolding lit_def by (rule inj_map_eq_map) (simp add: inj_on_def)

lemma length_lit [simp]: "length (lit s) = length s"
  by (simp add: lit_def)

lemma lit_append: "lit (a @ b) = lit a @ lit b"
  by (simp add: lit_def)

definition py_isspace :: "nat \<Rightarrow> bool" where
  "py_isspace c = (9 \<le> c \<and> c \<le> 13 \<or> 28 \<le> c \<and> c \<le> 32 \<or> c = 133 \<or> c = 160 \<or> c = 5760
     \<or> 8192 \<le> c \<and> c \<le> 8202 \<or> c = 8232 \<or> c = 8233 \<or> c = 8239 \<or> c = 8287 \<or> c = 12288)"

definition py_lstrip :: "pystr \<Rightarrow> pystr" where
  "py_lstrip s = dropWhile py_isspace s"

definition py_rstrip :: "pystr \<Rightarrow> pystr" where
  "py_rstrip s = rev (dropWhile py_isspace (rev s))"

definition py_strip :: "pystr \<Rightarrow> pystr" where
  "py_strip s = py_rstrip (py_lstrip s)"

definition upper_char :: "nat \<Rightarrow> nat" where
  "upper_char c = (if 97 \<le> c \<and> c \<le> 122 then c - 32 else c)"

definition lower_char :: "nat \<Rightarrow> nat" where
  "lower_char c = (if 65 \<le> c \<and> c \<le> 90 then c + 32 else c)"

definition py_upper :: "pystr \<Rightarrow> pystr" where
  "py_upper s = map upper_char s"

definition py_lower :: "pystr \<Rightarrow> pystr" where
  "py_lower s = map lower_char s"

fun show_nat :: "nat \<Rightarrow> pystr" where
  "show_nat n = (if n < 10 then [48 + n] else show_nat (n div 10) @ [48 + n mod 10])"

declare show_nat.simps [simp del]

definition show_int :: "int \<Rightarrow> pystr" where
  "show_int i = (if i < 0 then lit ''-'' @ show_nat (nat (- i)) else show_nat (nat i))"

lemma upper_char_idem [simp]: "upper_char (upper_char c) = upper_char c"
  by (auto simp: upper_char_def)

lemma upper_char_space [simp]: "py_isspace (upper_char c) = py_isspace c"
  by (auto simp: py_isspace_def upper_char_def)

lemma length_py_upper [simp]: "length (py_upper s) = length s"
  by (simp add: py_upper_def)

lemma py_upper_idem [simp]: "py_upper (py_upper s) = py_upper s"
  by (simp add: py_upper_def)

lemma dropWhile_upper:
  "dropWhile py_isspace (map upper_char s) = map upper_char (dropWhile py_isspace s)"
  by (induction s) simp_all

lemma py_strip_upper: "py_strip (py_upper s) = py_upper (py_strip s)"
  by (simp add: py_strip_def py_rstrip_def py_lstrip_def py_upper_def rev_map dropWhile_upper)

lemma dropWhile_idem [simp]: "dropWhile P (dropWhile P xs) = dropWhile P xs"
  by (induction xs) auto

lemma py_lstrip_rstrip: "py_lstrip (py_rstrip s) = py_rstrip (py_lstrip s)"
proof (induction s)
  case Nil
  show ?case by (simp add: py_lstrip_def py_rstrip_def)
next
  case (Cons c s)
  show ?case
  proof (cases "\<forall>d \<in> set s. py_isspace d")
    case True
    then show ?thesis
      by (auto simp: py_lstrip_def py_rstrip_def dropWhile_append dest: set_dropWhileD)
  next
    case False
    then have "dropWhile py_isspace (rev s) \<noteq> []" by (auto simp: dropWhile_eq_Nil_conv)
    with False have "py_rstrip (c # s) = c # py_rstrip s"
      by (auto simp: py_rstrip_def dropWhile_append)
    with Cons False show ?thesis
      by (auto simp: py_lstrip_def py_rstrip_def dropWhile_append)
  qed
qed

lemma py_rstrip_idem [simp]: "py_rstrip (py_rstrip s) = py_rstrip s"
  by (simp add: py_rstrip_def)

lemma py_strip_idem [simp]: "py_strip (py_strip s) = py_strip s"
  by (simp add: py_strip_def py_lstrip_rstrip [symmetric]) (simp add: py_lstrip_def)

lemma length_py_rstrip_le: "length (py_rstrip s) \<le> length s"
  by (simp add: py_rstrip_def) (metis length_dropWhile_le length_rev)

lemma length_py_lstrip_le: "length (py_lstrip s) \<le> length s"
  by (simp add: py_lstrip_def length_dropWhile_le)

lemma length_py_strip_le: "length (py_strip s) \<le> length s"
  unfolding py_strip_def by (meson le_trans length_py_lstrip_le length_py_rstrip_le)

section \<open>Lists\<close>

lemma sum_list_filter_split:
  "sum_list (map f xs) = sum_list (map f (filter P xs)) + sum_list (map f (filter (\<lambda>x. \<not> P x) xs))"
  for f :: "'a \<Rightarrow> 'b::ab_group_add"
  by (induction xs) (simp_all add: algebra_simps)

lemma abs_sum_list_le: "\<bar>sum_list xs\<bar> \<le> sum_list (map abs xs)" for xs :: "int list"
  by (induction xs) auto

lemma sum_list_abs_nonneg: "0 \<le> sum_list (map abs xs)" for xs :: "int list"
  by (induction xs) auto

lemma sort_key_ConsD: "sort_key f xs = y # ys \<Longrightarrow> y \<in> set xs"
  by (metis list.set_intros(1) set_sort)

lemma sort_key_Nil_iff [simp]: "sort_key f xs = [] \<longleftrightarrow> xs = []"
  by (metis length_0_conv length_sort)

lemma find_Some_iff':
  "find P xs = Some x \<Longrightarrow> P x \<and> x \<in> set xs"
  by (auto simp: find_Some_iff)

end
