(* ===== verification/Fixed_Precision.thy ===== *)
theory Fixed_Precision
  imports Prelude Complex_Main
begin

text \<open>
  Model of \<^verbatim>\<open>backend/app/fixed_precision.py\<close> on top of Python's \<open>decimal\<close> module. A finite
  \<open>Decimal\<close> is an integer coefficient with a decimal exponent. The arithmetic operators
  compute exactly and then round to the 28 digits of the default context (half even), as
  \<open>decimal\<close> does; \<open>quantize\<close> rounds half up to a fixed exponent and raises
  \<open>InvalidOperation\<close> when the result needs more than 28 digits. Stored amounts are integers
  in units of \<open>10 ^ -8\<close> (\<open>DB_QUANTUM\<close>). The sign of a zero, NaN, infinities and
  the exponent limits (\<open>Emax\<close>, \<open>Emin\<close>) are not modelled; quotients that are exact keep a
  longer coefficient than Python's, with the same value.
\<close>

section \<open>Decimal numbers\<close>

datatype dec = Dec (coeff: int) (expo: int)

datatype arith_error = InvalidOperation | ZeroDivisionError

type_synonym fixed = int

abbreviation PREC :: nat where
  "PREC \<equiv> 28"

fun ndigits :: "nat \<Rightarrow> nat" where
  "ndigits n = (if n < 10 then 1 else Suc (ndigits (n div 10)))"

declare ndigits.simps [simp del]

definition half_even_div :: "int \<Rightarrow> int \<Rightarrow> int" where
  \<comment> \<open>\<open>n / d\<close> for \<open>d > 0\<close>, rounded to nearest, ties to even\<close>
  "half_even_div n d =
     (let q = \<bar>n\<bar> div d; r = \<bar>n\<bar> mod d;
          q' = (if 2 * r > d \<or> 2 * r = d \<and> odd q then q + 1 else q)
      in sgn n * q')"

definition half_up_div :: "int \<Rightarrow> int \<Rightarrow> int" where
  \<comment> \<open>\<open>n / d\<close> for \<open>d > 0\<close>, rounded to nearest, ties away from zero\<close>
  "half_up_div n d =
     (let q = \<bar>n\<bar> div d; r = \<bar>n\<bar> mod d
      in sgn n * (if 2 * r \<ge> d then q + 1 else q))"

definition ctx_round :: "dec \<Rightarrow> dec" where
  \<comment> \<open>the rounding every operator ends with: at most \<open>PREC\<close> digits, half even\<close>
  "ctx_round x = (case x of Dec c e \<Rightarrow>
     (let k = ndigits (nat \<bar>c\<bar>) - PREC
      in if k = 0 then Dec c e else Dec (half_even_div c (10 ^ k)) (e + int k)))"

definition scale_to :: "int \<Rightarrow> dec \<Rightarrow> int" where
  \<comment> \<open>the coefficient of a decimal rewritten with the smaller exponent \<open>m\<close>\<close>
  "scale_to m x = coeff x * 10 ^ nat (expo x - m)"

definition dec_add :: "dec \<Rightarrow> dec \<Rightarrow> dec" where
  "dec_add x y = (let m = min (expo x) (expo y)
     in ctx_round (Dec (scale_to m x + scale_to m y) m))"

definition dec_neg :: "dec \<Rightarrow> dec" where
  "dec_neg x = ctx_round (Dec (- coeff x) (expo x))"

definition dec_sub :: "dec \<Rightarrow> dec \<Rightarrow> dec" where
  "dec_sub x y = (let m = min (expo x) (expo y)
     in ctx_round (Dec (scale_to m x - scale_to m y) m))"

definition dec_mul :: "dec \<Rightarrow> dec \<Rightarrow> dec" where
  "dec_mul x y = ctx_round (Dec (coeff x * coeff y) (expo x + expo y))"

definition dec_abs :: "dec \<Rightarrow> dec" where
  "dec_abs x = ctx_round (Dec \<bar>coeff x\<bar> (expo x))"

definition dec_div :: "dec \<Rightarrow> dec \<Rightarrow> arith_error + dec" where
  \<comment> \<open>the quotient rounded half even to \<open>PREC\<close> digits: the dividend is scaled so that
    the integer quotient has more than \<open>PREC\<close> digits, and a sticky digit marks a remainder\<close>
  "dec_div x y =
     (if coeff y = 0 then Inl (if coeff x = 0 then InvalidOperation else ZeroDivisionError)
      else (let s = PREC + 2 + ndigits (nat \<bar>coeff y\<bar>);
                n = \<bar>coeff x\<bar> * 10 ^ s; q = n div \<bar>coeff y\<bar>; r = n mod \<bar>coeff y\<bar>;
                q' = 10 * q + (if r = 0 then 0 else 1)
            in Inr (ctx_round (Dec (sgn (coeff x) * sgn (coeff y) * q')
                      (expo x - expo y - int s - 1)))))"

definition dec_le :: "dec \<Rightarrow> dec \<Rightarrow> bool" where
  "dec_le x y = (let m = min (expo x) (expo y) in scale_to m x \<le> scale_to m y)"

definition dec_less :: "dec \<Rightarrow> dec \<Rightarrow> bool" where
  "dec_less x y = (let m = min (expo x) (expo y) in scale_to m x < scale_to m y)"

definition dec_eq :: "dec \<Rightarrow> dec \<Rightarrow> bool" where
  "dec_eq x y = (let m = min (expo x) (expo y) in scale_to m x = scale_to m y)"

definition dec_quantize :: "int \<Rightarrow> dec \<Rightarrow> arith_error + int" where
  \<comment> \<open>\<open>x.quantize(Decimal(1).scaleb(q), rounding=ROUND_HALF_UP)\<close>, as the coefficient of
    the result, whose exponent is \<open>q\<close>\<close>
  "dec_quantize q x =
     (let c = (if q \<le> expo x then scale_to q x
               else half_up_div (coeff x) (10 ^ nat (q - expo x)))
      in if ndigits (nat \<bar>c\<bar>) \<le> PREC then Inr c else Inl InvalidOperation)"

definition dec_val :: "dec \<Rightarrow> rat" where
  \<comment> \<open>the number a decimal stands for (for specifications)\<close>
  "dec_val x = of_int (coeff x) * 10 powi expo x"

section \<open>The module fixed\_precision\<close>

abbreviation DB_EXP :: int where "DB_EXP \<equiv> -8"
abbreviation CENT_EXP :: int where "CENT_EXP \<equiv> -2"

definition DECIMAL_ZERO :: dec where
  "DECIMAL_ZERO = Dec 0 0"

definition FIXED_EPSILON :: dec where
  "FIXED_EPSILON = Dec 1 (-8)"

definition of_fixed :: "fixed \<Rightarrow> dec" where
  "of_fixed n = Dec n (-8)"

definition to_decimal :: "dec option \<Rightarrow> dec" where
  "to_decimal v = (case v of None \<Rightarrow> DECIMAL_ZERO | Some x \<Rightarrow> x)"

definition quantize_decimal :: "dec \<Rightarrow> arith_error + fixed" where
  "quantize_decimal v = dec_quantize DB_EXP v"

definition quantize_optional_decimal :: "dec option \<Rightarrow> arith_error + fixed option" where
  "quantize_optional_decimal v =
     (case v of None \<Rightarrow> Inr None | Some x \<Rightarrow> bindE (quantize_decimal x) (\<lambda>n. Inr (Some n)))"

fun dec_sum :: "dec list \<Rightarrow> dec \<Rightarrow> dec" where
  "dec_sum [] acc = acc"
| "dec_sum (x # xs) acc = dec_sum xs (dec_add acc x)"

definition add_decimals :: "dec option list \<Rightarrow> arith_error + fixed" where
  "add_decimals vs = quantize_decimal (dec_sum (map to_decimal vs) DECIMAL_ZERO)"

definition multiply_decimals :: "dec option \<Rightarrow> dec option \<Rightarrow> arith_error + fixed" where
  "multiply_decimals l r = quantize_decimal (dec_mul (to_decimal l) (to_decimal r))"

definition divide_decimals :: "dec option \<Rightarrow> dec option \<Rightarrow> arith_error + fixed" where
  "divide_decimals n d =
     (if dec_eq (to_decimal d) (Dec 0 0) then Inl ZeroDivisionError
      else bindE (dec_div (to_decimal n) (to_decimal d)) quantize_decimal)"

definition is_effectively_zero :: "dec option \<Rightarrow> bool" where
  "is_effectively_zero v = dec_le (dec_abs (to_decimal v)) FIXED_EPSILON"

definition is_integral_decimal :: "dec option \<Rightarrow> arith_error + bool" where
  "is_integral_decimal v =
     bindE (quantize_decimal (to_decimal v)) (\<lambda>n.
     bindE (dec_quantize 0 (of_fixed n)) (\<lambda>i. Inr (dec_eq (of_fixed n) (Dec i 0))))"

definition display_money :: "dec \<Rightarrow> arith_error + int" where
  "display_money v = dec_quantize (-2) v"

definition display_price :: "dec \<Rightarrow> arith_error + int" where
  "display_price v = dec_quantize (-4) v"

definition display_quantity :: "dec \<Rightarrow> arith_error + int" where
  "display_quantity v = dec_quantize (-4) v"

definition display_fx_rate :: "dec \<Rightarrow> arith_error + int" where
  "display_fx_rate v = dec_quantize (-6) v"

definition display_percent :: "dec \<Rightarrow> arith_error + int" where
  "display_percent v = dec_quantize (-2) v"

section \<open>Rounding lemmas\<close>

lemma ndigits_pos [simp]: "0 < ndigits n"
  by (subst ndigits.simps) simp

lemma ndigits_le_iff: "ndigits n \<le> Suc k \<longleftrightarrow> n < 10 ^ Suc k"
proof (induction n arbitrary: k rule: ndigits.induct)
  case (1 n)
  show ?case
  proof (cases "n < 10")
    case True
    have "(10::nat) \<le> 10 * 10 ^ k" by simp
    with True have "n < 10 * 10 ^ k" by linarith
    with True show ?thesis by (simp add: ndigits.simps [of n])
  next
    case False
    then have step: "ndigits n = Suc (ndigits (n div 10))" by (simp add: ndigits.simps [of n])
    show ?thesis
    proof (cases k)
      case 0
      with False step show ?thesis by simp
    next
      case (Suc j)
      have "ndigits (n div 10) \<le> Suc j \<longleftrightarrow> n div 10 < 10 ^ Suc j"
        using 1 [OF False] by blast
      also have "\<dots> \<longleftrightarrow> n < 10 ^ Suc j * 10"
        by (simp add: div_less_iff_less_mult)
      finally show ?thesis using step Suc by (simp add: mult.commute)
    qed
  qed
qed

lemma ndigits_le_prec: "ndigits (nat \<bar>c\<bar>) \<le> PREC \<longleftrightarrow> \<bar>c\<bar> < 10 ^ PREC"
proof -
  have "ndigits (nat \<bar>c\<bar>) \<le> Suc 27 \<longleftrightarrow> nat \<bar>c\<bar> < 10 ^ Suc 27"
    by (rule ndigits_le_iff)
  also have "\<dots> \<longleftrightarrow> \<bar>c\<bar> < 10 ^ Suc 27" by (auto simp: nat_less_iff)
  finally show ?thesis by simp
qed

text \<open>An operator whose exact result fits the context is exact.\<close>

lemma ctx_round_exact: "\<bar>c\<bar> < 10 ^ PREC \<Longrightarrow> ctx_round (Dec c e) = Dec c e"
  using ndigits_le_prec [of c] by (simp add: ctx_round_def)

lemma dec_add_fixed: "\<bar>a + b\<bar> < 10 ^ PREC \<Longrightarrow> dec_add (of_fixed a) (of_fixed b) = of_fixed (a + b)"
  by (simp add: dec_add_def of_fixed_def scale_to_def ctx_round_exact)

lemma dec_sub_fixed: "\<bar>a - b\<bar> < 10 ^ PREC \<Longrightarrow> dec_sub (of_fixed a) (of_fixed b) = of_fixed (a - b)"
  by (simp add: dec_sub_def of_fixed_def scale_to_def ctx_round_exact)

lemma dec_neg_fixed: "\<bar>a\<bar> < 10 ^ PREC \<Longrightarrow> dec_neg (of_fixed a) = of_fixed (- a)"
  by (simp add: dec_neg_def of_fixed_def ctx_round_exact)

lemma dec_abs_fixed: "\<bar>a\<bar> < 10 ^ PREC \<Longrightarrow> dec_abs (of_fixed a) = of_fixed \<bar>a\<bar>"
  by (simp add: dec_abs_def of_fixed_def ctx_round_exact)

lemma dec_add_zero_fixed: "\<bar>a\<bar> < 10 ^ PREC \<Longrightarrow> dec_add DECIMAL_ZERO (of_fixed a) = of_fixed a"
  by (simp add: dec_add_def of_fixed_def DECIMAL_ZERO_def scale_to_def ctx_round_exact)

lemma FIXED_EPSILON_fixed: "FIXED_EPSILON = of_fixed 1"
  by (simp add: FIXED_EPSILON_def of_fixed_def)

lemma dec_le_fixed [simp]: "dec_le (of_fixed a) (of_fixed b) \<longleftrightarrow> a \<le> b"
  by (simp add: dec_le_def of_fixed_def scale_to_def)

lemma dec_less_fixed [simp]: "dec_less (of_fixed a) (of_fixed b) \<longleftrightarrow> a < b"
  by (simp add: dec_less_def of_fixed_def scale_to_def)

lemma dec_eq_fixed [simp]: "dec_eq (of_fixed a) (of_fixed b) \<longleftrightarrow> a = b"
  by (simp add: dec_eq_def of_fixed_def scale_to_def)

lemma dec_le_zero_fixed [simp]:
  "dec_le (of_fixed a) DECIMAL_ZERO \<longleftrightarrow> a \<le> 0"
  "dec_less (of_fixed a) DECIMAL_ZERO \<longleftrightarrow> a < 0"
  "dec_less DECIMAL_ZERO (of_fixed a) \<longleftrightarrow> 0 < a"
  "dec_eq (of_fixed a) DECIMAL_ZERO \<longleftrightarrow> a = 0"
  by (auto simp: dec_le_def dec_less_def dec_eq_def DECIMAL_ZERO_def of_fixed_def scale_to_def)

lemma quantize_decimal_fixed:
  "quantize_decimal (of_fixed n) = (if \<bar>n\<bar> < 10 ^ PREC then Inr n else Inl InvalidOperation)"
  using ndigits_le_prec [of n]
  by (simp add: quantize_decimal_def dec_quantize_def of_fixed_def scale_to_def)

lemma quantize_decimal_Inr: "quantize_decimal x = Inr n \<Longrightarrow> \<bar>n\<bar> < 10 ^ PREC"
  unfolding quantize_decimal_def dec_quantize_def
  by (auto simp: Let_def ndigits_le_prec [simplified] split: if_splits)

lemma dec_quantize_Inr: "dec_quantize q x = Inr n \<Longrightarrow> \<bar>n\<bar> < 10 ^ PREC"
  unfolding dec_quantize_def
  by (auto simp: Let_def ndigits_le_prec [simplified] split: if_splits)

lemma dec_sum_append: "dec_sum (xs @ ys) acc = dec_sum ys (dec_sum xs acc)"
  by (induction xs arbitrary: acc) simp_all

lemma dec_sum_fixed_from:
  "\<bar>a\<bar> + sum_list (map abs xs) < 10 ^ PREC \<Longrightarrow>
   dec_sum (map of_fixed xs) (of_fixed a) = of_fixed (a + sum_list xs)"
proof (induction xs arbitrary: a)
  case Nil
  then show ?case by simp
next
  case (Cons x xs)
  from Cons.prems sum_list_abs_nonneg [of xs] have "\<bar>a + x\<bar> < 10 ^ PREC"
    by simp
  moreover from Cons.prems have "\<bar>a + x\<bar> + sum_list (map abs xs) < 10 ^ PREC"
    by simp
  ultimately show ?case using Cons.IH [of "a + x"]
    by (simp add: dec_add_fixed add.assoc)
qed

lemma dec_sum_fixed:
  assumes "sum_list (map abs xs) < 10 ^ PREC"
  shows "quantize_decimal (dec_sum (map of_fixed xs) DECIMAL_ZERO) = Inr (sum_list xs)"
proof (cases xs)
  case Nil
  have "ndigits 0 = 1" by (subst ndigits.simps) simp
  with Nil show ?thesis
    by (simp add: quantize_decimal_def dec_quantize_def DECIMAL_ZERO_def scale_to_def)
next
  case (Cons y ys)
  with assms have b: "\<bar>y\<bar> + sum_list (map abs ys) < 10 ^ PREC" by simp
  with sum_list_abs_nonneg [of ys] have "\<bar>y\<bar> < 10 ^ PREC" by simp
  then have "dec_sum (map of_fixed xs) DECIMAL_ZERO = of_fixed (sum_list xs)"
    using Cons dec_sum_fixed_from [OF b] by (simp add: dec_add_zero_fixed)
  moreover have "\<bar>sum_list xs\<bar> < 10 ^ PREC"
    using assms abs_sum_list_le [of xs] by linarith
  ultimately show ?thesis by (simp add: quantize_decimal_fixed)
qed

text \<open>Half-up rounding is rounding to nearest.\<close>

lemma twice_abs_leD: "2 * \<bar>x\<bar> \<le> d \<Longrightarrow> 2 * x \<le> d \<and> - d \<le> 2 * x" for x d :: int
  by arith

lemma half_up_div_bounds:
  assumes "0 < d"
  shows "2 * \<bar>half_up_div n d * d - n\<bar> \<le> d"
proof -
  let ?q = "\<bar>n\<bar> div d" and ?r = "\<bar>n\<bar> mod d"
  have split: "\<bar>n\<bar> = ?q * d + ?r" by simp
  have r: "0 \<le> ?r" "?r < d" using assms by simp_all
  define h where "h = (if 2 * ?r \<ge> d then ?q + 1 else ?q)"
  have near: "2 * \<bar>(if 2 * r \<ge> d then q + 1 else q) * d - m\<bar> \<le> d"
    if "m = q * d + r" "0 \<le> r" "r < d" for m q r :: int
    using that by (simp add: algebra_simps)
  have h: "2 * \<bar>h * d - \<bar>n\<bar>\<bar> \<le> d"
    unfolding h_def by (rule near [OF split r])
  have "half_up_div n d = sgn n * h" by (simp add: half_up_div_def h_def Let_def)
  moreover have "n = sgn n * \<bar>n\<bar>" by (simp add: sgn_mult_abs)
  ultimately have "half_up_div n d * d - n = sgn n * (h * d - \<bar>n\<bar>)"
    by (metis mult.assoc right_diff_distrib)
  then have "\<bar>half_up_div n d * d - n\<bar> \<le> \<bar>h * d - \<bar>n\<bar>\<bar>"
    by (simp add: abs_mult abs_sgn_eq)
  then have "2 * \<bar>half_up_div n d * d - n\<bar> \<le> 2 * \<bar>h * d - \<bar>n\<bar>\<bar>" by (rule mult_left_mono) simp
  also note h
  finally show ?thesis .
qed

lemma half_up_div_tie_up:
  assumes "0 < d" "0 \<le> n" "2 * (n mod d) = d"
  shows "half_up_div n d = n div d + 1"
proof -
  from assms have "n \<noteq> 0" by auto
  with assms show ?thesis by (auto simp: half_up_div_def Let_def sgn_if)
qed

lemma half_up_div_minus: "half_up_div (- n) d = - half_up_div n d"
  by (simp add: half_up_div_def Let_def sgn_minus)

lemma half_up_div_exact: "0 < d \<Longrightarrow> half_up_div (k * d) d = k"
proof -
  assume d: "0 < d"
  then have "\<bar>k * d\<bar> div d = \<bar>k\<bar>" "\<bar>k * d\<bar> mod d = 0" by (simp_all add: abs_mult)
  with d show ?thesis by (simp add: half_up_div_def Let_def sgn_mult sgn_mult_abs)
qed

lemma half_up_div_nonneg: "0 < d \<Longrightarrow> 0 \<le> n \<Longrightarrow> 0 \<le> half_up_div n d"
  by (auto simp: half_up_div_def Let_def sgn_if pos_imp_zdiv_nonneg_iff)

lemma half_up_div_mono:
  assumes "0 < d" "m \<le> n"
  shows "half_up_div m d \<le> half_up_div n d"
proof (rule ccontr)
  assume "\<not> ?thesis"
  then have "half_up_div n d + 1 \<le> half_up_div m d" by simp
  then have "(half_up_div n d + 1) * d \<le> half_up_div m d * d"
    using assms(1) by (simp add: mult_right_mono)
  moreover note twice_abs_leD [OF half_up_div_bounds [OF assms(1), of m]]
    twice_abs_leD [OF half_up_div_bounds [OF assms(1), of n]]
  ultimately have "m = n" using assms(2) by (simp add: algebra_simps)
  with \<open>\<not> ?thesis\<close> show False by simp
qed

text \<open>The product of two stored amounts, when its 16 decimals fit the context.\<close>

lemma dec_mul_fixed:
  assumes "\<bar>a * b\<bar> < 10 ^ PREC"
  shows "quantize_decimal (dec_mul (of_fixed a) (of_fixed b)) = Inr (half_up_div (a * b) (10 ^ 8))"
proof -
  have "2 * \<bar>half_up_div (a * b) (10 ^ 8) * 10 ^ 8 - a * b\<bar> \<le> 10 ^ 8"
    by (rule half_up_div_bounds) simp
  with assms have "\<bar>half_up_div (a * b) (10 ^ 8)\<bar> < 10 ^ PREC" by simp
  then show ?thesis
    using ndigits_le_prec [of "half_up_div (a * b) (10 ^ 8)"] assms
    by (simp add: dec_mul_def of_fixed_def ctx_round_exact quantize_decimal_def dec_quantize_def)
qed

end
