(* ===== verification/Tables.thy ===== *)
theory Tables
  imports Prelude
begin

text \<open>
  The database as the services see it through a SQLModel \<open>Session\<close>: one table per model
  class, a row per primary key, a serial that numbers inserted rows. The interface a service
  relies on is the locale \<open>keyed_store\<close>; the association-list tables below implement it.
  A flushed change is visible to the next query of the same session, so a table is a plain
  value that is replaced by every \<open>add\<close>, \<open>delete\<close> or attribute assignment.
\<close>

section \<open>The interface\<close>

locale keyed_store =
  fixes get :: "'t \<Rightarrow> nat \<Rightarrow> 'r option"
    and insert_row :: "'r \<Rightarrow> 't \<Rightarrow> nat \<times> 't"
    and put :: "nat \<Rightarrow> 'r \<Rightarrow> 't \<Rightarrow> 't"
    and del :: "nat \<Rightarrow> 't \<Rightarrow> 't"
    and select :: "('r \<Rightarrow> bool) \<Rightarrow> 't \<Rightarrow> (nat \<times> 'r) list"
    and wf :: "'t \<Rightarrow> bool"
  assumes wf_insert: "wf t \<Longrightarrow> wf (snd (insert_row r t))"
    and wf_put: "wf t \<Longrightarrow> wf (put i r t)"
    and wf_del: "wf t \<Longrightarrow> wf (del i t)"
    and fresh: "wf t \<Longrightarrow> get t (fst (insert_row r t)) = None \<and> fst (insert_row r t) \<noteq> 0"
    and get_insert: "wf t \<Longrightarrow>
      get (snd (insert_row r t)) j = (if j = fst (insert_row r t) then Some r else get t j)"
    and get_put: "get (put i r t) j = (if j = i \<and> get t i \<noteq> None then Some r else get t j)"
    and get_del: "get (del i t) j = (if j = i then None else get t j)"
    and select_iff: "wf t \<Longrightarrow> (i, r) \<in> set (select P t) \<longleftrightarrow> get t i = Some r \<and> P r"
    and select_distinct: "wf t \<Longrightarrow> distinct (map fst (select P t))"
    and select_insert: "select P (snd (insert_row r t)) =
      select P t @ (if P r then [(fst (insert_row r t), r)] else [])"
    and select_del: "select P (del i t) = filter (\<lambda>(j, x). j \<noteq> i) (select P t)"
    and select_put_frame: "wf t \<Longrightarrow> get t i = Some r0 \<Longrightarrow> P r = P r0 \<Longrightarrow> \<not> P r0 \<Longrightarrow>
      select P (put i r t) = select P t"
begin

lemma select_del_frame:
  assumes "wf t" and "\<And>r. get t i = Some r \<Longrightarrow> \<not> P r"
  shows "select P (del i t) = select P t"
proof -
  have "j \<noteq> i" if "(j, x) \<in> set (select P t)" for j x
    using that assms by (auto simp: select_iff)
  then show ?thesis by (auto simp: select_del intro!: filter_True)
qed

lemma select_insert_frame: "\<not> P r \<Longrightarrow> select P (snd (insert_row r t)) = select P t"
  by (simp add: select_insert)

lemma select_empty_iff:
  "wf t \<Longrightarrow> select P t = [] \<longleftrightarrow> (\<forall>i r. get t i = Some r \<longrightarrow> \<not> P r)"
  by (metis (no_types, lifting) select_iff ex_in_conv old.prod.exhaust set_empty)

lemma select_ids:
  "wf t \<Longrightarrow> k \<in> fst ` set (select P t) \<longleftrightarrow> (\<exists>r. get t k = Some r \<and> P r)"
  by (simp only: image_iff Bex_def split_paired_Ex fst_conv select_iff) blast

lemma get_old_insert: "wf t \<Longrightarrow> get t j = Some x \<Longrightarrow> get (snd (insert_row r t)) j = Some x"
  using get_insert fresh by fastforce

text \<open>Deleting a list of rows keeps the rows that are not in it.\<close>

lemma wf_fold_del: "wf t \<Longrightarrow> wf (fold del is t)"
  by (induction "is" arbitrary: t) (simp_all add: wf_del)

lemma get_fold_del: "get (fold del is t) j = (if j \<in> set is then None else get t j)"
  by (induction "is" arbitrary: t) (auto simp: get_del)

lemma select_fold_del: "select P (fold del is t) = filter (\<lambda>(j, x). j \<notin> set is) (select P t)"
proof (induction "is" arbitrary: t)
  case Nil
  show ?case by (auto intro!: filter_True [symmetric])
next
  case (Cons i "is")
  then show ?case
    by (simp add: select_del) (rule filter_cong, auto)
qed

lemma select_fold_del_frame:
  assumes "wf t" and "\<And>i r. i \<in> set is \<Longrightarrow> get t i = Some r \<Longrightarrow> \<not> P r"
  shows "select P (fold del is t) = select P t"
proof -
  have "j \<notin> set is" if "(j, x) \<in> set (select P t)" for j x
    using that assms by (auto simp: select_iff)
  then show ?thesis by (auto simp: select_fold_del intro!: filter_True)
qed

end

section \<open>Association-list tables\<close>

record 'r table =
  next_id :: nat
  rows :: "(nat \<times> 'r) list"

definition tget :: "'r table \<Rightarrow> nat \<Rightarrow> 'r option" where
  "tget t i = map_of (rows t) i"

definition tinsert :: "'r \<Rightarrow> 'r table \<Rightarrow> nat \<times> 'r table" where
  "tinsert r t = (next_id t, t\<lparr>next_id := Suc (next_id t), rows := rows t @ [(next_id t, r)]\<rparr>)"

definition tput :: "nat \<Rightarrow> 'r \<Rightarrow> 'r table \<Rightarrow> 'r table" where
  "tput i r t = t\<lparr>rows := map (\<lambda>(j, x). if j = i then (j, r) else (j, x)) (rows t)\<rparr>"

definition tdel :: "nat \<Rightarrow> 'r table \<Rightarrow> 'r table" where
  "tdel i t = t\<lparr>rows := filter (\<lambda>(j, x). j \<noteq> i) (rows t)\<rparr>"

definition tselect :: "('r \<Rightarrow> bool) \<Rightarrow> 'r table \<Rightarrow> (nat \<times> 'r) list" where
  "tselect P t = filter (\<lambda>(j, x). P x) (rows t)"

definition tdel_ids :: "nat list \<Rightarrow> 'r table \<Rightarrow> 'r table" where
  "tdel_ids is t = fold tdel is t"

definition empty_table :: "'r table" where
  "empty_table = \<lparr>next_id = 1, rows = []\<rparr>"

definition twf :: "'r table \<Rightarrow> bool" where
  "twf t \<longleftrightarrow> distinct (map fst (rows t)) \<and> 0 < next_id t
     \<and> (\<forall>i \<in> fst ` set (rows t). 0 < i \<and> i < next_id t)"

lemma twf_empty [simp]: "twf empty_table"
  by (simp add: twf_def empty_table_def)

lemma fst_map_put: "map fst (map (\<lambda>(j, x). if j = i then (j, r) else (j, x)) xs) = map fst xs"
  by (induction xs) auto

lemma map_of_put:
  "map_of (map (\<lambda>(j, x). if j = i then (j, r) else (j, x)) xs) j
   = (if j = i \<and> map_of xs i \<noteq> None then Some r else map_of xs j)"
  by (induction xs) auto

lemma map_of_filter_key:
  "map_of (filter (\<lambda>(j, x). j \<noteq> i) xs) j = (if j = i then None else map_of xs j)"
  by (induction xs) auto

lemma filter_put_frame:
  assumes "distinct (map fst xs)" "map_of xs i = Some r0" "\<not> P r0" "\<not> P r"
  shows "filter (\<lambda>(j, x). P x) (map (\<lambda>(j, x). if j = i then (j, r) else (j, x)) xs)
       = filter (\<lambda>(j, x). P x) xs"
  using assms
proof (induction xs)
  case (Cons y ys)
  obtain j x where y: "y = (j, x)" by (cases y)
  show ?case
  proof (cases "j = i")
    case True
    with Cons.prems y have "map (\<lambda>(j, x). if j = i then (j, r) else (j, x)) ys = ys"
      by (intro map_idI) (auto simp: rev_image_eqI)
    with True y Cons.prems show ?thesis by simp
  next
    case False
    with y Cons show ?thesis by auto
  qed
qed simp

interpretation tbl: keyed_store tget tinsert tput tdel tselect twf
proof (unfold_locales, goal_cases)
  case (1 t r)
  then show ?case by (force simp: twf_def tinsert_def)
next
  case (2 t i r)
  have keys: "map fst (rows (tput i r t)) = map fst (rows t)" and "next_id (tput i r t) = next_id t"
    by (simp_all add: tput_def fst_map_put del: map_map)
  moreover from keys have "fst ` set (rows (tput i r t)) = fst ` set (rows t)"
    by (metis list.set_map)
  ultimately show ?case using 2 unfolding twf_def by simp
next
  case (3 t i)
  then show ?case by (auto simp: twf_def tdel_def distinct_map_filter)
next
  case (4 t r)
  then show ?case by (force simp: twf_def tinsert_def tget_def map_of_eq_None_iff)
next
  case (5 t r j)
  then have "map_of (rows t) (next_id t) = None"
    by (force simp: twf_def map_of_eq_None_iff)
  then show ?case by (auto simp: tinsert_def tget_def map_add_def split: option.split)
next
  case (6 i r t j)
  show ?case by (simp add: tput_def tget_def map_of_put)
next
  case (7 i t j)
  show ?case by (simp add: tdel_def tget_def map_of_filter_key)
next
  case (8 t i r P)
  then show ?case by (auto simp: twf_def tselect_def tget_def)
next
  case (9 t P)
  then show ?case by (simp add: twf_def tselect_def distinct_map_filter)
next
  case (10 P r t)
  show ?case by (simp add: tselect_def tinsert_def)
next
  case (11 P i t)
  show ?case by (simp add: tselect_def tdel_def) (rule filter_cong, auto)
next
  case (12 t i r0 P r)
  then show ?case by (simp add: tselect_def tput_def twf_def tget_def filter_put_frame)
qed

lemmas table_wf [simp] = tbl.wf_insert tbl.wf_put tbl.wf_del

lemma twf_tdel_ids [simp]: "twf t \<Longrightarrow> twf (tdel_ids is t)"
  unfolding tdel_ids_def by (rule tbl.wf_fold_del)

lemma tget_tdel_ids: "tget (tdel_ids is t) j = (if j \<in> set is then None else tget t j)"
  unfolding tdel_ids_def by (rule tbl.get_fold_del)

lemma tselect_tdel_ids: "tselect P (tdel_ids is t) = filter (\<lambda>(j, x). j \<notin> set is) (tselect P t)"
  unfolding tdel_ids_def by (rule tbl.select_fold_del)

lemma tget_pos: "twf t \<Longrightarrow> tget t i = Some r \<Longrightarrow> 0 < i"
  by (force simp: twf_def tget_def dest: map_of_SomeD)

lemma tselect_conj: "filter (\<lambda>(j, x). Q x) (tselect P t) = tselect (\<lambda>x. P x \<and> Q x) t"
  by (simp add: tselect_def) (rule filter_cong, auto)

lemma tselect_cong: "(\<And>x. P x = Q x) \<Longrightarrow> tselect P t = tselect Q t"
  by (simp add: tselect_def)

lemma filter_put_same:
  assumes "\<forall>(i, x) \<in> set xs. i = k \<longrightarrow> P x" and "P r"
  shows "filter (\<lambda>(i, x). P x) (map (\<lambda>(i, x). if i = k then (i, r) else (i, x)) xs)
    = map (\<lambda>(i, x). if i = k then (i, r) else (i, x)) (filter (\<lambda>(i, x). P x) xs)"
  using assms by (induction xs) (auto split: if_splits)

lemma tselect_tput_same:
  assumes "twf t" "tget t k = Some r0" "P r0" "P r"
  shows "tselect P (tput k r t)
    = map (\<lambda>(i, x). if i = k then (i, r) else (i, x)) (tselect P t)"
proof -
  have "\<forall>(i, x) \<in> set (rows t). i = k \<longrightarrow> P x"
    using assms by (fastforce simp: twf_def tget_def dest: map_of_is_SomeI)
  then show ?thesis using assms(4)
    by (simp add: tselect_def tput_def filter_put_same del: filter_map)
qed

lemmas table_get = tbl.get_put tbl.get_del tget_tdel_ids

end
