(* ===== verification/Models.thy ===== *)
theory Models
  imports Fixed_Precision Tables "HOL-Library.Product_Lexorder"
begin

text \<open>
  Model of \<^verbatim>\<open>backend/app/models.py\<close>: the enumerations the module lists as tuples of
  strings, and one record per table that the modelled services read or write. The primary key
  is the key of the table, not a field of the row. Dates are days since 1970-01-01; timestamps
  are microseconds since the epoch, in UTC; stored \<open>Numeric(24, 8)\<close> columns are integers in
  units of \<open>10 ^ -8\<close>. Also here: the exceptions the services raise, as values.
\<close>

type_synonym date = int
type_synonym datetime = int

section \<open>Enumerations\<close>

datatype side = BUY | SELL | ADJUST
datatype handling = DISCARD | ADD_TO_EXISTING_CASH | CREATE_NEW_CASH | DEDUCT_FROM_EXISTING_CASH
datatype flow_direction = INFLOW | OUTFLOW
datatype entry_type = INITIAL_BALANCE | SELL_PROCEEDS | BUY_FUNDING | TRANSFER_OUT | TRANSFER_IN
  | MANUAL_ADJUSTMENT
datatype mutation_operation = CREATE | UPDATE | DELETE
datatype actor_source = USER | SYSTEM | API | AGENT
datatype entity_type = CASH_ACCOUNT | CASH_TRANSFER | CASH_LEDGER_ADJUSTMENT
  | HOLDING_CASH_SETTLEMENT | HOLDING | HOLDING_TRANSACTION | FIXED_ASSET | LIABILITY | OTHER_ASSET
datatype sync_status = SYNC_PENDING | SYNC_RUNNING | SYNC_DONE
datatype job_status = JOB_PENDING | JOB_RUNNING | JOB_DONE | JOB_FAILED
datatype job_type = SNAPSHOT_REBUILD | AGENT_TASK_EXECUTION

text \<open>The tuples of accepted strings, in the order of the source.\<close>

definition CASH_ACCOUNT_TYPES :: "pystr list" where
  "CASH_ACCOUNT_TYPES = map lit [''ALIPAY'', ''WECHAT'', ''BANK'', ''CASH'', ''OTHER'']"

definition SUPPORTED_CURRENCIES :: "pystr list" where
  "SUPPORTED_CURRENCIES = map lit [''CNY'', ''USD'', ''HKD'']"

definition SECURITY_MARKETS :: "pystr list" where
  "SECURITY_MARKETS = map lit [''CN'', ''HK'', ''US'', ''FUND'', ''CRYPTO'', ''OTHER'']"

definition FIXED_ASSET_CATEGORIES :: "pystr list" where
  "FIXED_ASSET_CATEGORIES = map lit [''REAL_ESTATE'', ''VEHICLE'', ''PRECIOUS_METAL'',
     ''COLLECTIBLE'', ''SOCIAL_SECURITY'', ''OTHER'']"

definition LIABILITY_CATEGORIES :: "pystr list" where
  "LIABILITY_CATEGORIES = map lit [''MORTGAGE'', ''AUTO_LOAN'', ''CREDIT_CARD'',
     ''PERSONAL_LOAN'', ''OTHER'']"

definition OTHER_ASSET_CATEGORIES :: "pystr list" where
  "OTHER_ASSET_CATEGORIES = map lit [''RECEIVABLE'', ''OTHER'']"

definition HOLDING_TRANSACTION_SIDES :: "(pystr \<times> side) list" where
  "HOLDING_TRANSACTION_SIDES = [(lit ''BUY'', BUY), (lit ''SELL'', SELL), (lit ''ADJUST'', ADJUST)]"

definition SELL_PROCEEDS_HANDLINGS :: "(pystr \<times> handling) list" where
  "SELL_PROCEEDS_HANDLINGS = [(lit ''DISCARD'', DISCARD),
     (lit ''ADD_TO_EXISTING_CASH'', ADD_TO_EXISTING_CASH), (lit ''CREATE_NEW_CASH'', CREATE_NEW_CASH)]"

definition BUY_FUNDING_HANDLINGS :: "(pystr \<times> handling) list" where
  "BUY_FUNDING_HANDLINGS = [(lit ''DEDUCT_FROM_EXISTING_CASH'', DEDUCT_FROM_EXISTING_CASH)]"

section \<open>Exceptions\<close>

datatype detail =
    AccountNotFound | AdjustmentNotFound | TransferNotFound | HoldingNotFound
  | TransactionNotFound | FixedAssetNotFound | LiabilityNotFound | OtherAssetNotFound
  | SourceAccountNotFound | TargetAccountNotFound | OriginalSourceNotFound | OriginalTargetNotFound
  | CurrencyChangeWithEntries | OnlyManualAdjustments | SystemGeneratedEntry
  | SameAccount | TargetNotCNY | InsufficientBalance | TargetAmountMismatch
  | IdempotencyMismatch | DateInFuture | FxUnavailable | SellPriceUnavailable
  | InsufficientQuantity | InvalidSide | OnlyBuyOrSell | StockQuantityNotIntegral
  | MissingFundingAccount | UnsupportedFunding | MissingProceedsAccount
  | ProceedsOnNonSell | FundingOnNonBuy | PriceRequiredForProceeds | PriceRequiredForFunding
  | StartDateRequired | InvalidSymbol | QuoteUnavailable | AdminOnly
  | InvalidTaskArgument | UnsupportedTaskType | TaskNotFound | TaskUserNotFound
  | InvalidAgentName | InvalidCredentials | ForgotPassword | TooManyLoginAttempts | TooManyRequests
  | TooManyApiKeys | TooManyKeyCreations | DuplicateKeyName | InvalidApiKey | ExpiredApiKey
  | ApiKeyUserMissing | BearerRequired | LoginRequired | LoginAgain | UsernameTaken | EmailTaken
  | ResetMismatch | ApiKeyNotFound | OriginNotAllowed
  | FeedbackLimitReached | MessageNotFound | MessageForbidden | InvalidMessageKind
  | InvalidFilterValue | OnlySystemSilenced | FeedbackNotFound | SystemFeedbackNoReply
  | ResolvedFeedback | ReleaseVersionOlder | ReleaseVersionExists | ReleaseContentMismatch
  | ReleaseNotFound | CorrectionNotFound | UnsupportedScope | UnsupportedAction
  | UnsupportedGranularity

datatype error =
    HTTPException nat detail
  | DecimalError arith_error
  | DataError  \<comment> \<open>the database rejects a value that \<open>Numeric(24, 8)\<close> cannot hold\<close>
  | StaleDataError  \<comment> \<open>the session writes an object whose row is gone\<close>
  | ValueError
  | RuntimeError
  | QuoteLookupError  \<comment> \<open>the market data client has no answer\<close>
  | Uncaught  \<comment> \<open>an exception of a class that nothing handles\<close>

definition liftA :: "arith_error + 'a \<Rightarrow> error + 'a" where
  "liftA m = (case m of Inl e \<Rightarrow> Inl (DecimalError e) | Inr x \<Rightarrow> Inr x)"

lemma liftA_simps [simp]: "liftA (Inl e) = Inl (DecimalError e)" "liftA (Inr x) = Inr x"
  by (simp_all add: liftA_def)

lemma liftA_eq_Inr [simp]: "liftA m = Inr x \<longleftrightarrow> m = Inr x"
  by (cases m) auto

lemma okp_liftA [simp]: "okp (liftA m) P \<longleftrightarrow> okp m P"
  by (cases m) auto

text \<open>The range of a \<open>Numeric(24, 8)\<close> column.\<close>

definition fits_numeric :: "fixed \<Rightarrow> bool" where
  "fits_numeric n \<longleftrightarrow> \<bar>n\<bar> < 10 ^ 24"

definition numeric_column :: "fixed \<Rightarrow> error + fixed" where
  "numeric_column n = (if fits_numeric n then Inr n else Inl DataError)"

lemma numeric_column_eq_Inr [simp]: "numeric_column n = Inr m \<longleftrightarrow> fits_numeric n \<and> m = n"
  by (auto simp: numeric_column_def)

lemma okp_numeric_column [simp]: "okp (numeric_column n) P \<longleftrightarrow> (fits_numeric n \<longrightarrow> P n)"
  by (simp add: numeric_column_def)

section \<open>Rows\<close>

record cash_account =
  ca_user :: pystr
  ca_name :: pystr
  ca_platform :: pystr
  ca_currency :: pystr
  ca_balance :: fixed
  ca_type :: pystr
  ca_started_on :: "date option"
  ca_note :: "pystr option"
  ca_created_at :: datetime
  ca_updated_at :: datetime

record ledger_entry =
  le_user :: pystr
  le_account :: nat
  le_type :: entry_type
  le_amount :: fixed
  le_currency :: pystr
  le_happened_on :: date
  le_note :: "pystr option"
  le_transaction :: "nat option"
  le_transfer :: "nat option"
  le_created_at :: datetime
  le_updated_at :: datetime

record cash_transfer =
  ct_user :: pystr
  ct_from :: nat
  ct_to :: nat
  ct_source_amount :: fixed
  ct_target_amount :: fixed
  ct_source_currency :: pystr
  ct_target_currency :: pystr
  ct_transferred_on :: date
  ct_note :: "pystr option"
  ct_created_at :: datetime
  ct_updated_at :: datetime

record security_holding =
  sh_user :: pystr
  sh_symbol :: pystr
  sh_name :: pystr
  sh_quantity :: fixed
  sh_fallback_currency :: pystr
  sh_cost_basis_price :: "fixed option"
  sh_market :: pystr
  sh_broker :: "pystr option"
  sh_started_on :: "date option"
  sh_note :: "pystr option"
  sh_created_at :: datetime
  sh_updated_at :: datetime

record holding_transaction =
  tx_user :: pystr
  tx_symbol :: pystr
  tx_name :: pystr
  tx_side :: side
  tx_quantity :: fixed
  tx_price :: "fixed option"
  tx_fallback_currency :: pystr
  tx_market :: pystr
  tx_broker :: "pystr option"
  tx_traded_on :: date
  tx_note :: "pystr option"
  tx_created_at :: datetime
  tx_updated_at :: datetime

record cash_settlement =
  st_user :: pystr
  st_transaction :: nat
  st_account :: nat
  st_handling :: handling
  st_settled_amount :: fixed
  st_settled_currency :: pystr
  st_source_amount :: fixed
  st_source_currency :: pystr
  st_flow_direction :: flow_direction
  st_auto_created :: bool
  st_created_at :: datetime
  st_updated_at :: datetime

record fixed_asset =
  fa_user :: pystr
  fa_name :: pystr
  fa_category :: pystr
  fa_current_value_cny :: fixed
  fa_purchase_value_cny :: "fixed option"
  fa_started_on :: "date option"
  fa_note :: "pystr option"
  fa_created_at :: datetime
  fa_updated_at :: datetime

record liability_entry =
  li_user :: pystr
  li_name :: pystr
  li_category :: pystr
  li_currency :: pystr
  li_balance :: fixed
  li_started_on :: "date option"
  li_note :: "pystr option"
  li_created_at :: datetime
  li_updated_at :: datetime

record other_asset =
  oa_user :: pystr
  oa_name :: pystr
  oa_category :: pystr
  oa_current_value_cny :: fixed
  oa_original_value_cny :: "fixed option"
  oa_started_on :: "date option"
  oa_note :: "pystr option"
  oa_created_at :: datetime
  oa_updated_at :: datetime

record history_sync_request =
  hs_user :: pystr
  hs_status :: sync_status
  hs_trigger_symbol :: "pystr option"
  hs_error_message :: "pystr option"
  hs_requested_at :: datetime
  hs_started_at :: "datetime option"
  hs_completed_at :: "datetime option"

text \<open>An outbox job; its JSON payload is one of the two shapes the enqueue functions build.\<close>

datatype job_payload = RebuildPayload pystr | AgentTaskPayload pystr nat

record outbox_job =
  oj_user :: "pystr option"
  oj_type :: job_type
  oj_status :: job_status
  oj_dedup_key :: "pystr option"
  oj_payload :: job_payload
  oj_attempt_count :: nat
  oj_last_error :: "pystr option"
  oj_available_at :: datetime
  oj_started_at :: "datetime option"
  oj_completed_at :: "datetime option"
  oj_created_at :: datetime
  oj_updated_at :: datetime

text \<open>
  An audit record keeps the captured rows themselves where the source keeps their JSON text.
\<close>

datatype model_state =
    AccountState nat cash_account
  | LedgerState nat ledger_entry
  | TransferState nat cash_transfer
  | HoldingState nat security_holding
  | TransactionState nat holding_transaction
  | FixedAssetState nat fixed_asset
  | LiabilityState nat liability_entry
  | OtherAssetState nat other_asset

record mutation_audit =
  au_user :: pystr
  au_actor_user :: pystr
  au_actor_source :: actor_source
  au_api_key_name :: "pystr option"
  au_agent_name :: "pystr option"
  au_agent_task_id :: "nat option"
  au_entity_type :: entity_type
  au_entity_id :: "nat option"
  au_operation :: mutation_operation
  au_before :: "model_state option"
  au_after :: "model_state option"
  au_reason :: "pystr option"
  au_created_at :: datetime

end
