(* ===== verification/Schemas.thy ===== *)
theory Schemas
  imports Models
begin

text \<open>
  Model of \<^verbatim>\<open>backend/app/schemas.py\<close> and \<^verbatim>\<open>backend/app/schema_parts/\<close>: the request
  payloads after validation, the response bodies, and the validators of
  \<^verbatim>\<open>schema_parts/common.py\<close>. An optional field of an update payload has type
  \<open>'a option option\<close>: \<open>None\<close> when the request leaves it out (it is not in
  \<open>model_fields_set\<close>), \<open>Some None\<close> for an explicit null.
\<close>

type_synonym 'a field = "'a option option"

definition field_value :: "'a field \<Rightarrow> 'a option" where
  \<comment> \<open>the attribute of the payload: the default \<open>None\<close> when the field is left out\<close>
  "field_value f = (case f of None \<Rightarrow> None | Some v \<Rightarrow> v)"

lemma field_value_simps [simp]: "field_value None = None" "field_value (Some v) = v"
  by (simp_all add: field_value_def)

section \<open>Request payloads\<close>

record cash_account_create =
  cac_name :: pystr
  cac_platform :: pystr
  cac_currency :: pystr
  cac_balance :: fixed
  cac_type :: pystr
  cac_started_on :: "date option"
  cac_note :: "pystr option"

record cash_account_update =
  cau_name :: pystr
  cau_platform :: pystr
  cau_currency :: pystr
  cau_balance :: fixed
  cau_type :: "pystr option"
  cau_started_on :: "date field"
  cau_note :: "pystr field"

record adjustment_create =
  adc_account :: nat
  adc_amount :: fixed
  adc_happened_on :: date
  adc_note :: "pystr option"

record adjustment_update =
  adu_amount :: "fixed field"
  adu_happened_on :: "date field"
  adu_note :: "pystr field"

record transfer_create =
  trc_from :: nat
  trc_to :: nat
  trc_source_amount :: fixed
  trc_target_amount :: "fixed option"
  trc_transferred_on :: date
  trc_note :: "pystr option"

record transfer_update =
  tru_from :: "nat field"
  tru_to :: "nat field"
  tru_source_amount :: "fixed field"
  tru_target_amount :: "fixed field"
  tru_transferred_on :: "date field"
  tru_note :: "pystr field"

record holding_create =
  hoc_symbol :: pystr
  hoc_name :: pystr
  hoc_quantity :: fixed
  hoc_fallback_currency :: pystr
  hoc_cost_basis_price :: "fixed option"
  hoc_market :: pystr
  hoc_broker :: "pystr option"
  hoc_started_on :: "date option"
  hoc_note :: "pystr option"

record holding_update =
  hou_quantity :: "fixed field"
  hou_cost_basis_price :: "fixed field"
  hou_started_on :: "date field"
  hou_broker :: "pystr field"
  hou_note :: "pystr field"

record transaction_create =
  txc_side :: side
  txc_symbol :: pystr
  txc_name :: pystr
  txc_quantity :: fixed
  txc_price :: "fixed option"
  txc_fallback_currency :: pystr
  txc_market :: pystr
  txc_broker :: "pystr option"
  txc_traded_on :: date
  txc_note :: "pystr option"
  txc_sell_handling :: "handling option"
  txc_sell_account :: "nat option"
  txc_buy_handling :: "handling option"
  txc_buy_account :: "nat option"

record transaction_update =
  txu_name :: "pystr option"
  txu_quantity :: "fixed option"
  txu_price :: "fixed field"
  txu_fallback_currency :: "pystr option"
  txu_broker :: "pystr field"
  txu_traded_on :: "date option"
  txu_note :: "pystr field"
  txu_sell_handling :: "handling option"
  txu_sell_account :: "nat field"
  txu_buy_handling :: "handling option"
  txu_buy_account :: "nat field"

section \<open>Response bodies\<close>

text \<open>Displayed amounts are integers in units of the display quantum of their kind.\<close>

record cash_account_read =
  car_id :: nat
  car_name :: pystr
  car_platform :: pystr
  car_currency :: pystr
  car_balance :: int
  car_type :: pystr
  car_started_on :: "date option"
  car_note :: "pystr option"
  car_fx_to_cny :: "int option"
  car_value_cny :: "int option"

record ledger_entry_read =
  ler_id :: nat
  ler_account :: nat
  ler_type :: entry_type
  ler_amount :: int
  ler_currency :: pystr
  ler_happened_on :: date
  ler_note :: "pystr option"
  ler_transaction :: "nat option"
  ler_transfer :: "nat option"
  ler_created_at :: datetime
  ler_updated_at :: datetime

record transfer_read =
  trr_id :: nat
  trr_from :: nat
  trr_to :: nat
  trr_source_amount :: int
  trr_target_amount :: int
  trr_source_currency :: pystr
  trr_target_currency :: pystr
  trr_transferred_on :: date
  trr_note :: "pystr option"
  trr_created_at :: datetime
  trr_updated_at :: datetime

record holding_read =
  hor_id :: nat
  hor_symbol :: pystr
  hor_name :: pystr
  hor_quantity :: int
  hor_fallback_currency :: pystr
  hor_cost_basis_price :: "int option"
  hor_market :: pystr
  hor_broker :: "pystr option"
  hor_started_on :: "date option"
  hor_note :: "pystr option"
  hor_price :: "int option"
  hor_price_currency :: "pystr option"
  hor_value_cny :: "int option"
  hor_return_pct :: "int option"
  hor_last_updated :: "datetime option"

record transaction_read =
  txr_id :: nat
  txr_symbol :: pystr
  txr_name :: pystr
  txr_side :: side
  txr_quantity :: int
  txr_price :: "int option"
  txr_fallback_currency :: pystr
  txr_market :: pystr
  txr_broker :: "pystr option"
  txr_traded_on :: date
  txr_note :: "pystr option"
  txr_sell_handling :: "handling option"
  txr_sell_account :: "nat option"
  txr_buy_handling :: "handling option"
  txr_buy_account :: "nat option"
  txr_created_at :: datetime
  txr_updated_at :: datetime

record adjustment_apply_read =
  aar_entry :: ledger_entry_read
  aar_account :: cash_account_read

record transfer_apply_read =
  tar_transfer :: transfer_read
  tar_from :: cash_account_read
  tar_to :: cash_account_read

record transaction_apply_read =
  txa_transaction :: transaction_read
  txa_holding :: "holding_read option"
  txa_cash_account :: "cash_account_read option"
  txa_sell_handling :: "handling option"

text \<open>
  The payload of an agent task, a JSON object in the source, as the schema that its type names
  parses it; \<open>InvalidTask\<close> is one that the schema refuses or whose type is not supported. The ids
  are integers as they are read.
\<close>

datatype task_input =
    BuyTask transaction_create
  | SellTask transaction_create
  | UpdateTransactionTask int transaction_update
  | TransferTask transfer_create
  | UpdateTransferTask int transfer_update
  | AdjustmentTask adjustment_create
  | UpdateAdjustmentTask int adjustment_update
  | DeleteAdjustmentTask int
  | InvalidTask error

datatype task_result =
    TransactionResult transaction_apply_read
  | TransferResult transfer_apply_read
  | AdjustmentResult adjustment_apply_read
  | DeletedResult

datatype task_status = TASK_PENDING | TASK_RUNNING | TASK_DONE | TASK_FAILED

record agent_task_read =
  atr_id :: nat
  atr_request_source :: actor_source
  atr_api_key_name :: "pystr option"
  atr_agent_name :: "pystr option"
  atr_status :: task_status
  atr_payload :: task_input
  atr_result :: "task_result option"
  atr_error_message :: "pystr option"
  atr_created_at :: datetime
  atr_updated_at :: datetime
  atr_completed_at :: "datetime option"

text \<open>What an idempotency record is about: the request it was stored for and its response.\<close>

datatype request =
    AdjustmentRequest adjustment_create
  | TransferRequest transfer_create
  | TransactionRequest transaction_create
  | AgentTaskRequest task_input

datatype stored_response =
    AdjustmentResponse adjustment_apply_read
  | TransferResponse transfer_apply_read
  | TransactionResponse transaction_apply_read
  | AgentTaskResponse agent_task_read

record idempotency_key =
  ik_user :: pystr
  ik_scope :: pystr
  ik_key :: pystr
  ik_request_hash :: pystr
  ik_response :: stored_response
  ik_created_at :: datetime
  ik_updated_at :: datetime

end
