(* ===== verification/Common_Service.thy ===== *)
theory Common_Service
  imports Schemas
begin

text \<open>
  Model of \<^verbatim>\<open>backend/app/services/common_service.py\<close>, with the two things every handler
  has at hand: the request environment \<open>env\<close> (the signed-in user, the clock, the context
  variables of \<^verbatim>\<open>runtime_state.py\<close>, and the services outside the program as functions) and
  the \<open>world\<close> (the tables of the database and the users whose dashboard is cached).
  A handler runs in one database transaction: it is a function of the world that either raises,
  and then nothing is committed, or returns the world to commit. The clock does not advance
  within a request. Local time is Asia/Shanghai, taken as UTC+8, which it has been since 1991-09-15.
\<close>

section \<open>Environment and world\<close>

record quote =
  qt_symbol :: pystr
  qt_name :: pystr
  qt_price :: dec
  qt_currency :: pystr
  qt_market_time :: "datetime option"

record env =
  en_user :: pystr
  en_now :: datetime
  en_actor_source :: "actor_source option"
  en_api_key_name :: "pystr option"
  en_agent_name :: "pystr option"
  en_agent_task_id :: "nat option"
  en_fx_rate :: "pystr \<Rightarrow> pystr \<Rightarrow> dec option"
    \<comment> \<open>\<open>market_data_client.fetch_fx_rate\<close>; \<open>None\<close> is \<open>QuoteLookupError\<close> or \<open>ValueError\<close>\<close>
  en_quote :: "pystr \<Rightarrow> pystr \<Rightarrow> quote option"
    \<comment> \<open>\<open>market_data_client.fetch_quote\<close>, symbol and market\<close>
  en_price_series :: "pystr \<Rightarrow> pystr \<Rightarrow> datetime \<Rightarrow> datetime \<Rightarrow> ((datetime \<times> dec) list \<times> pystr option) option"
    \<comment> \<open>\<open>market_data_client.fetch_hourly_price_series\<close>: symbol, market, start, end\<close>
  en_error_text :: "error \<Rightarrow> pystr"
    \<comment> \<open>\<open>str\<close> of an exception\<close>
  en_float_g :: "int \<Rightarrow> int \<Rightarrow> pystr"
    \<comment> \<open>\<open>f"{float(d):g}"\<close> for the decimal with this exponent and coefficient\<close>
  en_request_hash :: "request \<Rightarrow> pystr"
    \<comment> \<open>\<open>_build_idempotency_request_hash\<close>: SHA-256 of the request's JSON\<close>

record world =
  accounts :: "cash_account table"
  ledger :: "ledger_entry table"
  transfers :: "cash_transfer table"
  holdings :: "security_holding table"
  transactions :: "holding_transaction table"
  settlements :: "cash_settlement table"
  fixed_assets :: "fixed_asset table"
  liabilities :: "liability_entry table"
  other_assets :: "other_asset table"
  sync_requests :: "history_sync_request table"
  jobs :: "outbox_job table"
  idem_keys :: "idempotency_key table"
  audits :: "mutation_audit list"
  cached_dashboards :: "pystr list"

section \<open>Text\<close>

definition normalize_currency :: "pystr \<Rightarrow> pystr" where
  "normalize_currency code = py_upper (py_strip code)"

definition normalize_optional_text :: "pystr option \<Rightarrow> pystr option" where
  "normalize_optional_text v = (case v of None \<Rightarrow> None
     | Some s \<Rightarrow> (let stripped = py_strip s in if stripped = [] then None else Some stripped))"

definition normalize_idempotency_key :: "pystr option \<Rightarrow> pystr option" where
  "normalize_idempotency_key v = (case v of None \<Rightarrow> None
     | Some s \<Rightarrow> (let normalized = py_strip s in if normalized = [] then None else Some normalized))"

lemma normalize_currency_idem [simp]: "normalize_currency (normalize_currency c) = normalize_currency c"
  by (simp add: normalize_currency_def py_strip_upper)

lemma normalize_optional_text_idem [simp]:
  "normalize_optional_text (normalize_optional_text v) = normalize_optional_text v"
  by (auto simp: normalize_optional_text_def Let_def split: option.splits)

section \<open>Time\<close>

definition US_SECOND :: int where "US_SECOND = 1000000"
definition US_MINUTE :: int where "US_MINUTE = 60 * 1000000"
definition US_HOUR :: int where "US_HOUR = 3600 * 1000000"
definition US_DAY :: int where "US_DAY = 86400 * 1000000"
definition LOCAL_OFFSET :: int where "LOCAL_OFFSET = 8 * 3600 * 1000000"

definition current_minute_bucket :: "datetime \<Rightarrow> datetime" where
  "current_minute_bucket t = t - t mod US_MINUTE"

definition current_second_bucket :: "datetime \<Rightarrow> datetime" where
  "current_second_bucket t = t - t mod US_SECOND"

definition current_hour_bucket :: "datetime \<Rightarrow> datetime" where
  "current_hour_bucket t = t - t mod US_HOUR"

definition feedback_day_window :: "datetime \<Rightarrow> datetime \<times> datetime" where
  "feedback_day_window t =
     (let local = t + LOCAL_OFFSET; day_start_local = local - local mod US_DAY;
          day_end_local = day_start_local + US_DAY
      in (day_start_local - LOCAL_OFFSET, day_end_local - LOCAL_OFFSET))"

definition server_today_date :: "datetime \<Rightarrow> date" where
  "server_today_date t = (t + LOCAL_OFFSET) div US_DAY"

definition utc_date :: "datetime \<Rightarrow> date" where
  \<comment> \<open>\<open>_coerce_utc_datetime(t).date()\<close>\<close>
  "utc_date t = t div US_DAY"

definition date_start_utc :: "date \<Rightarrow> datetime" where
  "date_start_utc d = d * US_DAY - LOCAL_OFFSET"

definition ensure_date_not_future :: "env \<Rightarrow> date option \<Rightarrow> error + unit" where
  "ensure_date_not_future env v = (case v of None \<Rightarrow> Inr ()
     | Some d \<Rightarrow> assertE (\<not> d > server_today_date (en_now env)) (HTTPException 422 DateInFuture))"

definition is_current_minute :: "datetime option \<Rightarrow> datetime \<Rightarrow> bool" where
  "is_current_minute v now = (case v of None \<Rightarrow> False
     | Some t \<Rightarrow> current_minute_bucket t = current_minute_bucket now)"

definition is_current_second :: "datetime option \<Rightarrow> datetime \<Rightarrow> bool" where
  "is_current_second v now = (case v of None \<Rightarrow> False
     | Some t \<Rightarrow> current_second_bucket t = current_second_bucket now)"

definition is_same_hour :: "datetime option \<Rightarrow> datetime \<Rightarrow> bool" where
  "is_same_hour v now = (case v of None \<Rightarrow> False
     | Some t \<Rightarrow> current_hour_bucket t = current_hour_bucket now)"

definition GLOBAL_FORCE_REFRESH_INTERVAL :: int where
  "GLOBAL_FORCE_REFRESH_INTERVAL = 60 * US_SECOND"

definition consume_global_force_refresh_slot ::
  "datetime \<Rightarrow> datetime option \<Rightarrow> bool \<times> datetime option" where
  \<comment> \<open>under the Redis lock: the time now, and the stored time of the last refresh\<close>
  "consume_global_force_refresh_slot now prev =
     (case prev of
        Some l \<Rightarrow> if now - l < GLOBAL_FORCE_REFRESH_INTERVAL then (False, prev) else (True, Some now)
      | None \<Rightarrow> (True, Some now))"

lemma date_start_utc_mono: "date_start_utc a \<le> date_start_utc b \<longleftrightarrow> a \<le> b"
  by (simp add: date_start_utc_def US_DAY_def)

text \<open>The local midnight of a day is the start of the window that holds each of its instants.\<close>

lemma server_today_date_start [simp]: "server_today_date (date_start_utc d) = d"
  by (simp add: server_today_date_def date_start_utc_def US_DAY_def)

lemma feedback_day_window_today:
  "fst (feedback_day_window t) = date_start_utc (server_today_date t)"
  by (simp add: feedback_day_window_def date_start_utc_def server_today_date_def Let_def
      minus_mod_eq_div_mult)

section \<open>Returns\<close>

definition calculate_return_pct :: "dec \<Rightarrow> dec option \<Rightarrow> error + int option" where
  "calculate_return_pct current_value basis_value =
     (case basis_value of None \<Rightarrow> Inr None
      | Some basis \<Rightarrow>
          if dec_le basis (Dec 0 0) then Inr None
          else liftA (bindE (dec_div (dec_sub current_value basis) basis) (\<lambda>ratio.
               bindE (display_percent (dec_mul ratio (Dec 100 0))) (\<lambda>p. Inr (Some p)))))"

section \<open>Audit trail\<close>

definition resolve_asset_mutation_actor_source :: "env \<Rightarrow> actor_source" where
  "resolve_asset_mutation_actor_source env =
     (case en_actor_source env of
        Some src \<Rightarrow> if src = USER \<and> en_user env = lit ''admin'' then SYSTEM else src
      | None \<Rightarrow> if en_user env = lit ''admin'' then SYSTEM else USER)"

definition record_asset_mutation ::
  "env \<Rightarrow> entity_type \<Rightarrow> nat option \<Rightarrow> mutation_operation \<Rightarrow> model_state option
   \<Rightarrow> model_state option \<Rightarrow> pystr option \<Rightarrow> world \<Rightarrow> world" where
  "record_asset_mutation env etype eid op before after reason w =
     w\<lparr>audits := audits w @ [\<lparr>au_user = en_user env, au_actor_user = en_user env,
        au_actor_source = resolve_asset_mutation_actor_source env,
        au_api_key_name = en_api_key_name env, au_agent_name = en_agent_name env,
        au_agent_task_id = en_agent_task_id env, au_entity_type = etype, au_entity_id = eid,
        au_operation = op, au_before = before, au_after = after, au_reason = reason,
        au_created_at = en_now env\<rparr>]\<rparr>"

definition invalidate_dashboard_cache :: "pystr option \<Rightarrow> world \<Rightarrow> world" where
  "invalidate_dashboard_cache user w = (case user of
      None \<Rightarrow> w\<lparr>cached_dashboards := []\<rparr>
    | Some u \<Rightarrow> w\<lparr>cached_dashboards := removeAll u (cached_dashboards w)\<rparr>)"

definition require_admin_user :: "env \<Rightarrow> error + unit" where
  "require_admin_user env = assertE (en_user env = lit ''admin'') (HTTPException 403 AdminOnly)"

text \<open>An audit record touches no table; dropping a cached dashboard touches nothing else.\<close>

lemma record_asset_mutation_frame [simp]:
  "accounts (record_asset_mutation env et eid op b a r w) = accounts w"
  "ledger (record_asset_mutation env et eid op b a r w) = ledger w"
  "transfers (record_asset_mutation env et eid op b a r w) = transfers w"
  "holdings (record_asset_mutation env et eid op b a r w) = holdings w"
  "transactions (record_asset_mutation env et eid op b a r w) = transactions w"
  "settlements (record_asset_mutation env et eid op b a r w) = settlements w"
  "fixed_assets (record_asset_mutation env et eid op b a r w) = fixed_assets w"
  "liabilities (record_asset_mutation env et eid op b a r w) = liabilities w"
  "other_assets (record_asset_mutation env et eid op b a r w) = other_assets w"
  "sync_requests (record_asset_mutation env et eid op b a r w) = sync_requests w"
  "jobs (record_asset_mutation env et eid op b a r w) = jobs w"
  "idem_keys (record_asset_mutation env et eid op b a r w) = idem_keys w"
  "cached_dashboards (record_asset_mutation env et eid op b a r w) = cached_dashboards w"
  by (simp_all add: record_asset_mutation_def)

lemma invalidate_dashboard_cache_frame [simp]:
  "accounts (invalidate_dashboard_cache u w) = accounts w"
  "ledger (invalidate_dashboard_cache u w) = ledger w"
  "transfers (invalidate_dashboard_cache u w) = transfers w"
  "holdings (invalidate_dashboard_cache u w) = holdings w"
  "transactions (invalidate_dashboard_cache u w) = transactions w"
  "settlements (invalidate_dashboard_cache u w) = settlements w"
  "fixed_assets (invalidate_dashboard_cache u w) = fixed_assets w"
  "liabilities (invalidate_dashboard_cache u w) = liabilities w"
  "other_assets (invalidate_dashboard_cache u w) = other_assets w"
  "sync_requests (invalidate_dashboard_cache u w) = sync_requests w"
  "jobs (invalidate_dashboard_cache u w) = jobs w"
  "idem_keys (invalidate_dashboard_cache u w) = idem_keys w"
  "audits (invalidate_dashboard_cache u w) = audits w"
  by (simp_all add: invalidate_dashboard_cache_def split: option.split)

section \<open>Idempotent requests\<close>

definition load_idempotency_record ::
  "pystr \<Rightarrow> pystr \<Rightarrow> pystr \<Rightarrow> world \<Rightarrow> (nat \<times> idempotency_key) option" where
  "load_idempotency_record user scope key w =
     (case tselect (\<lambda>r. ik_user r = user \<and> ik_scope r = scope \<and> ik_key r = key) (idem_keys w) of
        [] \<Rightarrow> None | x # xs \<Rightarrow> Some x)"

definition load_idempotent_response ::
  "env \<Rightarrow> pystr \<Rightarrow> pystr option \<Rightarrow> request \<Rightarrow> world \<Rightarrow> error + stored_response option" where
  "load_idempotent_response env scope key req w =
     (case normalize_idempotency_key key of
        None \<Rightarrow> Inr None
      | Some k \<Rightarrow>
          (case load_idempotency_record (en_user env) scope k w of
             None \<Rightarrow> Inr None
           | Some (i, r) \<Rightarrow>
               if ik_request_hash r \<noteq> en_request_hash env req
               then Inl (HTTPException 409 IdempotencyMismatch)
               else Inr (Some (ik_response r))))"

definition store_idempotent_response ::
  "env \<Rightarrow> pystr \<Rightarrow> pystr option \<Rightarrow> request \<Rightarrow> stored_response \<Rightarrow> world \<Rightarrow> world" where
  "store_idempotent_response env scope key req resp w =
     (case normalize_idempotency_key key of
        None \<Rightarrow> w
      | Some k \<Rightarrow>
          (case load_idempotency_record (en_user env) scope k w of
             None \<Rightarrow> w\<lparr>idem_keys := snd (tinsert \<lparr>ik_user = en_user env, ik_scope = scope,
                ik_key = k, ik_request_hash = en_request_hash env req, ik_response = resp,
                ik_created_at = en_now env, ik_updated_at = en_now env\<rparr> (idem_keys w))\<rparr>
           | Some (i, r) \<Rightarrow> w\<lparr>idem_keys := tput i (r\<lparr>ik_request_hash := en_request_hash env req,
                ik_response := resp, ik_updated_at := en_now env\<rparr>) (idem_keys w)\<rparr>))"

lemma store_idempotent_response_frame [simp]:
  "accounts (store_idempotent_response env sc k q r w) = accounts w"
  "ledger (store_idempotent_response env sc k q r w) = ledger w"
  "transfers (store_idempotent_response env sc k q r w) = transfers w"
  "holdings (store_idempotent_response env sc k q r w) = holdings w"
  "transactions (store_idempotent_response env sc k q r w) = transactions w"
  "settlements (store_idempotent_response env sc k q r w) = settlements w"
  "fixed_assets (store_idempotent_response env sc k q r w) = fixed_assets w"
  "liabilities (store_idempotent_response env sc k q r w) = liabilities w"
  "other_assets (store_idempotent_response env sc k q r w) = other_assets w"
  "sync_requests (store_idempotent_response env sc k q r w) = sync_requests w"
  "jobs (store_idempotent_response env sc k q r w) = jobs w"
  "audits (store_idempotent_response env sc k q r w) = audits w"
  "cached_dashboards (store_idempotent_response env sc k q r w) = cached_dashboards w"
  by (simp_all add: store_idempotent_response_def split: option.split prod.split)

text \<open>A stored response is what the next load with the same key and the same request finds.\<close>

lemma load_after_store:
  assumes key: "normalize_idempotency_key key = Some k"
    and free: "load_idempotency_record (en_user env) scope k w = None"
  shows "load_idempotent_response env scope key req' (store_idempotent_response env scope key req resp w)
    = (if en_request_hash env req = en_request_hash env req' then Inr (Some resp)
       else Inl (HTTPException 409 IdempotencyMismatch))"
proof -
  from free have "tselect (\<lambda>r. ik_user r = en_user env \<and> ik_scope r = scope \<and> ik_key r = k) (idem_keys w) = []"
    by (auto simp: load_idempotency_record_def split: list.splits)
  then show ?thesis using key free
    by (simp add: load_idempotent_response_def store_idempotent_response_def
        load_idempotency_record_def tbl.select_insert)
qed

end
