(* ===== verification/Holding_State.thy ===== *)
theory Holding_State
  imports Common_Service "HOL-Library.Multiset"
begin

text \<open>
  Model of \<^verbatim>\<open>backend/app/services/holding_projection_parts/common.py\<close> and \<^verbatim>\<open>state.py\<close>: a
  holding is projected from its transactions, replayed in a fixed order into a list of lots.
  A purchase appends a lot, an adjustment replaces all lots, a sale consumes lots first in,
  first out, and tolerates a difference of one unit (\<open>HOLDING_QUANTITY_EPSILON\<close>).
  Quantities are stored units; sums and differences of two stored quantities are exact in the
  decimal context (\<open>dec_add_fixed\<close>, \<open>dec_sub_fixed\<close>) and are written on integers, sums over
  all lots and products go through the decimal operators.
\<close>

section \<open>State and operations\<close>

record holding_lot =
  lot_quantity :: fixed
  lot_traded_on :: date
  lot_cost :: "fixed option"

record projected_state =
  ps_symbol :: pystr
  ps_name :: pystr
  ps_market :: pystr
  ps_fallback_currency :: pystr
  ps_broker :: "pystr option"
  ps_note :: "pystr option"
  ps_lots :: "holding_lot list"

abbreviation EPSILON :: fixed where
  \<comment> \<open>\<open>HOLDING_QUANTITY_EPSILON = FIXED_EPSILON\<close>, in stored units\<close>
  "EPSILON \<equiv> 1"

fun side_priority :: "side \<Rightarrow> nat" where
  "side_priority BUY = 0"
| "side_priority SELL = 1"
| "side_priority ADJUST = 2"

definition holding_transaction_event_at :: "holding_transaction \<Rightarrow> datetime" where
  "holding_transaction_event_at tx = date_start_utc (tx_traded_on tx)"

definition holding_transaction_sort_key ::
  "nat \<times> holding_transaction \<Rightarrow> datetime \<times> nat \<times> datetime \<times> nat" where
  "holding_transaction_sort_key p = (case p of (i, tx) \<Rightarrow>
     (holding_transaction_event_at tx, side_priority (tx_side tx), tx_created_at tx, i))"

definition projected_holding_quantity :: "projected_state \<Rightarrow> error + fixed" where
  "projected_holding_quantity st =
     (let qsum = dec_sum (map (of_fixed \<circ> lot_quantity) (ps_lots st)) DECIMAL_ZERO
      in if dec_le qsum FIXED_EPSILON then Inr 0 else liftA (quantize_decimal qsum))"

definition projected_holding_started_on :: "projected_state \<Rightarrow> date option" where
  "projected_holding_started_on st =
     (case ps_lots st of [] \<Rightarrow> None | l # ls \<Rightarrow> Some (fold min (map lot_traded_on ls) (lot_traded_on l)))"

fun total_cost :: "holding_lot list \<Rightarrow> dec \<Rightarrow> dec option" where
  "total_cost [] acc = Some acc"
| "total_cost (l # ls) acc = (case lot_cost l of
      None \<Rightarrow> None
    | Some c \<Rightarrow> total_cost ls (dec_add acc (dec_mul (of_fixed (lot_quantity l)) (of_fixed c))))"

definition projected_holding_cost_basis :: "projected_state \<Rightarrow> error + fixed option" where
  "projected_holding_cost_basis st =
     bindE (projected_holding_quantity st) (\<lambda>quantity.
       if quantity \<le> EPSILON then Inr None
       else (case total_cost (ps_lots st) DECIMAL_ZERO of
           None \<Rightarrow> Inr None
         | Some cost \<Rightarrow>
             if dec_le cost (Dec 0 0) then Inr None
             else liftA (bindE (dec_div cost (of_fixed quantity)) (\<lambda>c.
                  bindE (quantize_decimal c) (\<lambda>n. Inr (Some n))))))"

definition to_integral_value :: "fixed \<Rightarrow> int" where
  "to_integral_value n = half_even_div n (10 ^ 8)"

definition validate_holding_quantity_for_market :: "fixed \<Rightarrow> pystr \<Rightarrow> error + unit" where
  "validate_holding_quantity_for_market quantity market =
     (let normalized_market = py_upper (py_strip market)
      in assertE (\<not> (normalized_market \<notin> {lit ''FUND'', lit ''CRYPTO''}
            \<and> \<not> dec_eq (of_fixed quantity) (Dec (to_integral_value quantity) 0)))
          (HTTPException 422 StockQuantityNotIntegral))"

definition normalize_holding_transaction_side :: "pystr \<Rightarrow> error + side" where
  "normalize_holding_transaction_side s =
     (case map_of HOLDING_TRANSACTION_SIDES (py_upper (py_strip s)) of
        None \<Rightarrow> Inl (HTTPException 422 InvalidSide) | Some sd \<Rightarrow> Inr sd)"

fun consume_lots :: "holding_lot list \<Rightarrow> fixed \<Rightarrow> holding_lot list \<times> fixed" where
  \<comment> \<open>the loop over the lots sorted by date: the lots kept, and what remains to sell\<close>
  "consume_lots [] remaining = ([], remaining)"
| "consume_lots (lot # ls) remaining =
     (if remaining \<le> EPSILON then
        (case consume_lots ls remaining of (kept, r) \<Rightarrow> (lot # kept, r))
      else if lot_quantity lot \<le> remaining + EPSILON then
        consume_lots ls (remaining - lot_quantity lot)
      else
        (case consume_lots ls 0 of (kept, r) \<Rightarrow>
           (lot\<lparr>lot_quantity := lot_quantity lot - remaining\<rparr> # kept, r)))"

definition or_else :: "'a option \<Rightarrow> 'a option \<Rightarrow> 'a option" where
  "or_else a b = (case a of None \<Rightarrow> b | Some x \<Rightarrow> Some x)"

definition positive_price :: "fixed option \<Rightarrow> fixed option" where
  "positive_price p = (case p of None \<Rightarrow> None | Some x \<Rightarrow> if x > 0 then Some x else None)"

definition apply_holding_transaction_to_state ::
  "projected_state \<Rightarrow> holding_transaction \<Rightarrow> error + projected_state" where
  "apply_holding_transaction_to_state st tx =
     (let quantity = max (tx_quantity tx) 0
      in if quantity \<le> EPSILON then Inr st
      else (let
          st = st\<lparr>ps_name := (if tx_name tx = [] then ps_name st else tx_name tx),
                  ps_fallback_currency := normalize_currency
                    (if tx_fallback_currency tx = [] then ps_fallback_currency st
                     else tx_fallback_currency tx),
                  ps_broker := or_else (normalize_optional_text (tx_broker tx)) (ps_broker st),
                  ps_note := or_else (normalize_optional_text (tx_note tx)) (ps_note st)\<rparr>;
          new_lot = \<lparr>lot_quantity = quantity, lot_traded_on = tx_traded_on tx,
                     lot_cost = positive_price (tx_price tx)\<rparr>
        in case tx_side tx of
             ADJUST \<Rightarrow> Inr (st\<lparr>ps_lots := [new_lot]\<rparr>)
           | BUY \<Rightarrow> Inr (st\<lparr>ps_lots := ps_lots st @ [new_lot]\<rparr>)
           | SELL \<Rightarrow>
               (case consume_lots (sort_key lot_traded_on (ps_lots st)) quantity of
                  (next_lots, remaining) \<Rightarrow>
                    if remaining > EPSILON then Inl (HTTPException 422 InsufficientQuantity)
                    else Inr (st\<lparr>ps_lots := next_lots\<rparr>))))"

definition initial_projected_state ::
  "pystr \<Rightarrow> pystr \<Rightarrow> holding_transaction \<Rightarrow> projected_state" where
  "initial_projected_state symbol market f =
     \<lparr>ps_symbol = symbol, ps_name = tx_name f, ps_market = market,
      ps_fallback_currency = tx_fallback_currency f, ps_broker = tx_broker f,
      ps_note = tx_note f, ps_lots = []\<rparr>"

definition project_holding_state_from_sorted_transactions ::
  "(nat \<times> holding_transaction) list \<Rightarrow> pystr \<Rightarrow> pystr \<Rightarrow> error + projected_state option" where
  "project_holding_state_from_sorted_transactions txs symbol market =
     (case sort_key holding_transaction_sort_key txs of
        [] \<Rightarrow> Inr None
      | (i, f) # rest \<Rightarrow>
          bindE (foldE (\<lambda>(j, tx) st. apply_holding_transaction_to_state st tx) ((i, f) # rest)
                   (initial_projected_state symbol market f)) (\<lambda>st.
          bindE (projected_holding_quantity st) (\<lambda>q.
            if q \<le> EPSILON then Inr None else Inr (Some st))))"

section \<open>First in, first out\<close>

definition lots_total :: "holding_lot list \<Rightarrow> fixed" where
  "lots_total ls = sum_list (map lot_quantity ls)"

definition lots_positive :: "holding_lot list \<Rightarrow> bool" where
  "lots_positive ls \<longleftrightarrow> (\<forall>l \<in> set ls. 0 < lot_quantity l)"

lemma lots_total_simps [simp]:
  "lots_total [] = 0" "lots_total (l # ls) = lot_quantity l + lots_total ls"
  "lots_total (ks @ ls) = lots_total ks + lots_total ls"
  by (simp_all add: lots_total_def)

lemma lots_total_sort [simp]: "lots_total (sort_key f ls) = lots_total ls"
  unfolding lots_total_def by (metis mset_map mset_sort sum_mset_sum_list)

lemma lots_positive_simps [simp]:
  "lots_positive []" "lots_positive (l # ls) \<longleftrightarrow> 0 < lot_quantity l \<and> lots_positive ls"
  "lots_positive (ks @ ls) \<longleftrightarrow> lots_positive ks \<and> lots_positive ls"
  "lots_positive (sort_key f ls) \<longleftrightarrow> lots_positive ls"
  by (auto simp: lots_positive_def)

lemma lots_positive_total: "lots_positive ls \<Longrightarrow> 0 \<le> lots_total ls"
  by (induction ls) auto

text \<open>Selling moves units out of the lots and nowhere else.\<close>

lemma consume_lots_conserves:
  "consume_lots ls q = (kept, r) \<Longrightarrow> lots_total kept - r = lots_total ls - q"
  by (induction ls q arbitrary: kept r rule: consume_lots.induct)
    (auto split: if_splits prod.splits)

lemma consume_lots_remaining_lower:
  "consume_lots ls q = (kept, r) \<Longrightarrow> - EPSILON \<le> q \<Longrightarrow> - EPSILON \<le> r"
  by (induction ls q arbitrary: kept r rule: consume_lots.induct)
    (auto split: if_splits prod.splits)

lemma consume_lots_settled: "q \<le> EPSILON \<Longrightarrow> consume_lots ls q = (ls, q)"
  by (induction ls) simp_all

lemma consume_lots_positive:
  "consume_lots ls q = (kept, r) \<Longrightarrow> lots_positive ls \<Longrightarrow> lots_positive kept"
  by (induction ls q arbitrary: kept r rule: consume_lots.induct)
    (auto split: if_splits prod.splits)

lemma consume_lots_short:
  "consume_lots ls q = (kept, r) \<Longrightarrow> EPSILON < r \<Longrightarrow> kept = []"
  by (induction ls q arbitrary: kept r rule: consume_lots.induct)
    (auto simp: consume_lots_settled split: if_splits prod.splits)

lemma consume_lots_fails_iff:
  assumes "consume_lots ls q = (kept, r)" and "lots_positive ls"
  shows "EPSILON < r \<longleftrightarrow> lots_total ls + EPSILON < q"
proof
  assume "EPSILON < r"
  with assms show "lots_total ls + EPSILON < q"
    using consume_lots_short consume_lots_conserves by fastforce
next
  assume "lots_total ls + EPSILON < q"
  moreover have "0 \<le> lots_total kept"
    using consume_lots_positive [OF assms] by (rule lots_positive_total)
  ultimately show "EPSILON < r" using consume_lots_conserves [OF assms(1)] by simp
qed

text \<open>
  What is kept is an end of the list: whole lots are consumed from the front, and at most
  the first kept lot is reduced.
\<close>

lemma consume_lots_fifo:
  "consume_lots ls q = (kept, r) \<Longrightarrow>
   \<exists>n. kept = drop n ls \<or> (n < length ls \<and> kept \<noteq> [] \<and> tl kept = drop (Suc n) ls
        \<and> hd kept = (ls ! n)\<lparr>lot_quantity := lot_quantity (hd kept)\<rparr>
        \<and> lot_quantity (hd kept) < lot_quantity (ls ! n))"
proof (induction ls q arbitrary: kept r rule: consume_lots.induct)
  case (1 q)
  then show ?case by simp
next
  case (2 lot ls q)
  show ?case
  proof (cases "q \<le> EPSILON")
    case True
    with "2.prems" have "kept = lot # ls"
      using consume_lots_settled [of q ls] by simp
    then have "kept = drop 0 (lot # ls)" by simp
    then show ?thesis by blast
  next
    case False
    show ?thesis
    proof (cases "lot_quantity lot \<le> q + EPSILON")
      case True
      with False "2.prems" have "consume_lots ls (q - lot_quantity lot) = (kept, r)" by simp
      from "2.IH"(2) [OF False True this] obtain n where
        "kept = drop n ls \<or> (n < length ls \<and> kept \<noteq> [] \<and> tl kept = drop (Suc n) ls
        \<and> hd kept = (ls ! n)\<lparr>lot_quantity := lot_quantity (hd kept)\<rparr>
        \<and> lot_quantity (hd kept) < lot_quantity (ls ! n))" by blast
      then show ?thesis by (intro exI [of _ "Suc n"]) auto
    next
      case big: False
      with False "2.prems" have "kept = lot\<lparr>lot_quantity := lot_quantity lot - q\<rparr> # ls"
        using consume_lots_settled [of 0 ls] by simp
      with False show ?thesis by (intro exI [of _ 0]) auto
    qed
  qed
qed

section \<open>Replaying transactions\<close>

lemma apply_skip [simp]:
  "tx_quantity tx \<le> EPSILON \<Longrightarrow> apply_holding_transaction_to_state st tx = Inr st"
  by (simp add: apply_holding_transaction_to_state_def max_def)

lemma apply_buy:
  "EPSILON < tx_quantity tx \<Longrightarrow> tx_side tx = BUY \<Longrightarrow>
   \<exists>st'. apply_holding_transaction_to_state st tx = Inr st'
     \<and> ps_lots st' = ps_lots st @ [\<lparr>lot_quantity = tx_quantity tx, lot_traded_on = tx_traded_on tx,
          lot_cost = positive_price (tx_price tx)\<rparr>]"
  by (simp add: apply_holding_transaction_to_state_def max_def Let_def)

lemma apply_adjust:
  "EPSILON < tx_quantity tx \<Longrightarrow> tx_side tx = ADJUST \<Longrightarrow>
   \<exists>st'. apply_holding_transaction_to_state st tx = Inr st'
     \<and> ps_lots st' = [\<lparr>lot_quantity = tx_quantity tx, lot_traded_on = tx_traded_on tx,
          lot_cost = positive_price (tx_price tx)\<rparr>]"
  by (simp add: apply_holding_transaction_to_state_def max_def Let_def)

lemma apply_sell:
  assumes "EPSILON < tx_quantity tx" "tx_side tx = SELL"
    "consume_lots (sort_key lot_traded_on (ps_lots st)) (tx_quantity tx) = (kept, r)"
  shows "if EPSILON < r
    then apply_holding_transaction_to_state st tx = Inl (HTTPException 422 InsufficientQuantity)
    else \<exists>st'. apply_holding_transaction_to_state st tx = Inr st' \<and> ps_lots st' = kept"
  using assms by (simp add: apply_holding_transaction_to_state_def max_def Let_def)

lemma apply_positive:
  assumes "apply_holding_transaction_to_state st tx = Inr st'" "lots_positive (ps_lots st)"
  shows "lots_positive (ps_lots st')"
proof (cases "tx_quantity tx \<le> EPSILON")
  case True
  with assms show ?thesis by simp
next
  case big: False
  show ?thesis
  proof (cases "tx_side tx")
    case SELL
    obtain kept r where c: "consume_lots (sort_key lot_traded_on (ps_lots st)) (tx_quantity tx) = (kept, r)"
      by fastforce
    have "lots_positive kept" using consume_lots_positive [OF c] assms(2) by simp
    with apply_sell [OF _ SELL c] big assms(1) show ?thesis by (auto split: if_splits)
  qed (use apply_buy [of tx st] apply_adjust [of tx st] big assms in auto)
qed

text \<open>
  The abstract account of a holding: how many units its transactions leave. A sale may
  settle one unit off; every other transaction is exact.
\<close>

fun net_units_step :: "holding_transaction \<Rightarrow> fixed \<Rightarrow> fixed" where
  "net_units_step tx n =
     (if tx_quantity tx \<le> EPSILON then n
      else case tx_side tx of ADJUST \<Rightarrow> tx_quantity tx | BUY \<Rightarrow> n + tx_quantity tx
        | SELL \<Rightarrow> n - tx_quantity tx)"

definition net_units :: "holding_transaction list \<Rightarrow> fixed" where
  "net_units txs = fold net_units_step txs 0"

definition sale_count :: "holding_transaction list \<Rightarrow> nat" where
  "sale_count txs = length (filter (\<lambda>tx. tx_side tx = SELL) txs)"

lemma apply_units:
  assumes a: "apply_holding_transaction_to_state st tx = Inr st'" and pos: "lots_positive (ps_lots st)"
  shows "\<bar>lots_total (ps_lots st') - net_units_step tx (lots_total (ps_lots st))\<bar>
    \<le> (if tx_side tx = SELL then EPSILON else 0)"
proof (cases "tx_quantity tx \<le> EPSILON")
  case True
  with a show ?thesis by simp
next
  case big: False
  show ?thesis
  proof (cases "tx_side tx")
    case SELL
    obtain kept r where c: "consume_lots (sort_key lot_traded_on (ps_lots st)) (tx_quantity tx) = (kept, r)"
      by fastforce
    from apply_sell [OF _ SELL c] big a have "r \<le> EPSILON" "ps_lots st' = kept"
      by (auto split: if_splits)
    moreover have "- EPSILON \<le> r" using consume_lots_remaining_lower [OF c] big by simp
    ultimately show ?thesis using consume_lots_conserves [OF c] SELL big by simp
  qed (use apply_buy [of tx st] apply_adjust [of tx st] big a in auto)
qed

lemma replay_units:
  assumes "foldE (\<lambda>(j, tx) st. apply_holding_transaction_to_state st tx) txs st = Inr st'"
    and "lots_positive (ps_lots st)" and "\<bar>lots_total (ps_lots st) - n\<bar> \<le> int k"
  shows "lots_positive (ps_lots st') \<and>
    \<bar>lots_total (ps_lots st') - fold net_units_step (map snd txs) n\<bar>
      \<le> int (k + sale_count (map snd txs))"
  using assms
proof (induction txs arbitrary: st n k)
  case Nil
  then show ?case by (simp add: sale_count_def)
next
  case (Cons p txs)
  obtain j tx where p: "p = (j, tx)" by (cases p)
  from Cons.prems(1) p obtain st1 where
    s1: "apply_holding_transaction_to_state st tx = Inr st1" and
    rest: "foldE (\<lambda>(j, tx) st. apply_holding_transaction_to_state st tx) txs st1 = Inr st'"
    by (auto simp: bindE_eq_Inr)
  let ?k = "k + (if tx_side tx = SELL then 1 else 0)"
  have "\<bar>net_units_step tx (lots_total (ps_lots st)) - net_units_step tx n\<bar> \<le> int k"
    using Cons.prems(3) by (auto split: side.split)
  with apply_units [OF s1 Cons.prems(2)]
  have "\<bar>lots_total (ps_lots st1) - net_units_step tx n\<bar> \<le> int ?k" by (auto split: if_splits)
  from Cons.IH [OF rest apply_positive [OF s1 Cons.prems(2)] this] p show ?case
    by (auto simp: sale_count_def split: if_splits)
qed

text \<open>The order in which the database returns the rows does not matter.\<close>

lemma sort_key_inj: "inj_on holding_transaction_sort_key (set txs)" if "distinct (map fst txs)"
proof (rule inj_onI)
  fix p q assume "p \<in> set txs" "q \<in> set txs"
    "holding_transaction_sort_key p = holding_transaction_sort_key q"
  then show "p = q" using that
    by (auto simp: holding_transaction_sort_key_def eq_key_imp_eq_value split: prod.splits)
qed

lemma sort_transactions_perm:
  assumes "mset txs = mset txs'" "distinct (map fst txs)"
  shows "sort_key holding_transaction_sort_key txs = sort_key holding_transaction_sort_key txs'"
  using assms sort_key_inj by (intro sort_key_inj_key_eq) auto

lemma projected_quantity_exact:
  assumes "lots_positive (ps_lots st)" "lots_total (ps_lots st) < 10 ^ PREC"
  shows "projected_holding_quantity st =
    Inr (if lots_total (ps_lots st) \<le> EPSILON then 0 else lots_total (ps_lots st))"
proof -
  let ?qs = "map lot_quantity (ps_lots st)"
  have abs: "map abs ?qs = ?qs"
    using assms(1) by (auto simp: lots_positive_def)
  then have small: "sum_list (map abs ?qs) < 10 ^ PREC"
    using assms(2) by (simp only: abs lots_total_def)
  show ?thesis
  proof (cases "?qs")
    case Nil
    then show ?thesis
      by (simp add: projected_holding_quantity_def dec_le_def DECIMAL_ZERO_def FIXED_EPSILON_def scale_to_def)
  next
    case (Cons y ys)
    with small have b: "\<bar>y\<bar> + sum_list (map abs ys) < 10 ^ PREC" by simp
    with sum_list_abs_nonneg [of ys] have "\<bar>y\<bar> < 10 ^ PREC" by simp
    with dec_sum_fixed_from [OF b] Cons
    have s: "dec_sum (map of_fixed ?qs) DECIMAL_ZERO = of_fixed (lots_total (ps_lots st))"
      by (simp only: lots_total_def) (simp add: dec_add_zero_fixed)
    moreover have "\<bar>lots_total (ps_lots st)\<bar> < 10 ^ PREC"
      using assms lots_positive_total by fastforce
    ultimately show ?thesis
      by (simp add: projected_holding_quantity_def FIXED_EPSILON_fixed quantize_decimal_fixed
          flip: map_map)
  qed
qed

end
