(* ===== verification/Cash_Ledger.thy ===== *)
theory Cash_Ledger
  imports Holding_State
begin

text \<open>
  Model of \<^verbatim>\<open>backend/app/services/holding_projection_parts/cash_ledger.py\<close>: the ledger of a
  cash account, and the balance column that is derived from it. An account object of the
  source is its row in the table \<open>accounts\<close>; an operation takes the account's id and reads the
  row. The second half proves what keeps the balance equal to the ledger: \<open>bal w S\<close> says
  that every account outside \<open>S\<close> shows the sum of its entries, and each operation is given
  by its effect on \<open>S\<close>.
\<close>

section \<open>Operations\<close>

definition prepend_note_entry :: "pystr option \<Rightarrow> pystr \<Rightarrow> pystr" where
  "prepend_note_entry existing_note entry =
     (let normalized_existing = normalize_optional_text existing_note;
          normalized_entry = py_strip entry;
          combined_note = (case normalized_existing of None \<Rightarrow> normalized_entry
            | Some n \<Rightarrow> normalized_entry @ [10] @ n)
      in if length combined_note \<le> 500 then combined_note
         else py_rstrip (take 497 combined_note) @ lit ''...'')"

definition ONE_RATE :: fixed where
  "ONE_RATE = 10 ^ 8"

definition convert_cash_amount_between_currencies ::
  "env \<Rightarrow> fixed \<Rightarrow> pystr \<Rightarrow> pystr \<Rightarrow> error + fixed \<times> fixed" where
  "convert_cash_amount_between_currencies env amount from_currency to_currency =
     (let source_currency = normalize_currency from_currency;
          target_currency = normalize_currency to_currency
      in if source_currency = target_currency
         then bindE (liftA (quantize_decimal (of_fixed amount))) (\<lambda>n. Inr (n, ONE_RATE))
         else (case en_fx_rate env source_currency target_currency of
             None \<Rightarrow> Inl (HTTPException 422 FxUnavailable)
           | Some rate \<Rightarrow>
               bindE (liftA (quantize_decimal rate)) (\<lambda>normalized_rate.
               bindE (liftA (quantize_decimal (dec_mul (of_fixed amount) (of_fixed normalized_rate))))
                 (\<lambda>n. Inr (n, normalized_rate)))))"

definition ledger_order :: "nat \<times> ledger_entry \<Rightarrow> date \<times> datetime \<times> nat" where
  "ledger_order p = (le_happened_on (snd p), le_created_at (snd p), fst p)"

definition list_cash_ledger_entries_for_account ::
  "world \<Rightarrow> pystr \<Rightarrow> nat \<Rightarrow> (nat \<times> ledger_entry) list" where
  "list_cash_ledger_entries_for_account w user account =
     sort_key ledger_order (tselect (\<lambda>e. le_user e = user \<and> le_account e = account) (ledger w))"

definition get_cash_account_initial_ledger_entry ::
  "world \<Rightarrow> pystr \<Rightarrow> nat \<Rightarrow> (nat \<times> ledger_entry) option" where
  "get_cash_account_initial_ledger_entry w user account =
     (case sort_key (\<lambda>p. (le_created_at (snd p), fst p))
        (tselect (\<lambda>e. le_user e = user \<and> le_account e = account \<and> le_type e = INITIAL_BALANCE
            \<and> le_transaction e = None \<and> le_transfer e = None) (ledger w)) of
        [] \<Rightarrow> None | p # ps \<Rightarrow> Some p)"

definition sum_cash_account_ledger_balance ::
  "world \<Rightarrow> pystr \<Rightarrow> nat \<Rightarrow> nat option \<Rightarrow> error + fixed" where
  "sum_cash_account_ledger_balance w user account exclude_entry_id =
     liftA (quantize_decimal (dec_sum
       (map (\<lambda>(i, e). of_fixed (le_amount e))
         (filter (\<lambda>(i, e). \<not> (exclude_entry_id \<noteq> None \<and> Some i = exclude_entry_id))
           (list_cash_ledger_entries_for_account w user account))) DECIMAL_ZERO))"

definition sync_cash_account_balance_from_ledger :: "env \<Rightarrow> nat \<Rightarrow> world \<Rightarrow> error + world" where
  "sync_cash_account_balance_from_ledger env account_id w =
     (case tget (accounts w) account_id of
        None \<Rightarrow> Inl StaleDataError
      | Some a \<Rightarrow>
          bindE (sum_cash_account_ledger_balance w (ca_user a) account_id None) (\<lambda>total_balance.
          bindE (numeric_column total_balance) (\<lambda>b.
          Inr (w\<lparr>accounts := tput account_id (a\<lparr>ca_balance := b, ca_updated_at := en_now env\<rparr>)
                 (accounts w)\<rparr>))))"

definition create_cash_ledger_entry ::
  "env \<Rightarrow> pystr \<Rightarrow> nat \<Rightarrow> entry_type \<Rightarrow> fixed \<Rightarrow> pystr \<Rightarrow> date \<Rightarrow> pystr option
   \<Rightarrow> nat option \<Rightarrow> nat option \<Rightarrow> world \<Rightarrow> error + nat \<times> world" where
  "create_cash_ledger_entry env user account_id etype amount currency happened_on note
       transaction_id transfer_id w =
     bindE (liftA (quantize_decimal (of_fixed amount))) (\<lambda>n.
     bindE (numeric_column n) (\<lambda>n.
       let entry = \<lparr>le_user = user, le_account = account_id, le_type = etype, le_amount = n,
             le_currency = normalize_currency currency, le_happened_on = happened_on,
             le_note = normalize_optional_text note, le_transaction = transaction_id,
             le_transfer = transfer_id, le_created_at = en_now env, le_updated_at = en_now env\<rparr>;
           res = tinsert entry (ledger w)
       in Inr (fst res, w\<lparr>ledger := snd res\<rparr>)))"

definition initial_balance_note :: pystr where
  "initial_balance_note = [36134, 25143, 21021, 22987, 20313, 39069]"

definition initial_entry_row ::
  "env \<Rightarrow> nat \<Rightarrow> cash_account \<Rightarrow> ledger_entry option \<Rightarrow> fixed \<Rightarrow> ledger_entry" where
  \<comment> \<open>the initial entry of an account, new or rewritten\<close>
  "initial_entry_row env account_id a existing required =
     (let started_on = (case ca_started_on a of Some d \<Rightarrow> d | None \<Rightarrow> utc_date (ca_created_at a))
      in case existing of
           None \<Rightarrow> \<lparr>le_user = ca_user a, le_account = account_id,
               le_type = INITIAL_BALANCE, le_amount = required,
               le_currency = normalize_currency (ca_currency a), le_happened_on = started_on,
               le_note = Some initial_balance_note, le_transaction = None, le_transfer = None,
               le_created_at = en_now env, le_updated_at = en_now env\<rparr>
         | Some e \<Rightarrow> e\<lparr>le_amount := required,
               le_currency := normalize_currency (ca_currency a), le_happened_on := started_on,
               le_note := Some initial_balance_note, le_updated_at := en_now env\<rparr>)"

definition reconcile_cash_account_initial_ledger_entry ::
  "env \<Rightarrow> nat \<Rightarrow> fixed \<Rightarrow> world \<Rightarrow> error + world" where
  "reconcile_cash_account_initial_ledger_entry env account_id target_balance w =
     (case tget (accounts w) account_id of
        None \<Rightarrow> Inl StaleDataError
      | Some a \<Rightarrow>
        (let initial = get_cash_account_initial_ledger_entry w (ca_user a) account_id in
         bindE (sum_cash_account_ledger_balance w (ca_user a) account_id (map_option fst initial))
           (\<lambda>non_initial_total.
         bindE (liftA (quantize_decimal
             (dec_sub (of_fixed target_balance) (of_fixed non_initial_total)))) (\<lambda>required.
         bindE (numeric_column required) (\<lambda>required.
         let row = initial_entry_row env account_id a (map_option snd initial) required;
             ledger' = (case initial of
               None \<Rightarrow> snd (tinsert row (ledger w))
             | Some (i, e) \<Rightarrow> tput i row (ledger w))
         in sync_cash_account_balance_from_ledger env account_id (w\<lparr>ledger := ledger'\<rparr>))))))"

definition delete_cash_ledger_entries_for_holding_transaction ::
  "pystr \<Rightarrow> nat \<Rightarrow> world \<Rightarrow> world" where
  "delete_cash_ledger_entries_for_holding_transaction user transaction_id w =
     w\<lparr>ledger := tdel_ids (map fst (tselect (\<lambda>e. le_user e = user
         \<and> le_transaction e = Some transaction_id) (ledger w))) (ledger w)\<rparr>"

definition delete_cash_ledger_entries_for_transfer :: "pystr \<Rightarrow> nat \<Rightarrow> world \<Rightarrow> world" where
  "delete_cash_ledger_entries_for_transfer user transfer_id w =
     w\<lparr>ledger := tdel_ids (map fst (tselect (\<lambda>e. le_user e = user
         \<and> le_transfer e = Some transfer_id) (ledger w))) (ledger w)\<rparr>"

definition get_manual_cash_ledger_adjustment ::
  "world \<Rightarrow> pystr \<Rightarrow> nat \<Rightarrow> error + ledger_entry" where
  "get_manual_cash_ledger_adjustment w user entry_id =
     (case tget (ledger w) entry_id of
        None \<Rightarrow> Inl (HTTPException 404 AdjustmentNotFound)
      | Some e \<Rightarrow>
          if le_user e \<noteq> user then Inl (HTTPException 404 AdjustmentNotFound)
          else if le_type e \<noteq> MANUAL_ADJUSTMENT then Inl (HTTPException 422 OnlyManualAdjustments)
          else if le_transaction e \<noteq> None \<or> le_transfer e \<noteq> None
            then Inl (HTTPException 422 SystemGeneratedEntry)
          else Inr e)"

section \<open>The balance follows the ledger\<close>

definition ledger_sum :: "world \<Rightarrow> pystr \<Rightarrow> nat \<Rightarrow> error + fixed" where
  "ledger_sum w user account = sum_cash_account_ledger_balance w user account None"

definition account_balanced :: "world \<Rightarrow> nat \<Rightarrow> bool" where
  "account_balanced w i \<longleftrightarrow>
     (\<forall>a. tget (accounts w) i = Some a \<longrightarrow> ledger_sum w (ca_user a) i = Inr (ca_balance a))"

definition bal :: "world \<Rightarrow> nat set \<Rightarrow> bool" where
  "bal w S \<longleftrightarrow> twf (accounts w) \<and> twf (ledger w) \<and> (\<forall>i. i \<notin> S \<longrightarrow> account_balanced w i)"

text \<open>The sum only reads the account's own entries.\<close>

definition entries_of :: "world \<Rightarrow> pystr \<Rightarrow> nat \<Rightarrow> (nat \<times> ledger_entry) list" where
  "entries_of w user account = tselect (\<lambda>e. le_user e = user \<and> le_account e = account) (ledger w)"

lemma ledger_sum_entries:
  "ledger_sum w user account = liftA (quantize_decimal (dec_sum
     (map (\<lambda>(i, e). of_fixed (le_amount e)) (sort_key ledger_order (entries_of w user account)))
     DECIMAL_ZERO))"
  by (simp add: ledger_sum_def sum_cash_account_ledger_balance_def
      list_cash_ledger_entries_for_account_def entries_of_def)

lemma ledger_sum_cong:
  "entries_of w' user account = entries_of w user account \<Longrightarrow>
   ledger_sum w' user account = ledger_sum w user account"
  by (simp add: ledger_sum_entries)

lemma bal_mono: "bal w S \<Longrightarrow> S \<subseteq> T \<Longrightarrow> bal w T"
  by (auto simp: bal_def)

lemma bal_wf: "bal w S \<Longrightarrow> twf (accounts w) \<and> twf (ledger w)"
  by (simp add: bal_def)

lemma balD: "bal w {} \<Longrightarrow> tget (accounts w) i = Some a \<Longrightarrow> ledger_sum w (ca_user a) i = Inr (ca_balance a)"
  by (auto simp: bal_def account_balanced_def)

text \<open>Nothing but the tables \<open>accounts\<close> and \<open>ledger\<close> matters.\<close>

lemma bal_frame:
  "accounts w' = accounts w \<Longrightarrow> ledger w' = ledger w \<Longrightarrow> bal w' S = bal w S"
  by (simp add: bal_def account_balanced_def ledger_sum_entries entries_of_def)

text \<open>A change of the ledger that keeps the entries of every account outside \<open>T\<close>.\<close>

lemma bal_ledger_change:
  assumes "bal w S" "accounts w' = accounts w" "twf (ledger w')"
    and "\<And>u i. i \<notin> T \<Longrightarrow> entries_of w' u i = entries_of w u i"
  shows "bal w' (S \<union> T)"
proof -
  have "ledger_sum w' u i = ledger_sum w u i" if "i \<notin> T" for u i
    by (rule ledger_sum_cong [OF assms(4) [OF that]])
  with assms(1-3) show ?thesis by (simp add: bal_def account_balanced_def)
qed

text \<open>A change of one account that keeps its owner and, unless it is in \<open>S\<close>, its balance.\<close>

lemma bal_account_change:
  assumes "bal w S" "tget (accounts w) i = Some a" "ca_user a' = ca_user a"
    and "i \<in> S \<or> ca_balance a' = ca_balance a"
  shows "bal (w\<lparr>accounts := tput i a' (accounts w)\<rparr>) S"
proof -
  have sums: "ledger_sum (w\<lparr>accounts := tput i a' (accounts w)\<rparr>) u j = ledger_sum w u j" for u j
    by (simp add: ledger_sum_entries entries_of_def)
  from assms(1) have wf: "twf (accounts w)" "twf (ledger w)"
    and old: "\<And>j b. j \<notin> S \<Longrightarrow> tget (accounts w) j = Some b \<Longrightarrow>
      ledger_sum w (ca_user b) j = Inr (ca_balance b)"
    by (auto simp: bal_def account_balanced_def)
  have "account_balanced (w\<lparr>accounts := tput i a' (accounts w)\<rparr>) j" if j: "j \<notin> S" for j
  proof (cases "j = i")
    case True
    with j assms(3,4) old [OF j, of a] assms(2) show ?thesis
      by (simp add: account_balanced_def sums tbl.get_put)
  next
    case False
    with old [OF j] show ?thesis by (simp add: account_balanced_def sums tbl.get_put)
  qed
  with wf show ?thesis by (simp add: bal_def)
qed

lemma bal_account_delete:
  assumes "bal w S"
  shows "bal (w\<lparr>accounts := tdel i (accounts w)\<rparr>) (S - {i})"
proof -
  have sums: "ledger_sum (w\<lparr>accounts := tdel i (accounts w)\<rparr>) u j = ledger_sum w u j" for u j
    by (simp add: ledger_sum_entries entries_of_def)
  from assms show ?thesis
    by (auto simp: bal_def account_balanced_def sums tbl.get_del)
qed

lemma bal_account_insert:
  assumes "bal w S"
  shows "bal (w\<lparr>accounts := snd (tinsert a (accounts w))\<rparr>) (insert (fst (tinsert a (accounts w))) S)"
proof -
  have sums: "ledger_sum (w\<lparr>accounts := snd (tinsert a (accounts w))\<rparr>) u j = ledger_sum w u j" for u j
    by (simp add: ledger_sum_entries entries_of_def)
  from assms show ?thesis
    by (auto simp: bal_def account_balanced_def sums tbl.get_insert)
qed

section \<open>What each operation does to the balances\<close>

text \<open>Synchronising an account restores its balance and touches no other account.\<close>

lemma sync_result:
  assumes "sync_cash_account_balance_from_ledger env i w = Inr w'"
  obtains a b where "tget (accounts w) i = Some a" "ledger_sum w (ca_user a) i = Inr b" "fits_numeric b"
    "w' = w\<lparr>accounts := tput i (a\<lparr>ca_balance := b, ca_updated_at := en_now env\<rparr>) (accounts w)\<rparr>"
  using assms
  by (auto simp: sync_cash_account_balance_from_ledger_def bindE_eq_Inr ledger_sum_def
      split: option.splits)

lemma sync_bal:
  assumes "bal w S"
  shows "okp (sync_cash_account_balance_from_ledger env i w) (\<lambda>w'. bal w' (S - {i}))"
proof (rule okpI)
  fix w' assume "sync_cash_account_balance_from_ledger env i w = Inr w'"
  then obtain a b where a: "tget (accounts w) i = Some a" "ledger_sum w (ca_user a) i = Inr b"
    and w': "w' = w\<lparr>accounts := tput i (a\<lparr>ca_balance := b, ca_updated_at := en_now env\<rparr>) (accounts w)\<rparr>"
    by (rule sync_result)
  have "bal w' (insert i S)"
    unfolding w' by (rule bal_account_change [OF bal_mono [OF assms] a(1)]) auto
  moreover have "account_balanced w' i"
    using a by (simp add: account_balanced_def w' tbl.get_put ledger_sum_entries entries_of_def)
  ultimately show "bal w' (S - {i})" by (auto simp: bal_def)
qed

lemma sync_frame:
  "okp (sync_cash_account_balance_from_ledger env i w) (\<lambda>w'.
     \<exists>a b. tget (accounts w) i = Some a \<and> ledger_sum w (ca_user a) i = Inr b \<and>
       w' = w\<lparr>accounts := tput i (a\<lparr>ca_balance := b, ca_updated_at := en_now env\<rparr>) (accounts w)\<rparr>)"
  by (rule okpI, erule sync_result) blast

lemma create_entry_result:
  assumes "create_cash_ledger_entry env user i etype amount currency happened_on note tid trid w = Inr (k, w')"
  obtains e where "w' = w\<lparr>ledger := snd (tinsert e (ledger w))\<rparr>" "k = fst (tinsert e (ledger w))"
    "le_user e = user" "le_account e = i" "le_type e = etype" "le_amount e = amount"
    "le_currency e = normalize_currency currency" "le_transaction e = tid" "le_transfer e = trid"
    "le_happened_on e = happened_on" "fits_numeric amount"
proof -
  from assms obtain n where q: "quantize_decimal (of_fixed amount) = Inr n" and "fits_numeric n"
    and "k = fst (tinsert \<lparr>le_user = user, le_account = i, le_type = etype, le_amount = n,
             le_currency = normalize_currency currency, le_happened_on = happened_on,
             le_note = normalize_optional_text note, le_transaction = tid,
             le_transfer = trid, le_created_at = en_now env, le_updated_at = en_now env\<rparr> (ledger w))"
    and "w' = w\<lparr>ledger := snd (tinsert \<lparr>le_user = user, le_account = i, le_type = etype, le_amount = n,
             le_currency = normalize_currency currency, le_happened_on = happened_on,
             le_note = normalize_optional_text note, le_transaction = tid,
             le_transfer = trid, le_created_at = en_now env, le_updated_at = en_now env\<rparr> (ledger w))\<rparr>"
    by (auto simp: create_cash_ledger_entry_def bindE_eq_Inr Let_def)
  moreover from q have "n = amount" by (simp add: quantize_decimal_fixed split: if_splits)
  ultimately show ?thesis using that by simp
qed

lemma entries_of_insert:
  "entries_of (w\<lparr>ledger := snd (tinsert e (ledger w))\<rparr>) u i =
     entries_of w u i @ (if le_user e = u \<and> le_account e = i then [(fst (tinsert e (ledger w)), e)] else [])"
  by (simp add: entries_of_def tbl.select_insert)

lemma create_entry_bal:
  assumes "bal w S"
  shows "okp (create_cash_ledger_entry env user i etype amount currency happened_on note tid trid w)
    (\<lambda>(k, w'). bal w' (insert i S))"
proof (rule okpI, clarify)
  fix k w' assume "create_cash_ledger_entry env user i etype amount currency happened_on note tid trid w = Inr (k, w')"
  then obtain e where w': "w' = w\<lparr>ledger := snd (tinsert e (ledger w))\<rparr>" and e: "le_account e = i"
    by (rule create_entry_result)
  have "bal w' (S \<union> {i})"
    by (rule bal_ledger_change [OF assms])
      (use assms e in \<open>auto simp: w' entries_of_insert bal_def\<close>)
  then show "bal w' (insert i S)" by simp
qed

text \<open>Replacing an entry by one of the same account.\<close>

lemma entry_change_bal:
  assumes "bal w S" "tget (ledger w) k = Some e" "le_user e' = le_user e" "le_account e' = le_account e"
  shows "bal (w\<lparr>ledger := tput k e' (ledger w)\<rparr>) (insert (le_account e) S)"
proof -
  have "bal (w\<lparr>ledger := tput k e' (ledger w)\<rparr>) (S \<union> {le_account e})"
  proof (rule bal_ledger_change [OF assms(1)])
    show "twf (ledger (w\<lparr>ledger := tput k e' (ledger w)\<rparr>))" using assms(1) by (simp add: bal_def)
    fix u i assume "i \<notin> {le_account e}"
    with assms show "entries_of (w\<lparr>ledger := tput k e' (ledger w)\<rparr>) u i = entries_of w u i"
      by (auto simp: entries_of_def bal_def intro!: tbl.select_put_frame)
  qed simp
  then show ?thesis by simp
qed

lemma entry_delete_bal:
  assumes "bal w S" "tget (ledger w) k = Some e"
  shows "bal (w\<lparr>ledger := tdel k (ledger w)\<rparr>) (insert (le_account e) S)"
proof -
  have "bal (w\<lparr>ledger := tdel k (ledger w)\<rparr>) (S \<union> {le_account e})"
  proof (rule bal_ledger_change [OF assms(1)])
    show "twf (ledger (w\<lparr>ledger := tdel k (ledger w)\<rparr>))" using assms(1) by (simp add: bal_def)
    fix u i assume "i \<notin> {le_account e}"
    with assms show "entries_of (w\<lparr>ledger := tdel k (ledger w)\<rparr>) u i = entries_of w u i"
      by (auto simp: entries_of_def bal_def intro!: tbl.select_del_frame)
  qed simp
  then show ?thesis by simp
qed

text \<open>Deleting the entries that satisfy a condition unbalances only their accounts.\<close>

lemma delete_entries_bal:
  assumes "bal w S" and "\<And>k e. tget (ledger w) k = Some e \<Longrightarrow> P e \<Longrightarrow> le_account e \<in> T"
  shows "bal (w\<lparr>ledger := tdel_ids (map fst (tselect P (ledger w))) (ledger w)\<rparr>) (S \<union> T)"
proof (rule bal_ledger_change [OF assms(1)])
  show "twf (ledger (w\<lparr>ledger := tdel_ids (map fst (tselect P (ledger w))) (ledger w)\<rparr>))"
    using assms(1) by (simp add: bal_def)
  fix u i assume i: "i \<notin> T"
  have "tselect (\<lambda>e. le_user e = u \<and> le_account e = i) (fold tdel (map fst (tselect P (ledger w))) (ledger w))
      = tselect (\<lambda>e. le_user e = u \<and> le_account e = i) (ledger w)"
  proof (rule tbl.select_fold_del_frame)
    show "twf (ledger w)" using assms(1) by (simp add: bal_def)
    fix k e assume "k \<in> set (map fst (tselect P (ledger w)))" "tget (ledger w) k = Some e"
    with assms(1) have "P e" by (auto simp: bal_def tbl.select_iff)
    with assms(2) [OF \<open>tget (ledger w) k = Some e\<close>] i show "\<not> (le_user e = u \<and> le_account e = i)" by auto
  qed
  then show "entries_of (w\<lparr>ledger := tdel_ids (map fst (tselect P (ledger w))) (ledger w)\<rparr>) u i
    = entries_of w u i" by (simp add: entries_of_def tdel_ids_def)
qed simp

text \<open>Reconciling the initial entry balances the account.\<close>

lemma initial_entry_SomeD:
  assumes "get_cash_account_initial_ledger_entry w u i = Some (k, e)" "twf (ledger w)"
  shows "tget (ledger w) k = Some e \<and> le_user e = u \<and> le_account e = i \<and> le_type e = INITIAL_BALANCE
    \<and> le_transaction e = None \<and> le_transfer e = None"
proof -
  let ?P = "\<lambda>e. le_user e = u \<and> le_account e = i \<and> le_type e = INITIAL_BALANCE
    \<and> le_transaction e = None \<and> le_transfer e = None"
  from assms(1) have "(k, e) \<in> set (tselect ?P (ledger w))"
    by (auto simp: get_cash_account_initial_ledger_entry_def split: list.splits dest: sort_key_ConsD)
  with assms(2) show ?thesis by (simp add: tbl.select_iff)
qed

lemma initial_entry_None:
  assumes "get_cash_account_initial_ledger_entry w u i = None" "twf (ledger w)" "tget (ledger w) k = Some e"
  shows "\<not> (le_user e = u \<and> le_account e = i \<and> le_type e = INITIAL_BALANCE
    \<and> le_transaction e = None \<and> le_transfer e = None)"
proof -
  let ?P = "\<lambda>e. le_user e = u \<and> le_account e = i \<and> le_type e = INITIAL_BALANCE
    \<and> le_transaction e = None \<and> le_transfer e = None"
  from assms(1) have "sort_key (\<lambda>p. (le_created_at (snd p), fst p)) (tselect ?P (ledger w)) = []"
    by (auto simp: get_cash_account_initial_ledger_entry_def split: list.splits)
  then have "tselect ?P (ledger w) = []" by simp
  with tbl.select_empty_iff [OF assms(2), of ?P] assms(3) show ?thesis by blast
qed

lemma initial_entry_row_simps [simp]:
  "le_amount (initial_entry_row env i a ex n) = n"
  "le_user (initial_entry_row env i a ex n) = (case ex of None \<Rightarrow> ca_user a | Some e \<Rightarrow> le_user e)"
  "le_account (initial_entry_row env i a ex n) = (case ex of None \<Rightarrow> i | Some e \<Rightarrow> le_account e)"
  "le_type (initial_entry_row env i a ex n) = (case ex of None \<Rightarrow> INITIAL_BALANCE | Some e \<Rightarrow> le_type e)"
  "le_transaction (initial_entry_row env i a ex n) = (case ex of None \<Rightarrow> None | Some e \<Rightarrow> le_transaction e)"
  "le_transfer (initial_entry_row env i a ex n) = (case ex of None \<Rightarrow> None | Some e \<Rightarrow> le_transfer e)"
  "le_currency (initial_entry_row env i a ex n) = normalize_currency (ca_currency a)"
  by (simp_all add: initial_entry_row_def Let_def split: option.split)

text \<open>
  A successful reconciliation wrote one row, the account's initial entry, and then
  synchronised the account.
\<close>

lemma reconcile_result:
  assumes "reconcile_cash_account_initial_ledger_entry env i target w = Inr w'" and "twf (ledger w)"
  obtains a n r l where "tget (accounts w) i = Some a"
    "sum_cash_account_ledger_balance w (ca_user a) i
       (map_option fst (get_cash_account_initial_ledger_entry w (ca_user a) i)) = Inr n"
    "quantize_decimal (dec_sub (of_fixed target) (of_fixed n)) = Inr (le_amount r)"
    "fits_numeric (le_amount r)" "le_user r = ca_user a" "le_account r = i" "le_type r = INITIAL_BALANCE"
    "le_transaction r = None" "le_transfer r = None" "le_currency r = normalize_currency (ca_currency a)"
    "get_cash_account_initial_ledger_entry w (ca_user a) i = None \<and> l = snd (tinsert r (ledger w))
     \<or> (\<exists>k e. get_cash_account_initial_ledger_entry w (ca_user a) i = Some (k, e)
          \<and> l = tput k r (ledger w))"
    "sync_cash_account_balance_from_ledger env i (w\<lparr>ledger := l\<rparr>) = Inr w'"
proof -
  from assms(1) obtain a n m where a: "tget (accounts w) i = Some a"
    and n: "sum_cash_account_ledger_balance w (ca_user a) i
       (map_option fst (get_cash_account_initial_ledger_entry w (ca_user a) i)) = Inr n"
    and m: "quantize_decimal (dec_sub (of_fixed target) (of_fixed n)) = Inr m" "fits_numeric m"
    and s: "sync_cash_account_balance_from_ledger env i (w\<lparr>ledger :=
        (let initial = get_cash_account_initial_ledger_entry w (ca_user a) i;
             r = initial_entry_row env i a (map_option snd initial) m
         in case initial of None \<Rightarrow> snd (tinsert r (ledger w)) | Some (k, e) \<Rightarrow> tput k r (ledger w))\<rparr>) = Inr w'"
    by (cases "tget (accounts w) i")
      (auto simp: reconcile_cash_account_initial_ledger_entry_def bindE_eq_Inr Let_def)
  let ?in = "get_cash_account_initial_ledger_entry w (ca_user a) i"
  let ?r = "initial_entry_row env i a (map_option snd ?in) m"
  show ?thesis
  proof (rule that [OF a n, of ?r "case ?in of None \<Rightarrow> snd (tinsert ?r (ledger w)) | Some (k, e) \<Rightarrow> tput k ?r (ledger w)"])
    show "?in = None \<and> (case ?in of None \<Rightarrow> snd (tinsert ?r (ledger w)) | Some (k, e) \<Rightarrow> tput k ?r (ledger w))
         = snd (tinsert ?r (ledger w))
     \<or> (\<exists>k e. ?in = Some (k, e) \<and> (case ?in of None \<Rightarrow> snd (tinsert ?r (ledger w))
         | Some (k, e) \<Rightarrow> tput k ?r (ledger w)) = tput k ?r (ledger w))"
      by (cases ?in) auto
  qed (use m s initial_entry_SomeD [OF _ assms(2), of "ca_user a" i] in \<open>auto simp: Let_def split: option.split\<close>)
qed

lemma reconcile_bal:
  assumes "bal w S"
  shows "okp (reconcile_cash_account_initial_ledger_entry env i target w) (\<lambda>w'. bal w' (S - {i}))"
proof (rule okpI)
  fix w' assume r: "reconcile_cash_account_initial_ledger_entry env i target w = Inr w'"
  from bal_wf [OF assms] have wf: "twf (ledger w)" by simp
  obtain a e l where "tget (accounts w) i = Some a" and e: "le_user e = ca_user a" "le_account e = i"
    and l: "get_cash_account_initial_ledger_entry w (ca_user a) i = None \<and> l = snd (tinsert e (ledger w))
     \<or> (\<exists>k e0. get_cash_account_initial_ledger_entry w (ca_user a) i = Some (k, e0)
          \<and> l = tput k e (ledger w))"
    and s: "sync_cash_account_balance_from_ledger env i (w\<lparr>ledger := l\<rparr>) = Inr w'"
    by (rule reconcile_result [OF r wf]) blast
  from l have "bal (w\<lparr>ledger := l\<rparr>) (insert i S)"
  proof (elim disjE exE conjE)
    assume "l = snd (tinsert e (ledger w))"
    moreover have "bal (w\<lparr>ledger := snd (tinsert e (ledger w))\<rparr>) (S \<union> {i})"
      by (rule bal_ledger_change [OF assms]) (use wf e in \<open>auto simp: entries_of_insert\<close>)
    ultimately show ?thesis by simp
  next
    fix k e0
    assume "get_cash_account_initial_ledger_entry w (ca_user a) i = Some (k, e0)" "l = tput k e (ledger w)"
    with initial_entry_SomeD [OF this(1) wf] entry_change_bal [OF assms, of k e0 e] e
    show ?thesis by simp
  qed
  from okpD [OF sync_bal [OF this] s] show "bal w' (S - {i})" by (auto intro: bal_mono)
qed

end
