(* ===== verification/Job_Queue.thy ===== *)
theory Job_Queue
  imports Common_Service
begin

text \<open>
  Model of the outbox in \<^verbatim>\<open>backend/app/services/job_service.py\<close>: jobs are rows, enqueued
  with a deduplication key, claimed by a worker, completed, failed, or put back to pending when
  a worker starts. The state machine over these operations is \<open>queue_step\<close>, where every step is committed
  before the next one; sessions that overlap are in \<open>Queue_Sessions\<close>.
\<close>

section \<open>Operations\<close>

definition normalize_job_user_id :: "pystr option \<Rightarrow> pystr option" where
  "normalize_job_user_id user_id = (case user_id of None \<Rightarrow> None
     | Some u \<Rightarrow> (let normalized = py_strip u in if normalized = [] then None else Some normalized))"

definition is_active :: "outbox_job \<Rightarrow> bool" where
  "is_active j \<longleftrightarrow> oj_status j \<in> {JOB_PENDING, JOB_RUNNING}"

definition load_active_job_by_dedup_key ::
  "pystr \<Rightarrow> outbox_job table \<Rightarrow> (nat \<times> outbox_job) option" where
  "load_active_job_by_dedup_key dedup_key t =
     (case rev (sort_key fst (tselect (\<lambda>j. oj_dedup_key j = Some dedup_key \<and> is_active j) t)) of
        [] \<Rightarrow> None | p # ps \<Rightarrow> Some p)"

definition new_job ::
  "datetime \<Rightarrow> job_type \<Rightarrow> pystr option \<Rightarrow> job_payload \<Rightarrow> pystr option \<Rightarrow> outbox_job" where
  "new_job now jtype user payload dedup_key =
     \<lparr>oj_user = normalize_job_user_id user, oj_type = jtype, oj_status = JOB_PENDING,
      oj_dedup_key = dedup_key, oj_payload = payload, oj_attempt_count = 0, oj_last_error = None,
      oj_available_at = now, oj_started_at = None, oj_completed_at = None,
      oj_created_at = now, oj_updated_at = now\<rparr>"

definition enqueue_job ::
  "datetime \<Rightarrow> job_type \<Rightarrow> pystr option \<Rightarrow> job_payload \<Rightarrow> pystr option \<Rightarrow> outbox_job table
   \<Rightarrow> nat \<times> outbox_job table" where
  \<comment> \<open>on the rows the session sees, under the Redis lock of the key; the commit is the caller's and comes
    after the lock is released (\<open>Queue_Sessions\<close>)\<close>
  "enqueue_job now jtype user payload dedup_key t =
     (case dedup_key of
        None \<Rightarrow> tinsert (new_job now jtype user payload dedup_key) t
      | Some k \<Rightarrow>
          (case load_active_job_by_dedup_key k t of
             Some (i, j) \<Rightarrow> (i, t)
           | None \<Rightarrow> tinsert (new_job now jtype user payload dedup_key) t))"

definition snapshot_rebuild_key :: "pystr \<Rightarrow> pystr" where
  "snapshot_rebuild_key user = lit ''snapshot-rebuild:'' @ user"

definition enqueue_user_portfolio_snapshot_rebuild :: "env \<Rightarrow> pystr \<Rightarrow> world \<Rightarrow> error + nat \<times> world" where
  "enqueue_user_portfolio_snapshot_rebuild env user w =
     (case normalize_job_user_id (Some user) of
        None \<Rightarrow> Inl ValueError
      | Some u \<Rightarrow> (case enqueue_job (en_now env) SNAPSHOT_REBUILD (Some u) (RebuildPayload u)
            (Some (snapshot_rebuild_key u)) (jobs w) of (i, t) \<Rightarrow> Inr (i, w\<lparr>jobs := t\<rparr>)))"

definition enqueue_agent_task_execution :: "env \<Rightarrow> pystr \<Rightarrow> nat \<Rightarrow> world \<Rightarrow> error + nat \<times> world" where
  "enqueue_agent_task_execution env user task_id w =
     (case normalize_job_user_id (Some user) of
        None \<Rightarrow> Inl ValueError
      | Some u \<Rightarrow> (case enqueue_job (en_now env) AGENT_TASK_EXECUTION (Some u)
            (AgentTaskPayload u task_id) (Some (lit ''agent-task:'' @ show_nat task_id)) (jobs w) of
            (i, t) \<Rightarrow> Inr (i, w\<lparr>jobs := t\<rparr>)))"

definition claim_next_pending_job ::
  "datetime \<Rightarrow> outbox_job table \<Rightarrow> nat option \<times> outbox_job table" where
  "claim_next_pending_job now t =
     (case sort_key (\<lambda>p. (oj_created_at (snd p), fst p))
        (tselect (\<lambda>j. oj_status j = JOB_PENDING \<and> oj_available_at j \<le> now) t) of
        [] \<Rightarrow> (None, t)
      | (i, j) # ps \<Rightarrow> (Some i, tput i (j\<lparr>oj_status := JOB_RUNNING, oj_started_at := Some now,
            oj_completed_at := None, oj_last_error := None,
            oj_attempt_count := oj_attempt_count j + 1, oj_updated_at := now\<rparr>) t))"

definition complete_job :: "datetime \<Rightarrow> nat \<Rightarrow> outbox_job table \<Rightarrow> outbox_job table" where
  "complete_job now i t = (case tget t i of None \<Rightarrow> t
     | Some j \<Rightarrow> tput i (j\<lparr>oj_status := JOB_DONE, oj_completed_at := Some now,
         oj_last_error := None, oj_updated_at := now\<rparr>) t)"

definition fail_job :: "datetime \<Rightarrow> nat \<Rightarrow> pystr \<Rightarrow> outbox_job table \<Rightarrow> outbox_job table" where
  "fail_job now i message t = (case tget t i of None \<Rightarrow> t
     | Some j \<Rightarrow> tput i (j\<lparr>oj_status := JOB_FAILED, oj_completed_at := Some now,
         oj_last_error := Some (take 1000 message), oj_updated_at := now\<rparr>) t)"

definition reset_job :: "datetime \<Rightarrow> outbox_job \<Rightarrow> outbox_job" where
  "reset_job now j = j\<lparr>oj_status := JOB_PENDING, oj_started_at := None, oj_completed_at := None,
     oj_updated_at := now\<rparr>"

definition reset_running_jobs_to_pending :: "datetime \<Rightarrow> outbox_job table \<Rightarrow> outbox_job table" where
  "reset_running_jobs_to_pending now t =
     fold (\<lambda>(i, j) t. tput i (reset_job now j) t) (tselect (\<lambda>j. oj_status j = JOB_RUNNING) t) t"

section \<open>Frame\<close>

lemma enqueue_rebuild_result:
  assumes "enqueue_user_portfolio_snapshot_rebuild env user w = Inr (i, w')"
  obtains t where "w' = w\<lparr>jobs := t\<rparr>"
  using assms by (auto simp: enqueue_user_portfolio_snapshot_rebuild_def split: option.splits prod.splits)

lemma okp_enqueue_rebuild:
  "(\<And>i t. P (i, w\<lparr>jobs := t\<rparr>)) \<Longrightarrow> okp (enqueue_user_portfolio_snapshot_rebuild env user w) P"
  by (rule okpI) (auto elim: enqueue_rebuild_result)

section \<open>The life of a job\<close>

text \<open>At most one job per deduplication key is waiting or running, when each step is committed at once.\<close>

definition queue_ok :: "outbox_job table \<Rightarrow> bool" where
  "queue_ok t \<longleftrightarrow> twf t \<and> (\<forall>i j i' j' k. tget t i = Some j \<longrightarrow> tget t i' = Some j' \<longrightarrow>
     is_active j \<longrightarrow> is_active j' \<longrightarrow> oj_dedup_key j = Some k \<longrightarrow> oj_dedup_key j' = Some k \<longrightarrow> i = i')"

inductive queue_step :: "outbox_job table \<Rightarrow> outbox_job table \<Rightarrow> bool" where
  enqueue: "queue_step t (snd (enqueue_job now jtype user payload dedup_key t))"
| claim: "queue_step t (snd (claim_next_pending_job now t))"
| complete: "queue_step t (complete_job now i t)"
| fail: "queue_step t (fail_job now i message t)"
| restart: "queue_step t (reset_running_jobs_to_pending now t)"

inductive queue_reachable :: "outbox_job table \<Rightarrow> bool" where
  empty: "queue_reachable empty_table"
| step: "queue_reachable t \<Longrightarrow> queue_step t t' \<Longrightarrow> queue_reachable t'"

inductive_cases queue_stepE: "queue_step t t'"

lemma load_active_None:
  assumes "twf t" "load_active_job_by_dedup_key k t = None"
  shows "\<not> (\<exists>i j. tget t i = Some j \<and> oj_dedup_key j = Some k \<and> is_active j)"
proof -
  from assms(2) have "sort_key fst (tselect (\<lambda>j. oj_dedup_key j = Some k \<and> is_active j) t) = []"
    by (auto simp: load_active_job_by_dedup_key_def split: list.splits)
  then have "tselect (\<lambda>j. oj_dedup_key j = Some k \<and> is_active j) t = []"
    by (metis set_empty set_sort)
  with assms(1) show ?thesis by (simp add: tbl.select_empty_iff)
qed

lemma load_active_Some:
  assumes "twf t" "load_active_job_by_dedup_key k t = Some (i, j)"
  shows "tget t i = Some j \<and> oj_dedup_key j = Some k \<and> is_active j"
proof -
  from assms(2) have "(i, j) \<in> set (rev (sort_key fst (tselect (\<lambda>j. oj_dedup_key j = Some k \<and> is_active j) t)))"
    by (auto simp: load_active_job_by_dedup_key_def simp del: set_rev split: list.splits)
  then have "(i, j) \<in> set (tselect (\<lambda>j. oj_dedup_key j = Some k \<and> is_active j) t)" by simp
  with assms(1) show ?thesis by (simp add: tbl.select_iff)
qed

lemma queue_ok_insert:
  assumes "queue_ok t" and "\<And>k. oj_dedup_key j = Some k \<Longrightarrow>
    \<not> (\<exists>i j. tget t i = Some j \<and> oj_dedup_key j = Some k \<and> is_active j)"
  shows "queue_ok (snd (tinsert j t))"
  using assms by (auto simp: queue_ok_def tbl.get_insert)

text \<open>Rewriting a job without activating it or changing its key.\<close>

lemma queue_ok_put:
  assumes "queue_ok t" "tget t i = Some j" "oj_dedup_key j' = oj_dedup_key j" "is_active j' \<Longrightarrow> is_active j"
  shows "queue_ok (tput i j' t)"
proof -
  have "tget (tput i j' t) k = Some x \<Longrightarrow> is_active x \<Longrightarrow>
      \<exists>y. tget t k = Some y \<and> is_active y \<and> oj_dedup_key y = oj_dedup_key x" for k x
    using assms(2-4) by (auto simp: tbl.get_put split: if_splits)
  with assms(1) show ?thesis unfolding queue_ok_def by (metis tbl.wf_put)
qed

lemma new_job_key [simp]: "oj_dedup_key (new_job now jt u p k) = k"
  by (simp add: new_job_def)

lemma enqueue_ok: "queue_ok t \<Longrightarrow> queue_ok (snd (enqueue_job now jt u p key t))"
proof (cases key)
  case None
  assume "queue_ok t"
  then have "queue_ok (snd (tinsert (new_job now jt u p None) t))" by (rule queue_ok_insert) simp
  with None show ?thesis by (simp add: enqueue_job_def)
next
  case (Some k)
  assume ok: "queue_ok t"
  show ?thesis
  proof (cases "load_active_job_by_dedup_key k t")
    case None
    from ok None have "\<not> (\<exists>i j. tget t i = Some j \<and> oj_dedup_key j = Some k \<and> is_active j)"
      by (intro load_active_None) (simp_all add: queue_ok_def)
    then have "queue_ok (snd (tinsert (new_job now jt u p (Some k)) t))"
      by (intro queue_ok_insert [OF ok]) auto
    with None Some show ?thesis by (simp add: enqueue_job_def)
  next
    case (Some p)
    with ok \<open>key = Some k\<close> show ?thesis by (cases p) (simp add: enqueue_job_def)
  qed
qed

lemma claim_result:
  assumes "twf t" "claim_next_pending_job now t = (Some i, t')"
  obtains j where "tget t i = Some j" "oj_status j = JOB_PENDING" "oj_available_at j \<le> now"
    "t' = tput i (j\<lparr>oj_status := JOB_RUNNING, oj_started_at := Some now, oj_completed_at := None,
       oj_last_error := None, oj_attempt_count := oj_attempt_count j + 1, oj_updated_at := now\<rparr>) t"
  using assms
  by (auto simp: claim_next_pending_job_def tbl.select_iff split: list.splits dest!: sort_key_ConsD)

lemma claim_ok: "queue_ok t \<Longrightarrow> queue_ok (snd (claim_next_pending_job now t))"
proof (cases "claim_next_pending_job now t")
  case (Pair i t')
  assume ok: "queue_ok t"
  show ?thesis
  proof (cases i)
    case None
    with Pair ok show ?thesis by (auto simp: claim_next_pending_job_def split: list.splits)
  next
    case (Some n)
    from ok have "twf t" by (simp add: queue_ok_def)
    with Pair Some show ?thesis
      by (auto elim!: claim_result simp: is_active_def intro!: queue_ok_put [OF ok])
  qed
qed

lemma complete_ok: "queue_ok t \<Longrightarrow> queue_ok (complete_job now i t)"
  by (auto simp: complete_job_def is_active_def intro: queue_ok_put split: option.split)

lemma fail_ok: "queue_ok t \<Longrightarrow> queue_ok (fail_job now i m t)"
  by (auto simp: fail_job_def is_active_def intro: queue_ok_put split: option.split)

lemma reset_fold:
  assumes "queue_ok t" "distinct (map fst xs)" "\<forall>(i, j) \<in> set xs. tget t i = Some j \<and> oj_status j = JOB_RUNNING"
  shows "queue_ok (fold (\<lambda>(i, j) t. tput i (reset_job now j) t) xs t)
    \<and> (\<forall>i. tget (fold (\<lambda>(i, j) t. tput i (reset_job now j) t) xs t) i
        = (case map_of xs i of Some j \<Rightarrow> Some (reset_job now j) | None \<Rightarrow> tget t i))"
  using assms
proof (induction xs arbitrary: t)
  case (Cons p xs)
  obtain i j where p: "p = (i, j)" by (cases p)
  let ?t = "tput i (reset_job now j) t"
  from Cons.prems p have j: "tget t i = Some j" "oj_status j = JOB_RUNNING" by auto
  then have ok: "queue_ok ?t"
    by (intro queue_ok_put [OF Cons.prems(1)]) (auto simp: reset_job_def is_active_def)
  have "\<forall>(k, x) \<in> set xs. tget ?t k = Some x \<and> oj_status x = JOB_RUNNING"
    using Cons.prems p by (force simp: tbl.get_put)
  moreover have "map_of xs i = None" using Cons.prems(2) p by (simp add: map_of_eq_None_iff)
  ultimately show ?case using Cons.IH [OF ok] Cons.prems(2) p j
    by (auto simp: tbl.get_put split: option.split)
qed simp

lemma reset_select:
  "twf t \<Longrightarrow> distinct (map fst (tselect P t)) \<and> (\<forall>(i, j) \<in> set (tselect P t). tget t i = Some j \<and> P j)"
  by (auto simp: tbl.select_iff tbl.select_distinct)

lemma reset_ok: "queue_ok t \<Longrightarrow> queue_ok (reset_running_jobs_to_pending now t)"
  using reset_fold [of t "tselect (\<lambda>j. oj_status j = JOB_RUNNING) t" now]
    reset_select [of t "\<lambda>j. oj_status j = JOB_RUNNING"]
  by (simp add: reset_running_jobs_to_pending_def queue_ok_def)

lemma queue_step_ok: "queue_step t t' \<Longrightarrow> queue_ok t \<Longrightarrow> queue_ok t'"
  by (erule queue_stepE) (simp_all add: enqueue_ok claim_ok complete_ok fail_ok reset_ok)

lemma queue_reachable_ok: "queue_reachable t \<Longrightarrow> queue_ok t"
proof (induction rule: queue_reachable.induct)
  case empty
  show ?case by (simp add: queue_ok_def) (simp add: tget_def empty_table_def)
qed (rule queue_step_ok)

text \<open>After a restart nothing is running, and nothing else changed.\<close>

lemma reset_get:
  assumes "queue_ok t"
  shows "tget (reset_running_jobs_to_pending now t) i = (case tget t i of None \<Rightarrow> None
    | Some j \<Rightarrow> Some (if oj_status j = JOB_RUNNING then reset_job now j else j))"
proof -
  let ?xs = "tselect (\<lambda>j. oj_status j = JOB_RUNNING) t"
  from assms have wf: "twf t" by (simp add: queue_ok_def)
  have "map_of ?xs i = Some j \<longleftrightarrow> tget t i = Some j \<and> oj_status j = JOB_RUNNING" for j
    using reset_select [OF wf, of "\<lambda>j. oj_status j = JOB_RUNNING"]
    by (simp add: tbl.select_iff [OF wf])
  then show ?thesis
    using reset_fold [OF assms, of ?xs now] reset_select [OF wf, of "\<lambda>j. oj_status j = JOB_RUNNING"]
    by (auto simp: reset_running_jobs_to_pending_def split: option.split)
qed

end
