(* ===== verification/Portfolio_Read.thy ===== *)
theory Portfolio_Read
  imports Common_Service
begin

text \<open>
  Model of the read side in \<^verbatim>\<open>backend/app/services/portfolio_read_service.py\<close>: how rows are
  valued in CNY and turned into response bodies. Market data comes from the environment; a
  failed lookup values the item at zero instead of raising. The optional caller-supplied rates
  (\<open>fx_rate_overrides\<close>) are a list of rates by currency; warnings are not modelled, nor is the
  choice between fresh and stale market data.
\<close>

section \<open>Valuation\<close>

definition lookup_fx :: "env \<Rightarrow> (pystr \<times> dec) list \<Rightarrow> pystr \<Rightarrow> dec option" where
  "lookup_fx env overrides currency =
     (case map_of overrides currency of Some r \<Rightarrow> Some r
      | None \<Rightarrow> en_fx_rate env currency (lit ''CNY''))"

definition value_amount :: "env \<Rightarrow> (pystr \<times> dec) list \<Rightarrow> pystr \<Rightarrow> fixed \<Rightarrow> error + int \<times> int" where
  \<comment> \<open>the pair of displayed rate and displayed value of a balance in a currency\<close>
  "value_amount env overrides currency balance =
     (case lookup_fx env overrides (normalize_currency currency) of
        None \<Rightarrow> Inr (0, 0)
      | Some rate \<Rightarrow>
          liftA (bindE (quantize_decimal rate) (\<lambda>fx_rate.
            bindE (multiply_decimals (Some (of_fixed balance)) (Some (of_fixed fx_rate))) (\<lambda>product.
            bindE (display_money (of_fixed product)) (\<lambda>value_cny.
            bindE (display_fx_rate (of_fixed fx_rate)) (\<lambda>fx.
            Inr (fx, value_cny)))))))"

definition value_cash_account :: "env \<Rightarrow> (pystr \<times> dec) list \<Rightarrow> cash_account \<Rightarrow> error + int \<times> int" where
  "value_cash_account env overrides a = value_amount env overrides (ca_currency a) (ca_balance a)"

fun total_cents :: "int list \<Rightarrow> dec \<Rightarrow> dec" where
  "total_cents [] acc = acc"
| "total_cents (c # cs) acc = total_cents cs (dec_add acc (Dec c (-2)))"

record valued_holding =
  vh_price :: int
  vh_price_currency :: pystr
  vh_fx_to_cny :: int
  vh_value_cny :: int
  vh_return_pct :: "int option"
  vh_last_updated :: "datetime option"

definition value_holding ::
  "env \<Rightarrow> (pystr \<times> dec) list \<Rightarrow> bool \<Rightarrow> security_holding \<Rightarrow> error + valued_holding" where
  "value_holding env overrides force_pending h =
     bindE (case en_quote env (sh_symbol h) (sh_market h) of
         None \<Rightarrow> Inr (0, sh_fallback_currency h, 0, 0, None)
       | Some q \<Rightarrow>
           (let currency_code = normalize_currency (qt_currency q) in
            case lookup_fx env overrides currency_code of
              None \<Rightarrow> Inr (0, sh_fallback_currency h, 0, 0, None)
            | Some rate \<Rightarrow>
                liftA (bindE (quantize_decimal rate) (\<lambda>fx_rate.
                  bindE (display_price (qt_price q)) (\<lambda>price.
                  bindE (multiply_decimals (Some (of_fixed (sh_quantity h))) (Some (Dec price (-4)))) (\<lambda>gross.
                  bindE (multiply_decimals (Some (of_fixed gross)) (Some (of_fixed fx_rate))) (\<lambda>product.
                  bindE (display_money (of_fixed product)) (\<lambda>value_cny.
                  bindE (display_fx_rate (of_fixed fx_rate)) (\<lambda>fx.
                  Inr (price, currency_code, fx, value_cny, qt_market_time q)))))))))) 
     (\<lambda>(price, price_currency, fx, value_cny, last_updated).
     bindE (if price > 0
            then calculate_return_pct (Dec price (-4)) (map_option of_fixed (sh_cost_basis_price h))
            else Inr None) (\<lambda>return_pct.
     Inr \<lparr>vh_price = price, vh_price_currency = price_currency, vh_fx_to_cny = fx,
          vh_value_cny = value_cny, vh_return_pct = return_pct,
          vh_last_updated = (if force_pending then None else last_updated)\<rparr>))"

definition value_liability :: "env \<Rightarrow> (pystr \<times> dec) list \<Rightarrow> liability_entry \<Rightarrow> error + int \<times> int" where
  "value_liability env overrides l = value_amount env overrides (li_currency l) (li_balance l)"

section \<open>Response bodies\<close>

record valued_asset_read =
  var_id :: nat
  var_name :: pystr
  var_category :: pystr
  var_current_value_cny :: int
  var_basis_value_cny :: "int option"
  var_started_on :: "date option"
  var_note :: "pystr option"
  var_value_cny :: int
  var_return_pct :: "int option"

record liability_read =
  lir_id :: nat
  lir_name :: pystr
  lir_category :: pystr
  lir_currency :: pystr
  lir_balance :: int
  lir_started_on :: "date option"
  lir_note :: "pystr option"
  lir_fx_to_cny :: "int option"
  lir_value_cny :: "int option"

definition to_cash_account_read :: "env \<Rightarrow> nat \<Rightarrow> cash_account \<Rightarrow> error + cash_account_read" where
  "to_cash_account_read env i a =
     bindE (value_cash_account env [] a) (\<lambda>(fx, value_cny).
     bindE (liftA (display_money (of_fixed (ca_balance a)))) (\<lambda>balance.
     Inr \<lparr>car_id = i, car_name = ca_name a, car_platform = ca_platform a,
          car_currency = ca_currency a, car_balance = balance, car_type = ca_type a,
          car_started_on = ca_started_on a, car_note = ca_note a,
          car_fx_to_cny = Some fx, car_value_cny = Some value_cny\<rparr>))"

definition to_cash_ledger_entry_read :: "nat \<Rightarrow> ledger_entry \<Rightarrow> error + ledger_entry_read" where
  "to_cash_ledger_entry_read i e =
     bindE (liftA (quantize_decimal (of_fixed (le_amount e)))) (\<lambda>amount.
     Inr \<lparr>ler_id = i, ler_account = le_account e, ler_type = le_type e, ler_amount = amount,
          ler_currency = le_currency e, ler_happened_on = le_happened_on e, ler_note = le_note e,
          ler_transaction = le_transaction e, ler_transfer = le_transfer e,
          ler_created_at = le_created_at e, ler_updated_at = le_updated_at e\<rparr>)"

definition to_cash_transfer_read :: "nat \<Rightarrow> cash_transfer \<Rightarrow> error + transfer_read" where
  "to_cash_transfer_read i t =
     bindE (liftA (quantize_decimal (of_fixed (ct_source_amount t)))) (\<lambda>source_amount.
     bindE (liftA (quantize_decimal (of_fixed (ct_target_amount t)))) (\<lambda>target_amount.
     Inr \<lparr>trr_id = i, trr_from = ct_from t, trr_to = ct_to t, trr_source_amount = source_amount,
          trr_target_amount = target_amount, trr_source_currency = ct_source_currency t,
          trr_target_currency = ct_target_currency t, trr_transferred_on = ct_transferred_on t,
          trr_note = ct_note t, trr_created_at = ct_created_at t, trr_updated_at = ct_updated_at t\<rparr>))"

definition display_optional_price :: "fixed option \<Rightarrow> error + int option" where
  "display_optional_price p = (case p of None \<Rightarrow> Inr None
     | Some x \<Rightarrow> bindE (liftA (display_price (of_fixed x))) (\<lambda>n. Inr (Some n)))"

definition to_holding_read :: "env \<Rightarrow> nat \<Rightarrow> security_holding \<Rightarrow> error + holding_read" where
  "to_holding_read env i h =
     bindE (value_holding env [] False h) (\<lambda>v.
     bindE (liftA (display_quantity (of_fixed (sh_quantity h)))) (\<lambda>quantity.
     bindE (display_optional_price (sh_cost_basis_price h)) (\<lambda>cost_basis.
     Inr \<lparr>hor_id = i, hor_symbol = sh_symbol h, hor_name = sh_name h, hor_quantity = quantity,
          hor_fallback_currency = sh_fallback_currency h, hor_cost_basis_price = cost_basis,
          hor_market = sh_market h, hor_broker = sh_broker h, hor_started_on = sh_started_on h,
          hor_note = sh_note h, hor_price = Some (vh_price v),
          hor_price_currency = Some (vh_price_currency v), hor_value_cny = Some (vh_value_cny v),
          hor_return_pct = vh_return_pct v, hor_last_updated = vh_last_updated v\<rparr>)))"

definition to_holding_transaction_read ::
  "nat \<Rightarrow> holding_transaction \<Rightarrow> cash_settlement option \<Rightarrow> error + transaction_read" where
  "to_holding_transaction_read i tx settlement =
     (let inflow = (\<lambda>s. st_flow_direction s = INFLOW);
          sell_handling = (case settlement of None \<Rightarrow> None
            | Some s \<Rightarrow> if inflow s then Some (st_handling s) else None);
          sell_account = (case settlement of None \<Rightarrow> None
            | Some s \<Rightarrow> if inflow s then Some (st_account s) else None);
          buy_handling = (case settlement of None \<Rightarrow> None
            | Some s \<Rightarrow> if inflow s then None else Some (st_handling s));
          buy_account = (case settlement of None \<Rightarrow> None
            | Some s \<Rightarrow> if inflow s then None else Some (st_account s))
      in bindE (liftA (display_quantity (of_fixed (tx_quantity tx)))) (\<lambda>quantity.
         bindE (display_optional_price (tx_price tx)) (\<lambda>price.
         Inr \<lparr>txr_id = i, txr_symbol = tx_symbol tx, txr_name = tx_name tx, txr_side = tx_side tx,
              txr_quantity = quantity, txr_price = price,
              txr_fallback_currency = tx_fallback_currency tx, txr_market = tx_market tx,
              txr_broker = tx_broker tx, txr_traded_on = tx_traded_on tx, txr_note = tx_note tx,
              txr_sell_handling = sell_handling, txr_sell_account = sell_account,
              txr_buy_handling = buy_handling, txr_buy_account = buy_account,
              txr_created_at = tx_created_at tx, txr_updated_at = tx_updated_at tx\<rparr>)))"

definition to_liability_read :: "env \<Rightarrow> nat \<Rightarrow> liability_entry \<Rightarrow> error + liability_read" where
  "to_liability_read env i l =
     bindE (value_liability env [] l) (\<lambda>(fx, value_cny).
     bindE (liftA (display_money (of_fixed (li_balance l)))) (\<lambda>balance.
     Inr \<lparr>lir_id = i, lir_name = li_name l, lir_category = li_category l, lir_currency = li_currency l,
          lir_balance = balance, lir_started_on = li_started_on l, lir_note = li_note l,
          lir_fx_to_cny = Some fx, lir_value_cny = Some value_cny\<rparr>))"

definition display_optional_money :: "fixed option \<Rightarrow> error + int option" where
  "display_optional_money v = (case v of None \<Rightarrow> Inr None
     | Some x \<Rightarrow> bindE (liftA (display_money (of_fixed x))) (\<lambda>n. Inr (Some n)))"

definition valued_asset_response ::
  "nat \<Rightarrow> pystr \<Rightarrow> pystr \<Rightarrow> fixed \<Rightarrow> fixed option \<Rightarrow> date option \<Rightarrow> pystr option
   \<Rightarrow> error + valued_asset_read" where
  "valued_asset_response i name category current basis started_on asset_note =
     bindE (liftA (display_money (of_fixed current))) (\<lambda>value_cny.
     bindE (display_optional_money basis) (\<lambda>basis_value.
     bindE (calculate_return_pct (Dec value_cny (-2)) (map_option of_fixed basis)) (\<lambda>return_pct.
     Inr \<lparr>var_id = i, var_name = name, var_category = category, var_current_value_cny = value_cny,
          var_basis_value_cny = basis_value, var_started_on = started_on, var_note = asset_note,
          var_value_cny = value_cny, var_return_pct = return_pct\<rparr>)))"

section \<open>The items of a dashboard\<close>

text \<open>
  The valued items carry the fields of the response bodies above; a valued holding also has its
  exchange rate. Each list comes with its sum in cents.
\<close>

record valued_holding_item =
  vi_id :: nat
  vi_symbol :: pystr
  vi_name :: pystr
  vi_quantity :: int  \<comment> \<open>units of \<open>10 ^ -4\<close>, as the two prices\<close>
  vi_fallback_currency :: pystr
  vi_cost_basis_price :: "int option"
  vi_market :: pystr
  vi_broker :: "pystr option"
  vi_started_on :: "date option"
  vi_note :: "pystr option"
  vi_valuation :: valued_holding

definition load_display_fx_rates :: "env \<Rightarrow> error + (pystr \<times> dec) list \<times> int option \<times> int option" where
  \<comment> \<open>the rates of the dashboard's header, reused as overrides, and their displayed values\<close>
  "load_display_fx_rates env =
     bindE (mapE (\<lambda>code. case en_fx_rate env code (lit ''CNY'') of
         None \<Rightarrow> Inr (code, None)
       | Some r \<Rightarrow> liftA (bindE (quantize_decimal r) (\<lambda>rate.
           bindE (display_fx_rate (of_fixed rate)) (\<lambda>shown. Inr (code, Some (of_fixed rate, shown))))))
         [lit ''USD'', lit ''HKD'']) (\<lambda>found.
     let shown = (\<lambda>code. case map_of found code of Some (Some (rate, n)) \<Rightarrow> Some n | _ \<Rightarrow> None)
     in Inr ((lit ''CNY'', Dec 1 0) # List.map_filter (\<lambda>(code, r). map_option (\<lambda>(rate, n). (code, rate)) r) found,
          shown (lit ''USD''), shown (lit ''HKD'')))"

definition valued_account_item :: "env \<Rightarrow> (pystr \<times> dec) list \<Rightarrow> nat \<times> cash_account \<Rightarrow> error + cash_account_read" where
  "valued_account_item env overrides = (\<lambda>(i, a).
     bindE (value_cash_account env overrides a) (\<lambda>(fx, value_cny).
     bindE (liftA (display_money (of_fixed (ca_balance a)))) (\<lambda>balance.
     Inr \<lparr>car_id = i, car_name = ca_name a, car_platform = ca_platform a,
          car_currency = ca_currency a, car_balance = balance, car_type = ca_type a,
          car_started_on = ca_started_on a, car_note = ca_note a,
          car_fx_to_cny = Some fx, car_value_cny = Some value_cny\<rparr>)))"

definition valued_holding_row :: "env \<Rightarrow> (pystr \<times> dec) list \<Rightarrow> bool \<Rightarrow> nat \<times> security_holding \<Rightarrow> error + valued_holding_item" where
  "valued_holding_row env overrides force_pending = (\<lambda>(i, h).
     bindE (value_holding env overrides force_pending h) (\<lambda>v.
     bindE (liftA (display_quantity (of_fixed (sh_quantity h)))) (\<lambda>quantity.
     bindE (display_optional_price (sh_cost_basis_price h)) (\<lambda>cost_basis.
     Inr \<lparr>vi_id = i, vi_symbol = sh_symbol h, vi_name = sh_name h, vi_quantity = quantity,
          vi_fallback_currency = sh_fallback_currency h, vi_cost_basis_price = cost_basis,
          vi_market = sh_market h, vi_broker = sh_broker h, vi_started_on = sh_started_on h,
          vi_note = sh_note h, vi_valuation = v\<rparr>))))"

definition with_sum :: "('a \<Rightarrow> int) \<Rightarrow> 'a list \<Rightarrow> error + 'a list \<times> int" where
  "with_sum val items =
     bindE (liftA (display_money (total_cents (map val items) DECIMAL_ZERO))) (\<lambda>n. Inr (items, n))"

definition value_cash_accounts ::
  "env \<Rightarrow> (pystr \<times> dec) list \<Rightarrow> (nat \<times> cash_account) list \<Rightarrow> error + cash_account_read list \<times> int" where
  "value_cash_accounts env overrides as =
     bindE (mapE (valued_account_item env overrides) as) (with_sum (\<lambda>r. the (car_value_cny r)))"

definition value_holdings ::
  "env \<Rightarrow> (pystr \<times> dec) list \<Rightarrow> bool \<Rightarrow> (nat \<times> security_holding) list \<Rightarrow> error + valued_holding_item list \<times> int" where
  "value_holdings env overrides force_pending hs =
     bindE (mapE (valued_holding_row env overrides force_pending) hs) (with_sum (\<lambda>r. vh_value_cny (vi_valuation r)))"

definition value_fixed_assets :: "(nat \<times> fixed_asset) list \<Rightarrow> error + valued_asset_read list \<times> int" where
  "value_fixed_assets as =
     bindE (mapE (\<lambda>(i, a). valued_asset_response i (fa_name a) (fa_category a) (fa_current_value_cny a)
         (fa_purchase_value_cny a) (fa_started_on a) (fa_note a)) as) (with_sum var_value_cny)"

definition valued_liability_item :: "env \<Rightarrow> (pystr \<times> dec) list \<Rightarrow> nat \<times> liability_entry \<Rightarrow> error + liability_read" where
  "valued_liability_item env overrides = (\<lambda>(i, l).
     bindE (value_liability env overrides l) (\<lambda>(fx, value_cny).
     bindE (liftA (display_money (of_fixed (li_balance l)))) (\<lambda>balance.
     Inr \<lparr>lir_id = i, lir_name = li_name l, lir_category = li_category l, lir_currency = li_currency l,
          lir_balance = balance, lir_started_on = li_started_on l, lir_note = li_note l,
          lir_fx_to_cny = Some fx, lir_value_cny = Some value_cny\<rparr>)))"

definition value_liabilities ::
  "env \<Rightarrow> (pystr \<times> dec) list \<Rightarrow> (nat \<times> liability_entry) list \<Rightarrow> error + liability_read list \<times> int" where
  "value_liabilities env overrides ls =
     bindE (mapE (valued_liability_item env overrides) ls) (with_sum (\<lambda>r. the (lir_value_cny r)))"

definition value_other_assets :: "(nat \<times> other_asset) list \<Rightarrow> error + valued_asset_read list \<times> int" where
  "value_other_assets as =
     bindE (mapE (\<lambda>(i, a). valued_asset_response i (oa_name a) (oa_category a) (oa_current_value_cny a)
         (oa_original_value_cny a) (oa_started_on a) (oa_note a)) as) (with_sum var_value_cny)"

end
