(* ===== verification/Cash_Accounts.thy ===== *)
theory Cash_Accounts
  imports Cash_Ledger Job_Queue Portfolio_Read
begin

text \<open>
  Model of \<^verbatim>\<open>backend/app/services/cash_account_service.py\<close>: the handlers for cash accounts,
  manual ledger adjustments and transfers. A handler whose response is built before the commit
  returns \<open>error + response \<times> world\<close>; one that builds it after the commit returns
  \<open>error + (error + response) \<times> world\<close>, where the inner sum is the building of the
  response, so that a failure there does not undo the committed world. An \<open>Inl\<close> of the outer
  sum is a rolled-back transaction: the world is the one before the request. A Python set of
  ids is the list of its elements in the order of their first insertion.
\<close>

section \<open>Shared steps\<close>

definition owned_account :: "env \<Rightarrow> detail \<Rightarrow> nat \<Rightarrow> world \<Rightarrow> error + cash_account" where
  "owned_account env err i w = (case tget (accounts w) i of
      None \<Rightarrow> Inl (HTTPException 404 err)
    | Some a \<Rightarrow> if ca_user a \<noteq> en_user env then Inl (HTTPException 404 err) else Inr a)"

definition account_state :: "world \<Rightarrow> nat \<Rightarrow> model_state option" where
  "account_state w i = map_option (AccountState i) (tget (accounts w) i)"

definition ledger_state :: "world \<Rightarrow> nat \<Rightarrow> model_state option" where
  "ledger_state w i = map_option (LedgerState i) (tget (ledger w) i)"

definition transfer_state :: "world \<Rightarrow> nat \<Rightarrow> model_state option" where
  "transfer_state w i = map_option (TransferState i) (tget (transfers w) i)"

definition account_read :: "env \<Rightarrow> nat \<Rightarrow> world \<Rightarrow> error + cash_account_read" where
  "account_read env i w = (case tget (accounts w) i of None \<Rightarrow> Inl StaleDataError
     | Some a \<Rightarrow> to_cash_account_read env i a)"

definition entry_read :: "nat \<Rightarrow> world \<Rightarrow> error + ledger_entry_read" where
  "entry_read i w = (case tget (ledger w) i of None \<Rightarrow> Inl StaleDataError
     | Some e \<Rightarrow> to_cash_ledger_entry_read i e)"

definition transfer_read_of :: "nat \<Rightarrow> world \<Rightarrow> error + transfer_read" where
  "transfer_read_of i w = (case tget (transfers w) i of None \<Rightarrow> Inl StaleDataError
     | Some t \<Rightarrow> to_cash_transfer_read i t)"

definition note_or :: "pystr option \<Rightarrow> pystr \<Rightarrow> pystr" where
  \<comment> \<open>\<open>note or d\<close>: the empty string is false\<close>
  "note_or note d = (case note of None \<Rightarrow> d | Some s \<Rightarrow> if s = [] then d else s)"

definition ref :: "string \<Rightarrow> nat \<Rightarrow> pystr option" where
  "ref tag i = Some (lit tag @ lit ''#'' @ show_nat i)"

definition manual_adjustment_note :: pystr where
  "manual_adjustment_note = [25163, 24037, 36134, 26412, 35843, 25972]"

definition transfer_out_note :: "pystr \<Rightarrow> pystr" where
  "transfer_out_note target_name = [21010, 36716, 33267, 32] @ target_name"

definition transfer_in_note :: "pystr \<Rightarrow> pystr" where
  "transfer_in_note source_name = [26469, 33258, 32] @ source_name @ [32, 30340, 21010, 36716]"

definition ensure_balance_covers :: "fixed \<Rightarrow> fixed \<Rightarrow> error + unit" where
  \<comment> \<open>\<open>balance + FIXED_EPSILON < amount\<close> is refused\<close>
  "ensure_balance_covers balance amount =
     assertE (\<not> dec_less (dec_add (of_fixed balance) FIXED_EPSILON) (of_fixed amount))
       (HTTPException 422 InsufficientBalance)"

definition finish_request :: "env \<Rightarrow> world \<Rightarrow> error + world" where
  \<comment> \<open>enqueue the rebuild of the user's snapshots, commit, drop the cached dashboard\<close>
  "finish_request env w =
     bindE (enqueue_user_portfolio_snapshot_rebuild env (en_user env) w) (\<lambda>(job, w1).
     Inr (invalidate_dashboard_cache (Some (en_user env)) w1))"

section \<open>Accounts\<close>

definition delete_cash_account_related_transfers ::
  "env \<Rightarrow> nat \<Rightarrow> world \<Rightarrow> nat list \<times> nat list \<times> world" where
  "delete_cash_account_related_transfers env account_id w =
     (let related = tselect (\<lambda>t. ct_user t = en_user env \<and>
            (ct_from t = account_id \<or> ct_to t = account_id)) (transfers w);
          affected = remdups (concat (map (\<lambda>(k, t).
            (if ct_from t \<noteq> account_id then [ct_from t] else []) @
            (if ct_to t \<noteq> account_id then [ct_to t] else [])) related));
          w1 = fold (\<lambda>(k, t) w.
            let w0 = delete_cash_ledger_entries_for_transfer (en_user env) k w
            in w0\<lparr>transfers := tdel k (transfers w0)\<rparr>) related w
      in (affected, map fst related, w1))"

definition delete_cash_account_related_settlements ::
  "env \<Rightarrow> nat \<Rightarrow> world \<Rightarrow> nat list \<times> world" where
  "delete_cash_account_related_settlements env account_id w =
     (let related = tselect (\<lambda>s. st_user s = en_user env \<and> st_account s = account_id) (settlements w);
          w1 = fold (\<lambda>(k, s) w.
            let w0 = delete_cash_ledger_entries_for_holding_transaction (en_user env) (st_transaction s) w
            in w0\<lparr>settlements := tdel k (settlements w0)\<rparr>) related w
      in (map (\<lambda>(k, s). st_transaction s) related, w1))"

definition list_asset_mutation_audits ::
  "env \<Rightarrow> int \<Rightarrow> int option \<Rightarrow> world \<Rightarrow> error + mutation_audit list" where
  "list_asset_mutation_audits env limit agent_task_id w =
     (let clamped_limit = max 1 (min limit 500) in
      if (case agent_task_id of None \<Rightarrow> False | Some t \<Rightarrow> t \<le> 0)
      then Inl (HTTPException 422 InvalidTaskArgument)
      else Inr (take (nat clamped_limit) (sort_key (\<lambda>r. - au_created_at r)
        (filter (\<lambda>r. au_user r = en_user env \<and> (case agent_task_id of None \<Rightarrow> True
            | Some t \<Rightarrow> map_option int (au_agent_task_id r) = Some t)) (audits w)))))"

definition create_account ::
  "cash_account_create \<Rightarrow> env \<Rightarrow> world \<Rightarrow> error + (error + cash_account_read) \<times> world" where
  "create_account payload env w =
     (let account = \<lparr>ca_user = en_user env, ca_name = py_strip (cac_name payload),
            ca_platform = py_strip (cac_platform payload),
            ca_currency = normalize_currency (cac_currency payload), ca_balance = 0,
            ca_type = cac_type payload, ca_started_on = cac_started_on payload,
            ca_note = cac_note payload, ca_created_at = en_now env, ca_updated_at = en_now env\<rparr>;
          res = tinsert account (accounts w); i = fst res;
          w1 = w\<lparr>accounts := snd res\<rparr>
      in bindE (reconcile_cash_account_initial_ledger_entry env i (cac_balance payload) w1) (\<lambda>w2.
         let w3 = record_asset_mutation env CASH_ACCOUNT (Some i) CREATE None (account_state w2 i) None w2
         in bindE (finish_request env w3) (\<lambda>w4. Inr (account_read env i w4, w4))))"

definition updated_account :: "cash_account_update \<Rightarrow> env \<Rightarrow> cash_account \<Rightarrow> cash_account" where
  \<comment> \<open>the attribute assignments of \<open>update_account\<close>\<close>
  "updated_account payload env a = a\<lparr>ca_name := py_strip (cau_name payload),
     ca_platform := py_strip (cau_platform payload),
     ca_currency := normalize_currency (cau_currency payload),
     ca_type := (case cau_type payload of None \<Rightarrow> ca_type a | Some t \<Rightarrow> t),
     ca_started_on := (case cau_started_on payload of None \<Rightarrow> ca_started_on a | Some d \<Rightarrow> d),
     ca_note := (case cau_note payload of None \<Rightarrow> ca_note a | Some n \<Rightarrow> normalize_optional_text n),
     ca_updated_at := en_now env\<rparr>"

definition update_account ::
  "nat \<Rightarrow> cash_account_update \<Rightarrow> env \<Rightarrow> world \<Rightarrow> error + (error + cash_account_read) \<times> world" where
  "update_account account_id payload env w =
     bindE (owned_account env AccountNotFound account_id w) (\<lambda>a.
     let existing_non_initial_entries = filter (\<lambda>(i, e). le_type e \<noteq> INITIAL_BALANCE)
           (list_cash_ledger_entries_for_account w (en_user env) account_id);
         next_currency = normalize_currency (cau_currency payload)
     in bindE (assertE (\<not> (existing_non_initial_entries \<noteq> [] \<and>
            next_currency \<noteq> normalize_currency (ca_currency a)))
          (HTTPException 409 CurrencyChangeWithEntries)) (\<lambda>_.
        let w1 = w\<lparr>accounts := tput account_id (updated_account payload env a) (accounts w)\<rparr>
        in bindE (reconcile_cash_account_initial_ledger_entry env account_id (cau_balance payload) w1) (\<lambda>w2.
        let w3 = record_asset_mutation env CASH_ACCOUNT (Some account_id) UPDATE
              (Some (AccountState account_id a)) (account_state w2 account_id) None w2
        in bindE (finish_request env w3) (\<lambda>w4. Inr (account_read env account_id w4, w4)))))"

definition sync_affected_account :: "env \<Rightarrow> nat \<Rightarrow> world \<Rightarrow> error + world" where
  "sync_affected_account env i w = (case tget (accounts w) i of
      None \<Rightarrow> Inr w
    | Some a \<Rightarrow> if ca_user a \<noteq> en_user env then Inr w
        else sync_cash_account_balance_from_ledger env i w)"

definition audit_affected_account :: "env \<Rightarrow> pystr option \<Rightarrow> nat \<Rightarrow> world \<Rightarrow> world" where
  "audit_affected_account env reason i w = (case tget (accounts w) i of
      None \<Rightarrow> w
    | Some a \<Rightarrow> if ca_user a \<noteq> en_user env then w
        else record_asset_mutation env CASH_ACCOUNT (Some i) UPDATE None (Some (AccountState i a)) reason w)"

definition delete_account :: "nat \<Rightarrow> env \<Rightarrow> world \<Rightarrow> error + world" where
  "delete_account account_id env w =
     bindE (owned_account env AccountNotFound account_id w) (\<lambda>a.
     case delete_cash_account_related_transfers env account_id w of (affected, deleted_transfers, w1) \<Rightarrow>
     case delete_cash_account_related_settlements env account_id w1 of (deleted_transactions, w2) \<Rightarrow>
     bindE (foldE (sync_affected_account env) affected w2) (\<lambda>w3.
     let w4 = w3\<lparr>ledger := tdel_ids (map fst
           (list_cash_ledger_entries_for_account w3 (en_user env) account_id)) (ledger w3)\<rparr>;
         w5 = w4\<lparr>accounts := tdel account_id (accounts w4)\<rparr>;
         reason = ref ''CASH_ACCOUNT_DELETE'' account_id;
         w6 = record_asset_mutation env CASH_ACCOUNT (Some account_id) DELETE
           (Some (AccountState account_id a)) None None w5;
         w7 = fold (audit_affected_account env reason) affected w6;
         w8 = fold (\<lambda>k. record_asset_mutation env CASH_TRANSFER (Some k) DELETE None None reason)
           deleted_transfers w7;
         w9 = fold (\<lambda>k. record_asset_mutation env HOLDING_CASH_SETTLEMENT (Some k) DELETE None None reason)
           deleted_transactions w8
     in finish_request env w9))"

section \<open>Ledger entries and manual adjustments\<close>

definition list_cash_ledger_entries ::
  "nat option \<Rightarrow> nat \<Rightarrow> env \<Rightarrow> world \<Rightarrow> error + ledger_entry_read list" where
  "list_cash_ledger_entries account_id limit env w =
     bindE (case account_id of None \<Rightarrow> Inr ()
       | Some i \<Rightarrow> bindE (owned_account env AccountNotFound i w) (\<lambda>a. Inr ())) (\<lambda>_.
     mapE (\<lambda>(i, e). to_cash_ledger_entry_read i e) (take limit (rev (sort_key ledger_order
       (tselect (\<lambda>e. le_user e = en_user env \<and>
          (case account_id of None \<Rightarrow> True | Some i \<Rightarrow> le_account e = i)) (ledger w))))))"

definition ADJUSTMENT_SCOPE :: pystr where
  "ADJUSTMENT_SCOPE = lit ''cash_ledger_adjustment.create''"

definition apply_cash_ledger_adjustment ::
  "adjustment_create \<Rightarrow> env \<Rightarrow> world \<Rightarrow> error + adjustment_apply_read \<times> world" where
  \<comment> \<open>the part of \<open>create_cash_ledger_adjustment\<close> after the idempotency check, up to the response\<close>
  "apply_cash_ledger_adjustment payload env w =
     (let i = adc_account payload in
      bindE (owned_account env AccountNotFound i w) (\<lambda>a.
      bindE (ensure_date_not_future env (Some (adc_happened_on payload))) (\<lambda>_.
      bindE (create_cash_ledger_entry env (en_user env) i MANUAL_ADJUSTMENT (adc_amount payload)
          (ca_currency a) (adc_happened_on payload)
          (Some (note_or (adc_note payload) manual_adjustment_note)) None None w) (\<lambda>(k, w1).
      bindE (sync_cash_account_balance_from_ledger env i w1) (\<lambda>w2.
      let w3 = record_asset_mutation env CASH_LEDGER_ADJUSTMENT (Some k) CREATE None
            (ledger_state w2 k) (ref ''CASH_ACCOUNT'' i) w2;
          w4 = record_asset_mutation env CASH_ACCOUNT (Some i) UPDATE (Some (AccountState i a))
            (account_state w2 i) (ref ''LEDGER_ADJUSTMENT_CREATE'' k) w3
      in bindE (enqueue_user_portfolio_snapshot_rebuild env (en_user env) w4) (\<lambda>(job, w5).
      bindE (entry_read k w5) (\<lambda>er.
      bindE (account_read env i w5) (\<lambda>ar.
      Inr (\<lparr>aar_entry = er, aar_account = ar\<rparr>, w5)))))))))"

definition create_cash_ledger_adjustment ::
  "adjustment_create \<Rightarrow> pystr option \<Rightarrow> env \<Rightarrow> world \<Rightarrow> error + adjustment_apply_read \<times> world" where
  "create_cash_ledger_adjustment payload key env w =
     bindE (load_idempotent_response env ADJUSTMENT_SCOPE key (AdjustmentRequest payload) w) (\<lambda>stored.
     case stored of
       Some resp \<Rightarrow> (case resp of AdjustmentResponse r \<Rightarrow> Inr (r, w) | _ \<Rightarrow> Inl ValueError)
     | None \<Rightarrow>
         bindE (apply_cash_ledger_adjustment payload env w) (\<lambda>(response, w1).
         let w2 = store_idempotent_response env ADJUSTMENT_SCOPE key (AdjustmentRequest payload)
               (AdjustmentResponse response) w1
         in Inr (response, invalidate_dashboard_cache (Some (en_user env)) w2)))"

definition update_cash_ledger_adjustment ::
  "nat \<Rightarrow> adjustment_update \<Rightarrow> env \<Rightarrow> world \<Rightarrow> error + adjustment_apply_read \<times> world" where
  "update_cash_ledger_adjustment entry_id payload env w =
     bindE (get_manual_cash_ledger_adjustment w (en_user env) entry_id) (\<lambda>e.
     let i = le_account e in
     bindE (owned_account env AccountNotFound i w) (\<lambda>a.
     if adu_amount payload = None \<and> adu_happened_on payload = None \<and> adu_note payload = None
     then bindE (entry_read entry_id w) (\<lambda>er. bindE (account_read env i w) (\<lambda>ar.
            Inr (\<lparr>aar_entry = er, aar_account = ar\<rparr>, w)))
     else
       bindE (case field_value (adu_amount payload) of None \<Rightarrow> Inr (le_amount e)
         | Some x \<Rightarrow> liftA (quantize_decimal (of_fixed x))) (\<lambda>amount.
       bindE (ensure_date_not_future env (field_value (adu_happened_on payload))) (\<lambda>_.
       bindE (numeric_column amount) (\<lambda>amount.
       let e' = e\<lparr>le_amount := amount,
             le_happened_on := (case field_value (adu_happened_on payload) of
                 None \<Rightarrow> le_happened_on e | Some d \<Rightarrow> d),
             le_note := (case adu_note payload of None \<Rightarrow> le_note e
               | Some n \<Rightarrow> Some (note_or n manual_adjustment_note)),
             le_currency := normalize_currency (ca_currency a), le_updated_at := en_now env\<rparr>;
           w1 = w\<lparr>ledger := tput entry_id e' (ledger w)\<rparr>
       in bindE (sync_cash_account_balance_from_ledger env i w1) (\<lambda>w2.
       let w3 = record_asset_mutation env CASH_LEDGER_ADJUSTMENT (Some entry_id) UPDATE
             (Some (LedgerState entry_id e)) (ledger_state w2 entry_id) (ref ''CASH_ACCOUNT'' i) w2;
           w4 = record_asset_mutation env CASH_ACCOUNT (Some i) UPDATE (Some (AccountState i a))
             (account_state w2 i) (ref ''LEDGER_ADJUSTMENT_UPDATE'' entry_id) w3
       in bindE (enqueue_user_portfolio_snapshot_rebuild env (en_user env) w4) (\<lambda>(job, w5).
       bindE (entry_read entry_id w5) (\<lambda>er.
       bindE (account_read env i w5) (\<lambda>ar.
       Inr (\<lparr>aar_entry = er, aar_account = ar\<rparr>,
            invalidate_dashboard_cache (Some (en_user env)) w5))))))))))"

definition delete_cash_ledger_adjustment :: "nat \<Rightarrow> env \<Rightarrow> world \<Rightarrow> error + world" where
  "delete_cash_ledger_adjustment entry_id env w =
     bindE (get_manual_cash_ledger_adjustment w (en_user env) entry_id) (\<lambda>e.
     let i = le_account e in
     bindE (owned_account env AccountNotFound i w) (\<lambda>a.
     let w1 = w\<lparr>ledger := tdel entry_id (ledger w)\<rparr> in
     bindE (sync_cash_account_balance_from_ledger env i w1) (\<lambda>w2.
     let w3 = record_asset_mutation env CASH_LEDGER_ADJUSTMENT (Some entry_id) DELETE
           (Some (LedgerState entry_id e)) None (ref ''CASH_ACCOUNT'' i) w2;
         w4 = record_asset_mutation env CASH_ACCOUNT (Some i) UPDATE (Some (AccountState i a))
           (account_state w2 i) (ref ''LEDGER_ADJUSTMENT_DELETE'' entry_id) w3
     in finish_request env w4)))"

end
