(* ===== verification/Cash_Transfers.thy ===== *)
theory Cash_Transfers
  imports Cash_Accounts
begin

text \<open>
  Model of the second half of \<^verbatim>\<open>backend/app/services/cash_account_service.py\<close>: transfers between
  two accounts of a user. A transfer row owns two ledger entries, one leg on each account.
\<close>

section \<open>Amounts and legs\<close>

definition resolve_cash_transfer_target_amount ::
  "env \<Rightarrow> fixed \<Rightarrow> pystr \<Rightarrow> pystr \<Rightarrow> fixed option \<Rightarrow> error + fixed" where
  "resolve_cash_transfer_target_amount env source_amount source_currency target_currency provided =
     bindE (convert_cash_amount_between_currencies env source_amount source_currency target_currency)
       (\<lambda>(expected, fx_rate).
     case provided of
       None \<Rightarrow> Inr expected
     | Some p \<Rightarrow>
         bindE (liftA (quantize_decimal (of_fixed p))) (\<lambda>normalized.
         if dec_less FIXED_EPSILON (dec_abs (dec_sub (of_fixed normalized) (of_fixed expected)))
         then Inl (HTTPException 422 TargetAmountMismatch) else Inr normalized))"

definition post_transfer_legs ::
  "env \<Rightarrow> nat \<Rightarrow> nat \<Rightarrow> nat \<Rightarrow> cash_account \<Rightarrow> cash_account \<Rightarrow> fixed \<Rightarrow> fixed \<Rightarrow> date
   \<Rightarrow> pystr option \<Rightarrow> world \<Rightarrow> error + world" where
  \<comment> \<open>the two calls of \<open>_create_cash_ledger_entry\<close> for transfer \<open>k\<close> from \<open>i\<close> to \<open>j\<close>;
      \<open>-source_amount\<close> is computed in the decimal context\<close>
  "post_transfer_legs env k i j source_account target_account source_amount target_amount
       happened_on note w =
     bindE (liftA (quantize_decimal (dec_neg (of_fixed source_amount)))) (\<lambda>out_amount.
     bindE (create_cash_ledger_entry env (en_user env) i TRANSFER_OUT out_amount
         (ca_currency source_account) happened_on
         (Some (note_or note (transfer_out_note (ca_name target_account)))) None (Some k) w) (\<lambda>(out_id, w1).
     bindE (create_cash_ledger_entry env (en_user env) j TRANSFER_IN target_amount
         (ca_currency target_account) happened_on
         (Some (note_or note (transfer_in_note (ca_name source_account)))) None (Some k) w1) (\<lambda>(in_id, w2).
     Inr w2)))"

section \<open>Handlers\<close>

definition list_cash_transfers :: "nat \<Rightarrow> env \<Rightarrow> world \<Rightarrow> error + transfer_read list" where
  "list_cash_transfers limit env w =
     mapE (\<lambda>(i, t). to_cash_transfer_read i t) (take limit (rev (sort_key
       (\<lambda>p. (ct_transferred_on (snd p), ct_created_at (snd p), fst p))
       (tselect (\<lambda>t. ct_user t = en_user env) (transfers w)))))"

definition TRANSFER_SCOPE :: pystr where
  "TRANSFER_SCOPE = lit ''cash_transfer.create''"

definition check_transfer_accounts ::
  "env \<Rightarrow> nat \<Rightarrow> nat \<Rightarrow> world \<Rightarrow> error + cash_account \<times> cash_account" where
  "check_transfer_accounts env i j w =
     bindE (owned_account env SourceAccountNotFound i w) (\<lambda>source_account.
     bindE (owned_account env TargetAccountNotFound j w) (\<lambda>target_account.
     Inr (source_account, target_account)))"

definition transfer_response :: "env \<Rightarrow> nat \<Rightarrow> nat \<Rightarrow> nat \<Rightarrow> world \<Rightarrow> error + transfer_apply_read" where
  "transfer_response env k i j w =
     bindE (transfer_read_of k w) (\<lambda>tr.
     bindE (account_read env i w) (\<lambda>fr.
     bindE (account_read env j w) (\<lambda>tor.
     Inr \<lparr>tar_transfer = tr, tar_from = fr, tar_to = tor\<rparr>)))"

definition apply_cash_transfer :: "transfer_create \<Rightarrow> env \<Rightarrow> world \<Rightarrow> error + transfer_apply_read \<times> world" where
  \<comment> \<open>the part of \<open>create_cash_transfer\<close> after the idempotency check, up to the response\<close>
  "apply_cash_transfer payload env w =
     bindE (ensure_date_not_future env (Some (trc_transferred_on payload))) (\<lambda>_.
     let i = trc_from payload; j = trc_to payload in
     bindE (check_transfer_accounts env i j w) (\<lambda>(source_account, target_account).
     bindE (assertE (i \<noteq> j) (HTTPException 422 SameAccount)) (\<lambda>_.
     bindE (assertE (normalize_currency (ca_currency target_account) = lit ''CNY'')
         (HTTPException 422 TargetNotCNY)) (\<lambda>_.
     bindE (liftA (quantize_decimal (of_fixed (trc_source_amount payload)))) (\<lambda>source_amount.
     bindE (ensure_balance_covers (ca_balance source_account) source_amount) (\<lambda>_.
     bindE (resolve_cash_transfer_target_amount env source_amount (ca_currency source_account)
         (ca_currency target_account) (trc_target_amount payload)) (\<lambda>target_amount.
     bindE (numeric_column source_amount) (\<lambda>source_amount.
     bindE (numeric_column target_amount) (\<lambda>target_amount.
     let transfer = \<lparr>ct_user = en_user env, ct_from = i, ct_to = j,
           ct_source_amount = source_amount, ct_target_amount = target_amount,
           ct_source_currency = normalize_currency (ca_currency source_account),
           ct_target_currency = normalize_currency (ca_currency target_account),
           ct_transferred_on = trc_transferred_on payload, ct_note = trc_note payload,
           ct_created_at = en_now env, ct_updated_at = en_now env\<rparr>;
         res = tinsert transfer (transfers w); k = fst res;
         w1 = w\<lparr>transfers := snd res\<rparr>
     in bindE (post_transfer_legs env k i j source_account target_account source_amount target_amount
          (trc_transferred_on payload) (trc_note payload) w1) (\<lambda>w2.
     bindE (sync_cash_account_balance_from_ledger env i w2) (\<lambda>w3.
     bindE (sync_cash_account_balance_from_ledger env j w3) (\<lambda>w4.
     let w5 = record_asset_mutation env CASH_TRANSFER (Some k) CREATE None (transfer_state w4 k) None w4;
         w6 = record_asset_mutation env CASH_ACCOUNT (Some i) UPDATE
           (Some (AccountState i source_account)) (account_state w4 i) (ref ''TRANSFER_OUT'' k) w5;
         w7 = record_asset_mutation env CASH_ACCOUNT (Some j) UPDATE
           (Some (AccountState j target_account)) (account_state w4 j) (ref ''TRANSFER_IN'' k) w6
     in bindE (enqueue_user_portfolio_snapshot_rebuild env (en_user env) w7) (\<lambda>(job, w8).
     bindE (transfer_response env k i j w8) (\<lambda>resp. Inr (resp, w8)))))))))))))))"

definition create_cash_transfer ::
  "transfer_create \<Rightarrow> pystr option \<Rightarrow> env \<Rightarrow> world \<Rightarrow> error + transfer_apply_read \<times> world" where
  "create_cash_transfer payload key env w =
     bindE (load_idempotent_response env TRANSFER_SCOPE key (TransferRequest payload) w) (\<lambda>stored.
     case stored of
       Some resp \<Rightarrow> (case resp of TransferResponse r \<Rightarrow> Inr (r, w) | _ \<Rightarrow> Inl ValueError)
     | None \<Rightarrow>
         bindE (apply_cash_transfer payload env w) (\<lambda>(response, w1).
         let w2 = store_idempotent_response env TRANSFER_SCOPE key (TransferRequest payload)
               (TransferResponse response) w1
         in Inr (response, invalidate_dashboard_cache (Some (en_user env)) w2)))"

definition owned_transfer :: "env \<Rightarrow> nat \<Rightarrow> world \<Rightarrow> error + cash_transfer" where
  "owned_transfer env k w = (case tget (transfers w) k of
      None \<Rightarrow> Inl (HTTPException 404 TransferNotFound)
    | Some t \<Rightarrow> if ct_user t \<noteq> en_user env then Inl (HTTPException 404 TransferNotFound) else Inr t)"

definition no_transfer_fields :: "transfer_update \<Rightarrow> bool" where
  \<comment> \<open>\<open>not payload.model_fields_set\<close>\<close>
  "no_transfer_fields p \<longleftrightarrow> tru_from p = None \<and> tru_to p = None \<and> tru_source_amount p = None
     \<and> tru_target_amount p = None \<and> tru_transferred_on p = None \<and> tru_note p = None"

definition or_id :: "nat option \<Rightarrow> nat \<Rightarrow> nat" where
  \<comment> \<open>\<open>v or d\<close> on ids: zero is false\<close>
  "or_id v d = (case v of None \<Rightarrow> d | Some n \<Rightarrow> if n = 0 then d else n)"

definition provided_target_amount :: "transfer_update \<Rightarrow> cash_transfer \<Rightarrow> fixed option" where
  "provided_target_amount p t = (case tru_target_amount p of
      Some v \<Rightarrow> v
    | None \<Rightarrow> if tru_from p \<noteq> None \<or> tru_to p \<noteq> None \<or> tru_source_amount p \<noteq> None then None
        else Some (ct_target_amount t))"

definition remember_account :: "nat \<Rightarrow> world \<Rightarrow> (nat \<times> model_state) list \<Rightarrow> (nat \<times> model_state) list" where
  \<comment> \<open>\<open>account_before_state_map\<close>: the first captured state of each account, in order\<close>
  "remember_account i w m = (if i \<in> fst ` set m then m
     else case tget (accounts w) i of None \<Rightarrow> m | Some a \<Rightarrow> m @ [(i, AccountState i a)])"

definition audit_remembered_account ::
  "env \<Rightarrow> pystr option \<Rightarrow> nat \<times> model_state \<Rightarrow> world \<Rightarrow> world" where
  "audit_remembered_account env reason = (\<lambda>(i, before) w. case tget (accounts w) i of
      None \<Rightarrow> w
    | Some a \<Rightarrow> if ca_user a \<noteq> en_user env then w
        else record_asset_mutation env CASH_ACCOUNT (Some i) UPDATE (Some before)
               (Some (AccountState i a)) reason w)"

definition withdraw_transfer :: "env \<Rightarrow> nat \<Rightarrow> cash_transfer \<Rightarrow> world \<Rightarrow> error + world" where
  \<comment> \<open>undo the legs of a transfer before they are posted again\<close>
  "withdraw_transfer env k t w =
     (let w1 = delete_cash_ledger_entries_for_transfer (en_user env) k w in
      bindE (sync_cash_account_balance_from_ledger env (ct_from t) w1) (\<lambda>w2.
      if ct_to t \<noteq> ct_from t then sync_cash_account_balance_from_ledger env (ct_to t) w2 else Inr w2))"

definition updated_transfer ::
  "env \<Rightarrow> cash_transfer \<Rightarrow> nat \<Rightarrow> nat \<Rightarrow> cash_account \<Rightarrow> cash_account \<Rightarrow> fixed \<Rightarrow> fixed \<Rightarrow> date
   \<Rightarrow> pystr option \<Rightarrow> cash_transfer" where
  "updated_transfer env t i j source_account target_account source_amount target_amount transferred_on note =
     t\<lparr>ct_from := i, ct_to := j, ct_source_amount := source_amount, ct_target_amount := target_amount,
       ct_source_currency := normalize_currency (ca_currency source_account),
       ct_target_currency := normalize_currency (ca_currency target_account),
       ct_transferred_on := transferred_on, ct_note := note, ct_updated_at := en_now env\<rparr>"

definition update_cash_transfer ::
  "nat \<Rightarrow> transfer_update \<Rightarrow> env \<Rightarrow> world \<Rightarrow> error + transfer_apply_read \<times> world" where
  "update_cash_transfer k payload env w =
     bindE (owned_transfer env k w) (\<lambda>t.
     if no_transfer_fields payload
     then (if tget (accounts w) (ct_from t) = None \<or> tget (accounts w) (ct_to t) = None
           then Inl (HTTPException 404 AccountNotFound)
           else bindE (transfer_response env k (ct_from t) (ct_to t) w) (\<lambda>resp. Inr (resp, w)))
     else
     bindE (owned_account env OriginalSourceNotFound (ct_from t) w) (\<lambda>current_source.
     bindE (owned_account env OriginalTargetNotFound (ct_to t) w) (\<lambda>current_target.
     let before0 = remember_account (ct_to t) w (remember_account (ct_from t) w []) in
     bindE (withdraw_transfer env k t w) (\<lambda>w2.
     let i = or_id (field_value (tru_from payload)) (ct_from t);
         j = or_id (field_value (tru_to payload)) (ct_to t) in
     bindE (assertE (i \<noteq> j) (HTTPException 422 SameAccount)) (\<lambda>_.
     bindE (check_transfer_accounts env i j w2) (\<lambda>(source_account, target_account).
     bindE (assertE (normalize_currency (ca_currency target_account) = lit ''CNY'')
         (HTTPException 422 TargetNotCNY)) (\<lambda>_.
     let before = remember_account j w2 (remember_account i w2 before0) in
     bindE (case field_value (tru_source_amount payload) of
         Some x \<Rightarrow> liftA (quantize_decimal (of_fixed x)) | None \<Rightarrow> Inr (ct_source_amount t)) (\<lambda>source_amount.
     let transferred_on = (case field_value (tru_transferred_on payload) of
           Some d \<Rightarrow> d | None \<Rightarrow> ct_transferred_on t);
         note = (case tru_note payload of Some n \<Rightarrow> n | None \<Rightarrow> ct_note t) in
     bindE (ensure_date_not_future env (Some transferred_on)) (\<lambda>_.
     bindE (ensure_balance_covers (ca_balance source_account) source_amount) (\<lambda>_.
     bindE (resolve_cash_transfer_target_amount env source_amount (ca_currency source_account)
         (ca_currency target_account) (provided_target_amount payload t)) (\<lambda>target_amount.
     bindE (numeric_column source_amount) (\<lambda>source_amount.
     bindE (numeric_column target_amount) (\<lambda>target_amount.
     let w3 = w2\<lparr>transfers := tput k (updated_transfer env t i j source_account target_account
           source_amount target_amount transferred_on note) (transfers w2)\<rparr> in
     bindE (post_transfer_legs env k i j source_account target_account source_amount target_amount
         transferred_on note w3) (\<lambda>w4.
     bindE (sync_cash_account_balance_from_ledger env i w4) (\<lambda>w5.
     bindE (if j \<noteq> i then sync_cash_account_balance_from_ledger env j w5 else Inr w5) (\<lambda>w6.
     let w7 = record_asset_mutation env CASH_TRANSFER (Some k) UPDATE (Some (TransferState k t))
           (transfer_state w6 k) (Some (lit ''TRANSFER_EDIT'')) w6;
         w8 = fold (audit_remembered_account env (ref ''TRANSFER_UPDATE'' k)) before w7
     in bindE (enqueue_user_portfolio_snapshot_rebuild env (en_user env) w8) (\<lambda>(job, w9).
     bindE (transfer_response env k i j w9) (\<lambda>resp.
     Inr (resp, invalidate_dashboard_cache (Some (en_user env)) w9)))))))))))))))))))"

definition delete_cash_transfer :: "nat \<Rightarrow> env \<Rightarrow> world \<Rightarrow> error + world" where
  "delete_cash_transfer k env w =
     bindE (owned_transfer env k w) (\<lambda>t.
     let i = ct_from t; j = ct_to t;
         w1 = delete_cash_ledger_entries_for_transfer (en_user env) k w;
         w2 = w1\<lparr>transfers := tdel k (transfers w1)\<rparr>
     in bindE (sync_affected_account env i w2) (\<lambda>w3.
        bindE (sync_affected_account env j w3) (\<lambda>w4.
        let w5 = record_asset_mutation env CASH_TRANSFER (Some k) DELETE (Some (TransferState k t))
              None None w4;
            reason = ref ''TRANSFER_DELETE'' k;
            w6 = (case account_state w i of None \<Rightarrow> w5
              | Some before \<Rightarrow> record_asset_mutation env CASH_ACCOUNT (Some i) UPDATE (Some before)
                  (account_state w4 i) reason w5);
            w7 = (case account_state w j of None \<Rightarrow> w6
              | Some before \<Rightarrow> record_asset_mutation env CASH_ACCOUNT (Some j) UPDATE (Some before)
                  (account_state w4 j) reason w6)
        in finish_request env w7)))"

end
