(* ===== verification/Cash_Invariant.thy ===== *)
theory Cash_Invariant
  imports Cash_Transfers
begin

text \<open>
  The invariant of the cash side of the database and what each primitive step does to it.
  \<open>cash_ok S E D X w\<close> says that the world is consistent but for the exceptions a handler
  has made and not yet repaired: the accounts \<open>S\<close> whose balance column is behind the ledger,
  the accounts \<open>E\<close> whose initial entry still has the old currency, the transfers \<open>D\<close>
  whose legs are being rewritten and the transactions \<open>X\<close> whose settlement is. A committed
  world satisfies \<open>cash_ok {} {} {} {}\<close>, written \<open>cash_inv\<close>.
\<close>

section \<open>The invariant\<close>

text \<open>Every entry belongs to an account of its user and is in that account's currency.\<close>

definition entry_ok :: "nat set \<Rightarrow> world \<Rightarrow> ledger_entry \<Rightarrow> bool" where
  "entry_ok E w e \<longleftrightarrow>
     (\<exists>a. tget (accounts w) (le_account e) = Some a \<and> ca_user a = le_user e \<and>
        (le_account e \<in> E \<and> le_type e = INITIAL_BALANCE \<or> ca_currency a = le_currency e)) \<and>
     (le_type e = INITIAL_BALANCE \<longrightarrow> le_transaction e = None \<and> le_transfer e = None) \<and>
     (le_transaction e = None \<or> le_transfer e = None)"

definition initial_unique :: "world \<Rightarrow> bool" where
  "initial_unique w \<longleftrightarrow>
     (\<forall>k e k' e'. tget (ledger w) k = Some e \<longrightarrow> tget (ledger w) k' = Some e' \<longrightarrow>
        le_type e = INITIAL_BALANCE \<longrightarrow> le_type e' = INITIAL_BALANCE \<longrightarrow>
        le_account e = le_account e' \<longrightarrow> k = k')"

definition currencies_ok :: "world \<Rightarrow> bool" where
  "currencies_ok w \<longleftrightarrow>
     (\<forall>i a. tget (accounts w) i = Some a \<longrightarrow> normalize_currency (ca_currency a) = ca_currency a)"

text \<open>A transfer is posted twice, out of its source and into its target.\<close>

type_synonym leg = "pystr \<times> nat \<times> entry_type \<times> fixed \<times> pystr"

definition leg_of :: "ledger_entry \<Rightarrow> leg" where
  "leg_of e = (le_user e, le_account e, le_type e, le_amount e, le_currency e)"

definition posted_legs :: "world \<Rightarrow> nat \<Rightarrow> leg list" where
  "posted_legs w t = map (\<lambda>(k, e). leg_of e) (tselect (\<lambda>e. le_transfer e = Some t) (ledger w))"

definition transfer_legs :: "cash_transfer \<Rightarrow> leg list" where
  "transfer_legs r =
     [(ct_user r, ct_from r, TRANSFER_OUT, - ct_source_amount r, ct_source_currency r),
      (ct_user r, ct_to r, TRANSFER_IN, ct_target_amount r, ct_target_currency r)]"

definition legs_ok :: "world \<Rightarrow> nat \<Rightarrow> bool" where
  "legs_ok w t \<longleftrightarrow> posted_legs w t =
     (case tget (transfers w) t of None \<Rightarrow> [] | Some r \<Rightarrow> transfer_legs r)"

text \<open>
  The entries of a trade are on the account of its settlement; a live trade without a
  settlement has no entry, and a trade has at most one settlement.
\<close>

definition entry_settled :: "nat set \<Rightarrow> world \<Rightarrow> ledger_entry \<Rightarrow> bool" where
  "entry_settled X w e \<longleftrightarrow> (\<forall>x. le_transaction e = Some x \<longrightarrow>
     x < next_id (transactions w) \<and>
     (x \<notin> X \<longrightarrow>
       (\<forall>j s. tget (settlements w) j = Some s \<longrightarrow> st_transaction s = x \<longrightarrow>
          le_account e = st_account s \<and> le_user e = st_user s) \<and>
       (tget (transactions w) x \<noteq> None \<longrightarrow>
          (\<exists>j s. tget (settlements w) j = Some s \<and> st_transaction s = x))))"

definition settlement_unique :: "world \<Rightarrow> bool" where
  "settlement_unique w \<longleftrightarrow> (\<forall>j s j' s'. tget (settlements w) j = Some s \<longrightarrow>
     tget (settlements w) j' = Some s' \<longrightarrow> st_transaction s = st_transaction s' \<longrightarrow> j = j')"

definition settlement_owned :: "world \<Rightarrow> bool" where
  "settlement_owned w \<longleftrightarrow> (\<forall>j s. tget (settlements w) j = Some s \<longrightarrow>
     st_transaction s < next_id (transactions w) \<and>
     (\<forall>t. tget (transactions w) (st_transaction s) = Some t \<longrightarrow> st_user s = tx_user t))"

definition cash_ok :: "nat set \<Rightarrow> nat set \<Rightarrow> nat set \<Rightarrow> nat set \<Rightarrow> world \<Rightarrow> bool" where
  "cash_ok S E D X w \<longleftrightarrow> bal w S \<and> twf (transfers w) \<and> twf (settlements w) \<and> twf (transactions w) \<and>
     (\<forall>k e. tget (ledger w) k = Some e \<longrightarrow> entry_ok E w e \<and> entry_settled X w e) \<and>
     initial_unique w \<and> currencies_ok w \<and> settlement_unique w \<and> settlement_owned w \<and> (\<forall>t. t \<notin> D \<longrightarrow> legs_ok w t)"

definition cash_inv :: "world \<Rightarrow> bool" where
  "cash_inv w \<longleftrightarrow> cash_ok {} {} {} {} w"

lemma entry_ok_mono: "entry_ok E w e \<Longrightarrow> E \<subseteq> E' \<Longrightarrow> entry_ok E' w e"
  by (auto simp: entry_ok_def)

lemma entry_settled_mono: "entry_settled X w e \<Longrightarrow> X \<subseteq> X' \<Longrightarrow> entry_settled X' w e"
  by (auto simp: entry_settled_def)

lemma cash_ok_mono:
  assumes "cash_ok S E D X w" "S \<subseteq> S'" "E \<subseteq> E'" "D \<subseteq> D'" "X \<subseteq> X'"
  shows "cash_ok S' E' D' X' w"
  using assms bal_mono [of w S S'] entry_ok_mono [of E w _ E'] entry_settled_mono [of X w _ X']
  unfolding cash_ok_def by (metis subsetD)

lemma cash_ok_wf:
  "cash_ok S E D X w \<Longrightarrow> twf (accounts w) \<and> twf (ledger w) \<and> twf (transfers w)
     \<and> twf (settlements w) \<and> twf (transactions w)"
  by (simp add: cash_ok_def bal_def)

text \<open>Only five tables matter.\<close>

lemmas cash_parts = entry_ok_def entry_settled_def initial_unique_def currencies_ok_def
  settlement_unique_def settlement_owned_def legs_ok_def posted_legs_def

lemma cash_ok_frame:
  assumes "accounts w' = accounts w" "ledger w' = ledger w" "transfers w' = transfers w"
    "settlements w' = settlements w" "transactions w' = transactions w"
  shows "cash_ok S E D X w' = cash_ok S E D X w"
  using assms bal_frame [OF assms(1,2), of S] by (simp add: cash_ok_def cash_parts)

lemma cash_ok_record [simp]:
  "cash_ok S E D X (record_asset_mutation env et eid op b a r w) = cash_ok S E D X w"
  by (rule cash_ok_frame) simp_all

lemma cash_ok_invalidate [simp]:
  "cash_ok S E D X (invalidate_dashboard_cache u w) = cash_ok S E D X w"
  by (rule cash_ok_frame) simp_all

lemma cash_ok_store [simp]:
  "cash_ok S E D X (store_idempotent_response env sc key q r w) = cash_ok S E D X w"
  by (rule cash_ok_frame) simp_all

lemma cash_ok_jobs [simp]: "cash_ok S E D X (w\<lparr>jobs := t\<rparr>) = cash_ok S E D X w"
  by (rule cash_ok_frame) simp_all

lemma cash_ok_enqueue:
  "cash_ok S E D X w \<Longrightarrow> okp (enqueue_user_portfolio_snapshot_rebuild env u w) (\<lambda>(j, w'). cash_ok S E D X w')"
  by (rule okp_enqueue_rebuild) simp

lemma cash_ok_finish: "cash_ok S E D X w \<Longrightarrow> okp (finish_request env w) (cash_ok S E D X)"
  unfolding finish_request_def by (simp add: case_prod_beta') (rule okp_enqueue_rebuild, simp)

lemma cash_ok_entryD:
  "cash_ok S E D X w \<Longrightarrow> tget (ledger w) k = Some e \<Longrightarrow> entry_ok E w e \<and> entry_settled X w e"
  by (simp add: cash_ok_def)

lemma cash_ok_legsD: "cash_ok S E D X w \<Longrightarrow> t \<notin> D \<Longrightarrow> legs_ok w t"
  by (simp add: cash_ok_def)

lemma cash_ok_currencyD:
  "cash_ok S E D X w \<Longrightarrow> tget (accounts w) i = Some a \<Longrightarrow> normalize_currency (ca_currency a) = ca_currency a"
  by (simp add: cash_ok_def currencies_ok_def)

section \<open>Entries\<close>

lemma cash_insert_entry:
  assumes ok: "cash_ok S E D X w" and e: "entry_ok E w e" "entry_settled X w e"
    and init: "le_type e = INITIAL_BALANCE \<Longrightarrow>
      \<forall>k e'. tget (ledger w) k = Some e' \<longrightarrow> le_type e' = INITIAL_BALANCE \<longrightarrow> le_account e' \<noteq> le_account e"
  shows "cash_ok (insert (le_account e) S) E (set_option (le_transfer e) \<union> D) X
    (w\<lparr>ledger := snd (tinsert e (ledger w))\<rparr>)"
proof -
  let ?w = "w\<lparr>ledger := snd (tinsert e (ledger w))\<rparr>"
  from cash_ok_wf [OF ok] have wf: "twf (ledger w)" by simp
  have "bal ?w (S \<union> {le_account e})"
    by (rule bal_ledger_change) (use ok wf in \<open>auto simp: cash_ok_def entries_of_insert\<close>)
  moreover have "initial_unique ?w"
    using ok init wf unfolding cash_ok_def initial_unique_def
    by (simp add: tbl.get_insert) metis
  moreover have "entry_ok E ?w e' = entry_ok E w e'" "entry_settled X ?w e' = entry_settled X w e'" for e'
    by (simp_all add: entry_ok_def entry_settled_def)
  moreover have "legs_ok ?w t" if "t \<notin> set_option (le_transfer e) \<union> D" for t
    using that cash_ok_legsD [OF ok, of t]
    by (auto simp: legs_ok_def posted_legs_def tbl.select_insert)
  ultimately show ?thesis using ok e wf
    by (auto simp: cash_ok_def tbl.get_insert currencies_ok_def settlement_unique_def settlement_owned_def split: if_splits)
qed

lemma cash_put_entry:
  assumes ok: "cash_ok S E D X w" and k: "tget (ledger w) k = Some e0" and e: "entry_ok E w e"
    and same: "le_user e = le_user e0" "le_account e = le_account e0" "le_type e = le_type e0"
      "le_transaction e = le_transaction e0" "le_transfer e0 = None" "le_transfer e = None"
  shows "cash_ok (insert (le_account e) S) E D X (w\<lparr>ledger := tput k e (ledger w)\<rparr>)"
proof -
  let ?w = "w\<lparr>ledger := tput k e (ledger w)\<rparr>"
  from cash_ok_wf [OF ok] have wf: "twf (ledger w)" by simp
  have "bal ?w (insert (le_account e) S)"
    using entry_change_bal [OF _ k, of S e] ok same by (simp add: cash_ok_def)
  moreover have "initial_unique ?w"
    using ok k same unfolding cash_ok_def initial_unique_def
    by (simp add: tbl.get_put) metis
  moreover have "entry_ok E ?w e' = entry_ok E w e'" "entry_settled X ?w e' = entry_settled X w e'" for e'
    by (simp_all add: entry_ok_def entry_settled_def)
  moreover have "entry_settled X w e"
    using cash_ok_entryD [OF ok k] same by (simp add: entry_settled_def)
  moreover have "legs_ok ?w t" if "t \<notin> D" for t
    using cash_ok_legsD [OF ok that] tbl.select_put_frame [OF wf k, of "\<lambda>e. le_transfer e = Some t" e] same
    by (simp add: legs_ok_def posted_legs_def)
  ultimately show ?thesis using ok e wf
    by (auto simp: cash_ok_def tbl.get_put currencies_ok_def settlement_unique_def settlement_owned_def split: if_splits)
qed

lemma delete_ids_bal:
  assumes "bal w S" and "\<And>k e. k \<in> set is \<Longrightarrow> tget (ledger w) k = Some e \<Longrightarrow> le_account e \<in> T"
  shows "bal (w\<lparr>ledger := tdel_ids is (ledger w)\<rparr>) (S \<union> T)"
proof (rule bal_ledger_change [OF assms(1)])
  show "twf (ledger (w\<lparr>ledger := tdel_ids is (ledger w)\<rparr>))" using assms(1) by (simp add: bal_def)
  fix u i assume "i \<notin> T"
  with assms show "entries_of (w\<lparr>ledger := tdel_ids is (ledger w)\<rparr>) u i = entries_of w u i"
    by (auto simp: entries_of_def tdel_ids_def bal_def intro!: tbl.select_fold_del_frame)
qed simp

lemma cash_delete_entries:
  assumes ok: "cash_ok S E D X w"
    and T: "\<And>k e. k \<in> set is \<Longrightarrow> tget (ledger w) k = Some e \<Longrightarrow>
      le_account e \<in> T \<and> set_option (le_transfer e) \<subseteq> D"
  shows "cash_ok (S \<union> T) E D X (w\<lparr>ledger := tdel_ids is (ledger w)\<rparr>)"
proof -
  let ?w = "w\<lparr>ledger := tdel_ids is (ledger w)\<rparr>"
  from cash_ok_wf [OF ok] have wf: "twf (ledger w)" by simp
  have "bal ?w (S \<union> T)" using delete_ids_bal [of w S "is" T] ok T by (auto simp: cash_ok_def)
  moreover have "initial_unique ?w"
    using ok unfolding cash_ok_def initial_unique_def by (simp add: tget_tdel_ids)
  moreover have "entry_ok E ?w e' = entry_ok E w e'" "entry_settled X ?w e' = entry_settled X w e'" for e'
    by (simp_all add: entry_ok_def entry_settled_def)
  moreover have "legs_ok ?w t" if t: "t \<notin> D" for t
  proof -
    have "tselect (\<lambda>e. le_transfer e = Some t) (tdel_ids is (ledger w))
        = tselect (\<lambda>e. le_transfer e = Some t) (ledger w)"
      unfolding tdel_ids_def
      by (rule tbl.select_fold_del_frame [OF wf]) (use T t in force)
    with cash_ok_legsD [OF ok t] show ?thesis by (simp add: legs_ok_def posted_legs_def)
  qed
  ultimately show ?thesis using ok wf
    by (auto simp: cash_ok_def tget_tdel_ids currencies_ok_def settlement_unique_def settlement_owned_def split: if_splits)
qed

section \<open>Accounts\<close>

lemma cash_put_account:
  assumes ok: "cash_ok S E D X w" and a: "tget (accounts w) i = Some a"
    and a': "ca_user a' = ca_user a" "normalize_currency (ca_currency a') = ca_currency a'"
      "i \<in> S \<or> ca_balance a' = ca_balance a"
    and E: "E \<subseteq> E'" "ca_currency a' = ca_currency a \<or>
      i \<in> E' \<and> (\<forall>k e. tget (ledger w) k = Some e \<longrightarrow> le_account e = i \<longrightarrow> le_type e = INITIAL_BALANCE)"
  shows "cash_ok S E' D X (w\<lparr>accounts := tput i a' (accounts w)\<rparr>)"
proof -
  let ?w = "w\<lparr>accounts := tput i a' (accounts w)\<rparr>"
  have "bal ?w S" by (rule bal_account_change [OF _ a]) (use ok a' in \<open>simp_all add: cash_ok_def\<close>)
  moreover have "entry_ok E' ?w e" if "tget (ledger w) k = Some e" for k e
    using cash_ok_entryD [OF ok that] a a'(1) E that by (auto simp: entry_ok_def tbl.get_put)
  moreover have "entry_settled X ?w e = entry_settled X w e" for e
    by (simp add: entry_settled_def)
  moreover have "legs_ok ?w t = legs_ok w t" for t by (simp add: legs_ok_def posted_legs_def)
  moreover have "currencies_ok ?w"
    using ok a' by (auto simp: cash_ok_def currencies_ok_def tbl.get_put)
  ultimately show ?thesis using ok
    by (auto simp: cash_ok_def initial_unique_def settlement_unique_def settlement_owned_def)
qed

lemma cash_insert_account:
  assumes ok: "cash_ok S E D X w" and a: "normalize_currency (ca_currency a) = ca_currency a"
  shows "cash_ok (insert (fst (tinsert a (accounts w))) S) E D X
    (w\<lparr>accounts := snd (tinsert a (accounts w))\<rparr>)"
proof -
  let ?w = "w\<lparr>accounts := snd (tinsert a (accounts w))\<rparr>"
  from cash_ok_wf [OF ok] have wf: "twf (accounts w)" by simp
  have "bal ?w (insert (fst (tinsert a (accounts w))) S)"
    by (rule bal_account_insert) (use ok in \<open>simp add: cash_ok_def\<close>)
  moreover have "entry_ok E ?w e" if "tget (ledger w) k = Some e" for k e
    using cash_ok_entryD [OF ok that] tbl.get_old_insert [OF wf] by (auto simp: entry_ok_def)
  moreover have "entry_settled X ?w e = entry_settled X w e" for e
    by (simp add: entry_settled_def)
  moreover have "legs_ok ?w t = legs_ok w t" for t by (simp add: legs_ok_def posted_legs_def)
  moreover have "currencies_ok ?w"
    using ok a wf by (auto simp: cash_ok_def currencies_ok_def tbl.get_insert split: if_splits)
  ultimately show ?thesis using ok
    by (auto simp: cash_ok_def initial_unique_def settlement_unique_def settlement_owned_def)
qed

lemma cash_delete_account:
  assumes ok: "cash_ok S E D X w"
    and free: "\<And>k e. tget (ledger w) k = Some e \<Longrightarrow> le_account e \<noteq> i"
  shows "cash_ok (S - {i}) E D X (w\<lparr>accounts := tdel i (accounts w)\<rparr>)"
proof -
  let ?w = "w\<lparr>accounts := tdel i (accounts w)\<rparr>"
  have "bal ?w (S - {i})" by (rule bal_account_delete) (use ok in \<open>simp add: cash_ok_def\<close>)
  moreover have "entry_ok E ?w e" if "tget (ledger w) k = Some e" for k e
    using cash_ok_entryD [OF ok that] free [OF that] by (auto simp: entry_ok_def tbl.get_del)
  moreover have "entry_settled X ?w e = entry_settled X w e" for e
    by (simp add: entry_settled_def)
  moreover have "legs_ok ?w t = legs_ok w t" for t by (simp add: legs_ok_def posted_legs_def)
  moreover have "currencies_ok ?w"
    using ok by (auto simp: cash_ok_def currencies_ok_def tbl.get_del)
  ultimately show ?thesis using ok
    by (auto simp: cash_ok_def initial_unique_def settlement_unique_def settlement_owned_def)
qed

lemma cash_sync:
  assumes ok: "cash_ok S E D X w"
  shows "okp (sync_cash_account_balance_from_ledger env i w) (cash_ok (S - {i}) E D X)"
proof (rule okpI)
  fix w' assume s: "sync_cash_account_balance_from_ledger env i w = Inr w'"
  then obtain a b where a: "tget (accounts w) i = Some a"
    and w': "w' = w\<lparr>accounts := tput i (a\<lparr>ca_balance := b, ca_updated_at := en_now env\<rparr>) (accounts w)\<rparr>"
    by (rule sync_result)
  have "cash_ok (insert i S) E D X w'"
    unfolding w' by (rule cash_put_account [OF cash_ok_mono [OF ok] a])
      (use cash_ok_currencyD [OF ok a] in auto)
  moreover have "bal w' (S - {i})"
    using okpD [OF sync_bal s] ok by (simp add: cash_ok_def)
  ultimately show "cash_ok (S - {i}) E D X w'" by (simp add: cash_ok_def)
qed

text \<open>The currency exception of an account ends when its initial entry has the new currency.\<close>

lemma cash_currency_done:
  assumes ok: "cash_ok S E D X w"
    and cur: "\<And>k e a. tget (ledger w) k = Some e \<Longrightarrow> le_account e = i \<Longrightarrow> le_type e = INITIAL_BALANCE \<Longrightarrow>
      tget (accounts w) i = Some a \<Longrightarrow> ca_currency a = le_currency e"
  shows "cash_ok S (E - {i}) D X w"
proof -
  have "entry_ok (E - {i}) w e" if "tget (ledger w) k = Some e" for k e
    using cash_ok_entryD [OF ok that] cur [OF that] by (auto simp: entry_ok_def)
  with ok show ?thesis by (simp add: cash_ok_def)
qed

lemma cash_reconcile:
  assumes ok: "cash_ok S E D X w"
  shows "okp (reconcile_cash_account_initial_ledger_entry env i target w) (cash_ok (S - {i}) (E - {i}) D X)"
proof (rule okpI)
  fix w' assume rec: "reconcile_cash_account_initial_ledger_entry env i target w = Inr w'"
  from cash_ok_wf [OF ok] have wf: "twf (ledger w)" by simp
  obtain a r l where a: "tget (accounts w) i = Some a"
    and r: "le_user r = ca_user a" "le_account r = i" "le_type r = INITIAL_BALANCE"
      "le_transaction r = None" "le_transfer r = None" "le_currency r = normalize_currency (ca_currency a)"
    and l: "get_cash_account_initial_ledger_entry w (ca_user a) i = None \<and> l = snd (tinsert r (ledger w))
     \<or> (\<exists>k e0. get_cash_account_initial_ledger_entry w (ca_user a) i = Some (k, e0)
          \<and> l = tput k r (ledger w))"
    and s: "sync_cash_account_balance_from_ledger env i (w\<lparr>ledger := l\<rparr>) = Inr w'"
    by (rule reconcile_result [OF rec wf]) blast
  from r a cash_ok_currencyD [OF ok a] have r_ok: "entry_ok E w r" "le_currency r = ca_currency a"
    by (simp_all add: entry_ok_def)
  from l have "cash_ok (insert i S) E D X (w\<lparr>ledger := l\<rparr>) \<and>
    (\<forall>k e. tget l k = Some e \<longrightarrow> le_account e = i \<longrightarrow> le_type e = INITIAL_BALANCE \<longrightarrow> e = r)"
  proof (elim disjE exE conjE)
    assume none: "get_cash_account_initial_ledger_entry w (ca_user a) i = None" "l = snd (tinsert r (ledger w))"
    from initial_entry_None [OF this(1) wf] cash_ok_entryD [OF ok] a
    have no: "le_account e \<noteq> i" if "tget (ledger w) k = Some e" "le_type e = INITIAL_BALANCE" for k e
      using that by (fastforce simp: entry_ok_def)
    have "cash_ok (insert (le_account r) S) E (set_option (le_transfer r) \<union> D) X
      (w\<lparr>ledger := snd (tinsert r (ledger w))\<rparr>)"
      by (rule cash_insert_entry [OF ok r_ok(1)]) (use r no in \<open>auto simp: entry_settled_def\<close>)
    with none r no wf show ?thesis by (auto simp: tbl.get_insert split: if_splits)
  next
    fix k e0
    assume some: "get_cash_account_initial_ledger_entry w (ca_user a) i = Some (k, e0)" "l = tput k r (ledger w)"
    from initial_entry_SomeD [OF this(1) wf] have e0: "tget (ledger w) k = Some e0"
      "le_user e0 = ca_user a" "le_account e0 = i" "le_type e0 = INITIAL_BALANCE"
      "le_transaction e0 = None" "le_transfer e0 = None" by simp_all
    have "cash_ok (insert (le_account r) S) E D X (w\<lparr>ledger := tput k r (ledger w)\<rparr>)"
      by (rule cash_put_entry [OF ok e0(1) r_ok(1)]) (use r e0 in simp_all)
    moreover have "e = r" if "tget l k' = Some e" "le_account e = i" "le_type e = INITIAL_BALANCE" for k' e
    proof (cases "k' = k")
      case False
      with that some have "tget (ledger w) k' = Some e" by (simp add: tbl.get_put)
      with ok e0 that False show ?thesis
        by (auto simp: cash_ok_def initial_unique_def)
    qed (use that some e0 in \<open>simp add: tbl.get_put\<close>)
    ultimately show ?thesis using some r by simp
  qed
  then have "cash_ok (insert i S) (E - {i}) D X (w\<lparr>ledger := l\<rparr>)"
    by (elim conjE) (erule cash_currency_done, use a r_ok in fastforce)
  from okpD [OF cash_sync [OF this] s] show "cash_ok (S - {i}) (E - {i}) D X w'"
    by (rule cash_ok_mono) auto
qed

section \<open>Transfers\<close>

lemma cash_change_transfers:
  assumes ok: "cash_ok S E D X w" and T: "twf T"
    and same: "\<And>t. t \<notin> D \<Longrightarrow> tget T t = tget (transfers w) t"
  shows "cash_ok S E D X (w\<lparr>transfers := T\<rparr>)"
proof -
  have "legs_ok (w\<lparr>transfers := T\<rparr>) t" if "t \<notin> D" for t
    using cash_ok_legsD [OF ok that] same [OF that] by (simp add: legs_ok_def posted_legs_def)
  moreover have "bal (w\<lparr>transfers := T\<rparr>) S = bal w S" by (rule bal_frame) simp_all
  ultimately show ?thesis using ok T
    by (simp add: cash_ok_def entry_ok_def entry_settled_def initial_unique_def currencies_ok_def
        settlement_unique_def settlement_owned_def)
qed

lemma cash_legs_done: "cash_ok S E D X w \<Longrightarrow> legs_ok w t \<Longrightarrow> cash_ok S E (D - {t}) X w"
  by (auto simp: cash_ok_def)

lemma posted_legs_Nil:
  "twf (ledger w) \<Longrightarrow> posted_legs w t = [] \<longleftrightarrow> (\<forall>k e. tget (ledger w) k = Some e \<longrightarrow> le_transfer e \<noteq> Some t)"
  by (simp add: posted_legs_def tbl.select_empty_iff)

definition owned_by :: "pystr \<Rightarrow> world \<Rightarrow> nat set" where
  "owned_by u w = {i. \<exists>a. tget (accounts w) i = Some a \<and> ca_user a = u}"

lemma owned_by_frame: "accounts w' = accounts w \<Longrightarrow> owned_by u w' = owned_by u w"
  by (simp add: owned_by_def)

text \<open>The entries of a transfer are its two legs.\<close>

lemma transfer_entryD:
  assumes "cash_ok S E D X w" "t \<notin> D" "tget (ledger w) k = Some e" "le_transfer e = Some t"
  obtains r where "tget (transfers w) t = Some r" "le_user e = ct_user r" "le_account e \<in> {ct_from r, ct_to r}"
proof -
  from cash_ok_wf [OF assms(1)] assms(3,4) have "leg_of e \<in> set (posted_legs w t)"
    by (force simp: posted_legs_def tbl.select_iff)
  with cash_ok_legsD [OF assms(1,2)] obtain r where "tget (transfers w) t = Some r" "leg_of e \<in> set (transfer_legs r)"
    by (auto simp: legs_ok_def split: option.splits)
  then show ?thesis by (intro that) (auto simp: transfer_legs_def leg_of_def)
qed

lemma cash_delete_transfer_entries:
  assumes ok: "cash_ok S E D X w" and t: "t \<notin> D" "tget (transfers w) t = Some r" "ct_user r = u"
  defines "w' \<equiv> delete_cash_ledger_entries_for_transfer u t w"
  shows "cash_ok (S \<union> {ct_from r, ct_to r} \<inter> owned_by u w) E (insert t D) X w'" "posted_legs w' t = []"
    "accounts w' = accounts w" "transfers w' = transfers w" "settlements w' = settlements w"
    "transactions w' = transactions w"
proof -
  from cash_ok_wf [OF ok] have wf: "twf (ledger w)" by simp
  let ?is = "map fst (tselect (\<lambda>e. le_user e = u \<and> le_transfer e = Some t) (ledger w))"
  have w': "w' = w\<lparr>ledger := tdel_ids ?is (ledger w)\<rparr>"
    by (simp add: w'_def delete_cash_ledger_entries_for_transfer_def)
  show "cash_ok (S \<union> {ct_from r, ct_to r} \<inter> owned_by u w) E (insert t D) X w'"
    unfolding w'
  proof (rule cash_delete_entries)
    show "cash_ok S E (insert t D) X w" by (rule cash_ok_mono [OF ok]) auto
    fix k e assume k: "k \<in> set ?is" "tget (ledger w) k = Some e"
    with wf have "le_transfer e = Some t" "le_user e = u" by (auto simp: tbl.select_ids [OF wf])
    with cash_ok_entryD [OF ok k(2)] have own: "le_account e \<in> owned_by u w"
      by (auto simp: entry_ok_def owned_by_def)
    from k(2) \<open>le_transfer e = Some t\<close> obtain r' where "tget (transfers w) t = Some r'" "le_account e \<in> {ct_from r', ct_to r'}"
      by (rule transfer_entryD [OF ok t(1)])
    with t own \<open>le_transfer e = Some t\<close>
    show "le_account e \<in> {ct_from r, ct_to r} \<inter> owned_by u w \<and> set_option (le_transfer e) \<subseteq> insert t D" by auto
  qed
  show "posted_legs w' t = []"
  proof -
    have "le_transfer e \<noteq> Some t" if "tget (ledger w') k = Some e" for k e
    proof
      assume e: "le_transfer e = Some t"
      from that have k: "tget (ledger w) k = Some e" "k \<notin> set ?is"
        by (auto simp: w' tget_tdel_ids split: if_splits)
      from transfer_entryD [OF ok t(1) k(1) e] t(2,3) have "le_user e = u" by force
      with k e show False by (auto simp: tbl.select_ids [OF wf])
    qed
    with wf show ?thesis by (simp add: posted_legs_Nil w')
  qed
qed (simp_all add: w'_def delete_cash_ledger_entries_for_transfer_def)

lemma cash_remove_transfer:
  assumes ok: "cash_ok S E D X w" and t: "t \<notin> D" "tget (transfers w) t = Some r" "ct_user r = u"
  defines "w' \<equiv> delete_cash_ledger_entries_for_transfer u t w"
  shows "cash_ok (S \<union> {ct_from r, ct_to r} \<inter> owned_by u w) E D X (w'\<lparr>transfers := tdel t (transfers w')\<rparr>)"
proof -
  note del = cash_delete_transfer_entries [OF ok t, folded w'_def]
  have "cash_ok (S \<union> {ct_from r, ct_to r} \<inter> owned_by u w) E (insert t D) X (w'\<lparr>transfers := tdel t (transfers w')\<rparr>)"
    by (rule cash_change_transfers [OF del(1)])
      (use cash_ok_wf [OF del(1)] in \<open>auto simp: tbl.get_del\<close>)
  moreover have "legs_ok (w'\<lparr>transfers := tdel t (transfers w')\<rparr>) t"
    using del(2) by (simp add: legs_ok_def posted_legs_def tbl.get_del)
  ultimately have "cash_ok (S \<union> {ct_from r, ct_to r} \<inter> owned_by u w) E (insert t D - {t}) X
      (w'\<lparr>transfers := tdel t (transfers w')\<rparr>)" by (rule cash_legs_done)
  with t(1) show ?thesis by simp
qed

text \<open>A new entry for a handler: what it does to the world it is created in.\<close>

lemma cash_create_entry:
  assumes ok: "cash_ok S E D X w" and a: "tget (accounts w) i = Some a" "ca_user a = user"
    and etype: "etype \<noteq> INITIAL_BALANCE" and links: "tid = None \<or> trid = None"
    and settled: "\<And>x. tid = Some x \<Longrightarrow> x \<in> X \<and> x < next_id (transactions w)"
  shows "okp (create_cash_ledger_entry env user i etype amount (ca_currency a) happened_on note tid trid w)
    (\<lambda>(k, w'). cash_ok (insert i S) E (set_option trid \<union> D) X w' \<and>
       (\<exists>e. w' = w\<lparr>ledger := snd (tinsert e (ledger w))\<rparr> \<and> k = fst (tinsert e (ledger w)) \<and>
         leg_of e = (user, i, etype, amount, ca_currency a) \<and> le_transfer e = trid \<and>
         le_transaction e = tid \<and> le_happened_on e = happened_on))"
proof (rule okpI, clarify)
  fix k w' assume "create_cash_ledger_entry env user i etype amount (ca_currency a) happened_on note tid trid w = Inr (k, w')"
  then obtain e where w': "w' = w\<lparr>ledger := snd (tinsert e (ledger w))\<rparr>" "k = fst (tinsert e (ledger w))"
    and e: "le_user e = user" "le_account e = i" "le_type e = etype" "le_amount e = amount"
      "le_currency e = normalize_currency (ca_currency a)" "le_transaction e = tid" "le_transfer e = trid"
      "le_happened_on e = happened_on"
    by (rule create_entry_result)
  have cur: "le_currency e = ca_currency a" using e cash_ok_currencyD [OF ok a(1)] by simp
  have "cash_ok (insert (le_account e) S) E (set_option (le_transfer e) \<union> D) X w'"
    unfolding w' by (rule cash_insert_entry [OF ok])
      (use e cur a etype links settled in \<open>auto simp: entry_ok_def entry_settled_def\<close>)
  with e cur w' show "cash_ok (insert i S) E (set_option trid \<union> D) X w' \<and>
       (\<exists>e. w' = w\<lparr>ledger := snd (tinsert e (ledger w))\<rparr> \<and> k = fst (tinsert e (ledger w)) \<and>
         leg_of e = (user, i, etype, amount, ca_currency a) \<and> le_transfer e = trid \<and>
         le_transaction e = tid \<and> le_happened_on e = happened_on)"
    by (auto simp: leg_of_def)
qed

end
