(* ===== verification/Cash_Correct.thy ===== *)
theory Cash_Correct
  imports Cash_Invariant
begin

text \<open>
  The handlers of \<^verbatim>\<open>cash_account_service.py\<close> keep the invariant \<open>cash_inv\<close>, and what
  each of them does to the accounts and the ledger of its user.
\<close>

section \<open>Steps shared by the handlers\<close>

lemma owned_account_eq [simp]:
  "owned_account env err i w = Inr a \<longleftrightarrow> tget (accounts w) i = Some a \<and> ca_user a = en_user env"
  by (auto simp: owned_account_def split: option.splits)

lemma cash_post_legs:
  assumes ok: "cash_ok S E D X w" and k: "k \<in> D" "posted_legs w k = []" "tget (transfers w) k = Some r"
    and r: "ct_user r = en_user env" "ct_from r = i" "ct_to r = j" "ct_source_amount r = src"
      "ct_target_amount r = tgt" "ct_source_currency r = ca_currency a" "ct_target_currency r = ca_currency b"
    and a: "tget (accounts w) i = Some a" "ca_user a = en_user env"
    and b: "tget (accounts w) j = Some b" "ca_user b = en_user env"
    and src: "fits_numeric src"
    and res: "post_transfer_legs env k i j a b src tgt d note w = Inr w'"
  shows "cash_ok (S \<union> {i, j}) E (D - {k}) X w'" "accounts w' = accounts w" "transfers w' = transfers w"
    "settlements w' = settlements w" "transactions w' = transactions w"
proof -
  from src have "quantize_decimal (dec_neg (of_fixed src)) = Inr (- src)"
    by (simp add: fits_numeric_def dec_neg_fixed quantize_decimal_fixed)
  with res obtain k1 w1 k2 where
    c1: "create_cash_ledger_entry env (en_user env) i TRANSFER_OUT (- src) (ca_currency a) d
         (Some (note_or note (transfer_out_note (ca_name b)))) None (Some k) w = Inr (k1, w1)" and
    c2: "create_cash_ledger_entry env (en_user env) j TRANSFER_IN tgt (ca_currency b) d
         (Some (note_or note (transfer_in_note (ca_name a)))) None (Some k) w1 = Inr (k2, w')"
    by (auto simp: post_transfer_legs_def bindE_eq_Inr)
  from okpD [OF cash_create_entry [OF ok a] c1] k obtain e1 where
    ok1: "cash_ok (insert i S) E D X w1" and w1: "w1 = w\<lparr>ledger := snd (tinsert e1 (ledger w))\<rparr>"
    and e1: "leg_of e1 = (en_user env, i, TRANSFER_OUT, - src, ca_currency a)" "le_transfer e1 = Some k"
    by (auto simp: insert_absorb)
  from b have b1: "tget (accounts w1) j = Some b" by (simp add: w1)
  from okpD [OF cash_create_entry [OF ok1 b1 b(2)] c2] k obtain e2 where
    ok2: "cash_ok (insert j (insert i S)) E D X w'" and w': "w' = w1\<lparr>ledger := snd (tinsert e2 (ledger w1))\<rparr>"
    and e2: "leg_of e2 = (en_user env, j, TRANSFER_IN, tgt, ca_currency b)" "le_transfer e2 = Some k"
    by (auto simp: insert_absorb)
  have "legs_ok w' k" using k r e1 e2
    by (simp add: legs_ok_def posted_legs_def tbl.select_insert transfer_legs_def w' w1)
  with ok2 have "cash_ok (insert j (insert i S)) E (D - {k}) X w'" by (rule cash_legs_done)
  then show "cash_ok (S \<union> {i, j}) E (D - {k}) X w'" by (rule cash_ok_mono) auto
qed (use res in \<open>auto simp: post_transfer_legs_def bindE_eq_Inr elim!: create_entry_result\<close>)

section \<open>Accounts\<close>

lemma okp_finish: "cash_inv w \<Longrightarrow> finish_request env w = Inr w' \<Longrightarrow> cash_inv w'"
  unfolding cash_inv_def by (rule okpD [OF cash_ok_finish])

lemma cash_inv_record [simp]: "cash_inv (record_asset_mutation env et eid op b a r w) = cash_inv w"
  by (simp add: cash_inv_def)

lemma create_account_inv:
  assumes inv: "cash_inv w" and res: "create_account p env w = Inr (r, w')"
  shows "cash_inv w'"
proof -
  define a where "a = \<lparr>ca_user = en_user env, ca_name = py_strip (cac_name p),
            ca_platform = py_strip (cac_platform p),
            ca_currency = normalize_currency (cac_currency p), ca_balance = 0,
            ca_type = cac_type p, ca_started_on = cac_started_on p,
            ca_note = cac_note p, ca_created_at = en_now env, ca_updated_at = en_now env\<rparr>"
  define i where "i = fst (tinsert a (accounts w))"
  from res obtain w2 where
    r: "reconcile_cash_account_initial_ledger_entry env i (cac_balance p)
        (w\<lparr>accounts := snd (tinsert a (accounts w))\<rparr>) = Inr w2"
    and f: "finish_request env (record_asset_mutation env CASH_ACCOUNT (Some i) CREATE None
       (account_state w2 i) None w2) = Inr w'"
    unfolding create_account_def Let_def a_def [symmetric] i_def [symmetric]
    by (auto simp: bindE_eq_Inr)
  have "cash_ok (insert i {}) {} {} {} (w\<lparr>accounts := snd (tinsert a (accounts w))\<rparr>)"
    unfolding i_def by (rule cash_insert_account) (use inv in \<open>simp_all add: cash_inv_def a_def\<close>)
  from okpD [OF cash_reconcile [OF this] r] have "cash_inv w2" by (simp add: cash_inv_def)
  then show ?thesis using okp_finish [OF _ f] by simp
qed

lemma entries_owner:
  assumes "cash_inv w" "tget (ledger w) k = Some e" "tget (accounts w) (le_account e) = Some a"
  shows "le_user e = ca_user a" "le_currency e = ca_currency a"
  using cash_ok_entryD [of "{}" "{}" "{}" "{}" w k e] assms by (auto simp: cash_inv_def entry_ok_def)

lemma update_account_inv:
  assumes inv: "cash_inv w" and res: "update_account i p env w = Inr (r, w')"
  shows "cash_inv w'"
proof -
  from cash_ok_wf inv have wf: "twf (ledger w)" by (auto simp: cash_inv_def)
  from res obtain a w2 where a: "tget (accounts w) i = Some a" "ca_user a = en_user env"
    and cur: "filter (\<lambda>(i, e). le_type e \<noteq> INITIAL_BALANCE)
           (list_cash_ledger_entries_for_account w (en_user env) i) \<noteq> [] \<longrightarrow>
         normalize_currency (cau_currency p) = normalize_currency (ca_currency a)"
    and r: "reconcile_cash_account_initial_ledger_entry env i (cau_balance p)
       (w\<lparr>accounts := tput i (updated_account p env a) (accounts w)\<rparr>) = Inr w2"
    and f: "finish_request env (record_asset_mutation env CASH_ACCOUNT (Some i) UPDATE
       (Some (AccountState i a)) (account_state w2 i) None w2) = Inr w'"
    by (auto simp: update_account_def Let_def bindE_eq_Inr)
  have "cash_ok {} {i} {} {} (w\<lparr>accounts := tput i (updated_account p env a) (accounts w)\<rparr>)"
  proof (rule cash_put_account [OF _ a(1)])
    show "cash_ok {} {} {} {} w" using inv by (simp add: cash_inv_def)
    show "ca_currency (updated_account p env a) = ca_currency a \<or> i \<in> {i} \<and>
      (\<forall>k e. tget (ledger w) k = Some e \<longrightarrow> le_account e = i \<longrightarrow> le_type e = INITIAL_BALANCE)"
    proof (cases "normalize_currency (cau_currency p) = normalize_currency (ca_currency a)")
      case True
      with cash_ok_currencyD [of "{}" "{}" "{}" "{}" w i a] inv a show ?thesis
        by (simp add: updated_account_def cash_inv_def)
    next
      case False
      with cur have none: "filter (\<lambda>(i, e). le_type e \<noteq> INITIAL_BALANCE)
           (list_cash_ledger_entries_for_account w (en_user env) i) = []" by blast
      have "le_type e = INITIAL_BALANCE" if k: "tget (ledger w) k = Some e" "le_account e = i" for k e
      proof -
        from entries_owner [OF inv k(1)] k a have "le_user e = en_user env" by auto
        with k wf have "(k, e) \<in> set (list_cash_ledger_entries_for_account w (en_user env) i)"
          by (simp add: list_cash_ledger_entries_for_account_def tbl.select_iff)
        with none show ?thesis by (auto simp: filter_empty_conv)
      qed
      then show ?thesis by simp
    qed
  qed (simp_all add: updated_account_def)
  from okpD [OF cash_reconcile [OF this] r] have "cash_inv w2" by (simp add: cash_inv_def)
  then show ?thesis using okp_finish [OF _ f] by simp
qed

text \<open>Deleting the transfers of an account: the fold over its transfers.\<close>

definition remove_transfer :: "pystr \<Rightarrow> nat \<times> cash_transfer \<Rightarrow> world \<Rightarrow> world" where
  "remove_transfer u = (\<lambda>(k, t) w. let w0 = delete_cash_ledger_entries_for_transfer u k w
     in w0\<lparr>transfers := tdel k (transfers w0)\<rparr>)"

lemma remove_transfers_ok:
  assumes "cash_ok S {} {} {} w" "distinct (map fst ts)"
    and "\<forall>(k, t) \<in> set ts. tget (transfers w) k = Some t \<and> ct_user t = u"
  shows "cash_ok (S \<union> (\<Union>(k, t) \<in> set ts. {ct_from t, ct_to t}) \<inter> owned_by u w) {} {} {} (fold (remove_transfer u) ts w)
    \<and> accounts (fold (remove_transfer u) ts w) = accounts w
    \<and> settlements (fold (remove_transfer u) ts w) = settlements w
    \<and> transactions (fold (remove_transfer u) ts w) = transactions w
    \<and> (\<forall>k. tget (transfers (fold (remove_transfer u) ts w)) k =
         (if k \<in> fst ` set ts then None else tget (transfers w) k))"
  using assms
proof (induction ts arbitrary: S w)
  case Nil
  then show ?case by simp
next
  case (Cons p ts)
  obtain j t where p: "p = (j, t)" by (cases p)
  let ?w1 = "remove_transfer u p w"
  from Cons.prems have t: "tget (transfers w) j = Some t" "ct_user t = u" by (auto simp: p)
  have w1: "cash_ok (S \<union> {ct_from t, ct_to t} \<inter> owned_by u w) {} {} {} ?w1" "accounts ?w1 = accounts w"
    "settlements ?w1 = settlements w" "transactions ?w1 = transactions w"
    "\<And>k. tget (transfers ?w1) k = (if k = j then None else tget (transfers w) k)"
    using cash_remove_transfer [OF Cons.prems(1) _ t] cash_delete_transfer_entries [OF Cons.prems(1) _ t]
    by (simp_all add: p remove_transfer_def Let_def tbl.get_del)
  have "\<forall>(k, t) \<in> set ts. tget (transfers ?w1) k = Some t \<and> ct_user t = u"
    using Cons.prems(2,3) w1(5) by (force simp: p)
  note IH = Cons.IH [OF w1(1) _ this]
  from IH Cons.prems(2) w1(2-5) owned_by_frame [OF w1(2), of u] show ?case
    by (auto simp: p Un_assoc Int_Un_distrib2 elim!: cash_ok_mono)
qed

text \<open>Deleting the settlements of an account.\<close>

definition remove_settlement :: "pystr \<Rightarrow> nat \<times> cash_settlement \<Rightarrow> world \<Rightarrow> world" where
  "remove_settlement u = (\<lambda>(k, s) w.
     let w0 = delete_cash_ledger_entries_for_holding_transaction u (st_transaction s) w
     in w0\<lparr>settlements := tdel k (settlements w0)\<rparr>)"

lemma settlement_entryD:
  assumes "cash_ok S E D X w" "tget (settlements w) j = Some s" "st_transaction s \<notin> X"
    "tget (ledger w) k = Some e" "le_transaction e = Some (st_transaction s)"
  shows "le_account e = st_account s \<and> le_user e = st_user s \<and> le_transfer e = None"
  using cash_ok_entryD [OF assms(1,4)] assms(2,3,5) by (auto simp: entry_settled_def entry_ok_def)

lemma cash_delete_transaction_entries:
  assumes ok: "cash_ok S E D X w" and s: "tget (settlements w) j = Some s" "st_transaction s \<notin> X"
    "st_user s = u" "st_transaction s = x"
  defines "w' \<equiv> delete_cash_ledger_entries_for_holding_transaction u x w"
  shows "cash_ok (S \<union> {st_account s} \<inter> owned_by u w) E D X w'"
    "\<And>k e. tget (ledger w') k = Some e \<Longrightarrow> le_transaction e \<noteq> Some x"
    "accounts w' = accounts w" "transfers w' = transfers w" "settlements w' = settlements w"
    "transactions w' = transactions w"
proof -
  from cash_ok_wf [OF ok] have wf: "twf (ledger w)" by simp
  let ?is = "map fst (tselect (\<lambda>e. le_user e = u \<and> le_transaction e = Some x) (ledger w))"
  have w': "w' = w\<lparr>ledger := tdel_ids ?is (ledger w)\<rparr>"
    by (simp add: w'_def delete_cash_ledger_entries_for_holding_transaction_def)
  have "le_account e \<in> {st_account s} \<inter> owned_by u w \<and> set_option (le_transfer e) \<subseteq> D"
    if "k \<in> set ?is" "tget (ledger w) k = Some e" for k e
    using settlement_entryD [OF ok s(1,2) that(2)] cash_ok_entryD [OF ok that(2)] that s
    by (auto simp: tbl.select_ids [OF wf] owned_by_def entry_ok_def)
  then show "cash_ok (S \<union> {st_account s} \<inter> owned_by u w) E D X w'"
    unfolding w' by (rule cash_delete_entries [OF ok])
  show "le_transaction e \<noteq> Some x" if "tget (ledger w') k = Some e" for k e
  proof
    assume x: "le_transaction e = Some x"
    from that have k: "tget (ledger w) k = Some e" "k \<notin> set ?is"
      by (auto simp: w' tget_tdel_ids split: if_splits)
    from settlement_entryD [OF ok s(1,2) k(1)] x s have "le_user e = u" by simp
    with k x show False by (auto simp: tbl.select_ids [OF wf])
  qed
qed (simp_all add: w'_def delete_cash_ledger_entries_for_holding_transaction_def)

text \<open>Changing the settlements of transactions that have no entry, or whose entries are known.\<close>

lemma cash_change_settlements:
  assumes ok: "cash_ok S E D X w" and U: "twf U" "settlement_unique (w\<lparr>settlements := U\<rparr>)"
      "settlement_owned (w\<lparr>settlements := U\<rparr>)"
    and same: "\<And>j s. st_transaction s \<notin> Y \<Longrightarrow> tget U j = Some s \<longleftrightarrow> tget (settlements w) j = Some s"
  shows "cash_ok S E D (X \<union> Y) (w\<lparr>settlements := U\<rparr>)"
proof -
  let ?w = "w\<lparr>settlements := U\<rparr>"
  have "entry_settled (X \<union> Y) ?w e" if "tget (ledger w) k = Some e" for k e
    using cash_ok_entryD [OF ok that] same by (auto simp: entry_settled_def) metis
  moreover have "bal ?w S = bal w S" by (rule bal_frame) simp_all
  ultimately show ?thesis using ok U
    by (simp add: cash_ok_def entry_ok_def initial_unique_def currencies_ok_def legs_ok_def posted_legs_def)
qed

lemma cash_settled_done:
  assumes "cash_ok S E D X w"
    and "\<And>k e. tget (ledger w) k = Some e \<Longrightarrow> le_transaction e = Some x \<Longrightarrow> entry_settled {} w e"
  shows "cash_ok S E D (X - {x}) w"
proof -
  have "entry_settled (X - {x}) w e" if "tget (ledger w) k = Some e" for k e
    using cash_ok_entryD [OF assms(1) that] assms(2) [OF that]
    by (auto simp: entry_settled_def)
  with assms(1) show ?thesis by (simp add: cash_ok_def)
qed

lemma remove_settlement_ok:
  assumes ok: "cash_ok S {} D {} w" and s: "tget (settlements w) j = Some s" "st_user s = u"
  defines "w' \<equiv> remove_settlement u (j, s) w"
  shows "cash_ok (S \<union> {st_account s}) {} D {} w'" "accounts w' = accounts w" "transfers w' = transfers w"
    "transactions w' = transactions w" "settlements w' = tdel j (settlements w)"
proof -
  let ?w1 = "delete_cash_ledger_entries_for_holding_transaction u (st_transaction s) w"
  note del = cash_delete_transaction_entries [OF ok s(1) _ s(2) refl]
  have w': "w' = ?w1\<lparr>settlements := tdel j (settlements w)\<rparr>"
    using del(5) by (simp add: w'_def remove_settlement_def Let_def)
  from ok have uniq: "settlement_unique w" "settlement_owned w" by (simp_all add: cash_ok_def)
  have "cash_ok (S \<union> {st_account s}) {} D ({} \<union> {st_transaction s}) w'"
    unfolding w'
  proof (rule cash_change_settlements)
    show "cash_ok (S \<union> {st_account s}) {} D {} ?w1" by (rule cash_ok_mono [OF del(1)]) auto
    show "twf (tdel j (settlements w))" using cash_ok_wf [OF ok] by simp
    show "settlement_unique (?w1\<lparr>settlements := tdel j (settlements w)\<rparr>)"
      using uniq(1) unfolding settlement_unique_def by (simp add: tbl.get_del)
    show "settlement_owned (?w1\<lparr>settlements := tdel j (settlements w)\<rparr>)"
      using uniq(2) del(6) unfolding settlement_owned_def by (simp add: tbl.get_del)
    fix j' and s' :: cash_settlement assume "st_transaction s' \<notin> {st_transaction s}"
    with s(1) del(5) show "tget (tdel j (settlements w)) j' = Some s' \<longleftrightarrow> tget (settlements ?w1) j' = Some s'"
      by (auto simp: tbl.get_del)
  qed
  then have "cash_ok (S \<union> {st_account s}) {} D ({} \<union> {st_transaction s} - {st_transaction s}) w'"
    by (rule cash_settled_done) (use del(2) in \<open>auto simp: w'\<close>)
  then show "cash_ok (S \<union> {st_account s}) {} D {} w'" by simp
qed (simp_all add: w'_def remove_settlement_def Let_def
   delete_cash_ledger_entries_for_holding_transaction_def)

lemma remove_settlements_ok:
  assumes "cash_ok S {} {} {} w" "distinct (map fst ss)" "i \<in> S"
    and "\<forall>(k, s) \<in> set ss. tget (settlements w) k = Some s \<and> st_user s = u \<and> st_account s = i"
  shows "cash_ok S {} {} {} (fold (remove_settlement u) ss w)
    \<and> accounts (fold (remove_settlement u) ss w) = accounts w
    \<and> transfers (fold (remove_settlement u) ss w) = transfers w
    \<and> transactions (fold (remove_settlement u) ss w) = transactions w
    \<and> (\<forall>k. tget (settlements (fold (remove_settlement u) ss w)) k =
         (if k \<in> fst ` set ss then None else tget (settlements w) k))"
  using assms
proof (induction ss arbitrary: w)
  case Nil
  then show ?case by simp
next
  case (Cons p ss)
  obtain j s where p: "p = (j, s)" by (cases p)
  let ?w1 = "remove_settlement u p w"
  from Cons.prems have s: "tget (settlements w) j = Some s" "st_user s = u" "st_account s = i"
    by (auto simp: p)
  note w1 = remove_settlement_ok [OF Cons.prems(1) s(1,2), folded p]
  have ok1: "cash_ok S {} {} {} ?w1" using w1(1) s(3) Cons.prems(3) by (simp add: insert_absorb)
  have "\<forall>(k, s) \<in> set ss. tget (settlements ?w1) k = Some s \<and> st_user s = u \<and> st_account s = i"
    using Cons.prems(2,4) w1(5) by (force simp: p tbl.get_del)
  note IH = Cons.IH [OF ok1 _ Cons.prems(3) this]
  from IH Cons.prems(2) w1(2-5) show ?case by (auto simp: p tbl.get_del)
qed

text \<open>Synchronising the affected accounts that still belong to the user.\<close>

lemma sync_affected_ok:
  assumes ok: "cash_ok S E D X w" and res: "sync_affected_account env i w = Inr w'"
  shows "cash_ok (S - {i} \<inter> owned_by (en_user env) w) E D X w' \<and> owned_by u w' = owned_by u w
    \<and> ledger w' = ledger w \<and> transfers w' = transfers w \<and> settlements w' = settlements w
    \<and> transactions w' = transactions w"
proof (cases "i \<in> owned_by (en_user env) w")
  case True
  with res have s: "sync_cash_account_balance_from_ledger env i w = Inr w'"
    by (auto simp: sync_affected_account_def owned_by_def)
  from s obtain a b where a: "tget (accounts w) i = Some a"
    and w': "w' = w\<lparr>accounts := tput i (a\<lparr>ca_balance := b, ca_updated_at := en_now env\<rparr>) (accounts w)\<rparr>"
    by (rule sync_result)
  from a have "owned_by u w' = owned_by u w" by (auto simp: owned_by_def w' tbl.get_put)
  with okpD [OF cash_sync [OF ok] s] True show ?thesis by (simp add: w')
next
  case False
  with res have "w' = w"
    by (auto simp: sync_affected_account_def owned_by_def split: option.splits if_splits)
  with False ok show ?thesis by simp
qed

lemma sync_all_affected_ok:
  assumes "cash_ok S E D X w" "foldE (sync_affected_account env) is w = Inr w'"
  shows "cash_ok (S - set is \<inter> owned_by (en_user env) w) E D X w' \<and> owned_by u w' = owned_by u w
    \<and> ledger w' = ledger w \<and> transfers w' = transfers w \<and> settlements w' = settlements w
    \<and> transactions w' = transactions w"
  using assms
proof (induction "is" arbitrary: S w)
  case Nil
  then show ?case by simp
next
  case (Cons i "is")
  from Cons.prems(2) obtain w1 where w1: "sync_affected_account env i w = Inr w1"
    "foldE (sync_affected_account env) is w1 = Inr w'" by (auto simp: bindE_eq_Inr)
  note step = sync_affected_ok [OF Cons.prems(1) w1(1)]
  have "owned_by (en_user env) w1 = owned_by (en_user env) w" using step by blast
  with Cons.IH [OF conjunct1 [OF step] w1(2)] step [of u] show ?case
    by (auto elim!: cash_ok_mono)
qed

lemma cash_inv_audits [simp]:
  "cash_inv (fold (\<lambda>k. record_asset_mutation env et (Some k) op b a r) ks w) = cash_inv w"
  by (induction ks arbitrary: w) simp_all

lemma cash_inv_audit_affected [simp]:
  "cash_inv (fold (audit_affected_account env r) ks w) = cash_inv w"
proof (induction ks arbitrary: w)
  case (Cons k ks)
  have "cash_inv (audit_affected_account env r k w) = cash_inv w"
    by (simp add: audit_affected_account_def split: option.split)
  with Cons show ?case by simp
qed simp

lemma delete_account_inv:
  assumes inv: "cash_inv w" and res: "delete_account i env w = Inr w'"
  shows "cash_inv w'"
proof -
  from inv have ok: "cash_ok {} {} {} {} w" by (simp add: cash_inv_def)
  define u where "u = en_user env"
  define ts where "ts = tselect (\<lambda>t. ct_user t = u \<and> (ct_from t = i \<or> ct_to t = i)) (transfers w)"
  define affected where "affected = remdups (concat (map (\<lambda>(k, t).
            (if ct_from t \<noteq> i then [ct_from t] else []) @ (if ct_to t \<noteq> i then [ct_to t] else [])) ts))"
  define w1 where "w1 = fold (remove_transfer u) ts w"
  define ss where "ss = tselect (\<lambda>s. st_user s = u \<and> st_account s = i) (settlements w1)"
  define w2 where "w2 = fold (remove_settlement u) ss w1"
  have d1: "delete_cash_account_related_transfers env i w = (affected, map fst ts, w1)"
    by (simp add: delete_cash_account_related_transfers_def Let_def ts_def affected_def w1_def u_def
        remove_transfer_def)
  have d2: "delete_cash_account_related_settlements env i w1 = (map (\<lambda>(k, s). st_transaction s) ss, w2)"
    by (simp add: delete_cash_account_related_settlements_def Let_def ss_def w2_def u_def
        remove_settlement_def)
  from res obtain a w3 where a: "tget (accounts w) i = Some a" "ca_user a = u"
    and sync: "foldE (sync_affected_account env) affected w2 = Inr w3"
    and fin: "finish_request env (fold (\<lambda>k. record_asset_mutation env HOLDING_CASH_SETTLEMENT (Some k) DELETE None None
          (ref ''CASH_ACCOUNT_DELETE'' i)) (map (\<lambda>(k, s). st_transaction s) ss)
        (fold (\<lambda>k. record_asset_mutation env CASH_TRANSFER (Some k) DELETE None None
          (ref ''CASH_ACCOUNT_DELETE'' i)) (map fst ts)
        (fold (audit_affected_account env (ref ''CASH_ACCOUNT_DELETE'' i)) affected
        (record_asset_mutation env CASH_ACCOUNT (Some i) DELETE (Some (AccountState i a)) None None
          (w3\<lparr>ledger := tdel_ids (map fst (list_cash_ledger_entries_for_account w3 u i)) (ledger w3),
              accounts := tdel i (accounts w3)\<rparr>))))) = Inr w'"
    by (auto simp: delete_account_def d1 d2 bindE_eq_Inr u_def Let_def)
  have wf: "twf (transfers w)" "twf (settlements w)" using cash_ok_wf [OF ok] by simp_all
  have ts: "distinct (map fst ts)" "\<forall>(k, t) \<in> set ts. tget (transfers w) k = Some t \<and> ct_user t = u"
    using wf by (auto simp: ts_def tbl.select_distinct tbl.select_iff)
  note r1 = remove_transfers_ok [OF ok ts, folded w1_def]
  have S1: "cash_ok (insert i (set affected \<inter> owned_by u w)) {} {} {} w1"
    by (rule cash_ok_mono [OF conjunct1 [OF r1]]) (auto simp: affected_def)
  have ss: "distinct (map fst ss)"
    "\<forall>(k, s) \<in> set ss. tget (settlements w1) k = Some s \<and> st_user s = u \<and> st_account s = i"
    using wf(2) conjunct1 [OF conjunct2 [OF conjunct2 [OF r1]]]
    by (auto simp: ss_def tbl.select_distinct tbl.select_iff)
  note r2 = remove_settlements_ok [OF S1 ss(1) insertI1 ss(2), folded w2_def]
  note r3 = sync_all_affected_ok [OF conjunct1 [OF r2] sync]
  have "transfers w2 = transfers w1" "transfers w3 = transfers w2" using r2 r3 by blast+
  moreover have "\<forall>k. tget (transfers w1) k = (if k \<in> fst ` set ts then None else tget (transfers w) k)"
    using r1 by blast
  ultimately have tr: "tget (transfers w3) k = (if k \<in> fst ` set ts then None else tget (transfers w) k)" for k
    by simp
  have own: "owned_by v w2 = owned_by v w" "owned_by v w3 = owned_by v w" for v
  proof -
    have "accounts w1 = accounts w" "accounts w2 = accounts w1" using r1 r2 by blast+
    then show "owned_by v w2 = owned_by v w" by (simp add: owned_by_def)
    moreover have "owned_by v w3 = owned_by v w2" using r3 [of v] by blast
    ultimately show "owned_by v w3 = owned_by v w" by simp
  qed
  have S3: "cash_ok {i} {} {} {} w3"
    by (rule cash_ok_mono [OF conjunct1 [OF r3]]) (use own in \<open>auto simp: u_def\<close>)
  have wf3: "twf (ledger w3)" using cash_ok_wf [OF S3] by simp
  have owner: "le_user e = u" if "tget (ledger w3) k = Some e" "le_account e = i" for k e
  proof -
    from cash_ok_entryD [OF S3 that(1)] that(2) obtain b where "tget (accounts w3) i = Some b" "ca_user b = le_user e"
      by (auto simp: entry_ok_def)
    then have "i \<in> owned_by (le_user e) w3" by (simp add: owned_by_def)
    then have "i \<in> owned_by (le_user e) w" by (simp add: own)
    with a show ?thesis by (simp add: owned_by_def)
  qed
  let ?is = "map fst (list_cash_ledger_entries_for_account w3 u i)"
  have ids: "k \<in> set ?is \<longleftrightarrow> (\<exists>e. tget (ledger w3) k = Some e \<and> le_user e = u \<and> le_account e = i)" for k
    by (simp add: list_cash_ledger_entries_for_account_def tbl.select_ids [OF wf3])
  have "cash_ok ({i} \<union> {i}) {} {} {} (w3\<lparr>ledger := tdel_ids ?is (ledger w3)\<rparr>)"
  proof (rule cash_delete_entries [OF S3])
    fix k e assume "k \<in> set ?is" and e: "tget (ledger w3) k = Some e"
    with ids have i: "le_account e = i" "le_user e = u" by auto
    moreover have "le_transfer e = None"
    proof (rule ccontr)
      assume "le_transfer e \<noteq> None"
      then obtain t where "le_transfer e = Some t" by blast
      from transfer_entryD [OF S3 _ e this] obtain r where r: "tget (transfers w3) t = Some r"
        "le_user e = ct_user r" "le_account e \<in> {ct_from r, ct_to r}" by blast
      with tr [of t] have "t \<notin> fst ` set ts" "tget (transfers w) t = Some r"
        by (simp_all split: if_splits)
      moreover have "t \<in> fst ` set ts"
        unfolding ts_def by (subst tbl.select_ids [OF wf(1)])
          (intro exI conjI, rule \<open>tget (transfers w) t = Some r\<close>, use r(2,3) i in auto)
      ultimately show False by blast
    qed
    ultimately show "le_account e \<in> {i} \<and> set_option (le_transfer e) \<subseteq> {}" by simp
  qed
  then have "cash_ok ({i} \<union> {i} - {i}) {} {} {} (w3\<lparr>ledger := tdel_ids ?is (ledger w3)\<rparr>
      \<lparr>accounts := tdel i (accounts (w3\<lparr>ledger := tdel_ids ?is (ledger w3)\<rparr>))\<rparr>)"
    by (rule cash_delete_account) (use ids owner in \<open>auto simp: tget_tdel_ids simp del: set_map split: if_splits\<close>)
  then have "cash_inv (w3\<lparr>ledger := tdel_ids ?is (ledger w3), accounts := tdel i (accounts w3)\<rparr>)"
    by (simp add: cash_inv_def)
  then show ?thesis
    using okp_finish [OF _ fin] by (simp only: cash_inv_audits cash_inv_audit_affected cash_inv_record)
qed

section \<open>Manual adjustments\<close>

lemma manual_adjustmentD:
  assumes "get_manual_cash_ledger_adjustment w u k = Inr e"
  shows "tget (ledger w) k = Some e" "le_user e = u" "le_type e = MANUAL_ADJUSTMENT"
    "le_transaction e = None" "le_transfer e = None"
  using assms by (auto simp: get_manual_cash_ledger_adjustment_def split: option.splits if_splits)

lemma cash_inv_jobs [simp]: "cash_inv (w\<lparr>jobs := t\<rparr>) = cash_inv w"
  by (simp add: cash_inv_def)

lemma enqueue_inv:
  "enqueue_user_portfolio_snapshot_rebuild env u w = Inr (j, w') \<Longrightarrow> cash_inv w' = cash_inv w"
  by (erule enqueue_rebuild_result) simp

text \<open>The world after an adjustment is posted, up to audit records and jobs.\<close>

lemma apply_adjustment_result:
  assumes "apply_cash_ledger_adjustment p env w = Inr (r, w')"
  obtains a k w1 w2 where "tget (accounts w) (adc_account p) = Some a" "ca_user a = en_user env"
    "adc_happened_on p \<le> server_today_date (en_now env)"
    "create_cash_ledger_entry env (en_user env) (adc_account p) MANUAL_ADJUSTMENT (adc_amount p)
       (ca_currency a) (adc_happened_on p) (Some (note_or (adc_note p) manual_adjustment_note)) None None w
     = Inr (k, w1)"
    "sync_cash_account_balance_from_ledger env (adc_account p) w1 = Inr w2"
    "accounts w' = accounts w2" "ledger w' = ledger w2" "transfers w' = transfers w2"
    "settlements w' = settlements w2" "transactions w' = transactions w2"
    "entry_read k w' = Inr (aar_entry r)" "account_read env (adc_account p) w' = Inr (aar_account r)"
  using assms
  by (auto simp: apply_cash_ledger_adjustment_def Let_def bindE_eq_Inr ensure_date_not_future_def
      entry_read_def account_read_def elim!: enqueue_rebuild_result)

lemma cash_inv_frame:
  assumes "accounts w' = accounts w" "ledger w' = ledger w" "transfers w' = transfers w"
    "settlements w' = settlements w" "transactions w' = transactions w"
  shows "cash_inv w' = cash_inv w"
  unfolding cash_inv_def by (rule cash_ok_frame) (use assms in simp_all)

lemma apply_adjustment_inv:
  assumes inv: "cash_inv w" and res: "apply_cash_ledger_adjustment p env w = Inr (r, w')"
  shows "cash_inv w'"
proof -
  from inv have ok: "cash_ok {} {} {} {} w" by (simp add: cash_inv_def)
  obtain a k w1 w2 where a: "tget (accounts w) (adc_account p) = Some a" "ca_user a = en_user env"
    and c: "create_cash_ledger_entry env (en_user env) (adc_account p) MANUAL_ADJUSTMENT (adc_amount p)
       (ca_currency a) (adc_happened_on p) (Some (note_or (adc_note p) manual_adjustment_note)) None None w
     = Inr (k, w1)"
    and s: "sync_cash_account_balance_from_ledger env (adc_account p) w1 = Inr w2"
    and same: "accounts w' = accounts w2" "ledger w' = ledger w2" "transfers w' = transfers w2"
      "settlements w' = settlements w2" "transactions w' = transactions w2"
    using res by (rule apply_adjustment_result)
  from okpD [OF cash_create_entry [OF ok a] c] have "cash_ok {adc_account p} {} {} {} w1" by auto
  from okpD [OF cash_sync [OF this] s] have "cash_inv w2" by (simp add: cash_inv_def)
  with cash_inv_frame [OF same] show ?thesis by simp
qed

lemma cash_inv_invalidate [simp]: "cash_inv (invalidate_dashboard_cache u w) = cash_inv w"
  and cash_inv_store [simp]: "cash_inv (store_idempotent_response env sc key q r' w) = cash_inv w"
  by (simp_all add: cash_inv_def)

lemma create_adjustment_cases:
  assumes "create_cash_ledger_adjustment p key env w = Inr (r, w')"
  obtains (replay)
    "load_idempotent_response env ADJUSTMENT_SCOPE key (AdjustmentRequest p) w
       = Inr (Some (AdjustmentResponse r))" "w' = w"
  | (fresh) w1 where
    "load_idempotent_response env ADJUSTMENT_SCOPE key (AdjustmentRequest p) w = Inr None"
    "apply_cash_ledger_adjustment p env w = Inr (r, w1)"
    "w' = invalidate_dashboard_cache (Some (en_user env)) (store_idempotent_response env
       ADJUSTMENT_SCOPE key (AdjustmentRequest p) (AdjustmentResponse r) w1)"
proof (cases "load_idempotent_response env ADJUSTMENT_SCOPE key (AdjustmentRequest p) w")
  case (Inr stored)
  with assms fresh replay show ?thesis
    by (cases stored; cases "the stored")
      (auto simp: create_cash_ledger_adjustment_def bindE_eq_Inr Let_def)
qed (use assms in \<open>simp add: create_cash_ledger_adjustment_def\<close>)

lemma create_adjustment_inv:
  assumes "cash_inv w" "create_cash_ledger_adjustment p key env w = Inr (r, w')"
  shows "cash_inv w'"
  using assms(2) by (cases rule: create_adjustment_cases) (use assms(1) apply_adjustment_inv in auto)

lemma update_adjustment_inv:
  assumes inv: "cash_inv w" and res: "update_cash_ledger_adjustment k p env w = Inr (r, w')"
  shows "cash_inv w'"
proof (cases "adu_amount p = None \<and> adu_happened_on p = None \<and> adu_note p = None")
  case True
  with res inv show ?thesis by (auto simp: update_cash_ledger_adjustment_def bindE_eq_Inr Let_def)
next
  case False
  from inv have ok: "cash_ok {} {} {} {} w" by (simp add: cash_inv_def)
  from False res obtain e a n w2 e' where e: "get_manual_cash_ledger_adjustment w (en_user env) k = Inr e"
    and a: "tget (accounts w) (le_account e) = Some a" "ca_user a = en_user env"
    and e': "e' = e\<lparr>le_amount := n,
             le_happened_on := (case field_value (adu_happened_on p) of
                 None \<Rightarrow> le_happened_on e | Some d \<Rightarrow> d),
             le_note := (case adu_note p of None \<Rightarrow> le_note e
               | Some n \<Rightarrow> Some (note_or n manual_adjustment_note)),
             le_currency := normalize_currency (ca_currency a), le_updated_at := en_now env\<rparr>"
    and s: "sync_cash_account_balance_from_ledger env (le_account e)
        (w\<lparr>ledger := tput k e' (ledger w)\<rparr>) = Inr w2"
    and same: "accounts w' = accounts w2 \<and> ledger w' = ledger w2 \<and> transfers w' = transfers w2
      \<and> settlements w' = settlements w2 \<and> transactions w' = transactions w2"
    by (auto simp: update_cash_ledger_adjustment_def bindE_eq_Inr Let_def elim!: enqueue_rebuild_result)
  note m = manual_adjustmentD [OF e]
  have "cash_ok (insert (le_account e') {}) {} {} {} (w\<lparr>ledger := tput k e' (ledger w)\<rparr>)"
    by (rule cash_put_entry [OF ok m(1)])
      (use m a cash_ok_currencyD [OF ok a(1)] in \<open>simp_all add: e' entry_ok_def\<close>)
  then have "cash_ok {le_account e} {} {} {} (w\<lparr>ledger := tput k e' (ledger w)\<rparr>)" by (simp add: e')
  from okpD [OF cash_sync [OF this] s] have "cash_inv w2" by (simp add: cash_inv_def)
  with same cash_inv_frame [of w' w2] show ?thesis by simp
qed

lemma delete_adjustment_inv:
  assumes inv: "cash_inv w" and res: "delete_cash_ledger_adjustment k env w = Inr w'"
  shows "cash_inv w'"
proof -
  from inv have ok: "cash_ok {} {} {} {} w" by (simp add: cash_inv_def)
  from res obtain e a w2 where e: "get_manual_cash_ledger_adjustment w (en_user env) k = Inr e"
    and a: "tget (accounts w) (le_account e) = Some a" "ca_user a = en_user env"
    and s: "sync_cash_account_balance_from_ledger env (le_account e)
        (w\<lparr>ledger := tdel k (ledger w)\<rparr>) = Inr w2"
    and f: "finish_request env (record_asset_mutation env CASH_ACCOUNT (Some (le_account e)) UPDATE
          (Some (AccountState (le_account e) a)) (account_state w2 (le_account e))
          (ref ''LEDGER_ADJUSTMENT_DELETE'' k)
        (record_asset_mutation env CASH_LEDGER_ADJUSTMENT (Some k) DELETE
          (Some (LedgerState k e)) None (ref ''CASH_ACCOUNT'' (le_account e)) w2)) = Inr w'"
    by (auto simp: delete_cash_ledger_adjustment_def bindE_eq_Inr Let_def)
  note m = manual_adjustmentD [OF e]
  have "cash_ok ({} \<union> {le_account e}) {} {} {} (w\<lparr>ledger := tdel_ids [k] (ledger w)\<rparr>)"
    by (rule cash_delete_entries [OF ok]) (use m in auto)
  then have "cash_ok {le_account e} {} {} {} (w\<lparr>ledger := tdel k (ledger w)\<rparr>)"
    by (simp add: tdel_ids_def)
  from okpD [OF cash_sync [OF this] s] have "cash_inv w2" by (simp add: cash_inv_def)
  then show ?thesis using okp_finish [OF _ f] by simp
qed

section \<open>Transfers\<close>

lemma check_transfer_accounts_eq [simp]:
  "check_transfer_accounts env i j w = Inr (a, b) \<longleftrightarrow>
     tget (accounts w) i = Some a \<and> ca_user a = en_user env \<and>
     tget (accounts w) j = Some b \<and> ca_user b = en_user env"
  by (auto simp: check_transfer_accounts_def bindE_eq_Inr)

lemma ensure_balance_covers_eq [simp]:
  assumes "fits_numeric n" "fits_numeric b"
  shows "ensure_balance_covers b n = Inr u \<longleftrightarrow> n \<le> b + 1"
proof -
  from assms have "dec_add (of_fixed b) FIXED_EPSILON = of_fixed (b + 1)"
    by (simp add: FIXED_EPSILON_fixed dec_add_fixed fits_numeric_def)
  then show ?thesis by (auto simp: ensure_balance_covers_def)
qed

text \<open>Everything a successful transfer did, up to audit records and jobs.\<close>

lemma apply_transfer_result:
  assumes "apply_cash_transfer p env w = Inr (r, w')"
  obtains a b src tgt t w2 w3 w4 where
    "trc_transferred_on p \<le> server_today_date (en_now env)"
    "tget (accounts w) (trc_from p) = Some a" "ca_user a = en_user env"
    "tget (accounts w) (trc_to p) = Some b" "ca_user b = en_user env"
    "trc_from p \<noteq> trc_to p" "normalize_currency (ca_currency b) = lit ''CNY''"
    "quantize_decimal (of_fixed (trc_source_amount p)) = Inr src" "fits_numeric src"
    "ensure_balance_covers (ca_balance a) src = Inr ()"
    "resolve_cash_transfer_target_amount env src (ca_currency a) (ca_currency b) (trc_target_amount p) = Inr tgt"
    "fits_numeric tgt"
    "t = \<lparr>ct_user = en_user env, ct_from = trc_from p, ct_to = trc_to p,
           ct_source_amount = src, ct_target_amount = tgt,
           ct_source_currency = normalize_currency (ca_currency a),
           ct_target_currency = normalize_currency (ca_currency b),
           ct_transferred_on = trc_transferred_on p, ct_note = trc_note p,
           ct_created_at = en_now env, ct_updated_at = en_now env\<rparr>"
    "post_transfer_legs env (fst (tinsert t (transfers w))) (trc_from p) (trc_to p) a b src tgt
       (trc_transferred_on p) (trc_note p) (w\<lparr>transfers := snd (tinsert t (transfers w))\<rparr>) = Inr w2"
    "sync_cash_account_balance_from_ledger env (trc_from p) w2 = Inr w3"
    "sync_cash_account_balance_from_ledger env (trc_to p) w3 = Inr w4"
    "accounts w' = accounts w4" "ledger w' = ledger w4" "transfers w' = transfers w4"
    "settlements w' = settlements w4" "transactions w' = transactions w4"
    "transfer_response env (fst (tinsert t (transfers w))) (trc_from p) (trc_to p) w' = Inr r"
proof -
  from assms obtain a b src tgt w2 w3 w4 t where
    d: "trc_transferred_on p \<le> server_today_date (en_now env)" and
    a: "tget (accounts w) (trc_from p) = Some a" "ca_user a = en_user env" and
    b: "tget (accounts w) (trc_to p) = Some b" "ca_user b = en_user env"
    "trc_from p \<noteq> trc_to p" "normalize_currency (ca_currency b) = lit ''CNY''" and
    q: "quantize_decimal (of_fixed (trc_source_amount p)) = Inr src" "fits_numeric src"
    "ensure_balance_covers (ca_balance a) src = Inr ()"
    "resolve_cash_transfer_target_amount env src (ca_currency a) (ca_currency b) (trc_target_amount p) = Inr tgt"
    "fits_numeric tgt" and
    t: "t = \<lparr>ct_user = en_user env, ct_from = trc_from p, ct_to = trc_to p,
           ct_source_amount = src, ct_target_amount = tgt,
           ct_source_currency = normalize_currency (ca_currency a),
           ct_target_currency = normalize_currency (ca_currency b),
           ct_transferred_on = trc_transferred_on p, ct_note = trc_note p,
           ct_created_at = en_now env, ct_updated_at = en_now env\<rparr>" and
    s: "post_transfer_legs env (fst (tinsert t (transfers w))) (trc_from p) (trc_to p) a b src tgt
       (trc_transferred_on p) (trc_note p) (w\<lparr>transfers := snd (tinsert t (transfers w))\<rparr>) = Inr w2"
    "sync_cash_account_balance_from_ledger env (trc_from p) w2 = Inr w3"
    "sync_cash_account_balance_from_ledger env (trc_to p) w3 = Inr w4" and
    f: "accounts w' = accounts w4 \<and> ledger w' = ledger w4 \<and> transfers w' = transfers w4
     \<and> settlements w' = settlements w4 \<and> transactions w' = transactions w4"
    "transfer_response env (fst (tinsert t (transfers w))) (trc_from p) (trc_to p) w' = Inr r"
    by (auto simp: apply_cash_transfer_def Let_def bindE_eq_Inr ensure_date_not_future_def
        elim!: enqueue_rebuild_result)
  from that [OF d a b q t s] f show ?thesis by blast
qed

lemma sync_same:
  assumes "sync_cash_account_balance_from_ledger env i w = Inr w'"
  shows "ledger w' = ledger w" "transfers w' = transfers w" "settlements w' = settlements w"
    "transactions w' = transactions w" "posted_legs w' t = posted_legs w t"
  using assms by (auto elim!: sync_result simp: posted_legs_def)

lemma apply_transfer_inv:
  assumes inv: "cash_inv w" and res: "apply_cash_transfer p env w = Inr (r, w')"
  shows "cash_inv w'"
proof -
  from inv have ok: "cash_ok {} {} {} {} w" by (simp add: cash_inv_def)
  from cash_ok_wf [OF ok] have wf: "twf (transfers w)" by simp
  from res obtain a b src tgt t w2 w3 w4 where
    a: "tget (accounts w) (trc_from p) = Some a" "ca_user a = en_user env" and
    b: "tget (accounts w) (trc_to p) = Some b" "ca_user b = en_user env" and
    src: "fits_numeric src" and
    t: "t = \<lparr>ct_user = en_user env, ct_from = trc_from p, ct_to = trc_to p,
           ct_source_amount = src, ct_target_amount = tgt,
           ct_source_currency = normalize_currency (ca_currency a),
           ct_target_currency = normalize_currency (ca_currency b),
           ct_transferred_on = trc_transferred_on p, ct_note = trc_note p,
           ct_created_at = en_now env, ct_updated_at = en_now env\<rparr>" and
    post: "post_transfer_legs env (fst (tinsert t (transfers w))) (trc_from p) (trc_to p) a b src tgt
       (trc_transferred_on p) (trc_note p) (w\<lparr>transfers := snd (tinsert t (transfers w))\<rparr>) = Inr w2" and
    s1: "sync_cash_account_balance_from_ledger env (trc_from p) w2 = Inr w3" and
    s2: "sync_cash_account_balance_from_ledger env (trc_to p) w3 = Inr w4" and
    same: "accounts w' = accounts w4" "ledger w' = ledger w4" "transfers w' = transfers w4"
      "settlements w' = settlements w4" "transactions w' = transactions w4"
    by (rule apply_transfer_result)
  let ?k = "fst (tinsert t (transfers w))" and ?w1 = "w\<lparr>transfers := snd (tinsert t (transfers w))\<rparr>"
  have ok1: "cash_ok {} {} {?k} {} ?w1"
    by (rule cash_change_transfers [OF cash_ok_mono [OF ok]]) (use wf in \<open>auto simp: tbl.get_insert\<close>)
  have legs: "posted_legs ?w1 ?k = []"
    using cash_ok_legsD [OF ok, of ?k] tbl.fresh [OF wf] by (simp add: legs_ok_def posted_legs_def)
  have t': "tget (transfers ?w1) ?k = Some t" using wf by (simp add: tbl.get_insert)
  have "cash_ok ({} \<union> {trc_from p, trc_to p}) {} ({?k} - {?k}) {} w2"
    by (rule cash_post_legs(1) [OF ok1 _ legs t' _ _ _ _ _ _ _ _ _ _ _ _ post])
      (use a b src cash_ok_currencyD [OF ok a(1)] cash_ok_currencyD [OF ok b(1)] in \<open>simp_all add: t\<close>)
  then have "cash_ok {trc_from p, trc_to p} {} {} {} w2" by simp
  from okpD [OF cash_sync [OF okpD [OF cash_sync [OF this] s1]] s2] have "cash_inv w4"
    by (auto simp: cash_inv_def elim!: cash_ok_mono)
  with cash_inv_frame [OF same] show ?thesis by simp
qed

lemma create_transfer_cases:
  assumes "create_cash_transfer p key env w = Inr (r, w')"
  obtains (replay)
    "load_idempotent_response env TRANSFER_SCOPE key (TransferRequest p) w
       = Inr (Some (TransferResponse r))" "w' = w"
  | (fresh) w1 where
    "load_idempotent_response env TRANSFER_SCOPE key (TransferRequest p) w = Inr None"
    "apply_cash_transfer p env w = Inr (r, w1)"
    "w' = invalidate_dashboard_cache (Some (en_user env)) (store_idempotent_response env
       TRANSFER_SCOPE key (TransferRequest p) (TransferResponse r) w1)"
proof (cases "load_idempotent_response env TRANSFER_SCOPE key (TransferRequest p) w")
  case (Inr stored)
  with assms fresh replay show ?thesis
    by (cases stored; cases "the stored")
      (auto simp: create_cash_transfer_def bindE_eq_Inr Let_def)
qed (use assms in \<open>simp add: create_cash_transfer_def\<close>)

lemma create_transfer_inv:
  assumes "cash_inv w" "create_cash_transfer p key env w = Inr (r, w')"
  shows "cash_inv w'"
  using assms(2) by (cases rule: create_transfer_cases) (use assms(1) apply_transfer_inv in auto)

lemma owned_transfer_eq [simp]:
  "owned_transfer env k w = Inr t \<longleftrightarrow> tget (transfers w) k = Some t \<and> ct_user t = en_user env"
  by (auto simp: owned_transfer_def split: option.splits)

lemma withdraw_transfer_ok:
  assumes ok: "cash_ok {} {} {} {} w" and t: "tget (transfers w) k = Some t" "ct_user t = en_user env"
    and res: "withdraw_transfer env k t w = Inr w'"
  shows "cash_ok {} {} {k} {} w'" "posted_legs w' k = []" "transfers w' = transfers w"
proof -
  define w1 where "w1 = delete_cash_ledger_entries_for_transfer (en_user env) k w"
  from res obtain w2 where s1: "sync_cash_account_balance_from_ledger env (ct_from t) w1 = Inr w2"
    and s2: "ct_to t \<noteq> ct_from t \<and> sync_cash_account_balance_from_ledger env (ct_to t) w2 = Inr w'
      \<or> ct_to t = ct_from t \<and> w' = w2"
    by (auto simp: withdraw_transfer_def Let_def w1_def bindE_eq_Inr split: if_splits)
  note d = cash_delete_transfer_entries [OF ok _ t, folded w1_def, simplified]
  have "cash_ok {ct_from t, ct_to t} {} {k} {} w1" by (rule cash_ok_mono [OF d(1)]) auto
  from okpD [OF cash_sync [OF this] s1] have ok2: "cash_ok ({ct_from t, ct_to t} - {ct_from t}) {} {k} {} w2" .
  from s2 show "cash_ok {} {} {k} {} w'"
    using okpD [OF cash_sync [OF ok2], of env "ct_to t" w'] ok2 by auto
  from s2 show "posted_legs w' k = []" "transfers w' = transfers w"
    using d sync_same [OF s1] sync_same [of env "ct_to t" w2 w'] by auto
qed

text \<open>Everything a transfer update did, up to audit records and jobs.\<close>

lemma update_transfer_result:
  assumes "update_cash_transfer k p env w = Inr (r, w')" "\<not> no_transfer_fields p"
  obtains t i j w2 a b src tgt d nt w4 w5 w6 where
    "tget (transfers w) k = Some t" "ct_user t = en_user env" "withdraw_transfer env k t w = Inr w2"
    "i = or_id (field_value (tru_from p)) (ct_from t)" "j = or_id (field_value (tru_to p)) (ct_to t)"
    "i \<noteq> j" "tget (accounts w2) i = Some a" "ca_user a = en_user env"
    "tget (accounts w2) j = Some b" "ca_user b = en_user env" "normalize_currency (ca_currency b) = lit ''CNY''"
    "ensure_balance_covers (ca_balance a) src = Inr ()" "fits_numeric src" "fits_numeric tgt"
    "post_transfer_legs env k i j a b src tgt d nt
       (w2\<lparr>transfers := tput k (updated_transfer env t i j a b src tgt d nt) (transfers w2)\<rparr>) = Inr w4"
    "sync_cash_account_balance_from_ledger env i w4 = Inr w5"
    "sync_cash_account_balance_from_ledger env j w5 = Inr w6"
    "accounts w' = accounts w6" "ledger w' = ledger w6" "transfers w' = transfers w6"
    "settlements w' = settlements w6" "transactions w' = transactions w6"
proof -
  have audits: "accounts (fold (audit_remembered_account env q) m v) = accounts v
    \<and> ledger (fold (audit_remembered_account env q) m v) = ledger v
    \<and> transfers (fold (audit_remembered_account env q) m v) = transfers v
    \<and> settlements (fold (audit_remembered_account env q) m v) = settlements v
    \<and> transactions (fold (audit_remembered_account env q) m v) = transactions v" for q m v
    by (induction m arbitrary: v) (auto simp: audit_remembered_account_def split: option.split)
  define d where "d t = (case field_value (tru_transferred_on p) of Some d \<Rightarrow> d | None \<Rightarrow> ct_transferred_on t)" for t :: cash_transfer
  define nt where "nt t = (case tru_note p of Some n \<Rightarrow> n | None \<Rightarrow> ct_note t)" for t :: cash_transfer
  define i where "i t = or_id (field_value (tru_from p)) (ct_from t)" for t :: cash_transfer
  define j where "j t = or_id (field_value (tru_to p)) (ct_to t)" for t :: cash_transfer
  from assms obtain t w2 a b src tgt w4 w5 w6 where
    1: "tget (transfers w) k = Some t" "ct_user t = en_user env" "withdraw_transfer env k t w = Inr w2" and
    2: "i t \<noteq> j t" "tget (accounts w2) (i t) = Some a" "ca_user a = en_user env"
    "tget (accounts w2) (j t) = Some b" "ca_user b = en_user env" "normalize_currency (ca_currency b) = lit ''CNY''"
    "ensure_balance_covers (ca_balance a) src = Inr ()" "fits_numeric src" "fits_numeric tgt" and
    3: "post_transfer_legs env k (i t) (j t) a b src tgt (d t) (nt t)
       (w2\<lparr>transfers := tput k (updated_transfer env t (i t) (j t) a b src tgt (d t) (nt t)) (transfers w2)\<rparr>) = Inr w4"
    "sync_cash_account_balance_from_ledger env (i t) w4 = Inr w5"
    "sync_cash_account_balance_from_ledger env (j t) w5 = Inr w6" and
    4: "accounts w' = accounts w6 \<and> ledger w' = ledger w6 \<and> transfers w' = transfers w6
      \<and> settlements w' = settlements w6 \<and> transactions w' = transactions w6"
    unfolding update_cash_transfer_def d_def [symmetric] nt_def [symmetric] i_def [symmetric] j_def [symmetric]
    by (auto simp: Let_def bindE_eq_Inr audits split: if_splits elim!: enqueue_rebuild_result)
  show ?thesis by (rule that [OF 1 _ _ 2 3]) (use 4 in \<open>auto simp: i_def j_def\<close>)
qed

lemma update_transfer_inv:
  assumes inv: "cash_inv w" and res: "update_cash_transfer k p env w = Inr (r, w')"
  shows "cash_inv w'"
proof (cases "no_transfer_fields p")
  case True
  with res inv show ?thesis by (auto simp: update_cash_transfer_def bindE_eq_Inr split: if_splits)
next
  case False
  from inv have ok: "cash_ok {} {} {} {} w" by (simp add: cash_inv_def)
  from res False obtain t i j w2 a b src tgt d nt w4 w5 w6 where
    t: "tget (transfers w) k = Some t" "ct_user t = en_user env" and
    wd: "withdraw_transfer env k t w = Inr w2" and
    a: "tget (accounts w2) i = Some a" "ca_user a = en_user env" and
    b: "tget (accounts w2) j = Some b" "ca_user b = en_user env" and src: "fits_numeric src" and
    post: "post_transfer_legs env k i j a b src tgt d nt
       (w2\<lparr>transfers := tput k (updated_transfer env t i j a b src tgt d nt) (transfers w2)\<rparr>) = Inr w4" and
    s1: "sync_cash_account_balance_from_ledger env i w4 = Inr w5" and
    s2: "sync_cash_account_balance_from_ledger env j w5 = Inr w6" and
    same: "accounts w' = accounts w6" "ledger w' = ledger w6" "transfers w' = transfers w6"
      "settlements w' = settlements w6" "transactions w' = transactions w6"
    by (rule update_transfer_result)
  note w2 = withdraw_transfer_ok [OF ok t wd]
  let ?t = "updated_transfer env t i j a b src tgt d nt"
  let ?w3 = "w2\<lparr>transfers := tput k ?t (transfers w2)\<rparr>"
  have ok3: "cash_ok {} {} {k} {} ?w3"
    by (rule cash_change_transfers [OF w2(1)]) (use cash_ok_wf [OF w2(1)] in \<open>auto simp: tbl.get_put\<close>)
  have legs: "posted_legs ?w3 k = []" using w2(2) by (simp add: posted_legs_def)
  have t': "tget (transfers ?w3) k = Some ?t" using t w2(3) by (simp add: tbl.get_put)
  have "cash_ok ({} \<union> {i, j}) {} ({k} - {k}) {} w4"
    by (rule cash_post_legs(1) [OF ok3 _ legs t' _ _ _ _ _ _ _ _ _ _ _ _ post])
      (use a b t src cash_ok_currencyD [OF w2(1) a(1)] cash_ok_currencyD [OF w2(1) b(1)]
        in \<open>simp_all add: updated_transfer_def\<close>)
  then have "cash_ok {i, j} {} {} {} w4" by simp
  from okpD [OF cash_sync [OF okpD [OF cash_sync [OF this] s1]] s2] have "cash_inv w6"
    by (auto simp: cash_inv_def elim!: cash_ok_mono)
  with cash_inv_frame [OF same] show ?thesis by simp
qed

lemma delete_transfer_inv:
  assumes inv: "cash_inv w" and res: "delete_cash_transfer k env w = Inr w'"
  shows "cash_inv w'"
proof -
  from inv have ok: "cash_ok {} {} {} {} w" by (simp add: cash_inv_def)
  define w1 where "w1 = delete_cash_ledger_entries_for_transfer (en_user env) k w"
  from res obtain t w3 w4 w7 where t: "tget (transfers w) k = Some t" "ct_user t = en_user env"
    and s1: "sync_affected_account env (ct_from t) (w1\<lparr>transfers := tdel k (transfers w1)\<rparr>) = Inr w3"
    and s2: "sync_affected_account env (ct_to t) w3 = Inr w4"
    and f: "finish_request env w7 = Inr w'" and w7: "cash_inv w7 = cash_inv w4"
    by (auto simp: delete_cash_transfer_def Let_def bindE_eq_Inr w1_def split: option.splits)
  let ?w2 = "w1\<lparr>transfers := tdel k (transfers w1)\<rparr>"
  have own: "owned_by u ?w2 = owned_by u w" for u
    using cash_delete_transfer_entries [OF ok _ t] by (simp add: owned_by_def w1_def)
  have ok2: "cash_ok ({ct_from t, ct_to t} \<inter> owned_by (en_user env) w) {} {} {} ?w2"
    using cash_remove_transfer [OF ok _ t] by (simp add: w1_def)
  note s1' = sync_affected_ok [OF ok2 s1] 
  from s1' [of "en_user env"] own have own3: "owned_by (en_user env) w3 = owned_by (en_user env) w" by simp
  from sync_affected_ok [OF conjunct1 [OF s1'] s2]
  have "cash_inv w4" unfolding cash_inv_def own own3
    by (rule conjunct1 [THEN cash_ok_mono]) auto
  with w7 okp_finish [OF _ f] show ?thesis by simp
qed

end
