(* ===== verification/Settlements.thy ===== *)
theory Settlements
  imports Cash_Accounts
begin

text \<open>
  Model of \<^verbatim>\<open>backend/app/services/holding_projection_parts/settlements.py\<close>: what a trade does
  to the cash accounts. A sale puts its proceeds on an account, new or existing; a funded
  purchase takes its cost from one; undoing a trade deletes its ledger entries, and the account
  with them when it was made for that sale and nothing else is left on it.
\<close>

section \<open>Prices and notes\<close>

definition resolve_sell_execution_price_and_currency ::
  "env \<Rightarrow> pystr \<Rightarrow> pystr \<Rightarrow> pystr \<Rightarrow> fixed option \<Rightarrow> error + fixed \<times> pystr" where
  "resolve_sell_execution_price_and_currency env symbol market fallback_currency payload_price =
     bindE (case payload_price of
         Some p \<Rightarrow> if p > 0 then liftA (bindE (quantize_decimal (of_fixed p)) (\<lambda>n. Inr (Some n))) else Inr None
       | None \<Rightarrow> Inr None) (\<lambda>given.
     bindE (case given of
         Some p \<Rightarrow> Inr (Some p, normalize_currency fallback_currency)
       | None \<Rightarrow>
           (case en_quote env symbol market of
              None \<Rightarrow> Inr (None, normalize_currency fallback_currency)
            | Some q \<Rightarrow>
                bindE (if dec_less (Dec 0 0) (qt_price q)
                    then liftA (bindE (quantize_decimal (qt_price q)) (\<lambda>n. Inr (Some n))) else Inr None)
                  (\<lambda>quoted. Inr (quoted, normalize_currency
                     (if qt_currency q = [] then fallback_currency else qt_currency q)))))
       (\<lambda>(resolved, currency).
     case resolved of
       None \<Rightarrow> Inl (HTTPException 422 SellPriceUnavailable)
     | Some p \<Rightarrow> if p \<le> 0 then Inl (HTTPException 422 SellPriceUnavailable)
         else bindE (liftA (quantize_decimal (of_fixed p))) (\<lambda>n. Inr (n, currency))))"

definition display_g :: "env \<Rightarrow> int \<Rightarrow> (dec \<Rightarrow> arith_error + int) \<Rightarrow> fixed \<Rightarrow> error + pystr" where
  \<comment> \<open>\<open>f"{decimal_to_float(display(value)):g}"\<close>, the display with its exponent\<close>
  "display_g env ex display value = bindE (liftA (display (of_fixed value))) (\<lambda>n. Inr (en_float_g env ex n))"

definition trade_note ::
  "env \<Rightarrow> pystr \<Rightarrow> pystr \<Rightarrow> pystr \<Rightarrow> pystr \<Rightarrow> pystr \<Rightarrow> fixed \<Rightarrow> fixed \<Rightarrow> pystr
   \<Rightarrow> nat \<Rightarrow> (fixed \<times> pystr) option \<Rightarrow> error + pystr" where
  \<comment> \<open>the common body of \<open>_build_sell_proceeds_note\<close> and \<open>_build_buy_funding_note\<close>\<close>
  "trade_note env label settled_label symbol name market quantity execution_price source_currency
       transaction_id settled =
     bindE (display_g env (-4) display_quantity quantity) (\<lambda>q.
     bindE (display_g env (-4) display_price execution_price) (\<lambda>p.
     bindE (case settled of
         Some (amount, currency) \<Rightarrow>
           if currency = [] then Inr []
           else bindE (display_g env (-2) display_money amount) (\<lambda>m.
             Inr (settled_label @ m @ [32] @ normalize_currency currency))
       | None \<Rightarrow> Inr []) (\<lambda>settled_text.
     Inr (label @ name @ [40] @ symbol @ [41, 32, 91] @ market @ [93, 32] @ [25968, 37327, 32] @ q
          @ [65292, 25104, 20132, 20215, 32] @ p @ [32] @ normalize_currency source_currency
          @ settled_text @ [65292, 20132, 26131, 73, 68, 32, 35] @ show_nat transaction_id))))"

definition build_sell_proceeds_note ::
  "env \<Rightarrow> pystr \<Rightarrow> pystr \<Rightarrow> pystr \<Rightarrow> fixed \<Rightarrow> fixed \<Rightarrow> pystr \<Rightarrow> nat
   \<Rightarrow> (fixed \<times> pystr) option \<Rightarrow> error + pystr" where
  "build_sell_proceeds_note env = trade_note env [26469, 28304, 65306, 21334, 20986, 32]
     [65292, 33258, 21160, 20837, 36134, 32]"

definition build_buy_funding_note ::
  "env \<Rightarrow> pystr \<Rightarrow> pystr \<Rightarrow> pystr \<Rightarrow> fixed \<Rightarrow> fixed \<Rightarrow> pystr \<Rightarrow> nat
   \<Rightarrow> (fixed \<times> pystr) option \<Rightarrow> error + pystr" where
  "build_buy_funding_note env = trade_note env [29992, 36884, 65306, 20080, 20837, 32]
     [65292, 33258, 21160, 25187, 27454, 32]"

definition build_cash_settlement_reversal_note ::
  "env \<Rightarrow> nat \<Rightarrow> fixed \<Rightarrow> pystr \<Rightarrow> flow_direction \<Rightarrow> error + pystr" where
  "build_cash_settlement_reversal_note env transaction_id settled_amount settled_currency direction =
     bindE (display_g env (-2) display_money settled_amount) (\<lambda>m.
     Inr ([20914, 38144, 65306, 25764, 22238, 20132, 26131, 73, 68, 32, 35] @ show_nat transaction_id
       @ [32, 30340] @ (case direction of INFLOW \<Rightarrow> [22238, 27454, 20837, 36134]
                         | OUTFLOW \<Rightarrow> [20080, 20837, 25187, 27454])
       @ [32] @ m @ [32] @ normalize_currency settled_currency))"

section \<open>Putting a trade on a cash account\<close>

record trade =
  td_symbol :: pystr
  td_name :: pystr
  td_market :: pystr
  td_quantity :: fixed
  td_price :: fixed
  td_currency :: pystr
  td_traded_on :: date
  td_id :: nat

record applied_settlement =
  ap_account :: nat
  ap_amount :: fixed
  ap_currency :: pystr
  ap_handling :: handling
  ap_direction :: flow_direction
  ap_entry_type :: entry_type
  ap_auto_created :: bool

definition gross_amount :: "fixed \<Rightarrow> fixed \<Rightarrow> error + fixed" where
  \<comment> \<open>\<open>quantize_decimal(quantity * execution_price)\<close>\<close>
  "gross_amount quantity price = liftA (quantize_decimal (dec_mul (of_fixed quantity) (of_fixed price)))"

definition AUTO_PLATFORM :: pystr where
  "AUTO_PLATFORM = [20132, 26131, 22238, 27454]"

definition create_auto_cash_account_from_sell ::
  "env \<Rightarrow> trade \<Rightarrow> world \<Rightarrow> error + applied_settlement \<times> world" where
  "create_auto_cash_account_from_sell env td w =
     bindE (gross_amount (td_quantity td) (td_price td)) (\<lambda>proceeds.
     bindE (build_sell_proceeds_note env (td_symbol td) (td_name td) (td_market td) (td_quantity td)
         (td_price td) (td_currency td) (td_id td) None) (\<lambda>note_text.
     let account = \<lparr>ca_user = en_user env, ca_name = td_symbol td @ [32, 21334, 20986, 22238, 27454],
           ca_platform = AUTO_PLATFORM, ca_currency = normalize_currency (td_currency td),
           ca_balance = 0, ca_type = lit ''OTHER'', ca_started_on = Some (td_traded_on td),
           ca_note = Some note_text, ca_created_at = en_now env, ca_updated_at = en_now env\<rparr>;
         res = tinsert account (accounts w); i = fst res;
         w1 = w\<lparr>accounts := snd res\<rparr>
     in bindE (reconcile_cash_account_initial_ledger_entry env i 0 w1) (\<lambda>w2.
        bindE (create_cash_ledger_entry env (en_user env) i SELL_PROCEEDS proceeds (ca_currency account)
            (td_traded_on td) (Some note_text) (Some (td_id td)) None w2) (\<lambda>(k, w3).
        bindE (sync_cash_account_balance_from_ledger env i w3) (\<lambda>w4.
        Inr (\<lparr>ap_account = i, ap_amount = proceeds, ap_currency = normalize_currency (td_currency td),
               ap_handling = CREATE_NEW_CASH, ap_direction = INFLOW, ap_entry_type = SELL_PROCEEDS,
               ap_auto_created = True\<rparr>,
             record_asset_mutation env CASH_ACCOUNT (Some i) CREATE None (account_state w4 i)
               (ref ''AUTO_SELL_PROCEEDS'' (td_id td)) w4))))))"

definition post_settlement ::
  "env \<Rightarrow> trade \<Rightarrow> nat \<Rightarrow> cash_account \<Rightarrow> entry_type \<Rightarrow> fixed \<Rightarrow> pystr \<Rightarrow> pystr option
   \<Rightarrow> world \<Rightarrow> error + world" where
  \<comment> \<open>the common end of the two handlers on an existing account: note, entry, balance, audit\<close>
  "post_settlement env td i a etype amount note_text reason w =
     (let w1 = w\<lparr>accounts := tput i (a\<lparr>ca_note := Some (prepend_note_entry (ca_note a) note_text)\<rparr>)
            (accounts w)\<rparr>
      in bindE (create_cash_ledger_entry env (en_user env) i etype amount (ca_currency a)
             (td_traded_on td) (Some note_text) (Some (td_id td)) None w1) (\<lambda>(k, w2).
         bindE (sync_cash_account_balance_from_ledger env i w2) (\<lambda>w3.
         Inr (record_asset_mutation env CASH_ACCOUNT (Some i) UPDATE (Some (AccountState i a))
           (account_state w3 i) reason w3))))"

definition add_sell_proceeds_to_existing_cash_account ::
  "env \<Rightarrow> nat \<Rightarrow> trade \<Rightarrow> world \<Rightarrow> error + applied_settlement \<times> world" where
  "add_sell_proceeds_to_existing_cash_account env i td w =
     bindE (owned_account env TargetAccountNotFound i w) (\<lambda>a.
     bindE (gross_amount (td_quantity td) (td_price td)) (\<lambda>proceeds.
     bindE (convert_cash_amount_between_currencies env proceeds (td_currency td) (ca_currency a))
       (\<lambda>(converted, fx_rate).
     bindE (build_sell_proceeds_note env (td_symbol td) (td_name td) (td_market td) (td_quantity td)
         (td_price td) (td_currency td) (td_id td) (Some (converted, ca_currency a))) (\<lambda>note_text.
     bindE (post_settlement env td i a SELL_PROCEEDS converted note_text
         (ref ''SELL_PROCEEDS'' (td_id td)) w) (\<lambda>w1.
     Inr (\<lparr>ap_account = i, ap_amount = converted, ap_currency = normalize_currency (ca_currency a),
            ap_handling = ADD_TO_EXISTING_CASH, ap_direction = INFLOW, ap_entry_type = SELL_PROCEEDS,
            ap_auto_created = False\<rparr>, w1))))))"

definition apply_sell_proceeds_handling ::
  "env \<Rightarrow> handling \<Rightarrow> nat option \<Rightarrow> trade \<Rightarrow> world \<Rightarrow> error + applied_settlement option \<times> world" where
  "apply_sell_proceeds_handling env h target_account_id td w =
     (if h = DISCARD then Inr (None, w)
      else if h = ADD_TO_EXISTING_CASH then
        (case target_account_id of
           None \<Rightarrow> Inl (HTTPException 422 MissingProceedsAccount)
         | Some i \<Rightarrow> bindE (add_sell_proceeds_to_existing_cash_account env i td w)
             (\<lambda>(ap, w1). Inr (Some ap, w1)))
      else bindE (create_auto_cash_account_from_sell env td w) (\<lambda>(ap, w1). Inr (Some ap, w1)))"

definition apply_buy_funding_handling ::
  "env \<Rightarrow> handling option \<Rightarrow> nat option \<Rightarrow> trade \<Rightarrow> world \<Rightarrow> error + applied_settlement option \<times> world" where
  "apply_buy_funding_handling env h target_account_id td w =
     (let effective_handling = (case h of Some x \<Rightarrow> Some x
           | None \<Rightarrow> if target_account_id \<noteq> None then Some DEDUCT_FROM_EXISTING_CASH else None)
      in case effective_handling of
           None \<Rightarrow> Inr (None, w)
         | Some eh \<Rightarrow>
             if eh \<noteq> DEDUCT_FROM_EXISTING_CASH then Inl (HTTPException 422 UnsupportedFunding)
             else (case target_account_id of
                 None \<Rightarrow> Inl (HTTPException 422 MissingFundingAccount)
               | Some i \<Rightarrow>
                   bindE (owned_account env TargetAccountNotFound i w) (\<lambda>a.
                   bindE (gross_amount (td_quantity td) (td_price td)) (\<lambda>gross.
                   bindE (convert_cash_amount_between_currencies env gross (td_currency td) (ca_currency a))
                     (\<lambda>(settled, fx_rate).
                   bindE (ensure_balance_covers (ca_balance a) settled) (\<lambda>_.
                   bindE (build_buy_funding_note env (td_symbol td) (td_name td) (td_market td)
                       (td_quantity td) (td_price td) (td_currency td) (td_id td)
                       (Some (settled, ca_currency a))) (\<lambda>note_text.
                   bindE (liftA (quantize_decimal (dec_neg (of_fixed settled)))) (\<lambda>amount.
                   bindE (post_settlement env td i a BUY_FUNDING amount note_text
                       (ref ''BUY_FUNDING'' (td_id td)) w) (\<lambda>w1.
                   Inr (Some \<lparr>ap_account = i, ap_amount = settled,
                          ap_currency = normalize_currency (ca_currency a),
                          ap_handling = DEDUCT_FROM_EXISTING_CASH, ap_direction = OUTFLOW,
                          ap_entry_type = BUY_FUNDING, ap_auto_created = False\<rparr>, w1))))))))))"

section \<open>Settlement rows\<close>

definition get_holding_transaction_cash_settlement ::
  "world \<Rightarrow> pystr \<Rightarrow> nat \<Rightarrow> (nat \<times> cash_settlement) option" where
  "get_holding_transaction_cash_settlement w user transaction_id =
     (case tselect (\<lambda>s. st_user s = user \<and> st_transaction s = transaction_id) (settlements w) of
        [] \<Rightarrow> None | p # ps \<Rightarrow> Some p)"

definition record_holding_transaction_cash_settlement ::
  "env \<Rightarrow> nat \<Rightarrow> holding_transaction \<Rightarrow> applied_settlement \<Rightarrow> world \<Rightarrow> error + world" where
  "record_holding_transaction_cash_settlement env x tx ap w =
     bindE (gross_amount (tx_quantity tx) (case tx_price tx of None \<Rightarrow> 0 | Some p \<Rightarrow> p)) (\<lambda>source_amount.
     bindE (numeric_column source_amount) (\<lambda>source_amount.
     bindE (numeric_column (ap_amount ap)) (\<lambda>amount.
     case get_holding_transaction_cash_settlement w (en_user env) x of
       None \<Rightarrow> Inr (w\<lparr>settlements := snd (tinsert \<lparr>st_user = en_user env, st_transaction = x,
           st_account = ap_account ap, st_handling = ap_handling ap, st_settled_amount = amount,
           st_settled_currency = ap_currency ap, st_source_amount = source_amount,
           st_source_currency = normalize_currency (tx_fallback_currency tx),
           st_flow_direction = ap_direction ap, st_auto_created = ap_auto_created ap,
           st_created_at = en_now env, st_updated_at = en_now env\<rparr> (settlements w))\<rparr>)
     | Some (j, s) \<Rightarrow> Inr (w\<lparr>settlements := tput j (s\<lparr>st_account := ap_account ap,
           st_handling := ap_handling ap, st_settled_amount := amount,
           st_settled_currency := ap_currency ap, st_source_amount := source_amount,
           st_source_currency := normalize_currency (tx_fallback_currency tx),
           st_flow_direction := ap_direction ap, st_auto_created := ap_auto_created ap,
           st_updated_at := en_now env\<rparr>) (settlements w)\<rparr>))))"

definition auto_account_is_spent :: "env \<Rightarrow> nat \<Rightarrow> cash_settlement \<Rightarrow> cash_account \<Rightarrow> world \<Rightarrow> bool" where
  \<comment> \<open>\<open>account_should_delete\<close>, on the account after its balance is synchronised\<close>
  "auto_account_is_spent env i s a w \<longleftrightarrow>
     st_auto_created s \<and> ca_platform a = AUTO_PLATFORM \<and> dec_le (of_fixed (ca_balance a)) FIXED_EPSILON
     \<and> filter (\<lambda>(k, e). le_type e \<noteq> INITIAL_BALANCE)
         (list_cash_ledger_entries_for_account w (en_user env) i) = []"

definition loaded_account :: "nat \<Rightarrow> world \<Rightarrow> error + cash_account" where
  "loaded_account i w = (case tget (accounts w) i of None \<Rightarrow> Inl StaleDataError | Some a \<Rightarrow> Inr a)"

lemma loaded_account_eq [simp]: "loaded_account i w = Inr a \<longleftrightarrow> tget (accounts w) i = Some a"
  by (auto simp: loaded_account_def split: option.splits)

definition undo_on_account ::
  "env \<Rightarrow> nat \<Rightarrow> cash_settlement \<Rightarrow> nat \<Rightarrow> cash_account \<Rightarrow> world \<Rightarrow> error + world" where
  \<comment> \<open>the account of an undone settlement, its entries deleted: synchronise it, then delete it or note the reversal\<close>
  "undo_on_account env x s i before w =
     bindE (sync_cash_account_balance_from_ledger env i w) (\<lambda>w2.
     bindE (loaded_account i w2) (\<lambda>a.
     let reason = ref ''SELL_PROCEEDS_REVERSAL'' x in
     if auto_account_is_spent env i s a w2
     then
       (let w3 = w2\<lparr>ledger := tdel_ids (map fst
              (list_cash_ledger_entries_for_account w2 (en_user env) i)) (ledger w2)\<rparr>;
            w4 = w3\<lparr>accounts := tdel i (accounts w3)\<rparr>
        in Inr (record_asset_mutation env CASH_ACCOUNT (Some i) DELETE
             (Some (AccountState i before)) None reason w4))
     else
       bindE (build_cash_settlement_reversal_note env x (st_settled_amount s)
           (st_settled_currency s) (st_flow_direction s)) (\<lambda>note_text.
       let a' = a\<lparr>ca_note := Some (prepend_note_entry (ca_note a) note_text)\<rparr>;
           w3 = w2\<lparr>accounts := tput i a' (accounts w2)\<rparr>
       in Inr (record_asset_mutation env CASH_ACCOUNT (Some i) UPDATE
            (Some (AccountState i before)) (Some (AccountState i a')) reason w3))))"

definition reverse_holding_transaction_cash_settlement ::
  "env \<Rightarrow> nat \<Rightarrow> world \<Rightarrow> error + nat option \<times> world" where
  \<comment> \<open>the id of the account object the source returns\<close>
  "reverse_holding_transaction_cash_settlement env x w =
     (case get_holding_transaction_cash_settlement w (en_user env) x of
        None \<Rightarrow> Inr (None, w)
      | Some (j, s) \<Rightarrow>
          (let i = st_account s;
               w1 = delete_cash_ledger_entries_for_holding_transaction (en_user env) x w
           in case tget (accounts w) i of
                None \<Rightarrow> Inr (None, w1\<lparr>settlements := tdel j (settlements w1)\<rparr>)
              | Some before \<Rightarrow>
                  if ca_user before \<noteq> en_user env
                  then Inr (None, w1\<lparr>settlements := tdel j (settlements w1)\<rparr>)
                  else bindE (undo_on_account env x s i before w1) (\<lambda>w2.
                    Inr (Some i, w2\<lparr>settlements := tdel j (settlements w2)\<rparr>))))"

end
