(* ===== verification/Holding_Repository.thy ===== *)
theory Holding_Repository
  imports Settlements
begin

text \<open>
  Model of \<^verbatim>\<open>backend/app/services/holding_projection_parts/repository.py\<close>: the rows of a
  symbol's holding and transactions, and the projection of the transactions onto the holding
  row. A holding or transaction object of the source is named by its id.
\<close>

definition list_holdings_for_symbol ::
  "world \<Rightarrow> pystr \<Rightarrow> pystr \<Rightarrow> pystr \<Rightarrow> (nat \<times> security_holding) list" where
  "list_holdings_for_symbol w user symbol market =
     sort_key fst (tselect (\<lambda>h. sh_user h = user \<and> sh_symbol h = symbol \<and> sh_market h = market) (holdings w))"

definition transactions_for_symbol ::
  "world \<Rightarrow> pystr \<Rightarrow> pystr \<Rightarrow> pystr \<Rightarrow> (nat \<times> holding_transaction) list" where
  "transactions_for_symbol w user symbol market =
     tselect (\<lambda>t. tx_user t = user \<and> tx_symbol t = symbol \<and> tx_market t = market) (transactions w)"

definition transaction_order :: "nat \<times> holding_transaction \<Rightarrow> date \<times> datetime \<times> nat" where
  "transaction_order p = (tx_traded_on (snd p), tx_created_at (snd p), fst p)"

definition transactions_latest_first ::
  "world \<Rightarrow> pystr \<Rightarrow> pystr \<Rightarrow> pystr \<Rightarrow> (nat \<times> holding_transaction) list" where
  "transactions_latest_first w user symbol market =
     rev (sort_key transaction_order (transactions_for_symbol w user symbol market))"

definition drop_transactions :: "pystr \<Rightarrow> (nat \<times> holding_transaction) list \<Rightarrow> world \<Rightarrow> world" where
  \<comment> \<open>the bulk delete of their settlements, then the rows one by one\<close>
  "drop_transactions user txs w =
     (let ids = map fst txs;
          gone = map fst (tselect (\<lambda>s. st_user s = user \<and> st_transaction s \<in> set ids) (settlements w))
      in w\<lparr>settlements := tdel_ids gone (settlements w), transactions := tdel_ids ids (transactions w)\<rparr>)"

definition delete_holding_transactions_for_symbol ::
  "pystr \<Rightarrow> pystr \<Rightarrow> pystr \<Rightarrow> world \<Rightarrow> (nat \<times> holding_transaction) list \<times> world" where
  "delete_holding_transactions_for_symbol user symbol market w =
     (let txs = transactions_latest_first w user symbol market
      in if txs = [] then ([], w) else (txs, drop_transactions user txs w))"

definition reverse_if_sell :: "env \<Rightarrow> nat \<times> holding_transaction \<Rightarrow> world \<Rightarrow> error + world" where
  "reverse_if_sell env p w =
     (if tx_side (snd p) \<noteq> SELL then Inr w
      else bindE (reverse_holding_transaction_cash_settlement env (fst p) w) (\<lambda>(account, w1). Inr w1))"

definition reverse_and_delete_holding_transactions_for_symbol ::
  "env \<Rightarrow> pystr \<Rightarrow> pystr \<Rightarrow> world \<Rightarrow> error + (nat \<times> holding_transaction) list \<times> world" where
  "reverse_and_delete_holding_transactions_for_symbol env symbol market w =
     (let txs = transactions_latest_first w (en_user env) symbol market
      in if txs = [] then Inr ([], w)
         else bindE (foldE (reverse_if_sell env) txs w) (\<lambda>w1.
              Inr (txs, drop_transactions (en_user env) txs w1)))"

definition list_holding_transaction_settlements ::
  "world \<Rightarrow> pystr \<Rightarrow> nat list \<Rightarrow> nat \<Rightarrow> cash_settlement option" where
  \<comment> \<open>a dictionary by transaction id, where the last row wins\<close>
  "list_holding_transaction_settlements w user ids =
     map_of (rev (map (\<lambda>(j, s). (st_transaction s, s))
       (tselect (\<lambda>s. st_user s = user \<and> st_transaction s \<in> set ids) (settlements w))))"

definition to_holding_transaction_reads ::
  "world \<Rightarrow> pystr \<Rightarrow> (nat \<times> holding_transaction) list \<Rightarrow> error + transaction_read list" where
  "to_holding_transaction_reads w user txs =
     (let settlement_map = list_holding_transaction_settlements w user (map fst txs)
      in mapE (\<lambda>(i, tx). to_holding_transaction_read i tx (settlement_map i)) txs)"

definition baseline_transaction :: "env \<Rightarrow> security_holding \<Rightarrow> holding_transaction" where
  \<comment> \<open>the purchase that stands for a holding recorded without transactions\<close>
  "baseline_transaction env h =
     \<lparr>tx_user = sh_user h, tx_symbol = sh_symbol h, tx_name = sh_name h, tx_side = BUY,
      tx_quantity = max (sh_quantity h) 0, tx_price = positive_price (sh_cost_basis_price h),
      tx_fallback_currency = normalize_currency (sh_fallback_currency h), tx_market = sh_market h,
      tx_broker = sh_broker h,
      tx_traded_on = (case sh_started_on h of Some d \<Rightarrow> d | None \<Rightarrow> server_today_date (sh_created_at h)),
      tx_note = sh_note h, tx_created_at = en_now env, tx_updated_at = en_now env\<rparr>"

definition add_transaction :: "holding_transaction \<Rightarrow> world \<Rightarrow> world" where
  "add_transaction tx w = w\<lparr>transactions := snd (tinsert tx (transactions w))\<rparr>"

definition ensure_transaction_baseline_from_holding_snapshot ::
  "env \<Rightarrow> security_holding \<Rightarrow> world \<Rightarrow> world" where
  "ensure_transaction_baseline_from_holding_snapshot env h w =
     (if transactions_for_symbol w (sh_user h) (sh_symbol h) (sh_market h) \<noteq> [] then w
      else add_transaction (baseline_transaction env h) w)"

definition reset_holding_transactions_from_snapshot :: "env \<Rightarrow> security_holding \<Rightarrow> world \<Rightarrow> world" where
  "reset_holding_transactions_from_snapshot env h w =
     (let w1 = snd (delete_holding_transactions_for_symbol (sh_user h) (sh_symbol h) (sh_market h) w)
      in if sh_quantity h \<le> EPSILON then w1 else add_transaction (baseline_transaction env h) w1)"

definition get_latest_holding_transaction_for_symbol ::
  "world \<Rightarrow> pystr \<Rightarrow> pystr \<Rightarrow> pystr \<Rightarrow> (nat \<times> holding_transaction) option" where
  "get_latest_holding_transaction_for_symbol w user symbol market =
     (case transactions_latest_first w user symbol market of [] \<Rightarrow> None | p # ps \<Rightarrow> Some p)"

definition project_holding_state_from_transactions ::
  "world \<Rightarrow> pystr \<Rightarrow> pystr \<Rightarrow> pystr \<Rightarrow> error + projected_state option" where
  "project_holding_state_from_transactions w user symbol market =
     (let txs = transactions_for_symbol w user symbol market
      in if txs = [] then Inr None
         else project_holding_state_from_sorted_transactions txs symbol market)"

definition optional_numeric_column :: "fixed option \<Rightarrow> error + fixed option" where
  "optional_numeric_column v = (case v of None \<Rightarrow> Inr None
     | Some x \<Rightarrow> bindE (numeric_column x) (\<lambda>n. Inr (Some n)))"

definition sync_holding_projection_for_symbol ::
  "env \<Rightarrow> pystr \<Rightarrow> pystr \<Rightarrow> pystr \<Rightarrow> world \<Rightarrow> error + nat option \<times> world" where
  "sync_holding_projection_for_symbol env user symbol market w =
     (let existing = list_holdings_for_symbol w user symbol market;
          primary = (case existing of [] \<Rightarrow> None | p # ps \<Rightarrow> Some p);
          w1 = w\<lparr>holdings := tdel_ids (map fst (tl existing)) (holdings w)\<rparr>
      in bindE (project_holding_state_from_transactions w1 user symbol market) (\<lambda>projected.
         case projected of
           None \<Rightarrow> (case primary of
               None \<Rightarrow> Inr (None, w1)
             | Some (i, h) \<Rightarrow> Inr (None, w1\<lparr>holdings := tdel i (holdings w1)\<rparr>))
         | Some st \<Rightarrow>
             bindE (projected_holding_quantity st) (\<lambda>quantity.
             bindE (projected_holding_cost_basis st) (\<lambda>cost_basis_price.
             bindE (numeric_column quantity) (\<lambda>quantity.
             bindE (optional_numeric_column cost_basis_price) (\<lambda>cost_basis_price.
             case primary of
               None \<Rightarrow>
                 (let res = tinsert \<lparr>sh_user = user, sh_symbol = symbol, sh_name = ps_name st,
                        sh_quantity = quantity, sh_fallback_currency = ps_fallback_currency st,
                        sh_cost_basis_price = cost_basis_price, sh_market = market,
                        sh_broker = ps_broker st, sh_started_on = projected_holding_started_on st,
                        sh_note = ps_note st, sh_created_at = en_now env, sh_updated_at = en_now env\<rparr>
                        (holdings w1)
                  in Inr (Some (fst res), w1\<lparr>holdings := snd res\<rparr>))
             | Some (i, h) \<Rightarrow>
                 Inr (Some i, w1\<lparr>holdings := tput i (h\<lparr>sh_name := ps_name st, sh_quantity := quantity,
                        sh_fallback_currency := ps_fallback_currency st,
                        sh_cost_basis_price := cost_basis_price, sh_market := market,
                        sh_broker := ps_broker st, sh_started_on := projected_holding_started_on st,
                        sh_note := ps_note st, sh_updated_at := en_now env\<rparr>) (holdings w1)\<rparr>)))))))"

end
