(* ===== verification/History_Sync.thy ===== *)
theory History_Sync
  imports Job_Queue
begin

text \<open>
  Model of \<^verbatim>\<open>backend/app/services/history_sync_service.py\<close>: the per-user request to rebuild the
  holding history, hour buckets, forward filling of hourly prices.
\<close>

section \<open>Requests\<close>

definition latest_sync_request :: "pystr \<Rightarrow> world \<Rightarrow> (nat \<times> history_sync_request) option" where
  "latest_sync_request user w =
     (case rev (sort_key (\<lambda>p. (hs_requested_at (snd p), fst p))
        (tselect (\<lambda>r. hs_user r = user) (sync_requests w))) of [] \<Rightarrow> None | p # ps \<Rightarrow> Some p)"

definition enqueue_holding_history_sync_request ::
  "env \<Rightarrow> pystr \<Rightarrow> pystr option \<Rightarrow> world \<Rightarrow> world" where
  "enqueue_holding_history_sync_request env user trigger_symbol w =
     (case latest_sync_request user w of
        None \<Rightarrow> w\<lparr>sync_requests := snd (tinsert \<lparr>hs_user = user, hs_status = SYNC_PENDING,
            hs_trigger_symbol = trigger_symbol, hs_error_message = None,
            hs_requested_at = en_now env, hs_started_at = None, hs_completed_at = None\<rparr>
            (sync_requests w))\<rparr>
      | Some (i, r) \<Rightarrow> w\<lparr>sync_requests := tput i (r\<lparr>hs_status := SYNC_PENDING,
            hs_trigger_symbol := trigger_symbol, hs_requested_at := en_now env,
            hs_started_at := None, hs_completed_at := None, hs_error_message := None\<rparr>)
            (sync_requests w)\<rparr>)"

definition has_holding_history_sync_pending :: "pystr \<Rightarrow> world \<Rightarrow> bool" where
  "has_holding_history_sync_pending user w \<longleftrightarrow>
     tselect (\<lambda>r. hs_user r = user \<and> hs_status r \<in> {SYNC_PENDING, SYNC_RUNNING}) (sync_requests w) \<noteq> []"

section \<open>Hour buckets and forward filling\<close>

function hours_from :: "datetime \<Rightarrow> datetime \<Rightarrow> datetime list" where
  "hours_from cursor end_hour =
     (if cursor \<le> end_hour then cursor # hours_from (cursor + US_HOUR) end_hour else [])"
  by pat_completeness auto
termination
  by (relation "measure (\<lambda>(c, e). nat (e + 1 - c))") (auto simp: US_HOUR_def)

declare hours_from.simps [simp del]

definition build_hour_buckets :: "datetime \<Rightarrow> datetime \<Rightarrow> datetime list" where
  "build_hour_buckets start_at end_at =
     (let start_hour = current_hour_bucket start_at; end_hour = current_hour_bucket end_at
      in if end_hour < start_hour then [] else hours_from start_hour end_hour)"

fun known_prices :: "(datetime \<times> dec) list \<Rightarrow> (datetime \<times> fixed) list \<Rightarrow> arith_error + (datetime \<times> fixed) list" where
  "known_prices [] m = Inr m"
| "known_prices ((bucket, price) # ps) m =
     (if dec_le price (Dec 0 0) then known_prices ps m
      else bindE (quantize_decimal price)
             (\<lambda>n. known_prices ps (AList.update (current_hour_bucket bucket) n m)))"

fun fill_from :: "(datetime \<times> fixed) list \<Rightarrow> fixed \<Rightarrow> fixed option \<Rightarrow> datetime list \<Rightarrow> (datetime \<times> fixed) list" where
  "fill_from known dflt last_known [] = []"
| "fill_from known dflt last_known (h # hs) =
     (case map_of known h of
        Some p \<Rightarrow> (h, p) # fill_from known dflt (Some p) hs
      | None \<Rightarrow> (case last_known of
            Some p \<Rightarrow> (h, p) # fill_from known dflt last_known hs
          | None \<Rightarrow> (h, dflt) # fill_from known dflt last_known hs))"

definition default_price :: "(datetime \<times> fixed) list \<Rightarrow> fixed \<Rightarrow> fixed" where
  "default_price known fallback =
     (let first_known_price = (case sort (map snd known) of [] \<Rightarrow> None | p # ps \<Rightarrow> Some p)
      in if fallback > 0 then fallback
         else (case first_known_price of None \<Rightarrow> 0 | Some p \<Rightarrow> p))"

definition fill_hourly_prices ::
  "datetime list \<Rightarrow> (datetime \<times> dec) list \<Rightarrow> dec \<Rightarrow> arith_error + (datetime \<times> fixed) list" where
  "fill_hourly_prices hours known_points fallback_price =
     bindE (known_prices known_points []) (\<lambda>known.
     bindE (quantize_decimal fallback_price) (\<lambda>fallback.
     Inr (fill_from known (default_price known fallback) None hours)))"

section \<open>Frame\<close>

lemma enqueue_sync_frame [simp]:
  "accounts (enqueue_holding_history_sync_request env u s w) = accounts w"
  "ledger (enqueue_holding_history_sync_request env u s w) = ledger w"
  "transfers (enqueue_holding_history_sync_request env u s w) = transfers w"
  "holdings (enqueue_holding_history_sync_request env u s w) = holdings w"
  "transactions (enqueue_holding_history_sync_request env u s w) = transactions w"
  "settlements (enqueue_holding_history_sync_request env u s w) = settlements w"
  "idem_keys (enqueue_holding_history_sync_request env u s w) = idem_keys w"
  "jobs (enqueue_holding_history_sync_request env u s w) = jobs w"
  "cached_dashboards (enqueue_holding_history_sync_request env u s w) = cached_dashboards w"
  by (simp_all add: enqueue_holding_history_sync_request_def split: option.split prod.split)

section \<open>Lemmas\<close>

lemma hour_steps_nonneg: "0 \<le> int k * US_HOUR \<and> 0 < US_HOUR"
  by (simp add: US_HOUR_def)

lemma ex_nat_cases: "(\<exists>k. Q k) \<longleftrightarrow> Q 0 \<or> (\<exists>k. Q (Suc k))"
proof -
  have "Q k \<Longrightarrow> Q 0 \<or> (\<exists>k. Q (Suc k))" for k by (cases k) (simp_all, rule disjI2, rule exI)
  then show ?thesis by blast
qed

lemma hours_from_iff: "h \<in> set (hours_from c e) \<longleftrightarrow> (\<exists>k. h = c + int k * US_HOUR) \<and> h \<le> e"
proof (induction c e rule: hours_from.induct)
  case (1 c e)
  show ?case
  proof (cases "c \<le> e")
    case True
    have "(\<exists>k. h = c + int k * US_HOUR) \<longleftrightarrow> h = c \<or> (\<exists>k. h = c + US_HOUR + int k * US_HOUR)"
      by (subst ex_nat_cases) (simp add: algebra_simps)
    moreover have "h \<in> set (hours_from c e) \<longleftrightarrow> h = c \<or> h \<in> set (hours_from (c + US_HOUR) e)"
      using True by (simp add: hours_from.simps [of c e])
    ultimately show ?thesis using "1.IH" [OF True] True by metis
  next
    case False
    have "\<not> c + int k * US_HOUR \<le> e" for k using hour_steps_nonneg [of k] False by linarith
    with False show ?thesis by (auto simp: hours_from.simps [of c e])
  qed
qed

lemma hours_from_sorted: "sorted_wrt (<) (hours_from c e)"
proof (induction c e rule: hours_from.induct)
  case (1 c e)
  have "c < c + US_HOUR + int k * US_HOUR" for k using hour_steps_nonneg [of k] by linarith
  then have "\<forall>h \<in> set (hours_from (c + US_HOUR) e). c < h"
    by (auto simp: hours_from_iff)
  with 1 show ?case by (simp add: hours_from.simps [of c e])
qed

lemma fill_from_hours: "map fst (fill_from known d l hs) = hs"
  by (induction hs arbitrary: l) (auto split: option.split)

text \<open>The price of an hour is the price at the last hour with a known price, else the default.\<close>

definition last_known_price :: "(datetime \<times> fixed) list \<Rightarrow> datetime list \<Rightarrow> fixed option" where
  "last_known_price known hs =
     (case filter (\<lambda>h. map_of known h \<noteq> None) (rev hs) of [] \<Rightarrow> None | h # _ \<Rightarrow> map_of known h)"

lemma fill_from_snoc:
  "fill_from known d l (hs @ [h]) = fill_from known d l hs @
     [(h, case last_known_price known (hs @ [h]) of Some p \<Rightarrow> p
          | None \<Rightarrow> (case l of Some p \<Rightarrow> p | None \<Rightarrow> d))]"
proof (induction hs arbitrary: l)
  case Nil
  show ?case by (auto simp: last_known_price_def split: option.split)
next
  case (Cons g hs)
  have "last_known_price known (g # hs @ [h]) =
      (case last_known_price known (hs @ [h]) of Some p \<Rightarrow> Some p | None \<Rightarrow> map_of known g)"
    by (cases "filter (\<lambda>h. map_of known h \<noteq> None) (rev hs)")
      (auto simp: last_known_price_def filter_eq_Cons_iff split: option.split)
  with Cons show ?case by (auto split: option.split)
qed

end
