(* ===== verification/Symbols.thy ===== *)
theory Symbols
  imports Common_Service
begin

text \<open>
  Model of \<^verbatim>\<open>backend/app/services/market_data_parts/symbols.py\<close>: ticker symbols in their
  canonical form. Each regular expression of the source is a predicate on the code points. A
  \<open>d\<close> class matches every Unicode decimal digit, as in Python's \<open>re\<close> on \<open>str\<close>; the
  digits come in runs of ten consecutive code points, listed by their zeros.
\<close>

section \<open>Character classes and string methods\<close>

definition ZERO_DIGITS :: "nat list" where
  "ZERO_DIGITS = [48, 1632, 1776, 1984, 2406, 2534, 2662, 2790, 2918, 3046, 3174, 3302, 3430, 3558,
     3664, 3792, 3872, 4160, 4240, 6112, 6160, 6470, 6608, 6784, 6800, 6992, 7088, 7232, 7248, 42528,
     43216, 43264, 43472, 43504, 43600, 44016, 65296, 66720, 68912, 69734, 69872, 69942, 70096, 70384,
     70736, 70864, 71248, 71360, 71472, 71904, 72016, 72784, 73040, 73120, 92768, 92864, 93008,
     120782, 120792, 120802, 120812, 120822, 123200, 123632, 125264, 130032]"

definition digit_value :: "nat \<Rightarrow> nat option" where
  "digit_value c = map_option (\<lambda>z. c - z) (find (\<lambda>z. z \<le> c \<and> c < z + 10) ZERO_DIGITS)"

definition is_digit :: "nat \<Rightarrow> bool" where
  "is_digit c \<longleftrightarrow> digit_value c \<noteq> None"

definition is_AZ :: "nat \<Rightarrow> bool" where
  "is_AZ c \<longleftrightarrow> 65 \<le> c \<and> c \<le> 90"

definition is_AZ09 :: "nat \<Rightarrow> bool" where
  "is_AZ09 c \<longleftrightarrow> is_AZ c \<or> 48 \<le> c \<and> c \<le> 57"

definition digits :: "nat \<Rightarrow> nat \<Rightarrow> pystr \<Rightarrow> bool" where
  "digits lo hi s \<longleftrightarrow> lo \<le> length s \<and> length s \<le> hi \<and> (\<forall>c \<in> set s. is_digit c)"

definition int_of_digits :: "pystr \<Rightarrow> nat" where
  "int_of_digits s = foldl (\<lambda>acc c. 10 * acc + the (digit_value c)) 0 s"

definition zfill :: "nat \<Rightarrow> pystr \<Rightarrow> pystr" where
  "zfill n s = replicate (n - length s) 48 @ s"

definition ends_with :: "pystr \<Rightarrow> pystr \<Rightarrow> bool" where
  "ends_with suf s \<longleftrightarrow> length suf \<le> length s \<and> drop (length s - length suf) s = suf"

definition starts_with :: "pystr \<Rightarrow> pystr \<Rightarrow> bool" where
  "starts_with pre s \<longleftrightarrow> take (length pre) s = pre"

definition removesuffix :: "pystr \<Rightarrow> pystr \<Rightarrow> pystr" where
  "removesuffix suf s = (if ends_with suf s then take (length s - length suf) s else s)"

lemma ends_with_append [simp]: "ends_with suf (s @ suf)"
  by (simp add: ends_with_def)

lemma removesuffix_append [simp]: "removesuffix suf (s @ suf) = s"
  by (simp add: removesuffix_def)

lemma ends_with_iff: "ends_with suf s \<longleftrightarrow> (\<exists>p. s = p @ suf)"
  by (auto simp: ends_with_def) (metis append_take_drop_id)

lemma starts_with_iff: "starts_with pre s \<longleftrightarrow> (\<exists>r. s = pre @ r)"
  by (auto simp: starts_with_def) (metis append_take_drop_id)

section \<open>Canonical symbols\<close>

definition build_fx_symbol :: "pystr \<Rightarrow> pystr \<Rightarrow> pystr" where
  "build_fx_symbol from_currency to_currency = py_upper from_currency @ py_upper to_currency @ lit ''=X''"

definition normalize_hk_code :: "pystr \<Rightarrow> pystr" where
  "normalize_hk_code raw_code = zfill 4 (show_nat (int_of_digits raw_code))"

definition is_fx_symbol :: "pystr \<Rightarrow> bool" where
  "is_fx_symbol s \<longleftrightarrow> length s = 8 \<and> (\<forall>c \<in> set (take 6 s). is_AZ c) \<and> drop 6 s = lit ''=X''"

definition is_ticker :: "pystr \<Rightarrow> bool" where
  "is_ticker s \<longleftrightarrow> (case s of [] \<Rightarrow> False
     | c # cs \<Rightarrow> is_AZ c \<and> (case dropWhile is_AZ09 cs of
         [] \<Rightarrow> True
       | d # ds \<Rightarrow> (d = 46 \<or> d = 45) \<and> ds \<noteq> [] \<and> (\<forall>x \<in> set ds. is_AZ09 x)))"

definition normalize_candidate :: "pystr \<Rightarrow> error + pystr" where
  \<comment> \<open>\<open>normalize_symbol\<close> after \<open>strip().upper()\<close>\<close>
  "normalize_candidate candidate =
     (if candidate = [] then Inl ValueError
      else if is_fx_symbol candidate then Inr candidate
      else if starts_with (lit ''SH'') candidate \<and> digits 6 6 (drop 2 candidate)
        then Inr (drop 2 candidate @ lit ''.SS'')
      else if starts_with (lit ''SZ'') candidate \<and> digits 6 6 (drop 2 candidate)
        then Inr (drop 2 candidate @ lit ''.SZ'')
      else if starts_with (lit ''HK'') candidate \<and> digits 1 5 (drop 2 candidate)
        then Inr (normalize_hk_code (drop 2 candidate) @ lit ''.HK'')
      else if (ends_with (lit ''.SS'') candidate \<or> ends_with (lit ''.SZ'') candidate)
          \<and> digits 6 6 (take (length candidate - 3) candidate)
        then Inr candidate
      else if ends_with (lit ''.HK'') candidate \<and> digits 1 5 (take (length candidate - 3) candidate)
        then Inr (normalize_hk_code (takeWhile (\<lambda>c. c \<noteq> 46) candidate) @ lit ''.HK'')
      else if digits 6 6 candidate
        then Inr (candidate @ lit (if hd candidate \<in> {53, 54, 57} then ''.SS'' else ''.SZ''))
      else if digits 1 5 candidate then Inr (normalize_hk_code candidate @ lit ''.HK'')
      else if is_ticker candidate then Inr candidate
      else Inl ValueError)"

definition normalize_symbol :: "pystr \<Rightarrow> error + pystr" where
  "normalize_symbol symbol = normalize_candidate (py_upper (py_strip symbol))"

definition build_eastmoney_secid :: "pystr \<Rightarrow> error + pystr" where
  "build_eastmoney_secid symbol =
     bindE (normalize_symbol symbol) (\<lambda>s.
       if ends_with (lit ''.SS'') s then Inr (lit ''1.'' @ removesuffix (lit ''.SS'') s)
       else if ends_with (lit ''.SZ'') s then Inr (lit ''0.'' @ removesuffix (lit ''.SZ'') s)
       else if ends_with (lit ''.HK'') s then Inr (lit ''116.'' @ zfill 5 (removesuffix (lit ''.HK'') s))
       else Inl ValueError)"

definition default_currency_for_market :: "pystr \<Rightarrow> pystr" where
  "default_currency_for_market market =
     (if market = lit ''CRYPTO'' then lit ''USD'' else if market = lit ''HK'' then lit ''HKD''
      else if market = lit ''US'' then lit ''USD'' else lit ''CNY'')"

definition is_crypto_base :: "pystr \<Rightarrow> bool" where
  "is_crypto_base s \<longleftrightarrow> 2 \<le> length s \<and> length s \<le> 15 \<and> (\<forall>c \<in> set s. is_AZ09 c)"

definition crypto_pair_base :: "(nat \<Rightarrow> bool) \<Rightarrow> pystr \<Rightarrow> pystr option" where
  \<comment> \<open>the base of a pair with this separator and a USD, USDT or USDC quote\<close>
  "crypto_pair_base sep s =
     (let base = takeWhile is_AZ09 s; rest = drop (length base) s
      in if is_crypto_base base \<and> rest \<noteq> [] \<and> sep (hd rest)
            \<and> tl rest \<in> {lit ''USD'', lit ''USDT'', lit ''USDC''}
         then Some base else None)"

definition normalize_symbol_for_market :: "pystr \<Rightarrow> pystr option \<Rightarrow> error + pystr" where
  "normalize_symbol_for_market symbol market =
     (let normalized_market = py_upper (py_strip (case market of None \<Rightarrow> [] | Some m \<Rightarrow> m));
          candidate = py_upper (py_strip symbol)
      in if normalized_market = lit ''CRYPTO'' then
           (if is_crypto_base candidate then Inr (candidate @ lit ''-USD'')
            else case crypto_pair_base (\<lambda>c. c = 45 \<or> c = 47) candidate of
                Some base \<Rightarrow> Inr (base @ lit ''-USD'')
              | None \<Rightarrow> normalize_symbol candidate)
         else normalize_symbol candidate)"

definition build_bitget_symbol :: "pystr \<Rightarrow> error + pystr" where
  "build_bitget_symbol symbol =
     bindE (normalize_symbol_for_market symbol (Some (lit ''CRYPTO''))) (\<lambda>s.
     Inr (takeWhile (\<lambda>c. c \<noteq> 45) s @ lit ''USDT''))"

definition US_EXCHANGES :: "pystr list" where
  "US_EXCHANGES = map lit [''NMS'', ''NGM'', ''NYQ'', ''ASE'', ''PCX'', ''BTS'', ''NCM'', ''NSQ'', ''OOTC'', ''PNK'']"

definition CRYPTO_EXCHANGES :: "pystr list" where
  "CRYPTO_EXCHANGES = map lit [''CCC'', ''CCY'', ''CRY'', ''COIN'']"

definition CN_EXCHANGES :: "pystr list" where
  "CN_EXCHANGES = map lit [''SHH'', ''SHZ'', ''SHANGHAI'', ''SHENZHEN'', ''SHA'', ''SHE'']"

definition infer_security_market :: "pystr \<Rightarrow> pystr option \<Rightarrow> pystr option \<Rightarrow> pystr" where
  "infer_security_market symbol exchange quote_type =
     (let norm = (\<lambda>v. py_upper (py_strip (case v of None \<Rightarrow> [] | Some s \<Rightarrow> s)));
          s = py_upper (py_strip symbol); ex = norm exchange; qt = norm quote_type
      in if qt = lit ''CRYPTOCURRENCY'' \<or> ex \<in> set CRYPTO_EXCHANGES then lit ''CRYPTO''
         else if crypto_pair_base (\<lambda>c. c = 45) s \<noteq> None then lit ''CRYPTO''
         else if ends_with (lit ''.HK'') s \<or> starts_with (lit ''HKG'') ex then lit ''HK''
         else if ends_with (lit ''.SS'') s \<or> ends_with (lit ''.SZ'') s then lit ''CN''
         else if ex \<in> set CN_EXCHANGES then lit ''CN''
         else if ex \<in> set US_EXCHANGES then lit ''US''
         else if ex = [] \<and> is_ticker s then lit ''US''
         else lit ''OTHER'')"

text \<open>\<open>_normalize_symbol\<close> of \<^verbatim>\<open>common_service.py\<close>: the error becomes a 422.\<close>

definition service_normalize_symbol :: "pystr \<Rightarrow> pystr option \<Rightarrow> error + pystr" where
  "service_normalize_symbol symbol market =
     (case (if market = None \<or> market = Some [] then normalize_symbol symbol
            else normalize_symbol_for_market symbol market) of
        Inl e \<Rightarrow> Inl (if e = ValueError then HTTPException 422 InvalidSymbol else e)
      | Inr s \<Rightarrow> Inr s)"

end
