(* ===== verification/Holding_Transactions.thy ===== *)
theory Holding_Transactions
  imports Holding_Repository History_Sync Symbols
begin

text \<open>
  Model of \<^verbatim>\<open>backend/app/services/holding_transaction_service.py\<close>: the handlers for holdings
  and their transactions. Result types are those of \<^verbatim>\<open>Cash_Accounts\<close>: a pair whose first
  component is itself a sum is a response that is built after the commit.
\<close>

section \<open>Shared steps\<close>

definition owned_holding :: "env \<Rightarrow> nat \<Rightarrow> world \<Rightarrow> error + security_holding" where
  "owned_holding env i w = (case tget (holdings w) i of
      None \<Rightarrow> Inl (HTTPException 404 HoldingNotFound)
    | Some h \<Rightarrow> if sh_user h \<noteq> en_user env then Inl (HTTPException 404 HoldingNotFound) else Inr h)"

definition owned_transaction :: "env \<Rightarrow> nat \<Rightarrow> world \<Rightarrow> error + holding_transaction" where
  "owned_transaction env i w = (case tget (transactions w) i of
      None \<Rightarrow> Inl (HTTPException 404 TransactionNotFound)
    | Some t \<Rightarrow> if tx_user t \<noteq> en_user env then Inl (HTTPException 404 TransactionNotFound) else Inr t)"

definition holding_state :: "world \<Rightarrow> nat \<Rightarrow> model_state option" where
  "holding_state w i = map_option (HoldingState i) (tget (holdings w) i)"

definition transaction_state :: "world \<Rightarrow> nat \<Rightarrow> model_state option" where
  "transaction_state w i = map_option (TransactionState i) (tget (transactions w) i)"

definition holding_read_of :: "env \<Rightarrow> nat \<Rightarrow> world \<Rightarrow> error + holding_read" where
  "holding_read_of env i w = (case tget (holdings w) i of None \<Rightarrow> Inl StaleDataError
     | Some h \<Rightarrow> to_holding_read env i h)"

definition quantize_optional :: "fixed option \<Rightarrow> error + fixed option" where
  \<comment> \<open>\<open>quantize_optional_decimal\<close> on a stored value\<close>
  "quantize_optional v = liftA (quantize_optional_decimal (map_option of_fixed v))"

definition finish_trade :: "env \<Rightarrow> pystr \<Rightarrow> world \<Rightarrow> error + world" where
  \<comment> \<open>ask for the history of the symbol's holder to be rebuilt, enqueue the job, commit\<close>
  "finish_trade env symbol w =
     finish_request env (enqueue_holding_history_sync_request env (en_user env) (Some symbol) w)"

section \<open>Holdings\<close>

definition create_holding :: "holding_create \<Rightarrow> env \<Rightarrow> world \<Rightarrow> error + (error + holding_read) \<times> world" where
  "create_holding payload env w =
     bindE (ensure_date_not_future env (hoc_started_on payload)) (\<lambda>_.
     bindE (service_normalize_symbol (hoc_symbol payload) (Some (hoc_market payload))) (\<lambda>symbol.
     bindE (liftA (quantize_decimal (of_fixed (hoc_quantity payload)))) (\<lambda>quantity.
     bindE (quantize_optional (hoc_cost_basis_price payload)) (\<lambda>cost_basis_price.
     bindE (numeric_column quantity) (\<lambda>quantity.
     bindE (optional_numeric_column cost_basis_price) (\<lambda>cost_basis_price.
     let h = \<lparr>sh_user = en_user env, sh_symbol = symbol, sh_name = py_strip (hoc_name payload),
           sh_quantity = quantity, sh_fallback_currency = normalize_currency (hoc_fallback_currency payload),
           sh_cost_basis_price = cost_basis_price, sh_market = hoc_market payload,
           sh_broker = hoc_broker payload, sh_started_on = hoc_started_on payload,
           sh_note = hoc_note payload, sh_created_at = en_now env, sh_updated_at = en_now env\<rparr>;
         res = tinsert h (holdings w); i = fst res;
         w1 = w\<lparr>holdings := snd res\<rparr>;
         w2 = reset_holding_transactions_from_snapshot env h w1;
         w3 = record_asset_mutation env HOLDING (Some i) CREATE None (holding_state w2 i) None w2
     in bindE (finish_trade env symbol w3) (\<lambda>w4. Inr (holding_read_of env i w4, w4))))))))"

definition creates_adjustment :: "holding_update \<Rightarrow> bool" where
  "creates_adjustment p \<longleftrightarrow> hou_quantity p \<noteq> None \<or> hou_cost_basis_price p \<noteq> None \<or> hou_started_on p \<noteq> None"

definition text_field :: "pystr field \<Rightarrow> pystr option \<Rightarrow> pystr option" where
  \<comment> \<open>the normalised text of a field that the request sets, else the stored text\<close>
  "text_field f old = (case f of None \<Rightarrow> old | Some v \<Rightarrow> normalize_optional_text v)"

definition adjustment_row ::
  "env \<Rightarrow> holding_update \<Rightarrow> security_holding \<Rightarrow> date \<Rightarrow> fixed \<Rightarrow> fixed option \<Rightarrow> datetime
   \<Rightarrow> holding_transaction" where
  "adjustment_row env p h started_on quantity price created_at =
     \<lparr>tx_user = en_user env, tx_symbol = sh_symbol h, tx_name = sh_name h, tx_side = ADJUST,
      tx_quantity = quantity, tx_price = price,
      tx_fallback_currency = normalize_currency (sh_fallback_currency h), tx_market = sh_market h,
      tx_broker = text_field (hou_broker p) (sh_broker h), tx_traded_on = started_on,
      tx_note = text_field (hou_note p) (sh_note h), tx_created_at = created_at,
      tx_updated_at = en_now env\<rparr>"

definition record_adjustment ::
  "holding_update \<Rightarrow> env \<Rightarrow> nat \<Rightarrow> security_holding \<Rightarrow> date \<Rightarrow> world \<Rightarrow> error + world" where
  \<comment> \<open>the correction becomes the earliest transaction, rewritten, or a new adjustment\<close>
  "record_adjustment p env holding_id h started_on w =
     bindE (case field_value (hou_quantity p) of
         Some q \<Rightarrow> liftA (quantize_decimal (of_fixed q)) | None \<Rightarrow> Inr (sh_quantity h)) (\<lambda>quantity.
     bindE (case hou_cost_basis_price p of
         Some v \<Rightarrow> quantize_optional v | None \<Rightarrow> Inr (sh_cost_basis_price h)) (\<lambda>price.
     bindE (numeric_column quantity) (\<lambda>quantity.
     bindE (optional_numeric_column price) (\<lambda>price.
     let txs = sort_key transaction_order
           (transactions_for_symbol w (en_user env) (sh_symbol h) (sh_market h));
         reason = ref ''HOLDING_EDIT'' holding_id
     in case (case txs of [] \<Rightarrow> None
           | (k, e) # rest \<Rightarrow> if started_on \<le> tx_traded_on e then Some (k, e) else None) of
          Some (k, e) \<Rightarrow>
            (let w1 = w\<lparr>transactions := tput k
                   (adjustment_row env p h started_on quantity price (tx_created_at e)) (transactions w)\<rparr>
             in Inr (record_asset_mutation env HOLDING_TRANSACTION (Some k) UPDATE
                  (Some (TransactionState k e)) (transaction_state w1 k) reason w1))
        | None \<Rightarrow>
            (let res = tinsert (adjustment_row env p h started_on quantity price (en_now env)) (transactions w);
                 w1 = w\<lparr>transactions := snd res\<rparr>
             in Inr (record_asset_mutation env HOLDING_TRANSACTION (Some (fst res)) CREATE None
                  (transaction_state w1 (fst res)) reason w1))))))"

definition adjust_holding ::
  "holding_update \<Rightarrow> env \<Rightarrow> nat \<Rightarrow> security_holding \<Rightarrow> date \<Rightarrow> world \<Rightarrow> error + nat \<times> world" where
  \<comment> \<open>record the correction and project it; the id of the holding that is edited further.
      When nothing is left to project, the row marked for deletion is added back to the session,
      which cancels its deletion; a row that is already deleted cannot be added back\<close>
  "adjust_holding p env holding_id h started_on w =
     bindE (record_adjustment p env holding_id h started_on w) (\<lambda>w1.
     bindE (sync_holding_projection_for_symbol env (en_user env) (sh_symbol h) (sh_market h) w1)
       (\<lambda>(synced, w2).
     case synced of
       Some i \<Rightarrow> Inr (i, w2)
     | None \<Rightarrow>
         (case list_holdings_for_symbol w1 (en_user env) (sh_symbol h) (sh_market h) of
            [] \<Rightarrow> Inl StaleDataError
          | p # ps \<Rightarrow> if fst p = holding_id
              then Inr (holding_id, w2\<lparr>holdings := tdel_ids (map fst ps) (holdings w1)\<rparr>)
              else Inl StaleDataError)))"

definition touch_latest_transaction :: "holding_update \<Rightarrow> env \<Rightarrow> security_holding \<Rightarrow> world \<Rightarrow> world" where
  "touch_latest_transaction p env h w =
     (case get_latest_holding_transaction_for_symbol w (en_user env) (sh_symbol h) (sh_market h) of
        None \<Rightarrow> w
      | Some (k, e) \<Rightarrow> w\<lparr>transactions := tput k (e\<lparr>tx_broker := text_field (hou_broker p) (tx_broker e),
            tx_note := text_field (hou_note p) (tx_note e), tx_updated_at := en_now env\<rparr>)
            (transactions w)\<rparr>)"

definition save_holding_edit ::
  "holding_update \<Rightarrow> env \<Rightarrow> nat \<Rightarrow> security_holding \<Rightarrow> nat \<Rightarrow> world
   \<Rightarrow> error + (error + holding_read) \<times> world" where
  \<comment> \<open>the text fields, the audit row and the commit; \<open>i\<close> is the holding that is edited\<close>
  "save_holding_edit p env holding_id h i w =
     (case tget (holdings w) i of
       None \<Rightarrow> Inl StaleDataError
     | Some h1 \<Rightarrow>
         let adjusts = creates_adjustment p;
             h2 = h1\<lparr>sh_broker := text_field (hou_broker p) (sh_broker h1),
               sh_note := text_field (hou_note p) (sh_note h1), sh_updated_at := en_now env\<rparr>;
             w1 = w\<lparr>holdings := tput i h2 (holdings w)\<rparr>;
             w2 = (if adjusts then w1 else touch_latest_transaction p env h2 w1);
             w3 = record_asset_mutation env HOLDING (Some i) UPDATE (Some (HoldingState holding_id h))
               (Some (HoldingState i h2)) None w2
         in bindE (if adjusts then finish_trade env (sh_symbol h2) w3
              else Inr (invalidate_dashboard_cache (Some (en_user env)) w3)) (\<lambda>w4.
            Inr (holding_read_of env i w4, w4)))"

definition update_holding ::
  "nat \<Rightarrow> holding_update \<Rightarrow> env \<Rightarrow> world \<Rightarrow> error + (error + holding_read) \<times> world" where
  "update_holding holding_id p env w =
     bindE (owned_holding env holding_id w) (\<lambda>h.
     let adjusts = creates_adjustment p;
         started_on = or_else (field_value (hou_started_on p)) (sh_started_on h) in
     bindE (ensure_date_not_future env (field_value (hou_started_on p))) (\<lambda>_.
     bindE (assertE (\<not> (adjusts \<and> started_on = None)) (HTTPException 422 StartDateRequired)) (\<lambda>_.
     bindE (case field_value (hou_quantity p) of
         Some q \<Rightarrow> validate_holding_quantity_for_market q (sh_market h) | None \<Rightarrow> Inr ()) (\<lambda>_.
     bindE (case (if adjusts then started_on else None) of
         Some d \<Rightarrow> adjust_holding p env holding_id h d w | None \<Rightarrow> Inr (holding_id, w)) (\<lambda>(i, w1).
     save_holding_edit p env holding_id h i w1)))))"

definition audit_deleted_transaction ::
  "env \<Rightarrow> nat \<Rightarrow> nat \<times> holding_transaction \<Rightarrow> world \<Rightarrow> world" where
  "audit_deleted_transaction env holding_id = (\<lambda>(k, t). record_asset_mutation env HOLDING_TRANSACTION
     (Some k) DELETE (Some (TransactionState k t)) None (ref ''HOLDING_DELETE'' holding_id))"

definition delete_holding :: "nat \<Rightarrow> env \<Rightarrow> world \<Rightarrow> error + world" where
  "delete_holding holding_id env w =
     bindE (owned_holding env holding_id w) (\<lambda>h.
     bindE (reverse_and_delete_holding_transactions_for_symbol env (sh_symbol h) (sh_market h) w)
       (\<lambda>(deleted, w1).
     let w2 = fold (audit_deleted_transaction env holding_id) deleted w1;
         w3 = w2\<lparr>holdings := tdel holding_id (holdings w2)\<rparr>;
         w4 = record_asset_mutation env HOLDING (Some holding_id) DELETE
           (Some (HoldingState holding_id h)) None None w3
     in finish_trade env (sh_symbol h) w4))"

section \<open>Lists\<close>

definition truthy :: "pystr option \<Rightarrow> bool" where
  "truthy v \<longleftrightarrow> v \<noteq> None \<and> v \<noteq> Some []"

definition list_holding_transactions_for_user ::
  "world \<Rightarrow> pystr \<Rightarrow> pystr option \<Rightarrow> pystr option \<Rightarrow> pystr option \<Rightarrow> nat
   \<Rightarrow> error + (nat \<times> holding_transaction) list" where
  "list_holding_transactions_for_user w user symbol market side_text limit =
     bindE (if truthy symbol then bindE (service_normalize_symbol (the symbol) market) (\<lambda>s. Inr (Some s))
            else Inr None) (\<lambda>symbol_filter.
     let market_filter = (if truthy market then Some (py_upper (py_strip (the market))) else None) in
     bindE (if truthy side_text then bindE (normalize_holding_transaction_side (the side_text)) (\<lambda>s. Inr (Some s))
            else Inr None) (\<lambda>side_filter.
     Inr (take limit (rev (sort_key transaction_order (tselect (\<lambda>t. tx_user t = user \<and>
        (symbol_filter = None \<or> symbol_filter = Some (tx_symbol t)) \<and>
        (market_filter = None \<or> market_filter = Some (tx_market t)) \<and>
        (side_filter = None \<or> side_filter = Some (tx_side t))) (transactions w)))))))"

definition list_all_holding_transactions ::
  "pystr option \<Rightarrow> pystr option \<Rightarrow> pystr option \<Rightarrow> nat \<Rightarrow> env \<Rightarrow> world \<Rightarrow> error + transaction_read list" where
  "list_all_holding_transactions symbol market side_text limit env w =
     bindE (list_holding_transactions_for_user w (en_user env) symbol market side_text limit)
       (to_holding_transaction_reads w (en_user env))"

definition list_holding_transactions :: "nat \<Rightarrow> env \<Rightarrow> world \<Rightarrow> error + transaction_read list" where
  \<comment> \<open>the baseline purchase it may add is read but not committed\<close>
  "list_holding_transactions holding_id env w =
     bindE (owned_holding env holding_id w) (\<lambda>h.
     let w1 = ensure_transaction_baseline_from_holding_snapshot env h w in
     bindE (list_holding_transactions_for_user w1 (en_user env) (Some (sh_symbol h)) (Some (sh_market h)) None 100)
       (to_holding_transaction_reads w1 (en_user env)))"

section \<open>Transactions\<close>

definition TRANSACTION_SCOPE :: pystr where
  "TRANSACTION_SCOPE = lit ''holding_transaction.create''"

definition trade_of :: "nat \<Rightarrow> holding_transaction \<Rightarrow> fixed \<Rightarrow> trade" where
  "trade_of x tx price = \<lparr>td_symbol = tx_symbol tx, td_name = tx_name tx, td_market = tx_market tx,
     td_quantity = tx_quantity tx, td_price = price, td_currency = tx_fallback_currency tx,
     td_traded_on = tx_traded_on tx, td_id = x\<rparr>"

definition settle_trade ::
  "env \<Rightarrow> handling option \<Rightarrow> nat option \<Rightarrow> handling option \<Rightarrow> nat option \<Rightarrow> nat
   \<Rightarrow> holding_transaction \<Rightarrow> fixed \<Rightarrow> world \<Rightarrow> error + nat option \<times> world" where
  \<comment> \<open>apply the cash side of a sale or a purchase at this price and record it; the id of the
      affected account\<close>
  "settle_trade env sell_handling sell_account buy_handling buy_account x tx price w =
     bindE (case tx_side tx of
         SELL \<Rightarrow> apply_sell_proceeds_handling env
           (case sell_handling of None \<Rightarrow> DISCARD | Some h \<Rightarrow> h) sell_account (trade_of x tx price) w
       | BUY \<Rightarrow> apply_buy_funding_handling env buy_handling buy_account (trade_of x tx price) w
       | ADJUST \<Rightarrow> Inr (None, w)) (\<lambda>(applied, w1).
     case applied of
       None \<Rightarrow> Inr (None, w1)
     | Some ap \<Rightarrow> bindE (record_holding_transaction_cash_settlement env x tx ap w1) (\<lambda>w2.
         Inr (Some (ap_account ap), w2)))"

definition apply_read ::
  "env \<Rightarrow> nat \<Rightarrow> nat option \<Rightarrow> nat option \<Rightarrow> handling option \<Rightarrow> world \<Rightarrow> error + transaction_apply_read" where
  \<comment> \<open>the response: the transaction with its settlement, the holding and the account, if any\<close>
  "apply_read env x holding account sell_handling w =
     bindE (case tget (transactions w) x of None \<Rightarrow> Inl StaleDataError
       | Some tx \<Rightarrow> to_holding_transaction_read x tx
           (map_option snd (get_holding_transaction_cash_settlement w (en_user env) x))) (\<lambda>tr.
     bindE (case holding of None \<Rightarrow> Inr None
       | Some i \<Rightarrow> bindE (holding_read_of env i w) (\<lambda>r. Inr (Some r))) (\<lambda>hr.
     bindE (case account of None \<Rightarrow> Inr None
       | Some i \<Rightarrow> bindE (account_read env i w) (\<lambda>r. Inr (Some r))) (\<lambda>ar.
     Inr \<lparr>txa_transaction = tr, txa_holding = hr, txa_cash_account = ar,
          txa_sell_handling = sell_handling\<rparr>)))"

definition execution_terms ::
  "transaction_create \<Rightarrow> env \<Rightarrow> pystr \<Rightarrow> fixed \<Rightarrow> world \<Rightarrow> error + fixed option \<times> pystr" where
  \<comment> \<open>the execution price and currency; a sale must be covered by the projected holding\<close>
  "execution_terms payload env symbol quantity w =
     (let currency = normalize_currency (txc_fallback_currency payload) in
      bindE (case txc_price payload of
          Some p \<Rightarrow> if p > 0 then quantize_optional (Some p) else Inr None | None \<Rightarrow> Inr None) (\<lambda>given.
      if txc_side payload = SELL then
        bindE (project_holding_state_from_transactions w (en_user env) symbol (txc_market payload)) (\<lambda>before.
        bindE (case before of None \<Rightarrow> Inr 0 | Some st \<Rightarrow> projected_holding_quantity st) (\<lambda>available.
        bindE (assertE (\<not> dec_less (dec_add (of_fixed available) FIXED_EPSILON) (of_fixed quantity))
            (HTTPException 422 InsufficientQuantity)) (\<lambda>_.
        bindE (resolve_sell_execution_price_and_currency env symbol (txc_market payload) currency
            (txc_price payload)) (\<lambda>(price, ccy). Inr (Some price, ccy)))))
      else Inr (given, currency)))"

definition transaction_row ::
  "transaction_create \<Rightarrow> env \<Rightarrow> pystr \<Rightarrow> fixed \<Rightarrow> fixed option \<Rightarrow> pystr \<Rightarrow> holding_transaction" where
  "transaction_row payload env symbol quantity price currency =
     \<lparr>tx_user = en_user env, tx_symbol = symbol, tx_name = py_strip (txc_name payload),
      tx_side = txc_side payload, tx_quantity = quantity, tx_price = price,
      tx_fallback_currency = currency, tx_market = txc_market payload,
      tx_broker = normalize_optional_text (txc_broker payload),
      tx_traded_on = txc_traded_on payload, tx_note = normalize_optional_text (txc_note payload),
      tx_created_at = en_now env, tx_updated_at = en_now env\<rparr>"

definition enter_transaction ::
  "transaction_create \<Rightarrow> env \<Rightarrow> holding_transaction \<Rightarrow> world \<Rightarrow> error + (error + transaction_apply_read) \<times> world" where
  \<comment> \<open>insert the row, project the holding, settle the cash side and commit\<close>
  "enter_transaction payload env tx w =
     (let sell_handling = (case txc_sell_handling payload of Some h \<Rightarrow> h | None \<Rightarrow> CREATE_NEW_CASH);
          x = fst (tinsert tx (transactions w));
          w1 = w\<lparr>transactions := snd (tinsert tx (transactions w))\<rparr>;
          w2 = record_asset_mutation env HOLDING_TRANSACTION (Some x) CREATE None (transaction_state w1 x) None w1
      in bindE (sync_holding_projection_for_symbol env (en_user env) (tx_symbol tx) (tx_market tx) w2)
          (\<lambda>(holding, w3).
        bindE (case tx_price tx of
            None \<Rightarrow> Inr (None, w3)
          | Some p \<Rightarrow> settle_trade env (Some sell_handling) (txc_sell_account payload)
              (txc_buy_handling payload) (txc_buy_account payload) x tx p w3) (\<lambda>(account, w4).
        bindE (enqueue_user_portfolio_snapshot_rebuild env (en_user env)
            (enqueue_holding_history_sync_request env (en_user env) (Some (tx_symbol tx)) w4)) (\<lambda>(job, w5).
        Inr (apply_read env x holding account
               (if tx_side tx = SELL then Some sell_handling else None) w5, w5)))))"

definition apply_holding_transaction ::
  "transaction_create \<Rightarrow> env \<Rightarrow> world \<Rightarrow> error + (error + transaction_apply_read) \<times> world" where
  \<comment> \<open>the part of \<open>create_holding_transaction\<close> after the idempotency check, up to the response\<close>
  "apply_holding_transaction payload env w =
     bindE (ensure_date_not_future env (Some (txc_traded_on payload))) (\<lambda>_.
     bindE (assertE (txc_side payload \<in> {BUY, SELL}) (HTTPException 422 OnlyBuyOrSell)) (\<lambda>_.
     bindE (service_normalize_symbol (txc_symbol payload) (Some (txc_market payload))) (\<lambda>symbol.
     let w1 = fold (\<lambda>(i, h). ensure_transaction_baseline_from_holding_snapshot env h)
           (list_holdings_for_symbol w (en_user env) symbol (txc_market payload)) w in
     bindE (liftA (quantize_decimal (of_fixed (txc_quantity payload)))) (\<lambda>quantity.
     bindE (execution_terms payload env symbol quantity w1) (\<lambda>(price, currency).
     bindE (numeric_column quantity) (\<lambda>quantity.
     bindE (optional_numeric_column price) (\<lambda>price.
     enter_transaction payload env (transaction_row payload env symbol quantity price currency) w1)))))))"

definition create_holding_transaction ::
  "transaction_create \<Rightarrow> pystr option \<Rightarrow> env \<Rightarrow> world
   \<Rightarrow> error + (error + transaction_apply_read) \<times> world" where
  \<comment> \<open>the trade is committed before the response is built and stored under the key\<close>
  "create_holding_transaction payload key env w =
     bindE (load_idempotent_response env TRANSACTION_SCOPE key (TransactionRequest payload) w) (\<lambda>stored.
     case stored of
       Some resp \<Rightarrow> (case resp of TransactionResponse r \<Rightarrow> Inr (Inr r, w) | _ \<Rightarrow> Inl ValueError)
     | None \<Rightarrow>
         bindE (apply_holding_transaction payload env w) (\<lambda>(response, w1).
         case response of
           Inl e \<Rightarrow> Inr (Inl e, w1)
         | Inr r \<Rightarrow>
             (let w2 = store_idempotent_response env TRANSACTION_SCOPE key (TransactionRequest payload)
                    (TransactionResponse r) w1
              in Inr (Inr r, invalidate_dashboard_cache (Some (en_user env)) w2))))"

definition updated_transaction ::
  "transaction_update \<Rightarrow> env \<Rightarrow> fixed \<Rightarrow> fixed option \<Rightarrow> holding_transaction \<Rightarrow> holding_transaction" where
  "updated_transaction p env quantity price tx = tx\<lparr>
     tx_name := (case txu_name p of Some n \<Rightarrow> n | None \<Rightarrow> tx_name tx),
     tx_quantity := quantity, tx_price := price,
     tx_fallback_currency := (case txu_fallback_currency p of
         Some c \<Rightarrow> normalize_currency c | None \<Rightarrow> tx_fallback_currency tx),
     tx_broker := text_field (txu_broker p) (tx_broker tx),
     tx_traded_on := (case txu_traded_on p of Some d \<Rightarrow> d | None \<Rightarrow> tx_traded_on tx),
     tx_note := text_field (txu_note p) (tx_note tx), tx_updated_at := en_now env\<rparr>"

definition resettle_sell ::
  "transaction_update \<Rightarrow> env \<Rightarrow> nat \<Rightarrow> holding_transaction \<Rightarrow> cash_settlement option \<Rightarrow> world
   \<Rightarrow> error + handling \<times> nat option \<times> world" where
  "resettle_sell p env x tx original w =
     (let h = (case txu_sell_handling p of Some h \<Rightarrow> h
           | None \<Rightarrow> (case original of Some s \<Rightarrow> st_handling s | None \<Rightarrow> DISCARD));
          account0 = (case txu_sell_account p of Some v \<Rightarrow> v
           | None \<Rightarrow> (case original of
               Some s \<Rightarrow> if st_auto_created s then None else Some (st_account s) | None \<Rightarrow> None))
      in bindE (assertE (\<not> (h = ADD_TO_EXISTING_CASH \<and> account0 = None))
             (HTTPException 422 MissingProceedsAccount)) (\<lambda>_.
         let account = (if h \<noteq> ADD_TO_EXISTING_CASH then None else account0) in
         case positive_price (tx_price tx) of
           None \<Rightarrow> Inl (HTTPException 422 PriceRequiredForProceeds)
         | Some price \<Rightarrow> bindE (settle_trade env (Some h) account None None x tx price w)
             (\<lambda>(affected, w1). Inr (h, affected, w1))))"

definition resettle_buy ::
  "transaction_update \<Rightarrow> env \<Rightarrow> nat \<Rightarrow> holding_transaction \<Rightarrow> cash_settlement option \<Rightarrow> world
   \<Rightarrow> error + nat option \<times> world" where
  "resettle_buy p env x tx original w =
     (let outflow = (case original of Some s \<Rightarrow> if st_flow_direction s = OUTFLOW then Some s else None
           | None \<Rightarrow> None);
          h = (case txu_buy_handling p of Some h \<Rightarrow> Some h
            | None \<Rightarrow> (case outflow of Some s \<Rightarrow> Some (st_handling s)
                | None \<Rightarrow> if field_value (txu_buy_account p) \<noteq> None then Some DEDUCT_FROM_EXISTING_CASH
                    else None));
          account = (case txu_buy_account p of Some v \<Rightarrow> v
            | None \<Rightarrow> map_option st_account outflow)
      in case positive_price (tx_price tx) of
           None \<Rightarrow> if h \<noteq> None then Inl (HTTPException 422 PriceRequiredForFunding) else Inr (None, w)
         | Some price \<Rightarrow>
             if h \<noteq> None \<or> account \<noteq> None then settle_trade env None None h account x tx price w
             else Inr (None, w))"

definition update_holding_transaction ::
  "nat \<Rightarrow> transaction_update \<Rightarrow> env \<Rightarrow> world \<Rightarrow> error + (error + transaction_apply_read) \<times> world" where
  "update_holding_transaction x p env w =
     bindE (owned_transaction env x w) (\<lambda>tx0.
     bindE (ensure_date_not_future env (txu_traded_on p)) (\<lambda>_.
     bindE (case txu_quantity p of
         Some q \<Rightarrow> validate_holding_quantity_for_market q (tx_market tx0) | None \<Rightarrow> Inr ()) (\<lambda>_.
     bindE (assertE (\<not> (tx_side tx0 \<noteq> SELL \<and>
           (txu_sell_handling p \<noteq> None \<or> field_value (txu_sell_account p) \<noteq> None)))
         (HTTPException 422 ProceedsOnNonSell)) (\<lambda>_.
     bindE (assertE (\<not> (tx_side tx0 \<noteq> BUY \<and>
           (txu_buy_handling p \<noteq> None \<or> field_value (txu_buy_account p) \<noteq> None)))
         (HTTPException 422 FundingOnNonBuy)) (\<lambda>_.
     let original = map_option snd (get_holding_transaction_cash_settlement w (en_user env) x) in
     bindE (reverse_holding_transaction_cash_settlement env x w) (\<lambda>(reversed, w1).
     bindE (case txu_quantity p of
         Some q \<Rightarrow> liftA (quantize_decimal (of_fixed q)) | None \<Rightarrow> Inr (tx_quantity tx0)) (\<lambda>quantity.
     bindE (case txu_price p of Some v \<Rightarrow> quantize_optional v | None \<Rightarrow> Inr (tx_price tx0)) (\<lambda>price.
     bindE (numeric_column quantity) (\<lambda>quantity.
     bindE (optional_numeric_column price) (\<lambda>price.
     let tx = updated_transaction p env quantity price tx0;
         w2 = w1\<lparr>transactions := tput x tx (transactions w1)\<rparr> in
     bindE (sync_holding_projection_for_symbol env (en_user env) (tx_symbol tx) (tx_market tx) w2)
       (\<lambda>(holding, w3).
     bindE (case tx_side tx of
         SELL \<Rightarrow> bindE (resettle_sell p env x tx original w3) (\<lambda>(h, affected, w4).
           Inr (Some h, or_else affected reversed, w4))
       | BUY \<Rightarrow> bindE (resettle_buy p env x tx original w3) (\<lambda>(affected, w4).
           Inr (None, or_else affected reversed, w4))
       | ADJUST \<Rightarrow> Inr (None, reversed, w3)) (\<lambda>(sell_handling, affected, w4).
     let w5 = record_asset_mutation env HOLDING_TRANSACTION (Some x) UPDATE
           (Some (TransactionState x tx0)) (transaction_state w4 x) None w4
     in bindE (finish_trade env (tx_symbol tx) w5) (\<lambda>w6.
        let account = (case affected of Some i \<Rightarrow> if tget (accounts w6) i \<noteq> None then Some i else None
              | None \<Rightarrow> None)
        in Inr (apply_read env x holding account sell_handling w6, w6))))))))))))))"

definition delete_holding_transaction :: "nat \<Rightarrow> env \<Rightarrow> world \<Rightarrow> error + world" where
  "delete_holding_transaction x env w =
     bindE (owned_transaction env x w) (\<lambda>tx.
     bindE (reverse_holding_transaction_cash_settlement env x w) (\<lambda>(reversed, w1).
     let w2 = w1\<lparr>transactions := tdel x (transactions w1)\<rparr>;
         w3 = record_asset_mutation env HOLDING_TRANSACTION (Some x) DELETE
           (Some (TransactionState x tx)) None None w2
     in bindE (sync_holding_projection_for_symbol env (en_user env) (tx_symbol tx) (tx_market tx) w3)
          (\<lambda>(holding, w4). finish_trade env (tx_symbol tx) w4)))"

section \<open>Quotes\<close>

definition get_security_quote ::
  "pystr \<Rightarrow> pystr \<Rightarrow> env \<Rightarrow> error + pystr \<times> pystr \<times> pystr \<times> int \<times> pystr \<times> datetime option" where
  \<comment> \<open>symbol, name, market, displayed price, currency and time\<close>
  "get_security_quote symbol market env =
     (let normalized_market = py_upper (py_strip market) in
      bindE (service_normalize_symbol symbol (Some normalized_market)) (\<lambda>normalized_symbol.
      case en_quote env normalized_symbol normalized_market of
        None \<Rightarrow> Inl (HTTPException 404 QuoteUnavailable)
      | Some q \<Rightarrow> bindE (liftA (display_price (qt_price q))) (\<lambda>price.
          Inr (qt_symbol q, qt_name q, normalized_market, price, normalize_currency (qt_currency q),
               qt_market_time q))))"

end
