(* ===== verification/Trade_Correct.thy ===== *)
theory Trade_Correct
  imports Cash_Correct Holding_Transactions
begin

text \<open>
  Trades keep the invariant of the cash side: the settlement operations of
  \<^verbatim>\<open>settlements.py\<close>, the projection of \<^verbatim>\<open>repository.py\<close>, and the handlers of
  \<^verbatim>\<open>holding_transaction_service.py\<close>.
\<close>

section \<open>Transactions and their entries\<close>

definition no_entries :: "nat \<Rightarrow> world \<Rightarrow> bool" where
  "no_entries x w \<longleftrightarrow> (\<forall>k e. tget (ledger w) k = Some e \<longrightarrow> le_transaction e \<noteq> Some x)"

definition no_settlement :: "nat \<Rightarrow> world \<Rightarrow> bool" where
  "no_settlement x w \<longleftrightarrow> (\<forall>j s. tget (settlements w) j = Some s \<longrightarrow> st_transaction s \<noteq> x)"

definition entries_on :: "nat \<Rightarrow> pystr \<Rightarrow> nat \<Rightarrow> world \<Rightarrow> bool" where
  \<comment> \<open>the entries of transaction \<open>x\<close> are on one account of one user\<close>
  "entries_on x u i w \<longleftrightarrow> (\<forall>k e. tget (ledger w) k = Some e \<longrightarrow> le_transaction e = Some x \<longrightarrow>
     le_user e = u \<and> le_account e = i)"

lemma entry_transactionD:
  "cash_ok S E D X w \<Longrightarrow> tget (ledger w) k = Some e \<Longrightarrow> le_transaction e = Some x \<Longrightarrow>
   x < next_id (transactions w)"
  by (auto dest: cash_ok_entryD simp: entry_settled_def)

lemma settlementD:
  "cash_ok S E D X w \<Longrightarrow> tget (settlements w) j = Some s \<Longrightarrow>
   st_transaction s < next_id (transactions w) \<and>
   (\<forall>t. tget (transactions w) (st_transaction s) = Some t \<longrightarrow> st_user s = tx_user t)"
  by (simp add: cash_ok_def settlement_owned_def)

lemma cash_change_transactions:
  assumes ok: "cash_ok S E D X w" and T: "twf T" "next_id (transactions w) \<le> next_id T"
    and old: "\<And>x t. x < next_id (transactions w) \<Longrightarrow> tget T x = Some t \<Longrightarrow>
      \<exists>t0. tget (transactions w) x = Some t0 \<and> tx_user t0 = tx_user t"
  shows "cash_ok S E D X (w\<lparr>transactions := T\<rparr>)"
proof -
  let ?w = "w\<lparr>transactions := T\<rparr>"
  have "entry_settled X ?w e" if "tget (ledger w) k = Some e" for k e
  proof -
    have "tget (transactions w) x \<noteq> None" if "x < next_id (transactions w)" "tget T x \<noteq> None" for x
      using that old by fastforce
    with cash_ok_entryD [OF ok that] T(2) show ?thesis unfolding entry_settled_def
      by (auto intro: order_less_le_trans)
  qed
  moreover have "settlement_owned ?w"
    unfolding settlement_owned_def
  proof (intro allI impI)
    fix j s assume "tget (settlements ?w) j = Some s"
    with settlementD [OF ok, of j s] have s: "st_transaction s < next_id (transactions w)"
      "\<forall>t. tget (transactions w) (st_transaction s) = Some t \<longrightarrow> st_user s = tx_user t" by simp_all
    with T(2) old [OF s(1)] show "st_transaction s < next_id (transactions ?w) \<and>
      (\<forall>t. tget (transactions ?w) (st_transaction s) = Some t \<longrightarrow> st_user s = tx_user t)"
      by fastforce
  qed
  moreover have "bal ?w S = bal w S" by (rule bal_frame) simp_all
  ultimately show ?thesis using ok T(1)
    by (simp add: cash_ok_def entry_ok_def initial_unique_def currencies_ok_def legs_ok_def
        posted_legs_def settlement_unique_def)
qed

lemma cash_insert_transaction:
  "cash_ok S E D X w \<Longrightarrow> cash_ok S E D X (w\<lparr>transactions := snd (tinsert t (transactions w))\<rparr>)"
  using cash_ok_wf [of S E D X w]
  by (intro cash_change_transactions) (auto simp: tbl.get_insert, auto simp: tinsert_def)

lemma cash_put_transaction:
  "cash_ok S E D X w \<Longrightarrow> tget (transactions w) x = Some t0 \<Longrightarrow> tx_user t = tx_user t0 \<Longrightarrow>
   cash_ok S E D X (w\<lparr>transactions := tput x t (transactions w)\<rparr>)"
  using cash_ok_wf [of S E D X w]
  by (intro cash_change_transactions)
    (auto simp: tbl.get_put split: if_splits, auto simp: tput_def)

lemma next_id_tdel_ids [simp]: "next_id (tdel_ids is t) = next_id t"
  unfolding tdel_ids_def by (induction "is" arbitrary: t) (simp_all add: tdel_def)

lemma cash_delete_transactions:
  "cash_ok S E D X w \<Longrightarrow> cash_ok S E D X (w\<lparr>transactions := tdel_ids is (transactions w)\<rparr>)"
  using cash_ok_wf [of S E D X w]
  by (intro cash_change_transactions) (auto simp: tget_tdel_ids split: if_splits)

lemma no_entries_new:
  assumes "cash_ok S E D X w"
  shows "no_entries (next_id (transactions w)) w" "no_settlement (next_id (transactions w)) w"
proof -
  show "no_entries (next_id (transactions w)) w"
    unfolding no_entries_def by (auto dest: entry_transactionD [OF assms])
  show "no_settlement (next_id (transactions w)) w"
    unfolding no_settlement_def by (auto dest: settlementD [OF assms])
qed

text \<open>A live trade without a settlement of its owner has no entry and no settlement.\<close>

lemma unsettled:
  assumes ok: "cash_ok S E D {} w" and t: "tget (transactions w) x = Some t" "tx_user t = u"
    and none: "get_holding_transaction_cash_settlement w u x = None"
  shows "no_settlement x w" "no_entries x w"
proof -
  from none have "tselect (\<lambda>s. st_user s = u \<and> st_transaction s = x) (settlements w) = []"
    by (simp add: get_holding_transaction_cash_settlement_def split: list.splits)
  with cash_ok_wf [OF ok] have no: "st_user s = u \<longrightarrow> st_transaction s \<noteq> x"
    if "tget (settlements w) j = Some s" for j s
    using that by (auto simp: tbl.select_empty_iff)
  show ns: "no_settlement x w"
    unfolding no_settlement_def
  proof (intro allI impI notI)
    fix j s assume s: "tget (settlements w) j = Some s" "st_transaction s = x"
    with settlementD [OF ok s(1)] t have "st_user s = u" by simp
    with no [OF s(1)] s(2) show False by simp
  qed
  show "no_entries x w"
    unfolding no_entries_def
  proof (intro allI impI notI)
    fix k e assume e: "tget (ledger w) k = Some e" "le_transaction e = Some x"
    with cash_ok_entryD [OF ok e(1)] t obtain j s where "tget (settlements w) j = Some s" "st_transaction s = x"
      unfolding entry_settled_def by blast
    with ns show False by (simp add: no_settlement_def)
  qed
qed

lemma get_settlementD:
  assumes "get_holding_transaction_cash_settlement w u x = Some (j, s)" "twf (settlements w)"
  shows "tget (settlements w) j = Some s" "st_user s = u" "st_transaction s = x"
proof -
  from assms(1) have "(j, s) \<in> set (tselect (\<lambda>s. st_user s = u \<and> st_transaction s = x) (settlements w))"
    by (auto simp: get_holding_transaction_cash_settlement_def split: list.splits)
  with assms(2) show "tget (settlements w) j = Some s" "st_user s = u" "st_transaction s = x"
    by (simp_all add: tbl.select_iff)
qed

lemma no_settlement_get:
  assumes "no_settlement x w" "twf (settlements w)"
  shows "get_holding_transaction_cash_settlement w u x = None"
proof (cases "get_holding_transaction_cash_settlement w u x")
  case (Some p)
  with get_settlementD [of w u x "fst p" "snd p"] assms show ?thesis by (simp add: no_settlement_def)
qed

section \<open>Posting a trade\<close>

lemma no_entries_frame: "ledger w' = ledger w \<Longrightarrow> no_entries x w' = no_entries x w"
  by (simp add: no_entries_def)

lemma entries_on_frame: "ledger w' = ledger w \<Longrightarrow> entries_on x u i w' = entries_on x u i w"
  by (simp add: entries_on_def)

lemma no_settlement_frame: "settlements w' = settlements w \<Longrightarrow> no_settlement x w' = no_settlement x w"
  by (simp add: no_settlement_def)

lemma entries_on_insert:
  assumes "twf (ledger w)" "no_entries x w" "leg_of e = (u, i, rest)"
  shows "entries_on x u i (w\<lparr>ledger := snd (tinsert e (ledger w))\<rparr>)"
  using assms by (auto simp: entries_on_def no_entries_def tbl.get_insert leg_of_def split: if_splits)

text \<open>Posting one entry of a transaction that has none, and synchronising its account.\<close>

lemma post_entry_ok:
  assumes ok: "cash_ok {} {} {} {} w" and x: "no_entries x w" "x < next_id (transactions w)"
    and a: "tget (accounts w) i = Some a" "ca_user a = u" and ty: "etype \<noteq> INITIAL_BALANCE"
    and c: "create_cash_ledger_entry env u i etype amount (ca_currency a) d nt (Some x) None w = Inr (k, w1)"
    and s: "sync_cash_account_balance_from_ledger env i w1 = Inr w2"
  shows "cash_ok {} {} {} {x} w2" "entries_on x u i w2" "settlements w2 = settlements w"
    "transactions w2 = transactions w"
proof -
  have "cash_ok {} {} {} {x} w" by (rule cash_ok_mono [OF ok]) auto
  from okpD [OF cash_create_entry [OF this a ty] c] x obtain e where
    ok1: "cash_ok {i} {} {} {x} w1" and w1: "w1 = w\<lparr>ledger := snd (tinsert e (ledger w))\<rparr>"
    and e: "leg_of e = (u, i, etype, amount, ca_currency a)" by auto
  from okpD [OF cash_sync [OF ok1] s] show "cash_ok {} {} {} {x} w2" by simp
  from cash_ok_wf [OF ok] have "entries_on x u i w1" unfolding w1
    by (intro entries_on_insert [OF _ x(1) e]) simp
  then show "entries_on x u i w2" using entries_on_frame sync_same(1) [OF s] by metis
  show "settlements w2 = settlements w" "transactions w2 = transactions w"
    using sync_same [OF s] by (simp_all add: w1)
qed

lemma post_settlement_ok:
  assumes ok: "cash_ok {} {} {} {} w" and x: "no_entries (td_id td) w" "td_id td < next_id (transactions w)"
    and a: "tget (accounts w) i = Some a" "ca_user a = en_user env" and ty: "etype \<noteq> INITIAL_BALANCE"
    and res: "post_settlement env td i a etype amount nt reason w = Inr w'"
  shows "cash_ok {} {} {} {td_id td} w'" "entries_on (td_id td) (en_user env) i w'"
    "settlements w' = settlements w" "transactions w' = transactions w"
proof -
  let ?a = "a\<lparr>ca_note := Some (prepend_note_entry (ca_note a) nt)\<rparr>"
  let ?w1 = "w\<lparr>accounts := tput i ?a (accounts w)\<rparr>"
  from res obtain k w2 w3 where
    c: "create_cash_ledger_entry env (en_user env) i etype amount (ca_currency ?a) (td_traded_on td)
         (Some nt) (Some (td_id td)) None ?w1 = Inr (k, w2)" and
    s: "sync_cash_account_balance_from_ledger env i w2 = Inr w3" and
    w': "w' = record_asset_mutation env CASH_ACCOUNT (Some i) UPDATE (Some (AccountState i a))
       (account_state w3 i) reason w3"
    by (auto simp: post_settlement_def bindE_eq_Inr Let_def)
  have ok1: "cash_ok {} {} {} {} ?w1"
    by (rule cash_put_account [OF ok a(1)]) (use cash_ok_currencyD [OF ok a(1)] in auto)
  have "no_entries (td_id td) ?w1" using x(1) by (simp add: no_entries_def)
  moreover have "tget (accounts ?w1) i = Some ?a" using a(1) by (simp add: tbl.get_put)
  ultimately have "cash_ok {} {} {} {td_id td} w3 \<and> entries_on (td_id td) (en_user env) i w3
    \<and> settlements w3 = settlements ?w1 \<and> transactions w3 = transactions ?w1"
    using post_entry_ok [OF ok1 _ _ _ _ ty c s] x a by simp
  then show "cash_ok {} {} {} {td_id td} w'" "entries_on (td_id td) (en_user env) i w'"
    "settlements w' = settlements w" "transactions w' = transactions w"
    by (simp_all add: w' entries_on_def)
qed

lemma reconcile_no_entries:
  assumes "reconcile_cash_account_initial_ledger_entry env i target w = Inr w'" "twf (ledger w)" "no_entries x w"
  shows "no_entries x w' \<and> settlements w' = settlements w \<and> transactions w' = transactions w"
proof -
  obtain a r l where a: "tget (accounts w) i = Some a" and r: "le_transaction r = None"
    and l: "get_cash_account_initial_ledger_entry w (ca_user a) i = None \<and> l = snd (tinsert r (ledger w))
     \<or> (\<exists>k e. get_cash_account_initial_ledger_entry w (ca_user a) i = Some (k, e)
          \<and> l = tput k r (ledger w))"
    and s: "sync_cash_account_balance_from_ledger env i (w\<lparr>ledger := l\<rparr>) = Inr w'"
    by (rule reconcile_result [OF assms(1,2)]) blast
  from l r assms(2,3) have "no_entries x (w\<lparr>ledger := l\<rparr>)"
    by (auto simp: no_entries_def tbl.get_insert tbl.get_put split: if_splits)
  with sync_same [OF s] no_entries_frame [of w' "w\<lparr>ledger := l\<rparr>" x] show ?thesis by simp
qed

lemma reconcile_accounts:
  assumes "reconcile_cash_account_initial_ledger_entry env i target w = Inr w'" "twf (ledger w)"
  obtains a b where "tget (accounts w) i = Some a"
    "accounts w' = tput i (a\<lparr>ca_balance := b, ca_updated_at := en_now env\<rparr>) (accounts w)"
proof -
  obtain l where s: "sync_cash_account_balance_from_ledger env i (w\<lparr>ledger := l\<rparr>) = Inr w'"
    by (rule reconcile_result [OF assms]) blast
  then show ?thesis by (rule sync_result) (auto intro!: that)
qed

lemma auto_account_ok:
  assumes ok: "cash_ok {} {} {} {} w" and x: "no_entries (td_id td) w" "td_id td < next_id (transactions w)"
    and res: "create_auto_cash_account_from_sell env td w = Inr (ap, w')"
  shows "cash_ok {} {} {} {td_id td} w'" "entries_on (td_id td) (en_user env) (ap_account ap) w'"
    "settlements w' = settlements w" "transactions w' = transactions w"
proof -
  from res obtain proceeds nt where "gross_amount (td_quantity td) (td_price td) = Inr proceeds"
    and nt: "build_sell_proceeds_note env (td_symbol td) (td_name td) (td_market td) (td_quantity td)
         (td_price td) (td_currency td) (td_id td) None = Inr nt"
    by (auto simp: create_auto_cash_account_from_sell_def bindE_eq_Inr Let_def)
  define a where "a = \<lparr>ca_user = en_user env, ca_name = td_symbol td @ [32, 21334, 20986, 22238, 27454],
           ca_platform = AUTO_PLATFORM, ca_currency = normalize_currency (td_currency td),
           ca_balance = 0, ca_type = lit ''OTHER'', ca_started_on = Some (td_traded_on td),
           ca_note = Some nt, ca_created_at = en_now env, ca_updated_at = en_now env\<rparr>"
  define i where "i = fst (tinsert a (accounts w))"
  let ?w1 = "w\<lparr>accounts := snd (tinsert a (accounts w))\<rparr>"
  from res \<open>gross_amount _ _ = _\<close> nt obtain w2 k w3 w4 where
    r: "reconcile_cash_account_initial_ledger_entry env i 0 ?w1 = Inr w2" and
    c: "create_cash_ledger_entry env (en_user env) i SELL_PROCEEDS proceeds (ca_currency a)
            (td_traded_on td) (Some nt) (Some (td_id td)) None w2 = Inr (k, w3)" and
    s: "sync_cash_account_balance_from_ledger env i w3 = Inr w4" and
    ap: "ap_account ap = i" and
    w': "w' = record_asset_mutation env CASH_ACCOUNT (Some i) CREATE None (account_state w4 i)
               (ref ''AUTO_SELL_PROCEEDS'' (td_id td)) w4"
    unfolding create_auto_cash_account_from_sell_def Let_def
    by (auto simp: bindE_eq_Inr a_def [symmetric] i_def [symmetric]) (auto simp: a_def i_def)
  have "cash_ok (insert i {}) {} {} {} ?w1"
    unfolding i_def by (rule cash_insert_account [OF ok]) (simp add: a_def)
  from okpD [OF cash_reconcile [OF this] r] have ok2: "cash_ok {} {} {} {} w2" by simp
  have x2: "no_entries (td_id td) w2 \<and> settlements w2 = settlements w \<and> transactions w2 = transactions w"
    using reconcile_no_entries [OF r, of "td_id td"] cash_ok_wf [OF ok] x(1) by (simp add: no_entries_def)
  from cash_ok_wf [OF ok] have wf: "twf (accounts w)" "twf (ledger ?w1)" by simp_all
  from wf(1) have new: "tget (accounts ?w1) i = Some a" by (simp add: i_def tbl.get_insert)
  obtain a0 b where "tget (accounts ?w1) i = Some a0"
    "accounts w2 = tput i (a0\<lparr>ca_balance := b, ca_updated_at := en_now env\<rparr>) (accounts ?w1)"
    by (rule reconcile_accounts [OF r wf(2)])
  with new have a2: "tget (accounts w2) i = Some (a\<lparr>ca_balance := b, ca_updated_at := en_now env\<rparr>)"
    by (simp add: tbl.get_put)
  have "cash_ok {} {} {} {td_id td} w4 \<and> entries_on (td_id td) (en_user env) i w4
    \<and> settlements w4 = settlements w2 \<and> transactions w4 = transactions w2"
    using post_entry_ok [OF ok2 _ _ a2 _ _ _ s, of "td_id td" "en_user env" SELL_PROCEEDS proceeds] c x2 x(2)
    by (simp add: a_def)
  with x2 show "cash_ok {} {} {} {td_id td} w'" "entries_on (td_id td) (en_user env) (ap_account ap) w'"
    "settlements w' = settlements w" "transactions w' = transactions w"
    by (simp_all add: w' ap entries_on_def)
qed

text \<open>Both ways a sale or a purchase reaches an account.\<close>

lemma apply_sell_ok:
  assumes ok: "cash_ok {} {} {} {} w" and x: "no_entries (td_id td) w" "td_id td < next_id (transactions w)"
    and res: "apply_sell_proceeds_handling env h i td w = Inr (applied, w')"
  shows "applied = None \<and> w' = w \<or> (\<exists>ap. applied = Some ap \<and> cash_ok {} {} {} {td_id td} w'
    \<and> entries_on (td_id td) (en_user env) (ap_account ap) w' \<and> settlements w' = settlements w
    \<and> transactions w' = transactions w)"
proof -
  from res consider "applied = None" "w' = w"
    | j ap where "add_sell_proceeds_to_existing_cash_account env j td w = Inr (ap, w')" "applied = Some ap"
    | ap where "create_auto_cash_account_from_sell env td w = Inr (ap, w')" "applied = Some ap"
    by (auto simp: apply_sell_proceeds_handling_def bindE_eq_Inr split: if_splits option.splits)
  then show ?thesis
  proof cases
    case (2 j ap)
    then obtain a amount nt where "tget (accounts w) j = Some a" "ca_user a = en_user env"
      and post: "post_settlement env td j a SELL_PROCEEDS amount nt (ref ''SELL_PROCEEDS'' (td_id td)) w = Inr w'"
      and "ap_account ap = j"
      by (auto simp: add_sell_proceeds_to_existing_cash_account_def bindE_eq_Inr)
    with post_settlement_ok [OF ok x _ _ _ post] 2 show ?thesis by simp
  next
    case (3 ap)
    with auto_account_ok [OF ok x 3(1)] show ?thesis by simp
  qed simp
qed

lemma apply_buy_ok:
  assumes ok: "cash_ok {} {} {} {} w" and x: "no_entries (td_id td) w" "td_id td < next_id (transactions w)"
    and res: "apply_buy_funding_handling env h i td w = Inr (applied, w')"
  shows "applied = None \<and> w' = w \<or> (\<exists>ap. applied = Some ap \<and> cash_ok {} {} {} {td_id td} w'
    \<and> entries_on (td_id td) (en_user env) (ap_account ap) w' \<and> settlements w' = settlements w
    \<and> transactions w' = transactions w)"
proof (cases "applied")
  case None
  with res show ?thesis
    by (auto simp: apply_buy_funding_handling_def Let_def bindE_eq_Inr split: if_splits option.splits)
next
  case (Some ap)
  with res obtain a j amount nt where "tget (accounts w) j = Some a" "ca_user a = en_user env"
    and post: "post_settlement env td j a BUY_FUNDING amount nt (ref ''BUY_FUNDING'' (td_id td)) w = Inr w'"
    and "ap_account ap = j"
    by (auto simp: apply_buy_funding_handling_def Let_def bindE_eq_Inr split: if_splits option.splits)
  with post_settlement_ok [OF ok x _ _ _ post] Some show ?thesis by simp
qed

text \<open>Recording the settlement ends the exception.\<close>

lemma record_settlement_ok:
  assumes ok: "cash_ok {} {} {} {x} w" and on: "entries_on x (en_user env) (ap_account ap) w"
    and none: "no_settlement x w" and tx: "tget (transactions w) x = Some t" "tx_user t = en_user env"
    and res: "record_holding_transaction_cash_settlement env x t' ap w = Inr w'"
  shows "cash_ok {} {} {} {} w' \<and> transactions w' = transactions w"
proof -
  from cash_ok_wf [OF ok] have wf: "twf (settlements w)" "twf (transactions w)" by simp_all
  with none res no_settlement_get [OF none wf(1)] obtain s where
    w': "w' = w\<lparr>settlements := snd (tinsert s (settlements w))\<rparr>"
    and s: "st_user s = en_user env" "st_transaction s = x" "st_account s = ap_account ap"
    by (auto simp: record_holding_transaction_cash_settlement_def bindE_eq_Inr)
  let ?j = "fst (tinsert s (settlements w))"
  have got: "tget (settlements w') j = (if j = ?j then Some s else tget (settlements w) j)" for j
    using wf by (simp add: w' tbl.get_insert)
  have x: "x < next_id (transactions w)" using wf(2) tx by (force simp: twf_def tget_def dest: map_of_SomeD)
  have "cash_ok {} {} {} ({x} \<union> {x}) w'"
    unfolding w'
  proof (rule cash_change_settlements [OF ok])
    show "twf (snd (tinsert s (settlements w)))" using wf by simp
    have "settlement_unique w" using ok by (simp add: cash_ok_def)
    then show "settlement_unique (w\<lparr>settlements := snd (tinsert s (settlements w))\<rparr>)"
      unfolding settlement_unique_def w' [symmetric] got using none s(2)
      by (metis (no_types, lifting) no_settlement_def option.inject)
    show "settlement_owned (w\<lparr>settlements := snd (tinsert s (settlements w))\<rparr>)"
      unfolding settlement_owned_def w' [symmetric] got
      using settlementD [OF ok] x s tx by (auto simp: w' split: if_splits)
    fix j and s' :: cash_settlement assume "st_transaction s' \<notin> {x}"
    with s(2) got [of j] show "tget (snd (tinsert s (settlements w))) j = Some s' \<longleftrightarrow> tget (settlements w) j = Some s'"
      using tbl.fresh [OF wf(1), of s] by (auto simp: w')
  qed
  then have "cash_ok {} {} {} ({x} \<union> {x} - {x}) w'"
  proof (rule cash_settled_done)
    fix k e assume "tget (ledger w') k = Some e" "le_transaction e = Some x"
    with on have e: "le_user e = en_user env" "le_account e = ap_account ap" by (auto simp: entries_on_def w')
    have "st_account s' = le_account e \<and> st_user s' = le_user e"
      if "tget (settlements w') j = Some s'" "st_transaction s' = x" for j s'
      using that got [of j] none e s by (auto simp: no_settlement_def split: if_splits)
    moreover have "tget (settlements w') ?j = Some s" "x < next_id (transactions w')"
      using got x by (simp_all add: w')
    ultimately show "entry_settled {} w' e"
      unfolding entry_settled_def using \<open>le_transaction e = Some x\<close> s(2) by auto
  qed
  then show ?thesis by (simp add: w')
qed

lemma settle_trade_ok:
  assumes ok: "cash_ok {} {} {} {} w" and x: "no_entries x w" "no_settlement x w"
    and t: "tget (transactions w) x = Some t" "tx_user t = en_user env"
    and res: "settle_trade env sh sa bh ba x tx price w = Inr (acc, w')"
  shows "cash_ok {} {} {} {} w'" "transactions w' = transactions w"
proof -
  from cash_ok_wf [OF ok] t have "x < next_id (transactions w)"
    by (force simp: twf_def tget_def dest: map_of_SomeD)
  then have td: "no_entries (td_id (trade_of x tx price)) w" "td_id (trade_of x tx price) < next_id (transactions w)"
    using x by (simp_all add: trade_of_def)
  have id: "td_id (trade_of x tx price) = x" by (simp add: trade_of_def)
  define step where "step = (case tx_side tx of
         SELL \<Rightarrow> apply_sell_proceeds_handling env
           (case sh of None \<Rightarrow> DISCARD | Some h \<Rightarrow> h) sa (trade_of x tx price) w
       | BUY \<Rightarrow> apply_buy_funding_handling env bh ba (trade_of x tx price) w
       | ADJUST \<Rightarrow> Inr (None, w))"
  from res obtain applied w1 where s: "step = Inr (applied, w1)"
    and rest: "(case applied of None \<Rightarrow> Inr (None, w1)
     | Some ap \<Rightarrow> bindE (record_holding_transaction_cash_settlement env x tx ap w1) (\<lambda>w2.
         Inr (Some (ap_account ap), w2))) = Inr (acc, w')"
    unfolding settle_trade_def step_def by (auto simp: bindE_eq_Inr)
  from s have app: "applied = None \<and> w1 = w \<or> (\<exists>ap. applied = Some ap \<and> cash_ok {} {} {} {x} w1
      \<and> entries_on x (en_user env) (ap_account ap) w1 \<and> settlements w1 = settlements w
      \<and> transactions w1 = transactions w)"
  proof (cases "tx_side tx")
    case BUY
    with s apply_buy_ok [OF ok td, of env bh ba applied w1] show ?thesis by (simp add: step_def id)
  next
    case SELL
    with s apply_sell_ok [OF ok td, of env _ sa applied w1] show ?thesis by (simp add: step_def id)
  qed (simp add: step_def)
  have "cash_ok {} {} {} {} w' \<and> transactions w' = transactions w"
  proof (cases applied)
    case None
    with app rest ok show ?thesis by simp
  next
    case (Some ap)
    with rest have r: "record_holding_transaction_cash_settlement env x tx ap w1 = Inr w'"
      by (auto simp: bindE_eq_Inr)
    from Some app have w1: "cash_ok {} {} {} {x} w1" "entries_on x (en_user env) (ap_account ap) w1"
      "settlements w1 = settlements w" "transactions w1 = transactions w" by simp_all
    have "no_settlement x w1" using w1(3) x(2) by (simp add: no_settlement_def)
    from record_settlement_ok [OF w1(1,2) this _ t(2) r] w1(4) t(1) show ?thesis by simp
  qed
  then show "cash_ok {} {} {} {} w'" "transactions w' = transactions w" by simp_all
qed

section \<open>Undoing a trade\<close>

lemma drop_settlement_ok:
  assumes ok: "cash_ok {} {} {} {} w" and s: "tget (settlements w) j = Some s" "st_transaction s = x"
    and none: "no_entries x w"
  shows "cash_ok {} {} {} {} (w\<lparr>settlements := tdel j (settlements w)\<rparr>)"
    "no_settlement x (w\<lparr>settlements := tdel j (settlements w)\<rparr>)"
proof -
  let ?w = "w\<lparr>settlements := tdel j (settlements w)\<rparr>"
  from ok have uniq: "settlement_unique w" and own: "settlement_owned w" by (simp_all add: cash_ok_def)
  have "cash_ok {} {} {} ({} \<union> {x}) ?w"
  proof (rule cash_change_settlements [OF ok])
    show "twf (tdel j (settlements w))" using cash_ok_wf [OF ok] by simp
    show "settlement_unique ?w" using uniq unfolding settlement_unique_def by (simp add: tbl.get_del)
    show "settlement_owned ?w" using own unfolding settlement_owned_def by (simp add: tbl.get_del)
    fix j' and s' :: cash_settlement assume "st_transaction s' \<notin> {x}"
    with s show "tget (tdel j (settlements w)) j' = Some s' \<longleftrightarrow> tget (settlements w) j' = Some s'"
      by (auto simp: tbl.get_del)
  qed
  then have "cash_ok {} {} {} ({} \<union> {x} - {x}) ?w"
    by (rule cash_settled_done) (use none in \<open>auto simp: no_entries_def\<close>)
  then show "cash_ok {} {} {} {} ?w" by simp
  show "no_settlement x ?w"
    using uniq s unfolding no_settlement_def settlement_unique_def
    by (auto simp: tbl.get_del)
qed

lemma no_entries_delete: "no_entries x w \<Longrightarrow> no_entries x (w\<lparr>ledger := tdel_ids is (ledger w)\<rparr>)"
  by (auto simp: no_entries_def tget_tdel_ids split: if_splits)

lemma spent_account_ok:
  assumes ok: "cash_ok {} {} {} {} w" and a: "tget (accounts w) i = Some a" "ca_user a = en_user env"
    and spent: "auto_account_is_spent env i s a w"
  shows "cash_ok {} {} {} {} (w\<lparr>ledger := tdel_ids (map fst
      (list_cash_ledger_entries_for_account w (en_user env) i)) (ledger w), accounts := tdel i (accounts w)\<rparr>)"
proof -
  let ?is = "map fst (list_cash_ledger_entries_for_account w (en_user env) i)"
  from cash_ok_wf [OF ok] have wf: "twf (ledger w)" by simp
  have ids: "k \<in> set ?is \<longleftrightarrow> (\<exists>e. tget (ledger w) k = Some e \<and> le_user e = en_user env \<and> le_account e = i)" for k
    by (simp add: list_cash_ledger_entries_for_account_def tbl.select_ids [OF wf])
  from spent have init: "\<forall>p \<in> set (list_cash_ledger_entries_for_account w (en_user env) i).
      le_type (snd p) = INITIAL_BALANCE"
    by (auto simp: auto_account_is_spent_def filter_empty_conv)
  have "cash_ok ({} \<union> {i}) {} {} {} (w\<lparr>ledger := tdel_ids ?is (ledger w)\<rparr>)"
  proof (rule cash_delete_entries [OF ok])
    fix k e assume k: "k \<in> set ?is" "tget (ledger w) k = Some e"
    with ids have e: "le_user e = en_user env" "le_account e = i" by auto
    with k wf have "(k, e) \<in> set (list_cash_ledger_entries_for_account w (en_user env) i)"
      by (simp add: list_cash_ledger_entries_for_account_def tbl.select_iff)
    with init have "le_type e = INITIAL_BALANCE" by force
    with cash_ok_entryD [OF ok k(2)] e show "le_account e \<in> {i} \<and> set_option (le_transfer e) \<subseteq> {}"
      by (simp add: entry_ok_def)
  qed
  then have "cash_ok ({} \<union> {i} - {i}) {} {} {} (w\<lparr>ledger := tdel_ids ?is (ledger w)\<rparr>
      \<lparr>accounts := tdel i (accounts (w\<lparr>ledger := tdel_ids ?is (ledger w)\<rparr>))\<rparr>)"
  proof (rule cash_delete_account)
    fix k e assume "tget (ledger (w\<lparr>ledger := tdel_ids ?is (ledger w)\<rparr>)) k = Some e"
    then have k: "k \<notin> set ?is" "tget (ledger w) k = Some e" by (simp_all add: tget_tdel_ids split: if_splits)
    with ids cash_ok_entryD [OF ok k(2)] a show "le_account e \<noteq> i" by (auto simp: entry_ok_def)
  qed
  then show ?thesis by simp
qed

lemma undo_on_account_ok:
  assumes ok: "cash_ok ({i} \<inter> owned_by (en_user env) w) {} {} {} w"
    and own: "tget (accounts w) i = Some before" "ca_user before = en_user env" and x: "no_entries x w"
    and res: "undo_on_account env x s i before w = Inr w'"
  shows "cash_ok {} {} {} {} w' \<and> no_entries x w' \<and> settlements w' = settlements w
    \<and> transactions w' = transactions w"
proof -
  from res obtain w2 a where sync: "sync_cash_account_balance_from_ledger env i w = Inr w2"
    and a: "tget (accounts w2) i = Some a"
    by (auto simp: undo_on_account_def bindE_eq_Inr)
  have ok2: "cash_ok {} {} {} {} w2" using okpD [OF cash_sync [OF ok] sync] by (rule cash_ok_mono) auto
  have user: "ca_user a = en_user env"
    using sync a own by (auto elim!: sync_result simp: tbl.get_put)
  have x2: "no_entries x w2" using sync_same(1) [OF sync] x by (simp add: no_entries_def)
  show ?thesis
  proof (cases "auto_account_is_spent env i s a w2")
    case True
    with res sync a have w': "w' = record_asset_mutation env CASH_ACCOUNT (Some i) DELETE
             (Some (AccountState i before)) None (ref ''SELL_PROCEEDS_REVERSAL'' x)
             (w2\<lparr>ledger := tdel_ids (map fst (list_cash_ledger_entries_for_account w2 (en_user env) i))
                (ledger w2), accounts := tdel i (accounts w2)\<rparr>)"
      by (simp add: undo_on_account_def Let_def loaded_account_def)
    from spent_account_ok [OF ok2 a user True] no_entries_delete [OF x2] sync_same [OF sync]
    show ?thesis by (simp add: w' no_entries_def)
  next
    case False
    with res sync a obtain n where w': "w' = record_asset_mutation env CASH_ACCOUNT (Some i) UPDATE
            (Some (AccountState i before)) (Some (AccountState i (a\<lparr>ca_note := n\<rparr>)))
            (ref ''SELL_PROCEEDS_REVERSAL'' x) (w2\<lparr>accounts := tput i (a\<lparr>ca_note := n\<rparr>) (accounts w2)\<rparr>)"
      by (auto simp: undo_on_account_def Let_def loaded_account_def bindE_eq_Inr)
    have "cash_ok {} {} {} {} (w2\<lparr>accounts := tput i (a\<lparr>ca_note := n\<rparr>) (accounts w2)\<rparr>)"
      by (rule cash_put_account [OF ok2 a]) (use cash_ok_currencyD [OF ok2 a] in auto)
    with x2 sync_same [OF sync] show ?thesis by (simp add: w' no_entries_def)
  qed
qed

lemma reverse_settlement_ok:
  assumes ok: "cash_ok {} {} {} {} w"
    and res: "reverse_holding_transaction_cash_settlement env x w = Inr (r, w')"
  shows "cash_ok {} {} {} {} w' \<and> transactions w' = transactions w \<and>
    (\<forall>t. tget (transactions w) x = Some t \<longrightarrow> tx_user t = en_user env \<longrightarrow>
       no_entries x w' \<and> no_settlement x w')"
proof (cases "get_holding_transaction_cash_settlement w (en_user env) x")
  case None
  with res have "w' = w" by (simp add: reverse_holding_transaction_cash_settlement_def)
  with ok unsettled [OF ok _ _ None] show ?thesis by blast
next
  case (Some p)
  obtain j s where p: "p = (j, s)" by (cases p)
  from cash_ok_wf [OF ok] get_settlementD [OF Some [unfolded p]]
  have s: "tget (settlements w) j = Some s" "st_user s = en_user env" "st_transaction s = x" by simp_all
  define i where "i = st_account s"
  define w1 where "w1 = delete_cash_ledger_entries_for_holding_transaction (en_user env) x w"
  note d = cash_delete_transaction_entries [OF ok s(1) _ s(2,3), folded w1_def i_def, simplified]
  have none1: "no_entries x w1" using d(2) by (simp add: no_entries_def)
  have goal: ?thesis
    if v: "cash_ok {} {} {} {} v" "settlements v = settlements w" "transactions v = transactions w" "no_entries x v"
      "w' = v\<lparr>settlements := tdel j (settlements v)\<rparr>" for v
    using drop_settlement_ok [OF v(1) _ s(3) v(4), of j] v s(1) by (simp add: no_entries_def)
  show ?thesis
  proof (cases "i \<in> owned_by (en_user env) w")
    case False
    with res Some p have "w' = w1\<lparr>settlements := tdel j (settlements w1)\<rparr>"
      by (auto simp: reverse_holding_transaction_cash_settlement_def Let_def i_def w1_def owned_by_def
          split: option.splits)
    with goal [of w1] d none1 False show ?thesis by simp
  next
    case True
    then obtain before where b: "tget (accounts w) i = Some before" "ca_user before = en_user env"
      by (auto simp: owned_by_def)
    with res Some p obtain w2 where u: "undo_on_account env x s i before w1 = Inr w2"
      and w': "w' = w2\<lparr>settlements := tdel j (settlements w2)\<rparr>"
      by (auto simp: reverse_holding_transaction_cash_settlement_def Let_def i_def w1_def bindE_eq_Inr)
    have "cash_ok ({i} \<inter> owned_by (en_user env) w1) {} {} {} w1"
      using d(1,3) by (simp add: owned_by_def)
    from undo_on_account_ok [OF this _ b(2) none1 u] b(1) d goal [OF _ _ _ _ w'] show ?thesis by simp
  qed
qed

section \<open>Rows of a symbol\<close>

lemma cash_inv_holdings [simp]: "cash_inv (w\<lparr>holdings := h\<rparr>) = cash_inv w"
  by (rule cash_inv_frame) simp_all

lemma cash_inv_sync_requests [simp]: "cash_inv (w\<lparr>sync_requests := h\<rparr>) = cash_inv w"
  by (rule cash_inv_frame) simp_all

lemma cash_inv_history [simp]:
  "cash_inv (enqueue_holding_history_sync_request env u sy w) = cash_inv w"
  by (simp add: enqueue_holding_history_sync_request_def split: option.split prod.split)

lemma finish_trade_inv: "cash_inv w \<Longrightarrow> finish_trade env sy w = Inr w' \<Longrightarrow> cash_inv w'"
  using okp_finish [of "enqueue_holding_history_sync_request env (en_user env) (Some sy) w" env w']
  by (simp add: finish_trade_def)

lemma sync_holding_result:
  assumes "sync_holding_projection_for_symbol env u sy m w = Inr (r, w')"
  obtains h where "w' = w\<lparr>holdings := h\<rparr>"
  using assms
  by (auto simp: sync_holding_projection_for_symbol_def Let_def bindE_eq_Inr
      split: option.splits list.splits)

lemma add_transaction_inv: "cash_inv w \<Longrightarrow> cash_inv (add_transaction t w)"
  unfolding cash_inv_def add_transaction_def by (rule cash_insert_transaction)

lemma ensure_baseline_inv:
  "cash_inv w \<Longrightarrow> cash_inv (ensure_transaction_baseline_from_holding_snapshot env h w)"
  by (simp add: ensure_transaction_baseline_from_holding_snapshot_def add_transaction_inv)

lemma ensure_baselines_inv:
  "cash_inv w \<Longrightarrow>
   cash_inv (fold (\<lambda>(i, h). ensure_transaction_baseline_from_holding_snapshot env h) hs w)"
  by (induction hs arbitrary: w) (auto simp: ensure_baseline_inv)

text \<open>
  Dropping transactions together with their settlements, but not their entries: the entries
  stay on their accounts, and belong to transactions that no longer exist.
\<close>

lemma drop_transactions_inv:
  assumes inv: "cash_inv w"
    and txs: "\<forall>(x, t) \<in> set txs. tget (transactions w) x = Some t \<and> tx_user t = u"
  shows "cash_inv (drop_transactions u txs w)"
proof -
  from inv have ok: "cash_ok {} {} {} {} w" by (simp add: cash_inv_def)
  from cash_ok_wf [OF ok] have wf: "twf (settlements w)" by simp
  let ?ids = "map fst txs"
  let ?gone = "map fst (tselect (\<lambda>s. st_user s = u \<and> st_transaction s \<in> set ?ids) (settlements w))"
  let ?w1 = "w\<lparr>transactions := tdel_ids ?ids (transactions w)\<rparr>"
  let ?w2 = "?w1\<lparr>settlements := tdel_ids ?gone (settlements ?w1)\<rparr>"
  have ok1: "cash_ok {} {} {} {} ?w1" by (rule cash_delete_transactions [OF ok])
  have "cash_ok {} {} {} ({} \<union> set ?ids) ?w2"
  proof (rule cash_change_settlements [OF ok1])
    show "twf (tdel_ids ?gone (settlements ?w1))" using wf by simp
    have "settlement_unique ?w1" "settlement_owned ?w1" using ok1 by (simp_all add: cash_ok_def)
    then show "settlement_unique ?w2" "settlement_owned ?w2"
      unfolding settlement_unique_def settlement_owned_def by (simp_all add: tget_tdel_ids)
    fix j and s :: cash_settlement assume "st_transaction s \<notin> set ?ids"
    then have "j \<notin> set ?gone" if "tget (settlements w) j = Some s"
      using that by (auto simp: tbl.select_ids [OF wf])
    then show "tget (tdel_ids ?gone (settlements ?w1)) j = Some s \<longleftrightarrow> tget (settlements ?w1) j = Some s"
      by (auto simp: tget_tdel_ids split: if_splits)
  qed
  moreover have "entry_settled {} ?w2 e"
    if e: "tget (ledger ?w2) k = Some e" "entry_settled ({} \<union> set ?ids) ?w2 e" for k e
    unfolding entry_settled_def
  proof (intro allI impI)
    fix x assume x: "le_transaction e = Some x"
    show "x < next_id (transactions ?w2) \<and> (x \<notin> {} \<longrightarrow>
       (\<forall>j s. tget (settlements ?w2) j = Some s \<longrightarrow> st_transaction s = x \<longrightarrow>
          le_account e = st_account s \<and> le_user e = st_user s) \<and>
       (tget (transactions ?w2) x \<noteq> None \<longrightarrow>
          (\<exists>j s. tget (settlements ?w2) j = Some s \<and> st_transaction s = x)))"
    proof (cases "x \<in> set ?ids")
      case False
      with e(2) x show ?thesis by (simp add: entry_settled_def)
    next
      case True
      then obtain t where t: "tget (transactions w) x = Some t" "tx_user t = u" using txs by force
      have "tget (settlements ?w2) j = Some s \<Longrightarrow> st_transaction s \<noteq> x" for j s
      proof
        assume s: "tget (settlements ?w2) j = Some s" "st_transaction s = x"
        then have "tget (settlements w) j = Some s" "j \<notin> set ?gone"
          by (simp_all add: tget_tdel_ids split: if_splits)
        with settlementD [OF ok this(1)] t s True show False by (auto simp: tbl.select_ids [OF wf])
      qed
      with True e(2) x entry_transactionD [OF ok, of k e x] e(1) show ?thesis
        by (auto simp: tget_tdel_ids)
    qed
  qed
  ultimately have "cash_ok {} {} {} {} ?w2" by (simp add: cash_ok_def)
  moreover have "drop_transactions u txs w = ?w2" by (simp add: drop_transactions_def Let_def)
  ultimately show ?thesis by (simp add: cash_inv_def)
qed

lemma transactions_latest_first_iff:
  "twf (transactions w) \<Longrightarrow> (x, t) \<in> set (transactions_latest_first w u sy m) \<longleftrightarrow>
     tget (transactions w) x = Some t \<and> tx_user t = u \<and> tx_symbol t = sy \<and> tx_market t = m"
  by (simp add: transactions_latest_first_def transactions_for_symbol_def tbl.select_iff)

lemma cash_inv_twf: "cash_inv w \<Longrightarrow> twf (transactions w)"
  using cash_ok_wf by (auto simp: cash_inv_def)

lemma delete_for_symbol_inv:
  assumes inv: "cash_inv w"
  shows "cash_inv (snd (delete_holding_transactions_for_symbol u sy m w))"
proof -
  have "cash_inv (drop_transactions u (transactions_latest_first w u sy m) w)"
    by (rule drop_transactions_inv [OF inv])
      (use inv in \<open>auto simp: transactions_latest_first_iff cash_inv_twf\<close>)
  with inv show ?thesis by (simp add: delete_holding_transactions_for_symbol_def Let_def)
qed

lemma reset_from_snapshot_inv:
  "cash_inv w \<Longrightarrow> cash_inv (reset_holding_transactions_from_snapshot env h w)"
  by (simp add: reset_holding_transactions_from_snapshot_def Let_def add_transaction_inv delete_for_symbol_inv)

lemma reverse_sells_inv:
  assumes "cash_inv w" "foldE (reverse_if_sell env) txs w = Inr w'"
  shows "cash_inv w' \<and> transactions w' = transactions w"
  using assms
proof (induction txs arbitrary: w)
  case (Cons p txs)
  from Cons.prems(2) obtain w1 where w1: "reverse_if_sell env p w = Inr w1"
    "foldE (reverse_if_sell env) txs w1 = Inr w'" by (auto simp: bindE_eq_Inr)
  have "cash_inv w1 \<and> transactions w1 = transactions w"
    using w1(1) Cons.prems(1) reverse_settlement_ok [of w env "fst p" _ w1]
    by (auto simp: reverse_if_sell_def bindE_eq_Inr cash_inv_def split: if_splits)
  with Cons.IH [of w1] w1(2) show ?case by simp
qed simp

lemma reverse_and_delete_inv:
  assumes inv: "cash_inv w"
    and res: "reverse_and_delete_holding_transactions_for_symbol env sy m w = Inr (txs, w')"
  shows "cash_inv w'"
proof (cases "transactions_latest_first w (en_user env) sy m = []")
  case True
  with inv res show ?thesis by (simp add: reverse_and_delete_holding_transactions_for_symbol_def)
next
  case False
  with res obtain w1 where w1: "foldE (reverse_if_sell env) (transactions_latest_first w (en_user env) sy m) w = Inr w1"
    and w': "w' = drop_transactions (en_user env) (transactions_latest_first w (en_user env) sy m) w1"
    by (auto simp: reverse_and_delete_holding_transactions_for_symbol_def Let_def bindE_eq_Inr)
  note r = reverse_sells_inv [OF inv w1]
  show ?thesis unfolding w'
    by (rule drop_transactions_inv)
      (use r inv in \<open>auto simp: transactions_latest_first_iff cash_inv_twf\<close>)
qed

section \<open>Handlers\<close>

lemma create_holding_inv:
  assumes inv: "cash_inv w" and res: "create_holding p env w = Inr (r, w')"
  shows "cash_inv w'"
proof -
  from res obtain h i sy where f: "finish_trade env sy (record_asset_mutation env HOLDING (Some i) CREATE None
       (holding_state (reset_holding_transactions_from_snapshot env h
          (w\<lparr>holdings := snd (tinsert h (holdings w))\<rparr>)) i) None
       (reset_holding_transactions_from_snapshot env h
          (w\<lparr>holdings := snd (tinsert h (holdings w))\<rparr>))) = Inr w'"
    by (auto simp: create_holding_def bindE_eq_Inr Let_def)
  show ?thesis by (rule finish_trade_inv [OF _ f]) (simp add: inv reset_from_snapshot_inv)
qed

lemma record_adjustment_inv:
  assumes inv: "cash_inv w" and res: "record_adjustment p env i h d w = Inr w'"
  shows "cash_inv w'"
proof -
  from inv have ok: "cash_ok {} {} {} {} w" by (simp add: cash_inv_def)
  define txs where "txs = sort_key transaction_order
    (transactions_for_symbol w (en_user env) (sh_symbol h) (sh_market h))"
  have in_txs: "tget (transactions w) k = Some e \<and> tx_user e = en_user env" if "(k, e) \<in> set txs" for k e
    using that cash_inv_twf [OF inv] by (simp add: txs_def transactions_for_symbol_def tbl.select_iff)
  have put: "cash_inv (w\<lparr>transactions := tput k (adjustment_row env p h d q pr c) (transactions w)\<rparr>)"
    if "txs = (k, e) # rest" for k e rest q pr c
    using in_txs [of k e] cash_put_transaction [OF ok, of k e "adjustment_row env p h d q pr c"] that
    by (simp add: cash_inv_def adjustment_row_def)
  have ins: "cash_inv (w\<lparr>transactions := snd (tinsert (adjustment_row env p h d q pr c) (transactions w))\<rparr>)"
    for q pr c
    using cash_insert_transaction [OF ok] by (simp add: cash_inv_def)
  show ?thesis using res unfolding record_adjustment_def Let_def txs_def [symmetric]
    by (cases txs) (auto simp: bindE_eq_Inr put ins split: if_splits)
qed

lemma adjust_holding_inv:
  assumes inv: "cash_inv w" and res: "adjust_holding p env i h d w = Inr (k, w')"
  shows "cash_inv w'"
proof -
  from res obtain w1 s w2 where r: "record_adjustment p env i h d w = Inr w1"
    and s: "sync_holding_projection_for_symbol env (en_user env) (sh_symbol h) (sh_market h) w1 = Inr (s, w2)"
    by (auto simp: adjust_holding_def bindE_eq_Inr)
  with res have w': "\<exists>t. w' = w2 \<or> w' = w2\<lparr>holdings := t\<rparr>"
    by (auto simp: adjust_holding_def split: option.splits list.splits if_splits)
  from s obtain t where "w2 = w1\<lparr>holdings := t\<rparr>" by (rule sync_holding_result)
  with record_adjustment_inv [OF inv r] w' show ?thesis by auto
qed

lemma touch_latest_inv:
  assumes inv: "cash_inv w"
  shows "cash_inv (touch_latest_transaction p env h w)"
proof (cases "get_latest_holding_transaction_for_symbol w (en_user env) (sh_symbol h) (sh_market h)")
  case (Some q)
  obtain k e where q: "q = (k, e)" by (cases q)
  from inv have ok: "cash_ok {} {} {} {} w" by (simp add: cash_inv_def)
  from Some q have "(k, e) \<in> set (transactions_latest_first w (en_user env) (sh_symbol h) (sh_market h))"
    by (auto simp: get_latest_holding_transaction_for_symbol_def split: list.splits)
  with cash_inv_twf [OF inv] have k: "tget (transactions w) k = Some e"
    by (simp add: transactions_latest_first_iff)
  show ?thesis using cash_put_transaction [OF ok k] Some q
    by (simp add: touch_latest_transaction_def cash_inv_def)
qed (simp add: touch_latest_transaction_def inv)

lemma audit_deleted_inv [simp]:
  "cash_inv (fold (audit_deleted_transaction env i) txs w) = cash_inv w"
  by (induction txs arbitrary: w) (simp_all add: audit_deleted_transaction_def case_prod_beta)

lemma delete_holding_inv:
  assumes inv: "cash_inv w" and res: "delete_holding i env w = Inr w'"
  shows "cash_inv w'"
proof -
  from res obtain h txs w1 where
    r: "reverse_and_delete_holding_transactions_for_symbol env (sh_symbol h) (sh_market h) w = Inr (txs, w1)"
    and f: "finish_trade env (sh_symbol h) (record_asset_mutation env HOLDING (Some i) DELETE
           (Some (HoldingState i h)) None None
           ((fold (audit_deleted_transaction env i) txs w1)\<lparr>holdings := tdel i
               (holdings (fold (audit_deleted_transaction env i) txs w1))\<rparr>)) = Inr w'"
    by (auto simp: delete_holding_def bindE_eq_Inr Let_def)
  show ?thesis by (rule finish_trade_inv [OF _ f]) (simp add: reverse_and_delete_inv [OF inv r])
qed

end
