(* ===== verification/Asset_Entries.thy ===== *)
theory Asset_Entries
  imports Cash_Accounts
begin

text \<open>
  Model of \<^verbatim>\<open>backend/app/services/asset_entry_service.py\<close>: creating, updating and deleting fixed
  assets, liabilities and other assets. The three list handlers, which merge rows with the cached
  dashboard, are in \<open>Dashboard_Query\<close>.
\<close>

section \<open>Payloads and responses\<close>

record valued_asset_payload =
  vap_name :: pystr
  vap_category :: pystr
  vap_current_value_cny :: fixed
  vap_basis_value_cny :: "fixed option"  \<comment> \<open>\<open>purchase_value_cny\<close> or \<open>original_value_cny\<close>\<close>
  vap_started_on :: "date field"
  vap_note :: "pystr field"

record liability_create =
  lic_name :: pystr
  lic_category :: pystr
  lic_currency :: pystr
  lic_balance :: fixed
  lic_started_on :: "date option"
  lic_note :: "pystr option"

record liability_update =
  liu_name :: pystr
  liu_category :: "pystr option"
  liu_currency :: pystr
  liu_balance :: fixed
  liu_started_on :: "date field"
  liu_note :: "pystr field"

definition quantize_fixed :: "fixed \<Rightarrow> error + fixed" where
  \<comment> \<open>\<open>quantize_decimal\<close> of a payload value, stored in its column\<close>
  "quantize_fixed x = bindE (liftA (quantize_decimal (of_fixed x))) numeric_column"

definition quantize_optional_fixed :: "fixed option \<Rightarrow> error + fixed option" where
  "quantize_optional_fixed v = (case v of None \<Rightarrow> Inr None
     | Some x \<Rightarrow> bindE (quantize_fixed x) (\<lambda>n. Inr (Some n)))"

section \<open>Fixed assets\<close>

definition fixed_asset_state :: "world \<Rightarrow> nat \<Rightarrow> model_state option" where
  "fixed_asset_state w i = map_option (FixedAssetState i) (tget (fixed_assets w) i)"

definition fixed_asset_read :: "nat \<Rightarrow> world \<Rightarrow> error + valued_asset_read" where
  "fixed_asset_read i w = (case tget (fixed_assets w) i of None \<Rightarrow> Inl StaleDataError
     | Some a \<Rightarrow> valued_asset_response i (fa_name a) (fa_category a) (fa_current_value_cny a)
         (fa_purchase_value_cny a) (fa_started_on a) (fa_note a))"

definition create_fixed_asset ::
  "valued_asset_payload \<Rightarrow> env \<Rightarrow> world \<Rightarrow> error + (error + valued_asset_read) \<times> world" where
  "create_fixed_asset p env w =
     bindE (quantize_fixed (vap_current_value_cny p)) (\<lambda>current.
     bindE (quantize_optional_fixed (vap_basis_value_cny p)) (\<lambda>basis.
     let res = tinsert \<lparr>fa_user = en_user env, fa_name = py_strip (vap_name p),
           fa_category = vap_category p, fa_current_value_cny = current, fa_purchase_value_cny = basis,
           fa_started_on = field_value (vap_started_on p), fa_note = field_value (vap_note p),
           fa_created_at = en_now env, fa_updated_at = en_now env\<rparr> (fixed_assets w);
         i = fst res; w1 = w\<lparr>fixed_assets := snd res\<rparr>;
         w2 = record_asset_mutation env FIXED_ASSET (Some i) CREATE None (fixed_asset_state w1 i) None w1
     in bindE (finish_request env w2) (\<lambda>w3. Inr (fixed_asset_read i w3, w3))))"

definition owned_fixed_asset :: "env \<Rightarrow> nat \<Rightarrow> world \<Rightarrow> error + fixed_asset" where
  "owned_fixed_asset env i w = (case tget (fixed_assets w) i of
      None \<Rightarrow> Inl (HTTPException 404 FixedAssetNotFound)
    | Some a \<Rightarrow> if fa_user a \<noteq> en_user env then Inl (HTTPException 404 FixedAssetNotFound) else Inr a)"

definition update_fixed_asset ::
  "nat \<Rightarrow> valued_asset_payload \<Rightarrow> env \<Rightarrow> world \<Rightarrow> error + (error + valued_asset_read) \<times> world" where
  "update_fixed_asset i p env w =
     bindE (owned_fixed_asset env i w) (\<lambda>a.
     bindE (quantize_fixed (vap_current_value_cny p)) (\<lambda>current.
     bindE (quantize_optional_fixed (vap_basis_value_cny p)) (\<lambda>basis.
     let a' = a\<lparr>fa_name := py_strip (vap_name p), fa_category := vap_category p,
           fa_current_value_cny := current, fa_purchase_value_cny := basis,
           fa_started_on := (case vap_started_on p of None \<Rightarrow> fa_started_on a | Some d \<Rightarrow> d),
           fa_note := (case vap_note p of None \<Rightarrow> fa_note a | Some n \<Rightarrow> normalize_optional_text n),
           fa_updated_at := en_now env\<rparr>;
         w1 = w\<lparr>fixed_assets := tput i a' (fixed_assets w)\<rparr>;
         w2 = record_asset_mutation env FIXED_ASSET (Some i) UPDATE (Some (FixedAssetState i a))
           (fixed_asset_state w1 i) None w1
     in bindE (finish_request env w2) (\<lambda>w3. Inr (fixed_asset_read i w3, w3)))))"

definition delete_fixed_asset :: "nat \<Rightarrow> env \<Rightarrow> world \<Rightarrow> error + world" where
  "delete_fixed_asset i env w =
     bindE (owned_fixed_asset env i w) (\<lambda>a.
     let w1 = w\<lparr>fixed_assets := tdel i (fixed_assets w)\<rparr>;
         w2 = record_asset_mutation env FIXED_ASSET (Some i) DELETE (Some (FixedAssetState i a)) None None w1
     in finish_request env w2)"

section \<open>Liabilities\<close>

definition liability_state :: "world \<Rightarrow> nat \<Rightarrow> model_state option" where
  "liability_state w i = map_option (LiabilityState i) (tget (liabilities w) i)"

definition liability_read_of :: "env \<Rightarrow> nat \<Rightarrow> world \<Rightarrow> error + liability_read" where
  "liability_read_of env i w = (case tget (liabilities w) i of None \<Rightarrow> Inl StaleDataError
     | Some l \<Rightarrow> to_liability_read env i l)"

definition owned_liability :: "env \<Rightarrow> nat \<Rightarrow> world \<Rightarrow> error + liability_entry" where
  "owned_liability env i w = (case tget (liabilities w) i of
      None \<Rightarrow> Inl (HTTPException 404 LiabilityNotFound)
    | Some l \<Rightarrow> if li_user l \<noteq> en_user env then Inl (HTTPException 404 LiabilityNotFound) else Inr l)"

definition create_liability ::
  "liability_create \<Rightarrow> env \<Rightarrow> world \<Rightarrow> error + (error + liability_read) \<times> world" where
  "create_liability p env w =
     bindE (quantize_fixed (lic_balance p)) (\<lambda>balance.
     let res = tinsert \<lparr>li_user = en_user env, li_name = py_strip (lic_name p),
           li_category = lic_category p, li_currency = normalize_currency (lic_currency p),
           li_balance = balance, li_started_on = lic_started_on p, li_note = lic_note p,
           li_created_at = en_now env, li_updated_at = en_now env\<rparr> (liabilities w);
         i = fst res; w1 = w\<lparr>liabilities := snd res\<rparr>;
         w2 = record_asset_mutation env LIABILITY (Some i) CREATE None (liability_state w1 i) None w1
     in bindE (finish_request env w2) (\<lambda>w3. Inr (liability_read_of env i w3, w3)))"

definition update_liability ::
  "nat \<Rightarrow> liability_update \<Rightarrow> env \<Rightarrow> world \<Rightarrow> error + (error + liability_read) \<times> world" where
  "update_liability i p env w =
     bindE (owned_liability env i w) (\<lambda>l.
     bindE (quantize_fixed (liu_balance p)) (\<lambda>balance.
     let l' = l\<lparr>li_name := py_strip (liu_name p), li_currency := normalize_currency (liu_currency p),
           li_balance := balance,
           li_category := (case liu_category p of None \<Rightarrow> li_category l | Some c \<Rightarrow> c),
           li_started_on := (case liu_started_on p of None \<Rightarrow> li_started_on l | Some d \<Rightarrow> d),
           li_note := (case liu_note p of None \<Rightarrow> li_note l | Some n \<Rightarrow> normalize_optional_text n),
           li_updated_at := en_now env\<rparr>;
         w1 = w\<lparr>liabilities := tput i l' (liabilities w)\<rparr>;
         w2 = record_asset_mutation env LIABILITY (Some i) UPDATE (Some (LiabilityState i l))
           (liability_state w1 i) None w1
     in bindE (finish_request env w2) (\<lambda>w3. Inr (liability_read_of env i w3, w3))))"

definition delete_liability :: "nat \<Rightarrow> env \<Rightarrow> world \<Rightarrow> error + world" where
  "delete_liability i env w =
     bindE (owned_liability env i w) (\<lambda>l.
     let w1 = w\<lparr>liabilities := tdel i (liabilities w)\<rparr>;
         w2 = record_asset_mutation env LIABILITY (Some i) DELETE (Some (LiabilityState i l)) None None w1
     in finish_request env w2)"

section \<open>Other assets\<close>

definition other_asset_state :: "world \<Rightarrow> nat \<Rightarrow> model_state option" where
  "other_asset_state w i = map_option (OtherAssetState i) (tget (other_assets w) i)"

definition other_asset_read :: "nat \<Rightarrow> world \<Rightarrow> error + valued_asset_read" where
  "other_asset_read i w = (case tget (other_assets w) i of None \<Rightarrow> Inl StaleDataError
     | Some a \<Rightarrow> valued_asset_response i (oa_name a) (oa_category a) (oa_current_value_cny a)
         (oa_original_value_cny a) (oa_started_on a) (oa_note a))"

definition owned_other_asset :: "env \<Rightarrow> nat \<Rightarrow> world \<Rightarrow> error + other_asset" where
  "owned_other_asset env i w = (case tget (other_assets w) i of
      None \<Rightarrow> Inl (HTTPException 404 OtherAssetNotFound)
    | Some a \<Rightarrow> if oa_user a \<noteq> en_user env then Inl (HTTPException 404 OtherAssetNotFound) else Inr a)"

definition create_other_asset ::
  "valued_asset_payload \<Rightarrow> env \<Rightarrow> world \<Rightarrow> error + (error + valued_asset_read) \<times> world" where
  "create_other_asset p env w =
     bindE (quantize_fixed (vap_current_value_cny p)) (\<lambda>current.
     bindE (quantize_optional_fixed (vap_basis_value_cny p)) (\<lambda>basis.
     let res = tinsert \<lparr>oa_user = en_user env, oa_name = py_strip (vap_name p),
           oa_category = vap_category p, oa_current_value_cny = current, oa_original_value_cny = basis,
           oa_started_on = field_value (vap_started_on p), oa_note = field_value (vap_note p),
           oa_created_at = en_now env, oa_updated_at = en_now env\<rparr> (other_assets w);
         i = fst res; w1 = w\<lparr>other_assets := snd res\<rparr>;
         w2 = record_asset_mutation env OTHER_ASSET (Some i) CREATE None (other_asset_state w1 i) None w1
     in bindE (finish_request env w2) (\<lambda>w3. Inr (other_asset_read i w3, w3))))"

definition update_other_asset ::
  "nat \<Rightarrow> valued_asset_payload \<Rightarrow> env \<Rightarrow> world \<Rightarrow> error + (error + valued_asset_read) \<times> world" where
  "update_other_asset i p env w =
     bindE (owned_other_asset env i w) (\<lambda>a.
     bindE (quantize_fixed (vap_current_value_cny p)) (\<lambda>current.
     bindE (quantize_optional_fixed (vap_basis_value_cny p)) (\<lambda>basis.
     let a' = a\<lparr>oa_name := py_strip (vap_name p), oa_category := vap_category p,
           oa_current_value_cny := current, oa_original_value_cny := basis,
           oa_started_on := (case vap_started_on p of None \<Rightarrow> oa_started_on a | Some d \<Rightarrow> d),
           oa_note := (case vap_note p of None \<Rightarrow> oa_note a | Some n \<Rightarrow> normalize_optional_text n),
           oa_updated_at := en_now env\<rparr>;
         w1 = w\<lparr>other_assets := tput i a' (other_assets w)\<rparr>;
         w2 = record_asset_mutation env OTHER_ASSET (Some i) UPDATE (Some (OtherAssetState i a))
           (other_asset_state w1 i) None w1
     in bindE (finish_request env w2) (\<lambda>w3. Inr (other_asset_read i w3, w3)))))"

definition delete_other_asset :: "nat \<Rightarrow> env \<Rightarrow> world \<Rightarrow> error + world" where
  "delete_other_asset i env w =
     bindE (owned_other_asset env i w) (\<lambda>a.
     let w1 = w\<lparr>other_assets := tdel i (other_assets w)\<rparr>;
         w2 = record_asset_mutation env OTHER_ASSET (Some i) DELETE (Some (OtherAssetState i a)) None None w1
     in finish_request env w2)"

end
