(* ===== verification/Trade_Handlers.thy ===== *)
theory Trade_Handlers
  imports Trade_Correct Asset_Entries
begin

text \<open>
  The remaining handlers of \<^verbatim>\<open>holding_transaction_service.py\<close> and the handlers of
  \<^verbatim>\<open>asset_entry_service.py\<close> keep the invariant of the cash side.
\<close>

section \<open>Holdings\<close>

lemma save_holding_edit_inv:
  assumes inv: "cash_inv w" and res: "save_holding_edit p env j h i w = Inr (r, w')"
  shows "cash_inv w'"
proof -
  have touch: "cash_inv (touch_latest_transaction p env h2 (w\<lparr>holdings := t\<rparr>))" for h2 t
    by (rule touch_latest_inv) (simp add: inv)
  show ?thesis
  proof (cases "creates_adjustment p")
    case True
    with res inv show ?thesis
      by (auto simp: save_holding_edit_def Let_def bindE_eq_Inr split: option.splits
          elim!: finish_trade_inv [rotated])
  next
    case False
    with res touch show ?thesis
      by (auto simp: save_holding_edit_def Let_def bindE_eq_Inr split: option.splits)
  qed
qed

lemma update_holding_inv:
  assumes inv: "cash_inv w" and res: "update_holding i p env w = Inr (r, w')"
  shows "cash_inv w'"
proof -
  from res obtain h d k w1 where
    a: "(case d of Some d \<Rightarrow> adjust_holding p env i h d w | None \<Rightarrow> Inr (i, w)) = Inr (k, w1)"
    and s: "save_holding_edit p env i h k w1 = Inr (r, w')"
    by (auto simp: update_holding_def bindE_eq_Inr Let_def)
  have "cash_inv w1" using a inv adjust_holding_inv [OF inv] by (cases d) auto
  then show ?thesis by (rule save_holding_edit_inv [OF _ s])
qed

section \<open>Trades\<close>

lemma cash_inv_ok: "cash_inv w = cash_ok {} {} {} {} w"
  by (simp add: cash_inv_def)

lemma enter_transaction_inv:
  assumes inv: "cash_inv w" and user: "tx_user tx = en_user env"
    and res: "enter_transaction p env tx w = Inr (r, w')"
  shows "cash_inv w'"
proof -
  define x where "x = fst (tinsert tx (transactions w))"
  define w1 where "w1 = w\<lparr>transactions := snd (tinsert tx (transactions w))\<rparr>"
  define w2 where "w2 = record_asset_mutation env HOLDING_TRANSACTION (Some x) CREATE None
    (transaction_state w1 x) None w1"
  define sh where "sh = (case txc_sell_handling p of Some h \<Rightarrow> h | None \<Rightarrow> CREATE_NEW_CASH)"
  from res obtain h w3 account w4 job where
    s: "sync_holding_projection_for_symbol env (en_user env) (tx_symbol tx) (tx_market tx) w2 = Inr (h, w3)"
    and t: "(case tx_price tx of None \<Rightarrow> Inr (None, w3)
          | Some pr \<Rightarrow> settle_trade env (Some sh) (txc_sell_account p) (txc_buy_handling p)
              (txc_buy_account p) x tx pr w3) = Inr (account, w4)"
    and e: "enqueue_user_portfolio_snapshot_rebuild env (en_user env)
            (enqueue_holding_history_sync_request env (en_user env) (Some (tx_symbol tx)) w4) = Inr (job, w')"
    unfolding enter_transaction_def Let_def x_def [symmetric] w1_def [symmetric] w2_def [symmetric] sh_def [symmetric]
    by (auto simp: bindE_eq_Inr)
  from inv have ok: "cash_ok {} {} {} {} w" by (simp add: cash_inv_ok)
  have x: "x = next_id (transactions w)" by (simp add: x_def tinsert_def)
  have new: "no_entries x w2" "no_settlement x w2"
    using no_entries_new [OF ok] x by (simp_all add: w1_def w2_def no_entries_def no_settlement_def)
  have ok2: "cash_ok {} {} {} {} w2"
    using cash_insert_transaction [OF ok, of tx] by (simp add: w2_def w1_def)
  have tx: "tget (transactions w2) x = Some tx"
    using cash_ok_wf [OF ok] by (simp add: w2_def w1_def x_def tbl.get_insert)
  obtain hs where w3: "w3 = w2\<lparr>holdings := hs\<rparr>" by (rule sync_holding_result [OF s])
  have ok3: "cash_ok {} {} {} {} w3"
    using ok2 by (simp add: w3 cash_inv_ok [symmetric])
  have n3: "no_entries x w3" "no_settlement x w3" "tget (transactions w3) x = Some tx"
    using new tx by (simp_all add: w3 no_entries_def no_settlement_def)
  have "cash_inv w4"
  proof (cases "tx_price tx")
    case None
    with t ok3 show ?thesis by (simp add: cash_inv_ok)
  next
    case (Some pr)
    with t settle_trade_ok(1) [OF ok3 n3 user] show ?thesis by (simp add: cash_inv_ok)
  qed
  then have "cash_ok {} {} {} {} (enqueue_holding_history_sync_request env (en_user env) (Some (tx_symbol tx)) w4)"
    by (simp add: cash_inv_ok [symmetric])
  from okpD [OF cash_ok_enqueue [OF this] e] show ?thesis by (simp add: cash_inv_ok)
qed

lemma apply_holding_transaction_inv:
  assumes inv: "cash_inv w" and res: "apply_holding_transaction p env w = Inr (r, w')"
  shows "cash_inv w'"
proof -
  from res obtain sy q pr ccy where
    "enter_transaction p env (transaction_row p env sy q pr ccy)
       (fold (\<lambda>(i, h). ensure_transaction_baseline_from_holding_snapshot env h)
           (list_holdings_for_symbol w (en_user env) sy (txc_market p)) w) = Inr (r, w')"
    by (auto simp: apply_holding_transaction_def Let_def bindE_eq_Inr)
  then show ?thesis
    by (rule enter_transaction_inv [OF ensure_baselines_inv [OF inv], rotated])
      (simp add: transaction_row_def)
qed

lemma create_transaction_cases:
  assumes "create_holding_transaction p key env w = Inr (r, w')"
  obtains (replay) k where "load_idempotent_response env TRANSACTION_SCOPE key (TransactionRequest p) w
      = Inr (Some (TransactionResponse k))" "r = Inr k" "w' = w"
  | (unread) e where "load_idempotent_response env TRANSACTION_SCOPE key (TransactionRequest p) w = Inr None"
      "apply_holding_transaction p env w = Inr (Inl e, w')" "r = Inl e"
  | (fresh) k w1 where "load_idempotent_response env TRANSACTION_SCOPE key (TransactionRequest p) w = Inr None"
      "apply_holding_transaction p env w = Inr (Inr k, w1)" "r = Inr k"
      "w' = invalidate_dashboard_cache (Some (en_user env)) (store_idempotent_response env TRANSACTION_SCOPE key
         (TransactionRequest p) (TransactionResponse k) w1)"
proof -
  from assms obtain s where s: "load_idempotent_response env TRANSACTION_SCOPE key (TransactionRequest p) w = Inr s"
    by (auto simp: create_holding_transaction_def bindE_eq_Inr)
  show thesis
  proof (cases s)
    case None
    with assms s obtain a w1 where "apply_holding_transaction p env w = Inr (a, w1)"
      by (auto simp: create_holding_transaction_def bindE_eq_Inr)
    with assms s None unread fresh show thesis
      by (cases a) (auto simp: create_holding_transaction_def Let_def)
  next
    case (Some k)
    with assms s show thesis
      by (cases k) (auto simp: create_holding_transaction_def intro: replay)
  qed
qed

lemma create_holding_transaction_inv:
  assumes inv: "cash_inv w" and res: "create_holding_transaction p key env w = Inr (r, w')"
  shows "cash_inv w'"
  using res by (cases rule: create_transaction_cases)
    (use inv apply_holding_transaction_inv [OF inv] in auto)

section \<open>Changing and deleting a trade\<close>

lemma resettle_sell_ok:
  assumes ok: "cash_ok {} {} {} {} w" and x: "no_entries x w" "no_settlement x w"
    and t: "tget (transactions w) x = Some t" "tx_user t = en_user env"
    and res: "resettle_sell p env x tx original w = Inr (h, acc, w')"
  shows "cash_ok {} {} {} {} w'"
proof -
  from res obtain sh sa price where "settle_trade env sh sa None None x tx price w = Inr (acc, w')"
    by (auto simp: resettle_sell_def Let_def bindE_eq_Inr split: option.splits if_splits)
  then show ?thesis by (rule settle_trade_ok(1) [OF ok x t])
qed

lemma resettle_buy_ok:
  assumes ok: "cash_ok {} {} {} {} w" and x: "no_entries x w" "no_settlement x w"
    and t: "tget (transactions w) x = Some t" "tx_user t = en_user env"
    and res: "resettle_buy p env x tx original w = Inr (acc, w')"
  shows "cash_ok {} {} {} {} w'"
proof -
  from res consider "w' = w" | bh ba price where "settle_trade env None None bh ba x tx price w = Inr (acc, w')"
    unfolding resettle_buy_def Let_def by (cases "positive_price (tx_price tx)") (auto split: if_splits)
  then show ?thesis by cases (use ok settle_trade_ok(1) [OF ok x t] in auto)
qed

lemma owned_transactionD:
  "owned_transaction env x w = Inr t \<Longrightarrow> tget (transactions w) x = Some t \<and> tx_user t = en_user env"
  by (auto simp: owned_transaction_def split: option.splits if_splits)

lemma update_holding_transaction_inv:
  assumes inv: "cash_inv w" and res: "update_holding_transaction x p env w = Inr (r, w')"
  shows "cash_inv w'"
proof -
  from res obtain tx0 original reversed w1 q pr h w3 sh affected w4 where
    own: "owned_transaction env x w = Inr tx0"
    and rv: "reverse_holding_transaction_cash_settlement env x w = Inr (reversed, w1)"
    and s: "sync_holding_projection_for_symbol env (en_user env)
       (tx_symbol (updated_transaction p env q pr tx0)) (tx_market (updated_transaction p env q pr tx0))
       (w1\<lparr>transactions := tput x (updated_transaction p env q pr tx0) (transactions w1)\<rparr>) = Inr (h, w3)"
    and c: "(case tx_side (updated_transaction p env q pr tx0) of
         SELL \<Rightarrow> bindE (resettle_sell p env x (updated_transaction p env q pr tx0) original w3) (\<lambda>(h, affected, w4).
           Inr (Some h, or_else affected reversed, w4))
       | BUY \<Rightarrow> bindE (resettle_buy p env x (updated_transaction p env q pr tx0) original w3) (\<lambda>(affected, w4).
           Inr (None, or_else affected reversed, w4))
       | ADJUST \<Rightarrow> Inr (None, reversed, w3)) = Inr (sh, affected, w4)"
    and f: "finish_trade env (tx_symbol (updated_transaction p env q pr tx0))
       (record_asset_mutation env HOLDING_TRANSACTION (Some x) UPDATE
           (Some (TransactionState x tx0)) (transaction_state w4 x) None w4) = Inr w'"
    unfolding update_holding_transaction_def Let_def by (auto simp: bindE_eq_Inr)
  define tx where "tx = updated_transaction p env q pr tx0"
  from owned_transactionD [OF own] have t0: "tget (transactions w) x = Some tx0" "tx_user tx0 = en_user env"
    by simp_all
  from inv have ok: "cash_ok {} {} {} {} w" by (simp add: cash_inv_ok)
  from reverse_settlement_ok [OF ok rv] t0 have ok1: "cash_ok {} {} {} {} w1"
    and n1: "transactions w1 = transactions w" "no_entries x w1" "no_settlement x w1" by simp_all
  let ?w2 = "w1\<lparr>transactions := tput x tx (transactions w1)\<rparr>"
  have u: "tx_user tx = en_user env" by (simp add: tx_def updated_transaction_def t0)
  have ok2: "cash_ok {} {} {} {} ?w2"
    by (rule cash_put_transaction [OF ok1, of x tx0]) (simp_all add: n1 t0 u)
  have n2: "no_entries x ?w2" "no_settlement x ?w2" using n1 by (simp_all add: no_entries_def no_settlement_def)
  have t2: "tget (transactions ?w2) x = Some tx"
    using t0 n1 cash_ok_wf [OF ok1] by (simp add: tbl.get_put)
  obtain hs where w3: "w3 = ?w2\<lparr>holdings := hs\<rparr>"
    by (rule sync_holding_result [OF s]) (simp add: tx_def)
  have ok3: "cash_ok {} {} {} {} w3" using ok2 by (simp add: w3 cash_inv_ok [symmetric])
  have n3: "no_entries x w3" "no_settlement x w3" "tget (transactions w3) x = Some tx"
    using n2 t2 by (simp_all add: w3 no_entries_def no_settlement_def)
  have "cash_ok {} {} {} {} w4"
  proof (cases "tx_side tx")
    case BUY
    with c resettle_buy_ok [OF ok3 n3 u] show ?thesis by (auto simp: tx_def bindE_eq_Inr)
  next
    case SELL
    with c resettle_sell_ok [OF ok3 n3 u] show ?thesis by (auto simp: tx_def bindE_eq_Inr)
  next
    case ADJUST
    with c ok3 show ?thesis by (simp add: tx_def)
  qed
  then show ?thesis by (intro finish_trade_inv [OF _ f]) (simp add: cash_inv_ok)
qed

lemma delete_holding_transaction_inv:
  assumes inv: "cash_inv w" and res: "delete_holding_transaction x env w = Inr w'"
  shows "cash_inv w'"
proof -
  from res obtain tx reversed w1 h w4 where
    rv: "reverse_holding_transaction_cash_settlement env x w = Inr (reversed, w1)"
    and s: "sync_holding_projection_for_symbol env (en_user env) (tx_symbol tx) (tx_market tx)
       (record_asset_mutation env HOLDING_TRANSACTION (Some x) DELETE
           (Some (TransactionState x tx)) None None (w1\<lparr>transactions := tdel x (transactions w1)\<rparr>)) = Inr (h, w4)"
    and f: "finish_trade env (tx_symbol tx) w4 = Inr w'"
    unfolding delete_holding_transaction_def Let_def by (auto simp: bindE_eq_Inr)
  from inv rv have ok1: "cash_ok {} {} {} {} w1" using reverse_settlement_ok by (simp add: cash_inv_ok)
  from cash_delete_transactions [OF ok1, of "[x]"]
  have "cash_inv (w1\<lparr>transactions := tdel x (transactions w1)\<rparr>)" by (simp add: cash_inv_ok tdel_ids_def)
  then show ?thesis by (intro finish_trade_inv [OF _ f]) (auto intro: sync_holding_result [OF s])
qed

section \<open>Fixed assets, liabilities and other assets\<close>

lemma cash_inv_assets [simp]:
  "cash_inv (w\<lparr>fixed_assets := f\<rparr>) = cash_inv w" "cash_inv (w\<lparr>liabilities := l\<rparr>) = cash_inv w"
  "cash_inv (w\<lparr>other_assets := a\<rparr>) = cash_inv w"
  by (rule cash_inv_frame; simp)+

lemma finish_request_inv: "finish_request env w = Inr w' \<Longrightarrow> cash_inv w \<Longrightarrow> cash_inv w'"
  using okp_finish by (simp add: okp_def)

lemma asset_entry_inv:
  "create_fixed_asset vp env w = Inr (r, w') \<Longrightarrow> cash_inv w \<Longrightarrow> cash_inv w'"
  "update_fixed_asset i vp env w = Inr (r, w') \<Longrightarrow> cash_inv w \<Longrightarrow> cash_inv w'"
  "delete_fixed_asset i env w = Inr w' \<Longrightarrow> cash_inv w \<Longrightarrow> cash_inv w'"
  "create_liability lc env w = Inr (r', w') \<Longrightarrow> cash_inv w \<Longrightarrow> cash_inv w'"
  "update_liability i lu env w = Inr (r', w') \<Longrightarrow> cash_inv w \<Longrightarrow> cash_inv w'"
  "delete_liability i env w = Inr w' \<Longrightarrow> cash_inv w \<Longrightarrow> cash_inv w'"
  "create_other_asset vp env w = Inr (r, w') \<Longrightarrow> cash_inv w \<Longrightarrow> cash_inv w'"
  "update_other_asset i vp env w = Inr (r, w') \<Longrightarrow> cash_inv w \<Longrightarrow> cash_inv w'"
  "delete_other_asset i env w = Inr w' \<Longrightarrow> cash_inv w \<Longrightarrow> cash_inv w'"
  by (auto simp: create_fixed_asset_def update_fixed_asset_def delete_fixed_asset_def create_liability_def
      update_liability_def delete_liability_def create_other_asset_def update_other_asset_def
      delete_other_asset_def bindE_eq_Inr Let_def elim!: finish_request_inv)

end
