(* ===== verification/Service.thy ===== *)
theory Service
  imports Prelude
begin

text \<open>
  Interfaces of a service that runs one request after another. \<open>invariant_service\<close>: the step
  of a request keeps an invariant. \<open>isolated_service\<close>: moreover a request of one user looks
  like no change to every other user.
\<close>

locale invariant_service =
  fixes step :: "'req \<Rightarrow> 's \<Rightarrow> 's"
    and inv :: "'s \<Rightarrow> bool"
  assumes step_inv: "inv s \<Longrightarrow> inv (step q s)"
begin

lemma run_inv: "inv s \<Longrightarrow> inv (fold step qs s)"
  by (induction qs arbitrary: s) (simp_all add: step_inv)

end

locale isolated_service = invariant_service step inv
  for step :: "'req \<Rightarrow> 's \<Rightarrow> 's" and inv :: "'s \<Rightarrow> bool" +
  fixes actor :: "'req \<Rightarrow> 'u"
    and unchanged :: "'u \<Rightarrow> 's \<Rightarrow> 's \<Rightarrow> bool"
  assumes unchanged_refl: "unchanged v s s"
    and unchanged_trans: "unchanged v s t \<Longrightarrow> unchanged v t r \<Longrightarrow> unchanged v s r"
    and step_unchanged: "inv s \<Longrightarrow> actor q \<noteq> v \<Longrightarrow> unchanged v s (step q s)"
begin

lemma run_unchanged:
  assumes "inv s" "\<forall>q \<in> set qs. actor q \<noteq> v"
  shows "unchanged v s (fold step qs s)"
  using assms
proof (induction qs arbitrary: s)
  case Nil
  show ?case by (simp add: unchanged_refl)
next
  case (Cons q qs)
  then have "unchanged v s (step q s)" "unchanged v (step q s) (fold step qs (step q s))"
    by (simp_all add: step_unchanged step_inv)
  then show ?case by (auto intro: unchanged_trans)
qed

end

end
