(* ===== verification/Api.thy ===== *)
theory Api
  imports Trade_Handlers Service
begin

text \<open>
  The requests that change portfolio data, as the routers of \<^verbatim>\<open>backend/app/api/routers\<close>
  dispatch them to the services, and the effect of a request on the database: a handler that
  raises leaves the database as it was.
\<close>

datatype api_request =
    CreateAccount cash_account_create
  | UpdateAccount nat cash_account_update
  | DeleteAccount nat
  | CreateAdjustment adjustment_create "pystr option"
  | UpdateAdjustment nat adjustment_update
  | DeleteAdjustment nat
  | CreateTransfer transfer_create "pystr option"
  | UpdateTransfer nat transfer_update
  | DeleteTransfer nat
  | CreateHolding holding_create
  | UpdateHolding nat holding_update
  | DeleteHolding nat
  | CreateTransaction transaction_create "pystr option"
  | UpdateTransaction nat transaction_update
  | DeleteTransaction nat
  | CreateFixedAsset valued_asset_payload
  | UpdateFixedAsset nat valued_asset_payload
  | DeleteFixedAsset nat
  | CreateLiability liability_create
  | UpdateLiability nat liability_update
  | DeleteLiability nat
  | CreateOtherAsset valued_asset_payload
  | UpdateOtherAsset nat valued_asset_payload
  | DeleteOtherAsset nat

definition committed :: "error + 'r \<times> world \<Rightarrow> error + world" where
  "committed m = bindE m (\<lambda>(r, w). Inr w)"

lemma committed_eq [simp]: "committed m = Inr w' \<longleftrightarrow> (\<exists>r. m = Inr (r, w'))"
  by (auto simp: committed_def bindE_eq_Inr)

fun account_routes :: "env \<Rightarrow> api_request \<Rightarrow> world \<Rightarrow> error + world" where
  "account_routes env (CreateAccount p) w = committed (create_account p env w)"
| "account_routes env (UpdateAccount i p) w = committed (update_account i p env w)"
| "account_routes env (DeleteAccount i) w = delete_account i env w"
| "account_routes env (CreateAdjustment p k) w = committed (create_cash_ledger_adjustment p k env w)"
| "account_routes env (UpdateAdjustment i p) w = committed (update_cash_ledger_adjustment i p env w)"
| "account_routes env (DeleteAdjustment i) w = delete_cash_ledger_adjustment i env w"
| "account_routes env (CreateTransfer p k) w = committed (create_cash_transfer p k env w)"
| "account_routes env (UpdateTransfer i p) w = committed (update_cash_transfer i p env w)"
| "account_routes env (DeleteTransfer i) w = delete_cash_transfer i env w"
| "account_routes env _ w = Inr w"

fun holding_routes :: "env \<Rightarrow> api_request \<Rightarrow> world \<Rightarrow> error + world" where
  "holding_routes env (CreateHolding p) w = committed (create_holding p env w)"
| "holding_routes env (UpdateHolding i p) w = committed (update_holding i p env w)"
| "holding_routes env (DeleteHolding i) w = delete_holding i env w"
| "holding_routes env (CreateTransaction p k) w = committed (create_holding_transaction p k env w)"
| "holding_routes env (UpdateTransaction i p) w = committed (update_holding_transaction i p env w)"
| "holding_routes env (DeleteTransaction i) w = delete_holding_transaction i env w"
| "holding_routes env _ w = Inr w"

fun asset_routes :: "env \<Rightarrow> api_request \<Rightarrow> world \<Rightarrow> error + world" where
  "asset_routes env (CreateFixedAsset p) w = committed (create_fixed_asset p env w)"
| "asset_routes env (UpdateFixedAsset i p) w = committed (update_fixed_asset i p env w)"
| "asset_routes env (DeleteFixedAsset i) w = delete_fixed_asset i env w"
| "asset_routes env (CreateLiability p) w = committed (create_liability p env w)"
| "asset_routes env (UpdateLiability i p) w = committed (update_liability i p env w)"
| "asset_routes env (DeleteLiability i) w = delete_liability i env w"
| "asset_routes env (CreateOtherAsset p) w = committed (create_other_asset p env w)"
| "asset_routes env (UpdateOtherAsset i p) w = committed (update_other_asset i p env w)"
| "asset_routes env (DeleteOtherAsset i) w = delete_other_asset i env w"
| "asset_routes env _ w = Inr w"

definition handle :: "env \<Rightarrow> api_request \<Rightarrow> world \<Rightarrow> error + world" where
  \<comment> \<open>each request belongs to one of the three routers, and the other two pass it on\<close>
  "handle env q w = bindE (account_routes env q w) (\<lambda>w1. bindE (holding_routes env q w1) (asset_routes env q))"

definition serve :: "env \<times> api_request \<Rightarrow> world \<Rightarrow> world" where
  "serve = (\<lambda>(env, q) w. case handle env q w of Inl e \<Rightarrow> w | Inr w' \<Rightarrow> w')"

definition empty_world :: world where
  "empty_world = \<lparr>accounts = empty_table, ledger = empty_table, transfers = empty_table,
     holdings = empty_table, transactions = empty_table, settlements = empty_table,
     fixed_assets = empty_table, liabilities = empty_table, other_assets = empty_table,
     sync_requests = empty_table, jobs = empty_table, idem_keys = empty_table,
     audits = [], cached_dashboards = []\<rparr>"

lemma tget_empty [simp]: "tget empty_table i = None"
  by (simp add: tget_def empty_table_def)

lemma tselect_empty [simp]: "tselect P empty_table = []"
  by (simp add: tselect_def empty_table_def)

lemma cash_inv_empty: "cash_inv empty_world"
  by (simp add: cash_inv_def cash_ok_def empty_world_def bal_def account_balanced_def initial_unique_def
      currencies_ok_def settlement_unique_def settlement_owned_def legs_ok_def posted_legs_def)

lemma account_routes_inv: "account_routes env q w = Inr w' \<Longrightarrow> cash_inv w \<Longrightarrow> cash_inv w'"
  by (cases q) (auto elim: create_account_inv [rotated] update_account_inv [rotated] delete_account_inv [rotated]
      create_adjustment_inv [rotated] update_adjustment_inv [rotated] delete_adjustment_inv [rotated]
      create_transfer_inv [rotated] update_transfer_inv [rotated] delete_transfer_inv [rotated])

lemma holding_routes_inv: "holding_routes env q w = Inr w' \<Longrightarrow> cash_inv w \<Longrightarrow> cash_inv w'"
  by (cases q) (auto elim: create_holding_inv [rotated] update_holding_inv [rotated] delete_holding_inv [rotated]
      create_holding_transaction_inv [rotated] update_holding_transaction_inv [rotated]
      delete_holding_transaction_inv [rotated])

lemma asset_routes_inv: "asset_routes env q w = Inr w' \<Longrightarrow> cash_inv w \<Longrightarrow> cash_inv w'"
  by (cases q) (auto elim: asset_entry_inv)

lemma handle_inv: "handle env q w = Inr w' \<Longrightarrow> cash_inv w \<Longrightarrow> cash_inv w'"
  by (auto simp: handle_def bindE_eq_Inr dest: account_routes_inv holding_routes_inv asset_routes_inv)

interpretation api: invariant_service serve cash_inv
  by unfold_locales (auto simp: serve_def handle_inv split: sum.splits)

end
