(* ===== verification/Scenario.thy ===== *)
theory Scenario
  imports Api
begin

text \<open>
  A concrete run used by the witnesses: a user with two cash accounts, 100 CNY and 0 CNY. The
  collection \<open>eval\<close> rewrites a handler on a concrete world to its result.
\<close>

section \<open>Evaluation\<close>

lemma bindE_weak: "m = m' \<Longrightarrow> bindE m f = bindE m' f"
  by simp

lemmas eval_cong = bindE_weak let_weak_cong

lemma ndigits_prec: "ndigits n \<le> PREC \<longleftrightarrow> n < 10 ^ PREC"
  using ndigits_le_iff [of n 27] by simp

lemmas eval_decimals = of_fixed_def quantize_decimal_def dec_quantize_def dec_add_def dec_sub_def dec_neg_def
  dec_abs_def dec_mul_def dec_le_def dec_less_def dec_eq_def scale_to_def ctx_round_exact half_up_div_def
  ndigits_prec FIXED_EPSILON_def DECIMAL_ZERO_def display_money_def display_price_def
  display_quantity_def display_fx_rate_def display_percent_def multiply_decimals_def to_decimal_def

lemmas eval_tables = tget_def tinsert_def tput_def tdel_def tselect_def tdel_ids_def empty_table_def

lemmas eval_text = normalize_currency_def lit_def py_upper_def py_strip_def py_lstrip_def py_rstrip_def
  py_isspace_def upper_char_def normalize_optional_text_def normalize_idempotency_key_def of_char_def

lemmas eval_ledger = reconcile_cash_account_initial_ledger_entry_def get_cash_account_initial_ledger_entry_def
  sum_cash_account_ledger_balance_def list_cash_ledger_entries_for_account_def
  sync_cash_account_balance_from_ledger_def create_cash_ledger_entry_def initial_entry_row_def
  numeric_column_def fits_numeric_def liftA_def ledger_order_def initial_balance_note_def

lemmas eval_request = finish_request_def enqueue_user_portfolio_snapshot_rebuild_def assertE_def
  record_asset_mutation_def normalize_job_user_id_def enqueue_job_def load_active_job_by_dedup_key_def
  snapshot_rebuild_key_def new_job_def invalidate_dashboard_cache_def is_active_def
  load_idempotent_response_def load_idempotency_record_def store_idempotent_response_def
  ensure_date_not_future_def server_today_date_def LOCAL_OFFSET_def US_DAY_def owned_account_def

lemmas eval_transfer = apply_cash_transfer_def check_transfer_accounts_def ensure_balance_covers_def
  resolve_cash_transfer_target_amount_def convert_cash_amount_between_currencies_def
  post_transfer_legs_def transfer_out_note_def transfer_in_note_def note_or_def transfer_response_def
  transfer_read_of_def account_read_def to_cash_account_read_def to_cash_transfer_read_def
  value_cash_account_def value_amount_def lookup_fx_def ONE_RATE_def

lemmas eval = eval_decimals eval_tables eval_text eval_ledger eval_request Let_def

section \<open>Two accounts\<close>

definition ada :: env where
  "ada = \<lparr>en_user = lit ''ada'', en_now = 1700000000000000, en_actor_source = None,
     en_api_key_name = None, en_agent_name = None, en_agent_task_id = None,
     en_fx_rate = (\<lambda>a b. Some (Dec 7 0)), en_quote = (\<lambda>s m. None),
     en_price_series = (\<lambda>s m a b. None), en_error_text = (\<lambda>e. []),
     en_float_g = (\<lambda>e c. lit ''x''), en_request_hash = (\<lambda>q. lit ''h'')\<rparr>"

definition cny_account :: "pystr \<Rightarrow> fixed \<Rightarrow> cash_account" where
  "cny_account name balance = \<lparr>ca_user = lit ''ada'', ca_name = name, ca_platform = lit ''Bank'',
     ca_currency = lit ''CNY'', ca_balance = balance, ca_type = lit ''BANK'', ca_started_on = None,
     ca_note = None, ca_created_at = 0, ca_updated_at = 0\<rparr>"

definition opening_entry :: "nat \<Rightarrow> fixed \<Rightarrow> ledger_entry" where
  "opening_entry account amount = \<lparr>le_user = lit ''ada'', le_account = account, le_type = INITIAL_BALANCE,
     le_amount = amount, le_currency = lit ''CNY'', le_happened_on = 0, le_note = None,
     le_transaction = None, le_transfer = None, le_created_at = 0, le_updated_at = 0\<rparr>"

definition two_accounts :: world where
  "two_accounts = empty_world\<lparr>
     accounts := \<lparr>next_id = 3, rows = [(1, cny_account [65] 10000000000), (2, cny_account [66] 0)]\<rparr>,
     ledger := \<lparr>next_id = 3, rows = [(1, opening_entry 1 10000000000), (2, opening_entry 2 0)]\<rparr>\<rparr>"

lemmas eval_scenario = two_accounts_def empty_world_def ada_def cny_account_def opening_entry_def

lemma scenario_rows [simp]:
  "ca_user (cny_account n b) = lit ''ada''" "ca_currency (cny_account n b) = lit ''CNY''"
  "ca_balance (cny_account n b) = b" "le_user (opening_entry i m) = lit ''ada''"
  "le_account (opening_entry i m) = i" "le_type (opening_entry i m) = INITIAL_BALANCE"
  "le_currency (opening_entry i m) = lit ''CNY''" "le_transaction (opening_entry i m) = None"
  "le_transfer (opening_entry i m) = None" "le_amount (opening_entry i m) = m"
  "normalize_currency (lit ''CNY'') = lit ''CNY''"
  by (simp_all add: cny_account_def opening_entry_def) (simp add: eval_text)

lemma two_accounts_tables [simp]:
  "tget (accounts two_accounts) i = (if i = 1 then Some (cny_account [65] 10000000000)
      else if i = 2 then Some (cny_account [66] 0) else None)"
  "tget (ledger two_accounts) k = (if k = 1 then Some (opening_entry 1 10000000000)
      else if k = 2 then Some (opening_entry 2 0) else None)"
  "transfers two_accounts = empty_table" "settlements two_accounts = empty_table"
  "transactions two_accounts = empty_table"
  by (simp_all add: two_accounts_def tget_def empty_world_def)

lemma two_accounts_inv: "cash_inv two_accounts"
proof -
  have sums: "ledger_sum two_accounts (lit ''ada'') (Suc 0) = Inr 10000000000"
    "ledger_sum two_accounts (lit ''ada'') 2 = Inr 0"
    by (simp_all add: ledger_sum_def eval eval_scenario del: two_accounts_tables)
  have "twf (accounts two_accounts)" "twf (ledger two_accounts)"
    "tselect (\<lambda>e. le_transfer e = Some t) (ledger two_accounts) = []" for t
    by (simp_all add: twf_def two_accounts_def tselect_def)
  with sums show ?thesis
    unfolding cash_inv_def cash_ok_def bal_def account_balanced_def entry_ok_def entry_settled_def
      initial_unique_def currencies_ok_def settlement_unique_def settlement_owned_def legs_ok_def
      posted_legs_def
    by (auto split: if_splits)
qed

end
