(* ===== verification/Ledger_Totals.thy ===== *)
theory Ledger_Totals
  imports Scenario
begin

text \<open>
  Balances as plain sums. While the absolute amounts on an account stay below the 28 digits of
  the decimal context, the balance the code computes is the sum of the entries, so the effect
  of a handler on a balance can be read off the entries it wrote.
\<close>

definition exposure :: "world \<Rightarrow> pystr \<Rightarrow> nat \<Rightarrow> int" where
  "exposure w user account = sum_list (map (\<lambda>p. \<bar>le_amount (snd p)\<bar>) (entries_of w user account))"

definition entry_total :: "world \<Rightarrow> pystr \<Rightarrow> nat \<Rightarrow> int" where
  "entry_total w user account = sum_list (map (\<lambda>p. le_amount (snd p)) (entries_of w user account))"

lemma sum_list_sort_key: "sum_list (map g (sort_key f xs)) = sum_list (map g xs)" for g :: "'a \<Rightarrow> int"
  by (metis mset_map mset_sort sum_mset_sum_list)

lemma ledger_sum_exact:
  assumes "exposure w user account < 10 ^ PREC"
  shows "ledger_sum w user account = Inr (entry_total w user account)"
proof -
  let ?xs = "sort_key ledger_order (entries_of w user account)"
  have "sum_list (map abs (map (\<lambda>p. le_amount (snd p)) ?xs)) = exposure w user account"
    unfolding exposure_def by (simp only: map_map sum_list_sort_key) (simp add: comp_def case_prod_beta)
  with assms have "quantize_decimal (dec_sum (map of_fixed (map (\<lambda>p. le_amount (snd p)) ?xs)) DECIMAL_ZERO)
      = Inr (sum_list (map (\<lambda>p. le_amount (snd p)) ?xs))" by (intro dec_sum_fixed) simp
  moreover have "map of_fixed (map (\<lambda>p. le_amount (snd p)) ?xs) = map (\<lambda>(k, e). of_fixed (le_amount e)) ?xs"
    by (simp add: comp_def case_prod_beta)
  ultimately show ?thesis
    by (simp only: ledger_sum_entries entry_total_def sum_list_sort_key) (simp add: liftA_def)
qed

lemma balance_exact:
  assumes "cash_inv w" "tget (accounts w) i = Some a" "exposure w (ca_user a) i < 10 ^ PREC"
  shows "ca_balance a = entry_total w (ca_user a) i"
  using assms ledger_sum_exact [OF assms(3)] balD [of w i a] by (simp add: cash_inv_def cash_ok_def)

lemma transfer_entries:
  assumes "apply_cash_transfer p env w = Inr (r, w')"
  obtains a b src tgt e1 e2 k1 k2 where
    "tget (accounts w) (trc_from p) = Some a" "ca_user a = en_user env"
    "tget (accounts w) (trc_to p) = Some b" "ca_user b = en_user env"
    "trc_from p \<noteq> trc_to p" "src = trc_source_amount p" "src \<le> ca_balance a + 1 \<or> \<not> fits_numeric (ca_balance a)"
    "resolve_cash_transfer_target_amount env src (ca_currency a) (ca_currency b) (trc_target_amount p) = Inr tgt"
    "ledger w' = snd (tinsert e2 (snd (tinsert e1 (ledger w))))"
    "le_user e1 = en_user env" "le_account e1 = trc_from p" "le_amount e1 = - src"
    "le_user e2 = en_user env" "le_account e2 = trc_to p" "le_amount e2 = tgt"
    "fits_numeric tgt" "\<exists>b1 b2. accounts w' = tput (trc_to p) (b\<lparr>ca_balance := b2, ca_updated_at := en_now env\<rparr>)
       (tput (trc_from p) (a\<lparr>ca_balance := b1, ca_updated_at := en_now env\<rparr>) (accounts w))"
proof -
  obtain a b src tgt t w2 w3 w4 where
    a: "tget (accounts w) (trc_from p) = Some a" "ca_user a = en_user env" and
    b: "tget (accounts w) (trc_to p) = Some b" "ca_user b = en_user env" and
    ne: "trc_from p \<noteq> trc_to p" and
    src: "quantize_decimal (of_fixed (trc_source_amount p)) = Inr src" "fits_numeric src"
      "ensure_balance_covers (ca_balance a) src = Inr ()" and
    tgt: "resolve_cash_transfer_target_amount env src (ca_currency a) (ca_currency b) (trc_target_amount p) = Inr tgt"
      "fits_numeric tgt" and
    post: "post_transfer_legs env (fst (tinsert t (transfers w))) (trc_from p) (trc_to p) a b src tgt
       (trc_transferred_on p) (trc_note p) (w\<lparr>transfers := snd (tinsert t (transfers w))\<rparr>) = Inr w2" and
    s1: "sync_cash_account_balance_from_ledger env (trc_from p) w2 = Inr w3" and
    s2: "sync_cash_account_balance_from_ledger env (trc_to p) w3 = Inr w4" and
    same: "accounts w' = accounts w4" "ledger w' = ledger w4"
    using assms by (rule apply_transfer_result)
  from src(1) have src': "src = trc_source_amount p" by (simp add: quantize_decimal_fixed split: if_splits)
  from src(2) have "quantize_decimal (dec_neg (of_fixed src)) = Inr (- src)"
    by (simp add: fits_numeric_def dec_neg_fixed quantize_decimal_fixed)
  with post obtain k1 w1 k2 where
    c1: "create_cash_ledger_entry env (en_user env) (trc_from p) TRANSFER_OUT (- src) (ca_currency a)
       (trc_transferred_on p) (Some (note_or (trc_note p) (transfer_out_note (ca_name b)))) None
       (Some (fst (tinsert t (transfers w)))) (w\<lparr>transfers := snd (tinsert t (transfers w))\<rparr>) = Inr (k1, w1)" and
    c2: "create_cash_ledger_entry env (en_user env) (trc_to p) TRANSFER_IN tgt (ca_currency b)
       (trc_transferred_on p) (Some (note_or (trc_note p) (transfer_in_note (ca_name a)))) None
       (Some (fst (tinsert t (transfers w)))) w1 = Inr (k2, w2)"
    by (auto simp: post_transfer_legs_def bindE_eq_Inr)
  obtain e1 where w1: "w1 = w\<lparr>transfers := snd (tinsert t (transfers w))\<rparr>\<lparr>ledger := snd (tinsert e1 (ledger w))\<rparr>"
    and e1: "le_user e1 = en_user env" "le_account e1 = trc_from p" "le_amount e1 = - src"
    using c1 by (rule create_entry_result) simp
  obtain e2 where w2: "w2 = w1\<lparr>ledger := snd (tinsert e2 (ledger w1))\<rparr>"
    and e2: "le_user e2 = en_user env" "le_account e2 = trc_to p" "le_amount e2 = tgt"
    using c2 by (rule create_entry_result)
  from s1 a w2 w1 obtain b1 where "accounts w3 = tput (trc_from p) (a\<lparr>ca_balance := b1, ca_updated_at := en_now env\<rparr>) (accounts w)"
    by (auto elim!: sync_result)
  with s2 b ne obtain b2 where "accounts w4 = tput (trc_to p) (b\<lparr>ca_balance := b2, ca_updated_at := en_now env\<rparr>)
       (tput (trc_from p) (a\<lparr>ca_balance := b1, ca_updated_at := en_now env\<rparr>) (accounts w))"
    by (auto elim!: sync_result simp: tbl.get_put)
  moreover have "ledger w' = snd (tinsert e2 (snd (tinsert e1 (ledger w))))"
    using same sync_same(1) [OF s1] sync_same(1) [OF s2] by (simp add: w2 w1)
  moreover have "src \<le> ca_balance a + 1 \<or> \<not> fits_numeric (ca_balance a)" using src by auto
  ultimately show ?thesis
    by (intro that [OF a b ne src' _ tgt(1) _ e1 e2 tgt(2)]) (simp_all add: same(1), blast)
qed


lemma entry_total_insert:
  "entry_total (w\<lparr>ledger := snd (tinsert e (ledger w))\<rparr>) u i =
     entry_total w u i + (if le_user e = u \<and> le_account e = i then le_amount e else 0)"
  "exposure (w\<lparr>ledger := snd (tinsert e (ledger w))\<rparr>) u i =
     exposure w u i + (if le_user e = u \<and> le_account e = i then \<bar>le_amount e\<bar> else 0)"
  by (simp_all add: entry_total_def exposure_def entries_of_insert)

lemma totals_cong:
  "ledger w' = ledger v \<Longrightarrow> entry_total w' u i = entry_total v u i \<and> exposure w' u i = exposure v u i"
  by (simp add: entry_total_def exposure_def entries_of_def)

text \<open>Replacing or deleting one entry changes the total by its amount.\<close>

lemma sum_list_put:
  fixes g :: "'r \<Rightarrow> int"
  assumes "distinct (map fst xs)" "(k, r) \<in> set xs"
  shows "sum_list (map (\<lambda>p. g (snd p)) (map (\<lambda>(i, x). if i = k then (i, r') else (i, x)) xs))
    = sum_list (map (\<lambda>p. g (snd p)) xs) - g r + g r'"
  using assms
proof (induction xs)
  case (Cons p xs)
  obtain i x where p: "p = (i, x)" by (cases p)
  show ?case
  proof (cases "i = k")
    case True
    with Cons.prems p have "map (\<lambda>(i, x). if i = k then (i, r') else (i, x)) xs = xs" "x = r"
      by (intro map_idI; force) (use True Cons.prems p in force)
    with True p show ?thesis by simp
  next
    case False
    with Cons p show ?thesis by auto
  qed
qed simp

lemma sum_list_filter_key:
  fixes g :: "'r \<Rightarrow> int"
  assumes "distinct (map fst xs)" "(k, r) \<in> set xs"
  shows "sum_list (map (\<lambda>p. g (snd p)) (filter (\<lambda>(i, x). i \<noteq> k) xs))
    = sum_list (map (\<lambda>p. g (snd p)) xs) - g r"
  using assms
proof (induction xs)
  case (Cons p xs)
  obtain i x where p: "p = (i, x)" by (cases p)
  show ?case
  proof (cases "i = k")
    case True
    with Cons.prems p have "filter (\<lambda>(i, x). i \<noteq> k) xs = xs" "x = r"
      by (intro filter_True; force) (use True Cons.prems p in force)
    with True p show ?thesis by simp
  next
    case False
    with Cons p show ?thesis by auto
  qed
qed simp

lemma entry_total_put:
  assumes wf: "twf (ledger w)" and k: "tget (ledger w) k = Some e"
    and same: "le_user e' = le_user e" "le_account e' = le_account e"
  shows "entry_total (w\<lparr>ledger := tput k e' (ledger w)\<rparr>) (le_user e) (le_account e)
      = entry_total w (le_user e) (le_account e) - le_amount e + le_amount e'"
    "exposure (w\<lparr>ledger := tput k e' (ledger w)\<rparr>) (le_user e) (le_account e)
      = exposure w (le_user e) (le_account e) - \<bar>le_amount e\<bar> + \<bar>le_amount e'\<bar>"
proof -
  let ?P = "\<lambda>x. le_user x = le_user e \<and> le_account x = le_account e"
  have xs: "distinct (map fst (tselect ?P (ledger w)))" "(k, e) \<in> set (tselect ?P (ledger w))"
    using wf k by (simp_all add: tbl.select_distinct tbl.select_iff)
  have "tselect ?P (tput k e' (ledger w))
      = map (\<lambda>(i, x). if i = k then (i, e') else (i, x)) (tselect ?P (ledger w))"
    using same by (intro tselect_tput_same [OF wf k]) simp_all
  then show "entry_total (w\<lparr>ledger := tput k e' (ledger w)\<rparr>) (le_user e) (le_account e)
      = entry_total w (le_user e) (le_account e) - le_amount e + le_amount e'"
    "exposure (w\<lparr>ledger := tput k e' (ledger w)\<rparr>) (le_user e) (le_account e)
      = exposure w (le_user e) (le_account e) - \<bar>le_amount e\<bar> + \<bar>le_amount e'\<bar>"
    using sum_list_put [OF xs, of le_amount e'] sum_list_put [OF xs, of "\<lambda>e. \<bar>le_amount e\<bar>" e']
    by (simp_all add: entry_total_def exposure_def entries_of_def del: map_map)
qed

lemma entry_total_del:
  assumes wf: "twf (ledger w)" and k: "tget (ledger w) k = Some e"
  shows "entry_total (w\<lparr>ledger := tdel k (ledger w)\<rparr>) (le_user e) (le_account e)
      = entry_total w (le_user e) (le_account e) - le_amount e"
    "exposure (w\<lparr>ledger := tdel k (ledger w)\<rparr>) (le_user e) (le_account e)
      = exposure w (le_user e) (le_account e) - \<bar>le_amount e\<bar>"
proof -
  let ?P = "\<lambda>x. le_user x = le_user e \<and> le_account x = le_account e"
  have xs: "distinct (map fst (tselect ?P (ledger w)))" "(k, e) \<in> set (tselect ?P (ledger w))"
    using wf k by (simp_all add: tbl.select_distinct tbl.select_iff)
  show "entry_total (w\<lparr>ledger := tdel k (ledger w)\<rparr>) (le_user e) (le_account e)
      = entry_total w (le_user e) (le_account e) - le_amount e"
    "exposure (w\<lparr>ledger := tdel k (ledger w)\<rparr>) (le_user e) (le_account e)
      = exposure w (le_user e) (le_account e) - \<bar>le_amount e\<bar>"
    using sum_list_filter_key [OF xs, of le_amount] sum_list_filter_key [OF xs, of "\<lambda>e. \<bar>le_amount e\<bar>"]
    by (simp_all add: entry_total_def exposure_def entries_of_def tbl.select_del)
qed

text \<open>The sum that leaves out the initial entry.\<close>

lemma sum_excluding_exact:
  assumes "exposure w u i < 10 ^ PREC" "twf (ledger w)" "tget (ledger w) k = Some e"
    "le_user e = u" "le_account e = i"
  shows "sum_cash_account_ledger_balance w u i (Some k) = Inr (entry_total w u i - le_amount e)"
proof -
  let ?xs = "entries_of w u i"
  have xs: "distinct (map fst ?xs)" "(k, e) \<in> set ?xs"
    using assms by (simp_all add: entries_of_def tbl.select_distinct tbl.select_iff)
  let ?ys = "filter (\<lambda>(j, x). j \<noteq> k) (sort_key ledger_order ?xs)"
  have ys: "?ys = sort_key ledger_order (filter (\<lambda>(j, x). j \<noteq> k) ?xs)" by (simp add: filter_sort)
  have "sum_list (map abs (map (\<lambda>p. le_amount (snd p)) ?ys)) = exposure w u i - \<bar>le_amount e\<bar>"
    unfolding ys exposure_def map_map sum_list_sort_key
    using sum_list_filter_key [OF xs, of "\<lambda>e. \<bar>le_amount e\<bar>"] by (simp add: comp_def)
  with assms(1) have "quantize_decimal (dec_sum (map of_fixed (map (\<lambda>p. le_amount (snd p)) ?ys)) DECIMAL_ZERO)
      = Inr (sum_list (map (\<lambda>p. le_amount (snd p)) ?ys))" by (intro dec_sum_fixed) simp
  moreover have "map of_fixed (map (\<lambda>p. le_amount (snd p)) ?ys) = map (\<lambda>(k, e). of_fixed (le_amount e)) ?ys"
    by (simp add: comp_def case_prod_beta)
  moreover have "sum_list (map (\<lambda>p. le_amount (snd p)) ?ys) = entry_total w u i - le_amount e"
    unfolding ys entry_total_def sum_list_sort_key using sum_list_filter_key [OF xs, of le_amount] .
  ultimately have "quantize_decimal (dec_sum (map (\<lambda>(k, e). of_fixed (le_amount e)) ?ys) DECIMAL_ZERO)
      = Inr (entry_total w u i - le_amount e)" by (simp only:)
  moreover have "sum_cash_account_ledger_balance w u i (Some k)
      = liftA (quantize_decimal (dec_sum (map (\<lambda>(k, e). of_fixed (le_amount e)) ?ys) DECIMAL_ZERO))"
    by (simp add: sum_cash_account_ledger_balance_def list_cash_ledger_entries_for_account_def entries_of_def)
  ultimately show ?thesis by (simp only: liftA_def sum.case)
qed

text \<open>Reconciling the initial entry makes the ledger add up to the target.\<close>

lemma member_le_sum:
  fixes f :: "'a \<Rightarrow> int"
  assumes "\<And>y. 0 \<le> f y" "x \<in> set xs"
  shows "f x \<le> sum_list (map f xs)"
  using assms(2)
proof (induction xs)
  case (Cons y ys)
  have "0 \<le> sum_list (map f ys)" by (rule sum_list_nonneg) (use assms(1) in auto)
  with Cons assms(1) [of y] show ?case by auto
qed simp

lemma reconcile_sets_balance:
  assumes res: "reconcile_cash_account_initial_ledger_entry env i target w = Inr w'"
    and wf: "twf (ledger w)" and a: "tget (accounts w) i = Some a"
    and small: "exposure w (ca_user a) i + \<bar>target\<bar> < 10 ^ 27"
  shows "\<exists>a'. tget (accounts w') i = Some a' \<and> ca_balance a' = target"
proof -
  let ?u = "ca_user a" and ?in = "get_cash_account_initial_ledger_entry w (ca_user a) i"
  obtain n r l where
    n: "sum_cash_account_ledger_balance w ?u i (map_option fst ?in) = Inr n" and
    q: "quantize_decimal (dec_sub (of_fixed target) (of_fixed n)) = Inr (le_amount r)" and
    r: "le_user r = ?u" "le_account r = i" and
    l: "?in = None \<and> l = snd (tinsert r (ledger w)) \<or> (\<exists>k e. ?in = Some (k, e) \<and> l = tput k r (ledger w))" and
    s: "sync_cash_account_balance_from_ledger env i (w\<lparr>ledger := l\<rparr>) = Inr w'"
    by (rule reconcile_result [OF res wf]) (use a in simp)
  have small28: "exposure w ?u i < 10 ^ PREC" using small by simp
  define old where "old = (case ?in of None \<Rightarrow> 0 | Some (k, e) \<Rightarrow> le_amount e)"
  have old: "n = entry_total w ?u i - old" "entry_total (w\<lparr>ledger := l\<rparr>) ?u i = n + le_amount r"
    "exposure (w\<lparr>ledger := l\<rparr>) ?u i = exposure w ?u i - \<bar>old\<bar> + \<bar>le_amount r\<bar>"
  proof -
    show "n = entry_total w ?u i - old"
    proof (cases ?in)
      case None
      with n ledger_sum_exact [OF small28] show ?thesis by (simp add: ledger_sum_def old_def)
    next
      case (Some p)
      obtain k e where p: "p = (k, e)" by (cases p)
      from initial_entry_SomeD [OF _ wf, of ?u i k e] Some p
      have e: "tget (ledger w) k = Some e" "le_user e = ?u" "le_account e = i" by auto
      from n Some p sum_excluding_exact [OF small28 wf e] show ?thesis by (simp add: old_def)
    qed
    have "entry_total (w\<lparr>ledger := l\<rparr>) ?u i = n + le_amount r \<and>
      exposure (w\<lparr>ledger := l\<rparr>) ?u i = exposure w ?u i - \<bar>old\<bar> + \<bar>le_amount r\<bar>"
      using l
    proof (elim disjE exE conjE)
      fix k e assume i: "?in = Some (k, e)" and l: "l = tput k r (ledger w)"
      from initial_entry_SomeD [OF i wf]
      have e: "tget (ledger w) k = Some e" "le_user e = ?u" "le_account e = i" by auto
      show ?thesis
        using entry_total_put [OF wf e(1), of r] e r \<open>n = _\<close> i by (simp_all add: l old_def)
    qed (use r \<open>n = _\<close> in \<open>auto simp: entry_total_insert old_def\<close>)
    then show "entry_total (w\<lparr>ledger := l\<rparr>) ?u i = n + le_amount r"
      "exposure (w\<lparr>ledger := l\<rparr>) ?u i = exposure w ?u i - \<bar>old\<bar> + \<bar>le_amount r\<bar>" by blast+
  qed
  have ab: "\<bar>entry_total w ?u i\<bar> \<le> exposure w ?u i" "\<bar>old\<bar> \<le> exposure w ?u i"
  proof -
    show "\<bar>entry_total w ?u i\<bar> \<le> exposure w ?u i"
      using sum_list_abs [of "map (\<lambda>p. le_amount (snd p)) (entries_of w ?u i)"]
      by (simp add: entry_total_def exposure_def comp_def)
    show "\<bar>old\<bar> \<le> exposure w ?u i"
    proof (cases ?in)
      case None
      show ?thesis unfolding old_def None exposure_def by (auto intro!: sum_list_nonneg)
    next
      case (Some p)
      obtain k e where p: "p = (k, e)" by (cases p)
      from initial_entry_SomeD [OF _ wf, of ?u i k e] Some p wf
      have "(k, e) \<in> set (entries_of w ?u i)" by (simp add: entries_of_def tbl.select_iff)
      from member_le_sum [OF _ this, of "\<lambda>p. \<bar>le_amount (snd p)\<bar>"]
      have "\<bar>le_amount e\<bar> \<le> exposure w ?u i" by (simp add: exposure_def)
      with Some p show ?thesis by (simp add: old_def)
    qed
  qed
  with old(1) small have "\<bar>target - n\<bar> < 10 ^ PREC" by simp
  with q have m: "le_amount r = target - n" by (simp add: dec_sub_fixed quantize_decimal_fixed)
  with ab old small have "exposure (w\<lparr>ledger := l\<rparr>) ?u i < 10 ^ PREC" by simp
  from ledger_sum_exact [OF this] old m have "ledger_sum (w\<lparr>ledger := l\<rparr>) ?u i = Inr target" by simp
  with s a show ?thesis
    by (auto simp: sync_cash_account_balance_from_ledger_def ledger_sum_def tbl.get_put bindE_eq_Inr)
qed

end
