(* ===== verification/Ledger_Properties.thy ===== *)
theory Ledger_Properties
  imports Ledger_Totals
begin

text \<open>
  Properties of cash accounts, ledger adjustments and transfers. The invariants hold in every
  world that any sequence of requests of any users, each in its own environment, leads to from
  the empty database.
\<close>

section \<open>Every reachable database\<close>

lemma reachable_inv: "cash_inv (fold serve qs empty_world)"
  by (rule api.run_inv [OF cash_inv_empty])

lemma list_all_rows: "twf t \<Longrightarrow> list_all (\<lambda>(k, r). P r) (rows t) \<longleftrightarrow> (\<forall>k r. tget t k = Some r \<longrightarrow> P r)"
  by (auto simp: list_all_iff twf_def tget_def map_of_eq_Some_iff)

text \<open>
  C1: after any requests the balance column of every account is the sum of the amounts of the
  ledger entries of its owner on it.
\<close>

theorem balances_follow_ledger: "account_balanced (fold serve qs empty_world) i"
  using reachable_inv [of qs] by (simp add: cash_inv_def cash_ok_def bal_def)

text \<open>
  C2: after any requests the ledger holds exactly two entries of each transfer row, out of its
  source account and into its target account, with its amounts and currencies, and none of a
  transfer that does not exist.
\<close>

theorem transfers_are_double_entry: "legs_ok (fold serve qs empty_world) t"
  using reachable_inv [of qs] by (simp add: cash_inv_def cash_ok_def)

text \<open>
  C6: after any requests a ledger entry that belongs to a trade is on the account, and of the user,
  of that trade's settlement, a live trade that has entries has a settlement, no trade has two,
  and the settlement of a live trade is its owner's.
\<close>

theorem trade_entries_are_settled:
  "list_all (\<lambda>(k, e). entry_settled {} (fold serve qs empty_world) e)
     (rows (ledger (fold serve qs empty_world)))
   \<and> settlement_unique (fold serve qs empty_world) \<and> settlement_owned (fold serve qs empty_world)"
  using reachable_inv [of qs]
  by (subst list_all_rows) (auto simp: cash_inv_def cash_ok_def bal_def)

text \<open>
  C7: after any requests every ledger entry is on an existing account of its user, in that account's
  currency, and an account has at most one initial entry, which belongs to no trade or transfer.
\<close>

theorem entries_are_owned:
  "list_all (\<lambda>(k, e). entry_ok {} (fold serve qs empty_world) e)
     (rows (ledger (fold serve qs empty_world)))
   \<and> initial_unique (fold serve qs empty_world)"
  using reachable_inv [of qs]
  by (subst list_all_rows) (auto simp: cash_inv_def cash_ok_def bal_def)

section \<open>Transfers\<close>

text \<open>
  C17: a transfer takes its source amount out of the source balance, adds the target amount the
  exchange rate gives to the target balance, and changes no other account, as long as the sums
  on the two accounts stay within the decimal context.
\<close>

theorem transfer_moves_money:
  assumes inv: "cash_inv w" and res: "apply_cash_transfer p env w = Inr (r, w')"
    and small: "exposure w (en_user env) (trc_from p) + \<bar>trc_source_amount p\<bar> < 10 ^ PREC"
      "exposure w (en_user env) (trc_to p) + 10 ^ 24 < 10 ^ PREC"
  shows "\<exists>a b a' b' tgt. tget (accounts w) (trc_from p) = Some a \<and> tget (accounts w) (trc_to p) = Some b \<and>
    resolve_cash_transfer_target_amount env (trc_source_amount p) (ca_currency a) (ca_currency b)
      (trc_target_amount p) = Inr tgt \<and>
    tget (accounts w') (trc_from p) = Some a' \<and> ca_balance a' = ca_balance a - trc_source_amount p \<and>
    tget (accounts w') (trc_to p) = Some b' \<and> ca_balance b' = ca_balance b + tgt \<and>
    (\<forall>i. i \<noteq> trc_from p \<longrightarrow> i \<noteq> trc_to p \<longrightarrow> tget (accounts w') i = tget (accounts w) i)"
proof -
  obtain a b src tgt e1 e2 b1 b2 where
    a: "tget (accounts w) (trc_from p) = Some a" "ca_user a = en_user env" and
    b: "tget (accounts w) (trc_to p) = Some b" "ca_user b = en_user env" and
    ne: "trc_from p \<noteq> trc_to p" and src: "src = trc_source_amount p" and
    tgt: "resolve_cash_transfer_target_amount env src (ca_currency a) (ca_currency b) (trc_target_amount p) = Inr tgt"
      "fits_numeric tgt" and
    l: "ledger w' = snd (tinsert e2 (snd (tinsert e1 (ledger w))))" and
    e: "le_user e1 = en_user env" "le_account e1 = trc_from p" "le_amount e1 = - src"
      "le_user e2 = en_user env" "le_account e2 = trc_to p" "le_amount e2 = tgt" and
    acc: "accounts w' = tput (trc_to p) (b\<lparr>ca_balance := b2, ca_updated_at := en_now env\<rparr>)
       (tput (trc_from p) (a\<lparr>ca_balance := b1, ca_updated_at := en_now env\<rparr>) (accounts w))"
    using res by (rule transfer_entries) blast
  let ?w2 = "w\<lparr>ledger := snd (tinsert e1 (ledger w))\<rparr>\<lparr>ledger :=
    snd (tinsert e2 (ledger (w\<lparr>ledger := snd (tinsert e1 (ledger w))\<rparr>)))\<rparr>"
  have tot: "entry_total w' u i = entry_total ?w2 u i" "exposure w' u i = exposure ?w2 u i" for u i
    using totals_cong [of w' ?w2] l by simp_all
  have inv': "cash_inv w'" by (rule apply_transfer_inv [OF inv res])
  have a': "tget (accounts w') (trc_from p) = Some (a\<lparr>ca_balance := b1, ca_updated_at := en_now env\<rparr>)"
    and b': "tget (accounts w') (trc_to p) = Some (b\<lparr>ca_balance := b2, ca_updated_at := en_now env\<rparr>)"
    using a b ne by (simp_all add: acc tbl.get_put)
  from tgt(2) have "\<bar>tgt\<bar> < 10 ^ 24" by (simp add: fits_numeric_def)
  with small have ex: "exposure w' (en_user env) (trc_from p) < 10 ^ PREC"
    "exposure w' (en_user env) (trc_to p) < 10 ^ PREC"
    using ne unfolding tot entry_total_insert by (simp_all add: e src)
  have "b1 = ca_balance a - src" "b2 = ca_balance b + tgt"
    using balance_exact [OF inv' a'] balance_exact [OF inv' b'] balance_exact [OF inv a(1)]
      balance_exact [OF inv b(1)] ex small a b ne
    unfolding tot entry_total_insert by (simp_all add: e)
  with a b a' b' tgt ne show ?thesis by (auto simp: acc tbl.get_put src)
qed

definition small_transfer :: transfer_create where
  "small_transfer = \<lparr>trc_from = 1, trc_to = 2, trc_source_amount = 2500000000,
     trc_target_amount = None, trc_transferred_on = 1, trc_note = None\<rparr>"

lemma small_transfer_succeeds: "\<exists>r w. apply_cash_transfer small_transfer ada two_accounts = Inr (r, w)"
  by (simp add: small_transfer_def eval eval_scenario eval_transfer cong: eval_cong
      del: two_accounts_tables scenario_rows)

lemma two_accounts_exposure:
  "exposure two_accounts (en_user ada) 1 = 10000000000" "exposure two_accounts (en_user ada) 2 = 0"
  by (simp_all add: exposure_def entries_of_def eval_tables eval_scenario lit_def)

theorem transfer_moves_money_witness:
  "\<exists>r w' a'. apply_cash_transfer small_transfer ada two_accounts = Inr (r, w')
     \<and> tget (accounts w') 1 = Some a' \<and> ca_balance a' = 7500000000"
proof -
  obtain r w' where r: "apply_cash_transfer small_transfer ada two_accounts = Inr (r, w')"
    using small_transfer_succeeds by blast
  from transfer_moves_money [OF two_accounts_inv r] r show ?thesis
    unfolding small_transfer_def by (auto simp: two_accounts_exposure simp del: One_nat_def)
qed

definition no_http :: "error + 'a \<Rightarrow> bool" where
  "no_http m \<longleftrightarrow> (\<forall>c d. m \<noteq> Inl (HTTPException c d))"

lemma no_http_simps [simp]:
  "no_http (Inr x)" "no_http (Inl StaleDataError)" "no_http (liftA a)" "no_http (numeric_column n)"
  by (auto simp: no_http_def liftA_def numeric_column_def split: sum.split)

lemma no_http_bind: "no_http m \<Longrightarrow> (\<And>x. m = Inr x \<Longrightarrow> no_http (f x)) \<Longrightarrow> no_http (bindE m f)"
  by (cases m) (auto simp: no_http_def)

definition never :: "error \<Rightarrow> error + 'a \<Rightarrow> bool" where
  "never e m \<longleftrightarrow> m \<noteq> Inl e"

lemma never_Inr [simp]: "never e (Inr x)"
  by (simp add: never_def)

lemma never_bind: "never e m \<Longrightarrow> (\<And>x. never e (f x)) \<Longrightarrow> never e (bindE m f)"
  by (auto simp: never_def bindE_eq_Inl)

lemma no_http_never: "no_http m \<Longrightarrow> never (HTTPException c d) m"
  by (simp add: no_http_def never_def)

lemma no_http_ledger [simp]:
  "no_http (create_cash_ledger_entry env u i ty n c d nt tid trid w)"
  "no_http (sync_cash_account_balance_from_ledger env i w)"
  by (auto simp: create_cash_ledger_entry_def sync_cash_account_balance_from_ledger_def Let_def
      sum_cash_account_ledger_balance_def intro!: no_http_bind split: option.split)

lemma no_http_legs [simp]: "no_http (post_transfer_legs env k i j a b m n d nt w)"
  by (auto simp: post_transfer_legs_def intro!: no_http_bind)

lemma no_http_enqueue [simp]: "no_http (enqueue_user_portfolio_snapshot_rebuild env u w)"
  by (auto simp: enqueue_user_portfolio_snapshot_rebuild_def no_http_def split: option.splits prod.splits)

lemma no_http_value [simp]: "no_http (value_amount env fx c n)"
  by (auto simp: value_amount_def no_http_def liftA_def Let_def bindE_eq_Inl split: option.splits sum.splits)

lemma no_http_response [simp]: "no_http (transfer_response env k i j w)"
  by (auto simp: transfer_response_def transfer_read_of_def account_read_def to_cash_transfer_read_def
      to_cash_account_read_def value_cash_account_def intro!: no_http_bind split: option.split)

lemma resolve_not_insufficient:
  "resolve_cash_transfer_target_amount env n c d t \<noteq> Inl (HTTPException 422 InsufficientBalance)"
  by (auto simp: resolve_cash_transfer_target_amount_def convert_cash_amount_between_currencies_def
      bindE_eq_Inl liftA_def Let_def split: option.splits sum.splits if_splits)

text \<open>
  A transfer between two accounts of the user into a CNY account is refused with 422, before
  anything is written, exactly when the source balance is more than one unit of 1e-8 short of
  the amount (the last step before the exchange rate is looked up).
\<close>

theorem transfer_needs_cover:
  assumes "trc_transferred_on p \<le> server_today_date (en_now env)"
    and "tget (accounts w) (trc_from p) = Some a" "ca_user a = en_user env"
    and "tget (accounts w) (trc_to p) = Some b" "ca_user b = en_user env"
    and "trc_from p \<noteq> trc_to p" "normalize_currency (ca_currency b) = lit ''CNY''"
    and "fits_numeric (trc_source_amount p)" "fits_numeric (ca_balance a)"
  shows "apply_cash_transfer p env w = Inl (HTTPException 422 InsufficientBalance)
    \<longleftrightarrow> ca_balance a + 1 < trc_source_amount p"
proof -
  define m where "m = resolve_cash_transfer_target_amount env (trc_source_amount p) (ca_currency a)
    (ca_currency b) (trc_target_amount p)"
  have e: "ensure_balance_covers (ca_balance a) (trc_source_amount p)
      = (if ca_balance a + 1 < trc_source_amount p then Inl (HTTPException 422 InsufficientBalance) else Inr ())"
    using assms(8,9) by (simp add: ensure_balance_covers_def fits_numeric_def FIXED_EPSILON_fixed
        dec_add_fixed assertE_def)
  have q: "liftA (quantize_decimal (of_fixed (trc_source_amount p))) = Inr (trc_source_amount p)"
    using assms(8) by (simp add: fits_numeric_def quantize_decimal_fixed liftA_def)
  have c: "check_transfer_accounts env (trc_from p) (trc_to p) w = Inr (a, b)" using assms by simp
  have r: "never (HTTPException 422 InsufficientBalance) m"
    using resolve_not_insufficient by (simp add: never_def m_def)
  show ?thesis
  proof (cases "ca_balance a + 1 < trc_source_amount p")
    case True
    with assms(1,6,7) show ?thesis
      by (simp add: apply_cash_transfer_def Let_def c q e ensure_date_not_future_def assertE_def)
  next
    case False
    have "never (HTTPException 422 InsufficientBalance) (apply_cash_transfer p env w)"
      using assms(1,6,7) False r
      by (simp add: apply_cash_transfer_def Let_def c q e ensure_date_not_future_def assertE_def
          m_def [symmetric])
        (auto intro!: never_bind simp: no_http_never case_prod_beta)
    with False show ?thesis by (simp add: never_def)
  qed
qed

theorem transfer_needs_cover_witness:
  "apply_cash_transfer (small_transfer\<lparr>trc_source_amount := 10000000002\<rparr>) ada two_accounts
     = Inl (HTTPException 422 InsufficientBalance)"
  using transfer_needs_cover [of "small_transfer\<lparr>trc_source_amount := 10000000002\<rparr>" ada two_accounts
      "cny_account [65] 10000000000" "cny_account [66] 0"]
  by (simp add: small_transfer_def ada_def server_today_date_def LOCAL_OFFSET_def US_DAY_def fits_numeric_def)

lemma apply_transfer_idem: "apply_cash_transfer p env w = Inr (r, w') \<Longrightarrow> idem_keys w' = idem_keys w"
  by (auto simp: apply_cash_transfer_def post_transfer_legs_def Let_def bindE_eq_Inr
      elim!: enqueue_rebuild_result sync_result create_entry_result)

text \<open>
  C26: a transfer that was applied under an idempotency key is not applied again: the same request
  with the same key returns the same response and leaves the database as it is, and another
  request with that key is refused with 409.
\<close>

theorem transfer_is_idempotent:
  assumes fresh: "load_idempotent_response env TRANSFER_SCOPE key (TransferRequest p) w = Inr None"
    and key: "normalize_idempotency_key key = Some k"
    and res: "create_cash_transfer p key env w = Inr (r, w')"
    and again: "en_user env' = en_user env" "en_request_hash env' = en_request_hash env"
  shows "create_cash_transfer p key env' w' = Inr (r, w') \<and>
    (\<forall>q. en_request_hash env (TransferRequest q) \<noteq> en_request_hash env (TransferRequest p) \<longrightarrow>
      create_cash_transfer q key env' w' = Inl (HTTPException 409 IdempotencyMismatch))"
proof -
  from fresh key have none: "load_idempotency_record (en_user env) TRANSFER_SCOPE k w = None"
    by (auto simp: load_idempotent_response_def split: option.splits if_splits)
  from res fresh obtain w1 where a: "apply_cash_transfer p env w = Inr (r, w1)"
    and w': "w' = invalidate_dashboard_cache (Some (en_user env)) (store_idempotent_response env
       TRANSFER_SCOPE key (TransferRequest p) (TransferResponse r) w1)"
    by (cases rule: create_transfer_cases) auto
  have "idem_keys w1 = idem_keys w"
    using a by (rule apply_transfer_idem)
  with none have none1: "load_idempotency_record (en_user env) TRANSFER_SCOPE k w1 = None"
    by (simp add: load_idempotency_record_def)
  have load: "load_idempotent_response env' TRANSFER_SCOPE key req w' =
      load_idempotent_response env TRANSFER_SCOPE key req (store_idempotent_response env
       TRANSFER_SCOPE key (TransferRequest p) (TransferResponse r) w1)" for req
    unfolding load_idempotent_response_def load_idempotency_record_def w' again invalidate_dashboard_cache_frame ..
  show ?thesis
    using load load_after_store [OF key none1] by (simp add: create_cash_transfer_def)
qed

theorem transfer_is_idempotent_witness:
  "\<exists>r w'. create_cash_transfer small_transfer (Some [107]) ada two_accounts = Inr (r, w')
     \<and> create_cash_transfer small_transfer (Some [107]) ada w' = Inr (r, w')"
proof -
  have key: "normalize_idempotency_key (Some [107]) = Some [107]" by (simp add: eval_text)
  have fresh: "load_idempotent_response ada TRANSFER_SCOPE (Some [107]) (TransferRequest small_transfer)
      two_accounts = Inr None"
    by (simp add: load_idempotent_response_def load_idempotency_record_def key two_accounts_def empty_world_def)
  obtain r w1 where "apply_cash_transfer small_transfer ada two_accounts = Inr (r, w1)"
    using small_transfer_succeeds by blast
  with fresh obtain w' where "create_cash_transfer small_transfer (Some [107]) ada two_accounts = Inr (r, w')"
    by (simp add: create_cash_transfer_def Let_def)
  with transfer_is_idempotent [OF fresh key this refl refl] show ?thesis by blast
qed

section \<open>Accounts\<close>

lemma updated_account_user [simp]: "ca_user (updated_account p env a) = ca_user a"
  by (simp add: updated_account_def)

lemma finish_request_tables: 
  "finish_request env w = Inr w' \<Longrightarrow> accounts w' = accounts w \<and> ledger w' = ledger w"
  by (auto simp: finish_request_def Let_def bindE_eq_Inr elim!: enqueue_rebuild_result)

text \<open>
  Updating an account sets its balance to the balance of the request: the initial entry takes
  up the difference to the other entries, as long as the sums stay within the decimal context.
\<close>

theorem update_account_sets_balance:
  assumes inv: "cash_inv w" and res: "update_account i p env w = Inr (r, w')"
    and small: "exposure w (en_user env) i + \<bar>cau_balance p\<bar> < 10 ^ 27"
  shows "\<exists>a. tget (accounts w') i = Some a \<and> ca_balance a = cau_balance p"
proof -
  from res obtain a w2 where a: "tget (accounts w) i = Some a" "ca_user a = en_user env"
    and r: "reconcile_cash_account_initial_ledger_entry env i (cau_balance p)
       (w\<lparr>accounts := tput i (updated_account p env a) (accounts w)\<rparr>) = Inr w2"
    and f: "finish_request env (record_asset_mutation env CASH_ACCOUNT (Some i) UPDATE
       (Some (AccountState i a)) (account_state w2 i) None w2) = Inr w'"
    by (auto simp: update_account_def Let_def bindE_eq_Inr)
  have "\<exists>b. tget (accounts w2) i = Some b \<and> ca_balance b = cau_balance p"
  proof (rule reconcile_sets_balance [OF r])
    show "twf (ledger (w\<lparr>accounts := tput i (updated_account p env a) (accounts w)\<rparr>))"
      using cash_ok_wf inv by (auto simp: cash_inv_def)
    show "tget (accounts (w\<lparr>accounts := tput i (updated_account p env a) (accounts w)\<rparr>)) i
        = Some (updated_account p env a)"
      using a by (simp add: tbl.get_put)
    show "exposure (w\<lparr>accounts := tput i (updated_account p env a) (accounts w)\<rparr>)
        (ca_user (updated_account p env a)) i + \<bar>cau_balance p\<bar> < 10 ^ 27"
      using small totals_cong [of w "w\<lparr>accounts := tput i (updated_account p env a) (accounts w)\<rparr>"] a
      by (simp add: updated_account_user)
  qed
  with finish_request_tables [OF f] show ?thesis by (simp add: record_asset_mutation_def)
qed
definition raise_balance :: cash_account_update where
  "raise_balance = \<lparr>cau_name = [65], cau_platform = lit ''Bank'', cau_currency = lit ''CNY'',
     cau_balance = 30000000000, cau_type = None, cau_started_on = None, cau_note = None\<rparr>"

theorem update_account_sets_balance_witness:
  "\<exists>r w' a. update_account 1 raise_balance ada two_accounts = Inr (r, w')
     \<and> tget (accounts w') 1 = Some a \<and> ca_balance a = 30000000000"
proof -
  have "\<exists>r w'. update_account 1 raise_balance ada two_accounts = Inr (r, w')"
    by (simp add: update_account_def raise_balance_def updated_account_def account_read_def
        to_cash_account_read_def value_cash_account_def value_amount_def lookup_fx_def account_state_def
        eval eval_scenario cong: eval_cong del: two_accounts_tables scenario_rows One_nat_def)
  then obtain r w' where r: "update_account 1 raise_balance ada two_accounts = Inr (r, w')" by blast
  from update_account_sets_balance [OF two_accounts_inv r] r show ?thesis
    by (auto simp: two_accounts_exposure raise_balance_def simp del: One_nat_def)
qed

end
