(* ===== verification/User_Writes.thy ===== *)
theory User_Writes
  imports Ledger_Totals
begin

text \<open>
  What a request may write. \<open>user_write u n w w'\<close> is one write to table \<open>n\<close> on behalf of user
  \<open>u\<close>: rows of \<open>u\<close> are inserted, rewritten or deleted, an audit record of \<open>u\<close> is appended, the
  cached dashboard of \<open>u\<close> is dropped, a rebuild of \<open>u\<close> is enqueued. Every handler is a sequence
  of such writes, and what is wanted of all handlers is proved once, by induction on the writes.
\<close>

section \<open>Writes of a user\<close>

datatype table_name =
    T_accounts | T_ledger | T_transfers | T_holdings | T_transactions | T_settlements
  | T_fixed_assets | T_liabilities | T_other_assets | T_sync_requests | T_jobs | T_idem_keys
  | T_audits | T_dashboards

inductive row_write :: "('r \<Rightarrow> bool) \<Rightarrow> 'r table \<Rightarrow> 'r table \<Rightarrow> bool" for P where
  insert: "P r \<Longrightarrow> row_write P t (snd (tinsert r t))"
| put: "(\<And>r. tget t i = Some r \<Longrightarrow> P r) \<Longrightarrow> P r \<Longrightarrow> row_write P t (tput i r t)"
| del: "(\<And>r. tget t i = Some r \<Longrightarrow> P r) \<Longrightarrow> row_write P t (tdel i t)"

abbreviation row_writes :: "('r \<Rightarrow> bool) \<Rightarrow> 'r table \<Rightarrow> 'r table \<Rightarrow> bool" where
  "row_writes P \<equiv> (row_write P)\<^sup>*\<^sup>*"

inductive user_write :: "pystr \<Rightarrow> table_name \<Rightarrow> world \<Rightarrow> world \<Rightarrow> bool" for u where
  accounts: "row_write (\<lambda>r. ca_user r = u) (accounts w) t \<Longrightarrow> user_write u T_accounts w (w\<lparr>accounts := t\<rparr>)"
| ledger: "row_write (\<lambda>r. le_user r = u) (ledger w) t \<Longrightarrow> user_write u T_ledger w (w\<lparr>ledger := t\<rparr>)"
| transfers: "row_write (\<lambda>r. ct_user r = u) (transfers w) t \<Longrightarrow> user_write u T_transfers w (w\<lparr>transfers := t\<rparr>)"
| holdings: "row_write (\<lambda>r. sh_user r = u) (holdings w) t \<Longrightarrow> user_write u T_holdings w (w\<lparr>holdings := t\<rparr>)"
| transactions: "row_write (\<lambda>r. tx_user r = u) (transactions w) t \<Longrightarrow>
    user_write u T_transactions w (w\<lparr>transactions := t\<rparr>)"
| settlements: "row_write (\<lambda>r. st_user r = u) (settlements w) t \<Longrightarrow>
    user_write u T_settlements w (w\<lparr>settlements := t\<rparr>)"
| fixed_assets: "row_write (\<lambda>r. fa_user r = u) (fixed_assets w) t \<Longrightarrow>
    user_write u T_fixed_assets w (w\<lparr>fixed_assets := t\<rparr>)"
| liabilities: "row_write (\<lambda>r. li_user r = u) (liabilities w) t \<Longrightarrow>
    user_write u T_liabilities w (w\<lparr>liabilities := t\<rparr>)"
| other_assets: "row_write (\<lambda>r. oa_user r = u) (other_assets w) t \<Longrightarrow>
    user_write u T_other_assets w (w\<lparr>other_assets := t\<rparr>)"
| sync_requests: "row_write (\<lambda>r. hs_user r = u) (sync_requests w) t \<Longrightarrow>
    user_write u T_sync_requests w (w\<lparr>sync_requests := t\<rparr>)"
| idem_keys: "row_write (\<lambda>r. ik_user r = u) (idem_keys w) t \<Longrightarrow> user_write u T_idem_keys w (w\<lparr>idem_keys := t\<rparr>)"
| jobs: "normalize_job_user_id (Some u) = Some v \<Longrightarrow> user_write u T_jobs w (w\<lparr>jobs := snd
      (enqueue_job now SNAPSHOT_REBUILD (Some v) (RebuildPayload v) (Some (snapshot_rebuild_key v)) (jobs w))\<rparr>)"
| audits: "au_user r = u \<Longrightarrow> user_write u T_audits w (w\<lparr>audits := audits w @ [r]\<rparr>)"
| dashboards: "user_write u T_dashboards w (w\<lparr>cached_dashboards := removeAll u (cached_dashboards w)\<rparr>)"

inductive_cases user_writeE: "user_write u n w w'"

definition world_wf :: "world \<Rightarrow> bool" where
  "world_wf w \<longleftrightarrow> twf (accounts w) \<and> twf (ledger w) \<and> twf (transfers w) \<and> twf (holdings w)
     \<and> twf (transactions w) \<and> twf (settlements w) \<and> twf (fixed_assets w) \<and> twf (liabilities w)
     \<and> twf (other_assets w) \<and> twf (sync_requests w) \<and> twf (jobs w) \<and> twf (idem_keys w)"

lemma world_wf_tables:
  "world_wf w \<Longrightarrow> twf (accounts w)" "world_wf w \<Longrightarrow> twf (ledger w)" "world_wf w \<Longrightarrow> twf (transfers w)"
  "world_wf w \<Longrightarrow> twf (holdings w)" "world_wf w \<Longrightarrow> twf (transactions w)" "world_wf w \<Longrightarrow> twf (settlements w)"
  "world_wf w \<Longrightarrow> twf (sync_requests w)" "world_wf w \<Longrightarrow> twf (idem_keys w)"
  by (simp_all add: world_wf_def)

text \<open>A sequence of writes of \<open>u\<close> to tables of \<open>N\<close>, from a well-formed world.\<close>

definition writes :: "pystr \<Rightarrow> table_name set \<Rightarrow> world \<Rightarrow> world \<Rightarrow> bool" where
  "writes u N w w' \<longleftrightarrow> (world_wf w \<longrightarrow> (\<lambda>w w'. \<exists>n \<in> N. user_write u n w w')\<^sup>*\<^sup>* w w')"

lemma row_write_wf: "row_write P t t' \<Longrightarrow> twf t \<Longrightarrow> twf t'"
  by (erule row_write.cases) simp_all

lemma enqueue_job_wf: "twf t \<Longrightarrow> twf (snd (enqueue_job now ty u p k t))"
  by (auto simp: enqueue_job_def split: option.split prod.split)

lemma user_write_wf: "user_write u n w w' \<Longrightarrow> world_wf w \<Longrightarrow> world_wf w'"
  by (erule user_writeE) (auto simp: world_wf_def dest: row_write_wf intro: enqueue_job_wf)

lemma user_writes_wf:
  assumes "(\<lambda>w w'. \<exists>n \<in> N. user_write u n w w')\<^sup>*\<^sup>* w w'" "world_wf w"
  shows "world_wf w'"
  using assms by (induction rule: rtranclp_induct) (auto intro: user_write_wf)

lemma writes_wf: "writes u N w w' \<Longrightarrow> world_wf w \<Longrightarrow> world_wf w'"
  unfolding writes_def by (blast intro: user_writes_wf)

lemma writes_refl [simp, intro]: "writes u N w w"
  by (simp add: writes_def)

lemma writes_trans [trans]: "writes u N w w1 \<Longrightarrow> writes u N w1 w2 \<Longrightarrow> writes u N w w2"
  unfolding writes_def by (blast intro: rtranclp_trans user_writes_wf)

lemma writes_mono: "writes u N w w' \<Longrightarrow> N \<subseteq> M \<Longrightarrow> writes u M w w'"
  unfolding writes_def by (auto elim!: rtranclp_mono [THEN predicate2D, rotated])

lemma writes_one: "(world_wf w \<Longrightarrow> user_write u n w w') \<Longrightarrow> n \<in> N \<Longrightarrow> writes u N w w'"
  unfolding writes_def by blast

lemma writes_wfI: "(world_wf w \<Longrightarrow> writes u N w w') \<Longrightarrow> writes u N w w'"
  by (simp add: writes_def)

text \<open>The writes of the code.\<close>

lemma writes_record [simp]:
  "T_audits \<in> N \<Longrightarrow> writes (en_user env) N w (record_asset_mutation env et i op b a r w)"
  unfolding record_asset_mutation_def
  by (rule writes_one [of _ _ T_audits]) (auto intro: user_write.audits)

lemma writes_invalidate [simp]:
  "T_dashboards \<in> N \<Longrightarrow> writes u N w (invalidate_dashboard_cache (Some u) w)"
  by (auto simp: invalidate_dashboard_cache_def intro: writes_one user_write.dashboards)

lemma writes_enqueue:
  assumes "enqueue_user_portfolio_snapshot_rebuild env u w = Inr (i, w')" "T_jobs \<in> N"
  shows "writes u N w w'"
proof -
  from assms(1) obtain v where v: "normalize_job_user_id (Some u) = Some v"
    and w': "w' = w\<lparr>jobs := snd (enqueue_job (en_now env) SNAPSHOT_REBUILD (Some v) (RebuildPayload v)
      (Some (snapshot_rebuild_key v)) (jobs w))\<rparr>"
    by (auto simp: enqueue_user_portfolio_snapshot_rebuild_def split: option.splits prod.splits)
  from v assms(2) show ?thesis unfolding w' by (blast intro: writes_one user_write.jobs)
qed

abbreviation END :: "table_name set" where
  \<comment> \<open>what the end of a request writes\<close>
  "END \<equiv> {T_audits, T_jobs, T_dashboards}"

lemma writes_finish:
  assumes "finish_request env w = Inr w'" "END \<subseteq> N"
  shows "writes (en_user env) N w w'"
proof -
  from assms(1) obtain i w1 where e: "enqueue_user_portfolio_snapshot_rebuild env (en_user env) w = Inr (i, w1)"
    and w': "w' = invalidate_dashboard_cache (Some (en_user env)) w1"
    by (auto simp: finish_request_def bindE_eq_Inr)
  from e have "writes (en_user env) N w w1" by (rule writes_enqueue) (use assms in auto)
  also have "writes (en_user env) N w1 w'" unfolding w' using assms by simp
  finally show ?thesis .
qed

lemma load_recordD:
  assumes "load_idempotency_record u sc k w = Some (i, r)" "world_wf w"
  shows "tget (idem_keys w) i = Some r \<and> ik_user r = u"
proof -
  from assms(1) have "(i, r) \<in> set (tselect (\<lambda>r. ik_user r = u \<and> ik_scope r = sc \<and> ik_key r = k) (idem_keys w))"
    by (auto simp: load_idempotency_record_def split: list.splits)
  with world_wf_tables(8) [OF assms(2)] show ?thesis by (simp add: tbl.select_iff)
qed

lemma writes_store [simp]:
  assumes "T_idem_keys \<in> N"
  shows "writes (en_user env) N w (store_idempotent_response env sc key q r w)"
proof (cases "normalize_idempotency_key key")
  case None
  then show ?thesis by (simp add: store_idempotent_response_def)
next
  case (Some k)
  have "user_write (en_user env) T_idem_keys w (store_idempotent_response env sc key q r w)" if "world_wf w"
    using Some load_recordD [OF _ that]
    by (auto simp: store_idempotent_response_def intro!: user_write.idem_keys row_write.insert row_write.put
        split: option.split)
  with assms show ?thesis by (blast intro: writes_one)
qed

section \<open>The cash side\<close>

lemma writes_create_entry:
  assumes "create_cash_ledger_entry env u i ty m c d nt tid trid w = Inr (k, w')" "T_ledger \<in> N"
  shows "writes u N w w'"
  using assms by (auto elim!: create_entry_result intro!: writes_one user_write.ledger row_write.insert)

lemma writes_sync:
  assumes "sync_cash_account_balance_from_ledger env i w = Inr w'" "T_accounts \<in> N"
    and "\<And>a. tget (accounts w) i = Some a \<Longrightarrow> ca_user a = u"
  shows "writes u N w w'"
  using assms by (auto elim!: sync_result intro!: writes_one user_write.accounts row_write.put)

lemma sync_owner:
  assumes "sync_cash_account_balance_from_ledger env i w = Inr w'"
  shows "map_option ca_user (tget (accounts w') j) = map_option ca_user (tget (accounts w) j)"
  using assms by (auto elim!: sync_result simp: tbl.get_put)

lemma writes_reconcile:
  assumes res: "reconcile_cash_account_initial_ledger_entry env i target w = Inr w'"
    and N: "{T_accounts, T_ledger} \<subseteq> N" and own: "\<And>a. tget (accounts w) i = Some a \<Longrightarrow> ca_user a = u"
  shows "writes u N w w'"
proof (rule writes_wfI)
  assume wf: "world_wf w"
  obtain a r l where a: "tget (accounts w) i = Some a" and r: "le_user r = ca_user a"
    and l: "get_cash_account_initial_ledger_entry w (ca_user a) i = None \<and> l = snd (tinsert r (ledger w))
     \<or> (\<exists>k e. get_cash_account_initial_ledger_entry w (ca_user a) i = Some (k, e)
          \<and> l = tput k r (ledger w))"
    and s: "sync_cash_account_balance_from_ledger env i (w\<lparr>ledger := l\<rparr>) = Inr w'"
    by (rule reconcile_result [OF res world_wf_tables(2) [OF wf]]) blast
  from own [OF a] have u: "ca_user a = u" .
  have "row_write (\<lambda>r. le_user r = u) (ledger w) l"
    using l unfolding u
  proof (elim disjE conjE exE)
    fix k e assume i: "get_cash_account_initial_ledger_entry w u i = Some (k, e)" and l: "l = tput k r (ledger w)"
    from initial_entry_SomeD [OF i world_wf_tables(2) [OF wf]] r u
    show ?thesis unfolding l by (intro row_write.put) auto
  qed (use r u in \<open>simp add: row_write.insert\<close>)
  then have "writes u N w (w\<lparr>ledger := l\<rparr>)" using N by (auto intro: writes_one user_write.ledger)
  also have "writes u N (w\<lparr>ledger := l\<rparr>) w'"
    by (rule writes_sync [OF s]) (use N own in auto)
  finally show "writes u N w w'" .
qed

lemma writes_del_ledger:
  "T_ledger \<in> N \<Longrightarrow> (\<And>k e. k \<in> set ks \<Longrightarrow> tget (ledger w) k = Some e \<Longrightarrow> le_user e = u) \<Longrightarrow>
   writes u N w (w\<lparr>ledger := tdel_ids ks (ledger w)\<rparr>)"
proof (induction ks arbitrary: w)
  case (Cons k ks)
  let ?w = "w\<lparr>ledger := tdel k (ledger w)\<rparr>"
  have "writes u N w ?w"
    using Cons.prems by (auto intro!: writes_one user_write.ledger row_write.del)
  also have "writes u N ?w (?w\<lparr>ledger := tdel_ids ks (ledger ?w)\<rparr>)"
    using Cons.prems by (intro Cons.IH) (auto simp: tbl.get_del split: if_splits)
  finally show ?case by (simp add: tdel_ids_def)
qed (simp add: tdel_ids_def)

text \<open>Rows that a query for the user found are rows of the user.\<close>

lemma writes_del_selected:
  assumes "T_ledger \<in> N" "\<And>e. P e \<Longrightarrow> le_user e = u"
  shows "writes u N w (w\<lparr>ledger := tdel_ids (map fst (tselect P (ledger w))) (ledger w)\<rparr>)"
  by (rule writes_wfI, rule writes_del_ledger)
    (use assms in \<open>auto dest!: world_wf_tables(2) simp: tbl.select_iff\<close>)

lemma writes_delete_entries [simp]:
  assumes "T_ledger \<in> N"
  shows "writes u N w (delete_cash_ledger_entries_for_transfer u k w)"
    "writes u N w (delete_cash_ledger_entries_for_holding_transaction u k w)"
  unfolding delete_cash_ledger_entries_for_transfer_def delete_cash_ledger_entries_for_holding_transaction_def
  by (rule writes_del_selected; use assms in simp)+

lemma writes_del_account_entries [simp]:
  "T_ledger \<in> N \<Longrightarrow> writes u N w (w\<lparr>ledger :=
     tdel_ids (map fst (list_cash_ledger_entries_for_account w u i)) (ledger w)\<rparr>)"
  by (rule writes_wfI, rule writes_del_ledger)
    (auto dest!: world_wf_tables(2) simp: list_cash_ledger_entries_for_account_def tbl.select_iff)

text \<open>A row of the user stays the user's, or disappears.\<close>

definition own_row :: "('r \<Rightarrow> pystr) \<Rightarrow> pystr \<Rightarrow> nat \<Rightarrow> 'r table \<Rightarrow> bool" where
  "own_row owner u i t \<longleftrightarrow> (\<forall>r. tget t i = Some r \<longrightarrow> owner r = u)"

abbreviation own :: "pystr \<Rightarrow> nat \<Rightarrow> world \<Rightarrow> bool" where
  "own u i w \<equiv> own_row ca_user u i (accounts w)"

lemma row_write_get:
  "row_write P t t' \<Longrightarrow> twf t \<Longrightarrow> (\<And>r. tget t i = Some r \<Longrightarrow> P r) \<Longrightarrow> tget t' i = Some r \<Longrightarrow> P r"
  by (erule row_write.cases) (auto simp: tbl.get_insert table_get split: if_splits)

lemma own_row_write: "row_write (\<lambda>r. owner r = u) t t' \<Longrightarrow> twf t \<Longrightarrow> own_row owner u i t \<Longrightarrow> own_row owner u i t'"
  unfolding own_row_def using row_write_get [of "\<lambda>r. owner r = u" t t' i] by blast

definition keeps_owners :: "pystr \<Rightarrow> world \<Rightarrow> world \<Rightarrow> bool" where
  "keeps_owners u w w' \<longleftrightarrow> (\<forall>i. (own u i w \<longrightarrow> own u i w')
     \<and> (own_row ct_user u i (transfers w) \<longrightarrow> own_row ct_user u i (transfers w'))
     \<and> (own_row tx_user u i (transactions w) \<longrightarrow> own_row tx_user u i (transactions w'))
     \<and> (own_row st_user u i (settlements w) \<longrightarrow> own_row st_user u i (settlements w'))
     \<and> (own_row sh_user u i (holdings w) \<longrightarrow> own_row sh_user u i (holdings w')))"

lemma keeps_owners_write: "user_write u n w w' \<Longrightarrow> world_wf w \<Longrightarrow> keeps_owners u w w'"
  by (erule user_writeE) (auto simp: keeps_owners_def dest: own_row_write world_wf_tables)

lemma writes_keeps_owners:
  assumes "writes u N w w'" "world_wf w"
  shows "keeps_owners u w w'"
proof -
  from assms have "(\<lambda>w w'. \<exists>n \<in> N. user_write u n w w')\<^sup>*\<^sup>* w w'" by (simp add: writes_def)
  then have "world_wf w' \<and> keeps_owners u w w'" using assms(2)
  proof (induction rule: rtranclp_induct)
    case (step y z)
    then obtain n where "user_write u n y z" "world_wf y" "keeps_owners u w y" by blast
    with keeps_owners_write [of u n y z] user_write_wf [of u n y z] show ?case
      by (auto simp: keeps_owners_def)
  qed (simp add: keeps_owners_def)
  then show ?thesis ..
qed

lemma own_sync:
  assumes "sync_cash_account_balance_from_ledger env i w = Inr w'" "T_accounts \<in> N" "own u i w"
  shows "writes u N w w'"
  using writes_sync [OF assms(1,2)] assms(3) by (simp add: own_row_def)

lemma own_reconcile:
  "reconcile_cash_account_initial_ledger_entry env i target w = Inr w' \<Longrightarrow> {T_accounts, T_ledger} \<subseteq> N \<Longrightarrow>
   own u i w \<Longrightarrow> writes u N w w'"
  by (erule writes_reconcile) (auto simp: own_row_def)

abbreviation CASH :: "table_name set" where
  "CASH \<equiv> {T_audits, T_jobs, T_dashboards, T_accounts, T_ledger, T_transfers, T_settlements, T_idem_keys}"

text \<open>
  Backward steps: a world that a primitive returned was reached if the world before it was. The
  first premise is the equation of the primitive, which a proof has among its assumptions.
\<close>

lemma writes_back:
  "finish_request env x = Inr w' \<Longrightarrow> writes (en_user env) N w x \<Longrightarrow> END \<subseteq> N \<Longrightarrow> writes (en_user env) N w w'"
  "enqueue_user_portfolio_snapshot_rebuild env u x = Inr (j, w') \<Longrightarrow> writes u N w x \<Longrightarrow> T_jobs \<in> N \<Longrightarrow> writes u N w w'"
  "create_cash_ledger_entry env u i ty m c d nt tid trid x = Inr (k, w') \<Longrightarrow> writes u N w x \<Longrightarrow> T_ledger \<in> N \<Longrightarrow>
     writes u N w w'"
  "sync_cash_account_balance_from_ledger env i x = Inr w' \<Longrightarrow> writes u N w x \<Longrightarrow> T_accounts \<in> N \<Longrightarrow> own u i x \<Longrightarrow>
     writes u N w w'"
  "reconcile_cash_account_initial_ledger_entry env i m x = Inr w' \<Longrightarrow> writes u N w x \<Longrightarrow>
     {T_accounts, T_ledger} \<subseteq> N \<Longrightarrow> own u i x \<Longrightarrow> writes u N w w'"
  by (blast intro: writes_trans writes_finish writes_enqueue writes_create_entry own_sync own_reconcile)+

lemma writes_onto:
  "writes (en_user env) N w x \<Longrightarrow> T_audits \<in> N \<Longrightarrow> writes (en_user env) N w (record_asset_mutation env et eid op b a rs x)"
  "writes u N w x \<Longrightarrow> T_dashboards \<in> N \<Longrightarrow> writes u N w (invalidate_dashboard_cache (Some u) x)"
  "writes (en_user env) N w x \<Longrightarrow> T_idem_keys \<in> N \<Longrightarrow>
     writes (en_user env) N w (store_idempotent_response env sc key q resp x)"
  "writes u N w x \<Longrightarrow> T_ledger \<in> N \<Longrightarrow> writes u N w (delete_cash_ledger_entries_for_transfer u k x)"
  "writes u N w x \<Longrightarrow> T_ledger \<in> N \<Longrightarrow> writes u N w (delete_cash_ledger_entries_for_holding_transaction u k x)"
  by (erule writes_trans; simp)+

text \<open>Rows: the user of the new row, and of the row it replaces.\<close>

lemma writes_insert:
  "writes u N w x \<Longrightarrow> T_accounts \<in> N \<Longrightarrow> ca_user a = u \<Longrightarrow> writes u N w (x\<lparr>accounts := snd (tinsert a (accounts x))\<rparr>)"
  "writes u N w x \<Longrightarrow> T_transfers \<in> N \<Longrightarrow> ct_user t = u \<Longrightarrow> writes u N w (x\<lparr>transfers := snd (tinsert t (transfers x))\<rparr>)"
  "writes u N w x \<Longrightarrow> T_holdings \<in> N \<Longrightarrow> sh_user h = u \<Longrightarrow> writes u N w (x\<lparr>holdings := snd (tinsert h (holdings x))\<rparr>)"
  "writes u N w x \<Longrightarrow> T_transactions \<in> N \<Longrightarrow> tx_user tx = u \<Longrightarrow>
     writes u N w (x\<lparr>transactions := snd (tinsert tx (transactions x))\<rparr>)"
  "writes u N w x \<Longrightarrow> T_settlements \<in> N \<Longrightarrow> st_user s = u \<Longrightarrow>
     writes u N w (x\<lparr>settlements := snd (tinsert s (settlements x))\<rparr>)"
  "writes u N w x \<Longrightarrow> T_fixed_assets \<in> N \<Longrightarrow> fa_user fa = u \<Longrightarrow>
     writes u N w (x\<lparr>fixed_assets := snd (tinsert fa (fixed_assets x))\<rparr>)"
  "writes u N w x \<Longrightarrow> T_liabilities \<in> N \<Longrightarrow> li_user li = u \<Longrightarrow>
     writes u N w (x\<lparr>liabilities := snd (tinsert li (liabilities x))\<rparr>)"
  "writes u N w x \<Longrightarrow> T_other_assets \<in> N \<Longrightarrow> oa_user oa = u \<Longrightarrow>
     writes u N w (x\<lparr>other_assets := snd (tinsert oa (other_assets x))\<rparr>)"
  by (blast intro: writes_trans writes_one user_write.intros row_write.insert)+

lemma writes_put:
  "writes u N w x \<Longrightarrow> T_accounts \<in> N \<Longrightarrow> own u i x \<Longrightarrow> ca_user a = u \<Longrightarrow> writes u N w (x\<lparr>accounts := tput i a (accounts x)\<rparr>)"
  "writes u N w x \<Longrightarrow> T_ledger \<in> N \<Longrightarrow> own_row le_user u i (ledger x) \<Longrightarrow> le_user e = u \<Longrightarrow>
     writes u N w (x\<lparr>ledger := tput i e (ledger x)\<rparr>)"
  "writes u N w x \<Longrightarrow> T_transfers \<in> N \<Longrightarrow> own_row ct_user u i (transfers x) \<Longrightarrow> ct_user t = u \<Longrightarrow>
     writes u N w (x\<lparr>transfers := tput i t (transfers x)\<rparr>)"
  "writes u N w x \<Longrightarrow> T_holdings \<in> N \<Longrightarrow> own_row sh_user u i (holdings x) \<Longrightarrow> sh_user h = u \<Longrightarrow>
     writes u N w (x\<lparr>holdings := tput i h (holdings x)\<rparr>)"
  "writes u N w x \<Longrightarrow> T_transactions \<in> N \<Longrightarrow> own_row tx_user u i (transactions x) \<Longrightarrow> tx_user tx = u \<Longrightarrow>
     writes u N w (x\<lparr>transactions := tput i tx (transactions x)\<rparr>)"
  "writes u N w x \<Longrightarrow> T_settlements \<in> N \<Longrightarrow> own_row st_user u i (settlements x) \<Longrightarrow> st_user s = u \<Longrightarrow>
     writes u N w (x\<lparr>settlements := tput i s (settlements x)\<rparr>)"
  "writes u N w x \<Longrightarrow> T_fixed_assets \<in> N \<Longrightarrow> own_row fa_user u i (fixed_assets x) \<Longrightarrow> fa_user fa = u \<Longrightarrow>
     writes u N w (x\<lparr>fixed_assets := tput i fa (fixed_assets x)\<rparr>)"
  "writes u N w x \<Longrightarrow> T_liabilities \<in> N \<Longrightarrow> own_row li_user u i (liabilities x) \<Longrightarrow> li_user li = u \<Longrightarrow>
     writes u N w (x\<lparr>liabilities := tput i li (liabilities x)\<rparr>)"
  "writes u N w x \<Longrightarrow> T_other_assets \<in> N \<Longrightarrow> own_row oa_user u i (other_assets x) \<Longrightarrow> oa_user oa = u \<Longrightarrow>
     writes u N w (x\<lparr>other_assets := tput i oa (other_assets x)\<rparr>)"
  by (erule writes_trans, rule writes_one, rule user_write.intros, rule row_write.put;
      simp add: own_row_def)+

lemma writes_del:
  "writes u N w x \<Longrightarrow> T_accounts \<in> N \<Longrightarrow> own u i x \<Longrightarrow> writes u N w (x\<lparr>accounts := tdel i (accounts x)\<rparr>)"
  "writes u N w x \<Longrightarrow> T_ledger \<in> N \<Longrightarrow> own_row le_user u i (ledger x) \<Longrightarrow>
     writes u N w (x\<lparr>ledger := tdel i (ledger x)\<rparr>)"
  "writes u N w x \<Longrightarrow> T_transfers \<in> N \<Longrightarrow> own_row ct_user u i (transfers x) \<Longrightarrow>
     writes u N w (x\<lparr>transfers := tdel i (transfers x)\<rparr>)"
  "writes u N w x \<Longrightarrow> T_holdings \<in> N \<Longrightarrow> own_row sh_user u i (holdings x) \<Longrightarrow>
     writes u N w (x\<lparr>holdings := tdel i (holdings x)\<rparr>)"
  "writes u N w x \<Longrightarrow> T_transactions \<in> N \<Longrightarrow> own_row tx_user u i (transactions x) \<Longrightarrow>
     writes u N w (x\<lparr>transactions := tdel i (transactions x)\<rparr>)"
  "writes u N w x \<Longrightarrow> T_settlements \<in> N \<Longrightarrow> own_row st_user u i (settlements x) \<Longrightarrow>
     writes u N w (x\<lparr>settlements := tdel i (settlements x)\<rparr>)"
  "writes u N w x \<Longrightarrow> T_fixed_assets \<in> N \<Longrightarrow> own_row fa_user u i (fixed_assets x) \<Longrightarrow>
     writes u N w (x\<lparr>fixed_assets := tdel i (fixed_assets x)\<rparr>)"
  "writes u N w x \<Longrightarrow> T_liabilities \<in> N \<Longrightarrow> own_row li_user u i (liabilities x) \<Longrightarrow>
     writes u N w (x\<lparr>liabilities := tdel i (liabilities x)\<rparr>)"
  "writes u N w x \<Longrightarrow> T_other_assets \<in> N \<Longrightarrow> own_row oa_user u i (other_assets x) \<Longrightarrow>
     writes u N w (x\<lparr>other_assets := tdel i (other_assets x)\<rparr>)"
  by (erule writes_trans, rule writes_one, rule user_write.intros, rule row_write.del;
      simp add: own_row_def)+

lemma writes_fold:
  assumes "writes u N w x" "\<And>y z. y \<in> set ys \<Longrightarrow> writes u N w z \<Longrightarrow> writes u N w (f y z)"
  shows "writes u N w (fold f ys x)"
  using assms by (induction ys arbitrary: x) simp_all

lemma writes_foldE:
  assumes "foldE f ys x = Inr w'" "writes u N w x"
    and "\<And>y z z'. y \<in> set ys \<Longrightarrow> f y z = Inr z' \<Longrightarrow> writes u N w z \<Longrightarrow> writes u N w z'"
  shows "writes u N w w'"
  using assms by (induction ys arbitrary: x) (auto simp: bindE_eq_Inr)

lemma own_rowI: "tget t i = Some r \<Longrightarrow> owner r = u \<Longrightarrow> own_row owner u i t"
  by (simp add: own_row_def)

lemma own_put: "ca_user a = u \<Longrightarrow> own u i (x\<lparr>accounts := tput i a t\<rparr>)"
  by (simp add: own_row_def tbl.get_put)

lemma own_later:
  assumes "writes u N w x" "world_wf w"
  shows "own u i w \<Longrightarrow> own u i x" "own_row ct_user u i (transfers w) \<Longrightarrow> own_row ct_user u i (transfers x)"
    "own_row tx_user u i (transactions w) \<Longrightarrow> own_row tx_user u i (transactions x)"
    "own_row st_user u i (settlements w) \<Longrightarrow> own_row st_user u i (settlements x)"
    "own_row sh_user u i (holdings w) \<Longrightarrow> own_row sh_user u i (holdings x)"
  using writes_keeps_owners [OF assms] by (simp_all add: keeps_owners_def)

lemmas own_cash = own_later [where N = CASH]
lemmas own_any = own_later [where N = UNIV]

end
