(* ===== verification/Cash_Writes.thy ===== *)
theory Cash_Writes
  imports User_Writes
begin

text \<open>
  The handlers of cash accounts, adjustments and transfers and the cash side of a trade are
  sequences of writes of their user. A proof unfolds the handler and goes backwards from the
  world it returns, one primitive at a time.
\<close>

section \<open>Accounts, adjustments and transfers\<close>

lemma own_new:
  "world_wf x \<Longrightarrow> ca_user a = u \<Longrightarrow> own u (fst (tinsert a (accounts x))) (x\<lparr>accounts := snd (tinsert a (accounts x))\<rparr>)"
  by (simp add: own_row_def tbl.get_insert world_wf_tables(1))

lemma update_account_writes:
  assumes "update_account i p env w = Inr (r, w')" and wf: "world_wf w"
  shows "writes (en_user env) CASH w w'"
  using assms
  by (auto simp: update_account_def Let_def bindE_eq_Inr)
    (assumption | erule writes_back | erule own_rowI, assumption | rule writes_refl writes_onto writes_put own_put own_cash [OF _ wf] | simp add: updated_account_def)+

lemma create_account_writes:
  assumes "create_account p env w = Inr (r, w')" and wf: "world_wf w"
  shows "writes (en_user env) CASH w w'"
  using assms
  by (auto simp: create_account_def Let_def bindE_eq_Inr)
    (assumption | erule writes_back | erule own_rowI, assumption | rule writes_refl writes_onto writes_insert own_new own_cash [OF _ wf] | simp)+

lemma apply_adjustment_writes:
  assumes "apply_cash_ledger_adjustment p env w = Inr (r, w')" and wf: "world_wf w"
  shows "writes (en_user env) CASH w w'"
  using assms
  by (auto simp: apply_cash_ledger_adjustment_def Let_def bindE_eq_Inr)
    (assumption | erule writes_back | erule own_rowI, assumption | rule writes_refl writes_onto own_cash [OF _ wf] | simp)+

lemma create_adjustment_writes:
  assumes "create_cash_ledger_adjustment p k env w = Inr (r, w')" and wf: "world_wf w"
  shows "writes (en_user env) CASH w w'"
  using assms(1) by (cases rule: create_adjustment_cases)
    (auto dest!: apply_adjustment_writes [OF _ wf] intro!: writes_onto)

lemma adjustmentD: "get_manual_cash_ledger_adjustment w u k = Inr e \<Longrightarrow> tget (ledger w) k = Some e \<and> le_user e = u"
  using manual_adjustmentD by blast

lemma update_adjustment_writes:
  assumes "update_cash_ledger_adjustment i p env w = Inr (r, w')" and wf: "world_wf w"
  shows "writes (en_user env) CASH w w'"
  using assms
  by (auto simp: update_cash_ledger_adjustment_def Let_def bindE_eq_Inr split: if_splits dest!: adjustmentD)
    (assumption | erule writes_back | erule own_rowI, assumption | rule writes_refl writes_onto writes_put own_cash [OF _ wf] | simp)+

lemma delete_adjustment_writes:
  assumes "delete_cash_ledger_adjustment i env w = Inr w'" and wf: "world_wf w"
  shows "writes (en_user env) CASH w w'"
  using assms
  by (auto simp: delete_cash_ledger_adjustment_def Let_def bindE_eq_Inr dest!: adjustmentD)
    (assumption | erule writes_back | erule own_rowI, assumption | rule writes_refl writes_onto writes_del own_cash [OF _ wf] | simp)+

lemma apply_transfer_writes:
  assumes "apply_cash_transfer p env w = Inr (r, w')" and wf: "world_wf w"
  shows "writes (en_user env) CASH w w'"
  using assms
  by (auto simp: apply_cash_transfer_def post_transfer_legs_def Let_def bindE_eq_Inr)
    (assumption | erule writes_back | erule own_rowI, assumption | rule writes_refl writes_onto writes_insert own_cash [OF _ wf] | simp)+

lemma create_transfer_writes:
  assumes "create_cash_transfer p k env w = Inr (r, w')" and wf: "world_wf w"
  shows "writes (en_user env) CASH w w'"
  using assms(1) by (cases rule: create_transfer_cases)
    (auto dest!: apply_transfer_writes [OF _ wf] intro!: writes_onto)

lemma owned_transferD: "owned_transfer env k w = Inr t \<Longrightarrow> tget (transfers w) k = Some t \<and> ct_user t = en_user env"
  by (auto simp: owned_transfer_def split: option.splits if_splits)

lemma withdraw_writes:
  assumes "withdraw_transfer env k t w = Inr w'" and wf: "world_wf w"
    and own: "own (en_user env) (ct_from t) w" "own (en_user env) (ct_to t) w"
  shows "writes (en_user env) CASH w w'"
  using assms
  by (auto simp: withdraw_transfer_def Let_def bindE_eq_Inr split: if_splits)
    (assumption | erule writes_back | rule writes_refl writes_onto own_cash [OF _ wf] | simp)+

lemma writes_fold_audits:
  "writes (en_user env) N w x \<Longrightarrow> T_audits \<in> N \<Longrightarrow> writes (en_user env) N w (fold (audit_remembered_account env rs) ps x)"
  by (erule writes_fold) (auto simp: audit_remembered_account_def intro: writes_onto split: option.split)

lemma update_transfer_writes:
  assumes "update_cash_transfer k p env w = Inr (r, w')" and wf: "world_wf w"
  shows "writes (en_user env) CASH w w'"
proof (cases "no_transfer_fields p")
  case True
  with assms show ?thesis
    by (auto simp: update_cash_transfer_def bindE_eq_Inr Let_def split: if_splits)
next
  case False
  from assms(1) False obtain t a b w2 i j sa ta x y z d n w3 w4 w5 w6 et st1 st2 rs ps rs2 job w9 where
    t: "owned_transfer env k w = Inr t"
    and a: "tget (accounts w) (ct_from t) = Some a" "ca_user a = en_user env"
    and b: "tget (accounts w) (ct_to t) = Some b" "ca_user b = en_user env"
    and wd: "withdraw_transfer env k t w = Inr w2"
    and chk: "check_transfer_accounts env i j w2 = Inr (sa, ta)"
    and post: "post_transfer_legs env k i j sa ta x y d n
       (w2\<lparr>transfers := tput k (updated_transfer env t i j sa ta x y d n) (transfers w2)\<rparr>) = Inr w4"
    and s1: "sync_cash_account_balance_from_ledger env i w4 = Inr w5"
    and s2: "(if j \<noteq> i then sync_cash_account_balance_from_ledger env j w5 else Inr w5) = Inr w6"
    and e: "enqueue_user_portfolio_snapshot_rebuild env (en_user env)
        (fold (audit_remembered_account env rs2) ps
        (record_asset_mutation env CASH_TRANSFER (Some k) UPDATE st1 st2 rs w6)) = Inr (job, w9)"
    and w': "w' = invalidate_dashboard_cache (Some (en_user env)) w9"
    by (auto simp: update_cash_transfer_def bindE_eq_Inr Let_def simp del: check_transfer_accounts_eq)
  let ?u = "en_user env"
  from owned_transferD [OF t] have t': "tget (transfers w) k = Some t" "ct_user t = ?u" by simp_all
  have 1: "writes ?u CASH w w2" by (rule withdraw_writes [OF wd wf]) (use a b in \<open>auto simp: own_row_def\<close>)
  have wf2: "world_wf w2" by (rule writes_wf [OF 1 wf])
  have k: "own_row ct_user ?u k (transfers w2)" by (rule own_cash [OF 1 wf]) (use t' in \<open>simp add: own_row_def\<close>)
  have own: "own ?u i w2" "own ?u j w2" using chk by (auto simp: own_row_def)
  have "writes ?u CASH w2 w'"
    using post s1 s2 e k own unfolding w'
    by (auto simp: post_transfer_legs_def bindE_eq_Inr split: if_splits)
      (assumption | erule writes_back | rule writes_refl writes_onto writes_fold_audits writes_put own_cash [OF _ wf2] | simp add: updated_transfer_def t')+
  with 1 show ?thesis by (rule writes_trans)
qed

lemma writes_sync_affected:
  assumes "sync_affected_account env i x = Inr w'" "writes (en_user env) N w x" "T_accounts \<in> N"
  shows "writes (en_user env) N w w'"
  using assms by (auto simp: sync_affected_account_def split: option.splits if_splits
      intro: writes_back own_rowI)

lemma delete_transfer_writes:
  assumes "delete_cash_transfer k env w = Inr w'" and wf: "world_wf w"
  shows "writes (en_user env) CASH w w'"
  using assms
  by (auto simp: delete_cash_transfer_def Let_def bindE_eq_Inr split: option.splits)
    (assumption | erule writes_back writes_sync_affected | erule own_rowI, assumption
      | rule writes_refl writes_onto writes_del own_cash [OF _ wf] | simp)+

lemma own_selected:
  assumes "twf t" "p \<in> set (tselect P t)" "\<And>r. P r \<Longrightarrow> owner r = u"
  shows "own_row owner u (fst p) t"
  using assms tbl.select_iff [OF assms(1), of "fst p" "snd p" P] by (auto simp: own_row_def)

lemma remove_transfer_writes:
  assumes "writes u CASH w z" "world_wf w" "own_row ct_user u k (transfers w)"
  shows "writes u CASH w (let w0 = delete_cash_ledger_entries_for_transfer u k z
    in w0\<lparr>transfers := tdel k (transfers w0)\<rparr>)"
  unfolding Let_def by (intro writes_del writes_onto own_cash(2) [OF _ assms(2,3)] assms) simp_all

lemma remove_settlement_writes:
  assumes "writes u CASH w z" "world_wf w" "own_row st_user u k (settlements w)"
  shows "writes u CASH w (let w0 = delete_cash_ledger_entries_for_holding_transaction u x z
    in w0\<lparr>settlements := tdel k (settlements w0)\<rparr>)"
  unfolding Let_def by (intro writes_del writes_onto own_cash(4) [OF _ assms(2,3)] assms) simp_all

lemma delete_account_writes:
  assumes "delete_account i env w = Inr w'" and wf: "world_wf w"
  shows "writes (en_user env) CASH w w'"
proof -
  let ?u = "en_user env"
  define ts where "ts = tselect (\<lambda>t. ct_user t = ?u \<and> (ct_from t = i \<or> ct_to t = i)) (transfers w)"
  obtain af ks w1 where d1: "delete_cash_account_related_transfers env i w = (af, ks, w1)"
    by (rule prod_cases3)
  obtain xs w2 where d2: "delete_cash_account_related_settlements env i w1 = (xs, w2)"
    by fastforce
  have 1: "writes ?u CASH w w1"
  proof -
    have "w1 = fold (\<lambda>(k, t) w. let w0 = delete_cash_ledger_entries_for_transfer ?u k w
        in w0\<lparr>transfers := tdel k (transfers w0)\<rparr>) ts w"
      using d1 by (simp add: delete_cash_account_related_transfers_def Let_def ts_def)
    moreover have "own_row ct_user ?u (fst p) (transfers w)" if "p \<in> set ts" for p
      by (rule own_selected [OF world_wf_tables(3) [OF wf] that [unfolded ts_def]]) simp
    ultimately show ?thesis
      using remove_transfer_writes [OF _ wf] by (simp only:, intro writes_fold writes_refl) (simp only: split_beta)
  qed
  have wf1: "world_wf w1" by (rule writes_wf [OF 1 wf])
  define ss where "ss = tselect (\<lambda>s. st_user s = ?u \<and> st_account s = i) (settlements w1)"
  have 2: "writes ?u CASH w1 w2"
  proof -
    have "w2 = fold (\<lambda>(k, s) w. let w0 = delete_cash_ledger_entries_for_holding_transaction ?u (st_transaction s) w
            in w0\<lparr>settlements := tdel k (settlements w0)\<rparr>) ss w1"
      using d2 by (simp add: delete_cash_account_related_settlements_def Let_def ss_def)
    moreover have "own_row st_user ?u (fst p) (settlements w1)" if "p \<in> set ss" for p
      by (rule own_selected [OF world_wf_tables(6) [OF wf1] that [unfolded ss_def]]) simp
    ultimately show ?thesis
      using remove_settlement_writes [OF _ wf1] by (simp only:, intro writes_fold writes_refl) (simp only: split_beta)
  qed
  from 1 2 have w2: "writes ?u CASH w w2" by (rule writes_trans)
  from assms(1) obtain a w3 et st rs where a: "tget (accounts w) i = Some a" "ca_user a = ?u"
    and s: "foldE (sync_affected_account env) af w2 = Inr w3"
    and f: "finish_request env (fold (\<lambda>k. record_asset_mutation env HOLDING_CASH_SETTLEMENT (Some k) DELETE None None
          rs) xs (fold (\<lambda>k. record_asset_mutation env CASH_TRANSFER (Some k) DELETE None None rs) ks
        (fold (audit_affected_account env rs) af (record_asset_mutation env CASH_ACCOUNT et DELETE st None None
          (w3\<lparr>ledger := tdel_ids (map fst (list_cash_ledger_entries_for_account w3 ?u i)) (ledger w3),
              accounts := tdel i (accounts w3)\<rparr>))))) = Inr w'"
    by (auto simp: delete_account_def d1 d2 bindE_eq_Inr Let_def)
  have w3: "writes ?u CASH w w3" using s w2
    by (rule writes_foldE) (auto elim: writes_sync_affected)
  let ?w4 = "w3\<lparr>ledger := tdel_ids (map fst (list_cash_ledger_entries_for_account w3 ?u i)) (ledger w3)\<rparr>"
  have w4: "writes ?u CASH w ?w4" by (rule writes_trans [OF w3]) simp
  have own: "own ?u i ?w4" by (rule own_cash [OF w4 wf]) (use a in \<open>simp add: own_row_def\<close>)
  from writes_del(1) [OF w4 _ own] have w5: "writes ?u CASH w (w3\<lparr>ledger :=
     tdel_ids (map fst (list_cash_ledger_entries_for_account w3 ?u i)) (ledger w3), accounts := tdel i (accounts w3)\<rparr>)"
    by simp
  show ?thesis
    by (rule writes_back(1) [OF f], intro writes_fold writes_onto w5)
      (auto simp: audit_affected_account_def intro: writes_onto split: option.split)
qed

lemma own_base:
  assumes "writes u CASH (w\<lparr>accounts := snd (tinsert a (accounts w))\<rparr>) x" "world_wf w" "ca_user a = u"
  shows "own u (fst (tinsert a (accounts w))) x"
  by (rule own_cash(1) [OF assms(1) _ own_new [OF assms(2,3)]])
    (rule writes_wf [OF writes_insert(1) [OF writes_refl] assms(2)], use assms in auto)

section \<open>The cash side of a trade\<close>

lemma post_settlement_writes:
  assumes "post_settlement env td i a ty m nt rs x = Inr w'" "writes (en_user env) CASH w x" "world_wf w"
    "own (en_user env) i w" "ca_user a = en_user env"
  shows "writes (en_user env) CASH w w'"
  using assms
  by (auto simp: post_settlement_def Let_def bindE_eq_Inr)
    (assumption | erule writes_back | rule writes_refl writes_onto writes_put own_cash [OF _ assms(3)] | simp)+

lemma auto_account_writes:
  assumes "create_auto_cash_account_from_sell env td w = Inr (ap, w')" and wf: "world_wf w"
  shows "writes (en_user env) CASH w w'"
  using assms
  by (auto simp: create_auto_cash_account_from_sell_def Let_def bindE_eq_Inr)
    (assumption | erule writes_back | rule writes_refl writes_onto writes_insert
      own_base | simp)+

lemma sell_handling_writes:
  assumes "apply_sell_proceeds_handling env h i td w = Inr (ap, w')" and wf: "world_wf w"
  shows "writes (en_user env) CASH w w'"
  using assms
  by (auto simp: apply_sell_proceeds_handling_def add_sell_proceeds_to_existing_cash_account_def bindE_eq_Inr
      split: if_splits option.splits elim!: post_settlement_writes intro: own_rowI auto_account_writes)

lemma buy_handling_writes:
  assumes "apply_buy_funding_handling env h i td w = Inr (ap, w')" and wf: "world_wf w"
  shows "writes (en_user env) CASH w w'"
  using assms
  by (auto simp: apply_buy_funding_handling_def Let_def bindE_eq_Inr
      split: if_splits option.splits elim!: post_settlement_writes intro: own_rowI)

lemma get_settlement_own:
  assumes "get_holding_transaction_cash_settlement w u x = Some (j, s)" "world_wf w"
  shows "own_row st_user u j (settlements w)" "st_user s = u"
  using get_settlementD [OF assms(1) world_wf_tables(6) [OF assms(2)]] by (simp_all add: own_row_def)

lemma record_settlement_writes:
  assumes "record_holding_transaction_cash_settlement env x tx ap w = Inr w'" and wf: "world_wf w"
  shows "writes (en_user env) CASH w w'"
  using assms get_settlement_own [OF _ wf]
  by (fastforce simp: record_holding_transaction_cash_settlement_def bindE_eq_Inr
      split: option.splits intro!: writes_insert writes_put)

lemma settle_trade_writes:
  assumes "settle_trade env sh sa bh ba x tx price w = Inr (acc, w')" and wf: "world_wf w"
  shows "writes (en_user env) CASH w w'"
proof -
  from assms(1) obtain ap w1 where
    a: "(case tx_side tx of
         SELL \<Rightarrow> apply_sell_proceeds_handling env
           (case sh of None \<Rightarrow> DISCARD | Some h \<Rightarrow> h) sa (trade_of x tx price) w
       | BUY \<Rightarrow> apply_buy_funding_handling env bh ba (trade_of x tx price) w
       | ADJUST \<Rightarrow> Inr (None, w)) = Inr (ap, w1)"
    and b: "(case ap of None \<Rightarrow> Inr (None, w1)
     | Some ap \<Rightarrow> bindE (record_holding_transaction_cash_settlement env x tx ap w1) (\<lambda>w2.
         Inr (Some (ap_account ap), w2))) = Inr (acc, w')"
    by (auto simp: settle_trade_def bindE_eq_Inr)
  have 1: "writes (en_user env) CASH w w1"
    using a by (cases "tx_side tx") (auto intro: sell_handling_writes [OF _ wf] buy_handling_writes [OF _ wf])
  also have "writes (en_user env) CASH w1 w'"
    using b by (cases ap) (auto simp: bindE_eq_Inr intro: record_settlement_writes writes_wf [OF 1 wf])
  finally show ?thesis .
qed

lemma undo_writes:
  assumes res: "undo_on_account env x s i before w = Inr w'" and wf: "world_wf w"
    and own: "own (en_user env) i w"
  shows "writes (en_user env) CASH w w'"
proof -
  let ?u = "en_user env"
  from res obtain w2 a where s: "sync_cash_account_balance_from_ledger env i w = Inr w2"
    and a: "tget (accounts w2) i = Some a"
    by (auto simp: undo_on_account_def bindE_eq_Inr)
  have 2: "writes ?u CASH w w2" by (rule own_sync [OF s _ own]) simp
  have wf2: "world_wf w2" and o2: "own ?u i w2" using writes_wf [OF 2 wf] own_cash(1) [OF 2 wf own] .
  let ?w3 = "w2\<lparr>ledger := tdel_ids (map fst (list_cash_ledger_entries_for_account w2 ?u i)) (ledger w2)\<rparr>"
  have 3: "writes ?u CASH w2 ?w3" by simp
  have "writes ?u CASH w2 w'"
  proof (cases "auto_account_is_spent env i s a w2")
    case True
    with res s a have w': "w' = record_asset_mutation env CASH_ACCOUNT (Some i) DELETE (Some (AccountState i before))
        None (ref ''SELL_PROCEEDS_REVERSAL'' x) (?w3\<lparr>accounts := tdel i (accounts ?w3)\<rparr>)"
      by (simp add: undo_on_account_def loaded_account_def Let_def)
    show ?thesis unfolding w'
      by (intro writes_onto writes_del 3) (use own_cash(1) [OF 3 wf2 o2] in simp_all)
  next
    case False
    with res s a obtain a' where w': "w' = record_asset_mutation env CASH_ACCOUNT (Some i) UPDATE (Some (AccountState i before))
        (Some (AccountState i a')) (ref ''SELL_PROCEEDS_REVERSAL'' x) (w2\<lparr>accounts := tput i a' (accounts w2)\<rparr>)"
      and "ca_user a' = ca_user a"
      by (auto simp: undo_on_account_def loaded_account_def Let_def bindE_eq_Inr)
    with o2 a have "ca_user a' = ?u" by (simp add: own_row_def)
    then show ?thesis unfolding w' by (intro writes_onto writes_put writes_refl o2) simp_all
  qed
  with 2 show ?thesis by (rule writes_trans)
qed

lemma reverse_settlement_writes:
  assumes res: "reverse_holding_transaction_cash_settlement env x w = Inr (r, w')" and wf: "world_wf w"
  shows "writes (en_user env) CASH w w'"
proof (cases "get_holding_transaction_cash_settlement w (en_user env) x")
  case None
  with res show ?thesis by (simp add: reverse_holding_transaction_cash_settlement_def)
next
  case (Some p)
  obtain j s where p: "p = (j, s)" by (cases p)
  let ?u = "en_user env" and ?w1 = "delete_cash_ledger_entries_for_holding_transaction (en_user env) x w"
  have j: "own_row st_user ?u j (settlements w)" using get_settlement_own [OF _ wf] Some p by simp
  have 1: "writes ?u CASH w ?w1" by simp
  have wf1: "world_wf ?w1" by (rule writes_wf [OF 1 wf])
  have "\<exists>w2. writes ?u CASH w w2 \<and> w' = w2\<lparr>settlements := tdel j (settlements w2)\<rparr>"
  proof (cases "tget (accounts w) (st_account s)")
    case None
    with res Some p 1 show ?thesis
      by (intro exI [of _ ?w1]) (auto simp: reverse_holding_transaction_cash_settlement_def Let_def)
  next
    case (Some a)
    show ?thesis
    proof (cases "ca_user a = ?u")
      case True
      with res Some p \<open>_ = Some p\<close> obtain w2 where u: "undo_on_account env x s (st_account s) a ?w1 = Inr w2"
        and w': "w' = w2\<lparr>settlements := tdel j (settlements w2)\<rparr>"
        by (auto simp: reverse_holding_transaction_cash_settlement_def Let_def bindE_eq_Inr)
      have "own ?u (st_account s) ?w1"
        by (rule own_cash(1) [OF 1 wf]) (use Some True in \<open>simp add: own_row_def\<close>)
      with w' writes_trans [OF 1 undo_writes [OF u wf1]] show ?thesis by blast
    next
      case False
      with res Some p \<open>_ = Some p\<close> 1 show ?thesis
        by (intro exI [of _ ?w1]) (auto simp: reverse_holding_transaction_cash_settlement_def Let_def)
    qed
  qed
  then obtain w2 where 2: "writes ?u CASH w w2" and w': "w' = w2\<lparr>settlements := tdel j (settlements w2)\<rparr>" by blast
  show ?thesis unfolding w' by (rule writes_del [OF 2]) (simp_all add: own_cash(4) [OF 2 wf j])
qed

end
