(* ===== verification/Trade_Writes.thy ===== *)
theory Trade_Writes
  imports Cash_Writes
begin

text \<open>The handlers of holdings, trades and other assets, and every request, as writes of their user.\<close>

section \<open>Holdings and trades\<close>

lemma sort_key_snocD: "sort_key f xs = ys @ [y] \<Longrightarrow> y \<in> set xs"
  by (metis in_set_conv_decomp set_sort)

lemma writes_history:
  assumes "writes u N w x" "T_sync_requests \<in> N"
  shows "writes u N w (enqueue_holding_history_sync_request env u sy x)"
proof -
  have "user_write u T_sync_requests x (enqueue_holding_history_sync_request env u sy x)" if wf: "world_wf x"
  proof (cases "latest_sync_request u x")
    case None
    then show ?thesis
      by (auto simp: enqueue_holding_history_sync_request_def intro!: user_write.sync_requests row_write.insert)
  next
    case (Some p)
    obtain i r where p: "p = (i, r)" by (cases p)
    with Some have "p \<in> set (tselect (\<lambda>r. hs_user r = u) (sync_requests x))"
      by (auto simp: latest_sync_request_def split: list.splits dest!: sort_key_snocD)
    with world_wf_tables(7) [OF wf] p have "tget (sync_requests x) i = Some r" "hs_user r = u"
      by (simp_all add: tbl.select_iff)
    with Some p show ?thesis
      by (auto simp: enqueue_holding_history_sync_request_def intro!: user_write.sync_requests row_write.put)
  qed
  then show ?thesis using assms by (blast intro: writes_trans writes_one)
qed

lemma writes_finish_trade:
  "finish_trade env sy x = Inr w' \<Longrightarrow> writes (en_user env) UNIV w x \<Longrightarrow> writes (en_user env) UNIV w w'"
  unfolding finish_trade_def by (erule writes_back, intro writes_history) simp_all

lemma own_row_del: "own_row owner u j t \<Longrightarrow> own_row owner u j (tdel i t)"
  by (simp add: own_row_def tbl.get_del)

lemma writes_del_ids:
  "\<forall>i \<in> set is. own_row sh_user u i (holdings x) \<Longrightarrow> writes u UNIV x (x\<lparr>holdings := tdel_ids is (holdings x)\<rparr>)"
  "\<forall>i \<in> set is. own_row st_user u i (settlements x) \<Longrightarrow>
     writes u UNIV x (x\<lparr>settlements := tdel_ids is (settlements x)\<rparr>)"
  "\<forall>i \<in> set is. own_row tx_user u i (transactions x) \<Longrightarrow>
     writes u UNIV x (x\<lparr>transactions := tdel_ids is (transactions x)\<rparr>)"
proof (induction "is" arbitrary: x)
  case (Cons i "is") {
    case 1
    have "writes u UNIV x (x\<lparr>holdings := tdel i (holdings x)\<rparr>)" by (rule writes_del) (use 1 in simp_all)
    also have "writes u UNIV \<dots> (x\<lparr>holdings := tdel_ids is (tdel i (holdings x))\<rparr>)"
      using Cons.IH(1) [of "x\<lparr>holdings := tdel i (holdings x)\<rparr>"] 1 by (simp add: own_row_del)
    finally show ?case by (simp add: tdel_ids_def)
  next
    case 2
    have "writes u UNIV x (x\<lparr>settlements := tdel i (settlements x)\<rparr>)" by (rule writes_del) (use 2 in simp_all)
    also have "writes u UNIV \<dots> (x\<lparr>settlements := tdel_ids is (tdel i (settlements x))\<rparr>)"
      using Cons.IH(2) [of "x\<lparr>settlements := tdel i (settlements x)\<rparr>"] 2 by (simp add: own_row_del)
    finally show ?case by (simp add: tdel_ids_def)
  next
    case 3
    have "writes u UNIV x (x\<lparr>transactions := tdel i (transactions x)\<rparr>)" by (rule writes_del) (use 3 in simp_all)
    also have "writes u UNIV \<dots> (x\<lparr>transactions := tdel_ids is (tdel i (transactions x))\<rparr>)"
      using Cons.IH(3) [of "x\<lparr>transactions := tdel i (transactions x)\<rparr>"] 3 by (simp add: own_row_del)
    finally show ?case by (simp add: tdel_ids_def)
  }
qed (simp_all add: tdel_ids_def)

lemma writes_holdings_table:
  "row_write (\<lambda>h. sh_user h = u) s t \<Longrightarrow> writes u UNIV (x\<lparr>holdings := s\<rparr>) (x\<lparr>holdings := t\<rparr>)"
  using user_write.holdings [of u "x\<lparr>holdings := s\<rparr>" t] by (auto intro: writes_one)

lemma holdings_for_symbol_own:
  assumes "p \<in> set (list_holdings_for_symbol w u sy m)" "world_wf w"
  shows "own_row sh_user u (fst p) (holdings w)"
  by (rule own_selected [OF world_wf_tables(4) [OF assms(2)] assms(1) [unfolded list_holdings_for_symbol_def set_sort]])
    simp

lemma sync_holding_writes:
  assumes res: "sync_holding_projection_for_symbol env u sy m w = Inr (r, w')" and wf: "world_wf w"
  shows "writes u UNIV w w'"
proof -
  let ?ex = "list_holdings_for_symbol w u sy m"
  let ?w1 = "w\<lparr>holdings := tdel_ids (map fst (tl ?ex)) (holdings w)\<rparr>"
  have "\<forall>i \<in> set (map fst (tl ?ex)). own_row sh_user u i (holdings w)"
    using holdings_for_symbol_own [OF _ wf, of _ u sy m] by (cases ?ex) auto
  then have 1: "writes u UNIV w ?w1" by (rule writes_del_ids)
  have own: "sh_user h = u \<and> (\<forall>r. tget (tdel_ids (map fst rest) (holdings w)) i = Some r \<longrightarrow> sh_user r = u)"
    if "?ex = (i, h) # rest" for i h rest
  proof -
    from that have "(i, h) \<in> set ?ex" by simp
    then have "tget (holdings w) i = Some h \<and> sh_user h = u"
      using world_wf_tables(4) [OF wf] by (simp add: list_holdings_for_symbol_def tbl.select_iff)
    then show ?thesis by (simp add: tget_tdel_ids)
  qed
  have "writes u UNIV ?w1 w'"
    using res
    by (auto simp: sync_holding_projection_for_symbol_def Let_def bindE_eq_Inr split: option.splits list.splits prod.splits)
      (rule writes_holdings_table, (drule own)?, rule row_write.intros; simp)+
  with 1 show ?thesis by (rule writes_trans)
qed

lemma CASH_UNIV: "writes u CASH w w' \<Longrightarrow> writes u UNIV w w'"
  by (erule writes_mono) simp

lemma enter_transaction_writes:
  assumes "enter_transaction p env tx w = Inr (r, w')" and wf: "world_wf w" and user: "tx_user tx = en_user env"
  shows "writes (en_user env) UNIV w w'"
proof -
  let ?u = "en_user env"
  from assms(1) obtain h w3 account w4 job sh sa bh ba x st where
    s: "sync_holding_projection_for_symbol env ?u (tx_symbol tx) (tx_market tx)
       (record_asset_mutation env HOLDING_TRANSACTION (Some x) CREATE None st None
         (w\<lparr>transactions := snd (tinsert tx (transactions w))\<rparr>)) = Inr (h, w3)"
    and t: "(case tx_price tx of None \<Rightarrow> Inr (None, w3)
          | Some pr \<Rightarrow> settle_trade env sh sa bh ba x tx pr w3) = Inr (account, w4)"
    and e: "enqueue_user_portfolio_snapshot_rebuild env ?u
            (enqueue_holding_history_sync_request env ?u (Some (tx_symbol tx)) w4) = Inr (job, w')"
    unfolding enter_transaction_def Let_def by (auto simp: bindE_eq_Inr)
  have 2: "writes ?u UNIV w (record_asset_mutation env HOLDING_TRANSACTION (Some x) CREATE None st None
         (w\<lparr>transactions := snd (tinsert tx (transactions w))\<rparr>))"
    by (intro writes_onto writes_insert writes_refl) (simp_all add: user)
  also have "writes ?u UNIV \<dots> w3" by (rule sync_holding_writes [OF s writes_wf [OF 2 wf]])
  finally have 3: "writes ?u UNIV w w3" .
  also have "writes ?u UNIV w3 w4"
    using t by (cases "tx_price tx") (auto intro!: CASH_UNIV settle_trade_writes writes_wf [OF 3 wf])
  finally have "writes ?u UNIV w w4" .
  then show ?thesis by (intro writes_back(2) [OF e] writes_history) simp_all
qed

lemma ensure_baseline_writes:
  assumes "writes u UNIV w x" "sh_user h = u"
  shows "writes u UNIV w (ensure_transaction_baseline_from_holding_snapshot env h x)"
  using assms by (auto simp: ensure_transaction_baseline_from_holding_snapshot_def add_transaction_def
      baseline_transaction_def intro!: writes_insert)

lemma apply_transaction_writes:
  assumes "apply_holding_transaction p env w = Inr (r, w')" and wf: "world_wf w"
  shows "writes (en_user env) UNIV w w'"
proof -
  let ?u = "en_user env"
  from assms(1) obtain sy q pr ccy where
    e: "enter_transaction p env (transaction_row p env sy q pr ccy)
       (fold (\<lambda>(i, h). ensure_transaction_baseline_from_holding_snapshot env h)
           (list_holdings_for_symbol w ?u sy (txc_market p)) w) = Inr (r, w')"
    by (auto simp: apply_holding_transaction_def Let_def bindE_eq_Inr)
  have 1: "writes ?u UNIV w (fold (\<lambda>(i, h). ensure_transaction_baseline_from_holding_snapshot env h)
           (list_holdings_for_symbol w ?u sy (txc_market p)) w)"
  proof (rule writes_fold [OF writes_refl])
    fix q z assume "q \<in> set (list_holdings_for_symbol w ?u sy (txc_market p))" "writes ?u UNIV w z"
    moreover have "(fst q, snd q) \<in> set (list_holdings_for_symbol w ?u sy (txc_market p)) \<longrightarrow> sh_user (snd q) = ?u"
      using world_wf_tables(4) [OF wf] by (simp only: list_holdings_for_symbol_def set_sort tbl.select_iff) simp
    ultimately show "writes ?u UNIV w ((case q of (i, h) \<Rightarrow>
        ensure_transaction_baseline_from_holding_snapshot env h) z)"
      by (simp add: split_beta ensure_baseline_writes)
  qed
  also have "writes ?u UNIV \<dots> w'"
    by (rule enter_transaction_writes [OF e writes_wf [OF 1 wf]]) (simp add: transaction_row_def)
  finally show ?thesis .
qed

lemma create_transaction_writes:
  assumes "create_holding_transaction p key env w = Inr (r, w')" and wf: "world_wf w"
  shows "writes (en_user env) UNIV w w'"
  using assms(1) by (cases rule: create_transaction_cases)
    (auto dest!: apply_transaction_writes [OF _ wf] intro!: writes_onto)

lemma resettle_writes:
  "resettle_sell p env x tx original w = Inr (h, acc, w') \<Longrightarrow> world_wf w \<Longrightarrow> writes (en_user env) CASH w w'"
  "resettle_buy p env x tx original w = Inr (acc, w') \<Longrightarrow> world_wf w \<Longrightarrow> writes (en_user env) CASH w w'"
  by (auto simp: resettle_sell_def resettle_buy_def Let_def bindE_eq_Inr
      split: option.splits if_splits intro: settle_trade_writes)

lemma update_transaction_writes:
  assumes "update_holding_transaction x p env w = Inr (r, w')" and wf: "world_wf w"
  shows "writes (en_user env) UNIV w w'"
proof -
  let ?u = "en_user env"
  from assms(1) obtain tx0 original reversed w1 q pr h w3 sh affected w4 where
    own: "owned_transaction env x w = Inr tx0"
    and rv: "reverse_holding_transaction_cash_settlement env x w = Inr (reversed, w1)"
    and s: "sync_holding_projection_for_symbol env ?u
       (tx_symbol (updated_transaction p env q pr tx0)) (tx_market (updated_transaction p env q pr tx0))
       (w1\<lparr>transactions := tput x (updated_transaction p env q pr tx0) (transactions w1)\<rparr>) = Inr (h, w3)"
    and c: "(case tx_side (updated_transaction p env q pr tx0) of
         SELL \<Rightarrow> bindE (resettle_sell p env x (updated_transaction p env q pr tx0) original w3) (\<lambda>(h, affected, w4).
           Inr (Some h, or_else affected reversed, w4))
       | BUY \<Rightarrow> bindE (resettle_buy p env x (updated_transaction p env q pr tx0) original w3) (\<lambda>(affected, w4).
           Inr (None, or_else affected reversed, w4))
       | ADJUST \<Rightarrow> Inr (None, reversed, w3)) = Inr (sh, affected, w4)"
    and f: "finish_trade env (tx_symbol (updated_transaction p env q pr tx0))
       (record_asset_mutation env HOLDING_TRANSACTION (Some x) UPDATE
           (Some (TransactionState x tx0)) (transaction_state w4 x) None w4) = Inr w'"
    unfolding update_holding_transaction_def Let_def by (auto simp: bindE_eq_Inr)
  define tx where "tx = updated_transaction p env q pr tx0"
  from owned_transactionD [OF own] have t0: "tget (transactions w) x = Some tx0" "tx_user tx0 = ?u" by simp_all
  have 1: "writes ?u UNIV w w1" by (rule CASH_UNIV [OF reverse_settlement_writes [OF rv wf]])
  have "own_row tx_user ?u x (transactions w1)"
    by (rule own_any(3) [OF 1 wf]) (use t0 in \<open>simp add: own_row_def\<close>)
  then have 2: "writes ?u UNIV w (w1\<lparr>transactions := tput x tx (transactions w1)\<rparr>)"
    by (intro writes_put 1) (simp_all add: tx_def updated_transaction_def t0)
  also have "writes ?u UNIV \<dots> w3" by (rule sync_holding_writes [OF s [folded tx_def] writes_wf [OF 2 wf]])
  finally have 3: "writes ?u UNIV w w3" .
  note wf3 = writes_wf [OF 3 wf]
  have "writes ?u UNIV w3 w4"
    using c by (cases "tx_side (updated_transaction p env q pr tx0)")
      (auto simp: bindE_eq_Inr intro!: CASH_UNIV dest: resettle_writes [OF _ wf3])
  with 3 have "writes ?u UNIV w w4" by (rule writes_trans)
  then show ?thesis by (intro writes_finish_trade [OF f] writes_onto) simp_all
qed

lemma delete_transaction_writes:
  assumes "delete_holding_transaction x env w = Inr w'" and wf: "world_wf w"
  shows "writes (en_user env) UNIV w w'"
proof -
  let ?u = "en_user env"
  from assms(1) obtain tx reversed w1 h w4 where own: "owned_transaction env x w = Inr tx"
    and rv: "reverse_holding_transaction_cash_settlement env x w = Inr (reversed, w1)"
    and s: "sync_holding_projection_for_symbol env ?u (tx_symbol tx) (tx_market tx)
       (record_asset_mutation env HOLDING_TRANSACTION (Some x) DELETE
           (Some (TransactionState x tx)) None None (w1\<lparr>transactions := tdel x (transactions w1)\<rparr>)) = Inr (h, w4)"
    and f: "finish_trade env (tx_symbol tx) w4 = Inr w'"
    unfolding delete_holding_transaction_def Let_def by (auto simp: bindE_eq_Inr)
  have 1: "writes ?u UNIV w w1" by (rule CASH_UNIV [OF reverse_settlement_writes [OF rv wf]])
  have "own_row tx_user ?u x (transactions w1)"
    by (rule own_any(3) [OF 1 wf]) (use owned_transactionD [OF own] in \<open>simp add: own_row_def\<close>)
  then have 2: "writes ?u UNIV w (record_asset_mutation env HOLDING_TRANSACTION (Some x) DELETE
           (Some (TransactionState x tx)) None None (w1\<lparr>transactions := tdel x (transactions w1)\<rparr>))"
    by (intro writes_onto writes_del 1) simp_all
  also have "writes ?u UNIV \<dots> w4" by (rule sync_holding_writes [OF s writes_wf [OF 2 wf]])
  finally show ?thesis by (rule writes_finish_trade [OF f])
qed

section \<open>Holdings\<close>

lemma transactions_for_symbol_own:
  assumes "p \<in> set (transactions_latest_first w u sy m)" "world_wf w"
  shows "own_row tx_user u (fst p) (transactions w)"
  by (rule own_selected [OF world_wf_tables(5) [OF assms(2)], of _ "\<lambda>t. tx_user t = u \<and> tx_symbol t = sy \<and> tx_market t = m"])
    (use assms(1) in \<open>simp_all add: transactions_latest_first_def transactions_for_symbol_def\<close>)

lemma drop_transactions_writes:
  assumes "\<forall>p \<in> set txs. own_row tx_user u (fst p) (transactions w)" and wf: "world_wf w"
  shows "writes u UNIV w (drop_transactions u txs w)"
proof -
  let ?gone = "map fst (tselect (\<lambda>s. st_user s = u \<and> st_transaction s \<in> set (map fst txs)) (settlements w))"
  have "\<forall>i \<in> set ?gone. own_row st_user u i (settlements w)"
    using own_selected [OF world_wf_tables(6) [OF wf], of _ "\<lambda>s. st_user s = u \<and> st_transaction s \<in> set (map fst txs)" st_user u]
    by auto
  then have "writes u UNIV w (w\<lparr>settlements := tdel_ids ?gone (settlements w)\<rparr>)" by (rule writes_del_ids)
  also have "writes u UNIV \<dots> (w\<lparr>settlements := tdel_ids ?gone (settlements w)\<rparr>
      \<lparr>transactions := tdel_ids (map fst txs) (transactions (w\<lparr>settlements := tdel_ids ?gone (settlements w)\<rparr>))\<rparr>)"
    by (rule writes_del_ids) (use assms(1) in simp)
  finally show ?thesis by (simp add: drop_transactions_def Let_def)
qed

lemma record_holding_writes:
  assumes wf: "world_wf w" and h: "sh_user h = u"
  shows "writes u UNIV w (reset_holding_transactions_from_snapshot env h
    (w\<lparr>holdings := snd (tinsert h (holdings w))\<rparr>))"
proof -
  let ?w1 = "w\<lparr>holdings := snd (tinsert h (holdings w))\<rparr>"
  have 1: "writes u UNIV w ?w1" by (rule writes_insert) (simp_all add: h)
  note wf1 = writes_wf [OF 1 wf]
  have 2: "writes u UNIV ?w1 (snd (delete_holding_transactions_for_symbol u (sh_symbol h) (sh_market h) ?w1))"
    using transactions_for_symbol_own [OF _ wf1]
    by (auto simp: delete_holding_transactions_for_symbol_def Let_def intro!: drop_transactions_writes wf1)
  have "writes u UNIV ?w1 (reset_holding_transactions_from_snapshot env h ?w1)"
    using 2 by (auto simp: reset_holding_transactions_from_snapshot_def Let_def add_transaction_def h
        baseline_transaction_def intro!: writes_insert)
  with 1 show ?thesis by (rule writes_trans)
qed

lemma create_holding_writes:
  assumes "create_holding p env w = Inr (r, w')" and wf: "world_wf w"
  shows "writes (en_user env) UNIV w w'"
  using assms by (auto simp: create_holding_def Let_def bindE_eq_Inr
      intro!: writes_onto record_holding_writes elim!: writes_finish_trade)

lemma reverse_sells_writes:
  assumes "foldE (reverse_if_sell env) txs w = Inr w'" "world_wf w"
  shows "writes (en_user env) UNIV w w'"
  using assms
proof (induction txs arbitrary: w)
  case (Cons q txs)
  then obtain w1 where r: "reverse_if_sell env q w = Inr w1" and rest: "foldE (reverse_if_sell env) txs w1 = Inr w'"
    by (auto simp: bindE_eq_Inr)
  have 1: "writes (en_user env) UNIV w w1"
    using r by (auto simp: reverse_if_sell_def bindE_eq_Inr split: if_splits
        intro!: CASH_UNIV intro: reverse_settlement_writes [OF _ Cons.prems(2)])
  also have "writes (en_user env) UNIV w1 w'" by (rule Cons.IH [OF rest writes_wf [OF 1 Cons.prems(2)]])
  finally show ?case .
qed simp

lemma delete_holding_writes:
  assumes "delete_holding i env w = Inr w'" and wf: "world_wf w"
  shows "writes (en_user env) UNIV w w'"
proof -
  let ?u = "en_user env"
  from assms(1) obtain h txs w1 where own: "owned_holding env i w = Inr h"
    and d: "reverse_and_delete_holding_transactions_for_symbol env (sh_symbol h) (sh_market h) w = Inr (txs, w1)"
    and f: "finish_trade env (sh_symbol h) (record_asset_mutation env HOLDING (Some i) DELETE
           (Some (HoldingState i h)) None None ((fold (audit_deleted_transaction env i) txs w1)
           \<lparr>holdings := tdel i (holdings (fold (audit_deleted_transaction env i) txs w1))\<rparr>)) = Inr w'"
    by (auto simp: delete_holding_def Let_def bindE_eq_Inr)
  let ?txs = "transactions_latest_first w ?u (sh_symbol h) (sh_market h)"
  have 1: "writes ?u UNIV w w1"
  proof (cases "?txs = []")
    case True
    with d show ?thesis by (simp add: reverse_and_delete_holding_transactions_for_symbol_def)
  next
    case False
    with d obtain w0 where fl: "foldE (reverse_if_sell env) ?txs w = Inr w0"
      and w1: "w1 = drop_transactions ?u ?txs w0"
      by (auto simp: reverse_and_delete_holding_transactions_for_symbol_def bindE_eq_Inr Let_def)
    have "writes ?u UNIV w w0" by (rule reverse_sells_writes [OF fl wf])
    then have 0: "writes ?u UNIV w w0 \<and> world_wf w0" using writes_wf [OF _ wf] by blast
    have "\<forall>p \<in> set ?txs. own_row tx_user ?u (fst p) (transactions w0)"
      using transactions_for_symbol_own [OF _ wf] own_any(3) [OF conjunct1 [OF 0] wf] by blast
    then have "writes ?u UNIV w0 w1" unfolding w1 using 0 by (blast intro: drop_transactions_writes)
    with 0 show ?thesis by (blast intro: writes_trans)
  qed
  have "writes ?u UNIV w (fold (audit_deleted_transaction env i) txs w1)"
    by (rule writes_fold [OF 1]) (auto simp: audit_deleted_transaction_def intro!: writes_onto)
  moreover have "own_row sh_user ?u i (holdings w)"
    using own by (auto simp: owned_holding_def own_row_def split: option.splits if_splits)
  ultimately show ?thesis
    by (intro writes_finish_trade [OF f] writes_onto writes_del) (auto intro: own_any(5) [OF _ wf])
qed

lemma record_adjustment_writes:
  assumes "record_adjustment p env i h d w = Inr w'" and wf: "world_wf w"
  shows "writes (en_user env) UNIV w w'"
proof -
  let ?txs = "sort_key transaction_order (transactions_for_symbol w (en_user env) (sh_symbol h) (sh_market h))"
  have own: "own_row tx_user (en_user env) k (transactions w)" if "?txs = (k, e) # rest" for k e rest
    using own_selected [OF world_wf_tables(5) [OF wf], of "(k, e)" _ tx_user] sort_key_ConsD [OF that]
    by (auto simp: transactions_for_symbol_def)
  show ?thesis
    using assms(1) own
    by (auto simp: record_adjustment_def Let_def bindE_eq_Inr adjustment_row_def
        split: list.splits if_splits prod.splits intro!: writes_onto writes_insert writes_put)
qed

lemma touch_latest_writes:
  assumes wf: "world_wf w"
  shows "writes (en_user env) UNIV w (touch_latest_transaction p env h w)"
proof (cases "get_latest_holding_transaction_for_symbol w (en_user env) (sh_symbol h) (sh_market h)")
  case None
  then show ?thesis by (simp add: touch_latest_transaction_def)
next
  case (Some q)
  obtain k e where q: "q = (k, e)" by (cases q)
  with Some have "(k, e) \<in> set (transactions_latest_first w (en_user env) (sh_symbol h) (sh_market h))"
    by (auto simp: get_latest_holding_transaction_for_symbol_def split: list.splits)
  then have "tget (transactions w) k = Some e" "tx_user e = en_user env"
    using world_wf_tables(5) [OF wf] by (simp_all add: transactions_latest_first_iff)
  with Some q show ?thesis
    by (auto simp: touch_latest_transaction_def own_row_def intro!: writes_put)
qed

lemma sync_holding_owner:
  assumes res: "sync_holding_projection_for_symbol env u sy m w = Inr (Some i, w')" and wf: "world_wf w"
  shows "own_row sh_user u i (holdings w')"
proof (cases "list_holdings_for_symbol w u sy m")
  case Nil
  have "twf (tdel_ids [] (holdings w))" using world_wf_tables(4) [OF wf] by simp
  with res Nil show ?thesis
    by (auto simp: sync_holding_projection_for_symbol_def Let_def bindE_eq_Inr own_row_def tbl.get_insert
        split: option.splits)
next
  case (Cons q ps)
  obtain j h where q: "q = (j, h)" by (cases q)
  with Cons have "(j, h) \<in> set (list_holdings_for_symbol w u sy m)" by simp
  then have "sh_user h = u"
    using world_wf_tables(4) [OF wf] by (simp add: list_holdings_for_symbol_def tbl.select_iff)
  with res Cons q show ?thesis
    by (auto simp: sync_holding_projection_for_symbol_def Let_def bindE_eq_Inr own_row_def tbl.get_put
        split: option.splits if_splits)
qed

lemma adjust_holding_writes:
  assumes res: "adjust_holding p env i h d w = Inr (k, w')" and wf: "world_wf w"
    and own: "own_row sh_user (en_user env) i (holdings w)"
  shows "writes (en_user env) UNIV w w'" "own_row sh_user (en_user env) k (holdings w')"
proof -
  let ?u = "en_user env"
  from res obtain w1 synced w2 where r: "record_adjustment p env i h d w = Inr w1"
    and s: "sync_holding_projection_for_symbol env ?u (sh_symbol h) (sh_market h) w1 = Inr (synced, w2)"
    and c: "(case synced of Some i \<Rightarrow> Inr (i, w2) | None \<Rightarrow>
         (case list_holdings_for_symbol w1 ?u (sh_symbol h) (sh_market h) of
            [] \<Rightarrow> Inl StaleDataError
          | q # ps \<Rightarrow> if fst q = i then Inr (i, w2\<lparr>holdings := tdel_ids (map fst ps) (holdings w1)\<rparr>)
              else Inl StaleDataError)) = Inr (k, w')"
    by (auto simp: adjust_holding_def bindE_eq_Inr)
  have 1: "writes ?u UNIV w w1" by (rule record_adjustment_writes [OF r wf])
  note wf1 = writes_wf [OF 1 wf]
  have 2: "writes ?u UNIV w1 w2" by (rule sync_holding_writes [OF s wf1])
  have "writes ?u UNIV w1 w' \<and> own_row sh_user ?u k (holdings w')"
  proof (cases synced)
    case (Some j)
    with c 2 sync_holding_owner [OF s [unfolded Some] wf1] show ?thesis by simp
  next
    case None
    obtain t where w2: "w2 = w1\<lparr>holdings := t\<rparr>" by (rule sync_holding_result [OF s])
    from c None obtain q ps where ex: "list_holdings_for_symbol w1 ?u (sh_symbol h) (sh_market h) = q # ps"
      and k: "k = i" and w': "w' = w1\<lparr>holdings := tdel_ids (map fst ps) (holdings w1)\<rparr>"
      by (auto simp: w2 split: list.splits if_splits)
    have "\<forall>j \<in> set (map fst ps). own_row sh_user ?u j (holdings w1)"
      using holdings_for_symbol_own [OF _ wf1, of _ ?u "sh_symbol h" "sh_market h"] ex by auto
    then have "writes ?u UNIV w1 w'" unfolding w' by (rule writes_del_ids)
    moreover have "own_row sh_user ?u i (holdings w1)" by (rule own_any(5) [OF 1 wf own])
    ultimately show ?thesis unfolding k by (simp add: w' own_row_def tget_tdel_ids)
  qed
  then show "writes ?u UNIV w w'" "own_row sh_user ?u k (holdings w')"
    using writes_trans [OF 1] by blast+
qed

lemma save_edit_writes:
  assumes res: "save_holding_edit p env j h i w = Inr (r, w')" and wf: "world_wf w"
    and own: "own_row sh_user (en_user env) i (holdings w)"
  shows "writes (en_user env) UNIV w w'"
proof -
  let ?u = "en_user env"
  from res obtain h1 where h1: "tget (holdings w) i = Some h1"
    by (auto simp: save_holding_edit_def split: option.splits)
  with own have u: "sh_user h1 = ?u" by (simp add: own_row_def)
  define h2 where "h2 = h1\<lparr>sh_broker := text_field (hou_broker p) (sh_broker h1),
               sh_note := text_field (hou_note p) (sh_note h1), sh_updated_at := en_now env\<rparr>"
  let ?w1 = "w\<lparr>holdings := tput i h2 (holdings w)\<rparr>"
  let ?w2 = "if creates_adjustment p then ?w1 else touch_latest_transaction p env h2 ?w1"
  have 1: "writes ?u UNIV w ?w1" by (intro writes_put writes_refl own) (simp_all add: h2_def u)
  have 2: "writes ?u UNIV w ?w2"
    using 1 writes_trans [OF 1 touch_latest_writes [OF writes_wf [OF 1 wf]]] by simp
  from res h1 obtain st1 st2 where
    f: "(if creates_adjustment p
      then finish_trade env (sh_symbol h2) (record_asset_mutation env HOLDING (Some i) UPDATE st1 st2 None ?w2)
      else Inr (invalidate_dashboard_cache (Some ?u)
        (record_asset_mutation env HOLDING (Some i) UPDATE st1 st2 None ?w2))) = Inr w'"
    unfolding save_holding_edit_def Let_def h2_def by (auto simp: bindE_eq_Inr split: if_splits)
  then show ?thesis
    by (cases "creates_adjustment p") (use 2 in \<open>auto intro!: writes_onto elim!: writes_finish_trade\<close>)
qed

lemma update_holding_writes:
  assumes res: "update_holding i p env w = Inr (r, w')" and wf: "world_wf w"
  shows "writes (en_user env) UNIV w w'"
proof -
  let ?u = "en_user env"
  from res obtain h d k w1 where o: "owned_holding env i w = Inr h"
    and a: "(case d of Some d \<Rightarrow> adjust_holding p env i h d w | None \<Rightarrow> Inr (i, w)) = Inr (k, w1)"
    and s: "save_holding_edit p env i h k w1 = Inr (r, w')"
    by (auto simp: update_holding_def bindE_eq_Inr Let_def)
  have own: "own_row sh_user ?u i (holdings w)"
    using o by (auto simp: owned_holding_def own_row_def split: option.splits if_splits)
  have 1: "writes ?u UNIV w w1 \<and> own_row sh_user ?u k (holdings w1)"
    using a own adjust_holding_writes [OF _ wf own] by (cases d) auto
  with save_edit_writes [OF s] writes_wf [OF _ wf] show ?thesis by (blast intro: writes_trans)
qed

section \<open>Fixed assets, liabilities and other assets\<close>

abbreviation ASSETS :: "table_name set" where
  "ASSETS \<equiv> {T_audits, T_jobs, T_dashboards, T_fixed_assets, T_liabilities, T_other_assets}"

lemma asset_entry_writes:
  "create_fixed_asset vp env w = Inr (r, w') \<Longrightarrow> writes (en_user env) ASSETS w w'"
  "update_fixed_asset i vp env w = Inr (r, w') \<Longrightarrow> writes (en_user env) ASSETS w w'"
  "delete_fixed_asset i env w = Inr w' \<Longrightarrow> writes (en_user env) ASSETS w w'"
  "create_liability lc env w = Inr (r', w') \<Longrightarrow> writes (en_user env) ASSETS w w'"
  "update_liability i lu env w = Inr (r', w') \<Longrightarrow> writes (en_user env) ASSETS w w'"
  "delete_liability i env w = Inr w' \<Longrightarrow> writes (en_user env) ASSETS w w'"
  "create_other_asset vp env w = Inr (r, w') \<Longrightarrow> writes (en_user env) ASSETS w w'"
  "update_other_asset i vp env w = Inr (r, w') \<Longrightarrow> writes (en_user env) ASSETS w w'"
  "delete_other_asset i env w = Inr w' \<Longrightarrow> writes (en_user env) ASSETS w w'"
  by (auto simp: create_fixed_asset_def update_fixed_asset_def delete_fixed_asset_def create_liability_def
      update_liability_def delete_liability_def create_other_asset_def update_other_asset_def
      delete_other_asset_def owned_fixed_asset_def owned_liability_def owned_other_asset_def own_row_def
      bindE_eq_Inr Let_def split: option.splits if_splits
      elim!: writes_back intro!: writes_onto writes_insert writes_put writes_del)

section \<open>Every request\<close>

lemma holding_routes_writes: "holding_routes env q w = Inr w' \<Longrightarrow> world_wf w \<Longrightarrow> writes (en_user env) UNIV w w'"
  by (cases q) (auto dest: create_holding_writes update_holding_writes delete_holding_writes
      create_transaction_writes update_transaction_writes delete_transaction_writes)

lemma account_routes_cash: "account_routes env q w = Inr w' \<Longrightarrow> world_wf w \<Longrightarrow> writes (en_user env) CASH w w'"
  by (cases q) (auto dest: create_account_writes update_account_writes delete_account_writes
      create_adjustment_writes update_adjustment_writes delete_adjustment_writes
      create_transfer_writes update_transfer_writes delete_transfer_writes)

lemma asset_routes_assets: "asset_routes env q w = Inr w' \<Longrightarrow> writes (en_user env) ASSETS w w'"
  by (cases q) (auto dest: asset_entry_writes)

lemma handle_writes:
  assumes "handle env q w = Inr w'" "world_wf w"
  shows "writes (en_user env) UNIV w w'"
proof -
  from assms(1) obtain w1 w2 where "account_routes env q w = Inr w1" "holding_routes env q w1 = Inr w2"
    "asset_routes env q w2 = Inr w'"
    by (auto simp: handle_def bindE_eq_Inr)
  with CASH_UNIV [OF account_routes_cash [OF _ assms(2)]] holding_routes_writes
    writes_mono [OF asset_routes_assets, of _ _ _ _ UNIV] writes_wf [OF _ assms(2)]
  show ?thesis by (blast intro: writes_trans)
qed

end
