(* ===== verification/Isolation.thy ===== *)
theory Isolation
  imports Trade_Writes "HOL-Library.Sublist"
begin

text \<open>
  What follows from the fact that a request only writes on behalf of its user: the rows of other
  users stay as they are, audit records are only added, and the queue stays well-formed.
\<close>

section \<open>The view of a user\<close>

definition same_for :: "pystr \<Rightarrow> world \<Rightarrow> world \<Rightarrow> bool" where
  \<comment> \<open>the rows of \<open>v\<close> are the same, with their ids and in the same order\<close>
  "same_for v w w' \<longleftrightarrow>
     tselect (\<lambda>r. ca_user r = v) (accounts w') = tselect (\<lambda>r. ca_user r = v) (accounts w) \<and>
     tselect (\<lambda>r. le_user r = v) (ledger w') = tselect (\<lambda>r. le_user r = v) (ledger w) \<and>
     tselect (\<lambda>r. ct_user r = v) (transfers w') = tselect (\<lambda>r. ct_user r = v) (transfers w) \<and>
     tselect (\<lambda>r. sh_user r = v) (holdings w') = tselect (\<lambda>r. sh_user r = v) (holdings w) \<and>
     tselect (\<lambda>r. tx_user r = v) (transactions w') = tselect (\<lambda>r. tx_user r = v) (transactions w) \<and>
     tselect (\<lambda>r. st_user r = v) (settlements w') = tselect (\<lambda>r. st_user r = v) (settlements w) \<and>
     tselect (\<lambda>r. fa_user r = v) (fixed_assets w') = tselect (\<lambda>r. fa_user r = v) (fixed_assets w) \<and>
     tselect (\<lambda>r. li_user r = v) (liabilities w') = tselect (\<lambda>r. li_user r = v) (liabilities w) \<and>
     tselect (\<lambda>r. oa_user r = v) (other_assets w') = tselect (\<lambda>r. oa_user r = v) (other_assets w) \<and>
     tselect (\<lambda>r. hs_user r = v) (sync_requests w') = tselect (\<lambda>r. hs_user r = v) (sync_requests w) \<and>
     tselect (\<lambda>r. ik_user r = v) (idem_keys w') = tselect (\<lambda>r. ik_user r = v) (idem_keys w) \<and>
     filter (\<lambda>r. au_user r = v) (audits w') = filter (\<lambda>r. au_user r = v) (audits w) \<and>
     (v \<in> set (cached_dashboards w') \<longleftrightarrow> v \<in> set (cached_dashboards w))"

lemma put_absent: "tget t i = None \<Longrightarrow> tput i r t = t"
proof -
  assume "tget t i = None"
  then have "map (\<lambda>(j, x). if j = i then (j, r) else (j, x)) (rows t) = rows t"
    by (intro map_idI) (auto simp: tget_def map_of_eq_None_iff rev_image_eqI)
  then show ?thesis by (simp add: tput_def)
qed

lemma row_write_select:
  assumes "row_write P t t'" "twf t" "\<And>r. Q r \<Longrightarrow> \<not> P r"
  shows "tselect Q t' = tselect Q t"
  using assms(1)
proof cases
  case (insert r)
  then show ?thesis using assms(3) by (auto intro: tbl.select_insert_frame)
next
  case (put i r)
  show ?thesis
  proof (cases "tget t i")
    case None
    with put show ?thesis by (simp add: put_absent)
  next
    case (Some r0)
    with put have "P r0" "P r" by blast+
    with assms(3) have "\<not> Q r0" "\<not> Q r" by blast+
    with put Some assms(2) show ?thesis by (simp add: tbl.select_put_frame)
  qed
next
  case (del i)
  then show ?thesis using assms(2,3) by (auto intro!: tbl.select_del_frame)
qed

lemma user_write_same: "user_write u n w w' \<Longrightarrow> world_wf w \<Longrightarrow> u \<noteq> v \<Longrightarrow> same_for v w w'"
  by (erule user_writeE) (auto simp: same_for_def world_wf_def intro!: row_write_select)

lemma same_for_trans: "same_for v w w1 \<Longrightarrow> same_for v w1 w2 \<Longrightarrow> same_for v w w2"
  by (simp add: same_for_def)

lemma writes_same:
  assumes "writes u N w w'" "world_wf w" "u \<noteq> v"
  shows "same_for v w w'"
proof -
  from assms have "(\<lambda>w w'. \<exists>n \<in> N. user_write u n w w')\<^sup>*\<^sup>* w w'" by (simp add: writes_def)
  then have "world_wf w' \<and> same_for v w w'" using assms(2)
  proof (induction rule: rtranclp_induct)
    case (step y z)
    then obtain n where "user_write u n y z" "world_wf y" "same_for v w y" by blast
    with user_write_same [OF this(1,2) assms(3)] user_write_wf [OF this(1,2)]
    show ?case using same_for_trans by blast
  qed (simp add: same_for_def)
  then show ?thesis ..
qed

lemma world_wf_empty: "world_wf empty_world"
  by (simp add: world_wf_def empty_world_def)

lemma serve_writes: "world_wf w \<Longrightarrow> writes (en_user (fst q)) UNIV w (serve q w)"
  by (cases q) (auto simp: serve_def handle_writes split: sum.split)

interpretation tenants: isolated_service serve world_wf "\<lambda>q. en_user (fst q)" same_for
proof
  show "world_wf s \<Longrightarrow> world_wf (serve q s)" for s q by (rule writes_wf [OF serve_writes])
  show "same_for v s s" for v s by (simp add: same_for_def)
  show "same_for v s t \<Longrightarrow> same_for v t r \<Longrightarrow> same_for v s r" for v s t r by (rule same_for_trans)
  show "world_wf s \<Longrightarrow> en_user (fst q) \<noteq> v \<Longrightarrow> same_for v s (serve q s)" for s q v
    by (rule writes_same [OF serve_writes])
qed

lemma reachable_wf: "world_wf (fold serve qs empty_world)"
  by (rule tenants.run_inv [OF world_wf_empty])

section \<open>Audit records and jobs\<close>

lemma user_write_audits:
  "user_write u n w w' \<Longrightarrow> \<exists>rs. audits w' = audits w @ rs \<and> list_all (\<lambda>r. au_user r = u) rs"
  by (erule user_writeE) auto

lemma writes_audits:
  assumes "writes u N w w'" "world_wf w"
  shows "\<exists>rs. audits w' = audits w @ rs \<and> list_all (\<lambda>r. au_user r = u) rs"
proof -
  from assms have "(\<lambda>w w'. \<exists>n \<in> N. user_write u n w w')\<^sup>*\<^sup>* w w'" by (simp add: writes_def)
  then show ?thesis
  proof (induction rule: rtranclp_induct)
    case (step y z)
    then obtain n rs where "user_write u n y z" "audits y = audits w @ rs" "list_all (\<lambda>r. au_user r = u) rs" by blast
    with user_write_audits [OF this(1)] show ?case by (metis append.assoc list_all_append)
  qed simp
qed

lemma user_write_queue: "user_write u n w w' \<Longrightarrow> queue_ok (jobs w) \<Longrightarrow> queue_ok (jobs w')"
  by (erule user_writeE) (auto intro: enqueue_ok)

lemma writes_queue:
  assumes "writes u N w w'" "world_wf w" "queue_ok (jobs w)"
  shows "queue_ok (jobs w')"
proof -
  from assms have "(\<lambda>w w'. \<exists>n \<in> N. user_write u n w w')\<^sup>*\<^sup>* w w'" by (simp add: writes_def)
  then show ?thesis using assms(3)
    by (induction rule: rtranclp_induct) (auto intro: user_write_queue)
qed

text \<open>A write to a table that is not named leaves the other tables.\<close>

lemma writes_frame:
  assumes "writes u N w w'" "world_wf w"
  shows "T_holdings \<notin> N \<Longrightarrow> holdings w' = holdings w"
    "T_transactions \<notin> N \<Longrightarrow> transactions w' = transactions w"
    "T_accounts \<notin> N \<Longrightarrow> accounts w' = accounts w" "T_ledger \<notin> N \<Longrightarrow> ledger w' = ledger w"
proof -
  from assms have s: "(\<lambda>w w'. \<exists>n \<in> N. user_write u n w w')\<^sup>*\<^sup>* w w'" by (simp add: writes_def)
  have one: "user_write u n y z \<Longrightarrow> n \<in> N \<Longrightarrow>
      (T_holdings \<notin> N \<longrightarrow> holdings z = holdings y) \<and> (T_transactions \<notin> N \<longrightarrow> transactions z = transactions y)
      \<and> (T_accounts \<notin> N \<longrightarrow> accounts z = accounts y) \<and> (T_ledger \<notin> N \<longrightarrow> ledger z = ledger y)" for n y z
    by (erule user_writeE) auto
  have "(T_holdings \<notin> N \<longrightarrow> holdings w' = holdings w) \<and> (T_transactions \<notin> N \<longrightarrow> transactions w' = transactions w)
      \<and> (T_accounts \<notin> N \<longrightarrow> accounts w' = accounts w) \<and> (T_ledger \<notin> N \<longrightarrow> ledger w' = ledger w)"
    using s by (induction rule: rtranclp_induct) (use one in fastforce)+
  then show "T_holdings \<notin> N \<Longrightarrow> holdings w' = holdings w" "T_transactions \<notin> N \<Longrightarrow> transactions w' = transactions w"
    "T_accounts \<notin> N \<Longrightarrow> accounts w' = accounts w" "T_ledger \<notin> N \<Longrightarrow> ledger w' = ledger w" by blast+
qed

end
