(* ===== verification/Projection.thy ===== *)
theory Projection
  imports Isolation
begin

text \<open>
  The holding row of a symbol is the projection of the symbol's transactions: what
  \<open>_sync_holding_projection_for_symbol\<close> establishes for one symbol, no request on another symbol
  or on cash or other assets disturbs.
\<close>

section \<open>The row and its transactions\<close>

definition row_follows :: "error + projected_state option \<Rightarrow> (nat \<times> security_holding) list \<Rightarrow> bool" where
  "row_follows projected existing \<longleftrightarrow>
     (case projected of
        Inl e \<Rightarrow> False
      | Inr None \<Rightarrow> existing = []
      | Inr (Some st) \<Rightarrow> (case existing of
          [(i, h)] \<Rightarrow> projected_holding_quantity st = Inr (sh_quantity h)
            \<and> projected_holding_cost_basis st = Inr (sh_cost_basis_price h)
            \<and> sh_started_on h = projected_holding_started_on st \<and> sh_name h = ps_name st
            \<and> sh_fallback_currency h = ps_fallback_currency st
        | _ \<Rightarrow> False))"

lemma row_follows_cases:
  assumes "row_follows pr ex"
  obtains (gone) "pr = Inr None" "ex = []"
  | (row) st i h where "pr = Inr (Some st)" "ex = [(i, h)]"
  using assms by (cases ex rule: remdups_adj.cases)
    (auto simp: row_follows_def split: sum.splits option.splits)

definition holding_follows :: "world \<Rightarrow> pystr \<Rightarrow> pystr \<Rightarrow> pystr \<Rightarrow> bool" where
  "holding_follows w u s m \<longleftrightarrow>
     row_follows (project_holding_state_from_transactions w u s m) (list_holdings_for_symbol w u s m)"

definition holdings_follow :: "world \<Rightarrow> bool" where
  "holdings_follow w \<longleftrightarrow> world_wf w \<and> (\<forall>u s m. holding_follows w u s m)"

abbreviation of_symbol :: "pystr \<Rightarrow> pystr \<Rightarrow> pystr \<Rightarrow> security_holding \<Rightarrow> bool" where
  "of_symbol u s m h \<equiv> sh_user h = u \<and> sh_symbol h = s \<and> sh_market h = m"

abbreviation trade_of_symbol :: "pystr \<Rightarrow> pystr \<Rightarrow> pystr \<Rightarrow> holding_transaction \<Rightarrow> bool" where
  "trade_of_symbol u s m t \<equiv> tx_user t = u \<and> tx_symbol t = s \<and> tx_market t = m"

lemma holding_follows_cong:
  "list_holdings_for_symbol w' u s m = list_holdings_for_symbol w u s m \<Longrightarrow>
   transactions_for_symbol w' u s m = transactions_for_symbol w u s m \<Longrightarrow>
   holding_follows w' u s m = holding_follows w u s m"
  by (simp add: holding_follows_def project_holding_state_from_transactions_def)

lemma symbol_frame:
  "holdings w' = holdings w \<Longrightarrow> list_holdings_for_symbol w' u s m = list_holdings_for_symbol w u s m"
  "transactions w' = transactions w \<Longrightarrow> transactions_for_symbol w' u s m = transactions_for_symbol w u s m"
  by (simp_all add: list_holdings_for_symbol_def transactions_for_symbol_def)

lemma holdings_follow_frame:
  "holdings_follow w \<Longrightarrow> holdings w' = holdings w \<Longrightarrow> transactions w' = transactions w \<Longrightarrow> world_wf w' \<Longrightarrow>
   holdings_follow w'"
  using holding_follows_cong symbol_frame unfolding holdings_follow_def by metis

section \<open>Selections\<close>

lemma distinct_mapI: "distinct (map f xs) \<Longrightarrow> distinct xs"
  by (simp add: distinct_map)

lemma distinct_singleton: "distinct xs \<Longrightarrow> set xs = {a} \<Longrightarrow> xs = [a]"
proof (cases xs)
  case (Cons y ys)
  assume "distinct xs" "set xs = {a}"
  with Cons have "y = a" "set ys \<subseteq> {a}" "a \<notin> set ys" by auto
  then have "y = a" "ys = []" by (auto simp: subset_singleton_iff)
  with Cons show ?thesis by simp
qed simp

lemma select_single:
  assumes "twf t" "\<And>j r. tget t j = Some r \<and> P r \<longleftrightarrow> j = i \<and> r = h"
  shows "tselect P t = [(i, h)]"
  using assms by (intro distinct_singleton distinct_mapI [OF tbl.select_distinct])
    (auto simp: tbl.select_iff)

lemma row_writes_wf: "row_writes P t t' \<Longrightarrow> twf t \<Longrightarrow> twf t'"
  by (induction rule: rtranclp_induct) (auto intro: row_write_wf)

lemma row_writes_select:
  assumes "row_writes P t t'" "twf t" "\<And>r. Q r \<Longrightarrow> \<not> P r"
  shows "tselect Q t' = tselect Q t"
  using assms(1,2)
proof (induction rule: rtranclp_induct)
  case (step y z)
  then have "tselect Q z = tselect Q y"
    by (intro row_write_select [OF step.hyps(2) row_writes_wf [OF step.hyps(1)]]) (use assms(3) in auto)
  with step show ?case by simp
qed simp

lemma row_writes_del_ids:
  "\<forall>i \<in> set is. \<forall>r. tget t i = Some r \<longrightarrow> P r \<Longrightarrow> row_writes P t (tdel_ids is t)"
proof (induction "is" arbitrary: t)
  case (Cons i "is")
  have "row_write P t (tdel i t)" using Cons.prems by (auto intro: row_write.del)
  moreover have "row_writes P (tdel i t) (tdel_ids is (tdel i t))"
    using Cons.prems by (intro Cons.IH) (auto simp: tbl.get_del)
  ultimately show ?case by (simp add: tdel_ids_def)
qed (simp add: tdel_ids_def)

section \<open>Projecting one symbol\<close>

lemma existing_iff:
  "world_wf w \<Longrightarrow> (i, h) \<in> set (list_holdings_for_symbol w u s m) \<longleftrightarrow>
     tget (holdings w) i = Some h \<and> of_symbol u s m h"
  by (simp add: list_holdings_for_symbol_def tbl.select_iff world_wf_tables)

lemma existing_distinct: "world_wf w \<Longrightarrow> distinct (map fst (list_holdings_for_symbol w u s m))"
  using tbl.select_distinct [OF world_wf_tables(4), of w "of_symbol u s m"]
  by (simp add: list_holdings_for_symbol_def distinct_map)

text \<open>Deleting all rows of the symbol but the first leaves the first.\<close>

lemma rest_deleted:
  assumes wf: "world_wf w" and ex: "list_holdings_for_symbol w u s m = (i, h) # rest"
  shows "tselect (of_symbol u s m) (tdel_ids (map fst rest) (holdings w)) = [(i, h)]"
proof (rule select_single)
  show "twf (tdel_ids (map fst rest) (holdings w))" using world_wf_tables(4) [OF wf] by simp
  fix j r
  have i: "i \<notin> set (map fst rest)" using existing_distinct [OF wf, of u s m] ex by simp
  have all: "(j, r) \<in> set ((i, h) # rest) \<longleftrightarrow> tget (holdings w) j = Some r \<and> of_symbol u s m r"
    using existing_iff [OF wf, of j r u s m] ex by simp
  show "tget (tdel_ids (map fst rest) (holdings w)) j = Some r \<and> of_symbol u s m r \<longleftrightarrow> j = i \<and> r = h"
  proof (cases "j \<in> set (map fst rest)")
    case True
    with i show ?thesis by (auto simp: tget_tdel_ids)
  next
    case False
    then have "(j, r) \<notin> set rest" by force
    with all False show ?thesis by (simp add: tget_tdel_ids)
  qed
qed

lemma sync_row_writes:
  assumes res: "sync_holding_projection_for_symbol env u s m w = Inr (r, w')" and wf: "world_wf w"
  shows "row_writes (of_symbol u s m) (holdings w) (holdings w')"
proof -
  let ?ex = "list_holdings_for_symbol w u s m"
  have "row_writes (of_symbol u s m) (holdings w) (tdel_ids (map fst (tl ?ex)) (holdings w))"
  proof (rule row_writes_del_ids, intro ballI allI impI)
    fix i r assume "i \<in> set (map fst (tl ?ex))" and r: "tget (holdings w) i = Some r"
    then obtain h where "(i, h) \<in> set ?ex" by (cases ?ex) fastforce+
    with existing_iff [OF wf, of i h u s m] r show "of_symbol u s m r" by simp
  qed
  moreover have "row_write (of_symbol u s m) (tdel_ids (map fst (tl ?ex)) (holdings w)) (holdings w')
      \<or> holdings w' = tdel_ids (map fst (tl ?ex)) (holdings w)"
  proof (cases ?ex)
    case Nil
    with res show ?thesis
      by (auto simp: sync_holding_projection_for_symbol_def Let_def bindE_eq_Inr split: option.splits
          intro!: row_write.insert)
  next
    case (Cons q rest)
    obtain i h where q: "q = (i, h)" by (cases q)
    with Cons existing_iff [OF wf, of i h u s m] have h: "of_symbol u s m h" "tget (holdings w) i = Some h" by auto
    with res Cons q show ?thesis
      by (auto simp: sync_holding_projection_for_symbol_def Let_def bindE_eq_Inr tget_tdel_ids split: option.splits if_splits
          intro!: row_write.put row_write.del)
  qed
  ultimately show ?thesis by auto
qed

lemma project_cong:
  "transactions w' = transactions w \<Longrightarrow>
   project_holding_state_from_transactions w' u s m = project_holding_state_from_transactions w u s m"
  by (simp add: project_holding_state_from_transactions_def transactions_for_symbol_def)

lemma optional_numeric_column_Inr [simp]:
  "optional_numeric_column v = Inr x \<longleftrightarrow> x = v \<and> (\<forall>n. v = Some n \<longrightarrow> fits_numeric n)"
  by (auto simp: optional_numeric_column_def bindE_eq_Inr numeric_column_def split: option.splits if_splits)

lemma sync_follows:
  assumes res: "sync_holding_projection_for_symbol env u s m w = Inr (r, w')" and wf: "world_wf w"
  shows "holding_follows w' u s m" "transactions w' = transactions w"
proof -
  obtain t where w': "w' = w\<lparr>holdings := t\<rparr>" by (rule sync_holding_result [OF res])
  then show tr: "transactions w' = transactions w" by simp
  note pr = project_cong [of "w\<lparr>holdings := _\<rparr>" w, simplified]
  show "holding_follows w' u s m"
  proof (cases "list_holdings_for_symbol w u s m")
    case Nil
    then have none: "tselect (of_symbol u s m) (holdings w) = []"
      by (simp add: list_holdings_for_symbol_def)
    with res Nil show ?thesis
      by (auto simp: sync_holding_projection_for_symbol_def Let_def bindE_eq_Inr pr holding_follows_def
          row_follows_def list_holdings_for_symbol_def tdel_ids_def tbl.select_insert numeric_column_def
          split: option.splits if_splits)
  next
    case (Cons q rest)
    obtain i h where q: "q = (i, h)" by (cases q)
    note one = rest_deleted [OF wf Cons [unfolded q]]
    have wft: "twf (tdel_ids (map fst rest) (holdings w))" using world_wf_tables(4) [OF wf] by simp
    have "(i, h) \<in> set (tselect (of_symbol u s m) (tdel_ids (map fst rest) (holdings w)))" by (simp add: one)
    then have i: "tget (tdel_ids (map fst rest) (holdings w)) i = Some h" "of_symbol u s m h"
      using wft by (simp_all add: tbl.select_iff)
    have put: "tselect (of_symbol u s m) (tput i h' (tdel_ids (map fst rest) (holdings w))) = [(i, h')]"
      if "of_symbol u s m h'" for h'
      using tselect_tput_same [where P = "of_symbol u s m", OF wft i(1) i(2) that] by (simp add: one)
    have del: "tselect (of_symbol u s m) (tdel i (tdel_ids (map fst rest) (holdings w))) = []"
      by (simp add: tbl.select_del one)
    show ?thesis
      using res Cons q
      by (auto simp: i(2) sync_holding_projection_for_symbol_def Let_def bindE_eq_Inr pr holding_follows_def
          row_follows_def list_holdings_for_symbol_def put del numeric_column_def
          split: option.splits if_splits)
  qed
qed

lemma of_other_symbol: "(u', s', m') \<noteq> (u, s, m) \<Longrightarrow> of_symbol u' s' m' h \<Longrightarrow> \<not> of_symbol u s m h"
  by auto

lemma trade_of_other_symbol:
  "(u', s', m') \<noteq> (u, s, m) \<Longrightarrow> trade_of_symbol u' s' m' t \<Longrightarrow> \<not> trade_of_symbol u s m t"
  by auto

text \<open>
  Rows of one symbol are rewritten, its transactions too, and its holding is then projected: every
  holding follows its transactions again.
\<close>

lemma follow_after_sync:
  assumes all: "holdings_follow w" and tr: "row_writes (trade_of_symbol u s m) (transactions w) (transactions w1)"
    and hs: "row_writes (of_symbol u s m) (holdings w) (holdings w')" and wf: "world_wf w'"
    and tr': "transactions w' = transactions w1" and own: "holding_follows w' u s m"
  shows "holdings_follow w'"
  unfolding holdings_follow_def
proof (intro conjI allI)
  fix u' s' m'
  from all have w: "world_wf w" "holding_follows w u' s' m'" by (simp_all add: holdings_follow_def)
  show "holding_follows w' u' s' m'"
  proof (cases "(u', s', m') = (u, s, m)")
    case True
    with own show ?thesis by simp
  next
    case False
    have "list_holdings_for_symbol w' u' s' m' = list_holdings_for_symbol w u' s' m'"
      unfolding list_holdings_for_symbol_def
      by (rule arg_cong [OF row_writes_select [OF hs world_wf_tables(4) [OF w(1)] of_other_symbol [OF False]]])
    moreover have "transactions_for_symbol w' u' s' m' = transactions_for_symbol w u' s' m'"
      unfolding transactions_for_symbol_def tr'
      by (rule row_writes_select [OF tr world_wf_tables(5) [OF w(1)] trade_of_other_symbol [OF False]])
    ultimately show ?thesis using w(2) holding_follows_cong [of w' u' s' m' w] by simp
  qed
qed (rule wf)

lemma follow_sync:
  assumes all: "holdings_follow w" and wf: "world_wf w1"
    and h: "holdings w1 = holdings w" and tr: "row_writes (trade_of_symbol u s m) (transactions w) (transactions w1)"
    and sync: "sync_holding_projection_for_symbol env u s m w1 = Inr (r, w')"
  shows "holdings_follow w'"
proof (rule follow_after_sync [OF all tr _ _ sync_follows(2) [OF sync wf] sync_follows(1) [OF sync wf]])
  show "row_writes (of_symbol u s m) (holdings w) (holdings w')"
    using sync_row_writes [OF sync wf] by (simp add: h)
  show "world_wf w'" by (rule writes_wf [OF sync_holding_writes [OF sync wf] wf])
qed

section \<open>Trades\<close>

lemma follow_writes:
  assumes "holdings_follow w" "writes u N w w'" "T_holdings \<notin> N" "T_transactions \<notin> N"
  shows "holdings_follow w'"
proof -
  from assms(1) have wf: "world_wf w" by (simp add: holdings_follow_def)
  show ?thesis
    using holdings_follow_frame [OF assms(1)] writes_frame [OF assms(2) wf] writes_wf [OF assms(2) wf] assms(3,4)
    by simp
qed

abbreviation FINISH :: "table_name set" where
  "FINISH \<equiv> {T_audits, T_jobs, T_dashboards, T_sync_requests}"

lemma finish_trade_writes: "finish_trade env sy x = Inr w' \<Longrightarrow> writes (en_user env) FINISH x w'"
  unfolding finish_trade_def by (erule writes_back, intro writes_history) simp_all

lemma follow_wf: "holdings_follow w \<Longrightarrow> world_wf w"
  by (simp add: holdings_follow_def)

lemma enter_transaction_follows:
  assumes all: "holdings_follow w" and res: "enter_transaction p env tx w = Inr (r, w')"
    and user: "tx_user tx = en_user env"
  shows "holdings_follow w'"
proof -
  let ?u = "en_user env"
  from res obtain h w3 account w4 job sh sa bh ba x st where
    s: "sync_holding_projection_for_symbol env ?u (tx_symbol tx) (tx_market tx)
       (record_asset_mutation env HOLDING_TRANSACTION (Some x) CREATE None st None
         (w\<lparr>transactions := snd (tinsert tx (transactions w))\<rparr>)) = Inr (h, w3)"
    and t: "(case tx_price tx of None \<Rightarrow> Inr (None, w3)
          | Some pr \<Rightarrow> settle_trade env sh sa bh ba x tx pr w3) = Inr (account, w4)"
    and e: "enqueue_user_portfolio_snapshot_rebuild env ?u
            (enqueue_holding_history_sync_request env ?u (Some (tx_symbol tx)) w4) = Inr (job, w')"
    unfolding enter_transaction_def Let_def by (auto simp: bindE_eq_Inr)
  have "writes ?u UNIV w (record_asset_mutation env HOLDING_TRANSACTION (Some x) CREATE None st None
         (w\<lparr>transactions := snd (tinsert tx (transactions w))\<rparr>))"
    by (intro writes_onto writes_insert writes_refl) (simp_all add: user)
  from follow_sync [OF all writes_wf [OF this follow_wf [OF all]] _ _ s]
  have 3: "holdings_follow w3" by (simp add: r_into_rtranclp row_write.insert user)
  have 4: "holdings_follow w4"
  proof (cases "tx_price tx")
    case None
    with t 3 show ?thesis by simp
  next
    case (Some pr)
    with t have "settle_trade env sh sa bh ba x tx pr w3 = Inr (account, w4)" by simp
    from follow_writes [OF 3 settle_trade_writes [OF this follow_wf [OF 3]]] show ?thesis by simp
  qed
  have "writes ?u FINISH w4 w'" by (intro writes_back(2) [OF e] writes_history) simp_all
  from follow_writes [OF 4 this] show ?thesis by simp
qed

text \<open>When every holding follows, no baseline purchase is missing.\<close>

lemma fold_id: "\<forall>q \<in> set xs. f q w = w \<Longrightarrow> fold f xs w = w"
  by (induction xs) simp_all

lemma ensure_baselines_id:
  assumes "holding_follows w u s m"
  shows "fold (\<lambda>(i, h). ensure_transaction_baseline_from_holding_snapshot env h)
    (list_holdings_for_symbol w u s m) w = w"
proof (cases "list_holdings_for_symbol w u s m")
  case (Cons q ps)
  have "transactions_for_symbol w u s m \<noteq> []"
    using assms Cons by (auto simp: holding_follows_def row_follows_def project_holding_state_from_transactions_def)
  moreover have "set (list_holdings_for_symbol w u s m) = set (tselect (of_symbol u s m) (holdings w))"
    by (simp add: list_holdings_for_symbol_def)
  then have "\<forall>(i, h) \<in> set (list_holdings_for_symbol w u s m). of_symbol u s m h"
    by (auto simp: tselect_def)
  ultimately have "\<forall>q \<in> set (list_holdings_for_symbol w u s m).
      (\<lambda>(i, h). ensure_transaction_baseline_from_holding_snapshot env h) q w = w"
    by (auto simp: ensure_transaction_baseline_from_holding_snapshot_def)
  then show ?thesis by (rule fold_id)
qed simp

lemma create_transaction_follows:
  assumes all: "holdings_follow w" and res: "create_holding_transaction p key env w = Inr (r, w')"
  shows "holdings_follow w'"
proof -
  have applied: "holdings_follow w1" if a: "apply_holding_transaction p env w = Inr (k, w1)" for k w1
  proof -
    from a obtain sy q pr ccy where
      "enter_transaction p env (transaction_row p env sy q pr ccy)
         (fold (\<lambda>(i, h). ensure_transaction_baseline_from_holding_snapshot env h)
             (list_holdings_for_symbol w (en_user env) sy (txc_market p)) w) = Inr (k, w1)"
      by (auto simp: apply_holding_transaction_def Let_def bindE_eq_Inr)
    moreover have "holding_follows w (en_user env) sy (txc_market p)" using all by (simp add: holdings_follow_def)
    ultimately have "enter_transaction p env (transaction_row p env sy q pr ccy) w = Inr (k, w1)"
      by (simp add: ensure_baselines_id)
    from enter_transaction_follows [OF all this] show ?thesis by (simp add: transaction_row_def)
  qed
  from res show ?thesis
  proof (cases rule: create_transaction_cases)
    case (fresh k w1)
    have "writes (en_user env) {T_idem_keys, T_dashboards} w1 w'"
      unfolding fresh(4) by (intro writes_onto writes_refl) simp_all
    from follow_writes [OF applied [OF fresh(2)] this] show ?thesis by simp
  qed (use all applied in auto)
qed

lemma reverse_follows:
  assumes "holdings_follow w" "reverse_holding_transaction_cash_settlement env x w = Inr (r, w')"
  shows "holdings_follow w'" "holdings w' = holdings w" "transactions w' = transactions w"
proof -
  note wr = reverse_settlement_writes [OF assms(2) follow_wf [OF assms(1)]]
  show "holdings_follow w'" using follow_writes [OF assms(1) wr] by simp
  show "holdings w' = holdings w" "transactions w' = transactions w"
    using writes_frame [OF wr follow_wf [OF assms(1)]] by simp_all
qed

lemma update_transaction_follows:
  assumes all: "holdings_follow w" and res: "update_holding_transaction x p env w = Inr (r, w')"
  shows "holdings_follow w'"
proof -
  let ?u = "en_user env"
  note wf = follow_wf [OF all]
  from res obtain tx0 original reversed w1 q pr h w3 sh affected w4 where
    own: "owned_transaction env x w = Inr tx0"
    and rv: "reverse_holding_transaction_cash_settlement env x w = Inr (reversed, w1)"
    and s: "sync_holding_projection_for_symbol env ?u
       (tx_symbol (updated_transaction p env q pr tx0)) (tx_market (updated_transaction p env q pr tx0))
       (w1\<lparr>transactions := tput x (updated_transaction p env q pr tx0) (transactions w1)\<rparr>) = Inr (h, w3)"
    and c: "(case tx_side (updated_transaction p env q pr tx0) of
         SELL \<Rightarrow> bindE (resettle_sell p env x (updated_transaction p env q pr tx0) original w3) (\<lambda>(h, affected, w4).
           Inr (Some h, or_else affected reversed, w4))
       | BUY \<Rightarrow> bindE (resettle_buy p env x (updated_transaction p env q pr tx0) original w3) (\<lambda>(affected, w4).
           Inr (None, or_else affected reversed, w4))
       | ADJUST \<Rightarrow> Inr (None, reversed, w3)) = Inr (sh, affected, w4)"
    and f: "finish_trade env (tx_symbol (updated_transaction p env q pr tx0))
       (record_asset_mutation env HOLDING_TRANSACTION (Some x) UPDATE
           (Some (TransactionState x tx0)) (transaction_state w4 x) None w4) = Inr w'"
    unfolding update_holding_transaction_def Let_def by (auto simp: bindE_eq_Inr)
  define tx where "tx = updated_transaction p env q pr tx0"
  let ?w2 = "w1\<lparr>transactions := tput x tx (transactions w1)\<rparr>"
  from owned_transactionD [OF own] have t0: "tget (transactions w) x = Some tx0" "tx_user tx0 = ?u" by simp_all
  note r = reverse_follows [OF all rv]
  have tx: "trade_of_symbol ?u (tx_symbol tx) (tx_market tx) tx0" "tx_user tx = ?u"
    by (simp_all add: tx_def updated_transaction_def t0)
  have "writes ?u UNIV w1 ?w2"
    by (intro writes_put writes_refl) (simp_all add: own_row_def r t0 tx)
  then have wf2: "world_wf ?w2" by (rule writes_wf) (rule follow_wf [OF r(1)])
  have 3: "holdings_follow w3"
    by (rule follow_sync [OF all wf2 _ _ s [folded tx_def]])
      (auto intro!: r_into_rtranclp row_write.put simp: r t0 tx)
  have "writes ?u CASH w3 w4"
    using c by (cases "tx_side (updated_transaction p env q pr tx0)")
      (auto simp: bindE_eq_Inr dest: resettle_writes [OF _ follow_wf [OF 3]])
  from follow_writes [OF 3 this] have 4: "holdings_follow w4" by simp
  have "writes ?u FINISH w4 w'"
    using finish_trade_writes [OF f] by (rule writes_trans [rotated]) (intro writes_onto writes_refl, simp)
  from follow_writes [OF 4 this] show ?thesis by simp
qed

lemma delete_transaction_follows:
  assumes all: "holdings_follow w" and res: "delete_holding_transaction x env w = Inr w'"
  shows "holdings_follow w'"
proof -
  let ?u = "en_user env"
  from res obtain tx reversed w1 h w4 where own: "owned_transaction env x w = Inr tx"
    and rv: "reverse_holding_transaction_cash_settlement env x w = Inr (reversed, w1)"
    and s: "sync_holding_projection_for_symbol env ?u (tx_symbol tx) (tx_market tx)
       (record_asset_mutation env HOLDING_TRANSACTION (Some x) DELETE
           (Some (TransactionState x tx)) None None (w1\<lparr>transactions := tdel x (transactions w1)\<rparr>)) = Inr (h, w4)"
    and f: "finish_trade env (tx_symbol tx) w4 = Inr w'"
    unfolding delete_holding_transaction_def Let_def by (auto simp: bindE_eq_Inr)
  note r = reverse_follows [OF all rv] and t0 = owned_transactionD [OF own]
  have "writes ?u UNIV w1 (record_asset_mutation env HOLDING_TRANSACTION (Some x) DELETE
           (Some (TransactionState x tx)) None None (w1\<lparr>transactions := tdel x (transactions w1)\<rparr>))"
    by (intro writes_onto writes_del writes_refl) (simp_all add: own_row_def r t0)
  then have wf2: "world_wf (record_asset_mutation env HOLDING_TRANSACTION (Some x) DELETE
           (Some (TransactionState x tx)) None None (w1\<lparr>transactions := tdel x (transactions w1)\<rparr>))"
    by (rule writes_wf) (rule follow_wf [OF r(1)])
  have 4: "holdings_follow w4"
    by (rule follow_sync [OF all wf2 _ _ s]) (auto intro!: r_into_rtranclp row_write.del simp: r t0)
  from follow_writes [OF 4 finish_trade_writes [OF f]] show ?thesis by simp
qed

section \<open>Holdings\<close>

lemma reverse_sells_follow:
  "foldE (reverse_if_sell env) txs w = Inr w' \<Longrightarrow> holdings_follow w \<Longrightarrow>
   holdings_follow w' \<and> holdings w' = holdings w \<and> transactions w' = transactions w"
proof (induction txs arbitrary: w)
  case (Cons q txs)
  then obtain w1 where r: "reverse_if_sell env q w = Inr w1" and rest: "foldE (reverse_if_sell env) txs w1 = Inr w'"
    by (auto simp: bindE_eq_Inr)
  have "holdings_follow w1 \<and> holdings w1 = holdings w \<and> transactions w1 = transactions w"
    using r Cons.prems(2) reverse_follows [OF Cons.prems(2), of env "fst q"]
    by (auto simp: reverse_if_sell_def bindE_eq_Inr split: if_splits)
  with Cons.IH [OF rest] show ?case by auto
qed simp

lemma trades_iff:
  "world_wf w \<Longrightarrow> (k, t) \<in> set (transactions_latest_first w u s m) \<longleftrightarrow>
     tget (transactions w) k = Some t \<and> trade_of_symbol u s m t"
  by (simp add: transactions_latest_first_iff world_wf_tables)

lemma finish_trade_frame:
  "finish_trade env sy x = Inr w' \<Longrightarrow> holdings w' = holdings x \<and> transactions w' = transactions x"
  by (auto simp: finish_trade_def finish_request_def bindE_eq_Inr elim!: enqueue_rebuild_result)

lemma sort_key_single: "sort_key f xs = [y] \<Longrightarrow> xs = [y]"
  by (metis mset_single_iff mset_sort mset_single_iff_right)

lemma delete_holding_follows:
  assumes all: "holdings_follow w" and res: "delete_holding i env w = Inr w'"
  shows "holdings_follow w'"
proof -
  let ?u = "en_user env"
  from res obtain h txs w1 where own: "owned_holding env i w = Inr h"
    and d: "reverse_and_delete_holding_transactions_for_symbol env (sh_symbol h) (sh_market h) w = Inr (txs, w1)"
    and f: "finish_trade env (sh_symbol h) (record_asset_mutation env HOLDING (Some i) DELETE
           (Some (HoldingState i h)) None None ((fold (audit_deleted_transaction env i) txs w1)
           \<lparr>holdings := tdel i (holdings (fold (audit_deleted_transaction env i) txs w1))\<rparr>)) = Inr w'"
    by (auto simp: delete_holding_def Let_def bindE_eq_Inr)
  let ?s = "sh_symbol h" and ?m = "sh_market h"
  let ?w2 = "fold (audit_deleted_transaction env i) txs w1"
  let ?w3 = "record_asset_mutation env HOLDING (Some i) DELETE (Some (HoldingState i h)) None None
    (?w2\<lparr>holdings := tdel i (holdings ?w2)\<rparr>)"
  note wf = follow_wf [OF all]
  have h: "tget (holdings w) i = Some h" "sh_user h = ?u"
    using own by (auto simp: owned_holding_def split: option.splits if_splits)
  have wf': "world_wf w'" by (rule writes_wf [OF delete_holding_writes [OF res wf] wf])
  have aud: "holdings ?w2 = holdings w1" "transactions ?w2 = transactions w1"
    by (induction txs arbitrary: w1) (auto simp: audit_deleted_transaction_def)
  have w3: "holdings ?w3 = tdel i (holdings w1)" "transactions ?w3 = transactions w1" by (simp_all add: aud)
  have one: "holdings w1 = holdings w \<and> transactions w1
      = tdel_ids (map fst (transactions_latest_first w ?u ?s ?m)) (transactions w)"
    using d reverse_sells_follow [OF _ all]
    by (auto simp: reverse_and_delete_holding_transactions_for_symbol_def Let_def bindE_eq_Inr
        drop_transactions_def tdel_ids_def split: if_splits)
  have hw: "holdings w' = tdel i (holdings w)" "transactions w' =
      tdel_ids (map fst (transactions_latest_first w ?u ?s ?m)) (transactions w)"
    using finish_trade_frame [OF f] w3 one by simp_all
  show ?thesis
  proof (rule follow_after_sync [OF all _ _ wf' refl])
    show "row_writes (trade_of_symbol ?u ?s ?m) (transactions w) (transactions w')"
      unfolding hw using trades_iff [OF wf, of _ _ ?u ?s ?m] by (intro row_writes_del_ids) fastforce
    show "row_writes (of_symbol ?u ?s ?m) (holdings w) (holdings w')"
      unfolding hw using h by (intro r_into_rtranclp row_write.del) simp
    have "transactions_for_symbol w' ?u ?s ?m = []"
      unfolding transactions_for_symbol_def hw
      using trades_iff [OF wf, of _ _ ?u ?s ?m] world_wf_tables(5) [OF wf]
      by (subst tbl.select_empty_iff) (force simp: tget_tdel_ids split: if_splits)+
    moreover have "list_holdings_for_symbol w' ?u ?s ?m = []"
    proof -
      have "row_follows (project_holding_state_from_transactions w ?u ?s ?m) (list_holdings_for_symbol w ?u ?s ?m)"
        using all by (simp add: holdings_follow_def holding_follows_def)
      then obtain j g where "list_holdings_for_symbol w ?u ?s ?m = [(j, g)]"
        using existing_iff [OF wf, of i h ?u ?s ?m] h
        by (cases rule: row_follows_cases) auto
      then have "tselect (of_symbol ?u ?s ?m) (holdings w) = [(i, h)]"
        using existing_iff [OF wf, of i h ?u ?s ?m] h
        by (auto simp: list_holdings_for_symbol_def dest!: sort_key_single)
      then show ?thesis unfolding list_holdings_for_symbol_def hw by (simp add: tbl.select_del)
    qed
    ultimately show "holding_follows w' ?u ?s ?m"
      by (simp add: holding_follows_def row_follows_def project_holding_state_from_transactions_def)
  qed
qed

section \<open>Broker and note do not matter\<close>

definition core :: "projected_state \<Rightarrow> projected_state" where
  "core st = st\<lparr>ps_broker := None, ps_note := None\<rparr>"

definition bare :: "holding_transaction \<Rightarrow> holding_transaction" where
  "bare t = t\<lparr>tx_broker := None, tx_note := None, tx_updated_at := 0\<rparr>"

definition bare_row :: "security_holding \<Rightarrow> security_holding" where
  "bare_row h = h\<lparr>sh_broker := None, sh_note := None, sh_updated_at := 0\<rparr>"

lemma core_eqD:
  assumes "core st = core st'"
  shows "ps_symbol st = ps_symbol st'" "ps_name st = ps_name st'" "ps_market st = ps_market st'"
    "ps_fallback_currency st = ps_fallback_currency st'" "ps_lots st = ps_lots st'"
  using assms by (cases st; cases st'; simp add: core_def)+

lemma bare_eqD:
  assumes "bare t = bare t'"
  shows "tx_user t = tx_user t'" "tx_symbol t = tx_symbol t'" "tx_name t = tx_name t'" "tx_side t = tx_side t'"
    "tx_quantity t = tx_quantity t'" "tx_price t = tx_price t'" "tx_fallback_currency t = tx_fallback_currency t'"
    "tx_market t = tx_market t'" "tx_traded_on t = tx_traded_on t'" "tx_created_at t = tx_created_at t'"
  using assms by (cases t; cases t'; simp add: bare_def)+

lemma core_eqI:
  "ps_symbol st = ps_symbol st' \<Longrightarrow> ps_name st = ps_name st' \<Longrightarrow> ps_market st = ps_market st' \<Longrightarrow>
   ps_fallback_currency st = ps_fallback_currency st' \<Longrightarrow> ps_lots st = ps_lots st' \<Longrightarrow> core st = core st'"
  by (cases st; cases st'; simp add: core_def)

definition bare_pair :: "nat \<times> holding_transaction \<Rightarrow> nat \<times> holding_transaction" where
  "bare_pair q = (fst q, bare (snd q))"

lemma bare_pair_simp [simp]: "bare_pair (i, t) = (i, bare t)"
  by (simp add: bare_pair_def)

definition core_result :: "error + projected_state \<Rightarrow> error + projected_state" where
  "core_result m = bindE m (\<lambda>st. Inr (core st))"

definition core_option :: "error + projected_state option \<Rightarrow> error + projected_state option" where
  "core_option m = bindE m (\<lambda>st. Inr (map_option core st))"

lemma core_result_simps [simp]: "core_result (Inl e) = Inl e" "core_result (Inr st) = Inr (core st)"
  by (simp_all add: core_result_def)

lemma core_option_simps [simp]: "core_option (Inl e) = Inl e" "core_option (Inr x) = Inr (map_option core x)"
  by (simp_all add: core_option_def)

lemma apply_core:
  assumes "core st = core st'" "bare t = bare t'"
  shows "core_result (apply_holding_transaction_to_state st t)
    = core_result (apply_holding_transaction_to_state st' t')"
  using assms(1) core_eqD [OF assms(1)] bare_eqD [OF assms(2)]
  by (auto simp: apply_holding_transaction_to_state_def Let_def split: side.split prod.split intro!: core_eqI)

lemma replay_core:
  assumes "core st = core st'" "map (bare_pair) txs = map (bare_pair) txs'"
  shows "core_result (foldE (\<lambda>(j, tx) st. apply_holding_transaction_to_state st tx) txs st)
    = core_result (foldE (\<lambda>(j, tx) st. apply_holding_transaction_to_state st tx) txs' st')"
  using assms
proof (induction txs arbitrary: st st' txs')
  case (Cons q txs)
  then obtain q' rest' where txs': "txs' = q' # rest'" by (cases txs') auto
  obtain j t where q: "q = (j, t)" by (cases q)
  obtain j' t' where q': "q' = (j', t')" by (cases q')
  from Cons.prems txs' q q' have b: "bare t = bare t'" "map (bare_pair) txs = map (bare_pair) rest'"
    by auto
  have j: "j = j'" using Cons.prems(2) txs' q q' by simp
  show ?case
    using apply_core [OF Cons.prems(1) b(1)] Cons.IH [OF _ b(2)]
    by (cases "apply_holding_transaction_to_state st t"; cases "apply_holding_transaction_to_state st' t'")
      (auto simp: txs' q q')
qed simp

lemma core_result_cases:
  assumes "core_result x = core_result y"
  obtains (error) e where "x = Inl e" "y = Inl e" | (result) a b where "x = Inr a" "y = Inr b" "core a = core b"
  using assms by (cases x; cases y) auto

lemma insort_key_map: "(\<And>x. k (f x) = k x) \<Longrightarrow> map f (insort_key k x xs) = insort_key k (f x) (map f xs)"
  by (induction xs) auto

lemma sort_key_map: "(\<And>x. k (f x) = k x) \<Longrightarrow> map f (sort_key k xs) = sort_key k (map f xs)"
  by (induction xs) (simp_all add: insort_key_map)

lemma project_core:
  assumes "map (bare_pair) txs = map (bare_pair) txs'"
  shows "core_option (project_holding_state_from_sorted_transactions txs s m)
    = core_option (project_holding_state_from_sorted_transactions txs' s m)"
proof -
  let ?k = holding_transaction_sort_key
  have "?k (bare_pair x) = ?k x" for x
    by (cases x) (simp add: holding_transaction_sort_key_def holding_transaction_event_at_def bare_def)
  then have e: "map (bare_pair) (sort_key ?k txs) = map (bare_pair) (sort_key ?k txs')"
    by (simp add: sort_key_map assms)
  show ?thesis
  proof (cases "sort_key ?k txs")
    case Nil
    with e have "sort_key ?k txs' = []" by simp
    with Nil show ?thesis by (simp add: project_holding_state_from_sorted_transactions_def)
  next
    case (Cons q rest)
    with e obtain q' rest' where ne: "sort_key ?k txs' = q' # rest'" by (cases "sort_key ?k txs'") auto
    obtain i f where q: "q = (i, f)" by (cases q)
    obtain i' f' where q': "q' = (i', f')" by (cases q')
    from e Cons ne q q' have b: "bare f = bare f'" by simp
    have i: "core (initial_projected_state s m f) = core (initial_projected_state s m f')"
      using bare_eqD [OF b] by (intro core_eqI) (simp_all add: initial_projected_state_def)
    note r = replay_core [OF i e, unfolded Cons ne q q']
    have qq: "core a = core b \<Longrightarrow> projected_holding_quantity a = projected_holding_quantity b" for a b
      using core_eqD(5) [of a b] by (simp add: projected_holding_quantity_def)
    from r show ?thesis
    proof (cases rule: core_result_cases)
      case (error e)
      with Cons ne q q' show ?thesis by (simp add: project_holding_state_from_sorted_transactions_def)
    next
      case (result a b)
      show ?thesis
        using result Cons ne q q' qq [OF result(3)]
        by (cases "projected_holding_quantity b")
          (simp_all add: project_holding_state_from_sorted_transactions_def)
    qed
  qed
qed

text \<open>Rewriting a row without changing what the projection reads.\<close>

lemma select_put_same:
  assumes "twf t" "tget t k = Some r0" "f r = f r0" "\<And>x y. f x = f y \<Longrightarrow> P x = P y"
  shows "map (\<lambda>q. (fst q, f (snd q))) (tselect P (tput k r t)) = map (\<lambda>q. (fst q, f (snd q))) (tselect P t)"
proof -
  have "\<forall>q \<in> set (rows t). fst q = k \<longrightarrow> snd q = r0"
    using assms(1,2) by (auto simp: twf_def tget_def dest!: map_of_SomeD dest: eq_key_imp_eq_value)
  moreover have "P r = P r0" using assms(3,4) by blast
  ultimately have "map (\<lambda>q. (fst q, f (snd q)))
      (filter (\<lambda>(j, x). P x) (map (\<lambda>(j, x). if j = k then (j, r) else (j, x)) xs))
    = map (\<lambda>q. (fst q, f (snd q))) (filter (\<lambda>(j, x). P x) xs)" if "set xs \<subseteq> set (rows t)" for xs
    using that assms(3) by (induction xs) (auto split: if_splits)
  then show ?thesis by (simp add: tselect_def tput_def)
qed

lemma row_follows_core:
  assumes "core_option pr = core_option pr'" "map (\<lambda>q. (fst q, bare_row (snd q))) ex = map (\<lambda>q. (fst q, bare_row (snd q))) ex'"
    "row_follows pr' ex'"
  shows "row_follows pr ex"
  using assms(3)
proof (cases rule: row_follows_cases)
  case gone
  with assms show ?thesis by (cases pr) (auto simp: row_follows_def)
next
  case (row st' i h')
  with assms obtain st h where st: "pr = Inr (Some st)" "core st = core st'" and h: "ex = [(i, h)]" "bare_row h = bare_row h'"
    by (cases pr) auto
  from h(2) have "sh_quantity h = sh_quantity h'" "sh_cost_basis_price h = sh_cost_basis_price h'"
    "sh_started_on h = sh_started_on h'" "sh_name h = sh_name h'" "sh_fallback_currency h = sh_fallback_currency h'"
    by (cases h; cases h'; simp add: bare_row_def)+
  moreover have "projected_holding_quantity st = projected_holding_quantity st'"
    "projected_holding_cost_basis st = projected_holding_cost_basis st'"
    "projected_holding_started_on st = projected_holding_started_on st'"
    using core_eqD(5) [OF st(2)]
    by (simp_all only: projected_holding_quantity_def projected_holding_cost_basis_def projected_holding_started_on_def)
  ultimately show ?thesis using assms(3) row st h core_eqD [OF st(2)] by (simp add: row_follows_def)
qed

lemma follows_bare:
  assumes "holding_follows w u s m"
    and t: "map bare_pair (transactions_for_symbol w' u s m) = map bare_pair (transactions_for_symbol w u s m)"
    and h: "map (\<lambda>q. (fst q, bare_row (snd q))) (list_holdings_for_symbol w' u s m)
      = map (\<lambda>q. (fst q, bare_row (snd q))) (list_holdings_for_symbol w u s m)"
  shows "holding_follows w' u s m"
proof -
  from t have "transactions_for_symbol w' u s m = [] \<longleftrightarrow> transactions_for_symbol w u s m = []"
    by (metis Nil_is_map_conv)
  then have "core_option (project_holding_state_from_transactions w' u s m)
      = core_option (project_holding_state_from_transactions w u s m)"
    using project_core [OF t] by (simp add: project_holding_state_from_transactions_def Let_def)
  from row_follows_core [OF this h] assms(1) show ?thesis by (simp add: holding_follows_def)
qed

lemma touch_latest_bare:
  assumes "world_wf w"
  shows "map bare_pair (transactions_for_symbol (touch_latest_transaction p env h w) u s m)
    = map bare_pair (transactions_for_symbol w u s m)" "holdings (touch_latest_transaction p env h w) = holdings w"
proof -
  show "holdings (touch_latest_transaction p env h w) = holdings w"
    by (simp add: touch_latest_transaction_def split: option.split prod.split)
  show "map bare_pair (transactions_for_symbol (touch_latest_transaction p env h w) u s m)
    = map bare_pair (transactions_for_symbol w u s m)"
  proof (cases "get_latest_holding_transaction_for_symbol w (en_user env) (sh_symbol h) (sh_market h)")
    case None
    then show ?thesis by (simp add: touch_latest_transaction_def)
  next
    case (Some q)
    obtain k e where q: "q = (k, e)" by (cases q)
    with Some have "(k, e) \<in> set (transactions_latest_first w (en_user env) (sh_symbol h) (sh_market h))"
      by (auto simp: get_latest_holding_transaction_for_symbol_def split: list.splits)
    then have e: "tget (transactions w) k = Some e" using trades_iff [OF assms] by simp
    have pair: "bare_pair = (\<lambda>q. (fst q, bare (snd q)))" by (rule ext) (simp add: bare_pair_def)
    have "map bare_pair (tselect (trade_of_symbol u s m) (tput k e' (transactions w)))
        = map bare_pair (tselect (trade_of_symbol u s m) (transactions w))" if "bare e' = bare e" for e'
      unfolding pair using world_wf_tables(5) [OF assms] e that
      by (rule select_put_same) (metis bare_eqD(1,2,8))
    with Some q show ?thesis
      by (simp add: touch_latest_transaction_def transactions_for_symbol_def bare_def)
  qed
qed

lemma bare_row_eqD:
  assumes "bare_row h = bare_row h'"
  shows "of_symbol u s m h \<longleftrightarrow> of_symbol u s m h'"
  using assms by (cases h; cases h') (simp add: bare_row_def)

lemma update_holding_follows:
  assumes all: "holdings_follow w" and res: "update_holding i p env w = Inr (r, w')"
    and keep: "\<not> creates_adjustment p"
  shows "holdings_follow w'"
proof -
  note wf = follow_wf [OF all]
  from res keep obtain h where s: "save_holding_edit p env i h i w = Inr (r, w')"
    by (auto simp: update_holding_def bindE_eq_Inr Let_def)
  then obtain h1 where h1: "tget (holdings w) i = Some h1"
    by (auto simp: save_holding_edit_def split: option.splits)
  define h2 where "h2 = h1\<lparr>sh_broker := text_field (hou_broker p) (sh_broker h1),
               sh_note := text_field (hou_note p) (sh_note h1), sh_updated_at := en_now env\<rparr>"
  let ?w1 = "w\<lparr>holdings := tput i h2 (holdings w)\<rparr>"
  from s h1 keep have w': "holdings w' = holdings (touch_latest_transaction p env h2 ?w1)"
    "transactions w' = transactions (touch_latest_transaction p env h2 ?w1)"
    unfolding save_holding_edit_def Let_def h2_def [symmetric] by (auto simp: bindE_eq_Inr h2_def)
  have wf1: "world_wf ?w1" using wf by (simp add: world_wf_def)
  have wf': "world_wf w'" by (rule writes_wf [OF update_holding_writes [OF res wf] wf])
  have "bare_row h2 = bare_row h1" by (simp add: h2_def bare_row_def)
  then have hs: "map (\<lambda>q. (fst q, bare_row (snd q))) (tselect (of_symbol u s m) (tput i h2 (holdings w)))
      = map (\<lambda>q. (fst q, bare_row (snd q))) (tselect (of_symbol u s m) (holdings w))" for u s m
    using world_wf_tables(4) [OF wf] h1 by (intro select_put_same) (auto dest: bare_row_eqD)
  have "holding_follows w' u s m" for u s m
  proof (rule follows_bare)
    show "holding_follows w u s m" using all by (simp add: holdings_follow_def)
    show "map bare_pair (transactions_for_symbol w' u s m) = map bare_pair (transactions_for_symbol w u s m)"
      using touch_latest_bare(1) [OF wf1, of p env h2 u s m] w'(2) by (simp add: transactions_for_symbol_def)
    show "map (\<lambda>q. (fst q, bare_row (snd q))) (list_holdings_for_symbol w' u s m)
      = map (\<lambda>q. (fst q, bare_row (snd q))) (list_holdings_for_symbol w u s m)"
      unfolding list_holdings_for_symbol_def w'(1) touch_latest_bare(2) [OF wf1]
      using hs [of u s m] by (simp add: sort_key_map)
  qed
  with wf' show ?thesis by (simp add: holdings_follow_def)
qed

section \<open>Every request\<close>

fun edits_quantities :: "api_request \<Rightarrow> bool" where
  \<comment> \<open>the requests that set a holding's quantity, cost or start directly\<close>
  "edits_quantities (CreateHolding p) = True"
| "edits_quantities (UpdateHolding i p) = creates_adjustment p"
| "edits_quantities _ = False"

lemma holding_routes_follow:
  "holding_routes env q w = Inr w' \<Longrightarrow> holdings_follow w \<Longrightarrow> \<not> edits_quantities q \<Longrightarrow> holdings_follow w'"
  by (cases q) (auto intro: update_holding_follows delete_holding_follows create_transaction_follows
      update_transaction_follows delete_transaction_follows)

lemma handle_follows:
  assumes "handle env q w = Inr w'" "holdings_follow w" "\<not> edits_quantities q"
  shows "holdings_follow w'"
proof -
  from assms(1) obtain w1 w2 where r: "account_routes env q w = Inr w1" "holding_routes env q w1 = Inr w2"
    "asset_routes env q w2 = Inr w'"
    by (auto simp: handle_def bindE_eq_Inr)
  have "holdings_follow w1"
    using follow_writes [OF assms(2) account_routes_cash [OF r(1) follow_wf [OF assms(2)]]] by simp
  then have "holdings_follow w2" by (rule holding_routes_follow [OF r(2) _ assms(3)])
  from follow_writes [OF this asset_routes_assets [OF r(3)]] show ?thesis by simp
qed

definition trade_request :: "env \<times> api_request \<Rightarrow> bool" where
  "trade_request p \<longleftrightarrow> \<not> edits_quantities (snd p)"

definition serve_trade :: "env \<times> api_request \<Rightarrow> world \<Rightarrow> world" where
  "serve_trade p w = (if trade_request p then serve p w else w)"

interpretation portfolio: invariant_service serve_trade holdings_follow
  by unfold_locales (auto simp: serve_trade_def trade_request_def serve_def handle_follows split: sum.split)

lemma holdings_follow_empty: "holdings_follow empty_world"
proof -
  have "holdings empty_world = empty_table" "transactions empty_world = empty_table"
    by (simp_all add: empty_world_def)
  then show ?thesis
    by (simp add: holdings_follow_def world_wf_empty holding_follows_def row_follows_def
        project_holding_state_from_transactions_def transactions_for_symbol_def list_holdings_for_symbol_def)
qed

lemma fold_serve_trade: "fold serve_trade qs w = fold serve (filter trade_request qs) w"
  by (induction qs arbitrary: w) (simp_all add: serve_trade_def)

lemma holdings_follow_trades: "holdings_follow (fold serve (filter trade_request qs) empty_world)"
  using portfolio.run_inv [OF holdings_follow_empty, of qs] by (simp add: fold_serve_trade)

end
