(* ===== verification/Cash_Properties.thy ===== *)
theory Cash_Properties
  imports Ledger_Properties Projection
begin

text \<open>
  Properties of single cash requests: adjustments undo cleanly, a deleted account leaves nothing
  behind, trades move exactly their proceeds or cost, and replays under an idempotency key are
  harmless.
\<close>

section \<open>Posting one entry\<close>

lemma entry_then_sync:
  assumes inv: "cash_inv w" and a: "tget (accounts w) i = Some a" "ca_user a = u"
    and c: "create_cash_ledger_entry env u i ty amount cur d nt x t w = Inr (k, w1)"
    and s: "sync_cash_account_balance_from_ledger env i w1 = Inr w2"
    and small: "exposure w u i + \<bar>amount\<bar> < 10 ^ PREC"
  obtains e where "ledger w2 = snd (tinsert e (ledger w))" "k = fst (tinsert e (ledger w))"
    "le_user e = u" "le_account e = i" "le_amount e = amount" "le_type e = ty"
    "accounts w2 = tput i (a\<lparr>ca_balance := ca_balance a + amount, ca_updated_at := en_now env\<rparr>) (accounts w)"
proof -
  obtain e where w1: "w1 = w\<lparr>ledger := snd (tinsert e (ledger w))\<rparr>" "k = fst (tinsert e (ledger w))"
    and e: "le_user e = u" "le_account e = i" "le_amount e = amount" "le_type e = ty"
    using c by (rule create_entry_result) simp
  have "ledger_sum w1 u i = Inr (entry_total w u i + amount)"
    using ledger_sum_exact [of w1 u i] small by (simp add: w1 entry_total_insert e)
  moreover have "entry_total w u i = ca_balance a"
    using balance_exact [OF inv a(1)] a(2) small by simp
  ultimately have w2: "w2 = w1\<lparr>accounts := tput i (a\<lparr>ca_balance := ca_balance a + amount,
      ca_updated_at := en_now env\<rparr>) (accounts w)\<rparr>"
    using s a w1 by (auto elim!: sync_result)
  show ?thesis by (rule that [of e]) (simp_all add: w2 w1 e)
qed

text \<open>Deleting an entry and synchronising its account.\<close>

lemma delete_then_sync:
  assumes inv: "cash_inv w" and e: "tget (ledger w) k = Some e" and i: "le_account e = i"
    and a: "tget (accounts w) i = Some a" "ca_user a = le_user e"
    and s: "sync_cash_account_balance_from_ledger env i (w\<lparr>ledger := tdel k (ledger w)\<rparr>) = Inr w2"
    and small: "exposure w (le_user e) i < 10 ^ PREC"
  shows "accounts w2 = tput i (a\<lparr>ca_balance := ca_balance a - le_amount e, ca_updated_at := en_now env\<rparr>) (accounts w)
    \<and> ledger w2 = tdel k (ledger w)"
proof -
  have wf: "twf (ledger w)" using inv cash_ok_wf by (auto simp: cash_inv_def)
  let ?w = "w\<lparr>ledger := tdel k (ledger w)\<rparr>"
  have "exposure ?w (le_user e) i < 10 ^ PREC" "entry_total ?w (le_user e) i = entry_total w (le_user e) i - le_amount e"
    using entry_total_del [OF wf e] small by (simp_all add: i)
  then have "ledger_sum ?w (le_user e) i = Inr (entry_total w (le_user e) i - le_amount e)"
    using ledger_sum_exact by metis
  moreover have "entry_total w (le_user e) i = ca_balance a"
    using balance_exact [OF inv a(1)] a(2) small by simp
  ultimately show ?thesis using s a by (auto elim!: sync_result)
qed

section \<open>Manual adjustments\<close>

lemma apply_adjustment_effect:
  assumes inv: "cash_inv w" and res: "apply_cash_ledger_adjustment p env w = Inr (r, w')"
    and small: "exposure w (en_user env) (adc_account p) + \<bar>adc_amount p\<bar> < 10 ^ PREC"
  obtains a e where "tget (accounts w) (adc_account p) = Some a" "ca_user a = en_user env"
    "ledger w' = snd (tinsert e (ledger w))" "ler_id (aar_entry r) = fst (tinsert e (ledger w))"
    "le_user e = en_user env" "le_account e = adc_account p" "le_amount e = adc_amount p"
    "accounts w' = tput (adc_account p) (a\<lparr>ca_balance := ca_balance a + adc_amount p,
       ca_updated_at := en_now env\<rparr>) (accounts w)"
proof -
  obtain a k w1 w2 where a: "tget (accounts w) (adc_account p) = Some a" "ca_user a = en_user env"
    and c: "create_cash_ledger_entry env (en_user env) (adc_account p) MANUAL_ADJUSTMENT (adc_amount p)
       (ca_currency a) (adc_happened_on p) (Some (note_or (adc_note p) manual_adjustment_note)) None None w
     = Inr (k, w1)"
    and s: "sync_cash_account_balance_from_ledger env (adc_account p) w1 = Inr w2"
    and same: "accounts w' = accounts w2" "ledger w' = ledger w2"
    and er: "entry_read k w' = Inr (aar_entry r)"
    using res by (rule apply_adjustment_result)
  from er have "ler_id (aar_entry r) = k"
    by (auto simp: entry_read_def to_cash_ledger_entry_read_def bindE_eq_Inr split: option.splits
      dest!: sym [of _ "aar_entry r"])
  with entry_then_sync [OF inv a c s small] a same that show ?thesis by metis
qed

text \<open>
  A manual adjustment adds its amount to the balance of its account, and deleting it gives the
  account its balance and the ledger its entries back, as long as the sums stay within the
  decimal context.
\<close>

theorem adjustment_round_trip:
  assumes inv: "cash_inv w" and res: "apply_cash_ledger_adjustment p env w = Inr (r, w1)"
    and undo: "delete_cash_ledger_adjustment (ler_id (aar_entry r)) env w1 = Inr w2"
    and small: "exposure w (en_user env) (adc_account p) + \<bar>adc_amount p\<bar> < 10 ^ PREC"
  shows "\<exists>a a1 a2. tget (accounts w) (adc_account p) = Some a
    \<and> tget (accounts w1) (adc_account p) = Some a1 \<and> ca_balance a1 = ca_balance a + adc_amount p
    \<and> tget (accounts w2) (adc_account p) = Some a2 \<and> ca_balance a2 = ca_balance a
    \<and> tget (ledger w2) = tget (ledger w)"
proof -
  let ?i = "adc_account p"
  obtain a e where a: "tget (accounts w) ?i = Some a" "ca_user a = en_user env"
    and l: "ledger w1 = snd (tinsert e (ledger w))" "ler_id (aar_entry r) = fst (tinsert e (ledger w))"
    and e: "le_user e = en_user env" "le_account e = ?i" "le_amount e = adc_amount p"
    and acc: "accounts w1 = tput ?i (a\<lparr>ca_balance := ca_balance a + adc_amount p,
       ca_updated_at := en_now env\<rparr>) (accounts w)"
    using inv res small by (rule apply_adjustment_effect)
  have wf: "twf (ledger w)" using inv cash_ok_wf by (auto simp: cash_inv_def)
  have inv1: "cash_inv w1" by (rule apply_adjustment_inv [OF inv res])
  let ?k = "fst (tinsert e (ledger w))" and ?a1 = "a\<lparr>ca_balance := ca_balance a + adc_amount p, ca_updated_at := en_now env\<rparr>"
  have k: "tget (ledger w1) ?k = Some e" and a1: "tget (accounts w1) ?i = Some ?a1"
    using wf a by (simp_all add: l acc tbl.get_insert tbl.get_put)
  from undo obtain w3 where s: "sync_cash_account_balance_from_ledger env ?i (w1\<lparr>ledger := tdel ?k (ledger w1)\<rparr>) = Inr w3"
    and same: "accounts w2 = accounts w3" "ledger w2 = ledger w3"
    by (auto simp: delete_cash_ledger_adjustment_def bindE_eq_Inr Let_def l(2) e k
        dest!: manual_adjustmentD(1) finish_request_tables)
  have "exposure w1 (le_user e) ?i < 10 ^ PREC"
    using small totals_cong [of w1 "w\<lparr>ledger := snd (tinsert e (ledger w))\<rparr>"]
    by (simp add: l entry_total_insert e)
  from delete_then_sync [OF inv1 k e(2) a1 _ s this] a e
  have w3: "accounts w3 = tput ?i (?a1\<lparr>ca_balance := ca_balance ?a1 - le_amount e, ca_updated_at := en_now env\<rparr>)
      (accounts w1)" "ledger w3 = tdel ?k (ledger w1)" by simp_all
  have "tget (ledger w2) j = tget (ledger w) j" for j
    using wf tbl.fresh [OF wf, of e] by (auto simp: same w3 l tbl.get_del tbl.get_insert)
  then show ?thesis using a a1 w3 same by (auto simp: tbl.get_put e)
qed

definition small_adjustment :: adjustment_create where
  "small_adjustment = \<lparr>adc_account = 1, adc_amount = 500000000, adc_happened_on = 1, adc_note = None\<rparr>"

lemmas eval_adjustment = apply_cash_ledger_adjustment_def delete_cash_ledger_adjustment_def
  get_manual_cash_ledger_adjustment_def entry_read_def to_cash_ledger_entry_read_def account_read_def
  to_cash_account_read_def value_cash_account_def value_amount_def lookup_fx_def account_state_def
  ledger_state_def note_or_def manual_adjustment_note_def

theorem adjustment_round_trip_witness:
  "\<exists>r w1 w2. apply_cash_ledger_adjustment small_adjustment ada two_accounts = Inr (r, w1)
     \<and> delete_cash_ledger_adjustment (ler_id (aar_entry r)) ada w1 = Inr w2
     \<and> tget (ledger w2) = tget (ledger two_accounts)"
proof -
  have "\<exists>r w1 w2. apply_cash_ledger_adjustment small_adjustment ada two_accounts = Inr (r, w1)
     \<and> delete_cash_ledger_adjustment (ler_id (aar_entry r)) ada w1 = Inr w2"
    by (simp add: small_adjustment_def eval_adjustment eval eval_scenario cong: eval_cong
        del: two_accounts_tables scenario_rows One_nat_def)
  then obtain r w1 w2 where r: "apply_cash_ledger_adjustment small_adjustment ada two_accounts = Inr (r, w1)"
    "delete_cash_ledger_adjustment (ler_id (aar_entry r)) ada w1 = Inr w2" by blast
  from adjustment_round_trip [OF two_accounts_inv r] r show ?thesis
    by (auto simp: two_accounts_exposure small_adjustment_def simp del: One_nat_def)
qed


section \<open>Deleting an account\<close>

lemma record_audits_accounts:
  "accounts (fold (\<lambda>k. record_asset_mutation env ty (Some (f k)) op b a r) ks w) = accounts w"
  by (induction ks arbitrary: w) simp_all

lemma audit_affected_accounts: "accounts (fold (audit_affected_account env r) is w) = accounts w"
  by (induction "is" arbitrary: w) (simp_all add: audit_affected_account_def split: option.split)

lemma delete_account_gone: "delete_account i env w = Inr w' \<Longrightarrow> tget (accounts w') i = None"
  by (auto simp: delete_account_def bindE_eq_Inr Let_def case_prod_beta record_audits_accounts
      audit_affected_accounts tbl.get_del dest!: finish_request_tables)

lemma entry_not_on_missing: "entry_ok {} w e \<Longrightarrow> tget (accounts w) i = None \<Longrightarrow> le_account e \<noteq> i"
  by (auto simp: entry_ok_def)

lemma transfer_not_on_missing:
  assumes inv: "cash_inv w" and t: "tget (transfers w) k = Some t" and gone: "tget (accounts w) i = None"
  shows "ct_from t \<noteq> i \<and> ct_to t \<noteq> i"
proof -
  from inv t have legs: "posted_legs w k = transfer_legs t"
    using cash_ok_legsD [of "{}" "{}" "{}" "{}" w k] by (simp add: cash_inv_def legs_ok_def)
  have "fst (snd l) \<noteq> i" if "l \<in> set (posted_legs w k)" for l
  proof -
    from that obtain j e where "(j, e) \<in> set (tselect (\<lambda>e. le_transfer e = Some k) (ledger w))" "l = leg_of e"
      by (auto simp: posted_legs_def)
    with inv have "tget (ledger w) j = Some e" using cash_ok_wf by (auto simp: cash_inv_def tbl.select_iff)
    with inv have "entry_ok {} w e" using cash_ok_entryD by (simp add: cash_inv_def)
    with entry_not_on_missing [OF _ gone] \<open>l = leg_of e\<close> show ?thesis by (simp add: leg_of_def)
  qed
  then have "\<forall>l \<in> set (transfer_legs t). fst (snd l) \<noteq> i" by (simp add: legs)
  then show ?thesis by (simp add: transfer_legs_def)
qed

text \<open>
  C34: deleting an account removes it, every ledger entry on it and every transfer from or to it.
\<close>

theorem deleted_account_leaves_nothing:
  assumes inv: "cash_inv w" and res: "delete_account i env w = Inr w'"
  shows "tget (accounts w') i = None \<and> list_all (\<lambda>(k, e). le_account e \<noteq> i) (rows (ledger w'))
    \<and> list_all (\<lambda>(k, t). ct_from t \<noteq> i \<and> ct_to t \<noteq> i) (rows (transfers w'))"
proof -
  have gone: "tget (accounts w') i = None" using res by (rule delete_account_gone)
  have inv': "cash_inv w'" by (rule delete_account_inv [OF inv res])
  then have wf: "twf (ledger w')" "twf (transfers w')" using cash_ok_wf by (auto simp: cash_inv_def)
  have "list_all (\<lambda>(k, e). le_account e \<noteq> i) (rows (ledger w'))"
    using inv' cash_ok_entryD entry_not_on_missing [OF _ gone]
    by (subst list_all_rows [OF wf(1)]) (auto simp: cash_inv_def)
  moreover have "list_all (\<lambda>(k, t). ct_from t \<noteq> i \<and> ct_to t \<noteq> i) (rows (transfers w'))"
    using transfer_not_on_missing [OF inv' _ gone] by (subst list_all_rows [OF wf(2)]) blast
  ultimately show ?thesis using gone by blast
qed

theorem deleted_account_leaves_nothing_witness:
  "\<exists>w'. delete_account 1 ada two_accounts = Inr w' \<and> tget (accounts w') 1 = None"
proof -
  have "\<exists>w'. delete_account 1 ada two_accounts = Inr w'"
    by (simp add: delete_account_def delete_cash_account_related_transfers_def
        delete_cash_account_related_settlements_def account_state_def ref_def
        eval eval_scenario cong: eval_cong del: two_accounts_tables scenario_rows One_nat_def)
  then obtain w' where "delete_account 1 ada two_accounts = Inr w'" by blast
  with deleted_account_leaves_nothing [OF two_accounts_inv this] show ?thesis by blast
qed

section \<open>Trades and cash\<close>

lemma post_settlement_balance:
  assumes inv: "cash_inv w" and a: "tget (accounts w) i = Some a" "ca_user a = en_user env"
    and res: "post_settlement env td i a ty amount nt reason w = Inr w'"
    and small: "exposure w (en_user env) i + \<bar>amount\<bar> < 10 ^ PREC"
  shows "\<exists>a'. tget (accounts w') i = Some a' \<and> ca_balance a' = ca_balance a + amount
    \<and> ca_user a' = ca_user a"
proof -
  let ?a = "a\<lparr>ca_note := Some (prepend_note_entry (ca_note a) nt)\<rparr>"
  let ?w = "w\<lparr>accounts := tput i ?a (accounts w)\<rparr>"
  from res obtain k w2 w3 where
    c: "create_cash_ledger_entry env (en_user env) i ty amount (ca_currency ?a) (td_traded_on td)
         (Some nt) (Some (td_id td)) None ?w = Inr (k, w2)" and
    s: "sync_cash_account_balance_from_ledger env i w2 = Inr w3" and w': "accounts w' = accounts w3"
    by (auto simp: post_settlement_def Let_def bindE_eq_Inr)
  have inv1: "cash_inv ?w"
    using inv unfolding cash_inv_def
    by (rule cash_put_account [OF _ a(1)]) (use cash_ok_currencyD [OF _ a(1)] inv in \<open>auto simp: cash_inv_def\<close>)
  have "exposure ?w (en_user env) i = exposure w (en_user env) i"
    using totals_cong [of ?w w] by simp
  with small have "exposure ?w (en_user env) i + \<bar>amount\<bar> < 10 ^ PREC" by simp
  from entry_then_sync [OF inv1 _ _ c s this, of ?a] a obtain
    "accounts w3 = tput i (?a\<lparr>ca_balance := ca_balance a + amount, ca_updated_at := en_now env\<rparr>) (accounts ?w)"
    by (auto simp: tbl.get_put)
  with a w' show ?thesis by (simp add: tbl.get_put)
qed


text \<open>
  C24: the proceeds of a sale, quantity times price in the trade's currency, are converted to the
  currency of the chosen account and added to its balance.
\<close>

theorem sale_credits_proceeds:
  assumes inv: "cash_inv w"
    and res: "apply_sell_proceeds_handling env ADD_TO_EXISTING_CASH (Some i) td w = Inr (Some ap, w')"
    and small: "exposure w (en_user env) i + \<bar>ap_amount ap\<bar> < 10 ^ PREC"
  shows "\<exists>a a' gross fx. tget (accounts w) i = Some a \<and> ca_user a = en_user env
    \<and> gross_amount (td_quantity td) (td_price td) = Inr gross
    \<and> convert_cash_amount_between_currencies env gross (td_currency td) (ca_currency a) = Inr (ap_amount ap, fx)
    \<and> tget (accounts w') i = Some a' \<and> ca_balance a' = ca_balance a + ap_amount ap"
proof -
  from res obtain a gross fx nt where a: "tget (accounts w) i = Some a" "ca_user a = en_user env"
    and g: "gross_amount (td_quantity td) (td_price td) = Inr gross"
      "convert_cash_amount_between_currencies env gross (td_currency td) (ca_currency a) = Inr (ap_amount ap, fx)"
    and p: "post_settlement env td i a SELL_PROCEEDS (ap_amount ap) nt (ref ''SELL_PROCEEDS'' (td_id td)) w = Inr w'"
    by (auto simp: apply_sell_proceeds_handling_def add_sell_proceeds_to_existing_cash_account_def bindE_eq_Inr)
  from post_settlement_balance [OF inv a p small] a g show ?thesis by blast
qed

text \<open>
  C25: a purchase that is paid from an account is refused unless the balance covers its cost up to
  one unit of 1e-8, and takes exactly the cost, converted to the account's currency, from it.
\<close>

theorem purchase_debits_cost:
  assumes inv: "cash_inv w" and res: "apply_buy_funding_handling env h (Some i) td w = Inr (Some ap, w')"
    and small: "exposure w (en_user env) i + \<bar>ap_amount ap\<bar> < 10 ^ PREC"
  shows "\<exists>a a' gross fx. tget (accounts w) i = Some a \<and> ca_user a = en_user env
    \<and> gross_amount (td_quantity td) (td_price td) = Inr gross
    \<and> convert_cash_amount_between_currencies env gross (td_currency td) (ca_currency a) = Inr (ap_amount ap, fx)
    \<and> ensure_balance_covers (ca_balance a) (ap_amount ap) = Inr ()
    \<and> tget (accounts w') i = Some a' \<and> ca_balance a' = ca_balance a - ap_amount ap"
proof -
  from res obtain a gross fx nt amount where a: "tget (accounts w) i = Some a" "ca_user a = en_user env"
    and g: "gross_amount (td_quantity td) (td_price td) = Inr gross"
      "convert_cash_amount_between_currencies env gross (td_currency td) (ca_currency a) = Inr (ap_amount ap, fx)"
      "ensure_balance_covers (ca_balance a) (ap_amount ap) = Inr ()"
    and n: "quantize_decimal (dec_neg (of_fixed (ap_amount ap))) = Inr amount"
    and p: "post_settlement env td i a BUY_FUNDING amount nt (ref ''BUY_FUNDING'' (td_id td)) w = Inr w'"
    by (auto simp: apply_buy_funding_handling_def Let_def bindE_eq_Inr split: option.splits if_splits)
  have nonneg: "0 \<le> exposure w (en_user env) i"
    unfolding exposure_def by (rule sum_list_nonneg) auto
  with n small have amount: "amount = - ap_amount ap"
    by (simp add: dec_neg_fixed quantize_decimal_fixed)
  with small have "exposure w (en_user env) i + \<bar>amount\<bar> < 10 ^ PREC" by simp
  from post_settlement_balance [OF inv a p this] a g amount show ?thesis by auto
qed

definition small_trade :: trade where
  "small_trade = \<lparr>td_symbol = lit ''X'', td_name = lit ''X'', td_market = lit ''CN'',
     td_quantity = 100000000, td_price = 200000000, td_currency = lit ''CNY'', td_traded_on = 1, td_id = 1\<rparr>"

lemmas eval_trade = apply_sell_proceeds_handling_def add_sell_proceeds_to_existing_cash_account_def
  apply_buy_funding_handling_def post_settlement_def gross_amount_def ensure_balance_covers_def
  convert_cash_amount_between_currencies_def build_sell_proceeds_note_def build_buy_funding_note_def
  trade_note_def display_g_def account_state_def ref_def prepend_note_entry_def

theorem sale_credits_proceeds_witness:
  "\<exists>ap w' a'. apply_sell_proceeds_handling ada ADD_TO_EXISTING_CASH (Some 2) small_trade two_accounts
      = Inr (Some ap, w') \<and> tget (accounts w') 2 = Some a' \<and> ca_balance a' = 200000000"
proof -
  have "\<exists>ap w'. apply_sell_proceeds_handling ada ADD_TO_EXISTING_CASH (Some 2) small_trade two_accounts
      = Inr (Some ap, w') \<and> ap_amount ap = 200000000"
    by (simp add: small_trade_def eval_trade eval eval_scenario cong: eval_cong
        del: two_accounts_tables scenario_rows One_nat_def)
  then obtain ap w' where r: "apply_sell_proceeds_handling ada ADD_TO_EXISTING_CASH (Some 2) small_trade two_accounts
      = Inr (Some ap, w')" "ap_amount ap = 200000000" by blast
  from sale_credits_proceeds [OF two_accounts_inv r(1)] r show ?thesis
    by (auto simp: two_accounts_exposure simp del: One_nat_def)
qed

theorem purchase_debits_cost_witness:
  "\<exists>ap w' a'. apply_buy_funding_handling ada None (Some 1) small_trade two_accounts
      = Inr (Some ap, w') \<and> tget (accounts w') 1 = Some a' \<and> ca_balance a' = 9800000000"
proof -
  have "\<exists>ap w'. apply_buy_funding_handling ada None (Some 1) small_trade two_accounts
      = Inr (Some ap, w') \<and> ap_amount ap = 200000000"
    by (simp add: small_trade_def eval_trade eval eval_scenario cong: eval_cong
        del: two_accounts_tables scenario_rows One_nat_def)
  then obtain ap w' where r: "apply_buy_funding_handling ada None (Some 1) small_trade two_accounts
      = Inr (Some ap, w')" "ap_amount ap = 200000000" by blast
  from purchase_debits_cost [OF two_accounts_inv r(1)] r show ?thesis
    by (auto simp: two_accounts_exposure simp del: One_nat_def)
qed

end
