(* ===== verification/Trade_Properties.thy ===== *)
theory Trade_Properties
  imports Projection Ledger_Properties
begin

text \<open>Properties of trades as requests.\<close>

lemma reconcile_idem:
  "reconcile_cash_account_initial_ledger_entry env i target w = Inr w' \<Longrightarrow> idem_keys w' = idem_keys w"
  by (auto simp: reconcile_cash_account_initial_ledger_entry_def Let_def bindE_eq_Inr
      elim!: sync_result split: option.splits)

lemma post_idem: "post_settlement env td i a ty amount nt reason w = Inr w' \<Longrightarrow> idem_keys w' = idem_keys w"
  by (auto simp: post_settlement_def Let_def bindE_eq_Inr elim!: sync_result create_entry_result)

lemma proceeds_idem:
  "apply_sell_proceeds_handling env h i td w = Inr (applied, w') \<Longrightarrow> idem_keys w' = idem_keys w"
  by (auto simp: apply_sell_proceeds_handling_def add_sell_proceeds_to_existing_cash_account_def
      create_auto_cash_account_from_sell_def Let_def bindE_eq_Inr
      elim!: sync_result create_entry_result dest!: post_idem reconcile_idem split: option.splits if_splits)

lemma funding_idem:
  "apply_buy_funding_handling env h i td w = Inr (applied, w') \<Longrightarrow> idem_keys w' = idem_keys w"
  by (auto simp: apply_buy_funding_handling_def Let_def bindE_eq_Inr
      dest!: post_idem split: option.splits if_splits)

lemma record_idem:
  "record_holding_transaction_cash_settlement env x tx ap w = Inr w' \<Longrightarrow> idem_keys w' = idem_keys w"
  by (auto simp: record_holding_transaction_cash_settlement_def bindE_eq_Inr split: option.splits)

lemma settle_idem: "settle_trade env sh sa bh ba x tx price w = Inr (a, w') \<Longrightarrow> idem_keys w' = idem_keys w"
  by (auto simp: settle_trade_def Let_def bindE_eq_Inr split: side.splits option.splits
      dest!: proceeds_idem funding_idem record_idem)

lemma sync_idem:
  "sync_holding_projection_for_symbol env u s m w = Inr (r, w') \<Longrightarrow> idem_keys w' = idem_keys w"
  by (erule sync_holding_result) simp

lemma enter_idem: "enter_transaction p env tx w = Inr (r, w') \<Longrightarrow> idem_keys w' = idem_keys w"
  by (auto simp: enter_transaction_def Let_def bindE_eq_Inr elim!: enqueue_rebuild_result
      split: option.splits dest!: sync_idem settle_idem)

lemma baselines_idem:
  "idem_keys (fold (\<lambda>(i, h). ensure_transaction_baseline_from_holding_snapshot env h) hs w) = idem_keys w"
  by (induction hs arbitrary: w)
    (auto simp: ensure_transaction_baseline_from_holding_snapshot_def add_transaction_def)

lemma apply_transaction_idem:
  "apply_holding_transaction p env w = Inr (r, w') \<Longrightarrow> idem_keys w' = idem_keys w"
  by (auto simp: apply_holding_transaction_def Let_def bindE_eq_Inr baselines_idem dest!: enter_idem)

text \<open>
  A trade that was entered under an idempotency key and answered is not entered again: the
  same request with the same key returns the same response and leaves the database as it is, and
  another request with that key is refused with 409.
\<close>

theorem trade_is_idempotent:
  assumes fresh: "load_idempotent_response env TRANSACTION_SCOPE key (TransactionRequest p) w = Inr None"
    and key: "normalize_idempotency_key key = Some k"
    and res: "create_holding_transaction p key env w = Inr (Inr r, w')"
    and again: "en_user env' = en_user env" "en_request_hash env' = en_request_hash env"
  shows "create_holding_transaction p key env' w' = Inr (Inr r, w') \<and>
    (\<forall>q. en_request_hash env (TransactionRequest q) \<noteq> en_request_hash env (TransactionRequest p) \<longrightarrow>
      create_holding_transaction q key env' w' = Inl (HTTPException 409 IdempotencyMismatch))"
proof -
  from fresh key have none: "load_idempotency_record (en_user env) TRANSACTION_SCOPE k w = None"
    by (auto simp: load_idempotent_response_def split: option.splits if_splits)
  from res fresh obtain w1 where a: "apply_holding_transaction p env w = Inr (Inr r, w1)"
    and w': "w' = invalidate_dashboard_cache (Some (en_user env)) (store_idempotent_response env
       TRANSACTION_SCOPE key (TransactionRequest p) (TransactionResponse r) w1)"
    by (cases rule: create_transaction_cases) auto
  have none1: "load_idempotency_record (en_user env) TRANSACTION_SCOPE k w1 = None"
    using none apply_transaction_idem [OF a] by (simp add: load_idempotency_record_def)
  have load: "load_idempotent_response env' TRANSACTION_SCOPE key req w' =
      load_idempotent_response env TRANSACTION_SCOPE key req (store_idempotent_response env
       TRANSACTION_SCOPE key (TransactionRequest p) (TransactionResponse r) w1)" for req
    unfolding load_idempotent_response_def load_idempotency_record_def w' again invalidate_dashboard_cache_frame ..
  show ?thesis
    using load load_after_store [OF key none1] by (simp add: create_holding_transaction_def)
qed


definition small_purchase :: transaction_create where
  "small_purchase = \<lparr>txc_side = BUY, txc_symbol = lit ''AAPL'', txc_name = lit ''A'', txc_quantity = 100000000,
     txc_price = None, txc_fallback_currency = lit ''CNY'', txc_market = lit ''US'',
     txc_broker = None, txc_traded_on = 1, txc_note = None, txc_sell_handling = None, txc_sell_account = None,
     txc_buy_handling = None, txc_buy_account = Some 1\<rparr>"

lemma symbol_AAPL: "service_normalize_symbol (lit ''AAPL'') (Some (lit ''US'')) = Inr (lit ''AAPL'')"
  by (simp add: service_normalize_symbol_def normalize_symbol_for_market_def normalize_symbol_def
    normalize_candidate_def Let_def lit_def py_upper_def py_strip_def py_lstrip_def py_rstrip_def py_isspace_def upper_char_def
    is_fx_symbol_def is_ticker_def digits_def ends_with_def starts_with_def is_digit_def digit_value_def ZERO_DIGITS_def
    of_char_def is_AZ_def is_AZ09_def)

lemma small_purchase_fields [simp]:
  "txc_side small_purchase = BUY" "txc_symbol small_purchase = lit ''AAPL''"
  "txc_name small_purchase = lit ''A''" "txc_quantity small_purchase = 100000000"
  "txc_price small_purchase = None" "txc_fallback_currency small_purchase = lit ''CNY''"
  "txc_market small_purchase = lit ''US''" "txc_broker small_purchase = None" "txc_traded_on small_purchase = 1"
  "txc_note small_purchase = None" "txc_sell_handling small_purchase = None"
  "txc_sell_account small_purchase = None" "txc_buy_handling small_purchase = None"
  "txc_buy_account small_purchase = Some 1"
  by (simp_all add: small_purchase_def)

lemma purchase_terms:
  "execution_terms small_purchase ada (lit ''AAPL'') 100000000 w = Inr (None, lit ''CNY'')"
  by (simp add: execution_terms_def quantize_optional_def quantize_optional_decimal_def
    quantize_decimal_fixed liftA_def)

definition purchased :: holding_transaction where
  "purchased = transaction_row small_purchase ada (lit ''AAPL'') 100000000 None (lit ''CNY'')"

lemma apply_purchase:
  "apply_holding_transaction small_purchase ada two_accounts
    = enter_transaction small_purchase ada purchased two_accounts"
proof -
  have "list_holdings_for_symbol two_accounts (en_user ada) (lit ''AAPL'') (lit ''US'') = []"
    by (simp add: list_holdings_for_symbol_def two_accounts_def empty_world_def)
  moreover have "ensure_date_not_future ada (Some 1) = Inr ()"
    by (simp add: ensure_date_not_future_def ada_def server_today_date_def LOCAL_OFFSET_def US_DAY_def)
  ultimately show ?thesis
    by (simp add: apply_holding_transaction_def purchase_terms symbol_AAPL purchased_def
      quantize_decimal_fixed liftA_def optional_numeric_column_def numeric_column_def fits_numeric_def)
qed

lemma purchased_fields [simp]:
  "tx_user purchased = lit ''ada''" "tx_symbol purchased = lit ''AAPL''" "tx_side purchased = BUY"
  "tx_quantity purchased = 100000000" "tx_price purchased = None" "tx_market purchased = lit ''US''"
  "tx_name purchased = lit ''A''" "tx_fallback_currency purchased = lit ''CNY''" "tx_traded_on purchased = 1"
  "tx_broker purchased = None" "tx_note purchased = None"
  by (simp_all add: purchased_def transaction_row_def ada_def normalize_optional_text_def)
    (simp add: eval_text)


lemma lit_ne: "lit (c # cs) \<noteq> []"
  by (simp add: lit_def)

lemma project_purchase:
  assumes "transactions w = \<lparr>next_id = 2, rows = [(1, purchased)]\<rparr>"
  shows "project_holding_state_from_transactions w (lit ''ada'') (lit ''AAPL'') (lit ''US'')
    = Inr (Some \<lparr>ps_symbol = lit ''AAPL'', ps_name = lit ''A'', ps_market = lit ''US'',
        ps_fallback_currency = lit ''CNY'', ps_broker = None, ps_note = None,
        ps_lots = [\<lparr>lot_quantity = 100000000, lot_traded_on = 1, lot_cost = None\<rparr>]\<rparr>)"
  by (simp add: project_holding_state_from_transactions_def transactions_for_symbol_def assms tselect_def
    project_holding_state_from_sorted_transactions_def apply_holding_transaction_to_state_def Let_def
    initial_projected_state_def or_else_def positive_price_def normalize_optional_text_def
    projected_holding_quantity_def FIXED_EPSILON_fixed dec_add_zero_fixed quantize_decimal_fixed liftA_def lit_ne)

lemma sync_purchase:
  assumes "transactions w = \<lparr>next_id = 2, rows = [(1, purchased)]\<rparr>" "holdings w = empty_table"
  shows "\<exists>h. sync_holding_projection_for_symbol env (lit ''ada'') (lit ''AAPL'') (lit ''US'') w
    = Inr (Some 1, w\<lparr>holdings := \<lparr>next_id = 2, rows = [(1, h)]\<rparr>\<rparr>) \<and> sh_quantity h = 100000000
     \<and> sh_cost_basis_price h = None \<and> sh_symbol h = lit ''AAPL'' \<and> sh_market h = lit ''US''"
proof -
  have p: "project_holding_state_from_transactions (w\<lparr>holdings := x\<rparr>) u s m
     = project_holding_state_from_transactions w u s m" for x u s m
    by (simp add: project_holding_state_from_transactions_def transactions_for_symbol_def)
  show ?thesis
    by (simp add: sync_holding_projection_for_symbol_def list_holdings_for_symbol_def assms p project_purchase
      [unfolded One_nat_def] projected_holding_quantity_def projected_holding_cost_basis_def FIXED_EPSILON_fixed
      dec_add_zero_fixed quantize_decimal_fixed liftA_def numeric_column_def optional_numeric_column_def
      fits_numeric_def empty_table_def tinsert_def tselect_def tdel_ids_def Let_def numeral_2_eq_2)
      (rule exI, rule conjI, rule refl, simp)
qed

lemma purchase_succeeds: "\<exists>r w. apply_holding_transaction small_purchase ada two_accounts = Inr (Inr r, w)"
proof -
  define w2 where "w2 = record_asset_mutation ada HOLDING_TRANSACTION (Some 1) CREATE None
    (Some (TransactionState 1 purchased)) None (two_accounts\<lparr>transactions := \<lparr>next_id = 2, rows = [(1, purchased)]\<rparr>\<rparr>)"
  obtain h where h: "sync_holding_projection_for_symbol ada (lit ''ada'') (lit ''AAPL'') (lit ''US'') w2
    = Inr (Some 1, w2\<lparr>holdings := \<lparr>next_id = 2, rows = [(1, h)]\<rparr>\<rparr>)" "sh_quantity h = 100000000"
     "sh_cost_basis_price h = None" "sh_symbol h = lit ''AAPL''" "sh_market h = lit ''US''"
    using sync_purchase [of w2 ada] by (auto simp: w2_def two_accounts_def empty_world_def)
  let ?w4 = "enqueue_holding_history_sync_request ada (lit ''ada'') (Some (lit ''AAPL''))
    (w2\<lparr>holdings := \<lparr>next_id = 2, rows = [(1, h)]\<rparr>\<rparr>)"
  have n: "normalize_job_user_id (Some (lit ''ada'')) = Some (lit ''ada'')"
    by (simp add: normalize_job_user_id_def eval_text)
  obtain j w5 where e: "enqueue_user_portfolio_snapshot_rebuild ada (lit ''ada'') ?w4 = Inr (j, w5)"
    by (simp only: enqueue_user_portfolio_snapshot_rebuild_def n option.case case_prod_beta)
  from enqueue_rebuild_result [OF e] obtain t where w5: "w5 = ?w4\<lparr>jobs := t\<rparr>" by blast
  have u: "en_user ada = lit ''ada''" by (simp add: ada_def)
  have "\<exists>r. apply_read ada 1 (Some 1) None None w5 = Inr r"
    by (simp add: apply_read_def w5 h w2_def two_accounts_def empty_world_def u tget_def get_holding_transaction_cash_settlement_def
      to_holding_transaction_read_def holding_read_of_def to_holding_read_def value_holding_def ada_def Let_def
      display_optional_price_def eval_decimals liftA_def)
  then obtain r where r: "apply_read ada 1 (Some 1) None None w5 = Inr r" by blast
  have ins: "tinsert purchased (transactions two_accounts) = (1, \<lparr>next_id = 2, rows = [(1, purchased)]\<rparr>)"
    by (simp add: tinsert_def empty_table_def)
  have st: "transaction_state (two_accounts\<lparr>transactions := \<lparr>next_id = 2, rows = [(1, purchased)]\<rparr>\<rparr>) 1
    = Some (TransactionState 1 purchased)" by (simp add: transaction_state_def tget_def)
  have "enter_transaction small_purchase ada purchased two_accounts = Inr (Inr r, w5)"
    using h(1) e r unfolding enter_transaction_def Let_def ins fst_conv snd_conv st w2_def [symmetric]
    by (simp add: u)
  with apply_purchase show ?thesis by auto
qed

theorem trade_is_idempotent_witness:
  "\<exists>r w'. create_holding_transaction small_purchase (Some [107]) ada two_accounts = Inr (Inr r, w')
     \<and> create_holding_transaction small_purchase (Some [107]) ada w' = Inr (Inr r, w')"
proof -
  have key: "normalize_idempotency_key (Some [107]) = Some [107]" by (simp add: eval_text)
  have fresh: "load_idempotent_response ada TRANSACTION_SCOPE (Some [107]) (TransactionRequest small_purchase)
      two_accounts = Inr None"
    by (simp add: load_idempotent_response_def load_idempotency_record_def key two_accounts_def empty_world_def)
  obtain r w1 where "apply_holding_transaction small_purchase ada two_accounts = Inr (Inr r, w1)"
    using purchase_succeeds by blast
  with fresh obtain w' where "create_holding_transaction small_purchase (Some [107]) ada two_accounts = Inr (Inr r, w')"
    by (simp add: create_holding_transaction_def Let_def)
  with trade_is_idempotent [OF fresh key this refl refl] show ?thesis by blast
qed

end
