(* ===== verification/Holding_Properties.thy ===== *)
theory Holding_Properties
  imports Holding_State
begin

text \<open>
  Properties of the replay of trades into lots: sales are first in, first out and never exceed
  what is held, the projected quantity is the net of the trades, and the order in which the
  database returns the trades does not matter.
\<close>

section \<open>Sales\<close>

lemma consume_lots_dates:
  "consume_lots ls q = (kept, r) \<Longrightarrow> sorted (map lot_traded_on ls) \<Longrightarrow> sorted (map lot_traded_on kept)
     \<and> lot_traded_on ` set kept \<subseteq> lot_traded_on ` set ls"
proof (induction ls q arbitrary: kept r rule: consume_lots.induct)
  case (2 lot ls q)
  from "2.prems" consider
    (settled) k where "q \<le> EPSILON" "consume_lots ls q = (k, r)" "kept = lot # k"
  | (whole) "\<not> q \<le> EPSILON" "lot_quantity lot \<le> q + EPSILON" "consume_lots ls (q - lot_quantity lot) = (kept, r)"
  | (part) k where "\<not> q \<le> EPSILON" "\<not> lot_quantity lot \<le> q + EPSILON" "consume_lots ls 0 = (k, r)"
      "kept = lot\<lparr>lot_quantity := lot_quantity lot - q\<rparr> # k"
    by (auto split: if_splits prod.splits)
  then show ?case
  proof cases
    case settled
    with "2.IH"(1) [OF settled(1,2)] "2.prems"(2) show ?thesis by auto
  next
    case whole
    with "2.IH"(2) [OF whole] "2.prems"(2) show ?thesis by auto
  next
    case part
    with "2.IH"(3) [OF part(1,2,3)] "2.prems"(2) show ?thesis by auto
  qed
qed simp

text \<open>
  C8: a sale of more than the lots hold, by more than one unit of 1e-8, is refused with 422. Any
  other sale takes its quantity out of the lots in the order of their dates: some lots from the
  front disappear, at most the first that remains gets smaller, and the rest stay as they are.
  What leaves the lots is the quantity sold, up to one unit.
\<close>

theorem sale_is_first_in_first_out:
  assumes lots: "lots_positive (ps_lots st)" and tx: "tx_side tx = SELL" "EPSILON < tx_quantity tx"
  shows "if lots_total (ps_lots st) + EPSILON < tx_quantity tx
    then apply_holding_transaction_to_state st tx = Inl (HTTPException 422 InsufficientQuantity)
    else \<exists>st' n. apply_holding_transaction_to_state st tx = Inr st' \<and> lots_positive (ps_lots st')
      \<and> \<bar>lots_total (ps_lots st') - (lots_total (ps_lots st) - tx_quantity tx)\<bar> \<le> EPSILON
      \<and> (let sorted_lots = sort_key lot_traded_on (ps_lots st) in
          ps_lots st' = drop n sorted_lots \<or>
          (n < length sorted_lots \<and> ps_lots st' \<noteq> [] \<and> tl (ps_lots st') = drop (Suc n) sorted_lots
           \<and> hd (ps_lots st') = (sorted_lots ! n)\<lparr>lot_quantity := lot_quantity (hd (ps_lots st'))\<rparr>
           \<and> lot_quantity (hd (ps_lots st')) < lot_quantity (sorted_lots ! n)))"
proof -
  let ?ls = "sort_key lot_traded_on (ps_lots st)"
  obtain kept r where c: "consume_lots ?ls (tx_quantity tx) = (kept, r)" by fastforce
  have pos: "lots_positive ?ls" using lots by simp
  note fails = consume_lots_fails_iff [OF c pos]
  show ?thesis
  proof (cases "lots_total (ps_lots st) + EPSILON < tx_quantity tx")
    case True
    with apply_sell [OF tx(2,1) c] fails show ?thesis by simp
  next
    case False
    with apply_sell [OF tx(2,1) c] fails obtain st' where
      st': "apply_holding_transaction_to_state st tx = Inr st'" "ps_lots st' = kept" and r: "r \<le> EPSILON"
      by (auto split: if_splits)
    moreover have "- EPSILON \<le> r" using consume_lots_remaining_lower [OF c] tx by simp
    ultimately have "\<bar>lots_total kept - (lots_total (ps_lots st) - tx_quantity tx)\<bar> \<le> EPSILON"
      using consume_lots_conserves [OF c] by simp
    with False st' consume_lots_positive [OF c pos] consume_lots_fifo [OF c] show ?thesis
      unfolding Let_def by (simp only: if_False) blast
  qed
qed

section \<open>The projection\<close>

lemma initial_lots [simp]: "ps_lots (initial_projected_state s m f) = []"
  by (simp add: initial_projected_state_def)

lemma project_replays:
  assumes "project_holding_state_from_sorted_transactions txs s m = Inr (Some st)"
  obtains f where "foldE (\<lambda>(j, tx) st. apply_holding_transaction_to_state st tx)
      (sort_key holding_transaction_sort_key txs) (initial_projected_state s m f) = Inr st"
    "\<exists>q. projected_holding_quantity st = Inr q \<and> EPSILON < q"
proof (cases "sort_key holding_transaction_sort_key txs")
  case (Cons p rest)
  with assms that [of "snd p"] show ?thesis
    by (cases p) (auto simp: project_holding_state_from_sorted_transactions_def bindE_eq_Inr
      simp del: foldE.simps split: if_splits)
qed (use assms in \<open>simp add: project_holding_state_from_sorted_transactions_def\<close>)

text \<open>
  C9: the quantity of a projected holding is, up to one unit of 1e-8 per sale, the net of its
  trades in the order of their sort key: purchases add, sales subtract, an adjustment sets.
\<close>

theorem projection_is_net_quantity:
  assumes p: "project_holding_state_from_sorted_transactions txs s m = Inr (Some st)"
    and small: "lots_total (ps_lots st) < 10 ^ PREC"
  shows "\<exists>q. projected_holding_quantity st = Inr q \<and>
    \<bar>q - fold net_units_step (map snd (sort_key holding_transaction_sort_key txs)) 0\<bar>
      \<le> int (sale_count (map snd (sort_key holding_transaction_sort_key txs)))"
proof -
  from p obtain f q where r: "foldE (\<lambda>(j, tx) st. apply_holding_transaction_to_state st tx)
      (sort_key holding_transaction_sort_key txs) (initial_projected_state s m f) = Inr st"
    and q: "projected_holding_quantity st = Inr q" "EPSILON < q"
    by (rule project_replays) blast
  note units = replay_units [OF r, of 0 0]
  then have "q = lots_total (ps_lots st)"
    using q projected_quantity_exact [OF _ small] by (auto split: if_splits)
  with q(1) units show ?thesis by simp
qed

text \<open>
  The projection of a symbol does not depend on the order in which the database returns its
  trades.
\<close>

theorem projection_ignores_row_order:
  assumes "mset txs = mset txs'" "distinct (map fst txs)"
  shows "project_holding_state_from_sorted_transactions txs s m
    = project_holding_state_from_sorted_transactions txs' s m"
  unfolding project_holding_state_from_sorted_transactions_def sort_transactions_perm [OF assms] ..

section \<open>Witnesses\<close>

definition plain_trade :: "side \<Rightarrow> fixed \<Rightarrow> date \<Rightarrow> holding_transaction" where
  "plain_trade sd q d = \<lparr>tx_user = lit ''ada'', tx_symbol = lit ''X'', tx_name = lit ''X'', tx_side = sd,
     tx_quantity = q, tx_price = None, tx_fallback_currency = lit ''CNY'', tx_market = lit ''CN'',
     tx_broker = None, tx_traded_on = d, tx_note = None, tx_created_at = 0, tx_updated_at = 0\<rparr>"

lemma plain_trade_fields [simp]:
  "tx_side (plain_trade sd q d) = sd" "tx_quantity (plain_trade sd q d) = q"
  "tx_traded_on (plain_trade sd q d) = d" "tx_created_at (plain_trade sd q d) = 0"
  by (simp_all add: plain_trade_def)

definition two_lots :: projected_state where
  "two_lots = \<lparr>ps_symbol = lit ''X'', ps_name = lit ''X'', ps_market = lit ''CN'',
     ps_fallback_currency = lit ''CNY'', ps_broker = None, ps_note = None,
     ps_lots = [\<lparr>lot_quantity = 300, lot_traded_on = 2, lot_cost = None\<rparr>,
                \<lparr>lot_quantity = 200, lot_traded_on = 1, lot_cost = None\<rparr>]\<rparr>"

theorem sale_is_first_in_first_out_witness:
  "apply_holding_transaction_to_state two_lots (plain_trade SELL 600 3)
     = Inl (HTTPException 422 InsufficientQuantity)
   \<and> (\<exists>st'. apply_holding_transaction_to_state two_lots (plain_trade SELL 250 3) = Inr st')"
  using sale_is_first_in_first_out [of two_lots "plain_trade SELL 600 3"]
    sale_is_first_in_first_out [of two_lots "plain_trade SELL 250 3"]
  by (auto simp: two_lots_def simp del: split_paired_Ex)

definition bought_and_sold :: "(nat \<times> holding_transaction) list" where
  "bought_and_sold = [(2, plain_trade SELL 200 2), (1, plain_trade BUY 500 1)]"

lemma bought_and_sold_sorted:
  "sort_key holding_transaction_sort_key bought_and_sold
     = [(1, plain_trade BUY 500 1), (2, plain_trade SELL 200 2)]"
  by (simp add: bought_and_sold_def holding_transaction_sort_key_def holding_transaction_event_at_def
    date_start_utc_def LOCAL_OFFSET_def US_DAY_def)


lemma bought_and_sold_projects:
  "\<exists>st. project_holding_state_from_sorted_transactions bought_and_sold (lit ''X'') (lit ''CN'') = Inr (Some st)
     \<and> lots_total (ps_lots st) = 300"
  by (simp add: project_holding_state_from_sorted_transactions_def bought_and_sold_sorted
    apply_holding_transaction_to_state_def Let_def projected_holding_quantity_def FIXED_EPSILON_fixed
    dec_add_zero_fixed quantize_decimal_fixed liftA_def)

theorem projection_is_net_quantity_witness:
  "\<exists>st q. project_holding_state_from_sorted_transactions bought_and_sold (lit ''X'') (lit ''CN'') = Inr (Some st)
     \<and> projected_holding_quantity st = Inr q \<and> \<bar>q - 300\<bar> \<le> 1"
proof -
  obtain st where p: "project_holding_state_from_sorted_transactions bought_and_sold (lit ''X'') (lit ''CN'') = Inr (Some st)"
    and t: "lots_total (ps_lots st) = 300" using bought_and_sold_projects by blast
  from projection_is_net_quantity [OF p] t p show ?thesis
    by (auto simp: bought_and_sold_sorted sale_count_def)
qed

theorem projection_ignores_row_order_witness:
  "project_holding_state_from_sorted_transactions bought_and_sold (lit ''X'') (lit ''CN'')
     = project_holding_state_from_sorted_transactions (rev bought_and_sold) (lit ''X'') (lit ''CN'')"
  by (rule projection_ignores_row_order) (simp_all add: bought_and_sold_def)

end
