(* ===== verification/Queue_Sessions.thy ===== *)
theory Queue_Sessions
  imports Job_Queue
begin

text \<open>
  The job queue under transactions. An enqueue of \<^verbatim>\<open>job_service.py\<close> reads and flushes under the Redis
  lock of its key, but the caller commits after the lock is released; until then only its own session
  sees the new row. A queue here is the table as committed and the rows that open sessions have
  flushed; ids come from a sequence that no rollback resets. The worker's steps (claim, completion,
  failure, restart) commit at once.
\<close>

section \<open>Sessions\<close>

record job_store =
  js_committed :: "outbox_job table"
  js_open :: "(nat \<times> nat \<times> outbox_job) list"

definition no_jobs :: job_store where
  "no_jobs = \<lparr>js_committed = empty_table, js_open = []\<rparr>"

definition visible_jobs :: "nat \<Rightarrow> job_store \<Rightarrow> outbox_job table" where
  \<comment> \<open>what session \<open>x\<close> reads: the committed rows and its own\<close>
  "visible_jobs x s = (js_committed s)\<lparr>rows := rows (js_committed s) @ map snd (filter (\<lambda>p. fst p = x) (js_open s))\<rparr>"

definition all_jobs :: "job_store \<Rightarrow> outbox_job table" where
  "all_jobs s = (js_committed s)\<lparr>rows := rows (js_committed s) @ map snd (js_open s)\<rparr>"

definition enqueue_in ::
  "nat \<Rightarrow> datetime \<Rightarrow> job_type \<Rightarrow> pystr option \<Rightarrow> job_payload \<Rightarrow> pystr option \<Rightarrow> job_store \<Rightarrow> job_store" where
  "enqueue_in x now jtype user payload dedup_key s =
     (let t = snd (enqueue_job now jtype user payload dedup_key (visible_jobs x s));
          flushed = drop (length (rows (visible_jobs x s))) (rows t)
      in s\<lparr>js_committed := (js_committed s)\<lparr>next_id := next_id t\<rparr>, js_open := js_open s @ map (Pair x) flushed\<rparr>)"

definition rollback_in :: "nat \<Rightarrow> job_store \<Rightarrow> job_store" where
  "rollback_in x s = s\<lparr>js_open := filter (\<lambda>p. fst p \<noteq> x) (js_open s)\<rparr>"

definition commit_in :: "nat \<Rightarrow> job_store \<Rightarrow> job_store" where
  "commit_in x s = rollback_in x (s\<lparr>js_committed := visible_jobs x s\<rparr>)"

definition on_committed :: "(outbox_job table \<Rightarrow> outbox_job table) \<Rightarrow> job_store \<Rightarrow> job_store" where
  "on_committed f s = s\<lparr>js_committed := f (js_committed s)\<rparr>"

inductive queue_run :: "(nat \<Rightarrow> pystr option \<Rightarrow> job_store \<Rightarrow> bool) \<Rightarrow> job_store \<Rightarrow> bool" for may where
  start: "queue_run may no_jobs"
| enqueue: "queue_run may s \<Longrightarrow> may x dedup_key s \<Longrightarrow> queue_run may (enqueue_in x now jtype user payload dedup_key s)"
| commit: "queue_run may s \<Longrightarrow> queue_run may (commit_in x s)"
| rollback: "queue_run may s \<Longrightarrow> queue_run may (rollback_in x s)"
| claim: "queue_run may s \<Longrightarrow> queue_run may (on_committed (\<lambda>t. snd (claim_next_pending_job now t)) s)"
| complete: "queue_run may s \<Longrightarrow> queue_run may (on_committed (complete_job now i) s)"
| fail: "queue_run may s \<Longrightarrow> queue_run may (on_committed (fail_job now i message) s)"
| restart: "queue_run may s \<Longrightarrow> queue_run may (on_committed (reset_running_jobs_to_pending now) s)"

definition alone :: "nat \<Rightarrow> pystr option \<Rightarrow> job_store \<Rightarrow> bool" where
  \<comment> \<open>no other session has flushed a job of this key and not yet committed it\<close>
  "alone x dedup_key s \<longleftrightarrow> dedup_key = None \<or> list_all (\<lambda>(y, i, j). y = x \<or> oj_dedup_key j \<noteq> dedup_key) (js_open s)"

definition at_any_time :: "nat \<Rightarrow> pystr option \<Rightarrow> job_store \<Rightarrow> bool" where
  "at_any_time x dedup_key s \<longleftrightarrow> True"

section \<open>Rows\<close>

lemma queue_ok_rows:
  "queue_ok t \<longleftrightarrow> twf t \<and> (\<forall>(i, j) \<in> set (rows t). \<forall>(i', j') \<in> set (rows t).
     is_active j \<and> is_active j' \<and> oj_dedup_key j \<noteq> None \<and> oj_dedup_key j = oj_dedup_key j' \<longrightarrow> i = i')"
proof (cases "twf t")
  case True
  then have "tget t i = Some j \<longleftrightarrow> (i, j) \<in> set (rows t)" for i j
    by (simp add: twf_def tget_def map_of_eq_Some_iff)
  with True show ?thesis unfolding queue_ok_def by (fastforce simp: Ball_def)
qed (simp add: queue_ok_def)

text \<open>Rows may vanish, and change without being activated or changing their key.\<close>

definition tamed :: "(nat \<times> outbox_job) list \<Rightarrow> (nat \<times> outbox_job) list \<Rightarrow> bool" where
  "tamed rs rs' \<longleftrightarrow> (\<forall>(i, j') \<in> set rs'. \<exists>j. (i, j) \<in> set rs \<and> oj_dedup_key j' = oj_dedup_key j \<and> (is_active j' \<longrightarrow> is_active j))"

lemma tamedD:
  assumes "tamed rs rs'" "(i, j') \<in> set rs'"
  obtains j where "(i, j) \<in> set rs" "oj_dedup_key j' = oj_dedup_key j" "is_active j' \<longrightarrow> is_active j"
  using assms unfolding tamed_def by auto

lemma queue_ok_tamed:
  assumes "queue_ok t" "next_id t' = next_id t" "distinct (map fst (rows t'))" "tamed (rows t) (rows t')"
  shows "queue_ok t'"
proof -
  have "fst ` set (rows t') \<subseteq> fst ` set (rows t)" using assms(4) by (force simp: tamed_def)
  moreover from assms(1) have "\<forall>i \<in> fst ` set (rows t). 0 < i \<and> i < next_id t" "0 < next_id t"
    by (simp_all add: queue_ok_def twf_def)
  ultimately have "twf t'" using assms(2,3) unfolding twf_def by (simp only: subset_iff) blast
  moreover have "i = i'" if r: "(i, a) \<in> set (rows t')" "(i', a') \<in> set (rows t')"
    and a: "is_active a" "is_active a'" "oj_dedup_key a \<noteq> None" "oj_dedup_key a = oj_dedup_key a'" for i a i' a'
  proof -
    obtain j where j: "(i, j) \<in> set (rows t)" "oj_dedup_key a = oj_dedup_key j" "is_active a \<longrightarrow> is_active j"
      by (rule tamedD [OF assms(4) r(1)])
    obtain j' where j': "(i', j') \<in> set (rows t)" "oj_dedup_key a' = oj_dedup_key j'" "is_active a' \<longrightarrow> is_active j'"
      by (rule tamedD [OF assms(4) r(2)])
    from assms(1) j(1) j'(1) have "is_active j \<and> is_active j' \<and> oj_dedup_key j \<noteq> None \<and> oj_dedup_key j = oj_dedup_key j' \<longrightarrow> i = i'"
      unfolding queue_ok_rows by fast
    with a j(2,3) j'(2,3) show ?thesis by simp
  qed
  ultimately show ?thesis unfolding queue_ok_rows by blast
qed

lemma tamed_refl: "set rs' \<subseteq> set rs \<Longrightarrow> tamed rs rs'"
  by (auto simp: tamed_def)

lemma tamed_append: "tamed rs rs' \<Longrightarrow> tamed (rs @ xs) (rs' @ xs)"
  by (fastforce simp: tamed_def)

lemma tamed_trans: "tamed rs rs' \<Longrightarrow> tamed rs' rs'' \<Longrightarrow> tamed rs rs''"
  by (fastforce simp: tamed_def)

definition calm :: "outbox_job table \<Rightarrow> outbox_job table \<Rightarrow> bool" where
  "calm t t' \<longleftrightarrow> next_id t' = next_id t \<and> map fst (rows t') = map fst (rows t) \<and> tamed (rows t) (rows t')"

lemma calm_refl: "calm t t"
  by (simp add: calm_def tamed_refl)

lemma calm_trans: "calm t t' \<Longrightarrow> calm t' t'' \<Longrightarrow> calm t t''"
  by (auto simp: calm_def intro: tamed_trans)

lemma calm_put:
  assumes "(i, j) \<in> set (rows t)" "oj_dedup_key j' = oj_dedup_key j" "is_active j' \<Longrightarrow> is_active j"
  shows "calm t (tput i j' t)"
proof -
  have "tamed (rows t) (rows (tput i j' t))"
    unfolding tamed_def
  proof (clarify)
    fix k x
    assume "(k, x) \<in> set (rows (tput i j' t))"
    then consider "(k, x) \<in> set (rows t)" | "k = i" "x = j'" by (auto simp: tput_def split: if_splits)
    then show "\<exists>j. (k, j) \<in> set (rows t) \<and> oj_dedup_key x = oj_dedup_key j \<and> (is_active x \<longrightarrow> is_active j)"
      by cases (use assms in blast)+
  qed
  moreover have "map fst (rows (tput i j' t)) = map fst (rows t)" by (simp add: tput_def fst_map_put del: map_map)
  ultimately show ?thesis by (simp add: calm_def) (simp add: tput_def)
qed

lemma claim_calm: "calm t (snd (claim_next_pending_job now t))"
proof (cases "sort_key (\<lambda>p. (oj_created_at (snd p), fst p)) (tselect (\<lambda>j. oj_status j = JOB_PENDING \<and> oj_available_at j \<le> now) t)")
  case (Cons p ps)
  obtain i j where p: "p = (i, j)" by (cases p)
  from sort_key_ConsD [OF Cons] p have "(i, j) \<in> set (rows t)" "oj_status j = JOB_PENDING" by (simp_all add: tselect_def)
  with Cons p show ?thesis by (auto simp: claim_next_pending_job_def is_active_def intro: calm_put)
qed (simp add: claim_next_pending_job_def calm_refl)

lemma get_in_rows: "tget t i = Some j \<Longrightarrow> (i, j) \<in> set (rows t)"
  by (simp add: tget_def map_of_SomeD)

lemma complete_calm: "calm t (complete_job now i t)" "calm t (fail_job now i message t)"
  by (auto simp: complete_job_def fail_job_def is_active_def calm_refl dest!: get_in_rows
      intro: calm_put split: option.split)

lemma reset_fold_calm:
  assumes "\<forall>(i, j) \<in> set xs. (i, j) \<in> set (rows t) \<and> is_active j" "distinct (map fst xs)"
  shows "calm t (fold (\<lambda>(i, j) t. tput i (reset_job now j) t) xs t)"
  using assms
proof (induction xs arbitrary: t)
  case (Cons p xs)
  obtain i j where p: "p = (i, j)" by (cases p)
  have "(i, j) \<in> set (rows t)" "is_active j" using Cons.prems(1) p by auto
  then have "calm t (tput i (reset_job now j) t)" by (intro calm_put [of i j]) (simp_all add: reset_job_def)
  moreover have "\<forall>(k, x) \<in> set xs. (k, x) \<in> set (rows (tput i (reset_job now j) t)) \<and> is_active x"
    using Cons.prems p by (force simp: tput_def)
  with Cons have "calm (tput i (reset_job now j) t) (fold (\<lambda>(i, j) t. tput i (reset_job now j) t) xs (tput i (reset_job now j) t))"
    by simp
  ultimately show ?case using calm_trans by (auto simp: p)
qed (simp add: calm_refl)

lemma reset_calm: "twf t \<Longrightarrow> calm t (reset_running_jobs_to_pending now t)"
  unfolding reset_running_jobs_to_pending_def
  by (rule reset_fold_calm) (auto simp: tselect_def is_active_def twf_def distinct_map_filter)

section \<open>Orderly sessions\<close>

lemma on_committed_ok:
  assumes "queue_ok (all_jobs s)" "calm (js_committed s) (f (js_committed s))"
  shows "queue_ok (all_jobs (on_committed f s))"
proof (rule queue_ok_tamed [OF assms(1)])
  show "next_id (all_jobs (on_committed f s)) = next_id (all_jobs s)"
    using assms(2) by (simp add: all_jobs_def on_committed_def calm_def)
  have "map fst (rows (all_jobs (on_committed f s))) = map fst (rows (all_jobs s))"
    using assms(2) by (simp add: all_jobs_def on_committed_def calm_def)
  then show "distinct (map fst (rows (all_jobs (on_committed f s))))" using assms(1) by (simp add: queue_ok_def twf_def)
  show "tamed (rows (all_jobs s)) (rows (all_jobs (on_committed f s)))"
    using assms(2) by (simp add: all_jobs_def on_committed_def calm_def tamed_append)
qed

lemma distinct_halves:
  "distinct (map f xs) \<Longrightarrow> distinct (map f (filter P xs) @ map f (filter (\<lambda>x. \<not> P x) xs))"
  by (induction xs) auto

lemma queue_ok_some_rows:
  assumes "queue_ok (all_jobs s)"
  shows "queue_ok (js_committed s)" "queue_ok (visible_jobs x s)" "queue_ok (all_jobs (rollback_in x s))"
    "queue_ok (all_jobs (commit_in x s))"
proof -
  have d: "distinct (map fst (rows (all_jobs s)))" using assms by (simp add: queue_ok_def twf_def)
  let ?mine = "map snd (filter (\<lambda>p. fst p = x) (js_open s))" and ?others = "map snd (filter (\<lambda>p. fst p \<noteq> x) (js_open s))"
  from d have d': "distinct (map fst (rows (js_committed s)) @ map fst (map snd (js_open s)))" by (simp add: all_jobs_def)
  from d have "distinct (map fst (?mine @ ?others))"
    using distinct_halves [of "\<lambda>p. fst (snd p)" "js_open s" "\<lambda>p. fst p = x"] by (simp add: all_jobs_def comp_def)
  moreover have "set (map fst (?mine @ ?others)) = set (map fst (map snd (js_open s)))" by force
  ultimately have parts: "distinct (map fst (rows (js_committed s)) @ map fst (?mine @ ?others))"
    using d' by (simp only: map_append distinct_append set_append)
  show "queue_ok (js_committed s)" using d
    by (intro queue_ok_tamed [OF assms]) (auto simp: all_jobs_def intro: tamed_refl)
  show "queue_ok (visible_jobs x s)" using parts
    by (intro queue_ok_tamed [OF assms]) (auto simp: all_jobs_def visible_jobs_def intro!: tamed_refl)
  show "queue_ok (all_jobs (rollback_in x s))" using parts
    by (intro queue_ok_tamed [OF assms]) (auto simp: all_jobs_def rollback_in_def intro!: tamed_refl)
  show "queue_ok (all_jobs (commit_in x s))" using parts
    by (intro queue_ok_tamed [OF assms]) (auto simp: all_jobs_def rollback_in_def commit_in_def visible_jobs_def intro!: tamed_refl)
qed

lemma enqueue_in_cases:
  assumes "twf (visible_jobs x s)"
  shows "enqueue_in x now jtype user payload key s = s
    \<or> (\<forall>i j. (i, j) \<in> set (rows (visible_jobs x s)) \<longrightarrow> key \<noteq> None \<longrightarrow> oj_dedup_key j = key \<longrightarrow> \<not> is_active j)
      \<and> all_jobs (enqueue_in x now jtype user payload key s) = snd (tinsert (new_job now jtype user payload key) (all_jobs s))"
proof -
  let ?t = "visible_jobs x s" and ?new = "snd (tinsert (new_job now jtype user payload key) (visible_jobs x s))"
  have i: "snd (enqueue_job now jtype user payload key ?t) = ?new \<Longrightarrow>
      all_jobs (enqueue_in x now jtype user payload key s) = snd (tinsert (new_job now jtype user payload key) (all_jobs s))"
    by (simp add: enqueue_in_def Let_def all_jobs_def tinsert_def visible_jobs_def)
  have o: "snd (enqueue_job now jtype user payload key ?t) = ?t \<Longrightarrow> enqueue_in x now jtype user payload key s = s"
    by (simp add: enqueue_in_def Let_def) (simp add: visible_jobs_def)
  show ?thesis
  proof (cases key)
    case None
    then show ?thesis using i by (simp add: enqueue_job_def)
  next
    case (Some k)
    show ?thesis
    proof (cases "load_active_job_by_dedup_key k ?t")
      case None
      with load_active_None [OF assms None] Some i assms show ?thesis
        by (auto simp: enqueue_job_def twf_def tget_def map_of_eq_Some_iff)
    next
      case (Some p)
      with \<open>key = Some k\<close> o show ?thesis by (cases p) (simp add: enqueue_job_def)
    qed
  qed
qed

lemma enqueue_in_ok:
  assumes "queue_ok (all_jobs s)" "alone x key s"
  shows "queue_ok (all_jobs (enqueue_in x now jtype user payload key s))"
proof -
  have "twf (visible_jobs x s)" using queue_ok_some_rows(2) [OF assms(1)] by (simp add: queue_ok_def)
  from enqueue_in_cases [OF this, of now jtype user payload key] show ?thesis
  proof (elim disjE conjE)
    assume new: "\<forall>i j. (i, j) \<in> set (rows (visible_jobs x s)) \<longrightarrow> key \<noteq> None \<longrightarrow> oj_dedup_key j = key \<longrightarrow> \<not> is_active j"
      and e: "all_jobs (enqueue_in x now jtype user payload key s) = snd (tinsert (new_job now jtype user payload key) (all_jobs s))"
    have "\<not> is_active j" if "key = Some k" "oj_dedup_key j = key" "(i, j) \<in> set (rows (all_jobs s))" for i j k
      using that new assms(2) by (fastforce simp: all_jobs_def visible_jobs_def alone_def list_all_iff)
    then show ?thesis unfolding e
      by (intro queue_ok_insert [OF assms(1)]) (auto dest!: get_in_rows)
  qed (use assms in simp)
qed

lemma orderly_sessions_ok: "queue_run alone s \<Longrightarrow> queue_ok (all_jobs s)"
proof (induction rule: queue_run.induct)
  case start
  show ?case by (simp add: queue_ok_rows all_jobs_def no_jobs_def) (simp add: empty_table_def)
next
  case (restart s now)
  from restart.IH have "twf (js_committed s)" using queue_ok_some_rows(1) by (auto simp: queue_ok_def)
  with restart.IH show ?case by (intro on_committed_ok reset_calm)
qed (simp_all add: enqueue_in_ok queue_ok_some_rows on_committed_ok claim_calm complete_calm)

section \<open>Overlapping sessions\<close>

text \<open>Two sessions enqueue under one key before either of them commits.\<close>

definition overlapping :: job_store where
  "overlapping =
     (let enqueue = (\<lambda>x. enqueue_in x 5 SNAPSHOT_REBUILD (Some (lit ''ada'')) (RebuildPayload (lit ''ada'')) (Some (lit ''k'')))
      in commit_in 2 (commit_in 1 (enqueue 2 (enqueue 1 no_jobs))))"

lemma overlapping_run: "queue_run at_any_time overlapping"
  unfolding overlapping_def Let_def
  by (intro queue_run.commit queue_run.enqueue queue_run.start) (simp_all add: at_any_time_def)

lemma overlapping_duplicates: "\<not> queue_ok (js_committed overlapping)"
proof -
  let ?j = "new_job 5 SNAPSHOT_REBUILD (Some (lit ''ada'')) (RebuildPayload (lit ''ada'')) (Some (lit ''k''))"
  have "js_committed overlapping = \<lparr>next_id = 3, rows = [(1, ?j), (2, ?j)]\<rparr>"
    by (simp add: overlapping_def Let_def enqueue_in_def commit_in_def rollback_in_def visible_jobs_def no_jobs_def
        enqueue_job_def load_active_job_by_dedup_key_def tselect_def tinsert_def empty_table_def)
  moreover have "is_active ?j" by (simp add: is_active_def new_job_def)
  ultimately show ?thesis by (simp add: queue_ok_rows)
qed

end
