(* ===== verification/Queue_Properties.thy ===== *)
theory Queue_Properties
  imports Queue_Sessions
begin

text \<open>
  Properties of the job queue: of the keys, over all runs of open sessions and of the worker; of the
  single operations, over every queue that any sequence of enqueues (each committed before the next
  step), claims, completions, failures and restarts leads to.
\<close>

lemma queue_reachable_wf: "queue_reachable t \<Longrightarrow> twf t"
  using queue_reachable_ok by (auto simp: queue_ok_def)

text \<open>
  C36: as long as no session enqueues under a key while another session has a job of that key flushed
  and not yet committed, at most one job per deduplication key waits or runs, committed and open rows
  together, whatever commits, rollbacks, claims, completions, failures and restarts come in between.
  The Redis lock of an enqueue does not ensure that condition, because it is released before the commit:
  without it, there is a run that commits two waiting jobs of one key.
\<close>

theorem queue_keeps_keys_unique:
  "(queue_run alone s \<longrightarrow> queue_ok (all_jobs s)) \<and> (\<exists>s'. queue_run at_any_time s' \<and> \<not> queue_ok (js_committed s'))"
  using orderly_sessions_ok overlapping_run overlapping_duplicates by blast

definition PENDING_DUE :: "datetime \<Rightarrow> outbox_job \<Rightarrow> bool" where
  "PENDING_DUE now j \<longleftrightarrow> oj_status j = JOB_PENDING \<and> oj_available_at j \<le> now"

lemma sort_key_head_le: "sort_key f xs = y # ys \<Longrightarrow> x \<in> set xs \<Longrightarrow> f y \<le> f x"
proof -
  assume s: "sort_key f xs = y # ys" and x: "x \<in> set xs"
  have "sorted (map f (sort_key f xs))" by (rule sorted_sort_key)
  moreover have "x \<in> set (y # ys)" using x by (metis s set_sort)
  ultimately show ?thesis by (auto simp: s)
qed

text \<open>
  A worker claims the job that was created first among the pending ones that are due, and
  the claimed job, which runs now, is the only one that changes; nothing is claimed only when no
  pending job is due.
\<close>

theorem claim_takes_oldest_due_job:
  assumes "queue_reachable t"
  shows "case claim_next_pending_job now t of
      (None, t') \<Rightarrow> t' = t \<and> list_all (\<lambda>(i, j). \<not> PENDING_DUE now j) (rows t)
    | (Some i, t') \<Rightarrow> \<exists>j. tget t i = Some j \<and> PENDING_DUE now j \<and>
        list_all (\<lambda>(k, j'). PENDING_DUE now j' \<longrightarrow> (oj_created_at j, i) \<le> (oj_created_at j', k)) (rows t)
        \<and> tget t' i = Some (j\<lparr>oj_status := JOB_RUNNING, oj_started_at := Some now, oj_completed_at := None,
            oj_last_error := None, oj_attempt_count := oj_attempt_count j + 1, oj_updated_at := now\<rparr>)
        \<and> (\<forall>k. k \<noteq> i \<longrightarrow> tget t' k = tget t k)"
proof -
  from assms have wf: "twf t" by (rule queue_reachable_wf)
  let ?due = "tselect (\<lambda>j. oj_status j = JOB_PENDING \<and> oj_available_at j \<le> now) t"
  have rows: "(k, j) \<in> set (rows t) \<longleftrightarrow> tget t k = Some j" for k j
    using wf by (auto simp: twf_def tget_def map_of_eq_Some_iff)
  have due: "(k, j) \<in> set ?due \<longleftrightarrow> (k, j) \<in> set (rows t) \<and> PENDING_DUE now j" for k j
    using wf by (simp add: tbl.select_iff rows PENDING_DUE_def)
  show ?thesis
  proof (cases "sort_key (\<lambda>p. (oj_created_at (snd p), fst p)) ?due")
    case Nil
    then have "set ?due = {}" by simp
    with due have "list_all (\<lambda>(i, j). \<not> PENDING_DUE now j) (rows t)"
      by (auto simp: list_all_iff)
    with Nil show ?thesis by (simp add: claim_next_pending_job_def)
  next
    case (Cons p ps)
    obtain i j where p: "p = (i, j)" by (cases p)
    from sort_key_ConsD [OF Cons] due p have j: "tget t i = Some j" "PENDING_DUE now j" by (auto simp: rows)
    have "(oj_created_at j, i) \<le> (oj_created_at j', k)" if "(k, j') \<in> set (rows t)" "PENDING_DUE now j'" for k j'
      using sort_key_head_le [OF Cons, of "(k, j')"] that due by (simp add: p)
    then have "list_all (\<lambda>(k, j'). PENDING_DUE now j' \<longrightarrow> (oj_created_at j, i) \<le> (oj_created_at j', k)) (rows t)"
      by (auto simp: list_all_iff)
    with Cons j p show ?thesis by (simp add: claim_next_pending_job_def tbl.get_put)
  qed
qed

text \<open>
  Enqueueing under a key that a waiting or running job has returns that job and leaves the
  queue as it is, so a request that arrives while the job runs adds no further run.
\<close>

theorem enqueue_returns_active_job:
  assumes ok: "queue_reachable t" and j: "tget t i = Some j" "is_active j" "oj_dedup_key j = Some key"
  shows "enqueue_job now jtype user payload (Some key) t = (i, t)"
proof -
  from ok have wf: "twf t" by (rule queue_reachable_wf)
  show ?thesis
  proof (cases "load_active_job_by_dedup_key key t")
    case None
    with load_active_None [OF wf None] j show ?thesis by blast
  next
    case (Some p)
    obtain i' j' where p: "p = (i', j')" by (cases p)
    from load_active_Some [OF wf Some [unfolded p]] j queue_reachable_ok [OF ok]
    have "i' = i" unfolding queue_ok_def by blast
    with Some p show ?thesis by (simp add: enqueue_job_def)
  qed
qed

text \<open>
  A restart of the worker puts every job that was running back to pending and changes no
  other job.
\<close>

theorem restart_resets_running_jobs:
  assumes "queue_reachable t"
  shows "tget (reset_running_jobs_to_pending now t) i = (case tget t i of None \<Rightarrow> None
    | Some j \<Rightarrow> Some (if oj_status j = JOB_RUNNING then reset_job now j else j))"
  by (rule reset_get [OF queue_reachable_ok [OF assms]])

section \<open>Witnesses\<close>

definition one_job :: "outbox_job table" where
  "one_job = snd (enqueue_job 5 SNAPSHOT_REBUILD (Some (lit ''ada'')) (RebuildPayload (lit ''ada''))
     (Some (lit ''k'')) empty_table)"

lemma one_job_reachable: "queue_reachable one_job"
  unfolding one_job_def by (rule queue_reachable.step [OF queue_reachable.empty queue_step.enqueue])

lemma one_job_table: "one_job = \<lparr>next_id = 2, rows = [(1, new_job 5 SNAPSHOT_REBUILD (Some (lit ''ada''))
    (RebuildPayload (lit ''ada'')) (Some (lit ''k'')))]\<rparr>"
  by (simp add: one_job_def enqueue_job_def load_active_job_by_dedup_key_def tselect_def tinsert_def empty_table_def)

lemma one_job_get: "tget one_job 1 = Some (new_job 5 SNAPSHOT_REBUILD (Some (lit ''ada''))
    (RebuildPayload (lit ''ada'')) (Some (lit ''k'')))"
  by (simp add: one_job_table tget_def)

definition enqueue_ada :: "nat \<Rightarrow> job_store \<Rightarrow> job_store" where
  "enqueue_ada x = enqueue_in x 5 SNAPSHOT_REBUILD (Some (lit ''ada'')) (RebuildPayload (lit ''ada'')) (Some (lit ''k''))"

text \<open>The second session enqueues after the first one has committed.\<close>

theorem queue_keeps_keys_unique_witness:
  "queue_ok (all_jobs (commit_in 2 (enqueue_ada 2 (commit_in 1 (enqueue_ada 1 no_jobs)))))
   \<and> rows (js_committed (commit_in 2 (enqueue_ada 2 (commit_in 1 (enqueue_ada 1 no_jobs))))) =
      [(1, new_job 5 SNAPSHOT_REBUILD (Some (lit ''ada'')) (RebuildPayload (lit ''ada'')) (Some (lit ''k'')))]"
proof -
  have open_rows: "js_open (commit_in 1 (enqueue_ada 1 no_jobs)) = []"
    by (simp add: enqueue_ada_def enqueue_in_def commit_in_def rollback_in_def visible_jobs_def no_jobs_def Let_def
        enqueue_job_def load_active_job_by_dedup_key_def tselect_def tinsert_def empty_table_def)
  have "queue_run alone (commit_in 1 (enqueue_ada 1 no_jobs))"
    unfolding enqueue_ada_def by (intro queue_run.commit queue_run.enqueue queue_run.start) (simp add: alone_def no_jobs_def)
  moreover have "alone 2 (Some (lit ''k'')) (commit_in 1 (enqueue_ada 1 no_jobs))"
    unfolding alone_def open_rows by simp
  ultimately have "queue_run alone (commit_in 2 (enqueue_ada 2 (commit_in 1 (enqueue_ada 1 no_jobs))))"
    unfolding enqueue_ada_def [of 2] by (rule queue_run.commit [OF queue_run.enqueue])
  then have "queue_ok (all_jobs (commit_in 2 (enqueue_ada 2 (commit_in 1 (enqueue_ada 1 no_jobs)))))"
    using queue_keeps_keys_unique by blast
  then show ?thesis
    by (simp add: enqueue_ada_def enqueue_in_def commit_in_def rollback_in_def visible_jobs_def no_jobs_def Let_def
        enqueue_job_def load_active_job_by_dedup_key_def tselect_def tinsert_def empty_table_def new_job_def is_active_def)
qed

theorem claim_takes_oldest_due_job_witness:
  "fst (claim_next_pending_job 7 one_job) = Some 1 \<and> fst (claim_next_pending_job 3 one_job) = None"
  using claim_takes_oldest_due_job [OF one_job_reachable, of 7]
    claim_takes_oldest_due_job [OF one_job_reachable, of 3]
  by (auto simp: PENDING_DUE_def one_job_table tget_def new_job_def claim_next_pending_job_def tselect_def)

theorem enqueue_returns_active_job_witness:
  "enqueue_job 9 SNAPSHOT_REBUILD (Some (lit ''ada'')) (RebuildPayload (lit ''ada'')) (Some (lit ''k'')) one_job
     = (1, one_job)"
  by (rule enqueue_returns_active_job [OF one_job_reachable one_job_get]) (simp_all add: is_active_def new_job_def)

theorem restart_resets_running_jobs_witness:
  "\<exists>j. tget (reset_running_jobs_to_pending 9 (snd (claim_next_pending_job 7 one_job))) 1 = Some j
     \<and> oj_status j = JOB_PENDING"
proof -
  have r: "queue_reachable (snd (claim_next_pending_job 7 one_job))"
    by (rule queue_reachable.step [OF one_job_reachable queue_step.claim])
  have "\<exists>j. tget (snd (claim_next_pending_job 7 one_job)) 1 = Some j \<and> oj_status j = JOB_RUNNING"
    by (simp add: one_job_table tget_def new_job_def claim_next_pending_job_def tselect_def tput_def)
  with restart_resets_running_jobs [OF r, of 9 1] show ?thesis by (auto simp: reset_job_def)
qed

end
