(* ===== verification/History_Properties.thy ===== *)
theory History_Properties
  imports History_Sync Symbols
begin

text \<open>
  Properties of pure computations: hour buckets and price filling of the history, ticker symbols,
  decimal rounding.
\<close>

section \<open>Hours and prices\<close>

lemma hour_bucket_steps:
  "(\<exists>k. h = current_hour_bucket s + int k * US_HOUR) \<longleftrightarrow>
     current_hour_bucket h = h \<and> current_hour_bucket s \<le> h"
proof -
  have s: "US_HOUR dvd current_hour_bucket s" by (simp add: current_hour_bucket_def dvd_def minus_mod_eq_mult_div)
  show ?thesis
  proof
    assume "\<exists>k. h = current_hour_bucket s + int k * US_HOUR"
    then obtain k where h: "h = current_hour_bucket s + int k * US_HOUR" by blast
    with s have "US_HOUR dvd h" by simp
    with h show "current_hour_bucket h = h \<and> current_hour_bucket s \<le> h"
      using hour_steps_nonneg [of k] by (simp add: current_hour_bucket_def)
  next
    assume h: "current_hour_bucket h = h \<and> current_hour_bucket s \<le> h"
    then have "US_HOUR dvd h" by (metis current_hour_bucket_def dvd_minus_mod)
    with s have "US_HOUR dvd h - current_hour_bucket s" by simp
    then obtain m where m: "h - current_hour_bucket s = US_HOUR * m" ..
    with h have "0 \<le> m" using hour_steps_nonneg [of 0] by (metis diff_ge_0_iff_ge zero_le_mult_iff not_le)
    with m have "h = current_hour_bucket s + int (nat m) * US_HOUR" by (simp add: algebra_simps)
    then show "\<exists>k. h = current_hour_bucket s + int k * US_HOUR" ..
  qed
qed

lemma hour_bucket_iff:
  "h \<in> set (build_hour_buckets start_at end_at) \<longleftrightarrow>
      current_hour_bucket h = h \<and> current_hour_bucket start_at \<le> h \<and> h \<le> current_hour_bucket end_at"
proof (cases "current_hour_bucket end_at < current_hour_bucket start_at")
  case True
  then show ?thesis by (auto simp: build_hour_buckets_def)
next
  case False
  then have "build_hour_buckets start_at end_at = hours_from (current_hour_bucket start_at) (current_hour_bucket end_at)"
    by (simp add: build_hour_buckets_def)
  then show ?thesis by (simp only: hours_from_iff hour_bucket_steps conj_assoc)
qed

text \<open>
  C38: the hour buckets of a period are, in order and without repetition, all full hours from the
  hour of its start to the hour of its end.
\<close>

theorem hour_buckets_complete:
  "sorted_wrt (<) (build_hour_buckets start_at end_at) \<and> set (build_hour_buckets start_at end_at)
     = {h. current_hour_bucket h = h \<and> current_hour_bucket start_at \<le> h \<and> h \<le> current_hour_bucket end_at}"
proof -
  have "sorted_wrt (<) (build_hour_buckets start_at end_at)"
    by (simp add: build_hour_buckets_def Let_def hours_from_sorted)
  then show ?thesis by (intro conjI set_eqI) (simp_all only: mem_Collect_eq hour_bucket_iff)
qed

text \<open>
  For the filling of prices: the price of an hour is the rounded price of the last listed point in
  the hour that is above zero; before the first such hour the price is the fallback when it is above
  zero, else the smallest price of an hour, else zero.
\<close>

definition in_hour :: "datetime \<Rightarrow> datetime \<Rightarrow> bool" where
  "in_hour h b \<longleftrightarrow> US_HOUR dvd h \<and> h \<le> b \<and> b < h + US_HOUR"

definition hour_price :: "(datetime \<times> dec) list \<Rightarrow> datetime \<Rightarrow> fixed option" where
  "hour_price points h =
     (case filter (\<lambda>(b, p). in_hour h b \<and> 0 < dec_val p) (rev points) of
        [] \<Rightarrow> None
      | (b, p) # _ \<Rightarrow> Some (projr (quantize_decimal p)))"

definition price_before_points :: "fixed \<Rightarrow> (datetime \<times> dec) list \<Rightarrow> fixed \<Rightarrow> bool" where
  "price_before_points d points f \<longleftrightarrow>
     (if 0 < f then d = f
      else if \<forall>h. hour_price points h = None then d = 0
      else (\<exists>h. hour_price points h = Some d) \<and> (\<forall>h p. hour_price points h = Some p \<longrightarrow> d \<le> p))"

lemma in_hour_bucket: "in_hour h b \<longleftrightarrow> current_hour_bucket b = h"
proof
  assume h: "in_hour h b"
  then obtain k where k: "h = US_HOUR * k" by (auto simp: in_hour_def)
  with h have "(b - h) mod US_HOUR = b - h" by (simp add: in_hour_def)
  moreover have "b mod US_HOUR = (b - h) mod US_HOUR" by (simp add: k mod_diff_eq [symmetric, of b])
  ultimately show "current_hour_bucket b = h" by (simp add: current_hour_bucket_def)
next
  assume "current_hour_bucket b = h"
  then have h: "h = b - b mod US_HOUR" by (simp add: current_hour_bucket_def)
  have "0 \<le> b mod US_HOUR" "b mod US_HOUR < US_HOUR" by (simp_all add: US_HOUR_def)
  with h have "h \<le> b" "b < h + US_HOUR" by linarith+
  moreover have "US_HOUR dvd h" by (simp add: h minus_mod_eq_mult_div)
  ultimately show "in_hour h b" by (simp add: in_hour_def)
qed

lemma dec_le_zero: "dec_le p (Dec 0 0) \<longleftrightarrow> \<not> 0 < dec_val p"
proof (cases p)
  case (Dec c e)
  have "\<not> (10::int) ^ k \<le> 0" for k by (simp add: not_le)
  then have "dec_le p (Dec 0 0) \<longleftrightarrow> c \<le> 0"
    by (auto simp: dec_le_def scale_to_def Let_def Dec mult_le_0_iff)
  moreover have "\<not> (10::rat) powi e < 0" by (simp add: not_less)
  then have "0 < dec_val p \<longleftrightarrow> 0 < c" by (simp add: dec_val_def Dec zero_less_mult_iff)
  ultimately show ?thesis by (simp add: not_less)
qed

lemma hour_price_Cons:
  "hour_price ((b, p) # ps) h =
     (case hour_price ps h of Some q \<Rightarrow> Some q
      | None \<Rightarrow> if in_hour h b \<and> 0 < dec_val p then Some (projr (quantize_decimal p)) else None)"
  by (cases "filter (\<lambda>(b, p). in_hour h b \<and> 0 < dec_val p) (rev ps)") (auto simp: hour_price_def)

lemma known_prices_map:
  "known_prices ps m = Inr known \<Longrightarrow>
     map_of known h = (case hour_price ps h of Some q \<Rightarrow> Some q | None \<Rightarrow> map_of m h)"
proof (induction ps m rule: known_prices.induct)
  case (1 m)
  then show ?case by (simp add: hour_price_def)
next
  case (2 b p ps m)
  show ?case
  proof (cases "dec_le p (Dec 0 0)")
    case True
    with 2 show ?thesis by (simp add: hour_price_Cons dec_le_zero split: option.split)
  next
    case False
    with "2.prems" obtain q where q: "quantize_decimal p = Inr q"
      "known_prices ps (AList.update (current_hour_bucket b) q m) = Inr known"
      by (auto simp: bindE_eq_Inr)
    from "2.IH" (2) [OF False q(2)] q(1) False show ?thesis
      by (auto simp: hour_price_Cons dec_le_zero in_hour_bucket update_conv split: option.split)
  qed
qed

lemma known_prices_distinct:
  "known_prices ps m = Inr known \<Longrightarrow> distinct (map fst m) \<Longrightarrow> distinct (map fst known)"
  by (induction ps m rule: known_prices.induct)
    (auto simp: bindE_eq_Inr distinct_update split: if_splits)

lemma known_price_values:
  assumes "known_prices ps [] = Inr known"
  shows "q \<in> set (map snd known) \<longleftrightarrow> (\<exists>h. hour_price ps h = Some q)"
proof -
  from known_prices_distinct [OF assms] have d: "distinct (map fst known)" by simp
  have "map_of known h = hour_price ps h" for h
    using known_prices_map [OF assms, of h] by (simp split: option.splits)
  moreover have "q \<in> set (map snd known) \<longleftrightarrow> (\<exists>h. map_of known h = Some q)"
    using d by (force simp: map_of_eq_Some_iff)
  ultimately show ?thesis by simp
qed

lemma default_price_before:
  assumes "known_prices ps [] = Inr known"
  shows "price_before_points (default_price known f) ps f"
proof (cases "sort (map snd known)")
  case Nil
  then have "known = []" by (metis length_0_conv length_sort length_map)
  with known_price_values [OF assms] have "\<forall>h. hour_price ps h = None" by (metis empty_iff empty_set list.simps(8) not_None_eq)
  with Nil show ?thesis by (simp add: price_before_points_def default_price_def Let_def)
next
  case (Cons p qs)
  have "sorted (p # qs)" by (metis Cons sorted_sort)
  moreover have s: "set (map snd known) = set (p # qs)" by (metis Cons set_sort)
  ultimately have "p \<in> set (map snd known)" "\<forall>q \<in> set (map snd known). p \<le> q" by auto
  with known_price_values [OF assms] have "\<exists>h. hour_price ps h = Some p" "\<forall>h q. hour_price ps h = Some q \<longrightarrow> p \<le> q"
    by blast+
  with Cons show ?thesis by (auto simp: price_before_points_def default_price_def Let_def)
qed

lemma fill_from_nth:
  "n < length hs \<Longrightarrow> fill_from known d None hs ! n =
     (hs ! n, case last_known_price known (take (Suc n) hs) of Some p \<Rightarrow> p | None \<Rightarrow> d)"
proof (induction hs rule: rev_induct)
  case (snoc h hs)
  have len: "length (fill_from known d None hs) = length hs"
    using fill_from_hours [of known d None hs] length_map by metis
  show ?case
  proof (cases "n < length hs")
    case True
    with snoc.IH show ?thesis by (simp add: fill_from_snoc len nth_append)
  next
    case False
    with snoc.prems have "n = length hs" by simp
    then show ?thesis by (auto simp: fill_from_snoc len nth_append split: option.split)
  qed
qed simp

lemma last_known_price_snoc:
  "last_known_price known (hs @ [h]) =
     (case map_of known h of Some q \<Rightarrow> Some q | None \<Rightarrow> last_known_price known hs)"
  by (simp add: last_known_price_def split: option.split)

lemma last_known_price_iff:
  assumes "n < length hs"
  shows "case last_known_price known (take (Suc n) hs) of
      Some q \<Rightarrow> \<exists>m \<le> n. map_of known (hs ! m) = Some q \<and> (\<forall>k. m < k \<and> k \<le> n \<longrightarrow> map_of known (hs ! k) = None)
    | None \<Rightarrow> \<forall>m \<le> n. map_of known (hs ! m) = None"
  using assms
proof (induction n)
  case 0
  then have "take (Suc 0) hs = [hs ! 0]" by (cases hs) simp_all
  then show ?case by (auto simp: last_known_price_def split: option.split)
next
  case (Suc n)
  have e: "take (Suc (Suc n)) hs = take (Suc n) hs @ [hs ! Suc n]" using Suc.prems by (simp add: take_Suc_conv_app_nth)
  show ?case
  proof (cases "map_of known (hs ! Suc n)")
    case None
    with Suc show ?thesis unfolding e last_known_price_snoc
      by (auto split: option.splits) (metis le_Suc_eq le_SucI)+
  next
    case (Some q)
    then show ?thesis unfolding e last_known_price_snoc by auto
  qed
qed

text \<open>
  C39: filling gives every listed hour, in order, the price of the latest hour with a price among the
  listed hours up to it; a price of an hour that is not listed is not carried. The hours before the
  first listed hour with a price get the fallback price when it is above zero, else the smallest price
  known for any hour, else zero.
\<close>

theorem prices_are_carried_forward:
  assumes "fill_hourly_prices hours points fallback = Inr filled"
  shows "map fst filled = hours \<and> (\<exists>d f. quantize_decimal fallback = Inr f \<and> price_before_points d points f
    \<and> (\<forall>n < length hours.
         (\<exists>m \<le> n. hour_price points (hours ! m) = Some (snd (filled ! n))
            \<and> (\<forall>k. m < k \<and> k \<le> n \<longrightarrow> hour_price points (hours ! k) = None))
       \<or> (\<forall>m \<le> n. hour_price points (hours ! m) = None) \<and> snd (filled ! n) = d))"
proof -
  from assms obtain known f where k: "known_prices points [] = Inr known" "quantize_decimal fallback = Inr f"
    "filled = fill_from known (default_price known f) None hours" by (auto simp: fill_hourly_prices_def bindE_eq_Inr)
  have m: "map_of known = hour_price points"
  proof
    show "map_of known h = hour_price points h" for h
      using known_prices_map [OF k(1), of h] by (simp split: option.splits)
  qed
  have "(\<exists>m \<le> n. hour_price points (hours ! m) = Some (snd (filled ! n))
            \<and> (\<forall>k. m < k \<and> k \<le> n \<longrightarrow> hour_price points (hours ! k) = None))
       \<or> (\<forall>m \<le> n. hour_price points (hours ! m) = None) \<and> snd (filled ! n) = default_price known f"
    if "n < length hours" for n
    using last_known_price_iff [OF that, of known, unfolded m] fill_from_nth [OF that, of known "default_price known f"]
    unfolding k(3) by (auto split: option.splits)
  with default_price_before [OF k(1), of f] k(2) fill_from_hours [of known "default_price known f" None hours]
  show ?thesis unfolding k(3) by blast
qed


theorem prices_are_carried_forward_witness:
  "\<exists>d f. quantize_decimal (Dec 3 0) = Inr f
     \<and> price_before_points d [(0, Dec 9 0), (2 * US_HOUR + 5, Dec 7 0), (2 * US_HOUR + 9, Dec 8 0)] f
     \<and> fill_hourly_prices [US_HOUR, 2 * US_HOUR, 3 * US_HOUR]
         [(0, Dec 9 0), (2 * US_HOUR + 5, Dec 7 0), (2 * US_HOUR + 9, Dec 8 0)] (Dec 3 0)
       = Inr [(US_HOUR, d), (2 * US_HOUR, 800000000), (3 * US_HOUR, 800000000)]"
proof -
  let ?points = "[(0, Dec 9 0), (2 * US_HOUR + 5, Dec 7 0), (2 * US_HOUR + 9, Dec 8 0)]"
  have e: "fill_hourly_prices [US_HOUR, 2 * US_HOUR, 3 * US_HOUR] ?points (Dec 3 0)
      = Inr [(US_HOUR, 300000000), (2 * US_HOUR, 800000000), (3 * US_HOUR, 800000000)]"
    by (simp add: fill_hourly_prices_def dec_le_def scale_to_def quantize_decimal_def dec_quantize_def
      ndigits_le_prec [simplified] Let_def current_hour_bucket_def US_HOUR_def default_price_def)
  have "hour_price ?points US_HOUR = None"
    by (simp add: hour_price_def in_hour_def US_HOUR_def)
  with prices_are_carried_forward [OF e] obtain d f where "quantize_decimal (Dec 3 0) = Inr f"
    "price_before_points d ?points f" "(300000000 :: fixed) = d" by (fastforce dest: spec [of _ 0])
  with e show ?thesis by blast
qed

section \<open>Rounding\<close>

lemma dec_val_scaled:
  assumes "q \<le> expo x" shows "of_int (scale_to q x) * 10 powi q = dec_val x"
proof -
  have "(10::rat) ^ nat (expo x - q) * 10 powi q = 10 powi (expo x - q) * 10 powi q"
    using assms by (simp add: power_int_def)
  also have "\<dots> = 10 powi expo x" by (simp flip: power_int_add)
  finally show ?thesis by (simp add: scale_to_def dec_val_def)
qed

lemma dec_quantize_nearest:
  assumes "dec_quantize q x = Inr n"
  shows "2 * \<bar>of_int n * 10 powi q - dec_val x\<bar> \<le> 10 powi q \<and> \<bar>n\<bar> < 10 ^ PREC"
proof -
  have "2 * \<bar>of_int n * 10 powi q - dec_val x\<bar> \<le> 10 powi q"
  proof (cases "q \<le> expo x")
    case True
    with assms have "n = scale_to q x" by (auto simp: dec_quantize_def Let_def split: if_splits)
    with dec_val_scaled [OF True] show ?thesis by simp
  next
    case False
    let ?d = "10 ^ nat (q - expo x) :: int"
    from False assms have n: "n = half_up_div (coeff x) ?d" by (auto simp: dec_quantize_def Let_def split: if_splits)
    have "2 * \<bar>half_up_div (coeff x) ?d * ?d - coeff x\<bar> \<le> ?d" by (rule half_up_div_bounds) simp
    then have i: "2 * \<bar>n * ?d - coeff x\<bar> \<le> ?d" by (simp add: n)
    have "of_int (2 * \<bar>n * ?d - coeff x\<bar>) \<le> (of_int ?d :: rat)" using i by (simp only: of_int_le_iff)
    then have r: "2 * \<bar>of_int n * of_int ?d - of_int (coeff x)\<bar> \<le> (of_int ?d :: rat)" by simp
    have d: "(of_int ?d :: rat) * 10 powi expo x = 10 powi q"
    proof -
      have "(of_int ?d :: rat) = 10 powi (q - expo x)" using False by (simp add: power_int_def)
      then show ?thesis by (simp flip: power_int_add)
    qed
    have pos: "(0::rat) < 10 powi expo x" by simp
    have "of_int n * 10 powi q - dec_val x = (of_int n * of_int ?d - of_int (coeff x)) * 10 powi expo x"
      by (simp only: d [symmetric] dec_val_def left_diff_distrib mult.assoc)
    then have "2 * \<bar>of_int n * 10 powi q - dec_val x\<bar>
        = 2 * \<bar>of_int n * of_int ?d - of_int (coeff x)\<bar> * 10 powi expo x"
      using pos by (simp only: abs_mult abs_of_pos mult.assoc)
    also have "\<dots> \<le> of_int ?d * 10 powi expo x" using r pos by (intro mult_right_mono) simp_all
    finally show ?thesis by (simp only: d)
  qed
  with dec_quantize_Inr [OF assms] show ?thesis by simp
qed


text \<open>
  C40: quantizing a number returns the multiple of 1e-8 that is nearest to it, half a unit off at
  most, and at most 28 digits long.
\<close>

theorem quantize_is_nearest:
  assumes "quantize_decimal x = Inr n"
  shows "2 * \<bar>of_int n * 10 powi DB_EXP - dec_val x\<bar> \<le> 10 powi DB_EXP \<and> \<bar>n\<bar> < 10 ^ PREC"
  using dec_quantize_nearest [OF assms [unfolded quantize_decimal_def]] .

theorem quantize_is_nearest_witness:
  "quantize_decimal (Dec 12345678955 (-10)) = Inr 123456790
   \<and> 2 * \<bar>of_int 123456790 * 10 powi DB_EXP - dec_val (Dec 12345678955 (-10))\<bar> \<le> 10 powi DB_EXP"
proof -
  have q: "quantize_decimal (Dec 12345678955 (-10)) = Inr 123456790"
    by (simp add: quantize_decimal_def dec_quantize_def half_up_div_def ndigits_le_prec [simplified] Let_def)
  with quantize_is_nearest [OF q] show ?thesis by simp
qed

section \<open>Ticker symbols\<close>

lemma digit_cases: "is_digit c \<longleftrightarrow> (\<exists>z \<in> set ZERO_DIGITS. z \<le> c \<and> c < z + 10)"
  by (auto simp: is_digit_def digit_value_def find_None_iff)

lemma zero_digits_bounds:
  "list_all (\<lambda>z. 48 \<le> z \<and> (z = 48 \<or> 1632 \<le> z) \<and> (z + 10 \<le> 5760 \<or> 5760 < z) \<and> (z + 10 \<le> 8192 \<or> 12288 < z)) ZERO_DIGITS"
  by (simp add: ZERO_DIGITS_def)

lemma digit_char:
  assumes "is_digit c"
  shows "\<not> py_isspace c" "upper_char c = c"
proof -
  from assms obtain z where z: "z \<in> set ZERO_DIGITS" "z \<le> c" "c < z + 10" by (auto simp: digit_cases)
  with zero_digits_bounds have "(z = 48 \<or> 1632 \<le> z) \<and> (z + 10 \<le> 5760 \<or> 5760 < z) \<and> (z + 10 \<le> 8192 \<or> 12288 < z)"
    by (auto simp: list_all_iff)
  with z(2,3) have c: "48 \<le> c \<and> c < 58 \<or> 1632 \<le> c \<and> (c < 5760 \<or> 5760 < c \<and> (c < 8192 \<or> 12288 < c))" by linarith
  then show "\<not> py_isspace c" "upper_char c = c" by (auto simp: py_isspace_def upper_char_def)
qed

lemma strip_id: "s \<noteq> [] \<Longrightarrow> \<not> py_isspace (hd s) \<Longrightarrow> \<not> py_isspace (last s) \<Longrightarrow> py_strip s = s"
proof -
  assume s: "s \<noteq> []" "\<not> py_isspace (hd s)" "\<not> py_isspace (last s)"
  then have "py_lstrip s = s" by (cases s) (simp_all add: py_lstrip_def)
  moreover have "py_rstrip s = s" using s by (cases s rule: rev_cases) (simp_all add: py_rstrip_def)
  ultimately show ?thesis by (simp add: py_strip_def)
qed

lemma suffixed_canonical:
  assumes "d \<noteq> []" "\<forall>c \<in> set d. is_digit c" "suf \<in> {lit ''.SS'', lit ''.SZ'', lit ''.HK''}"
  shows "py_upper (py_strip (d @ suf)) = d @ suf"
proof -
  have suf: "suf \<noteq> [] \<and> \<not> py_isspace (last suf) \<and> map upper_char suf = suf"
    using assms(3) by (auto simp: lit_def of_char_def py_isspace_def upper_char_def)
  have d: "map upper_char d = d" using assms(2) digit_char by (intro map_idI) auto
  have "\<not> py_isspace (hd (d @ suf))" "\<not> py_isspace (last (d @ suf))"
    using suf assms digit_char by (cases d; auto)+
  then have "py_strip (d @ suf) = d @ suf" using assms(1) by (intro strip_id) auto
  with d suf show ?thesis by (simp add: py_upper_def)
qed

lemma letters_not_digits: "\<not> is_digit 83" "\<not> is_digit 72"
  by (simp_all add: is_digit_def digit_value_def ZERO_DIGITS_def)

lemma not_fx_suffixed: "suf \<in> {lit ''.SS'', lit ''.SZ'', lit ''.HK''} \<Longrightarrow> \<not> is_fx_symbol (d @ suf)"
proof
  assume s: "suf \<in> {lit ''.SS'', lit ''.SZ'', lit ''.HK''}" "is_fx_symbol (d @ suf)"
  then have "length d = 5" by (auto simp: is_fx_symbol_def)
  with s show False by (auto simp: is_fx_symbol_def lit_def)
qed

lemma digits_start:
  assumes "d \<noteq> []" "\<forall>c \<in> set d. is_digit c"
  shows "\<not> starts_with (lit ''SH'') (d @ s)" "\<not> starts_with (lit ''SZ'') (d @ s)" "\<not> starts_with (lit ''HK'') (d @ s)"
  using assms letters_not_digits by (cases d; auto simp: starts_with_def lit_def)+


lemma digit_value_ascii: "k < 10 \<Longrightarrow> digit_value (48 + k) = Some k"
  by (simp add: digit_value_def ZERO_DIGITS_def)

lemma digit_value_less: "digit_value c = Some k \<Longrightarrow> k < 10"
  by (auto simp: digit_value_def dest!: find_Some_iff')

lemma int_of_digits_simps [simp]:
  "int_of_digits [] = 0" "int_of_digits (s @ [c]) = 10 * int_of_digits s + the (digit_value c)"
  by (simp_all add: int_of_digits_def)

lemma int_of_digits_zeros: "int_of_digits (replicate k 48 @ s) = int_of_digits s"
proof -
  have "foldl (\<lambda>acc c. 10 * acc + the (digit_value c)) 0 (replicate k 48) = 0"
    using digit_value_ascii [of 0] by (induction k) simp_all
  then show ?thesis by (simp add: int_of_digits_def)
qed

lemma int_of_digits_less: "\<forall>c \<in> set s. is_digit c \<Longrightarrow> int_of_digits s < 10 ^ length s"
proof (induction s rule: rev_induct)
  case (snoc c s)
  then obtain k where "digit_value c = Some k" by (auto simp: is_digit_def)
  with snoc digit_value_less [of c k] show ?case by simp
qed simp

lemma show_nat_digits: "c \<in> set (show_nat n) \<Longrightarrow> 48 \<le> c \<and> c < 58"
proof (induction n rule: show_nat.induct)
  case (1 n)
  show ?case
  proof (cases "n < 10")
    case True
    with "1.prems" show ?thesis by (simp add: show_nat.simps)
  next
    case False
    with "1.prems" have "c \<in> set (show_nat (n div 10)) \<or> c = 48 + n mod 10" by (subst (asm) show_nat.simps) auto
    with "1.IH" [OF False] show ?thesis by auto
  qed
qed

lemma int_of_show: "int_of_digits (show_nat n) = n"
proof (induction n rule: show_nat.induct)
  case (1 n)
  show ?case
  proof (cases "n < 10")
    case True
    then show ?thesis using int_of_digits_simps(2) [of "[]"] by (simp add: show_nat.simps digit_value_ascii)
  next
    case False
    with 1 show ?thesis by (subst show_nat.simps) (simp add: digit_value_ascii)
  qed
qed

lemma length_show: "n < 10 ^ Suc k \<Longrightarrow> length (show_nat n) \<le> Suc k"
proof (induction k arbitrary: n)
  case 0
  then show ?case by (simp add: show_nat.simps)
next
  case (Suc k)
  then have "n div 10 < 10 ^ Suc k" by (simp add: less_mult_imp_div_less)
  with Suc.IH [OF this] show ?case by (subst show_nat.simps) simp
qed

lemma length_show_pos: "show_nat n \<noteq> []"
  by (subst show_nat.simps) simp

text \<open>The code of a Hong Kong stock is four or five ASCII digits, and its own normal form.\<close>

lemma hk_code:
  assumes "digits 1 5 d"
  shows "digits 1 5 (normalize_hk_code d)" "normalize_hk_code (normalize_hk_code d) = normalize_hk_code d"
    "46 \<notin> set (normalize_hk_code d)" "normalize_hk_code d \<noteq> []"
proof -
  let ?n = "int_of_digits d"
  from assms have "?n < 10 ^ length d" "length d \<le> 5" by (auto simp: digits_def intro: int_of_digits_less)
  then have "?n < 10 ^ Suc 4" using power_increasing [of "length d" 5 "10::nat"] by simp
  then have len: "length (show_nat ?n) \<le> 5" using length_show [of ?n 4] by simp
  have ascii: "\<forall>c \<in> set (normalize_hk_code d). 48 \<le> c \<and> c < 58"
    using show_nat_digits by (auto simp: normalize_hk_code_def zfill_def)
  then have "\<forall>c \<in> set (normalize_hk_code d). is_digit c"
    by (auto simp: digit_cases ZERO_DIGITS_def)
  moreover show ne: "normalize_hk_code d \<noteq> []" by (simp add: normalize_hk_code_def zfill_def length_show_pos)
  ultimately show "digits 1 5 (normalize_hk_code d)"
    using len by (simp add: digits_def Suc_le_eq) (simp add: normalize_hk_code_def zfill_def)
  show "46 \<notin> set (normalize_hk_code d)" using ascii by auto
  show "normalize_hk_code (normalize_hk_code d) = normalize_hk_code d"
    by (simp add: normalize_hk_code_def zfill_def int_of_digits_zeros int_of_show)
qed

lemma normalize_mainland:
  assumes "digits 6 6 d" "suf \<in> {lit ''.SS'', lit ''.SZ''}"
  shows "normalize_symbol (d @ suf) = Inr (d @ suf)"
proof -
  from assms have d: "d \<noteq> []" "\<forall>c \<in> set d. is_digit c" "length d = 6" by (auto simp: digits_def)
  from assms(2) have "length suf = 3" by auto
  note len = this d(3)
  have e: "ends_with (lit ''.SS'') (d @ suf) \<or> ends_with (lit ''.SZ'') (d @ suf)" using assms(2) by auto
  have "suf \<in> {lit ''.SS'', lit ''.SZ'', lit ''.HK''}" using assms(2) by auto
  with suffixed_canonical [OF d(1,2) this] not_fx_suffixed [OF this, of d] digits_start [OF d(1,2), of suf] show ?thesis
    using d(1) by (simp add: normalize_symbol_def normalize_candidate_def assms(1) e len)
qed

lemma normalize_hk:
  assumes "digits 1 5 d"
  shows "normalize_symbol (normalize_hk_code d @ lit ''.HK'') = Inr (normalize_hk_code d @ lit ''.HK'')"
proof -
  let ?c = "normalize_hk_code d" and ?s = "lit ''.HK''"
  note c = hk_code [OF assms]
  from c(1) have d: "\<forall>c \<in> set ?c. is_digit c" by (simp add: digits_def)
  have t: "takeWhile (\<lambda>c. c \<noteq> 46) (?c @ ?s) = ?c" 
  proof -
    have "\<forall>x \<in> set ?c. x \<noteq> 46" using c(3) by auto
    then show ?thesis by (subst takeWhile_append2) (auto simp: lit_def)
  qed
  have e: "\<not> ends_with (lit ''.SS'') (?c @ ?s)" "\<not> ends_with (lit ''.SZ'') (?c @ ?s)"
    by (simp_all add: ends_with_def)
  show ?thesis
    using suffixed_canonical [OF c(4) d, of ?s] not_fx_suffixed [of ?s ?c] digits_start [OF c(4) d, of ?s]
    by (simp add: normalize_symbol_def normalize_candidate_def c t e del: One_nat_def)
qed


text \<open>
  A normalised symbol is its own normal form.
\<close>

theorem normal_symbols_are_fixed:
  assumes "normalize_symbol s = Inr c"
  shows "normalize_symbol c = Inr c"
proof -
  let ?cand = "py_upper (py_strip s)"
  have fixed: "py_upper (py_strip ?cand) = ?cand" by (simp add: py_strip_upper)
  have cut: "takeWhile (\<lambda>c. c \<noteq> 46) x = take (length x - 3) x"
    if "ends_with (lit ''.HK'') x" "digits 1 5 (take (length x - 3) x)" for x
  proof -
    from that(1) obtain y where x: "x = y @ lit ''.HK''" by (auto simp: ends_with_iff)
    with that(2) have "\<forall>c \<in> set y. c \<noteq> 46"
      by (auto simp: digits_def is_digit_def digit_value_def ZERO_DIGITS_def)
    with x show ?thesis by (simp add: takeWhile_append2) (simp add: lit_def)
  qed
  from assms consider "c = ?cand"
    | d suf where "c = d @ suf" "digits 6 6 d" "suf \<in> {lit ''.SS'', lit ''.SZ''}"
    | d where "c = normalize_hk_code d @ lit ''.HK''" "digits 1 5 d"
    unfolding normalize_symbol_def normalize_candidate_def
    by (auto split: if_splits simp: cut simp del: One_nat_def)
  then show ?thesis
  proof cases
    case 1
    with assms fixed show ?thesis by (simp add: normalize_symbol_def)
  next
    case 2
    with normalize_mainland show ?thesis by simp
  next
    case 3
    with normalize_hk show ?thesis by simp
  qed
qed


lemma symbol_hk700: "normalize_symbol (lit ''hk700'') = Inr (lit ''0700.HK'')"
  by (simp add: normalize_symbol_def normalize_candidate_def lit_def py_upper_def py_strip_def py_lstrip_def
    py_rstrip_def py_isspace_def upper_char_def is_fx_symbol_def starts_with_def digits_def is_digit_def
    digit_value_def ZERO_DIGITS_def normalize_hk_code_def int_of_digits_def zfill_def show_nat.simps)

theorem normal_symbols_are_fixed_witness: "normalize_symbol (lit ''0700.HK'') = Inr (lit ''0700.HK'')"
  by (rule normal_symbols_are_fixed [OF symbol_hk700])

end
