(* ===== verification/History_Rebuild.thy ===== *)
theory History_Rebuild
  imports Holding_Repository History_Sync "HOL-Library.List_Lexorder"
begin

text \<open>
  Model of the rebuild of a user's snapshots in \<^verbatim>\<open>backend/app/services/history_service.py\<close>: the
  trades are replayed hour by hour against filled prices, the ledger entries into balances, and
  one snapshot row per hour is written. The snapshot tables are kept beside the world, as lists
  of rows without their ids. Rows are not checked against the range of their column. The cache
  of exchange rates inside one rebuild is left out: the environment answers a question the same
  way each time. Warnings are not modelled.
\<close>

section \<open>Snapshots\<close>

datatype snapshot_scope = SCOPE_HOLDING | SCOPE_TOTAL

record portfolio_snapshot =
  pf_user :: pystr
  pf_total_value_cny :: int  \<comment> \<open>cents\<close>
  pf_created_at :: datetime

record performance_snapshot =
  hp_user :: pystr
  hp_scope :: snapshot_scope
  hp_symbol :: "pystr option"
  hp_name :: "pystr option"
  hp_return_pct :: int  \<comment> \<open>hundredths of a percent\<close>
  hp_created_at :: datetime

record snapshots =
  portfolio_snapshots :: "portfolio_snapshot list"
  performance_snapshots :: "performance_snapshot list"
  live_portfolio_users :: "pystr list"  \<comment> \<open>keys of \<open>runtime_state.live_portfolio_states\<close>\<close>
  live_return_users :: "pystr list"

type_synonym history = "world \<times> snapshots"

section \<open>Trades by symbol\<close>

definition backfill_missing_holding_transactions :: "env \<Rightarrow> pystr \<Rightarrow> world \<Rightarrow> world" where
  "backfill_missing_holding_transactions env user w =
     (let hs = sort_key (\<lambda>(i, h). (sh_symbol h, sh_market h, i)) (tselect (\<lambda>h. sh_user h = user) (holdings w));
          existing = map (\<lambda>(i, t). (tx_symbol t, tx_market t)) (tselect (\<lambda>t. tx_user t = user) (transactions w))
      in snd (fold (\<lambda>(i, h) (pairs, w).
           if (sh_symbol h, sh_market h) \<in> set pairs then (pairs, w)
           else ((sh_symbol h, sh_market h) # pairs, ensure_transaction_baseline_from_holding_snapshot env h w))
           hs (existing, w)))"

definition user_transactions :: "world \<Rightarrow> pystr \<Rightarrow> (nat \<times> holding_transaction) list" where
  "user_transactions w user =
     sort_key (\<lambda>(i, t). (tx_symbol t, tx_market t, tx_traded_on t, tx_created_at t, i))
       (tselect (\<lambda>t. tx_user t = user) (transactions w))"

fun group_add :: "'k \<Rightarrow> 'a \<Rightarrow> ('k \<times> 'a list) list \<Rightarrow> ('k \<times> 'a list) list" where
  \<comment> \<open>\<open>d.setdefault(k, []).append(x)\<close>\<close>
  "group_add k x [] = [(k, [x])]"
| "group_add k x ((j, xs) # gs) = (if j = k then (j, xs @ [x]) # gs else (j, xs) # group_add k x gs)"

definition transactions_by_symbol ::
  "(nat \<times> holding_transaction) list \<Rightarrow> ((pystr \<times> pystr) \<times> (nat \<times> holding_transaction) list) list" where
  "transactions_by_symbol txs = fold (\<lambda>(i, t). group_add (tx_symbol t, tx_market t) (i, t)) txs []"

definition truthy :: "pystr option \<Rightarrow> pystr option" where
  "truthy v = (if v = Some [] then None else v)"

definition last_trade_price :: "(nat \<times> holding_transaction) list \<Rightarrow> dec" where
  \<comment> \<open>the price of the last trade that has a positive one\<close>
  "last_trade_price txs =
     (case find (\<lambda>(i, t). positive_price (tx_price t) \<noteq> None) (rev txs) of
        None \<Rightarrow> DECIMAL_ZERO
      | Some (i, t) \<Rightarrow> of_fixed (the (tx_price t)))"

fun replay_until ::
  "datetime \<Rightarrow> (nat \<times> holding_transaction) list \<Rightarrow> projected_state
   \<Rightarrow> error + (nat \<times> holding_transaction) list \<times> projected_state" where
  \<comment> \<open>the inner loop: apply the trades up to the hour\<close>
  "replay_until hour [] st = Inr ([], st)"
| "replay_until hour ((i, tx) # events) st =
     (if holding_transaction_event_at tx \<le> hour
      then bindE (apply_holding_transaction_to_state st tx) (replay_until hour events)
      else Inr ((i, tx) # events, st))"

definition dict_get :: "(datetime \<times> dec) list \<Rightarrow> datetime \<Rightarrow> dec" where
  "dict_get d k = (case map_of d k of None \<Rightarrow> DECIMAL_ZERO | Some v \<Rightarrow> v)"

definition filled_price :: "(datetime \<times> fixed) list \<Rightarrow> datetime \<Rightarrow> error + fixed" where
  "filled_price filled hour =
     liftA (quantize_decimal (of_fixed (case map_of filled hour of None \<Rightarrow> 0 | Some p \<Rightarrow> p)))"

section \<open>Holding performance\<close>

definition history_prices ::
  "env \<Rightarrow> pystr \<Rightarrow> pystr \<Rightarrow> datetime \<Rightarrow> datetime \<Rightarrow> (nat \<times> holding_transaction) list
   \<Rightarrow> error + (datetime \<times> dec) list \<times> dec \<times> dec" where
  \<comment> \<open>known prices, fallback price and exchange rate; a failing lookup raises\<close>
  "history_prices env symbol market start_at end_at txs =
     (case en_price_series env symbol market start_at end_at of
        None \<Rightarrow> Inl QuoteLookupError
      | Some (known_points, history_currency) \<Rightarrow>
          bindE (if known_points = [] \<or> truthy history_currency = None then
                   (case en_quote env symbol market of
                      None \<Rightarrow> Inl QuoteLookupError
                    | Some q \<Rightarrow> Inr (if dec_less (Dec 0 0) (qt_price q) then qt_price q else last_trade_price txs,
                        or_else (truthy history_currency) (truthy (Some (qt_currency q)))))
                 else Inr (last_trade_price txs, history_currency)) (\<lambda>(fallback_price, pricing).
          let currency_code = normalize_currency
                (case pricing of Some c \<Rightarrow> c | None \<Rightarrow> tx_fallback_currency (snd (last txs)))
          in bindE (if currency_code = lit ''CNY'' then Inr (Dec 1 0)
                 else (case en_fx_rate env currency_code (lit ''CNY'') of
                     None \<Rightarrow> Inl QuoteLookupError
                   | Some r \<Rightarrow> bindE (liftA (quantize_decimal r)) (\<lambda>n. Inr (of_fixed n)))) (\<lambda>fx_to_cny.
             Inr (known_points, fallback_price, fx_to_cny))))"

definition performance_at ::
  "(datetime \<times> fixed) list \<Rightarrow> dec \<Rightarrow> datetime \<Rightarrow> projected_state \<Rightarrow> error + (int \<times> dec) option" where
  \<comment> \<open>return and cost of a holding at an hour, or \<open>continue\<close>\<close>
  "performance_at filled fx_to_cny hour st =
     bindE (projected_holding_quantity st) (\<lambda>quantity.
     if quantity \<le> EPSILON then Inr None
     else bindE (projected_holding_cost_basis st) (\<lambda>cost_basis_price.
       case cost_basis_price of
         None \<Rightarrow> Inr None
       | Some cost \<Rightarrow>
           if cost \<le> 0 then Inr None
           else (let basis_value_cny = dec_mul (dec_mul (of_fixed cost) (of_fixed quantity)) fx_to_cny in
             if dec_le basis_value_cny (Dec 0 0) then Inr None
             else bindE (filled_price filled hour) (\<lambda>price.
               bindE (calculate_return_pct (of_fixed price) (Some (of_fixed cost))) (\<lambda>return_pct.
               Inr (map_option (\<lambda>r. (r, basis_value_cny)) return_pct))))))"

fun performance_hours ::
  "(datetime \<Rightarrow> projected_state \<Rightarrow> error + (int \<times> dec) option) \<Rightarrow> pystr \<Rightarrow> pystr \<Rightarrow> datetime list
   \<Rightarrow> (nat \<times> holding_transaction) list \<Rightarrow> projected_state \<Rightarrow> (datetime \<times> dec) list \<Rightarrow> (datetime \<times> dec) list
   \<Rightarrow> error + performance_snapshot list \<times> (datetime \<times> dec) list \<times> (datetime \<times> dec) list" where
  \<comment> \<open>the loop over the hours: rows of the symbol, weighted returns and costs by hour\<close>
  "performance_hours perf user symbol [] events st weighted basis = Inr ([], weighted, basis)"
| "performance_hours perf user symbol (hour # hours) events st weighted basis =
     bindE (replay_until hour events st) (\<lambda>(events', st').
     bindE (perf hour st') (\<lambda>result.
     case result of
       None \<Rightarrow> performance_hours perf user symbol hours events' st' weighted basis
     | Some (return_pct, basis_value_cny) \<Rightarrow>
         bindE (liftA (quantize_decimal (dec_mul (Dec return_pct (-2)) basis_value_cny))) (\<lambda>product.
         bindE (performance_hours perf user symbol hours events' st'
             (AList.update hour (dec_add (dict_get weighted hour) (of_fixed product)) weighted)
             (AList.update hour (dec_add (dict_get basis hour) basis_value_cny) basis)) (\<lambda>(found, ws, bs).
         Inr (\<lparr>hp_user = user, hp_scope = SCOPE_HOLDING, hp_symbol = Some symbol, hp_name = Some (ps_name st'),
                hp_return_pct = return_pct, hp_created_at = hour\<rparr> # found, ws, bs)))))"

definition symbol_history ::
  "env \<Rightarrow> pystr \<Rightarrow> datetime \<Rightarrow> pystr \<Rightarrow> pystr \<Rightarrow> (nat \<times> holding_transaction) list
   \<Rightarrow> (datetime \<times> dec) list \<Rightarrow> (datetime \<times> dec) list
   \<Rightarrow> error + performance_snapshot list \<times> (datetime \<times> dec) list \<times> (datetime \<times> dec) list" where
  "symbol_history env user end_hour symbol market txs weighted basis =
     (let sorted_transactions = sort_key holding_transaction_sort_key txs in
      case sorted_transactions of
        [] \<Rightarrow> Inr ([], weighted, basis)
      | (i, f) # _ \<Rightarrow>
          (let start_at = date_start_utc (tx_traded_on f) in
           if start_at > end_hour then Inr ([], weighted, basis)
           else bindE (history_prices env symbol market start_at (end_hour + US_HOUR) sorted_transactions)
             (\<lambda>(known_points, fallback_price, fx_to_cny).
             let hours = build_hour_buckets start_at end_hour in
             bindE (liftA (fill_hourly_prices hours known_points fallback_price)) (\<lambda>filled.
             performance_hours (performance_at filled fx_to_cny) user symbol hours sorted_transactions
               (initial_projected_state symbol market f) weighted basis))))"

fun rebuild_symbol_histories ::
  "env \<Rightarrow> pystr \<Rightarrow> datetime \<Rightarrow> ((pystr \<times> pystr) \<times> (nat \<times> holding_transaction) list) list
   \<Rightarrow> snapshots \<Rightarrow> (datetime \<times> dec) list \<Rightarrow> (datetime \<times> dec) list
   \<Rightarrow> error option \<times> snapshots \<times> (datetime \<times> dec) list \<times> (datetime \<times> dec) list" where
  \<comment> \<open>the rows of each symbol are committed before the next one is looked at\<close>
  "rebuild_symbol_histories env user end_hour [] s weighted basis = (None, s, weighted, basis)"
| "rebuild_symbol_histories env user end_hour (((symbol, market), txs) # groups) s weighted basis =
     (case symbol_history env user end_hour symbol market txs weighted basis of
        Inl e \<Rightarrow> (Some e, s, weighted, basis)
      | Inr (found, ws, bs) \<Rightarrow>
          rebuild_symbol_histories env user end_hour groups
            (s\<lparr>performance_snapshots := performance_snapshots s @ found\<rparr>) ws bs)"

definition TOTAL_NAME :: pystr where
  "TOTAL_NAME = [38750, 29616, 37329, 36164, 20135]"

fun total_performance_rows ::
  "pystr \<Rightarrow> (datetime \<times> dec) list \<Rightarrow> (datetime \<times> dec) list \<Rightarrow> datetime list
   \<Rightarrow> error + performance_snapshot list" where
  "total_performance_rows user weighted basis [] = Inr []"
| "total_performance_rows user weighted basis (hour # hours) =
     (let total_basis = dict_get basis hour in
      if dec_le total_basis (Dec 0 0) then total_performance_rows user weighted basis hours
      else bindE (liftA (bindE (dec_div (dict_get weighted hour) total_basis) display_percent)) (\<lambda>pct.
           bindE (total_performance_rows user weighted basis hours) (\<lambda>found.
           Inr (\<lparr>hp_user = user, hp_scope = SCOPE_TOTAL, hp_symbol = None, hp_name = Some TOTAL_NAME,
                  hp_return_pct = pct, hp_created_at = hour\<rparr> # found))))"

section \<open>Portfolio value\<close>

definition resolve_asset_start_date :: "date option \<Rightarrow> datetime \<Rightarrow> date" where
  "resolve_asset_start_date started_on created_at =
     (case started_on of Some d \<Rightarrow> d | None \<Rightarrow> utc_date created_at)"

definition user_rows :: "('r \<Rightarrow> pystr) \<Rightarrow> pystr \<Rightarrow> 'r table \<Rightarrow> (nat \<times> 'r) list" where
  \<comment> \<open>the rows of a user by id\<close>
  "user_rows owner user t = sort_key fst (tselect (\<lambda>r. owner r = user) t)"

definition start_candidates :: "world \<Rightarrow> pystr \<Rightarrow> date list" where
  "start_candidates w user =
     map (\<lambda>(k, e). le_happened_on e) (user_rows le_user user (ledger w))
     @ map (\<lambda>(k, t). tx_traded_on t) (user_transactions w user)
     @ map (\<lambda>(k, a). resolve_asset_start_date (fa_started_on a) (fa_created_at a)) (user_rows fa_user user (fixed_assets w))
     @ map (\<lambda>(k, l). resolve_asset_start_date (li_started_on l) (li_created_at l)) (user_rows li_user user (liabilities w))
     @ map (\<lambda>(k, a). resolve_asset_start_date (oa_started_on a) (oa_created_at a)) (user_rows oa_user user (other_assets w))"

definition resolve_fx_rate :: "env \<Rightarrow> pystr \<Rightarrow> error + dec" where
  "resolve_fx_rate env currency_code =
     (let normalized_currency = normalize_currency currency_code in
      if normalized_currency = lit ''CNY'' then Inr (Dec 1 0)
      else bindE (liftA (quantize_decimal (case en_fx_rate env normalized_currency (lit ''CNY'') of
               None \<Rightarrow> DECIMAL_ZERO | Some r \<Rightarrow> r))) (\<lambda>n. Inr (of_fixed n)))"

definition account_currencies :: "world \<Rightarrow> pystr \<Rightarrow> (nat \<times> ledger_entry) list \<Rightarrow> (nat \<times> pystr) list" where
  "account_currencies w user entries =
     fold (\<lambda>(k, e) m. if map_of m (le_account e) = None
         then m @ [(le_account e, normalize_currency (le_currency e))] else m) entries
       (map (\<lambda>(i, a). (i, normalize_currency (ca_currency a))) (user_rows ca_user user (accounts w)))"

definition balance_of :: "(nat \<times> fixed) list \<Rightarrow> nat \<Rightarrow> fixed" where
  "balance_of balances i = (case map_of balances i of None \<Rightarrow> 0 | Some b \<Rightarrow> b)"

fun post_entries_until ::
  "datetime \<Rightarrow> (nat \<times> ledger_entry) list \<Rightarrow> (nat \<times> fixed) list
   \<Rightarrow> error + (nat \<times> ledger_entry) list \<times> (nat \<times> fixed) list" where
  \<comment> \<open>the inner loop over the dates, whose entries are consecutive in the sorted list\<close>
  "post_entries_until hour [] balances = Inr ([], balances)"
| "post_entries_until hour ((k, e) # entries) balances =
     (if date_start_utc (le_happened_on e) \<le> hour
      then bindE (liftA (quantize_decimal (dec_add (of_fixed (balance_of balances (le_account e)))
               (of_fixed (le_amount e))))) (\<lambda>n.
           post_entries_until hour entries (AList.update (le_account e) n balances))
      else Inr ((k, e) # entries, balances))"

fun cash_total :: "env \<Rightarrow> (nat \<times> pystr) list \<Rightarrow> (nat \<times> fixed) list \<Rightarrow> dec \<Rightarrow> error + dec" where
  "cash_total env currencies [] acc = Inr acc"
| "cash_total env currencies ((i, balance) # balances) acc =
     (if \<bar>balance\<bar> \<le> EPSILON then cash_total env currencies balances acc
      else bindE (resolve_fx_rate env (case map_of currencies i of None \<Rightarrow> lit ''CNY'' | Some c \<Rightarrow> c)) (\<lambda>fx_rate.
           cash_total env currencies balances (dec_add acc (dec_mul (of_fixed balance) fx_rate))))"

fun cash_hours ::
  "env \<Rightarrow> (nat \<times> pystr) list \<Rightarrow> (nat \<times> ledger_entry) list \<Rightarrow> (nat \<times> fixed) list
   \<Rightarrow> (datetime \<times> dec) list \<Rightarrow> error + (datetime \<times> dec) list" where
  \<comment> \<open>the loop that adds the cash to the total of each hour\<close>
  "cash_hours env currencies entries balances [] = Inr []"
| "cash_hours env currencies entries balances ((hour, amount) # totals) =
     bindE (post_entries_until hour entries balances) (\<lambda>(entries', balances').
     bindE (cash_total env currencies balances' DECIMAL_ZERO) (\<lambda>cash.
     bindE (liftA (quantize_decimal cash)) (\<lambda>n.
     bindE (cash_hours env currencies entries' balances' totals) (\<lambda>rest.
     Inr ((hour, dec_add amount (of_fixed n)) # rest)))))"

definition value_at :: "(datetime \<times> fixed) list \<Rightarrow> dec \<Rightarrow> datetime \<Rightarrow> projected_state \<Rightarrow> error + fixed option" where
  \<comment> \<open>the value of a holding at an hour, or \<open>continue\<close>\<close>
  "value_at filled fx_rate hour st =
     bindE (projected_holding_quantity st) (\<lambda>quantity.
     if quantity \<le> EPSILON then Inr None
     else bindE (filled_price filled hour) (\<lambda>price.
       if price \<le> 0 then Inr None
       else bindE (liftA (quantize_decimal (dec_mul (dec_mul (of_fixed quantity) (of_fixed price)) fx_rate)))
         (\<lambda>n. Inr (Some n))))"

fun holding_hours ::
  "(datetime \<Rightarrow> projected_state \<Rightarrow> error + fixed option) \<Rightarrow> (nat \<times> holding_transaction) list \<Rightarrow> projected_state
   \<Rightarrow> (datetime \<times> dec) list \<Rightarrow> error + (datetime \<times> dec) list" where
  "holding_hours val events st [] = Inr []"
| "holding_hours val events st ((hour, amount) # totals) =
     bindE (replay_until hour events st) (\<lambda>(events', st').
     bindE (val hour st') (\<lambda>v.
     bindE (holding_hours val events' st' totals) (\<lambda>rest.
     Inr ((hour, case v of None \<Rightarrow> amount | Some n \<Rightarrow> dec_add amount (of_fixed n)) # rest))))"

definition portfolio_prices ::
  "env \<Rightarrow> pystr \<Rightarrow> pystr \<Rightarrow> datetime \<Rightarrow> datetime \<Rightarrow> (nat \<times> holding_transaction) list
   \<Rightarrow> error + (datetime \<times> dec) list \<times> dec \<times> dec" where
  \<comment> \<open>as \<open>history_prices\<close>, but a failing lookup counts as no price, and no rate as zero\<close>
  "portfolio_prices env symbol market start_at end_at txs =
     (let (known_points, history_currency) = (case en_price_series env symbol market start_at end_at of
            None \<Rightarrow> ([], None) | Some r \<Rightarrow> r);
          latest_quote = (if known_points = [] \<or> truthy history_currency = None
            then en_quote env symbol market else None);
          fallback_price = (case latest_quote of
              Some q \<Rightarrow> if dec_less (Dec 0 0) (qt_price q) then qt_price q else last_trade_price txs
            | None \<Rightarrow> last_trade_price txs);
          pricing = or_else (truthy history_currency) (case latest_quote of
              Some q \<Rightarrow> truthy (Some (qt_currency q)) | None \<Rightarrow> None)
      in bindE (resolve_fx_rate env (case pricing of Some c \<Rightarrow> c | None \<Rightarrow> tx_fallback_currency (snd (last txs))))
           (\<lambda>fx_rate. Inr (known_points, fallback_price, fx_rate)))"

fun add_holding_values ::
  "env \<Rightarrow> datetime \<Rightarrow> ((pystr \<times> pystr) \<times> (nat \<times> holding_transaction) list) list
   \<Rightarrow> (datetime \<times> dec) list \<Rightarrow> error + (datetime \<times> dec) list" where
  "add_holding_values env end_hour [] totals = Inr totals"
| "add_holding_values env end_hour (((symbol, market), txs) # groups) totals =
     (let sorted_transactions = sort_key holding_transaction_sort_key txs in
      case sorted_transactions of
        [] \<Rightarrow> add_holding_values env end_hour groups totals
      | (i, f) # _ \<Rightarrow>
          bindE (portfolio_prices env symbol market (date_start_utc (tx_traded_on f)) (end_hour + US_HOUR)
              sorted_transactions) (\<lambda>(known_points, fallback_price, fx_rate).
          bindE (liftA (fill_hourly_prices (map fst totals) known_points fallback_price)) (\<lambda>filled.
          bindE (holding_hours (value_at filled fx_rate) sorted_transactions
              (initial_projected_state symbol market f) totals) (\<lambda>totals'.
          add_holding_values env end_hour groups totals'))))"

definition add_static_value :: "datetime \<Rightarrow> date \<Rightarrow> fixed \<Rightarrow> (datetime \<times> dec) list \<Rightarrow> (datetime \<times> dec) list" where
  "add_static_value end_hour start_date value_cny deltas =
     (if value_cny = 0 then deltas
      else let bucket = date_start_utc start_date in
        if bucket > end_hour then deltas
        else AList.update bucket (dec_add (dict_get deltas bucket) (of_fixed value_cny)) deltas)"

definition static_values :: "env \<Rightarrow> world \<Rightarrow> pystr \<Rightarrow> error + (date \<times> fixed) list" where
  \<comment> \<open>start date and signed value of every fixed asset, other asset and liability\<close>
  "static_values env w user =
     bindE (mapE (\<lambda>(k, a). bindE (liftA (quantize_decimal (of_fixed (fa_current_value_cny a)))) (\<lambda>n.
         Inr (resolve_asset_start_date (fa_started_on a) (fa_created_at a), n)))
         (user_rows fa_user user (fixed_assets w))) (\<lambda>fixed.
     bindE (mapE (\<lambda>(k, a). bindE (liftA (quantize_decimal (of_fixed (oa_current_value_cny a)))) (\<lambda>n.
         Inr (resolve_asset_start_date (oa_started_on a) (oa_created_at a), n)))
         (user_rows oa_user user (other_assets w))) (\<lambda>other.
     bindE (mapE (\<lambda>(k, l). bindE (resolve_fx_rate env (li_currency l)) (\<lambda>fx_rate.
         bindE (liftA (quantize_decimal (dec_mul (of_fixed (li_balance l)) fx_rate))) (\<lambda>n.
         Inr (resolve_asset_start_date (li_started_on l) (li_created_at l), - n))))
         (user_rows li_user user (liabilities w))) (\<lambda>owed.
     Inr (fixed @ other @ owed))))"

fun portfolio_rows ::
  "pystr \<Rightarrow> (datetime \<times> dec) list \<Rightarrow> dec \<Rightarrow> (datetime \<times> dec) list \<Rightarrow> error + portfolio_snapshot list" where
  "portfolio_rows user deltas running [] = Inr []"
| "portfolio_rows user deltas running ((hour, amount) # totals) =
     (let running' = dec_add running (dict_get deltas hour) in
      bindE (liftA (display_money (dec_add amount running'))) (\<lambda>n.
      bindE (portfolio_rows user deltas running' totals) (\<lambda>found.
      Inr (\<lparr>pf_user = user, pf_total_value_cny = n, pf_created_at = hour\<rparr> # found))))"

definition compute_portfolio_rows ::
  "env \<Rightarrow> pystr \<Rightarrow> world \<Rightarrow> datetime \<Rightarrow> datetime \<Rightarrow> error + portfolio_snapshot list" where
  "compute_portfolio_rows env user w start_at end_hour =
     (let entries = sort_key ledger_order (tselect (\<lambda>e. le_user e = user) (ledger w));
          totals = map (\<lambda>h. (h, DECIMAL_ZERO)) (build_hour_buckets start_at end_hour)
      in bindE (cash_hours env (account_currencies w user entries) entries [] totals) (\<lambda>totals1.
         bindE (add_holding_values env end_hour (transactions_by_symbol (user_transactions w user)) totals1) (\<lambda>totals2.
         bindE (static_values env w user) (\<lambda>values.
         portfolio_rows user (fold (\<lambda>(d, v). add_static_value end_hour d v) values []) DECIMAL_ZERO totals2))))"

definition drop_portfolio_snapshots :: "pystr \<Rightarrow> snapshots \<Rightarrow> snapshots" where
  "drop_portfolio_snapshots user s =
     s\<lparr>portfolio_snapshots := filter (\<lambda>r. pf_user r \<noteq> user) (portfolio_snapshots s)\<rparr>"

definition rebuild_user_portfolio_snapshots :: "env \<Rightarrow> pystr \<Rightarrow> history \<Rightarrow> error option \<times> history" where
  \<comment> \<open>the error, if it raises, and the pending state of the session either way\<close>
  "rebuild_user_portfolio_snapshots env user = (\<lambda>(w, s).
     (let end_hour = current_hour_bucket (en_now env);
          w1 = backfill_missing_holding_transactions env user w
      in case start_candidates w1 user of
           [] \<Rightarrow> (None, (w1, drop_portfolio_snapshots user s))
         | d # ds \<Rightarrow>
             (let start_at = date_start_utc (fold min ds d) in
              if start_at > end_hour then (None, (w1, drop_portfolio_snapshots user s))
              else (case compute_portfolio_rows env user w1 start_at end_hour of
                  Inl e \<Rightarrow> (Some e, (w1, s))
                | Inr found \<Rightarrow>
                    (let s1 = drop_portfolio_snapshots user s in
                     (None, (invalidate_dashboard_cache (Some user) w1,
                        s1\<lparr>portfolio_snapshots := portfolio_snapshots s1 @ found,
                           live_portfolio_users := removeAll user (live_portfolio_users s1),
                           live_return_users := removeAll user (live_return_users s1)\<rparr>)))))))"

section \<open>The whole rebuild\<close>

definition drop_performance_snapshots :: "pystr \<Rightarrow> snapshots \<Rightarrow> snapshots" where
  "drop_performance_snapshots user s = s\<lparr>performance_snapshots :=
     filter (\<lambda>r. \<not> (hp_user r = user \<and> hp_scope r \<in> {SCOPE_HOLDING, SCOPE_TOTAL})) (performance_snapshots s)\<rparr>"

definition rebuild_user_holding_history_snapshots :: "env \<Rightarrow> pystr \<Rightarrow> history \<Rightarrow> error option \<times> history" where
  "rebuild_user_holding_history_snapshots env user = (\<lambda>(w, s).
     (let end_hour = current_hour_bucket (en_now env);
          w1 = backfill_missing_holding_transactions env user w;
          groups = transactions_by_symbol (user_transactions w1 user)
      in case rebuild_symbol_histories env user end_hour groups (drop_performance_snapshots user s) [] [] of
           (Some e, s1, ws, bs) \<Rightarrow> (Some e, (w1, s1))
         | (None, s1, ws, bs) \<Rightarrow>
             (case total_performance_rows user ws bs (sort (map fst bs)) of
                Inl e \<Rightarrow> (Some e, (w1, s1))
              | Inr found \<Rightarrow> rebuild_user_portfolio_snapshots env user
                  (w1, s1\<lparr>performance_snapshots := performance_snapshots s1 @ found\<rparr>))))"

end
