(* ===== verification/Agent_Tasks.thy ===== *)
theory Agent_Tasks
  imports Cash_Transfers Holding_Transactions History_Rebuild
begin

text \<open>
  Model of agent tasks: \<^verbatim>\<open>backend/app/services/agent_service.py\<close> stores a task and enqueues a job
  for it, and \<^verbatim>\<open>_process_agent_task_execution_job\<close> of \<^verbatim>\<open>job_service.py\<close> runs the command of the
  task in a session of its own and writes down how it went. The state is the world with the
  snapshots, the table of tasks and the names of the registered users.
\<close>

section \<open>Tasks\<close>

record agent_task =
  ag_user :: pystr
  ag_request_source :: actor_source
  ag_api_key_name :: "pystr option"
  ag_agent_name :: "pystr option"
  ag_status :: task_status
  ag_input :: task_input
  ag_result :: "task_result option"
  ag_error_message :: "pystr option"
  ag_created_at :: datetime
  ag_updated_at :: datetime
  ag_completed_at :: "datetime option"

record backend =
  be_world :: world
  be_snapshots :: snapshots
  be_tasks :: "agent_task table"
  be_users :: "pystr list"

definition on_world :: "(world \<Rightarrow> world) \<Rightarrow> backend \<Rightarrow> backend" where
  "on_world f b = b\<lparr>be_world := f (be_world b)\<rparr>"

section \<open>The service\<close>

definition resolve_request_source :: "actor_source \<Rightarrow> pystr option \<Rightarrow> pystr option \<Rightarrow> actor_source" where
  "resolve_request_source request_source api_key_name agent_name =
     (if (case agent_name of None \<Rightarrow> False | Some a \<Rightarrow> py_strip a \<noteq> []) then AGENT
      else if (case api_key_name of None \<Rightarrow> False | Some k \<Rightarrow> py_strip k \<noteq> []) then API
      else if request_source \<in> {USER, SYSTEM} then request_source
      else API)"

definition to_agent_task_read :: "nat \<Rightarrow> agent_task \<Rightarrow> agent_task_read" where
  "to_agent_task_read i t = \<lparr>atr_id = i,
     atr_request_source = resolve_request_source (ag_request_source t) (ag_api_key_name t) (ag_agent_name t),
     atr_api_key_name = ag_api_key_name t, atr_agent_name = ag_agent_name t, atr_status = ag_status t,
     atr_payload = ag_input t, atr_result = ag_result t, atr_error_message = ag_error_message t,
     atr_created_at = ag_created_at t, atr_updated_at = ag_updated_at t, atr_completed_at = ag_completed_at t\<rparr>"

definition list_agent_tasks :: "nat \<Rightarrow> env \<Rightarrow> backend \<Rightarrow> agent_task_read list" where
  "list_agent_tasks limit env b = map (\<lambda>(i, t). to_agent_task_read i t)
     (take limit (rev (sort_key (\<lambda>(i, t). (ag_created_at t, i))
        (tselect (\<lambda>t. ag_user t = en_user env) (be_tasks b)))))"

definition AGENT_TASK_SCOPE :: pystr where
  "AGENT_TASK_SCOPE = lit ''agent_task.create''"

definition new_agent_task :: "task_input \<Rightarrow> env \<Rightarrow> agent_task" where
  "new_agent_task payload env = \<lparr>ag_user = en_user env,
     ag_request_source = (case en_actor_source env of None \<Rightarrow> USER | Some s \<Rightarrow> s),
     ag_api_key_name = en_api_key_name env, ag_agent_name = en_agent_name env,
     ag_status = TASK_PENDING, ag_input = payload, ag_result = None, ag_error_message = None,
     ag_created_at = en_now env, ag_updated_at = en_now env, ag_completed_at = None\<rparr>"

definition create_agent_task ::
  "task_input \<Rightarrow> pystr option \<Rightarrow> env \<Rightarrow> backend \<Rightarrow> error + agent_task_read \<times> backend" where
  "create_agent_task payload key env b =
     bindE (load_idempotent_response env AGENT_TASK_SCOPE key (AgentTaskRequest payload) (be_world b)) (\<lambda>stored.
     case stored of
       Some resp \<Rightarrow> (case resp of
           AgentTaskResponse r \<Rightarrow> Inr (case tget (be_tasks b) (atr_id r) of
               Some t \<Rightarrow> to_agent_task_read (atr_id r) t | None \<Rightarrow> r, b)
         | _ \<Rightarrow> Inl ValueError)
     | None \<Rightarrow>
         (let task = new_agent_task payload env;
              i = fst (tinsert task (be_tasks b));
              response = to_agent_task_read i task
          in bindE (enqueue_agent_task_execution env (en_user env) i (be_world b)) (\<lambda>(job, w1).
             Inr (response, b\<lparr>be_tasks := snd (tinsert task (be_tasks b)),
                be_world := store_idempotent_response env AGENT_TASK_SCOPE key (AgentTaskRequest payload)
                  (AgentTaskResponse response) w1\<rparr>))))"

section \<open>Executing a task\<close>

definition task_id_argument :: "int \<Rightarrow> error + nat" where
  "task_id_argument i = (if i \<le> 0 then Inl (HTTPException 422 InvalidTaskArgument) else Inr (nat i))"

definition answered :: "('r \<Rightarrow> task_result) \<Rightarrow> error + 'r \<times> world \<Rightarrow> error + (error + task_result) \<times> world" where
  \<comment> \<open>a handler that builds its response before it commits\<close>
  "answered result m = bindE m (\<lambda>(r, w). Inr (Inr (result r), w))"

definition answered_late ::
  "('r \<Rightarrow> task_result) \<Rightarrow> error + (error + 'r) \<times> world \<Rightarrow> error + (error + task_result) \<times> world" where
  \<comment> \<open>a handler that builds its response after it commits\<close>
  "answered_late result m = bindE m (\<lambda>(r, w). Inr (bindE r (\<lambda>r. Inr (result r)), w))"

fun execute_agent_task_command ::
  "env \<Rightarrow> task_input \<Rightarrow> world \<Rightarrow> error + (error + task_result) \<times> world" where
  "execute_agent_task_command env (BuyTask p) w =
     answered_late TransactionResult (create_holding_transaction (p\<lparr>txc_side := BUY\<rparr>) None env w)"
| "execute_agent_task_command env (SellTask p) w =
     answered_late TransactionResult (create_holding_transaction (p\<lparr>txc_side := SELL\<rparr>) None env w)"
| "execute_agent_task_command env (UpdateTransactionTask i p) w =
     bindE (task_id_argument i) (\<lambda>x. answered_late TransactionResult (update_holding_transaction x p env w))"
| "execute_agent_task_command env (TransferTask p) w =
     answered TransferResult (create_cash_transfer p None env w)"
| "execute_agent_task_command env (UpdateTransferTask i p) w =
     bindE (task_id_argument i) (\<lambda>x. answered TransferResult (update_cash_transfer x p env w))"
| "execute_agent_task_command env (AdjustmentTask p) w =
     answered AdjustmentResult (create_cash_ledger_adjustment p None env w)"
| "execute_agent_task_command env (UpdateAdjustmentTask i p) w =
     bindE (task_id_argument i) (\<lambda>x. answered AdjustmentResult (update_cash_ledger_adjustment x p env w))"
| "execute_agent_task_command env (DeleteAdjustmentTask i) w =
     bindE (task_id_argument i) (\<lambda>x. bindE (delete_cash_ledger_adjustment x env w) (\<lambda>w1.
     Inr (Inr DeletedResult, w1)))"
| "execute_agent_task_command env (InvalidTask e) w = Inl e"

definition task_env :: "env \<Rightarrow> nat \<Rightarrow> agent_task \<Rightarrow> env" where
  \<comment> \<open>the context variables that are set around the command\<close>
  "task_env env i t = env\<lparr>en_user := ag_user t, en_agent_task_id := Some i,
     en_actor_source := Some (ag_request_source t), en_api_key_name := ag_api_key_name t,
     en_agent_name := ag_agent_name t\<rparr>"

definition execute_agent_task_command_in_new_session ::
  "env \<Rightarrow> nat \<Rightarrow> backend \<Rightarrow> error + (error + task_result) \<times> world" where
  "execute_agent_task_command_in_new_session env i b =
     (case tget (be_tasks b) i of
        None \<Rightarrow> Inl (HTTPException 404 TaskNotFound)
      | Some t \<Rightarrow> if ag_user t \<notin> set (be_users b) then Inl (HTTPException 404 TaskUserNotFound)
          else execute_agent_task_command (task_env env i t) (ag_input t) (be_world b))"

definition task_started :: "env \<Rightarrow> agent_task \<Rightarrow> agent_task" where
  "task_started env t = t\<lparr>ag_status := TASK_RUNNING, ag_error_message := None, ag_completed_at := None,
     ag_result := None, ag_updated_at := en_now env\<rparr>"

definition task_failed :: "env \<Rightarrow> error \<Rightarrow> agent_task \<Rightarrow> agent_task" where
  "task_failed env e t = t\<lparr>ag_status := TASK_FAILED, ag_error_message := Some (take 1000 (en_error_text env e)),
     ag_completed_at := Some (en_now env), ag_updated_at := en_now env\<rparr>"

definition task_done :: "env \<Rightarrow> task_result \<Rightarrow> agent_task \<Rightarrow> agent_task" where
  "task_done env r t = t\<lparr>ag_status := TASK_DONE, ag_result := Some r, ag_error_message := None,
     ag_completed_at := Some (en_now env), ag_updated_at := en_now env\<rparr>"

definition process_agent_task_execution_job :: "env \<Rightarrow> job_payload \<Rightarrow> backend \<Rightarrow> error option \<times> backend" where
  "process_agent_task_execution_job env payload b =
     (let task_id = (case payload of AgentTaskPayload u i \<Rightarrow> i | RebuildPayload u \<Rightarrow> 0) in
      if task_id = 0 then (None, b)
      else case tget (be_tasks b) task_id of
        None \<Rightarrow> (None, b)
      | Some t \<Rightarrow>
          if ag_status t = TASK_DONE then (None, b)
          else if ag_user t \<notin> set (be_users b) then (Some (HTTPException 404 TaskUserNotFound), b)
          else (let b1 = b\<lparr>be_tasks := tput task_id (task_started env t) (be_tasks b)\<rparr>;
                    finish = (\<lambda>w f. b1\<lparr>be_world := w, be_tasks := tput task_id (f (task_started env t)) (be_tasks b1)\<rparr>)
             in case execute_agent_task_command_in_new_session env task_id b1 of
                  Inl e \<Rightarrow> (Some e, finish (be_world b) (task_failed env e))
                | Inr (Inl e, w1) \<Rightarrow> (Some e, finish w1 (task_failed env e))
                | Inr (Inr r, w1) \<Rightarrow> (None, finish w1 (task_done env r))))"

end
