(* ===== verification/Background_Jobs.thy ===== *)
theory Background_Jobs
  imports Agent_Tasks
begin

text \<open>
  Model of the worker: the requests to rebuild a user's history (end of \<^verbatim>\<open>history_service.py\<close>) and
  the execution of claimed jobs (\<^verbatim>\<open>job_service.py\<close>). The loop that drains the requests may run
  forever; not returning is the value \<open>None\<close>.
\<close>

section \<open>Requests to rebuild the history\<close>

definition claim_next_pending_holding_history_sync_request ::
  "datetime \<Rightarrow> pystr option \<Rightarrow> world \<Rightarrow> nat option \<times> world" where
  "claim_next_pending_holding_history_sync_request now user w =
     (case sort_key (\<lambda>p. (hs_requested_at (snd p), fst p))
        (tselect (\<lambda>r. hs_status r = SYNC_PENDING \<and> (user = None \<or> user = Some (hs_user r)))
           (sync_requests w)) of
        [] \<Rightarrow> (None, w)
      | (i, r) # ps \<Rightarrow> (Some i, w\<lparr>sync_requests := tput i (r\<lparr>hs_status := SYNC_RUNNING,
            hs_started_at := Some now, hs_completed_at := None, hs_error_message := None\<rparr>)
            (sync_requests w)\<rparr>))"

definition set_sync_request :: "nat \<Rightarrow> (history_sync_request \<Rightarrow> history_sync_request) \<Rightarrow> world \<Rightarrow> world" where
  "set_sync_request i f w = (case tget (sync_requests w) i of None \<Rightarrow> w
     | Some r \<Rightarrow> w\<lparr>sync_requests := tput i (f r) (sync_requests w)\<rparr>)"

definition sync_failed :: "env \<Rightarrow> error \<Rightarrow> history_sync_request \<Rightarrow> history_sync_request" where
  "sync_failed env e r = r\<lparr>hs_status := SYNC_PENDING, hs_error_message := Some (take 500 (en_error_text env e)),
     hs_started_at := None, hs_completed_at := None\<rparr>"

definition sync_done :: "env \<Rightarrow> history_sync_request \<Rightarrow> history_sync_request" where
  "sync_done env r = r\<lparr>hs_status := SYNC_DONE, hs_error_message := None, hs_completed_at := Some (en_now env)\<rparr>"

text \<open>
  The claim is committed before the rebuild, and the outcome after it, together with whatever the
  rebuild had pending when it raised.
\<close>

fun process_pending_holding_history_sync_requests ::
  "env \<Rightarrow> nat \<Rightarrow> pystr option \<Rightarrow> history \<Rightarrow> history" where
  "process_pending_holding_history_sync_requests env 0 user (w, s) = (w, s)"
| "process_pending_holding_history_sync_requests env (Suc n) user (w, s) =
     (case claim_next_pending_holding_history_sync_request (en_now env) user w of
        (None, w1) \<Rightarrow> (w1, s)
      | (Some i, w1) \<Rightarrow>
          (case tget (sync_requests w1) i of
             None \<Rightarrow> (w1, s)
           | Some r \<Rightarrow>
               (case rebuild_user_holding_history_snapshots env (hs_user r) (w1, s) of
                  (outcome, w2, s2) \<Rightarrow>
                    process_pending_holding_history_sync_requests env n user
                      (set_sync_request i (case outcome of Some e \<Rightarrow> sync_failed env e | None \<Rightarrow> sync_done env) w2,
                       s2))))"

partial_function (option) drain_history_sync :: "env \<Rightarrow> pystr \<Rightarrow> history \<Rightarrow> history option" where
  "drain_history_sync env user h =
     (if has_holding_history_sync_pending user (fst h)
      then drain_history_sync env user (process_pending_holding_history_sync_requests env 1 (Some user) h)
      else Some h)"

section \<open>Jobs\<close>

definition process_snapshot_rebuild_job ::
  "env \<Rightarrow> outbox_job \<Rightarrow> history \<Rightarrow> (error option \<times> history) option" where
  \<comment> \<open>an error of the direct rebuild leaves nothing behind: the session is rolled back\<close>
  "process_snapshot_rebuild_job env job h =
     (let payload_user = (case oj_payload job of RebuildPayload u \<Rightarrow> u | AgentTaskPayload u i \<Rightarrow> u);
          user_id = normalize_job_user_id (if payload_user = [] then oj_user job else Some payload_user)
      in case user_id of
           None \<Rightarrow> Some (None, h)
         | Some user \<Rightarrow>
             if has_holding_history_sync_pending user (fst h)
             then map_option (\<lambda>(w, s). (None, (invalidate_dashboard_cache (Some user) w, s)))
                    (drain_history_sync env user h)
             else (case rebuild_user_portfolio_snapshots env user h of
                 (Some e, h1) \<Rightarrow> Some (Some e, h)
               | (None, (w, s)) \<Rightarrow> Some (None, (invalidate_dashboard_cache (Some user) w, s))))"

definition set_history :: "history \<Rightarrow> backend \<Rightarrow> backend" where
  "set_history h b = b\<lparr>be_world := fst h, be_snapshots := snd h\<rparr>"

definition run_job :: "env \<Rightarrow> outbox_job \<Rightarrow> backend \<Rightarrow> (error option \<times> backend) option" where
  \<comment> \<open>the dispatch on the type of the job\<close>
  "run_job env job b =
     (case oj_type job of
        SNAPSHOT_REBUILD \<Rightarrow> map_option (\<lambda>(e, h). (e, set_history h b))
          (process_snapshot_rebuild_job env job (be_world b, be_snapshots b))
      | AGENT_TASK_EXECUTION \<Rightarrow> Some (process_agent_task_execution_job env (oj_payload job) b))"

definition process_claimed_job :: "env \<Rightarrow> nat \<Rightarrow> backend \<Rightarrow> backend option" where
  "process_claimed_job env i b =
     (case tget (jobs (be_world b)) i of
        None \<Rightarrow> Some b
      | Some job \<Rightarrow> map_option (\<lambda>(outcome, b1). on_world (\<lambda>w. w\<lparr>jobs := (case outcome of
            Some e \<Rightarrow> fail_job (en_now env) i (en_error_text env e) (jobs w)
          | None \<Rightarrow> complete_job (en_now env) i (jobs w))\<rparr>) b1) (run_job env job b))"

definition process_next_background_job :: "env \<Rightarrow> backend \<Rightarrow> (bool \<times> backend) option" where
  "process_next_background_job env b =
     (case claim_next_pending_job (en_now env) (jobs (be_world b)) of
        (None, t) \<Rightarrow> Some (False, b)
      | (Some i, t) \<Rightarrow> map_option (Pair True) (process_claimed_job env i (on_world (\<lambda>w. w\<lparr>jobs := t\<rparr>) b)))"

fun process_all_pending_background_jobs :: "env \<Rightarrow> nat \<Rightarrow> backend \<Rightarrow> (nat \<times> backend) option" where
  \<comment> \<open>at most this many jobs; the number of jobs processed\<close>
  "process_all_pending_background_jobs env 0 b = Some (0, b)"
| "process_all_pending_background_jobs env (Suc limit) b =
     (case process_next_background_job env b of
        None \<Rightarrow> None
      | Some (False, b1) \<Rightarrow> Some (0, b1)
      | Some (True, b1) \<Rightarrow> map_option (\<lambda>(n, b2). (Suc n, b2)) (process_all_pending_background_jobs env limit b1))"

end
