(* ===== verification/Redis_Store.thy ===== *)
theory Redis_Store
  imports Common_Service
begin

text \<open>
  Model of \<^verbatim>\<open>backend/app/redis_store.py\<close>, the containers that the runtime state keeps in Redis,
  and of the caches of \<^verbatim>\<open>backend/app/services/cache.py\<close>. A Redis key with an expiry is gone from
  that instant on. The codecs are transparent: a value that was written is the value that is read.
  Instants and lifetimes are microseconds.
\<close>

section \<open>Keys that expire\<close>

type_synonym ('k, 'v) redis = "('k \<times> 'v \<times> datetime option) list"

definition lives :: "datetime \<Rightarrow> datetime option \<Rightarrow> bool" where
  "lives now e = (case e of None \<Rightarrow> True | Some t \<Rightarrow> now < t)"

definition redis_get :: "datetime \<Rightarrow> ('k, 'v) redis \<Rightarrow> 'k \<Rightarrow> 'v option" where
  "redis_get now d k = (case map_of d k of None \<Rightarrow> None
     | Some (v, e) \<Rightarrow> if lives now e then Some v else None)"

definition redis_set :: "datetime \<Rightarrow> int option \<Rightarrow> 'k \<Rightarrow> 'v \<Rightarrow> ('k, 'v) redis \<Rightarrow> ('k, 'v) redis" where
  "redis_set now ttl k v d = AList.update k (v, map_option (\<lambda>s. now + s) ttl) d"

definition redis_delete :: "'k \<Rightarrow> ('k, 'v) redis \<Rightarrow> ('k, 'v) redis" where
  "redis_delete k d = AList.delete k d"

definition redis_items :: "datetime \<Rightarrow> ('k, 'v) redis \<Rightarrow> ('k \<times> 'v) list" where
  "redis_items now d = map (\<lambda>(k, v, e). (k, v)) (filter (\<lambda>(k, v, e). lives now e) d)"

definition redis_len :: "datetime \<Rightarrow> ('k, 'v) redis \<Rightarrow> nat" where
  "redis_len now d = length (redis_items now d)"

definition redis_pop :: "datetime \<Rightarrow> 'k \<Rightarrow> ('k, 'v) redis \<Rightarrow> 'v option \<times> ('k, 'v) redis" where
  "redis_pop now k d = (case redis_get now d k of None \<Rightarrow> (None, d) | Some v \<Rightarrow> (Some v, redis_delete k d))"

definition redis_incr :: "datetime \<Rightarrow> 'k \<Rightarrow> ('k, int) redis \<Rightarrow> int \<times> ('k, int) redis" where
  \<comment> \<open>\<open>INCR\<close> keeps the expiry of a key that exists\<close>
  "redis_incr now k d = (case map_of d k of
       Some (n, e) \<Rightarrow> if lives now e then (n + 1, AList.update k (n + 1, e) d)
         else (1, AList.update k (1, None) d)
     | None \<Rightarrow> (1, AList.update k (1, None) d))"

definition redis_expire :: "datetime \<Rightarrow> 'k \<Rightarrow> int \<Rightarrow> ('k, 'v) redis \<Rightarrow> ('k, 'v) redis" where
  "redis_expire now k ttl d = (case map_of d k of None \<Rightarrow> d
     | Some (v, e) \<Rightarrow> if lives now e then AList.update k (v, Some (now + ttl)) d else d)"

locale expiring_map =
  fixes get :: "datetime \<Rightarrow> 'd \<Rightarrow> 'k \<Rightarrow> 'v option"
    and set :: "datetime \<Rightarrow> int option \<Rightarrow> 'k \<Rightarrow> 'v \<Rightarrow> 'd \<Rightarrow> 'd"
    and delete :: "'k \<Rightarrow> 'd \<Rightarrow> 'd"
  assumes get_set: "get now (set start ttl k v d) j = (if j = k
      then if lives now (map_option (\<lambda>s. start + s) ttl) then Some v else None else get now d j)"
    and get_delete: "get now (delete k d) j = (if j = k then None else get now d j)"
    and get_gone: "get now d k = None \<Longrightarrow> now \<le> later \<Longrightarrow> get later d k = None"
begin

lemma get_set_same: "lives now (map_option (\<lambda>s. start + s) ttl) \<Longrightarrow> get now (set start ttl k v d) k = Some v"
  by (simp add: get_set)

lemma get_set_other: "j \<noteq> k \<Longrightarrow> get now (set start ttl k v d) j = get now d j"
  by (simp add: get_set)

lemma get_set_late: "start + s \<le> now \<Longrightarrow> get now (set start (Some s) k v d) k = None"
  by (simp add: get_set lives_def)

lemma get_stays_some: "get later d k = Some v \<Longrightarrow> now \<le> later \<Longrightarrow> \<exists>u. get now d k = Some u"
  using get_gone by fastforce

end

interpretation redis_map: expiring_map redis_get redis_set redis_delete
proof (unfold_locales, goal_cases)
  case (1 now start ttl k v d j)
  then show ?case by (auto simp: redis_get_def redis_set_def update_conv')
next
  case (2 now k d j)
  then show ?case by (auto simp: redis_get_def redis_delete_def delete_conv)
next
  case (3 now d k later)
  then show ?case by (auto simp: redis_get_def lives_def split: option.splits if_splits)
qed

lemmas redis_simps = redis_map.get_set redis_map.get_delete

lemma redis_incr_fst: "fst (redis_incr now k d) = (case redis_get now d k of None \<Rightarrow> 1 | Some n \<Rightarrow> n + 1)"
  by (simp add: redis_incr_def redis_get_def split: option.split prod.split)

section \<open>Caches with stale values\<close>

text \<open>
  A cache entry stays readable as a stale value after its lifetime. The cache in the process never
  drops an entry; the cache in Redis drops it when the key expires.
\<close>

type_synonym 'v ttl_cache = "(pystr \<times> 'v \<times> datetime) list"

definition ttl_get :: "datetime \<Rightarrow> 'v ttl_cache \<Rightarrow> pystr \<Rightarrow> 'v option" where
  "ttl_get now c key = (case map_of c key of None \<Rightarrow> None
     | Some (v, expires_at) \<Rightarrow> if expires_at \<le> now then None else Some v)"

definition ttl_get_stale :: "datetime \<Rightarrow> 'v ttl_cache \<Rightarrow> pystr \<Rightarrow> 'v option" where
  "ttl_get_stale now c key = (case map_of c key of None \<Rightarrow> None | Some (v, expires_at) \<Rightarrow> Some v)"

definition ttl_set :: "datetime \<Rightarrow> pystr \<Rightarrow> 'v \<Rightarrow> int \<Rightarrow> 'v ttl_cache \<Rightarrow> 'v ttl_cache" where
  "ttl_set now key v ttl c = AList.update key (v, now + ttl) c"

definition ttl_expire_all :: "datetime \<Rightarrow> 'v ttl_cache \<Rightarrow> 'v ttl_cache" where
  "ttl_expire_all now c = map (\<lambda>(key, v, expires_at). (key, v, now)) c"

type_synonym 'v redis_cache = "(pystr, 'v \<times> datetime) redis"

definition redis_ttl :: "int \<Rightarrow> int" where
  \<comment> \<open>\<open>ex=max(1, int(seconds))\<close>\<close>
  "redis_ttl t = max 1 (t div US_SECOND) * US_SECOND"

definition cache_get :: "datetime \<Rightarrow> 'v redis_cache \<Rightarrow> pystr \<Rightarrow> 'v option" where
  "cache_get now c key = (case redis_get now c key of None \<Rightarrow> None
     | Some (v, expires_at) \<Rightarrow> if expires_at \<le> now then None else Some v)"

definition cache_get_stale :: "datetime \<Rightarrow> 'v redis_cache \<Rightarrow> pystr \<Rightarrow> 'v option" where
  "cache_get_stale now c key = (case redis_get now c key of None \<Rightarrow> None | Some (v, expires_at) \<Rightarrow> Some v)"

definition cache_set :: "int option \<Rightarrow> datetime \<Rightarrow> pystr \<Rightarrow> 'v \<Rightarrow> int \<Rightarrow> 'v redis_cache \<Rightarrow> 'v redis_cache" where
  "cache_set stale_ttl now key v ttl c =
     redis_set now (Some (redis_ttl (case stale_ttl of Some s \<Rightarrow> s | None \<Rightarrow> max (ttl * 60) US_HOUR)))
       key (v, now + ttl) c"

definition expired_entry :: "int \<Rightarrow> datetime \<Rightarrow> ('v \<times> datetime) \<times> datetime option \<Rightarrow> ('v \<times> datetime) \<times> datetime option" where
  "expired_entry ttl now = (\<lambda>((v, expires_at), e).
     if lives now e then ((v, now), Some (now + ttl)) else ((v, expires_at), e))"

definition cache_expire_all :: "int option \<Rightarrow> datetime \<Rightarrow> 'v redis_cache \<Rightarrow> 'v redis_cache" where
  "cache_expire_all stale_ttl now c =
     (let ttl = redis_ttl (case stale_ttl of Some s \<Rightarrow> if s = 0 then US_HOUR else s | None \<Rightarrow> US_HOUR)
      in map (\<lambda>(key, r). (key, expired_entry ttl now r)) c)"

locale stale_cache =
  fixes get get_stale :: "datetime \<Rightarrow> 'c \<Rightarrow> pystr \<Rightarrow> 'v option"
    and set :: "datetime \<Rightarrow> pystr \<Rightarrow> 'v \<Rightarrow> int \<Rightarrow> 'c \<Rightarrow> 'c"
    and expire_all :: "datetime \<Rightarrow> 'c \<Rightarrow> 'c"
    and keeps :: "int \<Rightarrow> bool"  \<comment> \<open>lifetimes the store outlasts\<close>
  assumes get_le_stale: "get now c k = Some v \<Longrightarrow> get_stale now c k = Some v"
    and get_set: "keeps ttl \<Longrightarrow> start \<le> now \<Longrightarrow> now < start + ttl \<Longrightarrow> get now (set start k v ttl c) k = Some v"
    and get_set_late: "start + ttl \<le> now \<Longrightarrow> get now (set start k v ttl c) k = None"
    and set_other: "j \<noteq> k \<Longrightarrow> get now (set start k v ttl c) j = get now c j
      \<and> get_stale now (set start k v ttl c) j = get_stale now c j"
    and get_expired: "start \<le> now \<Longrightarrow> get now (expire_all start c) k = None"
    and stale_expired: "get_stale now (expire_all now c) k = get_stale now c k"
begin

text \<open>A reader that falls back to the stale value sees what was last written, however it expired.\<close>

definition fallback :: "datetime \<Rightarrow> 'c \<Rightarrow> pystr \<Rightarrow> 'v option" where
  "fallback now c k = (case get now c k of Some v \<Rightarrow> Some v | None \<Rightarrow> get_stale now c k)"

lemma fallback_stale: "fallback now c k = get_stale now c k"
  by (simp add: fallback_def get_le_stale split: option.split)

lemma fallback_after_set:
  "keeps ttl \<Longrightarrow> 0 < ttl \<Longrightarrow> fallback now (expire_all now (set now k v ttl c)) k = Some v"
  by (simp add: fallback_stale stale_expired get_le_stale get_set)

end

lemma map_of_expire:
  "map_of (map (\<lambda>(key, v, e). (key, v, now)) c) k = map_option (\<lambda>(v, e). (v, now)) (map_of c k)"
  by (induction c) auto

interpretation process_cache: stale_cache ttl_get ttl_get_stale ttl_set ttl_expire_all "\<lambda>ttl. True"
  by unfold_locales (auto simp: ttl_get_def ttl_get_stale_def ttl_set_def ttl_expire_all_def
      update_conv' map_of_expire split: option.splits if_splits)

definition outlasts :: "int option \<Rightarrow> int \<Rightarrow> bool" where
  \<comment> \<open>the expiry of the key is not earlier than that of the entry\<close>
  "outlasts stale_ttl ttl \<longleftrightarrow> ttl \<le> redis_ttl (case stale_ttl of Some s \<Rightarrow> s | None \<Rightarrow> max (ttl * 60) US_HOUR)"

lemma outlasts_default: "outlasts None ttl"
proof -
  have "ttl \<le> max (ttl * 60) US_HOUR div US_SECOND * US_SECOND"
  proof (cases "ttl \<le> US_HOUR")
    case True
    then have "ttl \<le> US_HOUR div US_SECOND * US_SECOND" by (simp add: US_HOUR_def US_SECOND_def)
    also have "\<dots> \<le> max (ttl * 60) US_HOUR div US_SECOND * US_SECOND"
      by (intro mult_right_mono zdiv_mono1) (simp_all add: US_SECOND_def)
    finally show ?thesis .
  next
    case False
    then show ?thesis by (simp add: US_HOUR_def US_SECOND_def)
  qed
  also have "\<dots> \<le> redis_ttl (max (ttl * 60) US_HOUR)"
    by (simp add: redis_ttl_def US_SECOND_def)
  finally show ?thesis by (simp add: outlasts_def)
qed

lemma map_of_cache_expire_all:
  "map_of (cache_expire_all st now c) k = map_option (expired_entry
     (redis_ttl (case st of Some s \<Rightarrow> if s = 0 then US_HOUR else s | None \<Rightarrow> US_HOUR)) now) (map_of c k)"
  by (simp add: cache_expire_all_def Let_def map_of_map)

lemma redis_ttl_pos: "0 < redis_ttl t"
  by (simp add: redis_ttl_def US_SECOND_def)

lemma lives_later: "lives later e \<Longrightarrow> now \<le> later \<Longrightarrow> lives now e"
  by (auto simp: lives_def split: option.splits)

interpretation redis_cache: stale_cache cache_get cache_get_stale "cache_set st" "cache_expire_all st"
  "outlasts st" for st
proof (unfold_locales, goal_cases)
  case (1 now c k v)
  then show ?case by (auto simp: cache_get_def cache_get_stale_def split: option.splits if_splits)
next
  case (2 ttl start now k v c)
  then show ?case by (simp add: cache_get_def cache_set_def redis_simps lives_def outlasts_def)
next
  case (3 start ttl now k v c)
  then show ?case by (simp add: cache_get_def cache_set_def redis_simps lives_def)
next
  case (4 j k now start v ttl c)
  then show ?case by (simp add: cache_get_def cache_get_stale_def cache_set_def redis_simps)
next
  case (5 start now c k)
  show ?case
  proof (cases "map_of c k")
    case None
    then show ?thesis by (simp add: cache_get_def redis_get_def map_of_cache_expire_all)
  next
    case (Some r)
    obtain v x e where "r = ((v, x), e)" by (metis surj_pair)
    with Some 5 show ?thesis
      by (auto simp: cache_get_def redis_get_def map_of_cache_expire_all expired_entry_def
          dest: lives_later)
  qed
next
  case (6 now c k)
  show ?case
  proof (cases "map_of c k")
    case None
    then show ?thesis by (simp add: cache_get_stale_def redis_get_def map_of_cache_expire_all)
  next
    case (Some r)
    obtain v x e where "r = ((v, x), e)" by (metis surj_pair)
    with Some show ?thesis
      by (simp add: cache_get_stale_def redis_get_def map_of_cache_expire_all expired_entry_def
          lives_def redis_ttl_pos)
  qed
qed

end
