(* ===== verification/Security.thy ===== *)
theory Security
  imports Common_Service
begin

text \<open>
  Model of \<^verbatim>\<open>backend/app/security.py\<close>: names, passwords and their digests, e-mail digests, API
  keys and the session cookie. The hash functions are parameters (\<open>crypto\<close>); they take strings,
  whose UTF-8 encoding the source hashes. Bytes are naturals below 256. A digest read from the
  database is ASCII.
\<close>

section \<open>Hash functions\<close>

record crypto =
  cr_email_hmac :: "pystr \<Rightarrow> pystr"  \<comment> \<open>HMAC-SHA256 under the pepper, in hexadecimal\<close>
  cr_sha256 :: "pystr \<Rightarrow> pystr"  \<comment> \<open>SHA-256 in hexadecimal\<close>
  cr_scrypt :: "pystr \<Rightarrow> nat list \<Rightarrow> int \<Rightarrow> int \<Rightarrow> int \<Rightarrow> nat \<Rightarrow> nat list option"
    \<comment> \<open>\<open>hashlib.scrypt\<close>: password, salt, n, r, p, length; \<open>None\<close> is \<open>ValueError\<close>\<close>

section \<open>Names, passwords and addresses\<close>

definition username_char :: "nat \<Rightarrow> bool" where
  "username_char c \<longleftrightarrow> 97 \<le> c \<and> c \<le> 122 \<or> 48 \<le> c \<and> c \<le> 57 \<or> c = 95"

definition USERNAME_PATTERN :: "pystr \<Rightarrow> bool" where
  "USERNAME_PATTERN s \<longleftrightarrow> 3 \<le> length s \<and> length s \<le> 32 \<and> list_all username_char s"

definition address_char :: "nat \<Rightarrow> bool" where
  "address_char c \<longleftrightarrow> \<not> py_isspace c \<and> c \<noteq> 64"

definition EMAIL_PATTERN :: "pystr \<Rightarrow> bool" where
  \<comment> \<open>an \<open>@\<close> between two parts, with an inner dot in the second one\<close>
  "EMAIL_PATTERN s \<longleftrightarrow>
     (let local_part = takeWhile (\<lambda>c. c \<noteq> 64) s; domain = drop (Suc (length local_part)) s
      in 64 \<in> set s \<and> local_part \<noteq> [] \<and> list_all address_char local_part \<and> list_all address_char domain
         \<and> 46 \<in> set (butlast (tl domain)))"

definition PASSWORD_MIN_LENGTH :: nat where "PASSWORD_MIN_LENGTH = 8"
definition PASSWORD_MAX_LENGTH :: nat where "PASSWORD_MAX_LENGTH = 128"

definition normalize_user_id :: "pystr \<Rightarrow> error + pystr" where
  "normalize_user_id v =
     (let user_id = py_lower (py_strip v) in if USERNAME_PATTERN user_id then Inr user_id else Inl ValueError)"

definition validate_password_strength :: "pystr \<Rightarrow> error + pystr" where
  "validate_password_strength password =
     (if PASSWORD_MIN_LENGTH \<le> length password \<and> length password \<le> PASSWORD_MAX_LENGTH
      then Inr password else Inl ValueError)"

definition normalize_email :: "pystr \<Rightarrow> error + pystr" where
  "normalize_email v =
     (let email = py_lower (py_strip v) in if EMAIL_PATTERN email then Inr email else Inl ValueError)"

definition hash_email :: "crypto \<Rightarrow> pystr \<Rightarrow> error + pystr" where
  "hash_email cr email = bindE (normalize_email email) (\<lambda>e. Inr (cr_email_hmac cr e))"

definition verify_email :: "crypto \<Rightarrow> pystr \<Rightarrow> pystr option \<Rightarrow> bool" where
  "verify_email cr email email_digest =
     (case email_digest of None \<Rightarrow> False
      | Some digest \<Rightarrow> if digest = [] then False
          else (case hash_email cr email of Inl e \<Rightarrow> False | Inr expected_digest \<Rightarrow> expected_digest = digest))"

section \<open>Hexadecimal and integers\<close>

definition hex_digit :: "nat \<Rightarrow> nat" where
  "hex_digit n = (if n < 10 then 48 + n else 87 + n)"

definition bytes_hex :: "nat list \<Rightarrow> pystr" where
  \<comment> \<open>\<open>bytes.hex\<close>\<close>
  "bytes_hex bs = concat (map (\<lambda>b. [hex_digit (b div 16), hex_digit (b mod 16)]) bs)"

definition hex_value :: "nat \<Rightarrow> nat option" where
  "hex_value c = (if 48 \<le> c \<and> c \<le> 57 then Some (c - 48) else if 97 \<le> c \<and> c \<le> 102 then Some (c - 87)
     else if 65 \<le> c \<and> c \<le> 70 then Some (c - 55) else None)"

fun bytes_fromhex :: "pystr \<Rightarrow> nat list option" where
  \<comment> \<open>\<open>bytes.fromhex\<close> skips ASCII white space between bytes\<close>
  "bytes_fromhex [] = Some []"
| "bytes_fromhex [c] = (if c \<in> {9, 10, 11, 12, 13, 32} then Some [] else None)"
| "bytes_fromhex (c # d # cs) =
     (if c \<in> {9, 10, 11, 12, 13, 32} then bytes_fromhex (d # cs)
      else case (hex_value c, hex_value d) of
          (Some a, Some b) \<Rightarrow> map_option ((#) (16 * a + b)) (bytes_fromhex cs)
        | _ \<Rightarrow> None)"

definition py_isdigit :: "nat \<Rightarrow> bool" where
  "py_isdigit c \<longleftrightarrow> 48 \<le> c \<and> c \<le> 57"

fun digits_value :: "nat \<Rightarrow> pystr \<Rightarrow> nat option" where
  \<comment> \<open>the digits after the first one, with single underscores between digits\<close>
  "digits_value acc [] = Some acc"
| "digits_value acc (c # cs) =
     (if py_isdigit c then digits_value (10 * acc + (c - 48)) cs
      else if c = 95 \<and> cs \<noteq> [] \<and> py_isdigit (hd cs) then digits_value acc cs
      else None)"

definition unsigned_value :: "pystr \<Rightarrow> nat option" where
  "unsigned_value s = (case s of [] \<Rightarrow> None
     | c # cs \<Rightarrow> if py_isdigit c then digits_value (c - 48) cs else None)"

definition py_int :: "pystr \<Rightarrow> int option" where
  \<comment> \<open>\<open>int(s)\<close> on ASCII digits\<close>
  "py_int v = (case py_strip v of [] \<Rightarrow> None
     | c # cs \<Rightarrow> if c = 45 then map_option (\<lambda>n. - int n) (unsigned_value cs)
         else if c = 43 then map_option int (unsigned_value cs)
         else map_option int (unsigned_value (c # cs)))"

primrec py_split_max :: "nat \<Rightarrow> nat \<Rightarrow> pystr \<Rightarrow> pystr list" where
  \<comment> \<open>\<open>s.split(sep, maxsplit=n)\<close> for a separator of one character\<close>
  "py_split_max sep 0 s = [s]"
| "py_split_max sep (Suc n) s =
     (if sep \<in> set s
      then takeWhile (\<lambda>c. c \<noteq> sep) s # py_split_max sep n (tl (dropWhile (\<lambda>c. c \<noteq> sep) s))
      else [s])"

section \<open>Password digests\<close>

definition PASSWORD_SCHEME :: pystr where "PASSWORD_SCHEME = lit ''scrypt''"
definition SCRYPT_N :: int where "SCRYPT_N = 2 ^ 14"
definition SCRYPT_R :: int where "SCRYPT_R = 8"
definition SCRYPT_P :: int where "SCRYPT_P = 1"
definition SCRYPT_DKLEN :: nat where "SCRYPT_DKLEN = 64"

definition hash_password :: "crypto \<Rightarrow> nat list \<Rightarrow> pystr \<Rightarrow> error + pystr" where
  \<comment> \<open>\<open>salt\<close> is \<open>os.urandom(16)\<close>\<close>
  "hash_password cr salt password =
     bindE (validate_password_strength password) (\<lambda>normalized_password.
     case cr_scrypt cr normalized_password salt SCRYPT_N SCRYPT_R SCRYPT_P SCRYPT_DKLEN of
       None \<Rightarrow> Inl ValueError
     | Some derived_key \<Rightarrow> Inr (PASSWORD_SCHEME @ lit ''$'' @ show_int SCRYPT_N @ lit ''$'' @ show_int SCRYPT_R
         @ lit ''$'' @ show_int SCRYPT_P @ lit ''$'' @ bytes_hex salt @ lit ''$'' @ bytes_hex derived_key))"

definition verify_password :: "crypto \<Rightarrow> pystr \<Rightarrow> pystr \<Rightarrow> bool" where
  "verify_password cr password password_digest =
     (case py_split_max 36 5 password_digest of
        [scheme, n, r, p, salt_hex, expected_hex] \<Rightarrow>
          if scheme \<noteq> PASSWORD_SCHEME then False
          else (case (validate_password_strength password, bytes_fromhex salt_hex, py_int n, py_int r, py_int p,
                   bytes_fromhex expected_hex) of
              (Inr pw, Some salt, Some n, Some r, Some p, Some expected) \<Rightarrow>
                (case cr_scrypt cr pw salt n r p (length expected) of
                   None \<Rightarrow> False
                 | Some derived_key \<Rightarrow> bytes_hex derived_key = expected_hex)
            | _ \<Rightarrow> False)
      | _ \<Rightarrow> False)"

section \<open>API keys and the session\<close>

definition AGENT_TOKEN_PREFIX :: pystr where "AGENT_TOKEN_PREFIX = lit ''sk-''"

definition generate_agent_token :: "pystr \<Rightarrow> pystr" where
  \<comment> \<open>from the random part, \<open>secrets.token_urlsafe(32)\<close>\<close>
  "generate_agent_token random = AGENT_TOKEN_PREFIX @ random"

definition has_prefix :: "pystr \<Rightarrow> pystr \<Rightarrow> bool" where
  "has_prefix p s \<longleftrightarrow> take (length p) s = p"

definition hash_agent_token :: "crypto \<Rightarrow> pystr \<Rightarrow> error + pystr" where
  "hash_agent_token cr token =
     (let normalized_token = py_strip token in
      if normalized_token = [] then Inl ValueError
      else if \<not> has_prefix AGENT_TOKEN_PREFIX normalized_token then Inl ValueError
      else Inr (cr_sha256 cr normalized_token))"

definition extract_bearer_token :: "pystr option \<Rightarrow> pystr option" where
  "extract_bearer_token authorization =
     (case authorization of None \<Rightarrow> None
      | Some a \<Rightarrow>
          (let stripped = py_strip a; scheme = takeWhile (\<lambda>c. c \<noteq> 32) stripped;
               credentials = tl (dropWhile (\<lambda>c. c \<noteq> 32) stripped)
           in if py_lower scheme \<noteq> lit ''bearer'' then None
              else let token = py_strip credentials in if token = [] then None else Some token))"

type_synonym session = "pystr option"  \<comment> \<open>the \<open>user_id\<close> of the signed cookie\<close>

definition get_session_user_id :: "session \<Rightarrow> pystr option \<times> session" where
  "get_session_user_id s = (case s of None \<Rightarrow> (None, s)
     | Some user_id \<Rightarrow> (case normalize_user_id user_id of Inr u \<Rightarrow> (Some u, s) | Inl e \<Rightarrow> (None, None)))"

definition require_session_user_id :: "session \<Rightarrow> (error + pystr) \<times> session" where
  "require_session_user_id s = (case get_session_user_id s of
      (None, s') \<Rightarrow> (Inl (HTTPException 401 LoginRequired), s')
    | (Some u, s') \<Rightarrow> (Inr u, s'))"

definition verify_api_token :: "(pystr \<Rightarrow> bool) \<Rightarrow> pystr option \<Rightarrow> error + unit" where
  \<comment> \<open>\<open>settings.is_allowed_origin\<close> is a parameter\<close>
  "verify_api_token is_allowed_origin origin =
     (case origin of None \<Rightarrow> Inr ()
      | Some value \<Rightarrow> if value \<noteq> [] \<and> \<not> is_allowed_origin value then Inl (HTTPException 403 OriginNotAllowed)
          else Inr ())"

section \<open>Lemmas\<close>

lemma lower_char_idem [simp]: "lower_char (lower_char c) = lower_char c"
  by (auto simp: lower_char_def)

lemma lower_char_space [simp]: "py_isspace (lower_char c) = py_isspace c"
  by (auto simp: py_isspace_def lower_char_def)

lemma py_lower_idem [simp]: "py_lower (py_lower s) = py_lower s"
  by (simp add: py_lower_def)

lemma dropWhile_lower: "dropWhile py_isspace (map lower_char s) = map lower_char (dropWhile py_isspace s)"
  by (induction s) simp_all

lemma py_strip_lower: "py_strip (py_lower s) = py_lower (py_strip s)"
  by (simp add: py_strip_def py_rstrip_def py_lstrip_def py_lower_def rev_map dropWhile_lower)

lemma normalize_user_id_idem: "normalize_user_id v = Inr u \<Longrightarrow> normalize_user_id u = Inr u"
  by (auto simp: normalize_user_id_def Let_def py_strip_lower split: if_splits)

lemma normalize_user_id_pattern: "normalize_user_id v = Inr u \<Longrightarrow> USERNAME_PATTERN u"
  by (auto simp: normalize_user_id_def Let_def split: if_splits)

lemma normalize_email_idem: "normalize_email v = Inr u \<Longrightarrow> normalize_email u = Inr u"
  by (auto simp: normalize_email_def Let_def py_strip_lower split: if_splits)

lemma hex_value_digit: "n < 16 \<Longrightarrow> hex_value (hex_digit n) = Some n"
  by (auto simp: hex_value_def hex_digit_def)

lemma hex_digit_space: "n < 16 \<Longrightarrow> hex_digit n \<notin> {9, 10, 11, 12, 13, 32, 36}"
  by (auto simp: hex_digit_def)

lemma bytes_fromhex_hex: "\<forall>b \<in> set bs. b < 256 \<Longrightarrow> bytes_fromhex (bytes_hex bs) = Some bs"
proof (induction bs)
  case (Cons b bs)
  then have "b div 16 < 16" "b mod 16 < 16" by auto
  with Cons show ?case
    using hex_digit_space [of "b div 16"]
    by (simp add: bytes_hex_def hex_value_digit)
qed (simp add: bytes_hex_def)

lemma bytes_hex_dollar: "\<forall>b \<in> set bs. b < 256 \<Longrightarrow> 36 \<notin> set (bytes_hex bs)"
proof (induction bs)
  case (Cons b bs)
  then have "b div 16 < 16" "b mod 16 < 16" by auto
  with Cons show ?case
    using hex_digit_space [of "b div 16"] hex_digit_space [of "b mod 16"]
    by (auto simp: bytes_hex_def)
qed (simp add: bytes_hex_def)

lemma bytes_hex_inj:
  "\<forall>b \<in> set as. b < 256 \<Longrightarrow> \<forall>b \<in> set bs. b < 256 \<Longrightarrow> bytes_hex as = bytes_hex bs \<longleftrightarrow> as = bs"
  by (metis bytes_fromhex_hex option.inject)

lemma takeWhile_until: "sep \<notin> set a \<Longrightarrow> takeWhile (\<lambda>c. c \<noteq> sep) (a @ sep # b) = a"
  and dropWhile_until: "sep \<notin> set a \<Longrightarrow> dropWhile (\<lambda>c. c \<noteq> sep) (a @ sep # b) = sep # b"
  by (induction a) auto

lemma py_split_max_cons:
  "sep \<notin> set a \<Longrightarrow> py_split_max sep (Suc n) (a @ sep # b) = a # py_split_max sep n b"
  by (simp add: takeWhile_until dropWhile_until)

end
