(* ===== verification/Validators.thy ===== *)
theory Validators
  imports Asset_Entries
begin

text \<open>
  Model of the validators of \<^verbatim>\<open>backend/app/schema_parts/\<close> (\<^verbatim>\<open>common.py\<close>, \<^verbatim>\<open>assets.py\<close>,
  \<^verbatim>\<open>holdings.py\<close>): what turns the fields of a request body into the payloads that the services
  take. A field that may be left out is an option, a decimal that may also be null is an option
  inside; \<open>ValueError\<close> is any rejection. Texts that a choice accepts satisfy the length bounds of
  their field, which are left out there.
\<close>

section \<open>Shared normalizers\<close>

definition normalize_required_text :: "pystr \<Rightarrow> error + pystr" where
  "normalize_required_text v = (let stripped = py_strip v in if stripped = [] then Inl ValueError else Inr stripped)"

definition normalize_choice :: "pystr list \<Rightarrow> pystr \<Rightarrow> error + pystr" where
  "normalize_choice allowed v =
     (let normalized = py_upper (py_strip v) in if normalized \<in> set allowed then Inr normalized else Inl ValueError)"

definition normalize_enum :: "(pystr \<times> 'a) list \<Rightarrow> pystr \<Rightarrow> error + 'a" where
  \<comment> \<open>a choice whose accepted strings are the values of an enumeration\<close>
  "normalize_enum allowed v =
     (case map_of allowed (py_upper (py_strip v)) of None \<Rightarrow> Inl ValueError | Some x \<Rightarrow> Inr x)"

definition normalize_positive_decimal :: "dec option \<Rightarrow> error + fixed" where
  "normalize_positive_decimal v =
     bindE (liftA (quantize_decimal (to_decimal v))) (\<lambda>n. if n \<le> EPSILON then Inl ValueError else Inr n)"

definition normalize_non_negative_decimal :: "dec option \<Rightarrow> error + fixed" where
  "normalize_non_negative_decimal v =
     bindE (liftA (quantize_decimal (to_decimal v))) (\<lambda>n. if n < 0 then Inl ValueError else Inr n)"

definition normalize_optional_positive_decimal :: "dec option \<Rightarrow> error + fixed option" where
  "normalize_optional_positive_decimal v =
     bindE (liftA (quantize_optional_decimal v)) (\<lambda>r.
     case r of None \<Rightarrow> Inr None | Some n \<Rightarrow> if n \<le> EPSILON then Inl ValueError else Inr (Some n))"

definition normalize_non_zero_decimal :: "dec option \<Rightarrow> error + fixed" where
  "normalize_non_zero_decimal v =
     bindE (liftA (quantize_decimal (to_decimal v))) (\<lambda>n. if \<bar>n\<bar> \<le> EPSILON then Inl ValueError else Inr n)"

definition normalize_optional_non_zero_decimal :: "dec option \<Rightarrow> error + fixed option" where
  "normalize_optional_non_zero_decimal v =
     (if v = None then Inr None else bindE (normalize_non_zero_decimal v) (\<lambda>n. Inr (Some n)))"

section \<open>Fields\<close>

definition text_field :: "nat \<Rightarrow> nat \<Rightarrow> pystr \<Rightarrow> error + pystr" where
  "text_field lo hi s = (if lo \<le> length s \<and> length s \<le> hi then Inr s else Inl ValueError)"

definition optional_text :: "nat \<Rightarrow> pystr option \<Rightarrow> error + pystr option" where
  \<comment> \<open>\<open>_normalize_optional_text\<close>, then \<open>max_length\<close>\<close>
  "optional_text hi v = (case normalize_optional_text v of None \<Rightarrow> Inr None
     | Some s \<Rightarrow> if length s \<le> hi then Inr (Some s) else Inl ValueError)"

definition optional_name :: "pystr option \<Rightarrow> error + pystr option" where
  "optional_name v = (case v of None \<Rightarrow> Inr None
     | Some s \<Rightarrow> bindE (normalize_required_text s) (\<lambda>s. bindE (text_field 1 120 s) (\<lambda>s. Inr (Some s))))"

definition choice_field :: "pystr list \<Rightarrow> pystr \<Rightarrow> pystr option \<Rightarrow> error + pystr" where
  \<comment> \<open>with the default of a field that is left out\<close>
  "choice_field allowed initial v = (case v of None \<Rightarrow> Inr initial | Some s \<Rightarrow> normalize_choice allowed s)"

definition optional_choice :: "pystr list \<Rightarrow> pystr option \<Rightarrow> error + pystr option" where
  "optional_choice allowed v = (case v of None \<Rightarrow> Inr None
     | Some s \<Rightarrow> bindE (normalize_choice allowed s) (\<lambda>s. Inr (Some s)))"

definition optional_enum :: "(pystr \<times> 'a) list \<Rightarrow> pystr option \<Rightarrow> error + 'a option" where
  "optional_enum allowed v = (case v of None \<Rightarrow> Inr None
     | Some s \<Rightarrow> bindE (normalize_enum allowed s) (\<lambda>x. Inr (Some x)))"

definition id_field :: "int \<Rightarrow> error + nat" where
  "id_field i = (if i < 1 then Inl ValueError else Inr (nat i))"

definition optional_id :: "int option \<Rightarrow> error + nat option" where
  "optional_id v = (case v of None \<Rightarrow> Inr None | Some i \<Rightarrow> bindE (id_field i) (\<lambda>n. Inr (Some n)))"

definition when_set :: "('a option \<Rightarrow> error + 'b option) \<Rightarrow> 'a field \<Rightarrow> error + 'b field" where
  \<comment> \<open>a validator runs on a field that is given\<close>
  "when_set validate f = (case f of None \<Rightarrow> Inr None | Some v \<Rightarrow> bindE (validate v) (\<lambda>x. Inr (Some x)))"

definition check :: "bool \<Rightarrow> error + unit" where
  "check ok = assertE ok ValueError"

section \<open>Accounts, assets and liabilities\<close>

definition validate_cash_account_create ::
  "pystr \<Rightarrow> pystr \<Rightarrow> pystr option \<Rightarrow> dec option \<Rightarrow> pystr option \<Rightarrow> date option \<Rightarrow> pystr option
   \<Rightarrow> error + cash_account_create" where
  "validate_cash_account_create name platform currency balance account_type started_on note =
     bindE (text_field 1 80 name) (\<lambda>name. bindE (text_field 1 80 platform) (\<lambda>platform.
     bindE (choice_field SUPPORTED_CURRENCIES (lit ''CNY'') currency) (\<lambda>currency.
     bindE (normalize_non_negative_decimal balance) (\<lambda>balance.
     bindE (choice_field CASH_ACCOUNT_TYPES (lit ''OTHER'') account_type) (\<lambda>account_type.
     bindE (optional_text 500 note) (\<lambda>note.
     Inr \<lparr>cac_name = name, cac_platform = platform, cac_currency = currency, cac_balance = balance,
       cac_type = account_type, cac_started_on = started_on, cac_note = note\<rparr>))))))"

definition validate_cash_account_update ::
  "pystr \<Rightarrow> pystr \<Rightarrow> pystr option \<Rightarrow> dec option \<Rightarrow> pystr option \<Rightarrow> date field \<Rightarrow> pystr field
   \<Rightarrow> error + cash_account_update" where
  "validate_cash_account_update name platform currency balance account_type started_on note =
     bindE (text_field 1 80 name) (\<lambda>name. bindE (text_field 1 80 platform) (\<lambda>platform.
     bindE (choice_field SUPPORTED_CURRENCIES (lit ''CNY'') currency) (\<lambda>currency.
     bindE (normalize_non_negative_decimal balance) (\<lambda>balance.
     bindE (optional_choice CASH_ACCOUNT_TYPES account_type) (\<lambda>account_type.
     bindE (when_set (optional_text 500) note) (\<lambda>note.
     Inr \<lparr>cau_name = name, cau_platform = platform, cau_currency = currency, cau_balance = balance,
       cau_type = account_type, cau_started_on = started_on, cau_note = note\<rparr>))))))"

definition validate_valued_asset ::
  "pystr list \<Rightarrow> pystr \<Rightarrow> pystr option \<Rightarrow> dec option \<Rightarrow> dec option \<Rightarrow> date field \<Rightarrow> pystr field
   \<Rightarrow> error + valued_asset_payload" where
  \<comment> \<open>fixed assets and other assets, which differ in their categories\<close>
  "validate_valued_asset categories name category current_value basis_value started_on note =
     bindE (text_field 1 120 name) (\<lambda>name.
     bindE (choice_field categories (lit ''OTHER'') category) (\<lambda>category.
     bindE (normalize_positive_decimal current_value) (\<lambda>current_value.
     bindE (normalize_optional_positive_decimal basis_value) (\<lambda>basis_value.
     bindE (when_set (optional_text 500) note) (\<lambda>note.
     Inr \<lparr>vap_name = name, vap_category = category, vap_current_value_cny = current_value,
       vap_basis_value_cny = basis_value, vap_started_on = started_on, vap_note = note\<rparr>)))))"

definition validate_liability_create ::
  "pystr \<Rightarrow> pystr option \<Rightarrow> pystr option \<Rightarrow> dec option \<Rightarrow> date option \<Rightarrow> pystr option \<Rightarrow> error + liability_create" where
  "validate_liability_create name category currency balance started_on note =
     bindE (text_field 1 120 name) (\<lambda>name.
     bindE (choice_field LIABILITY_CATEGORIES (lit ''OTHER'') category) (\<lambda>category.
     bindE (choice_field SUPPORTED_CURRENCIES (lit ''CNY'') currency) (\<lambda>currency.
     bindE (normalize_non_negative_decimal balance) (\<lambda>balance.
     bindE (optional_text 500 note) (\<lambda>note.
     Inr \<lparr>lic_name = name, lic_category = category, lic_currency = currency, lic_balance = balance,
       lic_started_on = started_on, lic_note = note\<rparr>)))))"

definition validate_liability_update ::
  "pystr \<Rightarrow> pystr option \<Rightarrow> pystr option \<Rightarrow> dec option \<Rightarrow> date field \<Rightarrow> pystr field \<Rightarrow> error + liability_update" where
  "validate_liability_update name category currency balance started_on note =
     bindE (text_field 1 120 name) (\<lambda>name.
     bindE (optional_choice LIABILITY_CATEGORIES category) (\<lambda>category.
     bindE (choice_field SUPPORTED_CURRENCIES (lit ''CNY'') currency) (\<lambda>currency.
     bindE (normalize_non_negative_decimal balance) (\<lambda>balance.
     bindE (when_set (optional_text 500) note) (\<lambda>note.
     Inr \<lparr>liu_name = name, liu_category = category, liu_currency = currency, liu_balance = balance,
       liu_started_on = started_on, liu_note = note\<rparr>)))))"

section \<open>Holdings and trades\<close>

definition quantity_fits_market :: "pystr \<Rightarrow> fixed \<Rightarrow> error + unit" where
  \<comment> \<open>whole shares, except for funds and crypto currencies\<close>
  "quantity_fits_market market quantity =
     (if market \<in> {lit ''FUND'', lit ''CRYPTO''} then Inr ()
      else bindE (liftA (is_integral_decimal (Some (of_fixed quantity)))) check)"

definition validate_holding_create ::
  "pystr \<Rightarrow> pystr \<Rightarrow> dec option \<Rightarrow> pystr option \<Rightarrow> dec option \<Rightarrow> pystr option \<Rightarrow> pystr option
   \<Rightarrow> date option \<Rightarrow> pystr option \<Rightarrow> error + holding_create" where
  "validate_holding_create symbol name quantity currency cost market broker started_on note =
     bindE (text_field 1 32 symbol) (\<lambda>symbol. bindE (text_field 1 120 name) (\<lambda>name.
     bindE (normalize_positive_decimal quantity) (\<lambda>quantity.
     bindE (choice_field SUPPORTED_CURRENCIES (lit ''CNY'') currency) (\<lambda>currency.
     bindE (normalize_optional_positive_decimal cost) (\<lambda>cost.
     bindE (choice_field SECURITY_MARKETS (lit ''OTHER'') market) (\<lambda>market.
     bindE (optional_text 120 broker) (\<lambda>broker. bindE (optional_text 500 note) (\<lambda>note.
     bindE (quantity_fits_market market quantity) (\<lambda>_.
     Inr \<lparr>hoc_symbol = symbol, hoc_name = name, hoc_quantity = quantity, hoc_fallback_currency = currency,
       hoc_cost_basis_price = cost, hoc_market = market, hoc_broker = broker, hoc_started_on = started_on,
       hoc_note = note\<rparr>)))))))))"

definition validate_holding_update ::
  "dec field \<Rightarrow> dec field \<Rightarrow> date field \<Rightarrow> pystr field \<Rightarrow> pystr field \<Rightarrow> error + holding_update" where
  "validate_holding_update quantity cost started_on broker note =
     bindE (when_set normalize_optional_positive_decimal quantity) (\<lambda>quantity.
     bindE (when_set normalize_optional_positive_decimal cost) (\<lambda>cost.
     bindE (when_set (optional_text 120) broker) (\<lambda>broker.
     bindE (when_set (optional_text 500) note) (\<lambda>note.
     Inr \<lparr>hou_quantity = quantity, hou_cost_basis_price = cost, hou_started_on = started_on,
       hou_broker = broker, hou_note = note\<rparr>))))"

definition check_cash_options :: "transaction_create \<Rightarrow> error + unit" where
  \<comment> \<open>the part of the model validator that is about cash\<close>
  "check_cash_options p =
     (if txc_side p = BUY
      then bindE (check (\<not> (txc_sell_handling p \<noteq> None \<or> txc_sell_account p \<noteq> None))) (\<lambda>_.
           let effective_funding = or_else (txc_buy_handling p)
                 (if txc_buy_account p \<noteq> None then Some DEDUCT_FROM_EXISTING_CASH else None)
           in bindE (check (\<not> (effective_funding = Some DEDUCT_FROM_EXISTING_CASH \<and> txc_buy_account p = None))) (\<lambda>_.
              check (\<not> (effective_funding \<noteq> Some DEDUCT_FROM_EXISTING_CASH \<and> txc_buy_account p \<noteq> None))))
      else bindE (check (\<not> (txc_buy_handling p \<noteq> None \<or> txc_buy_account p \<noteq> None))) (\<lambda>_.
           let effective_handling = (case txc_sell_handling p of Some h \<Rightarrow> h | None \<Rightarrow> CREATE_NEW_CASH)
           in bindE (check (\<not> (effective_handling = ADD_TO_EXISTING_CASH \<and> txc_sell_account p = None))) (\<lambda>_.
              check (\<not> (effective_handling \<noteq> ADD_TO_EXISTING_CASH \<and> txc_sell_account p \<noteq> None)))))"

record raw_transaction =
  raw_side :: "pystr option"
  raw_symbol :: pystr
  raw_name :: pystr
  raw_quantity :: "dec option"
  raw_price :: "dec option"
  raw_currency :: "pystr option"
  raw_market :: "pystr option"
  raw_broker :: "pystr option"
  raw_traded_on :: date
  raw_note :: "pystr option"
  raw_sell_handling :: "pystr option"
  raw_sell_account :: "int option"
  raw_buy_handling :: "pystr option"
  raw_buy_account :: "int option"

definition validate_transaction_create :: "raw_transaction \<Rightarrow> error + transaction_create" where
  "validate_transaction_create r =
     bindE (case raw_side r of None \<Rightarrow> Inr BUY | Some s \<Rightarrow> normalize_enum HOLDING_TRANSACTION_SIDES s) (\<lambda>side.
     bindE (text_field 1 32 (raw_symbol r)) (\<lambda>symbol. bindE (text_field 1 120 (raw_name r)) (\<lambda>name.
     bindE (normalize_positive_decimal (raw_quantity r)) (\<lambda>quantity.
     bindE (normalize_optional_positive_decimal (raw_price r)) (\<lambda>price.
     bindE (choice_field SUPPORTED_CURRENCIES (lit ''CNY'') (raw_currency r)) (\<lambda>currency.
     bindE (choice_field SECURITY_MARKETS (lit ''OTHER'') (raw_market r)) (\<lambda>market.
     bindE (optional_text 120 (raw_broker r)) (\<lambda>broker. bindE (optional_text 500 (raw_note r)) (\<lambda>note.
     bindE (optional_enum SELL_PROCEEDS_HANDLINGS (raw_sell_handling r)) (\<lambda>sell_handling.
     bindE (optional_id (raw_sell_account r)) (\<lambda>sell_account.
     bindE (optional_enum BUY_FUNDING_HANDLINGS (raw_buy_handling r)) (\<lambda>buy_handling.
     bindE (optional_id (raw_buy_account r)) (\<lambda>buy_account.
     let p = \<lparr>txc_side = side, txc_symbol = symbol, txc_name = name, txc_quantity = quantity, txc_price = price,
           txc_fallback_currency = currency, txc_market = market, txc_broker = broker,
           txc_traded_on = raw_traded_on r, txc_note = note, txc_sell_handling = sell_handling,
           txc_sell_account = sell_account, txc_buy_handling = buy_handling, txc_buy_account = buy_account\<rparr>
     in bindE (quantity_fits_market market quantity) (\<lambda>_. bindE (check_cash_options p) (\<lambda>_. Inr p)))))))))))))))"

record raw_transaction_update =
  rau_name :: "pystr option"
  rau_quantity :: "dec option"
  rau_price :: "dec field"
  rau_currency :: "pystr option"
  rau_broker :: "pystr field"
  rau_traded_on :: "date option"
  rau_note :: "pystr field"
  rau_sell_handling :: "pystr option"
  rau_sell_account :: "int field"
  rau_buy_handling :: "pystr option"
  rau_buy_account :: "int field"

definition validate_transaction_update :: "raw_transaction_update \<Rightarrow> error + transaction_update" where
  "validate_transaction_update r =
     bindE (optional_name (rau_name r)) (\<lambda>name.
     bindE (normalize_optional_positive_decimal (rau_quantity r)) (\<lambda>quantity.
     bindE (when_set normalize_optional_positive_decimal (rau_price r)) (\<lambda>price.
     bindE (optional_choice SUPPORTED_CURRENCIES (rau_currency r)) (\<lambda>currency.
     bindE (when_set (optional_text 120) (rau_broker r)) (\<lambda>broker.
     bindE (when_set (optional_text 500) (rau_note r)) (\<lambda>note.
     bindE (optional_enum SELL_PROCEEDS_HANDLINGS (rau_sell_handling r)) (\<lambda>sell_handling.
     bindE (when_set optional_id (rau_sell_account r)) (\<lambda>sell_account.
     bindE (optional_enum BUY_FUNDING_HANDLINGS (rau_buy_handling r)) (\<lambda>buy_handling.
     bindE (when_set optional_id (rau_buy_account r)) (\<lambda>buy_account.
     bindE (check (\<not> (sell_handling \<noteq> None \<and> sell_handling \<noteq> Some ADD_TO_EXISTING_CASH
         \<and> field_value sell_account \<noteq> None))) (\<lambda>_.
     bindE (check (\<not> (buy_handling \<noteq> None \<and> buy_handling \<noteq> Some DEDUCT_FROM_EXISTING_CASH
         \<and> field_value buy_account \<noteq> None))) (\<lambda>_.
     Inr \<lparr>txu_name = name, txu_quantity = quantity, txu_price = price, txu_fallback_currency = currency,
       txu_broker = broker, txu_traded_on = rau_traded_on r, txu_note = note,
       txu_sell_handling = sell_handling, txu_sell_account = sell_account,
       txu_buy_handling = buy_handling, txu_buy_account = buy_account\<rparr>))))))))))))"

section \<open>Transfers and adjustments\<close>

definition validate_transfer_create ::
  "int \<Rightarrow> int \<Rightarrow> dec option \<Rightarrow> dec option \<Rightarrow> date \<Rightarrow> pystr option \<Rightarrow> error + transfer_create" where
  "validate_transfer_create from_id to_id source_amount target_amount transferred_on note =
     bindE (id_field from_id) (\<lambda>from_id. bindE (id_field to_id) (\<lambda>to_id.
     bindE (normalize_positive_decimal source_amount) (\<lambda>source_amount.
     bindE (normalize_optional_positive_decimal target_amount) (\<lambda>target_amount.
     bindE (optional_text 500 note) (\<lambda>note.
     bindE (check (from_id \<noteq> to_id)) (\<lambda>_.
     Inr \<lparr>trc_from = from_id, trc_to = to_id, trc_source_amount = source_amount,
       trc_target_amount = target_amount, trc_transferred_on = transferred_on, trc_note = note\<rparr>))))))"

definition validate_transfer_update ::
  "int field \<Rightarrow> int field \<Rightarrow> dec field \<Rightarrow> dec field \<Rightarrow> date field \<Rightarrow> pystr field \<Rightarrow> error + transfer_update" where
  "validate_transfer_update from_id to_id source_amount target_amount transferred_on note =
     bindE (when_set optional_id from_id) (\<lambda>from_id. bindE (when_set optional_id to_id) (\<lambda>to_id.
     bindE (when_set normalize_optional_positive_decimal source_amount) (\<lambda>source_amount.
     bindE (when_set normalize_optional_positive_decimal target_amount) (\<lambda>target_amount.
     bindE (when_set (optional_text 500) note) (\<lambda>note.
     bindE (check (\<not> (field_value from_id \<noteq> None \<and> field_value from_id = field_value to_id))) (\<lambda>_.
     Inr \<lparr>tru_from = from_id, tru_to = to_id, tru_source_amount = source_amount,
       tru_target_amount = target_amount, tru_transferred_on = transferred_on, tru_note = note\<rparr>))))))"

definition validate_adjustment_create :: "int \<Rightarrow> dec option \<Rightarrow> date \<Rightarrow> pystr option \<Rightarrow> error + adjustment_create" where
  "validate_adjustment_create account amount happened_on note =
     bindE (id_field account) (\<lambda>account. bindE (normalize_non_zero_decimal amount) (\<lambda>amount.
     bindE (optional_text 500 note) (\<lambda>note.
     Inr \<lparr>adc_account = account, adc_amount = amount, adc_happened_on = happened_on, adc_note = note\<rparr>)))"

definition validate_adjustment_update :: "dec field \<Rightarrow> date field \<Rightarrow> pystr field \<Rightarrow> error + adjustment_update" where
  "validate_adjustment_update amount happened_on note =
     bindE (when_set normalize_optional_non_zero_decimal amount) (\<lambda>amount.
     bindE (when_set (optional_text 500) note) (\<lambda>note.
     Inr \<lparr>adu_amount = amount, adu_happened_on = happened_on, adu_note = note\<rparr>))"

section \<open>What a validated field is\<close>

named_theorems field_ok

lemma normalize_choice_ok [field_ok]: "normalize_choice allowed v = Inr s \<Longrightarrow> s \<in> set allowed"
  by (auto simp: normalize_choice_def Let_def split: if_splits)

lemma choice_field_ok [field_ok]: "choice_field allowed initial v = Inr s \<Longrightarrow> s \<in> insert initial (set allowed)"
  by (auto simp: choice_field_def normalize_choice_ok split: option.splits)

lemma text_field_ok [field_ok]: "text_field lo hi v = Inr s \<Longrightarrow> s = v \<and> lo \<le> length s \<and> length s \<le> hi"
  by (auto simp: text_field_def split: if_splits)

lemma optional_text_ok [field_ok]:
  "optional_text hi v = Inr (Some s) \<Longrightarrow> s \<noteq> [] \<and> length s \<le> hi \<and> py_strip s = s"
  by (auto simp: optional_text_def normalize_optional_text_def Let_def split: option.splits if_splits)

lemma positive_decimal_ok [field_ok]: "normalize_positive_decimal v = Inr n \<Longrightarrow> EPSILON < n"
  by (auto simp: normalize_positive_decimal_def bindE_eq_Inr split: if_splits)

lemma non_negative_decimal_ok [field_ok]: "normalize_non_negative_decimal v = Inr n \<Longrightarrow> 0 \<le> n"
  by (auto simp: normalize_non_negative_decimal_def bindE_eq_Inr split: if_splits)

lemma optional_positive_decimal_ok [field_ok]:
  "normalize_optional_positive_decimal v = Inr (Some n) \<Longrightarrow> EPSILON < n"
  by (auto simp: normalize_optional_positive_decimal_def bindE_eq_Inr split: if_splits option.splits)

lemma non_zero_decimal_ok [field_ok]: "normalize_non_zero_decimal v = Inr n \<Longrightarrow> EPSILON < \<bar>n\<bar>"
  by (auto simp: normalize_non_zero_decimal_def bindE_eq_Inr split: if_splits)

lemma id_field_ok [field_ok]: "id_field i = Inr n \<Longrightarrow> 0 < n \<and> int n = i"
  by (auto simp: id_field_def split: if_splits)

lemma check_ok [simp]: "check b = Inr u \<longleftrightarrow> b"
  by (simp add: check_def)

end
