(* ===== verification/Auth_State.thy ===== *)
theory Auth_State
  imports Redis_Store Security Validators
begin

text \<open>
  The state behind \<^verbatim>\<open>backend/app/services/auth_service.py\<close>: accounts, API keys and agent
  registrations in the database, login attempts and request counters in Redis; with the request
  payloads of \<^verbatim>\<open>schema_parts/auth.py\<close> and their validators. The clock does not advance within a
  request, and the Redis locks are always acquired.
\<close>

section \<open>Rows\<close>

record user_account =
  us_email :: "pystr option"
  us_password_digest :: pystr
  us_email_digest :: "pystr option"
  us_created_at :: datetime
  us_updated_at :: datetime

record access_token =
  tk_user :: pystr
  tk_name :: pystr
  tk_token_digest :: pystr
  tk_token_hint :: pystr
  tk_created_at :: datetime
  tk_updated_at :: datetime
  tk_last_used_at :: "datetime option"
  tk_expires_at :: "datetime option"
  tk_revoked_at :: "datetime option"

datatype registration_status = REG_ACTIVE | REG_INACTIVE

record agent_registration =
  rg_user :: pystr
  rg_name :: pystr
  rg_status :: registration_status
  rg_request_count :: int
  rg_latest_api_key_name :: "pystr option"
  rg_created_at :: datetime
  rg_updated_at :: datetime
  rg_last_seen_at :: "datetime option"

record login_attempt_state =
  la_timestamps :: "datetime list"
  la_failed :: int
  la_last :: datetime

type_synonym attempt_key = "pystr \<times> pystr"

record auth_state =
  as_users :: "(pystr \<times> user_account) list"  \<comment> \<open>by user name, the primary key\<close>
  as_tokens :: "access_token table"
  as_registrations :: "agent_registration table"
  as_attempts :: "(attempt_key, login_attempt_state) redis"
  as_counts :: "(pystr \<times> int, int) redis"  \<comment> \<open>requests by user and second\<close>

record http_request =
  rq_authorization :: "pystr option"
  rq_agent_name :: "pystr option"
  rq_device_id :: "pystr option"
  rq_client_host :: "pystr option"
  rq_user_agent :: "pystr option"

section \<open>Payloads\<close>

record register_credentials =
  rc_user_id :: pystr
  rc_email :: pystr
  rc_password :: pystr

record login_credentials =
  lc_user_id :: pystr
  lc_password :: pystr

record token_create =
  tc_name :: pystr
  tc_expires_in_days :: "int option"

record token_issue_create = token_create +
  ti_user_id :: pystr
  ti_password :: pystr

record password_reset =
  pr_user_id :: pystr
  pr_email :: pystr
  pr_new_password :: pystr

definition validate_register_credentials ::
  "pystr \<Rightarrow> pystr \<Rightarrow> pystr \<Rightarrow> error + register_credentials" where
  "validate_register_credentials user_id email password =
     bindE (normalize_user_id user_id) (\<lambda>u. bindE (text_field 3 32 u) (\<lambda>u.
     bindE (normalize_email email) (\<lambda>e. bindE (text_field 3 320 e) (\<lambda>e.
     bindE (validate_password_strength password) (\<lambda>p. bindE (text_field 8 128 p) (\<lambda>p.
     Inr \<lparr>rc_user_id = u, rc_email = e, rc_password = p\<rparr>))))))"

definition validate_login_credentials :: "pystr \<Rightarrow> pystr \<Rightarrow> error + login_credentials" where
  "validate_login_credentials user_id password =
     bindE (normalize_user_id user_id) (\<lambda>u. bindE (text_field 3 32 u) (\<lambda>u.
     bindE (text_field 1 128 password) (\<lambda>p. Inr \<lparr>lc_user_id = u, lc_password = p\<rparr>)))"

definition hyphen_parts :: "pystr \<Rightarrow> pystr list" where
  "hyphen_parts s = py_split_max 45 (length s) s"

definition AGENT_TOKEN_NAME_PATTERN :: "pystr \<Rightarrow> bool" where
  \<comment> \<open>words of lower case letters joined by single hyphens\<close>
  "AGENT_TOKEN_NAME_PATTERN s =
     list_all (\<lambda>part. part \<noteq> [] \<and> list_all (\<lambda>c. 97 \<le> c \<and> c \<le> 122) part) (hyphen_parts s)"

definition validate_token_name :: "pystr \<Rightarrow> error + pystr" where
  "validate_token_name v =
     (let name = py_strip v in
      if name = [] then Inl ValueError
      else if list_ex (\<lambda>c. c < 32) name then Inl ValueError
      else if \<not> AGENT_TOKEN_NAME_PATTERN name then Inl ValueError
      else text_field 3 80 name)"

definition validate_token_create :: "pystr \<Rightarrow> int option \<Rightarrow> error + token_create" where
  "validate_token_create v days =
     bindE (validate_token_name v) (\<lambda>name.
     if (case days of None \<Rightarrow> False | Some d \<Rightarrow> d < 1 \<or> 3650 < d) then Inl ValueError
     else Inr \<lparr>tc_name = name, tc_expires_in_days = days\<rparr>)"

definition validate_token_issue_create ::
  "pystr \<Rightarrow> int option \<Rightarrow> pystr \<Rightarrow> pystr \<Rightarrow> error + token_issue_create" where
  "validate_token_issue_create v days user_id password =
     bindE (validate_token_create v days) (\<lambda>t. bindE (validate_login_credentials user_id password) (\<lambda>l.
     Inr \<lparr>tc_name = tc_name t, tc_expires_in_days = days, ti_user_id = lc_user_id l,
       ti_password = lc_password l\<rparr>))"

definition validate_password_reset :: "pystr \<Rightarrow> pystr \<Rightarrow> pystr \<Rightarrow> error + password_reset" where
  "validate_password_reset user_id email password =
     bindE (validate_register_credentials user_id email password) (\<lambda>r.
     Inr \<lparr>pr_user_id = rc_user_id r, pr_email = rc_email r, pr_new_password = rc_password r\<rparr>)"

section \<open>Responses\<close>

record auth_session_read =
  sr_user_id :: pystr
  sr_email :: "pystr option"

record token_read =
  tr_id :: nat
  tr_name :: pystr
  tr_token_hint :: pystr
  tr_created_at :: datetime
  tr_updated_at :: datetime
  tr_last_used_at :: "datetime option"
  tr_expires_at :: "datetime option"
  tr_revoked_at :: "datetime option"

record token_issue_read = token_read +
  tr_access_token :: pystr

section \<open>Limits\<close>

definition LOGIN_ATTEMPT_WINDOW :: int where "LOGIN_ATTEMPT_WINDOW = US_MINUTE"
definition MAX_LOGIN_ATTEMPTS_PER_WINDOW :: nat where "MAX_LOGIN_ATTEMPTS_PER_WINDOW = 8"
definition FAILED_LOGIN_FORGOT_PASSWORD_THRESHOLD :: int where
  "FAILED_LOGIN_FORGOT_PASSWORD_THRESHOLD = 5"
definition MAX_LOGIN_DEVICE_ID_LENGTH :: nat where "MAX_LOGIN_DEVICE_ID_LENGTH = 120"
definition LOGIN_ATTEMPT_STATE_TTL :: int where "LOGIN_ATTEMPT_STATE_TTL = 24 * US_HOUR"
definition LOGIN_ATTEMPT_TTL_SECONDS :: int where "LOGIN_ATTEMPT_TTL_SECONDS = 24 * 60 * 60 * US_SECOND"
definition AGENT_TOKEN_LAST_USED_UPDATE_INTERVAL :: int where
  "AGENT_TOKEN_LAST_USED_UPDATE_INTERVAL = US_MINUTE"
definition MAX_ACTIVE_AGENT_TOKENS_PER_USER :: nat where "MAX_ACTIVE_AGENT_TOKENS_PER_USER = 5"
definition MAX_DAILY_AGENT_TOKEN_CREATIONS :: nat where "MAX_DAILY_AGENT_TOKEN_CREATIONS = 10"
definition AUTHENTICATED_REQUESTS_PER_SECOND :: int where "AUTHENTICATED_REQUESTS_PER_SECOND = 10"
definition AGENT_TOKEN_HINT_VISIBLE_LENGTH :: nat where "AGENT_TOKEN_HINT_VISIBLE_LENGTH = 2"
definition AGENT_TOKEN_HINT_MASK_LENGTH :: nat where "AGENT_TOKEN_HINT_MASK_LENGTH = 11"

section \<open>Login attempts\<close>

definition normalize_client_device_id :: "pystr option \<Rightarrow> pystr option" where
  "normalize_client_device_id raw = (case raw of None \<Rightarrow> None
     | Some v \<Rightarrow> (let normalized = py_strip v in
         if normalized = [] then None else Some (take MAX_LOGIN_DEVICE_ID_LENGTH normalized)))"

definition build_login_attempt_key :: "crypto \<Rightarrow> http_request \<Rightarrow> pystr \<Rightarrow> error + attempt_key" where
  "build_login_attempt_key cr req user_id =
     bindE (normalize_user_id user_id) (\<lambda>u. Inr (u,
       case normalize_client_device_id (rq_device_id req) of
         Some device \<Rightarrow> lit ''device:'' @ device
       | None \<Rightarrow>
           (let client_host = (case rq_client_host req of Some h \<Rightarrow> h | None \<Rightarrow> lit ''unknown'');
                user_agent = py_lower (py_strip (case rq_user_agent req of Some s \<Rightarrow> s | None \<Rightarrow> []))
            in lit ''fallback:'' @ take 24 (cr_sha256 cr (client_host @ lit ''|'' @ user_agent)))))"

definition prune_login_attempt_timestamps :: "datetime list \<Rightarrow> datetime \<Rightarrow> datetime list" where
  "prune_login_attempt_timestamps stamps now = filter (\<lambda>t. t \<ge> now - LOGIN_ATTEMPT_WINDOW) stamps"

definition get_attempts :: "datetime \<Rightarrow> auth_state \<Rightarrow> attempt_key \<Rightarrow> login_attempt_state option" where
  "get_attempts now a key = redis_get now (as_attempts a) key"

definition put_attempts :: "datetime \<Rightarrow> attempt_key \<Rightarrow> login_attempt_state \<Rightarrow> auth_state \<Rightarrow> auth_state" where
  "put_attempts now key st a =
     a\<lparr>as_attempts := redis_set now (Some LOGIN_ATTEMPT_TTL_SECONDS) key st (as_attempts a)\<rparr>"

definition cleanup_expired_login_attempt_states :: "datetime \<Rightarrow> auth_state \<Rightarrow> auth_state" where
  "cleanup_expired_login_attempt_states now a =
     (let expired_keys = map fst (filter (\<lambda>(k, st). la_last st < now - LOGIN_ATTEMPT_STATE_TTL)
            (redis_items now (as_attempts a)))
      in a\<lparr>as_attempts := fold redis_delete expired_keys (as_attempts a)\<rparr>)"

definition reserve_login_attempt ::
  "attempt_key \<Rightarrow> datetime \<Rightarrow> auth_state \<Rightarrow> (error + unit) \<times> auth_state" where
  "reserve_login_attempt key now a =
     (let (st, a1) = (case get_attempts now a key of
            Some st \<Rightarrow> (st, a)
          | None \<Rightarrow> (let st = \<lparr>la_timestamps = [], la_failed = 0, la_last = now\<rparr>
                    in (st, put_attempts now key st a)));
          stamps = prune_login_attempt_timestamps (la_timestamps st) now
      in if length stamps \<ge> MAX_LOGIN_ATTEMPTS_PER_WINDOW
         then (Inl (HTTPException 429 TooManyLoginAttempts), a1)
         else (let a2 = put_attempts now key (st\<lparr>la_timestamps := stamps @ [now], la_last := now\<rparr>) a1
               in (Inr (), if redis_len now (as_attempts a2) > 2048
                    then cleanup_expired_login_attempt_states now a2 else a2)))"

definition record_failed_login_attempt :: "attempt_key \<Rightarrow> datetime \<Rightarrow> auth_state \<Rightarrow> int \<times> auth_state" where
  "record_failed_login_attempt key now a =
     (let st = (case get_attempts now a key of Some st \<Rightarrow> st
            | None \<Rightarrow> \<lparr>la_timestamps = [now], la_failed = 0, la_last = now\<rparr>);
          st1 = st\<lparr>la_failed := la_failed st + 1, la_last := now\<rparr>
      in (la_failed st1, put_attempts now key st1 a))"

definition record_successful_login :: "attempt_key \<Rightarrow> datetime \<Rightarrow> auth_state \<Rightarrow> auth_state" where
  "record_successful_login key now a = (case get_attempts now a key of
       None \<Rightarrow> a
     | Some st \<Rightarrow> put_attempts now key (st\<lparr>la_failed := 0, la_last := now\<rparr>) a)"

definition get_user :: "auth_state \<Rightarrow> pystr \<Rightarrow> error + (pystr \<times> user_account) option" where
  "get_user a user_id = bindE (normalize_user_id user_id) (\<lambda>u.
     Inr (map_option (Pair u) (map_of (as_users a) u)))"

definition authenticate_user_account ::
  "crypto \<Rightarrow> login_credentials \<Rightarrow> attempt_key \<Rightarrow> datetime \<Rightarrow> auth_state
   \<Rightarrow> (error + pystr \<times> user_account) \<times> auth_state" where
  "authenticate_user_account cr credentials key now a =
     (case reserve_login_attempt key now a of
        (Inl e, a1) \<Rightarrow> (Inl e, a1)
      | (Inr u, a1) \<Rightarrow>
          (case get_user a1 (lc_user_id credentials) of
             Inl e \<Rightarrow> (Inl e, a1)
           | Inr found \<Rightarrow>
               (case (case found of Some (n, row) \<Rightarrow>
                        if verify_password cr (lc_password credentials) (us_password_digest row)
                        then Some (n, row) else None | None \<Rightarrow> None) of
                  Some user \<Rightarrow> (Inr user, record_successful_login key now a1)
                | None \<Rightarrow>
                    (let (failed_attempts, a2) = record_failed_login_attempt key now a1 in
                     (Inl (HTTPException 401
                        (if failed_attempts \<ge> FAILED_LOGIN_FORGOT_PASSWORD_THRESHOLD then ForgotPassword
                         else InvalidCredentials)), a2)))))"

section \<open>Request rate\<close>

definition enforce_authenticated_request_rate_limit ::
  "pystr \<Rightarrow> datetime \<Rightarrow> auth_state \<Rightarrow> (error + unit) \<times> auth_state" where
  "enforce_authenticated_request_rate_limit user_id now a =
     (case normalize_user_id user_id of
        Inl e \<Rightarrow> (Inl e, a)
      | Inr u \<Rightarrow>
          (let key = (u, now div US_SECOND);
               (current_count, counts) = redis_incr now key (as_counts a);
               a1 = a\<lparr>as_counts := if current_count = 1 then redis_expire now key (2 * US_SECOND) counts
                 else counts\<rparr>
           in (if current_count > AUTHENTICATED_REQUESTS_PER_SECOND
               then Inl (HTTPException 429 TooManyRequests) else Inr (), a1)))"

end
