(* ===== verification/Auth.thy ===== *)
theory Auth
  imports Auth_State
begin

text \<open>
  Model of the API keys, the agents and the handlers of \<^verbatim>\<open>backend/app/services/auth_service.py\<close>.
  A handler commits as it goes, so it returns its outcome, an exception included, with the state it
  leaves. The candidates for a new key are the outputs of \<open>generate_agent_token\<close>, in order.
\<close>

section \<open>API keys\<close>

definition is_agent_token_active :: "access_token \<Rightarrow> datetime \<Rightarrow> bool" where
  "is_agent_token_active t now =
     (if tk_revoked_at t \<noteq> None then False
      else (case tk_expires_at t of None \<Rightarrow> True | Some e \<Rightarrow> \<not> e \<le> now))"

definition get_agent_access_token_by_digest :: "auth_state \<Rightarrow> pystr \<Rightarrow> (nat \<times> access_token) option" where
  "get_agent_access_token_by_digest a digest =
     (case tselect (\<lambda>t. tk_token_digest t = digest) (as_tokens a) of [] \<Rightarrow> None | p # ps \<Rightarrow> Some p)"

definition list_agent_access_tokens_for_user :: "auth_state \<Rightarrow> pystr \<Rightarrow> (nat \<times> access_token) list" where
  "list_agent_access_tokens_for_user a user =
     rev (sort_key (\<lambda>(i, t). (tk_created_at t, i)) (tselect (\<lambda>t. tk_user t = user) (as_tokens a)))"

definition list_active_agent_access_tokens_for_user ::
  "auth_state \<Rightarrow> pystr \<Rightarrow> datetime \<Rightarrow> (nat \<times> access_token) list" where
  "list_active_agent_access_tokens_for_user a user now =
     filter (\<lambda>(i, t). is_agent_token_active t now) (list_agent_access_tokens_for_user a user)"

definition registration_inactive :: "datetime \<Rightarrow> agent_registration \<Rightarrow> agent_registration" where
  "registration_inactive now r =
     r\<lparr>rg_status := REG_INACTIVE, rg_latest_api_key_name := None, rg_updated_at := now\<rparr>"

definition revoke_agent_token_row :: "datetime \<Rightarrow> nat \<Rightarrow> access_token \<Rightarrow> auth_state \<Rightarrow> auth_state" where
  \<comment> \<open>the key and the registrations that used it last\<close>
  "revoke_agent_token_row now i t a =
     (if tk_revoked_at t \<noteq> None then a
      else a\<lparr>as_tokens := tput i (t\<lparr>tk_revoked_at := Some now, tk_updated_at := now\<rparr>) (as_tokens a),
             as_registrations := fold (\<lambda>(j, r). tput j (registration_inactive now r))
               (tselect (\<lambda>r. rg_user r = tk_user t \<and> rg_latest_api_key_name r = Some (tk_name t))
                 (as_registrations a)) (as_registrations a)\<rparr>)"

definition sync_expired_agent_tokens_for_user :: "pystr \<Rightarrow> datetime \<Rightarrow> auth_state \<Rightarrow> auth_state" where
  "sync_expired_agent_tokens_for_user user now a =
     fold (\<lambda>(i, t) a. case tk_expires_at t of
           None \<Rightarrow> a
         | Some e \<Rightarrow> if tk_revoked_at t \<noteq> None \<or> e > now then a else revoke_agent_token_row now i t a)
       (list_agent_access_tokens_for_user a user) a"

definition current_server_day_window :: "datetime \<Rightarrow> datetime \<times> datetime" where
  "current_server_day_window now =
     (let local_day = (now + LOCAL_OFFSET) div US_DAY
      in (local_day * US_DAY - LOCAL_OFFSET, (local_day + 1) * US_DAY - LOCAL_OFFSET))"

definition count_today_agent_token_creations_for_user :: "auth_state \<Rightarrow> pystr \<Rightarrow> datetime \<Rightarrow> nat" where
  "count_today_agent_token_creations_for_user a user now =
     (let (day_start, day_end) = current_server_day_window now
      in length (tselect (\<lambda>t. tk_user t = user \<and> tk_created_at t \<ge> day_start \<and> tk_created_at t < day_end)
           (as_tokens a)))"

definition resolve_agent_token_expiry :: "datetime \<Rightarrow> int option \<Rightarrow> datetime option" where
  "resolve_agent_token_expiry now days = map_option (\<lambda>d. now + d * US_DAY) days"

definition build_agent_token_hint :: "pystr \<Rightarrow> pystr" where
  "build_agent_token_hint visible_fragment =
     (let visible = take AGENT_TOKEN_HINT_VISIBLE_LENGTH
            (if visible_fragment = [] then lit ''xx'' else visible_fragment)
      in lit ''sk-'' @ visible @ replicate (AGENT_TOKEN_HINT_VISIBLE_LENGTH - length visible) 120
         @ replicate AGENT_TOKEN_HINT_MASK_LENGTH 42)"

definition format_agent_token_hint :: "pystr \<Rightarrow> pystr" where
  "format_agent_token_hint raw = build_agent_token_hint (take AGENT_TOKEN_HINT_VISIBLE_LENGTH (drop 3 raw))"

definition normalize_agent_token_hint_for_output :: "pystr \<Rightarrow> pystr" where
  "normalize_agent_token_hint_for_output token_hint =
     (let normalized = py_strip token_hint in
      if has_prefix (lit ''sk-'') normalized
      then build_agent_token_hint (take AGENT_TOKEN_HINT_VISIBLE_LENGTH (filter (\<lambda>c. c \<noteq> 42) (drop 3 normalized)))
      else lit ''sk-xx***********'')"

definition to_agent_token_read :: "nat \<Rightarrow> access_token \<Rightarrow> token_read" where
  "to_agent_token_read i t = \<lparr>tr_id = i, tr_name = tk_name t,
     tr_token_hint = normalize_agent_token_hint_for_output (tk_token_hint t),
     tr_created_at = tk_created_at t, tr_updated_at = tk_updated_at t, tr_last_used_at = tk_last_used_at t,
     tr_expires_at = tk_expires_at t, tr_revoked_at = tk_revoked_at t\<rparr>"

definition new_access_token :: "pystr \<Rightarrow> pystr \<Rightarrow> int option \<Rightarrow> pystr \<Rightarrow> pystr \<Rightarrow> datetime \<Rightarrow> access_token" where
  "new_access_token user name days digest raw now = \<lparr>tk_user = user, tk_name = name,
     tk_token_digest = digest, tk_token_hint = format_agent_token_hint raw, tk_created_at = now,
     tk_updated_at = now, tk_last_used_at = None,
     tk_expires_at = resolve_agent_token_expiry now days, tk_revoked_at = None\<rparr>"

fun store_new_agent_token ::
  "crypto \<Rightarrow> pystr \<Rightarrow> pystr \<Rightarrow> int option \<Rightarrow> datetime \<Rightarrow> pystr list \<Rightarrow> auth_state
   \<Rightarrow> (error + (nat \<times> access_token) \<times> pystr) \<times> auth_state" where
  "store_new_agent_token cr user name days now [] a = (Inl RuntimeError, a)"
| "store_new_agent_token cr user name days now (raw # raws) a =
     (case hash_agent_token cr raw of
        Inl e \<Rightarrow> (Inl e, a)
      | Inr digest \<Rightarrow>
          if get_agent_access_token_by_digest a digest \<noteq> None
          then store_new_agent_token cr user name days now raws a
          else (let t = new_access_token user name days digest raw now; (i, tokens) = tinsert t (as_tokens a)
                in (Inr ((i, t), raw), a\<lparr>as_tokens := tokens\<rparr>)))"

definition create_agent_access_token ::
  "crypto \<Rightarrow> pystr list \<Rightarrow> pystr \<Rightarrow> pystr \<Rightarrow> int option \<Rightarrow> datetime \<Rightarrow> auth_state
   \<Rightarrow> (error + (nat \<times> access_token) \<times> pystr) \<times> auth_state" where
  "create_agent_access_token cr candidates user name days now a =
     (let a1 = sync_expired_agent_tokens_for_user user now a;
          active_tokens = list_active_agent_access_tokens_for_user a1 user now
      in if length active_tokens \<ge> MAX_ACTIVE_AGENT_TOKENS_PER_USER
         then (Inl (HTTPException 409 TooManyApiKeys), a1)
         else if count_today_agent_token_creations_for_user a1 user now \<ge> MAX_DAILY_AGENT_TOKEN_CREATIONS
         then (Inl (HTTPException 429 TooManyKeyCreations), a1)
         else (let normalized_name = py_strip name in
           if list_ex (\<lambda>(i, t). py_lower (tk_name t) = py_lower normalized_name) active_tokens
           then (Inl (HTTPException 409 DuplicateKeyName), a1)
           else store_new_agent_token cr user normalized_name days now (take 8 candidates) a1))"

section \<open>Agents\<close>

definition AGENT_RUNTIME_NAME_PATTERN :: "(nat \<Rightarrow> bool) \<Rightarrow> pystr \<Rightarrow> bool" where
  \<comment> \<open>the parameter is the class \<open>\\w\<close> of \<open>re\<close>, a table of Unicode\<close>
  "AGENT_RUNTIME_NAME_PATTERN is_word s \<longleftrightarrow> 1 \<le> length s \<and> length s \<le> 80
     \<and> list_all (\<lambda>c. is_word c \<or> c \<in> set (lit '' .:/-'')) s"

definition normalize_agent_registration_name :: "(nat \<Rightarrow> bool) \<Rightarrow> pystr \<Rightarrow> error + pystr" where
  "normalize_agent_registration_name is_word name =
     (let normalized_name = py_strip name in
      if normalized_name = [] then Inl (HTTPException 422 InvalidAgentName)
      else if list_ex (\<lambda>c. c < 32) normalized_name then Inl (HTTPException 422 InvalidAgentName)
      else if \<not> AGENT_RUNTIME_NAME_PATTERN is_word normalized_name then Inl (HTTPException 422 InvalidAgentName)
      else Inr normalized_name)"

definition normalize_agent_name_header :: "(nat \<Rightarrow> bool) \<Rightarrow> pystr option \<Rightarrow> error + pystr option" where
  "normalize_agent_name_header is_word raw = (case raw of None \<Rightarrow> Inr None
     | Some v \<Rightarrow> (let normalized = py_strip v in
         if normalized = [] then Inr None
         else if py_lower normalized = lit ''false'' then Inr None
         else bindE (normalize_agent_registration_name is_word normalized) (\<lambda>n. Inr (Some n))))"

definition ensure_agent_registration ::
  "(nat \<Rightarrow> bool) \<Rightarrow> pystr \<Rightarrow> pystr \<Rightarrow> pystr option \<Rightarrow> datetime \<Rightarrow> auth_state \<Rightarrow> error + auth_state" where
  "ensure_agent_registration is_word user name api_key_name seen_at a =
     bindE (normalize_agent_registration_name is_word name) (\<lambda>registration_name.
     case tselect (\<lambda>r. rg_user r = user \<and> rg_name r = registration_name) (as_registrations a) of
       [] \<Rightarrow> Inr (a\<lparr>as_registrations := snd (tinsert \<lparr>rg_user = user, rg_name = registration_name,
              rg_status = REG_ACTIVE, rg_request_count = 1, rg_latest_api_key_name = api_key_name,
              rg_created_at = seen_at, rg_updated_at = seen_at, rg_last_seen_at = Some seen_at\<rparr>
              (as_registrations a))\<rparr>)
     | (i, r) # rs \<Rightarrow> Inr (a\<lparr>as_registrations := tput i (r\<lparr>rg_status := REG_ACTIVE,
              rg_request_count := rg_request_count r + 1, rg_latest_api_key_name := api_key_name,
              rg_last_seen_at := Some seen_at, rg_updated_at := seen_at\<rparr>) (as_registrations a)\<rparr>))"

section \<open>Who asks\<close>

record signed_in =
  si_user :: pystr
  si_actor_source :: actor_source
  si_api_key_name :: "pystr option"
  si_agent_name :: "pystr option"

definition key_used :: "datetime \<Rightarrow> nat \<Rightarrow> access_token \<Rightarrow> auth_state \<Rightarrow> auth_state" where
  \<comment> \<open>the time of last use, written at most once a minute\<close>
  "key_used now i t a =
     (if (case tk_last_used_at t of None \<Rightarrow> True | Some l \<Rightarrow> now - l \<ge> AGENT_TOKEN_LAST_USED_UPDATE_INTERVAL)
      then a\<lparr>as_tokens := tput i (t\<lparr>tk_last_used_at := Some now, tk_updated_at := now\<rparr>) (as_tokens a)\<rparr>
      else a)"

definition authenticate_agent_access_token ::
  "crypto \<Rightarrow> (nat \<Rightarrow> bool) \<Rightarrow> pystr \<Rightarrow> pystr option \<Rightarrow> datetime \<Rightarrow> auth_state \<Rightarrow> (error + signed_in) \<times> auth_state" where
  "authenticate_agent_access_token cr is_word raw_token agent_name now a =
     (case hash_agent_token cr raw_token of
        Inl e \<Rightarrow> (Inl (HTTPException 401 InvalidApiKey), a)
      | Inr digest \<Rightarrow>
          (case get_agent_access_token_by_digest a digest of
             None \<Rightarrow> (Inl (HTTPException 401 InvalidApiKey), a)
           | Some (i, t) \<Rightarrow>
               if tk_revoked_at t \<noteq> None then (Inl (HTTPException 401 InvalidApiKey), a)
               else if (case tk_expires_at t of None \<Rightarrow> False | Some e \<Rightarrow> e \<le> now)
               then (Inl (HTTPException 401 ExpiredApiKey), revoke_agent_token_row now i t a)
               else (case get_user a (tk_user t) of
                   Inl e \<Rightarrow> (Inl e, a)
                 | Inr None \<Rightarrow> (Inl (HTTPException 401 ApiKeyUserMissing), a)
                 | Inr (Some (user, row)) \<Rightarrow>
                     (let who = \<lparr>si_user = user,
                            si_actor_source = (if agent_name \<noteq> None \<and> agent_name \<noteq> Some [] then AGENT else API),
                            si_api_key_name = Some (tk_name t), si_agent_name = agent_name\<rparr>;
                          a1 = key_used now i t a
                      in case agent_name of
                           None \<Rightarrow> (Inr who, a1)
                         | Some name \<Rightarrow>
                             (case ensure_agent_registration is_word user name (Some (tk_name t)) now a1 of
                                Inl e \<Rightarrow> (Inl e, a1)
                              | Inr a2 \<Rightarrow> (Inr who, a2))))))"

definition get_session_current_user :: "session \<Rightarrow> auth_state \<Rightarrow> (error + signed_in) \<times> session" where
  "get_session_current_user s a =
     (case require_session_user_id s of
        (Inl e, s1) \<Rightarrow> (Inl e, s1)
      | (Inr user_id, s1) \<Rightarrow>
          (case get_user a user_id of
             Inl e \<Rightarrow> (Inl e, s1)
           | Inr None \<Rightarrow> (Inl (HTTPException 401 LoginAgain), None)
           | Inr (Some (user, row)) \<Rightarrow> (Inr \<lparr>si_user = user,
               si_actor_source = (if user = lit ''admin'' then SYSTEM else USER),
               si_api_key_name = None, si_agent_name = None\<rparr>, s1)))"

definition limited :: "datetime \<Rightarrow> (error + signed_in) \<times> auth_state \<Rightarrow> (error + signed_in) \<times> auth_state" where
  "limited now m = (case m of (Inl e, a) \<Rightarrow> (Inl e, a)
     | (Inr who, a) \<Rightarrow> (case enforce_authenticated_request_rate_limit (si_user who) now a of
         (Inl e, a1) \<Rightarrow> (Inl e, a1) | (Inr u, a1) \<Rightarrow> (Inr who, a1)))"

definition get_current_user ::
  "crypto \<Rightarrow> (nat \<Rightarrow> bool) \<Rightarrow> http_request \<Rightarrow> datetime \<Rightarrow> session \<Rightarrow> auth_state
   \<Rightarrow> (error + signed_in) \<times> session \<times> auth_state" where
  "get_current_user cr is_word req now s a =
     (let authorization = rq_authorization req; bearer_token = extract_bearer_token authorization
      in if authorization \<noteq> None \<and> authorization \<noteq> Some [] \<and> bearer_token = None
         then (Inl (HTTPException 401 BearerRequired), s, a)
         else (case bearer_token of
             Some token \<Rightarrow>
               (case normalize_agent_name_header is_word (rq_agent_name req) of
                  Inl e \<Rightarrow> (Inl e, s, a)
                | Inr agent_name \<Rightarrow>
                    (let (r, a1) = limited now (authenticate_agent_access_token cr is_word token agent_name now a)
                     in (r, s, a1)))
           | None \<Rightarrow>
               (let (r, s1) = get_session_current_user s a; (r1, a1) = limited now (r, a) in (r1, s1, a1))))"

section \<open>Accounts\<close>

definition find_user_by_email_digest :: "auth_state \<Rightarrow> pystr \<Rightarrow> (pystr \<times> user_account) option" where
  "find_user_by_email_digest a digest = find (\<lambda>(n, u). us_email_digest u = Some digest) (as_users a)"

definition put_user :: "pystr \<Rightarrow> user_account \<Rightarrow> auth_state \<Rightarrow> auth_state" where
  "put_user name u a = a\<lparr>as_users := AList.update name u (as_users a)\<rparr>"

definition create_user_account ::
  "crypto \<Rightarrow> nat list \<Rightarrow> register_credentials \<Rightarrow> datetime \<Rightarrow> auth_state \<Rightarrow> error + (pystr \<times> user_account) \<times> auth_state" where
  "create_user_account cr salt credentials now a =
     bindE (get_user a (rc_user_id credentials)) (\<lambda>existing.
     bindE (assertE (existing = None) (HTTPException 409 UsernameTaken)) (\<lambda>_.
     bindE (hash_email cr (rc_email credentials)) (\<lambda>email_digest.
     bindE (assertE (find_user_by_email_digest a email_digest = None) (HTTPException 409 EmailTaken)) (\<lambda>_.
     bindE (hash_password cr salt (rc_password credentials)) (\<lambda>digest.
     let user = \<lparr>us_email = Some (rc_email credentials), us_password_digest = digest,
           us_email_digest = Some email_digest, us_created_at = now, us_updated_at = now\<rparr>
     in Inr ((rc_user_id credentials, user), put_user (rc_user_id credentials) user a))))))"

definition update_user_email_row ::
  "crypto \<Rightarrow> pystr \<Rightarrow> user_account \<Rightarrow> pystr \<Rightarrow> datetime \<Rightarrow> auth_state \<Rightarrow> error + user_account \<times> auth_state" where
  "update_user_email_row cr name row email now a =
     bindE (hash_email cr email) (\<lambda>email_digest.
     bindE (assertE (case find_user_by_email_digest a email_digest of None \<Rightarrow> True
         | Some (n, u) \<Rightarrow> n = name) (HTTPException 409 EmailTaken)) (\<lambda>_.
     let user = row\<lparr>us_email := Some email, us_email_digest := Some email_digest, us_updated_at := now\<rparr>
     in Inr (user, put_user name user a)))"

definition reset_user_password_with_email ::
  "crypto \<Rightarrow> nat list \<Rightarrow> password_reset \<Rightarrow> datetime \<Rightarrow> auth_state \<Rightarrow> error + auth_state" where
  "reset_user_password_with_email cr salt payload now a =
     bindE (get_user a (pr_user_id payload)) (\<lambda>found.
     case found of
       None \<Rightarrow> Inl (HTTPException 401 ResetMismatch)
     | Some (name, row) \<Rightarrow>
         if \<not> verify_email cr (pr_email payload) (us_email_digest row) then Inl (HTTPException 401 ResetMismatch)
         else bindE (hash_password cr salt (pr_new_password payload)) (\<lambda>digest.
           Inr (put_user name (row\<lparr>us_password_digest := digest, us_updated_at := now\<rparr>) a)))"

section \<open>Handlers\<close>

definition register_user ::
  "crypto \<Rightarrow> nat list \<Rightarrow> register_credentials \<Rightarrow> datetime \<Rightarrow> session \<Rightarrow> auth_state
   \<Rightarrow> error + auth_session_read \<times> session \<times> auth_state" where
  "register_user cr salt payload now s a =
     bindE (create_user_account cr salt payload now a) (\<lambda>((name, user), a1).
     Inr (\<lparr>sr_user_id = name, sr_email = us_email user\<rparr>, Some name, a1))"

definition login_user ::
  "crypto \<Rightarrow> http_request \<Rightarrow> login_credentials \<Rightarrow> datetime \<Rightarrow> session \<Rightarrow> auth_state
   \<Rightarrow> (error + auth_session_read) \<times> session \<times> auth_state" where
  "login_user cr req payload now s a =
     (case build_login_attempt_key cr req (lc_user_id payload) of
        Inl e \<Rightarrow> (Inl e, s, a)
      | Inr key \<Rightarrow>
          (case authenticate_user_account cr payload key now a of
             (Inl e, a1) \<Rightarrow> (Inl e, s, a1)
           | (Inr (name, user), a1) \<Rightarrow> (Inr \<lparr>sr_user_id = name, sr_email = us_email user\<rparr>, Some name, a1)))"

definition update_user_email ::
  "crypto \<Rightarrow> pystr \<Rightarrow> pystr \<Rightarrow> datetime \<Rightarrow> session \<Rightarrow> auth_state \<Rightarrow> error + auth_session_read \<times> session \<times> auth_state" where
  \<comment> \<open>the row of the current user was loaded by the dependency\<close>
  "update_user_email cr name email now s a =
     (case map_of (as_users a) name of
        None \<Rightarrow> Inl (HTTPException 401 LoginAgain)
      | Some row \<Rightarrow> bindE (update_user_email_row cr name row email now a) (\<lambda>(user, a1).
          Inr (\<lparr>sr_user_id = name, sr_email = us_email user\<rparr>, Some name, a1)))"

definition logout_user :: "session \<Rightarrow> session" where
  "logout_user s = None"

definition token_issued :: "(nat \<times> access_token) \<times> pystr \<Rightarrow> token_issue_read" where
  "token_issued = (\<lambda>((i, t), raw). token_read.extend (to_agent_token_read i t) \<lparr>tr_access_token = raw\<rparr>)"

definition create_agent_token_for_current_session ::
  "crypto \<Rightarrow> pystr list \<Rightarrow> token_create \<Rightarrow> pystr \<Rightarrow> datetime \<Rightarrow> auth_state \<Rightarrow> (error + token_issue_read) \<times> auth_state" where
  "create_agent_token_for_current_session cr candidates payload user now a =
     (case create_agent_access_token cr candidates user (tc_name payload) (tc_expires_in_days payload) now a of
        (Inl e, a1) \<Rightarrow> (Inl e, a1) | (Inr r, a1) \<Rightarrow> (Inr (token_issued r), a1))"

definition issue_agent_token_with_password ::
  "crypto \<Rightarrow> pystr list \<Rightarrow> http_request \<Rightarrow> token_issue_create \<Rightarrow> datetime \<Rightarrow> auth_state
   \<Rightarrow> (error + token_issue_read) \<times> auth_state" where
  "issue_agent_token_with_password cr candidates req payload now a =
     (case bindE (build_login_attempt_key cr req (ti_user_id payload)) (\<lambda>key.
             bindE (validate_login_credentials (ti_user_id payload) (ti_password payload)) (\<lambda>c. Inr (key, c))) of
        Inl e \<Rightarrow> (Inl e, a)
      | Inr (key, credentials) \<Rightarrow>
          (case authenticate_user_account cr credentials key now a of
             (Inl e, a1) \<Rightarrow> (Inl e, a1)
           | (Inr (name, row), a1) \<Rightarrow>
               (case create_agent_access_token cr candidates name (tc_name payload) (tc_expires_in_days payload) now a1 of
                  (Inl e, a2) \<Rightarrow> (Inl e, a2) | (Inr r, a2) \<Rightarrow> (Inr (token_issued r), a2))))"

definition list_agent_tokens :: "pystr \<Rightarrow> datetime \<Rightarrow> auth_state \<Rightarrow> token_read list \<times> auth_state" where
  "list_agent_tokens user now a =
     (let a1 = sync_expired_agent_tokens_for_user user now a
      in (map (\<lambda>(i, t). to_agent_token_read i t) (list_active_agent_access_tokens_for_user a1 user now), a1))"

definition revoke_agent_token :: "nat \<Rightarrow> pystr \<Rightarrow> datetime \<Rightarrow> auth_state \<Rightarrow> error + auth_state" where
  "revoke_agent_token i user now a =
     (case tget (as_tokens a) i of
        None \<Rightarrow> Inl (HTTPException 404 ApiKeyNotFound)
      | Some t \<Rightarrow> if tk_user t \<noteq> user then Inl (HTTPException 404 ApiKeyNotFound)
          else Inr (revoke_agent_token_row now i t a))"

end
