(* ===== verification/Analytics.thy ===== *)
theory Analytics
  imports History_Rebuild
begin

text \<open>
  Model of \<^verbatim>\<open>backend/app/analytics.py\<close>: reporting buckets and timelines. Local time is
  Asia/Shanghai, UTC+8. The calendar is Python's proleptic Gregorian one, on ordinals of days;
  the years are not limited to 1 to 9999. The granularities are a linear order, from fine to coarse.
\<close>

section \<open>Calendar\<close>

definition EPOCH_ORDINAL :: int where "EPOCH_ORDINAL = 719163"

definition days_before_year :: "int \<Rightarrow> int" where
  "days_before_year y = (let n = y - 1 in n * 365 + n div 4 - n div 100 + n div 400)"

definition is_leap :: "int \<Rightarrow> bool" where
  "is_leap y \<longleftrightarrow> y mod 4 = 0 \<and> (y mod 100 \<noteq> 0 \<or> y mod 400 = 0)"

definition year_of :: "int \<Rightarrow> int" where
  \<comment> \<open>the year of an ordinal: an estimate that is off by at most one\<close>
  "year_of n =
     (let y = (n - 1) * 400 div 146097 + 1
      in if n \<le> days_before_year y then y - 1 else if days_before_year (y + 1) < n then y + 1 else y)"

definition days_before_month :: "int \<Rightarrow> int \<Rightarrow> int" where
  "days_before_month y m =
     [0, 0, 31, 59, 90, 120, 151, 181, 212, 243, 273, 304, 334] ! nat m + (if m > 2 \<and> is_leap y then 1 else 0)"

definition month_of :: "int \<Rightarrow> int \<Rightarrow> int" where
  \<comment> \<open>the month of a day of a year, counted from 0\<close>
  "month_of y k = int (length (filter (\<lambda>m. days_before_month y m \<le> k) [1 .. 12]))"

definition year_start :: "date \<Rightarrow> date" where
  "year_start d = days_before_year (year_of (d + EPOCH_ORDINAL)) + 1 - EPOCH_ORDINAL"

definition month_start :: "date \<Rightarrow> date" where
  "month_start d =
     year_start d + days_before_month (year_of (d + EPOCH_ORDINAL)) (month_of (year_of (d + EPOCH_ORDINAL)) (d - year_start d))"

definition civil :: "date \<Rightarrow> int \<times> int \<times> int" where
  \<comment> \<open>year, month and day\<close>
  "civil d =
     (let y = year_of (d + EPOCH_ORDINAL); m = month_of y (d - year_start d) in (y, m, d - month_start d + 1))"

section \<open>Buckets\<close>

datatype granularity = G_SECOND | G_MINUTE | G_HOUR | G_DAY | G_MONTH | G_YEAR

instantiation granularity :: linorder
begin

fun coarseness :: "granularity \<Rightarrow> nat" where
  "coarseness G_SECOND = 0" | "coarseness G_MINUTE = 1" | "coarseness G_HOUR = 2"
| "coarseness G_DAY = 3" | "coarseness G_MONTH = 4" | "coarseness G_YEAR = 5"

definition less_eq_granularity :: "granularity \<Rightarrow> granularity \<Rightarrow> bool" where
  "a \<le> b \<longleftrightarrow> coarseness a \<le> coarseness b"

definition less_granularity :: "granularity \<Rightarrow> granularity \<Rightarrow> bool" where
  "a < b \<longleftrightarrow> coarseness a < coarseness b"

instance
proof
  fix a b :: granularity
  show "a \<le> b \<Longrightarrow> b \<le> a \<Longrightarrow> a = b"
    by (cases a; cases b) (simp_all add: less_eq_granularity_def)
qed (auto simp: less_eq_granularity_def less_granularity_def)

end

definition parse_granularity :: "pystr \<Rightarrow> error + granularity" where
  "parse_granularity s =
     (case map_of [(lit ''second'', G_SECOND), (lit ''minute'', G_MINUTE), (lit ''hour'', G_HOUR),
        (lit ''day'', G_DAY), (lit ''month'', G_MONTH), (lit ''year'', G_YEAR)] s of
        None \<Rightarrow> Inl ValueError | Some g \<Rightarrow> Inr g)"

fun local_bucket_start :: "granularity \<Rightarrow> int \<Rightarrow> int" where
  \<comment> \<open>\<open>replace\<close> of the fields below the granularity, on local microseconds\<close>
  "local_bucket_start G_SECOND t = t - t mod US_SECOND"
| "local_bucket_start G_MINUTE t = t - t mod US_MINUTE"
| "local_bucket_start G_HOUR t = t - t mod US_HOUR"
| "local_bucket_start G_DAY t = t div US_DAY * US_DAY"
| "local_bucket_start G_MONTH t = month_start (t div US_DAY) * US_DAY"
| "local_bucket_start G_YEAR t = year_start (t div US_DAY) * US_DAY"

definition bucket_start :: "granularity \<Rightarrow> datetime \<Rightarrow> datetime" where
  "bucket_start g t = local_bucket_start g (t + LOCAL_OFFSET) - LOCAL_OFFSET"

definition bucket_start_utc :: "datetime \<Rightarrow> pystr \<Rightarrow> error + datetime" where
  "bucket_start_utc t g = bindE (parse_granularity g) (\<lambda>g. Inr (bucket_start g t))"

definition two_digits :: "int \<Rightarrow> pystr" where
  "two_digits n = (if n < 10 then lit ''0'' @ show_int n else show_int n)"

definition bucket_label :: "datetime \<Rightarrow> granularity \<Rightarrow> pystr" where
  "bucket_label t g =
     (let local = t + LOCAL_OFFSET; (y, m, d) = civil (local div US_DAY);
          month_day = two_digits m @ lit ''-'' @ two_digits d;
          hour = two_digits (local mod US_DAY div US_HOUR);
          minute = two_digits (local mod US_HOUR div US_MINUTE);
          second = two_digits (local mod US_MINUTE div US_SECOND)
      in case g of
           G_SECOND \<Rightarrow> month_day @ lit '' '' @ hour @ lit '':'' @ minute @ lit '':'' @ second
         | G_MINUTE \<Rightarrow> month_day @ lit '' '' @ hour @ lit '':'' @ minute
         | G_HOUR \<Rightarrow> month_day @ lit '' '' @ hour @ lit '':00''
         | G_DAY \<Rightarrow> month_day
         | G_MONTH \<Rightarrow> show_int y @ lit ''-'' @ two_digits m
         | G_YEAR \<Rightarrow> show_int y)"

section \<open>Timelines\<close>

record timeline_point =
  tp_label :: pystr
  tp_value :: int  \<comment> \<open>hundredths\<close>
  tp_timestamp_utc :: datetime
  tp_corrected :: bool

fun collect_buckets :: "('a \<Rightarrow> datetime) \<Rightarrow> granularity \<Rightarrow> 'a list \<Rightarrow> (datetime \<times> 'a) list \<Rightarrow> (datetime \<times> 'a) list" where
  "collect_buckets created g [] buckets = buckets"
| "collect_buckets created g (s # ss) buckets =
     (let bucket_utc = bucket_start g (created s)
      in collect_buckets created g ss
           (case map_of buckets bucket_utc of
              None \<Rightarrow> AList.update bucket_utc s buckets
            | Some current \<Rightarrow> if created s \<ge> created current then AList.update bucket_utc s buckets else buckets))"

definition build_timeline_from_snapshots ::
  "('a \<Rightarrow> datetime) \<Rightarrow> ('a \<Rightarrow> arith_error + int) \<Rightarrow> 'a list \<Rightarrow> granularity \<Rightarrow> error + timeline_point list" where
  "build_timeline_from_snapshots created format_value ss g =
     mapE (\<lambda>(bucket_utc, s). bindE (liftA (format_value s)) (\<lambda>v.
         Inr \<lparr>tp_label = bucket_label bucket_utc g, tp_value = v, tp_timestamp_utc = bucket_utc,
           tp_corrected = False\<rparr>))
       (sort_key fst (collect_buckets created g ss []))"

definition build_timeline :: "portfolio_snapshot list \<Rightarrow> granularity \<Rightarrow> error + timeline_point list" where
  "build_timeline = build_timeline_from_snapshots pf_created_at (\<lambda>s. display_money (Dec (pf_total_value_cny s) (-2)))"

definition build_return_timeline :: "performance_snapshot list \<Rightarrow> granularity \<Rightarrow> error + timeline_point list" where
  "build_return_timeline =
     build_timeline_from_snapshots hp_created_at (\<lambda>s. display_percent (Dec (hp_return_pct s) (-2)))"

section \<open>The calendar is right\<close>

lemma div_bounds: "0 < k \<Longrightarrow> k * (n div k) \<le> n" "0 < k \<Longrightarrow> n < k * (n div k) + k" for n k :: int
  using pos_mod_sign [of k n] pos_mod_bound [of k n] mult_div_mod_eq [of k n] by linarith+

lemma days_before_year_lower: "146097 * (y - 1) - 699 \<le> 400 * days_before_year y"
  unfolding days_before_year_def Let_def
  using div_bounds [of 4 "y - 1"] div_bounds [of 100 "y - 1"] div_bounds [of 400 "y - 1"] by simp

lemma days_before_year_upper: "400 * days_before_year y \<le> 146097 * (y - 1) + 396"
  unfolding days_before_year_def Let_def
  using div_bounds [of 4 "y - 1"] div_bounds [of 100 "y - 1"] div_bounds [of 400 "y - 1"] by simp

definition divides :: "int \<Rightarrow> int \<Rightarrow> int" where
  "divides k y = (if y mod k = 0 then 1 else 0)"

lemma div_step: "y div k = (y - 1) div k + divides k y" if "1 < k" for y k :: int
proof -
  have "y - 1 = k * (y div k) + (y mod k - 1)" using mult_div_mod_eq [of k y] by linarith
  then have "(y - 1) div k = y div k + (y mod k - 1) div k"
    using that by (metis div_mult_self4 add.commute mult.commute order_less_irrefl zero_less_one order_less_trans)
  moreover have "(y mod k - 1) div k = - divides k y"
  proof (cases "y mod k = 0")
    case True
    then show ?thesis using that by (simp add: divides_def div_eq_minus1)
  next
    case False
    have "0 \<le> y mod k" "y mod k < k" using that by simp_all
    with False show ?thesis by (simp add: divides_def div_pos_pos_trivial)
  qed
  ultimately show ?thesis by simp
qed

lemma leap_divides: "divides 4 y - divides 100 y + divides 400 y = (if is_leap y then 1 else 0)"
proof -
  have 1: "y mod 100 = 0" if "y mod 400 = 0"
    using mod_mod_cancel [of 100 400 y] unfolding that by simp
  have 2: "y mod 4 = 0" if "y mod 100 = 0"
    using mod_mod_cancel [of 4 100 y] unfolding that by simp
  show ?thesis
  proof (cases "y mod 400 = 0")
    case True
    then show ?thesis using 1 2 by (simp only: is_leap_def divides_def) simp
  next
    case False
    with 2 show ?thesis unfolding is_leap_def divides_def by (cases "y mod 100 = 0") simp_all
  qed
qed

lemma days_before_year_step: "days_before_year (y + 1) = days_before_year y + (if is_leap y then 366 else 365)"
proof -
  have "days_before_year (y + 1) = y * 365 + y div 4 - y div 100 + y div 400"
    by (simp add: days_before_year_def Let_def)
  also have "\<dots> = days_before_year y + 365 + (divides 4 y - divides 100 y + divides 400 y)"
    unfolding days_before_year_def Let_def div_step [of 4 y, simplified] div_step [of 100 y, simplified]
      div_step [of 400 y, simplified] by simp
  finally show ?thesis by (simp add: leap_divides)
qed

lemma days_before_year_mono: "a \<le> b \<Longrightarrow> days_before_year a \<le> days_before_year b"
proof (induction b rule: int_ge_induct)
  case (step i)
  then show ?case by (simp add: days_before_year_step)
qed simp

lemma year_of_correct: "days_before_year (year_of n) < n \<and> n \<le> days_before_year (year_of n + 1)"
proof -
  define y where "y = (n - 1) * 400 div 146097 + 1"
  have y: "146097 * (y - 1) \<le> (n - 1) * 400" "(n - 1) * 400 < 146097 * y"
    unfolding y_def using div_bounds [of 146097 "(n - 1) * 400"] by simp_all
  have lo: "days_before_year (y - 1) < n"
    using days_before_year_upper [of "y - 1"] y by (simp add: algebra_simps)
  have hi: "n \<le> days_before_year (y + 2)"
    using days_before_year_lower [of "y + 2"] y by (simp add: algebra_simps)
  have "year_of n = (if n \<le> days_before_year y then y - 1 else if days_before_year (y + 1) < n then y + 1 else y)"
    by (simp only: year_of_def y_def Let_def)
  with lo hi show ?thesis by (simp add: add.commute)
qed

lemma year_of_unique: "days_before_year y < n \<Longrightarrow> n \<le> days_before_year (y + 1) \<Longrightarrow> year_of n = y"
  using year_of_correct [of n] days_before_year_mono [of "y + 1" "year_of n"]
    days_before_year_mono [of "year_of n + 1" y] by linarith

lemma year_of_mono: "m \<le> n \<Longrightarrow> year_of m \<le> year_of n"
  using year_of_correct [of m] year_of_correct [of n] days_before_year_mono [of "year_of n + 1" "year_of m"]
  by linarith

lemma year_start_le: "year_start d \<le> d"
  using year_of_correct [of "d + EPOCH_ORDINAL"] by (simp add: year_start_def)

lemma year_length: "d - year_start d < (if is_leap (year_of (d + EPOCH_ORDINAL)) then 366 else 365)"
  using year_of_correct [of "d + EPOCH_ORDINAL"]
  by (simp add: year_start_def days_before_year_step split: if_splits)

lemma year_of_between: "year_start d \<le> e \<Longrightarrow> e \<le> d \<Longrightarrow> year_of (e + EPOCH_ORDINAL) = year_of (d + EPOCH_ORDINAL)"
  by (rule year_of_unique) (use year_of_correct [of "d + EPOCH_ORDINAL"] in \<open>simp_all add: year_start_def\<close>)

lemma year_start_idem: "year_start (year_start d) = year_start d"
  using year_of_between [of d "year_start d"] year_start_le [of d] by (simp add: year_start_def)

lemma year_start_mono: "a \<le> b \<Longrightarrow> year_start a \<le> year_start b"
  unfolding year_start_def using days_before_year_mono year_of_mono [of "a + EPOCH_ORDINAL" "b + EPOCH_ORDINAL"]
  by simp

lemma months: "[1 .. 12] = [1, 2, 3, 4, 5, 6, 7, 8, 9, 10, 11, 12 :: int]"
  by (simp add: upto_rec1)

lemma days_before_month_values:
  "days_before_month y 1 = 0" "days_before_month y 2 = 31"
  "days_before_month y 3 = 59 + (if is_leap y then 1 else 0)"
  "days_before_month y 4 = 90 + (if is_leap y then 1 else 0)"
  "days_before_month y 5 = 120 + (if is_leap y then 1 else 0)"
  "days_before_month y 6 = 151 + (if is_leap y then 1 else 0)"
  "days_before_month y 7 = 181 + (if is_leap y then 1 else 0)"
  "days_before_month y 8 = 212 + (if is_leap y then 1 else 0)"
  "days_before_month y 9 = 243 + (if is_leap y then 1 else 0)"
  "days_before_month y 10 = 273 + (if is_leap y then 1 else 0)"
  "days_before_month y 11 = 304 + (if is_leap y then 1 else 0)"
  "days_before_month y 12 = 334 + (if is_leap y then 1 else 0)"
  by (simp_all add: days_before_month_def)

lemma is_leap_step: "0 \<le> (if is_leap y then 1 else 0 :: int)" by simp

lemma month_of_count:
  "month_of y k = int (length (filter (\<lambda>b. b \<le> k) (map (days_before_month y) [1 .. 12])))"
  by (simp add: month_of_def filter_map comp_def)

lemma days_before_month_sorted: "sorted (map (days_before_month y) [1 .. 12])"
  unfolding months by (simp add: days_before_month_values)

lemma filter_sorted_takeWhile: "sorted xs \<Longrightarrow> filter (\<lambda>x. x \<le> k) xs = takeWhile (\<lambda>x. x \<le> k) xs"
  for k :: "'a::linorder"
proof (induction xs)
  case (Cons a xs)
  then show ?case
    by (cases "a \<le> k"; cases xs) (auto simp: filter_empty_conv dest: order_trans)
qed simp

lemma month_of_cases:
  assumes "0 \<le> k"
  shows "1 \<le> month_of y k" "month_of y k \<le> 12" "days_before_month y (month_of y k) \<le> k"
    and "month_of y k < 12 \<Longrightarrow> k < days_before_month y (month_of y k + 1)"
proof -
  let ?xs = "map (days_before_month y) [1 .. 12]" and ?n = "length (takeWhile (\<lambda>b. b \<le> k) (map (days_before_month y) [1 .. 12]))"
  have m: "month_of y k = int ?n"
    by (simp only: month_of_count filter_sorted_takeWhile [OF days_before_month_sorted])
  have len: "length ?xs = 12" by (simp add: months)
  have nth: "?xs ! i = days_before_month y (int i + 1)" if "i < 12" for i
    using that by (simp add: add.commute)
  have "0 < ?n" using assms by (simp add: months days_before_month_values)
  then show "1 \<le> month_of y k" unfolding m by linarith
  have le: "?n \<le> 12" using length_takeWhile_le [of "\<lambda>b. b \<le> k" ?xs] len by simp
  then show "month_of y k \<le> 12" by (simp add: m)
  have "?xs ! (?n - 1) \<le> k"
    using \<open>0 < ?n\<close> nth_mem [of "?n - 1" "takeWhile (\<lambda>b. b \<le> k) ?xs"]
    by (metis (no_types, lifting) diff_less set_takeWhileD takeWhile_nth zero_less_one)
  then show "days_before_month y (month_of y k) \<le> k"
    using nth [of "?n - 1"] le \<open>0 < ?n\<close> by (simp add: m of_nat_diff)
  show "k < days_before_month y (month_of y k + 1)" if "month_of y k < 12"
  proof -
    have "?n < 12" using that by (simp add: m)
    then have "\<not> ?xs ! ?n \<le> k"
      using nth_length_takeWhile [of "\<lambda>b. b \<le> k" ?xs] len by simp
    with nth [of ?n] \<open>?n < 12\<close> show ?thesis by (simp add: m)
  qed
qed

lemma month_start_le: "month_start d \<le> d"
  using month_of_cases(3) [of "d - year_start d" "year_of (d + EPOCH_ORDINAL)"] year_start_le [of d]
  by (simp add: month_start_def)

lemma days_before_month_mono:
  assumes "1 \<le> a" "a \<le> b" "b \<le> 12"
  shows "days_before_month y a \<le> days_before_month y b"
proof -
  have "map (days_before_month y) [1 .. 12] ! nat (a - 1) \<le> map (days_before_month y) [1 .. 12] ! nat (b - 1)"
    by (rule sorted_nth_mono [OF days_before_month_sorted]) (use assms in auto)
  then show ?thesis using assms by (simp add: nat_less_iff)
qed

lemma days_before_month_nonneg: "1 \<le> m \<Longrightarrow> m \<le> 12 \<Longrightarrow> 0 \<le> days_before_month y m"
  using days_before_month_mono [of 1 m y] by (simp add: days_before_month_values)

lemma year_start_le_month_start: "year_start d \<le> month_start d"
  using month_of_cases(1,2) [of "d - year_start d" "year_of (d + EPOCH_ORDINAL)"] year_start_le [of d]
  by (simp add: month_start_def days_before_month_nonneg)

lemma year_start_between: "year_start d \<le> e \<Longrightarrow> e \<le> d \<Longrightarrow> year_start e = year_start d"
  unfolding year_start_def [of e] by (simp add: year_of_between) (simp add: year_start_def)

lemma length_filter_mono: "(\<And>x. P x \<Longrightarrow> Q x) \<Longrightarrow> length (filter P xs) \<le> length (filter Q xs)"
  by (induction xs) (auto simp: le_Suc_eq)

lemma month_of_mono: "k \<le> l \<Longrightarrow> month_of y k \<le> month_of y l"
  unfolding month_of_def of_nat_le_iff by (rule length_filter_mono) simp

lemma month_of_start: "0 \<le> k \<Longrightarrow> month_of y (days_before_month y (month_of y k)) = month_of y k"
proof -
  assume "0 \<le> k"
  let ?m = "month_of y k"
  have "month_of y (days_before_month y ?m) \<le> ?m"
    by (rule month_of_mono) (rule month_of_cases(3) [OF \<open>0 \<le> k\<close>])
  moreover have "?m \<le> month_of y (days_before_month y ?m)"
  proof (rule ccontr)
    let ?b = "days_before_month y ?m" and ?l = "month_of y (days_before_month y (month_of y k))"
    assume "\<not> ?m \<le> ?l"
    have range: "1 \<le> ?m" "?m \<le> 12" by (rule month_of_cases [OF \<open>0 \<le> k\<close>])+
    then have "0 \<le> ?b" by (rule days_before_month_nonneg)
    then have "1 \<le> ?l" "?b < days_before_month y (?l + 1)"
      using \<open>\<not> ?m \<le> ?l\<close> range month_of_cases [of ?b y] by simp_all
    moreover have "days_before_month y (?l + 1) \<le> ?b"
      using \<open>\<not> ?m \<le> ?l\<close> range \<open>1 \<le> ?l\<close> by (intro days_before_month_mono) simp_all
    ultimately show False by simp
  qed
  ultimately show ?thesis by simp
qed

lemma month_start_idem: "month_start (month_start d) = month_start d"
proof -
  let ?y = "year_of (d + EPOCH_ORDINAL)" and ?k = "d - year_start d"
  have "year_of (month_start d + EPOCH_ORDINAL) = ?y" "year_start (month_start d) = year_start d"
    using year_of_between [of d "month_start d"] year_start_between [of d "month_start d"]
      year_start_le_month_start [of d] month_start_le [of d] by simp_all
  then show ?thesis
    using month_of_start [of ?k ?y] year_start_le [of d]
    by (simp add: month_start_def [of "month_start d"]) (simp add: month_start_def)
qed

section \<open>Buckets start where they should\<close>

lemma local_bucket_start_le: "local_bucket_start g t \<le> t"
proof (cases g)
  case G_MONTH
  have "month_start (t div US_DAY) * US_DAY \<le> t div US_DAY * US_DAY"
    by (intro mult_right_mono month_start_le) (simp add: US_DAY_def)
  also have "\<dots> \<le> t" by (simp add: US_DAY_def)
  finally show ?thesis using G_MONTH by simp
next
  case G_YEAR
  have "year_start (t div US_DAY) * US_DAY \<le> t div US_DAY * US_DAY"
    by (intro mult_right_mono year_start_le) (simp add: US_DAY_def)
  also have "\<dots> \<le> t" by (simp add: US_DAY_def)
  finally show ?thesis using G_YEAR by simp
qed (simp_all add: US_SECOND_def US_MINUTE_def US_HOUR_def US_DAY_def)

lemma local_bucket_start_idem: "local_bucket_start g (local_bucket_start g t) = local_bucket_start g t"
  by (cases g) (simp_all add: US_SECOND_def US_MINUTE_def US_HOUR_def US_DAY_def month_start_idem
      year_start_idem mod_diff_left_eq)

lemma bucket_start_le: "bucket_start g t \<le> t"
  using local_bucket_start_le [of g "t + LOCAL_OFFSET"] by (simp add: bucket_start_def)

lemma bucket_start_idem: "bucket_start g (bucket_start g t) = bucket_start g t"
  by (simp add: bucket_start_def local_bucket_start_idem)

section \<open>Timelines\<close>

text \<open>
  The buckets that are collected: one key per bucket of a snapshot, and under each key the last one,
  in the order of the list, of the newest snapshots of the bucket.
\<close>

fun newest :: "('a \<Rightarrow> datetime) \<Rightarrow> 'a list \<Rightarrow> 'a option \<Rightarrow> 'a option" where
  "newest created [] m = m"
| "newest created (s # ss) m = newest created ss
     (case m of None \<Rightarrow> Some s | Some c \<Rightarrow> if created s \<ge> created c then Some s else m)"

lemma collect_buckets_lookup:
  "map_of (collect_buckets created g ss buckets) k
   = newest created (filter (\<lambda>s. bucket_start g (created s) = k) ss) (map_of buckets k)"
  by (induction ss arbitrary: buckets) (auto simp: Let_def update_conv' split: option.splits)

lemma collect_buckets_distinct:
  "distinct (map fst buckets) \<Longrightarrow> distinct (map fst (collect_buckets created g ss buckets))"
  by (induction ss arbitrary: buckets) (auto simp: Let_def distinct_update split: option.splits)

lemma newest_Some: "newest created ss (Some c) \<noteq> None"
  by (induction ss arbitrary: c) auto

lemma newest_None: "newest created ss None = None \<longleftrightarrow> ss = []"
  by (cases ss) (auto simp: newest_Some)

lemma newest_max:
  "newest created ss m = Some x \<Longrightarrow> (x \<in> set ss \<or> m = Some x)
     \<and> (\<forall>s \<in> set ss. created s \<le> created x) \<and> (\<forall>c. m = Some c \<longrightarrow> created c \<le> created x)"
proof (induction ss arbitrary: m)
  case (Cons s ss)
  show ?case
  proof (cases m)
    case None
    with Cons.prems Cons.IH [of "Some s"] show ?thesis by auto
  next
    case (Some c)
    show ?thesis
    proof (cases "created s \<ge> created c")
      case True
      with Some Cons.prems have "newest created ss (Some s) = Some x" by simp
      from Cons.IH [OF this] True Some show ?thesis by auto
    next
      case False
      with Some Cons.prems have "newest created ss (Some c) = Some x" by simp
      from Cons.IH [OF this] False Some show ?thesis by auto
    qed
  qed
qed simp

lemma collect_buckets_keys:
  "fst ` set (collect_buckets created g ss []) = (\<lambda>s. bucket_start g (created s)) ` set ss"
proof -
  have "k \<in> fst ` set (collect_buckets created g ss [])
      \<longleftrightarrow> map_of (collect_buckets created g ss []) k \<noteq> None" for k
    by (simp add: map_of_eq_None_iff)
  then have "k \<in> fst ` set (collect_buckets created g ss [])
      \<longleftrightarrow> k \<in> (\<lambda>s. bucket_start g (created s)) ` set ss" for k
    by (auto simp: collect_buckets_lookup newest_None filter_empty_conv)
  then show ?thesis by blast
qed

lemma mapE_map: "mapE f xs = Inr ys \<Longrightarrow> (\<And>x y. x \<in> set xs \<Longrightarrow> f x = Inr y \<Longrightarrow> g y = h x) \<Longrightarrow> map g ys = map h xs"
  by (induction xs arbitrary: ys) (auto simp: bindE_eq_Inr)

lemma mapE_elem: "mapE f xs = Inr ys \<Longrightarrow> y \<in> set ys \<Longrightarrow> \<exists>x \<in> set xs. f x = Inr y"
  by (induction xs arbitrary: ys) (auto simp: bindE_eq_Inr)

lemma timeline_buckets:
  assumes "build_timeline_from_snapshots created format_value ss g = Inr points"
  shows "map tp_timestamp_utc points = sorted_list_of_set ((\<lambda>s. bucket_start g (created s)) ` set ss)"
proof -
  let ?bs = "sort_key fst (collect_buckets created g ss [])"
  have "map tp_timestamp_utc points = map fst ?bs"
    using assms unfolding build_timeline_from_snapshots_def
    by (rule mapE_map) (auto simp: bindE_eq_Inr)
  moreover have "sorted (map fst ?bs)" by simp
  moreover have "distinct (map fst ?bs)"
    using collect_buckets_distinct [of "[]" created g ss]
    by (simp add: distinct_map inj_on_def)
  moreover have "set (map fst ?bs) = (\<lambda>s. bucket_start g (created s)) ` set ss"
    using collect_buckets_keys [of created g ss] by simp
  ultimately show ?thesis
    by (metis sorted_list_of_set.idem_if_sorted_distinct)
qed

lemma timeline_point:
  assumes "build_timeline_from_snapshots created format_value ss g = Inr points" "p \<in> set points"
  obtains s where "s \<in> set ss" "bucket_start g (created s) = tp_timestamp_utc p"
    "format_value s = Inr (tp_value p)" "\<not> tp_corrected p"
    "tp_label p = bucket_label (tp_timestamp_utc p) g"
    "\<And>t. t \<in> set ss \<Longrightarrow> bucket_start g (created t) = tp_timestamp_utc p \<Longrightarrow> created t \<le> created s"
proof -
  from assms obtain b s where bs: "(b, s) \<in> set (collect_buckets created g ss [])"
    and p: "format_value s = Inr (tp_value p)" "tp_timestamp_utc p = b" "\<not> tp_corrected p"
      "tp_label p = bucket_label b g"
    unfolding build_timeline_from_snapshots_def by (fastforce simp: bindE_eq_Inr dest!: mapE_elem)
  from bs have "map_of (collect_buckets created g ss []) b = Some s"
    using collect_buckets_distinct [of "[]" created g ss] by simp
  then have "newest created (filter (\<lambda>s. bucket_start g (created s) = b) ss) None = Some s"
    by (simp add: collect_buckets_lookup)
  from newest_max [OF this] p that [of s] show ?thesis by auto
qed

end
