(* ===== verification/Dashboard_Corrections.thy ===== *)
theory Dashboard_Corrections
  imports Analytics Validators
begin

text \<open>
  Model of \<^verbatim>\<open>backend/app/services/dashboard_correction_service.py\<close>: the corrections a user makes
  to the points of the dashboard's series, and their application to a timeline. The table of
  corrections is kept beside the world, whose cached dashboards a change drops.
\<close>

section \<open>Rows and payloads\<close>

record dashboard_correction =
  dc_user :: pystr
  dc_series_scope :: pystr
  dc_symbol :: "pystr option"
  dc_granularity :: pystr
  dc_bucket_utc :: datetime
  dc_action :: pystr
  dc_corrected_value :: "fixed option"
  dc_reason :: pystr
  dc_created_at :: datetime
  dc_updated_at :: datetime

record correction_create =
  coc_series_scope :: pystr
  coc_symbol :: "pystr option"
  coc_granularity :: pystr
  coc_bucket_utc :: datetime
  coc_action :: pystr
  coc_corrected_value :: "fixed option"
  coc_reason :: pystr

record correction_read =
  cor_id :: nat
  cor_series_scope :: pystr
  cor_symbol :: "pystr option"
  cor_granularity :: pystr
  cor_bucket_utc :: datetime
  cor_action :: pystr
  cor_corrected_value :: "fixed option"
  cor_reason :: pystr
  cor_created_at :: datetime
  cor_updated_at :: datetime

definition DASHBOARD_SERIES_SCOPES :: "pystr list" where
  "DASHBOARD_SERIES_SCOPES = map lit [''PORTFOLIO_TOTAL'', ''HOLDINGS_RETURN_TOTAL'', ''HOLDING_RETURN'']"

definition DASHBOARD_CORRECTION_ACTIONS :: "pystr list" where
  "DASHBOARD_CORRECTION_ACTIONS = map lit [''OVERRIDE'', ''DELETE'']"

definition DASHBOARD_CORRECTION_GRANULARITIES :: "pystr list" where
  "DASHBOARD_CORRECTION_GRANULARITIES = map lit [''hour'', ''day'', ''month'', ''year'']"

text \<open>The validators of the payload, in the order in which they run.\<close>

definition validate_correction_granularity :: "pystr \<Rightarrow> error + pystr" where
  "validate_correction_granularity v =
     (let normalized = py_lower (py_strip v) in
      if normalized \<in> set DASHBOARD_CORRECTION_GRANULARITIES then Inr normalized else Inl ValueError)"

definition validate_corrected_value :: "correction_create \<Rightarrow> error + correction_create" where
  "validate_corrected_value p =
     (if coc_action p = lit ''OVERRIDE'' \<and> coc_corrected_value p = None then Inl ValueError
      else if coc_action p = lit ''DELETE'' \<and> coc_corrected_value p \<noteq> None then Inl ValueError
      else if coc_series_scope p \<noteq> lit ''HOLDING_RETURN'' then Inr (p\<lparr>coc_symbol := None\<rparr>)
      else if coc_symbol p = None then Inl ValueError else Inr p)"

definition validate_correction_create ::
  "pystr \<Rightarrow> pystr option \<Rightarrow> pystr \<Rightarrow> datetime \<Rightarrow> pystr \<Rightarrow> dec option \<Rightarrow> pystr \<Rightarrow> error + correction_create" where
  "validate_correction_create series_scope symbol granularity bucket action corrected_value reason =
     bindE (normalize_choice DASHBOARD_SERIES_SCOPES series_scope) (\<lambda>series_scope.
     bindE (case normalize_optional_text symbol of None \<Rightarrow> Inr None
         | Some s \<Rightarrow> if length s \<le> 64 then Inr (Some s) else Inl ValueError) (\<lambda>symbol.
     bindE (validate_correction_granularity granularity) (\<lambda>granularity.
     bindE (normalize_choice DASHBOARD_CORRECTION_ACTIONS action) (\<lambda>action.
     bindE (liftA (quantize_optional_decimal corrected_value)) (\<lambda>corrected_value.
     bindE (case normalize_optional_text (Some reason) of None \<Rightarrow> Inl ValueError
         | Some r \<Rightarrow> if length r \<le> 500 then Inr r else Inl ValueError) (\<lambda>reason.
     validate_corrected_value \<lparr>coc_series_scope = series_scope, coc_symbol = symbol,
       coc_granularity = granularity, coc_bucket_utc = bucket, coc_action = action,
       coc_corrected_value = corrected_value, coc_reason = reason\<rparr>))))))"

section \<open>Applying corrections\<close>

type_synonym correction_key = "pystr \<times> pystr \<times> pystr \<times> datetime"

definition correction_key :: "pystr \<Rightarrow> pystr option \<Rightarrow> pystr \<Rightarrow> datetime \<Rightarrow> correction_key" where
  "correction_key series_scope symbol granularity bucket_utc =
     (series_scope, py_upper (case symbol of None \<Rightarrow> [] | Some s \<Rightarrow> s), granularity, bucket_utc)"

definition load_dashboard_correction_lookup ::
  "dashboard_correction table \<Rightarrow> pystr \<Rightarrow> (correction_key \<times> dashboard_correction) list" where
  \<comment> \<open>of two corrections of the same point, the one updated last\<close>
  "load_dashboard_correction_lookup t user =
     fold (\<lambda>(i, c). AList.update
         (correction_key (dc_series_scope c) (dc_symbol c) (dc_granularity c) (dc_bucket_utc c)) c)
       (sort_key (\<lambda>(i, c). (dc_bucket_utc c, dc_updated_at c)) (tselect (\<lambda>c. dc_user c = user) t)) []"

definition display_corrected_value :: "pystr \<Rightarrow> fixed \<Rightarrow> error + int" where
  "display_corrected_value series_scope v =
     liftA (if series_scope = lit ''PORTFOLIO_TOTAL'' then display_money (of_fixed v)
            else display_percent (of_fixed v))"

fun apply_dashboard_corrections ::
  "(correction_key \<times> dashboard_correction) list \<Rightarrow> pystr \<Rightarrow> pystr \<Rightarrow> pystr option \<Rightarrow> timeline_point list
   \<Rightarrow> error + timeline_point list" where
  "apply_dashboard_corrections lookup series_scope granularity symbol [] = Inr []"
| "apply_dashboard_corrections lookup series_scope granularity symbol (p # points) =
     (case map_of lookup (correction_key series_scope symbol granularity (tp_timestamp_utc p)) of
        None \<Rightarrow> bindE (apply_dashboard_corrections lookup series_scope granularity symbol points) (\<lambda>ps. Inr (p # ps))
      | Some c \<Rightarrow>
          if dc_action c = lit ''DELETE''
          then apply_dashboard_corrections lookup series_scope granularity symbol points
          else bindE (case dc_corrected_value c of None \<Rightarrow> Inr (tp_value p)
                 | Some v \<Rightarrow> display_corrected_value series_scope v) (\<lambda>n.
               bindE (apply_dashboard_corrections lookup series_scope granularity symbol points) (\<lambda>ps.
               Inr (p\<lparr>tp_value := n, tp_corrected := True\<rparr> # ps))))"

section \<open>Handlers\<close>

definition to_dashboard_correction_read :: "nat \<Rightarrow> dashboard_correction \<Rightarrow> correction_read" where
  "to_dashboard_correction_read i c = \<lparr>cor_id = i, cor_series_scope = dc_series_scope c,
     cor_symbol = dc_symbol c, cor_granularity = dc_granularity c, cor_bucket_utc = dc_bucket_utc c,
     cor_action = dc_action c, cor_corrected_value = dc_corrected_value c, cor_reason = dc_reason c,
     cor_created_at = dc_created_at c, cor_updated_at = dc_updated_at c\<rparr>"

definition stored_hundredths :: "int \<Rightarrow> error + fixed" where
  \<comment> \<open>a value with two decimals in a \<open>Numeric(24, 8)\<close> column\<close>
  "stored_hundredths n = numeric_column (n * 10 ^ 6)"

definition create_dashboard_correction ::
  "correction_create \<Rightarrow> env \<Rightarrow> dashboard_correction table \<times> world
   \<Rightarrow> error + correction_read \<times> dashboard_correction table \<times> world" where
  "create_dashboard_correction payload env = (\<lambda>(t, w).
     bindE (assertE (coc_series_scope payload \<in> set DASHBOARD_SERIES_SCOPES)
         (HTTPException 422 UnsupportedScope)) (\<lambda>_.
     bindE (assertE (coc_action payload \<in> set DASHBOARD_CORRECTION_ACTIONS)
         (HTTPException 422 UnsupportedAction)) (\<lambda>_.
     bindE (assertE (coc_granularity payload \<in> set DASHBOARD_CORRECTION_GRANULARITIES)
         (HTTPException 422 UnsupportedGranularity)) (\<lambda>_.
     bindE (bucket_start_utc (coc_bucket_utc payload) (coc_granularity payload)) (\<lambda>bucket_utc.
     bindE (case coc_corrected_value payload of None \<Rightarrow> Inr None
         | Some v \<Rightarrow> bindE (display_corrected_value (coc_series_scope payload) v) (\<lambda>n.
             bindE (stored_hundredths n) (\<lambda>f. Inr (Some f)))) (\<lambda>corrected_value.
     let correction = \<lparr>dc_user = en_user env, dc_series_scope = coc_series_scope payload,
           dc_symbol = (case coc_symbol payload of None \<Rightarrow> None
              | Some s \<Rightarrow> if s = [] then None else Some (py_upper s)),
           dc_granularity = coc_granularity payload, dc_bucket_utc = bucket_utc,
           dc_action = coc_action payload, dc_corrected_value = corrected_value,
           dc_reason = coc_reason payload, dc_created_at = en_now env, dc_updated_at = en_now env\<rparr>;
         (i, t1) = tinsert correction t
     in Inr (to_dashboard_correction_read i correction, t1,
          invalidate_dashboard_cache (Some (en_user env)) w)))))))"

definition list_dashboard_corrections :: "env \<Rightarrow> dashboard_correction table \<Rightarrow> correction_read list" where
  "list_dashboard_corrections env t =
     map (\<lambda>(i, c). to_dashboard_correction_read i c)
       (rev (sort_key (\<lambda>(i, c). (dc_bucket_utc c, dc_updated_at c)) (tselect (\<lambda>c. dc_user c = en_user env) t)))"

definition delete_dashboard_correction ::
  "nat \<Rightarrow> env \<Rightarrow> dashboard_correction table \<times> world \<Rightarrow> error + dashboard_correction table \<times> world" where
  "delete_dashboard_correction i env = (\<lambda>(t, w).
     (case tget t i of
        None \<Rightarrow> Inl (HTTPException 404 CorrectionNotFound)
      | Some c \<Rightarrow> if dc_user c \<noteq> en_user env then Inl (HTTPException 404 CorrectionNotFound)
          else Inr (tdel i t, invalidate_dashboard_cache (Some (en_user env)) w)))"

end
