(* ===== verification/Realtime.thy ===== *)
theory Realtime
  imports Dashboard_Corrections
begin

text \<open>
  Model of the sampler in \<^verbatim>\<open>backend/app/services/realtime_analytics_service.py\<close>. The snapshot tables are lists of rows without ids, in the
  order of insertion; of several rows under one key a dictionary keeps the last one. Amounts of
  money and percentages are in hundredths. Logging and the failure counters are left out, and so
  is the Redis lock around the sampler.
\<close>

section \<open>Valuation of every user\<close>

record return_point =
  rp_symbol :: pystr
  rp_name :: pystr
  rp_return_pct :: int

record user_state =
  ut_user :: pystr
  ut_total_value_cny :: int
  ut_has_assets :: bool
  ut_aggregate_return_pct :: "int option"
  ut_holding_points :: "return_point list"

definition hundredths :: "int \<Rightarrow> dec" where
  "hundredths n = Dec n (-2)"

fun money_sum :: "(error + int) list \<Rightarrow> dec \<Rightarrow> error + dec" where
  \<comment> \<open>\<open>sum((...), DECIMAL_ZERO)\<close>\<close>
  "money_sum [] acc = Inr acc"
| "money_sum (m # ms) acc = bindE m (\<lambda>n. money_sum ms (dec_add acc (hundredths n)))"

definition rate_of :: "(pystr \<times> dec) list \<Rightarrow> pystr \<Rightarrow> dec" where
  "rate_of rates code = (case map_of rates (normalize_currency code) of None \<Rightarrow> DECIMAL_ZERO | Some r \<Rightarrow> r)"

definition converted :: "(pystr \<times> dec) list \<Rightarrow> fixed \<Rightarrow> pystr \<Rightarrow> error + int" where
  "converted rates balance currency =
     liftA (bindE (multiply_decimals (Some (of_fixed balance)) (Some (rate_of rates currency)))
       (\<lambda>n. display_money (of_fixed n)))"

record holding_totals =
  ht_holdings :: dec
  ht_cost_basis :: dec
  ht_market_value :: dec
  ht_points :: "return_point list"

definition sample_holding ::
  "((pystr \<times> pystr) \<times> quote) list \<Rightarrow> (pystr \<times> dec) list \<Rightarrow> security_holding \<Rightarrow> holding_totals
   \<Rightarrow> error + holding_totals" where
  "sample_holding quotes rates h acc =
     (case map_of quotes (sh_symbol h, sh_market h) of
        None \<Rightarrow> Inr acc
      | Some q \<Rightarrow>
          bindE (liftA (quantize_decimal (qt_price q))) (\<lambda>quote_price.
          if quote_price \<le> 0 \<or> sh_quantity h \<le> 0 then Inr acc
          else (let currency = (if qt_currency q = [] then sh_fallback_currency h else qt_currency q);
                    fx_to_cny = rate_of rates currency
            in if dec_le fx_to_cny (Dec 0 0) then Inr acc
               else bindE (liftA (bindE (multiply_decimals (Some (of_fixed (sh_quantity h))) (Some (of_fixed quote_price)))
                      (\<lambda>n. bindE (multiply_decimals (Some (of_fixed n)) (Some fx_to_cny))
                      (\<lambda>m. display_money (of_fixed m))))) (\<lambda>market_value_cny.
                 let acc1 = acc\<lparr>ht_holdings := dec_add (ht_holdings acc) (hundredths market_value_cny)\<rparr>
                 in bindE (calculate_return_pct (of_fixed quote_price) (map_option of_fixed (sh_cost_basis_price h)))
                      (\<lambda>return_pct.
                    case (return_pct, sh_cost_basis_price h) of
                      (Some pct, Some cost) \<Rightarrow>
                        if cost \<le> 0 then Inr acc1
                        else bindE (liftA (quantize_decimal (dec_mul (dec_mul (of_fixed cost) (of_fixed (sh_quantity h)))
                               fx_to_cny))) (\<lambda>basis.
                             bindE (liftA (display_percent (hundredths pct))) (\<lambda>shown.
                             Inr (acc1\<lparr>ht_cost_basis := dec_add (ht_cost_basis acc) (of_fixed basis),
                               ht_market_value := dec_add (ht_market_value acc) (hundredths market_value_cny),
                               ht_points := ht_points acc @ [\<lparr>rp_symbol = sh_symbol h, rp_name = sh_name h,
                                 rp_return_pct = shown\<rparr>]\<rparr>)))
                    | _ \<Rightarrow> Inr acc1)))))"

definition aggregate_return :: "dec \<Rightarrow> dec \<Rightarrow> error + int option" where
  "aggregate_return market_value cost_basis =
     (if dec_le cost_basis (Dec 0 0) then Inr None
      else liftA (bindE (dec_div (dec_sub market_value cost_basis) cost_basis) (\<lambda>ratio.
           bindE (display_percent (dec_mul ratio (Dec 100 0))) (\<lambda>p. Inr (Some p)))))"

definition build_user_realtime_state ::
  "pystr \<Rightarrow> cash_account list \<Rightarrow> security_holding list \<Rightarrow> fixed_asset list \<Rightarrow> liability_entry list
   \<Rightarrow> other_asset list \<Rightarrow> ((pystr \<times> pystr) \<times> quote) list \<Rightarrow> (pystr \<times> dec) list \<Rightarrow> error + user_state" where
  "build_user_realtime_state user accts hs fixed owed other quotes rates =
     bindE (money_sum (map (\<lambda>a. converted rates (ca_balance a) (ca_currency a)) accts) DECIMAL_ZERO) (\<lambda>cash_sum.
     bindE (money_sum (map (\<lambda>a. liftA (display_money (of_fixed (fa_current_value_cny a)))) fixed) DECIMAL_ZERO) (\<lambda>fixed_sum.
     bindE (money_sum (map (\<lambda>a. liftA (display_money (of_fixed (oa_current_value_cny a)))) other) DECIMAL_ZERO) (\<lambda>other_sum.
     bindE (money_sum (map (\<lambda>l. converted rates (li_balance l) (li_currency l)) owed) DECIMAL_ZERO) (\<lambda>owed_sum.
     bindE (foldE (sample_holding quotes rates) hs
         \<lparr>ht_holdings = DECIMAL_ZERO, ht_cost_basis = DECIMAL_ZERO, ht_market_value = DECIMAL_ZERO, ht_points = []\<rparr>)
       (\<lambda>tot.
     bindE (aggregate_return (ht_market_value tot) (ht_cost_basis tot)) (\<lambda>aggregate_return_pct.
     bindE (liftA (display_money (dec_sub (dec_add (dec_add (dec_add cash_sum (ht_holdings tot)) fixed_sum) other_sum)
         owed_sum))) (\<lambda>total_value.
     Inr \<lparr>ut_user = user, ut_total_value_cny = total_value,
       ut_has_assets = (accts \<noteq> [] \<or> hs \<noteq> [] \<or> fixed \<noteq> [] \<or> owed \<noteq> [] \<or> other \<noteq> []),
       ut_aggregate_return_pct = aggregate_return_pct, ut_holding_points = ht_points tot\<rparr>)))))))"

definition prefetch_quotes :: "env \<Rightarrow> security_holding list \<Rightarrow> ((pystr \<times> pystr) \<times> quote) list" where
  "prefetch_quotes env hs =
     List.map_filter (\<lambda>(symbol, market). map_option (Pair (symbol, market)) (en_quote env symbol market))
       (sort (remdups (map (\<lambda>h. (sh_symbol h, sh_market h)) hs)))"

definition prefetch_fx_rates :: "env \<Rightarrow> pystr list \<Rightarrow> error + (pystr \<times> dec) list" where
  "prefetch_fx_rates env currencies =
     (let requested_codes = sort (remdups (filter (\<lambda>c. c \<noteq> lit ''CNY'')
            (map normalize_currency (filter (\<lambda>c. py_strip c \<noteq> []) currencies))))
      in bindE (mapE (\<lambda>code. case en_fx_rate env code (lit ''CNY'') of
             None \<Rightarrow> Inr None
           | Some r \<Rightarrow> bindE (liftA (quantize_decimal r)) (\<lambda>n.
               Inr (if n > 0 then Some (code, of_fixed n) else None))) requested_codes) (\<lambda>found.
         Inr ((lit ''CNY'', Dec 1 0) # List.map_filter (\<lambda>x. x) found)))"

section \<open>Writing snapshots\<close>

fun replace_last :: "('a \<Rightarrow> bool) \<Rightarrow> ('a \<Rightarrow> 'a) \<Rightarrow> 'a list \<Rightarrow> 'a list" where
  \<comment> \<open>change the last element that satisfies the predicate\<close>
  "replace_last P f [] = []"
| "replace_last P f (x # xs) =
     (if P x \<and> \<not> list_ex P xs then f x # xs else x # replace_last P f xs)"

fun delete_last :: "('a \<Rightarrow> bool) \<Rightarrow> 'a list \<Rightarrow> 'a list" where
  "delete_last P [] = []"
| "delete_last P (x # xs) = (if P x \<and> \<not> list_ex P xs then xs else x # delete_last P xs)"

definition upsert_portfolio_row :: "datetime \<Rightarrow> user_state \<Rightarrow> portfolio_snapshot list \<Rightarrow> portfolio_snapshot list" where
  "upsert_portfolio_row bucket st snaps =
     (let here = (\<lambda>r. pf_user r = ut_user st \<and> pf_created_at r = bucket) in
      if ut_has_assets st
      then if list_ex here snaps
           then replace_last here (\<lambda>r. r\<lparr>pf_total_value_cny := ut_total_value_cny st, pf_created_at := bucket\<rparr>) snaps
           else snaps @ [\<lparr>pf_user = ut_user st, pf_total_value_cny = ut_total_value_cny st, pf_created_at = bucket\<rparr>]
      else delete_last here snaps)"

type_synonym return_key = "snapshot_scope \<times> pystr"

definition return_row_key :: "performance_snapshot \<Rightarrow> return_key" where
  "return_row_key r = (hp_scope r, case hp_symbol r of None \<Rightarrow> [] | Some s \<Rightarrow> s)"

definition indexed_keys :: "pystr \<Rightarrow> datetime \<Rightarrow> performance_snapshot list \<Rightarrow> return_key list" where
  "indexed_keys user bucket snaps =
     remdups (map return_row_key (filter (\<lambda>r. hp_user r = user \<and> hp_created_at r = bucket) snaps))"

definition upsert_return_row ::
  "pystr \<Rightarrow> datetime \<Rightarrow> return_key list \<Rightarrow> performance_snapshot \<Rightarrow> performance_snapshot list
   \<Rightarrow> performance_snapshot list" where
  \<comment> \<open>the row, by whether its key was there before the sample\<close>
  "upsert_return_row user bucket indexed row snaps =
     (if return_row_key row \<in> set indexed
      then replace_last (\<lambda>r. hp_user r = user \<and> hp_created_at r = bucket \<and> return_row_key r = return_row_key row)
             (\<lambda>r. r\<lparr>hp_name := hp_name row, hp_return_pct := hp_return_pct row, hp_created_at := bucket\<rparr>) snaps
      else snaps @ [row])"

definition return_rows :: "datetime \<Rightarrow> user_state \<Rightarrow> performance_snapshot list" where
  \<comment> \<open>the rows a state asks for: the total, then one per holding\<close>
  "return_rows bucket st =
     (case ut_aggregate_return_pct st of None \<Rightarrow> []
      | Some pct \<Rightarrow> [\<lparr>hp_user = ut_user st, hp_scope = SCOPE_TOTAL, hp_symbol = None, hp_name = Some TOTAL_NAME,
          hp_return_pct = pct, hp_created_at = bucket\<rparr>])
     @ map (\<lambda>p. \<lparr>hp_user = ut_user st, hp_scope = SCOPE_HOLDING, hp_symbol = Some (rp_symbol p),
          hp_name = Some (rp_name p), hp_return_pct = rp_return_pct p, hp_created_at = bucket\<rparr>)
         (ut_holding_points st)"

definition upsert_return_rows ::
  "datetime \<Rightarrow> user_state \<Rightarrow> performance_snapshot list \<Rightarrow> performance_snapshot list" where
  "upsert_return_rows bucket st snaps =
     (let user = ut_user st; indexed = indexed_keys user bucket snaps;
          expected_keys = map return_row_key (return_rows bucket st);
          snaps1 = fold (upsert_return_row user bucket indexed) (return_rows bucket st) snaps
      in fold (\<lambda>key. delete_last (\<lambda>r. hp_user r = user \<and> hp_created_at r = bucket \<and> return_row_key r = key))
           (filter (\<lambda>key. key \<notin> set expected_keys) indexed) snaps1)"

definition upsert_snapshots ::
  "user_state list \<Rightarrow> datetime \<Rightarrow> portfolio_snapshot list \<times> performance_snapshot list
   \<Rightarrow> portfolio_snapshot list \<times> performance_snapshot list" where
  \<comment> \<open>the hourly and the realtime tables, with their buckets\<close>
  "upsert_snapshots states bucket = (\<lambda>(ps, rs).
     (fold (upsert_portfolio_row bucket) states ps, fold (upsert_return_rows bucket) states rs))"

definition REALTIME_SERIES_RETENTION :: int where
  "REALTIME_SERIES_RETENTION = US_HOUR + 5 * US_MINUTE"

definition purge_expired_realtime_snapshots ::
  "datetime \<Rightarrow> portfolio_snapshot list \<times> performance_snapshot list
   \<Rightarrow> portfolio_snapshot list \<times> performance_snapshot list" where
  "purge_expired_realtime_snapshots now = (\<lambda>(ps, rs).
     (filter (\<lambda>r. \<not> pf_created_at r < now - REALTIME_SERIES_RETENTION) ps,
      filter (\<lambda>r. \<not> hp_created_at r < now - REALTIME_SERIES_RETENTION) rs))"

section \<open>The sample\<close>

record analytics =
  an_hourly :: "portfolio_snapshot list \<times> performance_snapshot list"
  an_realtime :: "portfolio_snapshot list \<times> performance_snapshot list"

definition rows_of :: "('r \<Rightarrow> pystr) \<Rightarrow> 'r table \<Rightarrow> pystr \<Rightarrow> 'r list" where
  "rows_of owner t user = map snd (user_rows owner user t)"

definition holdings_of :: "world \<Rightarrow> pystr \<Rightarrow> security_holding list" where
  "holdings_of w user = map snd (sort_key (\<lambda>(i, h). (sh_symbol h, i)) (tselect (\<lambda>h. sh_user h = user) (holdings w)))"

definition sampled_users :: "pystr list \<Rightarrow> world \<Rightarrow> pystr list" where
  \<comment> \<open>the registered users and every owner of a row\<close>
  "sampled_users registered w = sort (remdups (registered @ map (\<lambda>(i, a). ca_user a) (rows (accounts w))
     @ map (\<lambda>(i, h). sh_user h) (rows (holdings w)) @ map (\<lambda>(i, a). fa_user a) (rows (fixed_assets w))
     @ map (\<lambda>(i, l). li_user l) (rows (liabilities w)) @ map (\<lambda>(i, a). oa_user a) (rows (other_assets w))))"

definition sample_user_states :: "env \<Rightarrow> pystr list \<Rightarrow> world \<Rightarrow> error + user_state list" where
  "sample_user_states env user_ids w =
     (let hs = concat (map (holdings_of w) user_ids); quotes = prefetch_quotes env hs
      in bindE (prefetch_fx_rates env (concat (map (\<lambda>u. map ca_currency (rows_of ca_user (accounts w) u)) user_ids)
             @ concat (map (\<lambda>u. map li_currency (rows_of li_user (liabilities w) u)) user_ids)
             @ map (\<lambda>(p, q). qt_currency q) quotes)) (\<lambda>rates.
         mapE (\<lambda>u. build_user_realtime_state u (rows_of ca_user (accounts w) u) (holdings_of w u)
             (rows_of fa_user (fixed_assets w) u) (rows_of li_user (liabilities w) u)
             (rows_of oa_user (other_assets w) u) quotes rates) user_ids))"

definition sample_realtime_analytics_once ::
  "env \<Rightarrow> pystr list \<Rightarrow> datetime \<Rightarrow> world \<Rightarrow> analytics \<Rightarrow> error + analytics" where
  "sample_realtime_analytics_once env registered sampled_at w an =
     (let second_bucket = current_second_bucket sampled_at; hour_bucket = current_hour_bucket sampled_at;
          user_ids = sampled_users registered w;
          purge = (\<lambda>r. if second_bucket mod US_MINUTE = 0 then purge_expired_realtime_snapshots sampled_at r else r)
      in if user_ids = [] then Inr (an\<lparr>an_realtime := purge (an_realtime an)\<rparr>)
         else bindE (sample_user_states env user_ids w) (\<lambda>states.
           Inr \<lparr>an_hourly = upsert_snapshots states hour_bucket (an_hourly an),
                an_realtime = purge (upsert_snapshots states second_bucket (an_realtime an))\<rparr>))"

end
