(* ===== verification/Live_State.thy ===== *)
theory Live_State
  imports Realtime Redis_Store Portfolio_Read
begin

text \<open>
  Model of \<^verbatim>\<open>backend/app/services/dashboard_live_service.py\<close>: the live value of the hour that
  runs, kept in Redis, and its roll-over into the snapshot tables when the hour is over. Rows of a
  snapshot list are told apart by their position.
\<close>

section \<open>Summary of valued holdings\<close>

definition summarize_holding ::
  "valued_holding_item \<Rightarrow> dec \<times> dec \<times> return_point list \<Rightarrow> error + dec \<times> dec \<times> return_point list" where
  "summarize_holding h = (\<lambda>(cost_basis, market_value, points).
     (case (vi_cost_basis_price h, vh_return_pct (vi_valuation h)) of
        (Some cost, Some pct) \<Rightarrow>
          if cost \<le> 0 \<or> vh_fx_to_cny (vi_valuation h) \<le> 0 \<or> vi_quantity h \<le> 0
          then Inr (cost_basis, market_value, points)
          else bindE (liftA (quantize_decimal (dec_mul (dec_mul (Dec cost (-4)) (Dec (vi_quantity h) (-4)))
                 (Dec (vh_fx_to_cny (vi_valuation h)) (-6))))) (\<lambda>value.
               if value \<le> 0 then Inr (cost_basis, market_value, points)
               else bindE (liftA (display_percent (hundredths pct))) (\<lambda>shown.
                 Inr (dec_add cost_basis (of_fixed value), dec_add market_value (hundredths (vh_value_cny (vi_valuation h))),
                   points @ [\<lparr>rp_symbol = vi_symbol h, rp_name = vi_name h, rp_return_pct = shown\<rparr>])))
      | _ \<Rightarrow> Inr (cost_basis, market_value, points)))"

definition summarize_holdings_return_state :: "valued_holding_item list \<Rightarrow> error + int option \<times> return_point list" where
  "summarize_holdings_return_state hs =
     bindE (foldE summarize_holding hs (DECIMAL_ZERO, DECIMAL_ZERO, [])) (\<lambda>(cost_basis, market_value, points).
     bindE (aggregate_return market_value cost_basis) (\<lambda>pct. Inr (pct, points)))"

section \<open>Snapshots that are not stored\<close>

definition build_transient_portfolio_snapshot ::
  "pystr \<Rightarrow> datetime \<Rightarrow> int \<Rightarrow> bool \<Rightarrow> portfolio_snapshot option" where
  "build_transient_portfolio_snapshot user generated_at total_value has_assets =
     (if \<not> has_assets then None
      else Some \<lparr>pf_user = user, pf_total_value_cny = total_value, pf_created_at = generated_at\<rparr>)"

definition build_transient_holdings_return_snapshots ::
  "pystr \<Rightarrow> datetime \<Rightarrow> int option \<Rightarrow> return_point list \<Rightarrow> ((snapshot_scope \<times> pystr option) \<times> performance_snapshot) list" where
  \<comment> \<open>a dictionary; of two points of a symbol the later one stays\<close>
  "build_transient_holdings_return_snapshots user generated_at aggregate_return_pct points =
     fold (\<lambda>p. AList.update (SCOPE_HOLDING, Some (rp_symbol p)) \<lparr>hp_user = user, hp_scope = SCOPE_HOLDING,
         hp_symbol = Some (rp_symbol p), hp_name = Some (rp_name p), hp_return_pct = rp_return_pct p,
         hp_created_at = generated_at\<rparr>) points
       (case aggregate_return_pct of None \<Rightarrow> []
        | Some pct \<Rightarrow> [((SCOPE_TOTAL, None), \<lparr>hp_user = user, hp_scope = SCOPE_TOTAL, hp_symbol = None,
            hp_name = Some TOTAL_NAME, hp_return_pct = pct, hp_created_at = generated_at\<rparr>)])"

section \<open>Persisting an hour\<close>

definition hour_rows :: "('r \<Rightarrow> pystr) \<Rightarrow> ('r \<Rightarrow> datetime) \<Rightarrow> pystr \<Rightarrow> datetime \<Rightarrow> 'r list \<Rightarrow> (nat \<times> 'r) list" where
  \<comment> \<open>the rows of a user within an hour, the newest first\<close>
  "hour_rows owner created user hour_start snaps =
     sort_key (\<lambda>(i, r). - created r)
       (filter (\<lambda>(i, r). owner r = user \<and> created r \<ge> hour_start \<and> created r < hour_start + US_HOUR)
         (List.enumerate 0 snaps))"

definition persist_hour_snapshot ::
  "pystr \<Rightarrow> datetime \<Rightarrow> int \<Rightarrow> portfolio_snapshot list \<Rightarrow> portfolio_snapshot list" where
  "persist_hour_snapshot user hour_bucket total_value snaps =
     (let hour_start = current_hour_bucket hour_bucket
      in case hour_rows pf_user pf_created_at user hour_start snaps of
           [] \<Rightarrow> snaps @ [\<lparr>pf_user = user, pf_total_value_cny = total_value, pf_created_at = hour_start\<rparr>]
         | (i, r) # others \<Rightarrow>
             map snd (map (\<lambda>(j, x). if j = i
                 then (j, x\<lparr>pf_total_value_cny := total_value, pf_created_at := hour_start\<rparr>) else (j, x))
               (filter (\<lambda>(j, x). j \<notin> set (map fst others)) (List.enumerate 0 snaps))))"

definition put_return_point ::
  "(return_key \<times> nat) list \<Rightarrow> performance_snapshot \<Rightarrow> (nat \<times> performance_snapshot) list \<times> performance_snapshot list
   \<Rightarrow> (nat \<times> performance_snapshot) list \<times> performance_snapshot list" where
  \<comment> \<open>change the indexed row, or add one\<close>
  "put_return_point indexed row = (\<lambda>(old, added).
     (case map_of indexed (return_row_key row) of
        None \<Rightarrow> (old, added @ [row])
      | Some i \<Rightarrow> (map (\<lambda>(j, x). if j = i then (j, x\<lparr>hp_name := hp_name row, hp_return_pct := hp_return_pct row,
            hp_created_at := hp_created_at row\<rparr>) else (j, x)) old, added)))"

definition persist_holdings_return_snapshot ::
  "pystr \<Rightarrow> datetime \<Rightarrow> int option \<Rightarrow> return_point list \<Rightarrow> performance_snapshot list \<Rightarrow> performance_snapshot list" where
  "persist_holdings_return_snapshot user hour_bucket aggregate_return_pct points snaps =
     (let hour_start = current_hour_bucket hour_bucket;
          existing = hour_rows hp_user hp_created_at user hour_start snaps;
          indexed = fold (\<lambda>(i, r). AList.update (return_row_key r) i) existing [];
          wanted = return_rows hour_start \<lparr>ut_user = user, ut_total_value_cny = 0, ut_has_assets = True,
            ut_aggregate_return_pct = aggregate_return_pct, ut_holding_points = points\<rparr>;
          expected_keys = map return_row_key wanted;
          (old, added) = fold (put_return_point indexed) wanted (List.enumerate 0 snaps, []);
          unwanted = map fst (filter (\<lambda>(i, r). return_row_key r \<notin> set expected_keys) existing)
      in map snd (filter (\<lambda>(j, x). j \<notin> set unwanted) old) @ added)"

section \<open>Live states\<close>

record live_portfolio_state =
  lp_hour_bucket :: datetime
  lp_latest_value_cny :: int
  lp_latest_generated_at :: datetime
  lp_has_assets_in_bucket :: bool

record live_returns_state =
  lr_hour_bucket :: datetime
  lr_latest_generated_at :: datetime
  lr_aggregate_return_pct :: "int option"
  lr_holding_points :: "return_point list"
  lr_has_tracked_holdings_in_bucket :: bool

definition LIVE_RUNTIME_STATE_TTL :: int where
  "LIVE_RUNTIME_STATE_TTL = 2 * 60 * 60 * US_SECOND"

definition put_live :: "datetime \<Rightarrow> pystr \<Rightarrow> 'v \<Rightarrow> (pystr, 'v) redis \<Rightarrow> (pystr, 'v) redis" where
  "put_live now user st d = redis_set now (Some LIVE_RUNTIME_STATE_TTL) user st d"

definition roll_live_portfolio_state_if_needed ::
  "pystr \<Rightarrow> datetime \<Rightarrow> (pystr, live_portfolio_state) redis \<times> portfolio_snapshot list
   \<Rightarrow> (pystr, live_portfolio_state) redis \<times> portfolio_snapshot list" where
  "roll_live_portfolio_state_if_needed user now = (\<lambda>(live, snaps).
     (case redis_get now live user of
        None \<Rightarrow> (live, snaps)
      | Some st \<Rightarrow>
          if lp_hour_bucket st \<ge> current_hour_bucket now then (live, snaps)
          else if lp_has_assets_in_bucket st \<or> lp_latest_value_cny st > 0
          then (snd (redis_pop now user live),
            persist_hour_snapshot user (lp_hour_bucket st) (lp_latest_value_cny st) snaps)
          else (live, snaps)))"

definition roll_live_holdings_return_state_if_needed ::
  "pystr \<Rightarrow> datetime \<Rightarrow> (pystr, live_returns_state) redis \<times> performance_snapshot list
   \<Rightarrow> (pystr, live_returns_state) redis \<times> performance_snapshot list" where
  "roll_live_holdings_return_state_if_needed user now = (\<lambda>(live, snaps).
     (case redis_get now live user of
        None \<Rightarrow> (live, snaps)
      | Some st \<Rightarrow>
          if lr_hour_bucket st \<ge> current_hour_bucket now then (live, snaps)
          else if lr_has_tracked_holdings_in_bucket st \<or> lr_aggregate_return_pct st \<noteq> None
          then (snd (redis_pop now user live),
            persist_holdings_return_snapshot user (lr_hour_bucket st) (lr_aggregate_return_pct st)
              (lr_holding_points st) snaps)
          else (live, snaps)))"

definition update_live_portfolio_state ::
  "pystr \<Rightarrow> datetime \<Rightarrow> int \<Rightarrow> bool \<Rightarrow> (pystr, live_portfolio_state) redis \<Rightarrow> (pystr, live_portfolio_state) redis" where
  "update_live_portfolio_state user now total_value has_assets live =
     (let current_hour = current_hour_bucket now;
          fresh = \<lparr>lp_hour_bucket = current_hour, lp_latest_value_cny = total_value,
            lp_latest_generated_at = now, lp_has_assets_in_bucket = has_assets\<rparr>
      in case redis_get now live user of
           None \<Rightarrow> if \<not> has_assets then live else put_live now user fresh live
         | Some st \<Rightarrow>
             if lp_hour_bucket st \<noteq> current_hour
             then (if \<not> has_assets then snd (redis_pop now user live) else put_live now user fresh live)
             else put_live now user (st\<lparr>lp_latest_value_cny := total_value, lp_latest_generated_at := now,
               lp_has_assets_in_bucket := (lp_has_assets_in_bucket st \<or> has_assets)\<rparr>) live)"

definition update_live_holdings_return_state ::
  "pystr \<Rightarrow> datetime \<Rightarrow> int option \<Rightarrow> return_point list \<Rightarrow> (pystr, live_returns_state) redis
   \<Rightarrow> (pystr, live_returns_state) redis" where
  "update_live_holdings_return_state user now aggregate_return_pct points live =
     (let current_hour = current_hour_bucket now; has_tracked_holdings = (points \<noteq> []);
          has_return_data = (has_tracked_holdings \<or> aggregate_return_pct \<noteq> None);
          fresh = \<lparr>lr_hour_bucket = current_hour, lr_latest_generated_at = now,
            lr_aggregate_return_pct = aggregate_return_pct, lr_holding_points = points,
            lr_has_tracked_holdings_in_bucket = has_tracked_holdings\<rparr>
      in case redis_get now live user of
           None \<Rightarrow> if \<not> has_return_data then live else put_live now user fresh live
         | Some st \<Rightarrow>
             if lr_hour_bucket st \<noteq> current_hour
             then (if \<not> has_return_data then snd (redis_pop now user live) else put_live now user fresh live)
             else put_live now user (st\<lparr>lr_latest_generated_at := now,
               lr_aggregate_return_pct := aggregate_return_pct, lr_holding_points := points,
               lr_has_tracked_holdings_in_bucket :=
                 (lr_has_tracked_holdings_in_bucket st \<or> has_tracked_holdings)\<rparr>) live)"

end
