(* ===== verification/Release_Notes.thy ===== *)
theory Release_Notes
  imports Analytics Security Validators
begin

text \<open>
  Model of \<^verbatim>\<open>backend/app/services/release_note_service.py\<close> and \<^verbatim>\<open>inbox_service.py\<close>: release notes,
  their delivery to the users as one message each, and the messages a user has hidden. The JSON
  list of feedback ids is kept as a list. Handlers commit as they go; no handler raises after a
  commit.
\<close>

section \<open>Rows\<close>

record release_note =
  rn_version :: pystr
  rn_title :: pystr
  rn_content :: pystr
  rn_source_feedback_ids :: "int list option"
  rn_created_by :: pystr
  rn_created_at :: datetime
  rn_published_at :: "datetime option"

record release_note_delivery =
  rd_release_note :: nat
  rd_user :: pystr
  rd_delivered_at :: datetime
  rd_seen_at :: "datetime option"

record message_visibility =
  mv_user :: pystr
  mv_message_kind :: pystr
  mv_message_id :: nat
  mv_hidden_at :: datetime

record release_state =
  rs_notes :: "release_note table"
  rs_deliveries :: "release_note_delivery table"
  rs_hidden :: "message_visibility table"

record release_note_create =
  rnc_version :: pystr
  rnc_title :: pystr
  rnc_content :: pystr
  rnc_source_feedback_ids :: "int list"

record release_note_read =
  rnr_id :: nat
  rnr_version :: pystr
  rnr_title :: pystr
  rnr_content :: pystr
  rnr_source_feedback_ids :: "int list"
  rnr_created_by :: pystr
  rnr_created_at :: datetime
  rnr_published_at :: "datetime option"
  rnr_delivery_count :: nat

record delivery_read =
  dlr_delivery_id :: nat
  dlr_release_note_id :: nat
  dlr_version :: pystr
  dlr_title :: pystr
  dlr_content :: pystr
  dlr_source_feedback_ids :: "int list"
  dlr_delivered_at :: datetime
  dlr_seen_at :: "datetime option"
  dlr_published_at :: datetime

section \<open>Hidden messages\<close>

definition INBOX_MESSAGE_KINDS :: "pystr list" where
  "INBOX_MESSAGE_KINDS = map lit [''FEEDBACK'', ''RELEASE_NOTE'']"

definition load_hidden_message_ids :: "message_visibility table \<Rightarrow> pystr \<Rightarrow> pystr \<Rightarrow> nat list" where
  "load_hidden_message_ids t user kind =
     (if kind \<notin> set INBOX_MESSAGE_KINDS then []
      else map (\<lambda>(i, v). mv_message_id v) (tselect (\<lambda>v. mv_user v = user \<and> mv_message_kind v = kind) t))"

section \<open>Versions and content\<close>

definition sorted_ids :: "int list \<Rightarrow> int list" where
  "sorted_ids ids = sort (remdups ids)"

definition encode_source_feedback_ids :: "int list \<Rightarrow> int list option" where
  "encode_source_feedback_ids ids = (if ids = [] then None else Some (sorted_ids ids))"

definition decode_source_feedback_ids :: "int list option \<Rightarrow> int list" where
  "decode_source_feedback_ids payload = (case payload of None \<Rightarrow> []
     | Some ids \<Rightarrow> sorted_ids (filter (\<lambda>i. i > 0) ids))"

definition validate_source_feedback_ids :: "int list \<Rightarrow> error + int list" where
  "validate_source_feedback_ids ids =
     (let normalized_ids = sorted_ids ids in if list_ex (\<lambda>i. i \<le> 0) normalized_ids then Inl ValueError
      else Inr normalized_ids)"

definition py_split :: "nat \<Rightarrow> pystr \<Rightarrow> pystr list" where
  \<comment> \<open>\<open>s.split(sep)\<close>\<close>
  "py_split sep s = py_split_max sep (length s) s"

definition SEMVER_PATTERN :: "pystr \<Rightarrow> bool" where
  \<comment> \<open>three runs of digits; only ASCII digits are modelled\<close>
  "SEMVER_PATTERN s \<longleftrightarrow> length (py_split 46 s) = 3
     \<and> list_all (\<lambda>p. p \<noteq> [] \<and> list_all py_isdigit p) (py_split 46 s)"

definition validate_release_note_create ::
  "pystr \<Rightarrow> pystr \<Rightarrow> pystr \<Rightarrow> int list \<Rightarrow> error + release_note_create" where
  "validate_release_note_create version title content ids =
     bindE (normalize_required_text version) (\<lambda>version. bindE (check (SEMVER_PATTERN version)) (\<lambda>_.
     bindE (text_field 1 32 version) (\<lambda>version.
     bindE (normalize_required_text title) (\<lambda>title. bindE (text_field 1 120 title) (\<lambda>title.
     bindE (normalize_required_text content) (\<lambda>content. bindE (text_field 1 6000 content) (\<lambda>content.
     bindE (validate_source_feedback_ids ids) (\<lambda>ids.
     Inr \<lparr>rnc_version = version, rnc_title = title, rnc_content = content,
       rnc_source_feedback_ids = ids\<rparr>))))))))"

definition parse_semver :: "pystr \<Rightarrow> error + int \<times> int \<times> int" where
  "parse_semver version =
     (case py_split 46 version of
        [major, minor, patch] \<Rightarrow>
          (case (py_int major, py_int minor, py_int patch) of
             (Some a, Some b, Some c) \<Rightarrow> Inr (a, b, c) | _ \<Rightarrow> Inl ValueError)
      | _ \<Rightarrow> Inl ValueError)"

fun contains :: "pystr \<Rightarrow> pystr \<Rightarrow> bool" where
  \<comment> \<open>\<open>needle in haystack\<close>\<close>
  "contains needle [] = (needle = [])"
| "contains needle (c # cs) = (take (length needle) (c # cs) = needle \<or> contains needle cs)"

definition build_release_note_content :: "pystr \<Rightarrow> pystr option \<Rightarrow> pystr" where
  "build_release_note_content content release_url =
     (let normalized_content = py_strip content in
      case release_url of
        None \<Rightarrow> normalized_content
      | Some url \<Rightarrow> if contains url normalized_content then normalized_content
          else normalized_content @ [10, 10] @ lit ''GitHub Release: '' @ url)"

section \<open>Notes\<close>

definition count_release_note_deliveries :: "release_state \<Rightarrow> nat \<Rightarrow> nat" where
  "count_release_note_deliveries s i = length (tselect (\<lambda>d. rd_release_note d = i) (rs_deliveries s))"

definition to_release_note_read :: "release_state \<Rightarrow> nat \<Rightarrow> release_note \<Rightarrow> release_note_read" where
  "to_release_note_read s i n = \<lparr>rnr_id = i, rnr_version = rn_version n, rnr_title = rn_title n,
     rnr_content = rn_content n, rnr_source_feedback_ids = decode_source_feedback_ids (rn_source_feedback_ids n),
     rnr_created_by = rn_created_by n, rnr_created_at = rn_created_at n,
     rnr_published_at = rn_published_at n, rnr_delivery_count = count_release_note_deliveries s i\<rparr>"

definition to_release_note_delivery_read ::
  "nat \<Rightarrow> release_note_delivery \<Rightarrow> release_note \<Rightarrow> pystr \<Rightarrow> pystr \<Rightarrow> delivery_read" where
  "to_release_note_delivery_read i d n title content = \<lparr>dlr_delivery_id = i,
     dlr_release_note_id = rd_release_note d, dlr_version = rn_version n, dlr_title = title,
     dlr_content = content, dlr_source_feedback_ids = decode_source_feedback_ids (rn_source_feedback_ids n),
     dlr_delivered_at = rd_delivered_at d, dlr_seen_at = rd_seen_at d,
     dlr_published_at = (case rn_published_at n of Some p \<Rightarrow> p | None \<Rightarrow> rd_delivered_at d)\<rparr>"

definition list_published_release_notes_desc :: "release_state \<Rightarrow> (nat \<times> release_note) list" where
  "list_published_release_notes_desc s =
     rev (sort_key (\<lambda>(i, n). (the (rn_published_at n), i)) (tselect (\<lambda>n. rn_published_at n \<noteq> None) (rs_notes s)))"

definition get_latest_published_release_note :: "release_state \<Rightarrow> (nat \<times> release_note) option" where
  "get_latest_published_release_note s =
     (case list_published_release_notes_desc s of [] \<Rightarrow> None | p # ps \<Rightarrow> Some p)"

definition assert_release_note_version_is_not_older_than_latest_published ::
  "release_state \<Rightarrow> pystr \<Rightarrow> error + unit" where
  "assert_release_note_version_is_not_older_than_latest_published s version =
     (case get_latest_published_release_note s of
        None \<Rightarrow> Inr ()
      | Some (i, n) \<Rightarrow> bindE (parse_semver version) (\<lambda>v. bindE (parse_semver (rn_version n)) (\<lambda>latest.
          assertE (\<not> v < latest) (HTTPException 409 ReleaseVersionOlder))))"

fun join_with :: "pystr \<Rightarrow> pystr list \<Rightarrow> pystr" where
  \<comment> \<open>\<open>sep.join(parts)\<close>\<close>
  "join_with sep [] = []"
| "join_with sep [p] = p"
| "join_with sep (p # q # ps) = p @ sep @ join_with sep (q # ps)"

definition minute_text :: "datetime \<Rightarrow> pystr" where
  \<comment> \<open>\<open>\%Y-\%m-\%d \%H:\%M\<close> in local time\<close>
  "minute_text t =
     (let local = t + LOCAL_OFFSET; (y, m, d) = civil (local div US_DAY)
      in show_int y @ lit ''-'' @ two_digits m @ lit ''-'' @ two_digits d @ lit '' ''
         @ two_digits (local mod US_DAY div US_HOUR) @ lit '':'' @ two_digits (local mod US_HOUR div US_MINUTE))"

definition release_note_section :: "release_note \<Rightarrow> pystr" where
  "release_note_section n =
     (let published_at = (case rn_published_at n of Some p \<Rightarrow> p | None \<Rightarrow> rn_created_at n);
          ids = decode_source_feedback_ids (rn_source_feedback_ids n);
          feedback_line = (if ids = [] then []
            else [10] @ lit ''Linked feedback: '' @ join_with (lit '', '') (map (\<lambda>i. lit ''#'' @ show_int i) ids))
      in py_strip (join_with [10] [lit ''## v'' @ rn_version n @ lit '' '' @ [183] @ lit '' '' @ minute_text published_at,
           rn_title n, [], rn_content n, feedback_line]))"

definition format_release_note_stream_content :: "release_note list \<Rightarrow> pystr" where
  "format_release_note_stream_content notes =
     (if notes = [] then []
      else lit ''# Product Updates'' @ [10, 10]
        @ join_with ([10, 10] @ lit ''---'' @ [10, 10]) (map release_note_section notes))"

section \<open>Deliveries\<close>

definition user_deliveries :: "release_state \<Rightarrow> pystr \<Rightarrow> (nat \<times> release_note_delivery) list" where
  \<comment> \<open>the latest first\<close>
  "user_deliveries s user =
     rev (sort_key (\<lambda>(i, d). (rd_delivered_at d, i)) (tselect (\<lambda>d. rd_user d = user) (rs_deliveries s)))"

definition upsert_release_note_stream_delivery ::
  "datetime \<Rightarrow> pystr \<Rightarrow> nat \<Rightarrow> release_note \<Rightarrow> bool \<Rightarrow> release_state \<Rightarrow> bool \<times> release_state" where
  "upsert_release_note_stream_delivery now user i n reset_seen s =
     (let target_delivered_at = (case rn_published_at n of Some p \<Rightarrow> p | None \<Rightarrow> now)
      in case user_deliveries s user of
           [] \<Rightarrow> (True, s\<lparr>rs_deliveries := snd (tinsert \<lparr>rd_release_note = i, rd_user = user,
               rd_delivered_at = target_delivered_at, rd_seen_at = None\<rparr> (rs_deliveries s))\<rparr>)
         | (k, d) # stale \<Rightarrow>
             (let is_new_release_for_user = (rd_release_note d \<noteq> i);
                  reset = ((is_new_release_for_user \<or> reset_seen) \<and> rd_seen_at d \<noteq> None);
                  d1 = d\<lparr>rd_release_note := i, rd_delivered_at := target_delivered_at,
                    rd_seen_at := (if reset then None else rd_seen_at d)\<rparr>
              in (is_new_release_for_user \<or> rd_delivered_at d \<noteq> target_delivered_at \<or> reset \<or> stale \<noteq> [],
                  s\<lparr>rs_deliveries := tdel_ids (map fst stale) (tput k d1 (rs_deliveries s))\<rparr>)))"

definition ensure_release_note_deliveries_for_user :: "datetime \<Rightarrow> pystr \<Rightarrow> release_state \<Rightarrow> release_state" where
  "ensure_release_note_deliveries_for_user now user s =
     (case get_latest_published_release_note s of
        None \<Rightarrow> s
      | Some (i, n) \<Rightarrow> snd (upsert_release_note_stream_delivery now user i n False s))"

definition sync_release_note_deliveries_for_all_users ::
  "datetime \<Rightarrow> pystr list \<Rightarrow> nat \<Rightarrow> release_note \<Rightarrow> bool \<Rightarrow> release_state \<Rightarrow> release_state" where
  "sync_release_note_deliveries_for_all_users now users i n reset_seen s =
     fold (\<lambda>u s. snd (upsert_release_note_stream_delivery now u i n reset_seen s)) users s"

definition publish_release_note :: "datetime \<Rightarrow> pystr list \<Rightarrow> nat \<Rightarrow> release_note \<Rightarrow> release_state \<Rightarrow> release_note \<times> release_state" where
  "publish_release_note now users i n s =
     (let (n1, s1) = (if rn_published_at n = None
            then (n\<lparr>rn_published_at := Some now\<rparr>,
              s\<lparr>rs_notes := tput i (n\<lparr>rn_published_at := Some now\<rparr>) (rs_notes s)\<rparr>)
            else (n, s))
      in (n1, sync_release_note_deliveries_for_all_users now users i n1 True s1))"

section \<open>Handlers\<close>

definition require_admin :: "pystr \<Rightarrow> error + unit" where
  "require_admin user = assertE (user = lit ''admin'') (HTTPException 403 AdminOnly)"

definition list_release_notes_for_admin :: "pystr \<Rightarrow> release_state \<Rightarrow> error + release_note_read list" where
  "list_release_notes_for_admin user s =
     bindE (require_admin user) (\<lambda>_.
     Inr (map (\<lambda>(i, n). to_release_note_read s i n)
       (sort_key (\<lambda>(i, n). - rn_created_at n) (rows (rs_notes s)))))"

definition find_by_version :: "release_state \<Rightarrow> pystr \<Rightarrow> (nat \<times> release_note) option" where
  "find_by_version s version =
     (case tselect (\<lambda>n. rn_version n = version) (rs_notes s) of [] \<Rightarrow> None | p # ps \<Rightarrow> Some p)"

definition new_release_note :: "datetime \<Rightarrow> pystr \<Rightarrow> pystr \<Rightarrow> release_note_create \<Rightarrow> release_note" where
  "new_release_note now user content p = \<lparr>rn_version = rnc_version p, rn_title = rnc_title p, rn_content = content,
     rn_source_feedback_ids = encode_source_feedback_ids (rnc_source_feedback_ids p), rn_created_by = user,
     rn_created_at = now, rn_published_at = None\<rparr>"

definition create_release_note_for_admin ::
  "datetime \<Rightarrow> pystr \<Rightarrow> release_note_create \<Rightarrow> release_state \<Rightarrow> error + release_note_read \<times> release_state" where
  "create_release_note_for_admin now user p s =
     bindE (require_admin user) (\<lambda>_.
     bindE (assertE (find_by_version s (rnc_version p) = None) (HTTPException 409 ReleaseVersionExists)) (\<lambda>_.
     let n = new_release_note now user (rnc_content p) p; (i, notes) = tinsert n (rs_notes s);
         s1 = s\<lparr>rs_notes := notes\<rparr>
     in Inr (to_release_note_read s1 i n, s1)))"

definition published :: "datetime \<Rightarrow> pystr list \<Rightarrow> nat \<Rightarrow> release_note \<Rightarrow> release_state \<Rightarrow> release_note_read \<times> release_state" where
  "published now users i n s =
     (let (n1, s1) = publish_release_note now users i n s in (to_release_note_read s1 i n1, s1))"

definition publish_changelog_release_note_for_admin ::
  "datetime \<Rightarrow> pystr list \<Rightarrow> pystr \<Rightarrow> release_note_create \<Rightarrow> pystr option \<Rightarrow> release_state
   \<Rightarrow> error + release_note_read \<times> release_state" where
  "publish_changelog_release_note_for_admin now users user p release_url s =
     bindE (require_admin user) (\<lambda>_.
     let encoded_source_feedback_ids = encode_source_feedback_ids (rnc_source_feedback_ids p);
         normalized_content = build_release_note_content (rnc_content p) release_url
     in case find_by_version s (rnc_version p) of
          None \<Rightarrow>
            bindE (assert_release_note_version_is_not_older_than_latest_published s (rnc_version p)) (\<lambda>_.
            let n = new_release_note now user normalized_content p; (i, notes) = tinsert n (rs_notes s)
            in Inr (published now users i n (s\<lparr>rs_notes := notes\<rparr>)))
        | Some (i, n) \<Rightarrow>
            bindE (if rn_published_at n = None
                then assert_release_note_version_is_not_older_than_latest_published s (rnc_version p)
                else Inr ()) (\<lambda>_.
            let existing_payload_matches = (rn_title n = rnc_title p \<and> rn_content n = normalized_content
                  \<and> rn_source_feedback_ids n = encoded_source_feedback_ids)
            in if rn_published_at n \<noteq> None
               then (if \<not> existing_payload_matches then Inl (HTTPException 409 ReleaseContentMismatch)
                 else (let s1 = sync_release_note_deliveries_for_all_users now users i n False s
                   in Inr (to_release_note_read s1 i n, s1)))
               else (let n1 = n\<lparr>rn_title := rnc_title p, rn_content := normalized_content,
                       rn_source_feedback_ids := encoded_source_feedback_ids\<rparr>
                 in Inr (published now users i n1 (s\<lparr>rs_notes := tput i n1 (rs_notes s)\<rparr>)))))"

definition publish_release_note_for_admin ::
  "datetime \<Rightarrow> pystr list \<Rightarrow> pystr \<Rightarrow> nat \<Rightarrow> release_state \<Rightarrow> error + release_note_read \<times> release_state" where
  "publish_release_note_for_admin now users user i s =
     bindE (require_admin user) (\<lambda>_.
     case tget (rs_notes s) i of
       None \<Rightarrow> Inl (HTTPException 404 ReleaseNotFound)
     | Some n \<Rightarrow> Inr (published now users i n s))"

definition PRODUCT_UPDATES :: pystr where
  "PRODUCT_UPDATES = lit ''Product Updates''"

definition list_release_notes_for_current_user ::
  "datetime \<Rightarrow> pystr \<Rightarrow> release_state \<Rightarrow> delivery_read list \<times> release_state" where
  "list_release_notes_for_current_user now user s =
     (let s1 = ensure_release_note_deliveries_for_user now user s;
          hidden = load_hidden_message_ids (rs_hidden s1) user (lit ''RELEASE_NOTE'');
          visible = List.map_filter (\<lambda>(k, d). case tget (rs_notes s1) (rd_release_note d) of
              None \<Rightarrow> None
            | Some n \<Rightarrow> if rn_published_at n = None \<or> k \<in> set hidden then None else Some (k, d, n))
            (user_deliveries s1 user)
      in (case visible of
            [] \<Rightarrow> []
          | (k, d, n) # others \<Rightarrow> [to_release_note_delivery_read k d n PRODUCT_UPDATES
              (format_release_note_stream_content (map snd (list_published_release_notes_desc s1)))], s1))"

definition mark_release_notes_seen_for_current_user ::
  "datetime \<Rightarrow> pystr \<Rightarrow> release_state \<Rightarrow> bool \<times> release_state" where
  \<comment> \<open>whether there was anything to mark\<close>
  "mark_release_notes_seen_for_current_user now user s =
     (let s1 = ensure_release_note_deliveries_for_user now user s;
          hidden = load_hidden_message_ids (rs_hidden s1) user (lit ''RELEASE_NOTE'');
          pending = filter (\<lambda>(k, d). k \<notin> set hidden)
            (tselect (\<lambda>d. rd_user d = user \<and> rd_seen_at d = None) (rs_deliveries s1))
      in (pending \<noteq> [], s1\<lparr>rs_deliveries :=
            fold (\<lambda>(k, d). tput k (d\<lparr>rd_seen_at := Some now\<rparr>)) pending (rs_deliveries s1)\<rparr>))"

end
