(* ===== verification/Feedback.thy ===== *)
theory Feedback
  imports Release_Notes
begin

text \<open>
  Model of \<^verbatim>\<open>backend/app/services/feedback_model_service.py\<close>, \<^verbatim>\<open>feedback_user_service.py\<close> and
  \<^verbatim>\<open>feedback_admin_service.py\<close>: feedback tickets, their state machine, and the inbox. Categories,
  priorities, sources and statuses are strings, as in the table.
\<close>

section \<open>Tickets\<close>

record user_feedback =
  fb_user :: pystr
  fb_message :: pystr
  fb_category :: pystr
  fb_priority :: pystr
  fb_source :: pystr
  fb_status :: pystr
  fb_reply_message :: "pystr option"
  fb_replied_at :: "datetime option"
  fb_replied_by :: "pystr option"
  fb_reply_seen_at :: "datetime option"
  fb_resolved_at :: "datetime option"
  fb_closed_by :: "pystr option"
  fb_assignee :: "pystr option"
  fb_acknowledged_at :: "datetime option"
  fb_acknowledged_by :: "pystr option"
  fb_ack_deadline :: "datetime option"
  fb_internal_note :: "pystr option"
  fb_internal_note_updated_at :: "datetime option"
  fb_internal_note_updated_by :: "pystr option"
  fb_fingerprint :: "pystr option"
  fb_dedupe_window_minutes :: "int option"
  fb_occurrence_count :: int
  fb_last_seen_at :: "datetime option"
  fb_created_at :: datetime

record inbox =
  ib_feedback :: "user_feedback table"
  ib_release :: release_state

record feedback_create =
  fbc_message :: pystr
  fbc_category :: "pystr option"
  fbc_priority :: "pystr option"
  fbc_source :: "pystr option"
  fbc_fingerprint :: "pystr option"
  fbc_dedupe_window_minutes :: "int option"

record feedback_details =
  fbd_assignee :: "pystr field"
  fbd_ack_deadline :: "datetime field"
  fbd_internal_note :: "pystr field"

record feedback_classify = feedback_details +
  fbl_category :: "pystr field"
  fbl_priority :: "pystr field"
  fbl_source :: "pystr field"
  fbl_status :: "pystr field"

record feedback_read =
  fbr_id :: nat
  fbr_user :: pystr
  fbr_message :: pystr
  fbr_category :: pystr
  fbr_priority :: pystr
  fbr_source :: pystr
  fbr_status :: pystr
  fbr_is_system :: bool
  fbr_reply_message :: "pystr option"
  fbr_replied_at :: "datetime option"
  fbr_replied_by :: "pystr option"
  fbr_reply_seen_at :: "datetime option"
  fbr_resolved_at :: "datetime option"
  fbr_closed_by :: "pystr option"
  fbr_created_at :: datetime

record admin_feedback_read = feedback_read +
  afr_assignee :: "pystr option"
  afr_acknowledged_at :: "datetime option"
  afr_acknowledged_by :: "pystr option"
  afr_ack_deadline :: "datetime option"
  afr_internal_note :: "pystr option"
  afr_internal_note_updated_at :: "datetime option"
  afr_internal_note_updated_by :: "pystr option"
  afr_fingerprint :: "pystr option"
  afr_dedupe_window_minutes :: "int option"
  afr_occurrence_count :: int
  afr_last_seen_at :: "datetime option"

record feedback_page =
  fp_items :: "admin_feedback_read list"
  fp_total :: nat
  fp_page :: nat
  fp_page_size :: nat
  fp_has_more :: bool

definition FEEDBACK_CATEGORIES :: "pystr list" where
  "FEEDBACK_CATEGORIES = map lit [''USER_REQUEST'', ''SYSTEM_ALERT'', ''SYSTEM_HEARTBEAT'', ''SYSTEM_TASK'']"

definition FEEDBACK_PRIORITIES :: "pystr list" where
  "FEEDBACK_PRIORITIES = map lit [''LOW'', ''MEDIUM'', ''HIGH'']"

definition FEEDBACK_SOURCES :: "pystr list" where
  "FEEDBACK_SOURCES = map lit [''USER'', ''SYSTEM'', ''API_MONITOR'', ''TRADING_AGENT'', ''ADMIN'']"

definition FEEDBACK_STATUSES :: "pystr list" where
  "FEEDBACK_STATUSES = map lit [''OPEN'', ''ACKED'', ''IN_PROGRESS'', ''SILENCED'', ''RESOLVED'']"

definition SYSTEM_SOURCES :: "pystr list" where
  "SYSTEM_SOURCES = map lit [''SYSTEM'', ''API_MONITOR'', ''TRADING_AGENT'']"

definition normalize_feedback_choice :: "pystr option \<Rightarrow> pystr list \<Rightarrow> pystr \<Rightarrow> pystr" where
  "normalize_feedback_choice v allowed fallback = (case v of None \<Rightarrow> fallback
     | Some s \<Rightarrow> (let normalized = py_upper (py_strip s) in if normalized \<in> set allowed then normalized else fallback))"

definition category_of :: "user_feedback \<Rightarrow> pystr" where
  "category_of f = normalize_feedback_choice (Some (fb_category f)) FEEDBACK_CATEGORIES (lit ''USER_REQUEST'')"

definition source_of :: "user_feedback \<Rightarrow> pystr" where
  "source_of f = normalize_feedback_choice (Some (fb_source f)) FEEDBACK_SOURCES (lit ''USER'')"

definition priority_of :: "user_feedback \<Rightarrow> pystr" where
  "priority_of f = normalize_feedback_choice (Some (fb_priority f)) FEEDBACK_PRIORITIES (lit ''MEDIUM'')"

definition is_system_feedback_item :: "user_feedback \<Rightarrow> bool" where
  "is_system_feedback_item f \<longleftrightarrow> has_prefix (lit ''SYSTEM_'') (category_of f) \<or> source_of f \<noteq> lit ''USER''"

definition derive_feedback_status :: "user_feedback \<Rightarrow> pystr" where
  "derive_feedback_status f =
     (if fb_resolved_at f \<noteq> None then lit ''RESOLVED''
      else (let status = normalize_feedback_choice (Some (fb_status f)) FEEDBACK_STATUSES (lit ''OPEN'') in
        if status = lit ''RESOLVED'' then lit ''OPEN''
        else if status \<in> set (map lit [''ACKED'', ''IN_PROGRESS'', ''SILENCED'']) then status
        else if fb_replied_at f \<noteq> None then lit ''IN_PROGRESS''
        else lit ''OPEN''))"

definition rank :: "pystr list \<Rightarrow> pystr \<Rightarrow> nat" where
  \<comment> \<open>place in a list, or 3\<close>
  "rank names s = (let n = length (takeWhile (\<lambda>x. x \<noteq> s) names) in if n < length names then n else 3)"

definition feedback_sort_key :: "user_feedback \<Rightarrow> nat \<times> nat \<times> int" where
  \<comment> \<open>the last five components of the source count down with time, to the microsecond\<close>
  "feedback_sort_key f =
     (rank FEEDBACK_STATUSES (derive_feedback_status f),
      rank (map lit [''HIGH'', ''MEDIUM'', ''LOW'']) (priority_of f), - fb_created_at f)"

definition to_feedback_read :: "nat \<Rightarrow> user_feedback \<Rightarrow> feedback_read" where
  "to_feedback_read i f = \<lparr>fbr_id = i, fbr_user = fb_user f, fbr_message = fb_message f,
     fbr_category = category_of f, fbr_priority = priority_of f, fbr_source = source_of f,
     fbr_status = derive_feedback_status f, fbr_is_system = is_system_feedback_item f,
     fbr_reply_message = fb_reply_message f, fbr_replied_at = fb_replied_at f,
     fbr_replied_by = fb_replied_by f, fbr_reply_seen_at = fb_reply_seen_at f,
     fbr_resolved_at = fb_resolved_at f, fbr_closed_by = fb_closed_by f, fbr_created_at = fb_created_at f\<rparr>"

definition to_admin_feedback_read :: "nat \<Rightarrow> user_feedback \<Rightarrow> admin_feedback_read" where
  "to_admin_feedback_read i f = feedback_read.extend (to_feedback_read i f)
     \<lparr>afr_assignee = fb_assignee f, afr_acknowledged_at = fb_acknowledged_at f,
      afr_acknowledged_by = fb_acknowledged_by f, afr_ack_deadline = fb_ack_deadline f,
      afr_internal_note = fb_internal_note f, afr_internal_note_updated_at = fb_internal_note_updated_at f,
      afr_internal_note_updated_by = fb_internal_note_updated_by f, afr_fingerprint = fb_fingerprint f,
      afr_dedupe_window_minutes = fb_dedupe_window_minutes f,
      afr_occurrence_count = max 1 (fb_occurrence_count f), afr_last_seen_at = fb_last_seen_at f\<rparr>"

definition parse_feedback_filter_values :: "pystr option \<Rightarrow> pystr list \<Rightarrow> error + pystr list option" where
  "parse_feedback_filter_values raw allowed = (case raw of None \<Rightarrow> Inr None
     | Some v \<Rightarrow>
         (let parsed_values = map (\<lambda>item. py_upper (py_strip item)) (filter (\<lambda>item. py_strip item \<noteq> []) (py_split 44 v))
          in if parsed_values = [] then Inr None
             else if list_ex (\<lambda>x. x \<notin> set allowed) parsed_values then Inl (HTTPException 400 InvalidFilterValue)
             else Inr (Some parsed_values)))"

definition apply_feedback_status_transition ::
  "datetime \<Rightarrow> pystr \<Rightarrow> pystr \<Rightarrow> user_feedback \<Rightarrow> error + user_feedback" where
  "apply_feedback_status_transition now actor target_status f =
     (if target_status = lit ''SILENCED'' \<and> \<not> is_system_feedback_item f
      then Inl (HTTPException 400 OnlySystemSilenced)
      else if target_status = lit ''RESOLVED''
      then Inr (f\<lparr>fb_resolved_at := Some (case fb_resolved_at f of None \<Rightarrow> now | Some t \<Rightarrow> t),
             fb_closed_by := Some actor, fb_status := lit ''RESOLVED''\<rparr>)
      else (let f1 = (if fb_resolved_at f \<noteq> None then f\<lparr>fb_resolved_at := None, fb_closed_by := None\<rparr> else f);
                f2 = (if target_status = lit ''ACKED''
                  then f1\<lparr>fb_acknowledged_at := Some now, fb_acknowledged_by := Some actor\<rparr>
                  else if target_status = lit ''OPEN''
                  then f1\<lparr>fb_acknowledged_at := None, fb_acknowledged_by := None\<rparr> else f1)
            in Inr (f2\<lparr>fb_status := target_status\<rparr>)))"

definition build_admin_feedback_list ::
  "(nat \<times> user_feedback) list \<Rightarrow> pystr list option \<Rightarrow> pystr list option \<Rightarrow> nat \<Rightarrow> nat \<Rightarrow> feedback_page" where
  "build_admin_feedback_list items status_filter priority_filter page page_size =
     (let by_status = (case status_filter of None \<Rightarrow> items
            | Some vs \<Rightarrow> filter (\<lambda>(i, f). derive_feedback_status f \<in> set vs) items);
          by_priority = (case priority_filter of None \<Rightarrow> by_status
            | Some vs \<Rightarrow> filter (\<lambda>(i, f). priority_of f \<in> set vs) by_status);
          sorted_items = sort_key (\<lambda>(i, f). feedback_sort_key f) by_priority;
          total_items = length sorted_items; offset = (page - 1) * page_size
      in \<lparr>fp_items = map (\<lambda>(i, f). to_admin_feedback_read i f) (take page_size (drop offset sorted_items)),
          fp_total = total_items, fp_page = page, fp_page_size = page_size,
          fp_has_more = (offset + page_size < total_items)\<rparr>)"

section \<open>Handlers for users\<close>

definition MAX_DAILY_FEEDBACK_SUBMISSIONS :: nat where
  "MAX_DAILY_FEEDBACK_SUBMISSIONS = 3"

definition validate_feedback_create ::
  "pystr \<Rightarrow> pystr option \<Rightarrow> pystr option \<Rightarrow> pystr option \<Rightarrow> pystr option \<Rightarrow> int option \<Rightarrow> error + feedback_create" where
  "validate_feedback_create message category priority source fingerprint minutes =
     bindE (normalize_required_text message) (\<lambda>message. bindE (text_field 5 1000 message) (\<lambda>message.
     bindE (optional_choice FEEDBACK_CATEGORIES category) (\<lambda>category.
     bindE (optional_choice FEEDBACK_PRIORITIES priority) (\<lambda>priority.
     bindE (optional_choice FEEDBACK_SOURCES source) (\<lambda>source.
     bindE (optional_text 96 fingerprint) (\<lambda>fingerprint.
     bindE (check (case minutes of None \<Rightarrow> True | Some m \<Rightarrow> 1 \<le> m \<and> m \<le> 10080)) (\<lambda>_.
     Inr \<lparr>fbc_message = message, fbc_category = category, fbc_priority = priority, fbc_source = source,
       fbc_fingerprint = fingerprint, fbc_dedupe_window_minutes = minutes\<rparr>)))))))"

definition optional_user_id :: "pystr option \<Rightarrow> error + pystr option" where
  "optional_user_id v = (case v of None \<Rightarrow> Inr None
     | Some s \<Rightarrow> bindE (normalize_user_id s) (\<lambda>u. bindE (text_field 0 32 u) (\<lambda>u. Inr (Some u))))"

definition validate_feedback_details ::
  "pystr field \<Rightarrow> datetime field \<Rightarrow> pystr field \<Rightarrow> error + feedback_details" where
  "validate_feedback_details assignee ack_deadline internal_note =
     bindE (when_set optional_user_id assignee) (\<lambda>assignee.
     bindE (when_set (optional_text 3000) internal_note) (\<lambda>internal_note.
     Inr \<lparr>fbd_assignee = assignee, fbd_ack_deadline = ack_deadline, fbd_internal_note = internal_note\<rparr>))"

definition validate_feedback_classify ::
  "pystr field \<Rightarrow> pystr field \<Rightarrow> pystr field \<Rightarrow> pystr field \<Rightarrow> pystr field \<Rightarrow> datetime field \<Rightarrow> pystr field
   \<Rightarrow> error + feedback_classify" where
  "validate_feedback_classify category priority source status assignee ack_deadline internal_note =
     bindE (when_set (optional_choice FEEDBACK_CATEGORIES) category) (\<lambda>category.
     bindE (when_set (optional_choice FEEDBACK_PRIORITIES) priority) (\<lambda>priority.
     bindE (when_set (optional_choice FEEDBACK_SOURCES) source) (\<lambda>source.
     bindE (when_set (optional_choice FEEDBACK_STATUSES) status) (\<lambda>status.
     bindE (validate_feedback_details assignee ack_deadline internal_note) (\<lambda>d.
     Inr \<lparr>fbd_assignee = fbd_assignee d, fbd_ack_deadline = ack_deadline,
       fbd_internal_note = fbd_internal_note d, fbl_category = category, fbl_priority = priority,
       fbl_source = source, fbl_status = status\<rparr>)))))"

definition validate_feedback_reply :: "pystr \<Rightarrow> error + pystr" where
  "validate_feedback_reply reply_message =
     bindE (normalize_required_text reply_message) (text_field 1 2000)"

definition validate_inbox_message_hide :: "pystr \<Rightarrow> int \<Rightarrow> error + pystr \<times> nat" where
  "validate_inbox_message_hide message_kind message_id =
     bindE (normalize_required_text message_kind) (\<lambda>kind.
     bindE (check (py_upper kind \<in> set INBOX_MESSAGE_KINDS)) (\<lambda>_.
     bindE (id_field message_id) (\<lambda>i. Inr (py_upper kind, i))))"

record feedback_class =
  fc_category :: pystr
  fc_priority :: pystr
  fc_source :: pystr
  fc_fingerprint :: "pystr option"
  fc_dedupe_window_minutes :: "int option"

definition requested_choice :: "pystr option \<Rightarrow> pystr list \<Rightarrow> pystr \<Rightarrow> pystr option" where
  "requested_choice v allowed fallback =
     (case v of None \<Rightarrow> None | Some s \<Rightarrow> Some (normalize_feedback_choice (Some s) allowed fallback))"

definition classify_submission :: "pystr \<Rightarrow> feedback_create \<Rightarrow> feedback_class" where
  \<comment> \<open>what the submitter may choose: the administrator almost everything, a user nothing\<close>
  "classify_submission user p =
     (if user = lit ''admin''
      then (let requested_source = requested_choice (fbc_source p) FEEDBACK_SOURCES (lit ''USER'');
                category = (case requested_choice (fbc_category p) FEEDBACK_CATEGORIES (lit ''USER_REQUEST'') of
                    Some c \<Rightarrow> c
                  | None \<Rightarrow> if (case requested_source of None \<Rightarrow> False | Some s \<Rightarrow> s \<in> set SYSTEM_SOURCES)
                      then lit ''SYSTEM_TASK'' else lit ''USER_REQUEST'');
                is_system = has_prefix (lit ''SYSTEM_'') category;
                source1 = (case requested_source of Some s \<Rightarrow> s
                  | None \<Rightarrow> if is_system then lit ''SYSTEM'' else lit ''ADMIN'');
                source = (if is_system \<and> source1 = lit ''USER'' then lit ''SYSTEM'' else source1);
                category1 = (if category = lit ''USER_REQUEST'' \<and> source \<in> set SYSTEM_SOURCES
                  then lit ''SYSTEM_TASK'' else category);
                initial_priority = (if category1 = lit ''SYSTEM_ALERT'' then lit ''HIGH''
                  else if category1 = lit ''SYSTEM_HEARTBEAT'' then lit ''LOW'' else lit ''MEDIUM'')
            in \<lparr>fc_category = category1,
                fc_priority = (case requested_choice (fbc_priority p) FEEDBACK_PRIORITIES (lit ''MEDIUM'') of
                    Some v \<Rightarrow> v | None \<Rightarrow> initial_priority),
                fc_source = source,
                fc_fingerprint = normalize_optional_text (fbc_fingerprint p),
                fc_dedupe_window_minutes = fbc_dedupe_window_minutes p\<rparr>)
      else \<lparr>fc_category = lit ''USER_REQUEST'', fc_priority = lit ''MEDIUM'', fc_source = lit ''USER'',
             fc_fingerprint = None, fc_dedupe_window_minutes = None\<rparr>)"

definition submissions_today :: "datetime \<Rightarrow> pystr \<Rightarrow> inbox \<Rightarrow> nat" where
  "submissions_today now user b =
     (let (day_start, day_end) = feedback_day_window now
      in length (tselect (\<lambda>f. fb_user f = user \<and> fb_created_at f \<ge> day_start \<and> fb_created_at f < day_end)
           (ib_feedback b)))"

definition seen_again :: "datetime \<Rightarrow> user_feedback \<Rightarrow> user_feedback" where
  \<comment> \<open>one more occurrence of a system ticket, which reopens it\<close>
  "seen_again now f =
     (let f1 = f\<lparr>fb_occurrence_count := max 1 (fb_occurrence_count f) + 1, fb_last_seen_at := Some now\<rparr>
      in if fb_resolved_at f \<noteq> None \<and> is_system_feedback_item f1
         then f1\<lparr>fb_resolved_at := None, fb_closed_by := None, fb_status := lit ''OPEN''\<rparr> else f1)"

definition duplicate_of :: "datetime \<Rightarrow> pystr \<Rightarrow> feedback_class \<Rightarrow> inbox \<Rightarrow> (nat \<times> user_feedback) option" where
  "duplicate_of now user c b =
     (case (fc_fingerprint c, fc_dedupe_window_minutes c) of
        (Some fingerprint, Some minutes) \<Rightarrow>
          if user = lit ''admin'' \<and> fc_source c \<in> set SYSTEM_SOURCES
          then (case rev (sort_key (\<lambda>(i, f). (fb_created_at f, i)) (tselect (\<lambda>f. fb_user f = user
                   \<and> fb_source f = fc_source c \<and> fb_category f = fc_category c
                   \<and> fb_fingerprint f = Some fingerprint
                   \<and> fb_created_at f \<ge> now - minutes * US_MINUTE) (ib_feedback b))) of
                  [] \<Rightarrow> None | p # ps \<Rightarrow> Some p)
          else None
      | _ \<Rightarrow> None)"

definition new_feedback :: "datetime \<Rightarrow> pystr \<Rightarrow> pystr \<Rightarrow> feedback_class \<Rightarrow> user_feedback" where
  "new_feedback now user message c =
     (let auto_resolve = (fc_category c = lit ''SYSTEM_HEARTBEAT'' \<and> fc_priority c = lit ''LOW''
            \<and> fc_source c \<in> set SYSTEM_SOURCES)
      in \<lparr>fb_user = user, fb_message = message, fb_category = fc_category c, fb_priority = fc_priority c,
          fb_source = fc_source c, fb_status = (if auto_resolve then lit ''RESOLVED'' else lit ''OPEN''),
          fb_reply_message = None, fb_replied_at = None, fb_replied_by = None, fb_reply_seen_at = None,
          fb_resolved_at = (if auto_resolve then Some now else None),
          fb_closed_by = (if auto_resolve then Some (lit ''system-auto'') else None),
          fb_assignee = None, fb_acknowledged_at = None, fb_acknowledged_by = None, fb_ack_deadline = None,
          fb_internal_note = None, fb_internal_note_updated_at = None, fb_internal_note_updated_by = None,
          fb_fingerprint = fc_fingerprint c, fb_dedupe_window_minutes = fc_dedupe_window_minutes c,
          fb_occurrence_count = 1, fb_last_seen_at = Some now, fb_created_at = now\<rparr>)"

definition put_feedback :: "nat \<Rightarrow> user_feedback \<Rightarrow> inbox \<Rightarrow> inbox" where
  "put_feedback i f b = b\<lparr>ib_feedback := tput i f (ib_feedback b)\<rparr>"

definition submit_feedback :: "datetime \<Rightarrow> pystr \<Rightarrow> feedback_create \<Rightarrow> inbox \<Rightarrow> error + feedback_read \<times> inbox" where
  "submit_feedback now user p b =
     (let c = classify_submission user p in
      bindE (if fc_source c = lit ''USER'' \<and> fc_category c = lit ''USER_REQUEST''
          then assertE (\<not> submissions_today now user b \<ge> MAX_DAILY_FEEDBACK_SUBMISSIONS)
            (HTTPException 429 FeedbackLimitReached) else Inr ()) (\<lambda>_.
      case duplicate_of now user c b of
        Some (i, f) \<Rightarrow> Inr (to_feedback_read i (seen_again now f), put_feedback i (seen_again now f) b)
      | None \<Rightarrow> (let f = new_feedback now user (fbc_message p) c; (i, t) = tinsert f (ib_feedback b)
          in Inr (to_feedback_read i f, b\<lparr>ib_feedback := t\<rparr>))))"

definition hidden_feedback_ids :: "pystr \<Rightarrow> inbox \<Rightarrow> nat list" where
  "hidden_feedback_ids user b = load_hidden_message_ids (rs_hidden (ib_release b)) user (lit ''FEEDBACK'')"

definition list_feedback_for_current_user :: "pystr \<Rightarrow> inbox \<Rightarrow> feedback_read list" where
  "list_feedback_for_current_user user b =
     map (\<lambda>(i, f). to_feedback_read i f)
       (filter (\<lambda>(i, f). i \<notin> set (hidden_feedback_ids user b))
         (sort_key (\<lambda>(i, f). - fb_created_at f) (tselect (\<lambda>f. fb_user f = user) (ib_feedback b))))"

definition mark_feedback_seen_for_current_user :: "datetime \<Rightarrow> pystr \<Rightarrow> inbox \<Rightarrow> bool \<times> inbox" where
  "mark_feedback_seen_for_current_user now user b =
     (let feedback_items = filter (\<lambda>(i, f). i \<notin> set (hidden_feedback_ids user b))
            (tselect (\<lambda>f. fb_user f = user \<and> fb_replied_at f \<noteq> None \<and> fb_reply_seen_at f = None) (ib_feedback b))
      in (feedback_items \<noteq> [], b\<lparr>ib_feedback :=
            fold (\<lambda>(i, f). tput i (f\<lparr>fb_reply_seen_at := Some now\<rparr>)) feedback_items (ib_feedback b)\<rparr>))"

definition get_feedback_summary :: "datetime \<Rightarrow> pystr \<Rightarrow> inbox \<Rightarrow> (nat \<times> pystr) \<times> inbox" where
  \<comment> \<open>the number of unread messages, with the mode\<close>
  "get_feedback_summary now user b =
     (let b1 = b\<lparr>ib_release := ensure_release_note_deliveries_for_user now user (ib_release b)\<rparr>;
          hidden_deliveries = load_hidden_message_ids (rs_hidden (ib_release b1)) user (lit ''RELEASE_NOTE'');
          counted = (\<lambda>P. length (filter (\<lambda>(i, f). i \<notin> set (hidden_feedback_ids user b)) (tselect P (ib_feedback b))));
          release_note_unread_count = (if list_ex (\<lambda>(k, d). k \<notin> set hidden_deliveries)
            (tselect (\<lambda>d. rd_user d = user \<and> rd_seen_at d = None) (rs_deliveries (ib_release b1))) then 1 else 0)
      in (if user = lit ''admin''
          then (counted (\<lambda>f. fb_resolved_at f = None) + release_note_unread_count, lit ''admin-open'')
          else (counted (\<lambda>f. fb_user f = user \<and> fb_replied_at f \<noteq> None \<and> fb_reply_seen_at f = None)
            + release_note_unread_count, lit ''user-unread''), b1))"

definition hide_inbox_message_for_current_user ::
  "datetime \<Rightarrow> pystr \<Rightarrow> pystr \<Rightarrow> nat \<Rightarrow> inbox \<Rightarrow> error + inbox" where
  "hide_inbox_message_for_current_user now user kind i b =
     bindE (if kind = lit ''FEEDBACK''
         then (case tget (ib_feedback b) i of
             None \<Rightarrow> Inl (HTTPException 404 MessageNotFound)
           | Some f \<Rightarrow> if user \<noteq> lit ''admin'' \<and> fb_user f \<noteq> user then Inl (HTTPException 403 MessageForbidden)
               else Inr ())
         else if kind = lit ''RELEASE_NOTE''
         then (case tget (rs_deliveries (ib_release b)) i of
             None \<Rightarrow> Inl (HTTPException 404 MessageNotFound)
           | Some d \<Rightarrow> if rd_user d \<noteq> user then Inl (HTTPException 403 MessageForbidden) else Inr ())
         else Inl (HTTPException 400 InvalidMessageKind)) (\<lambda>_.
     let hidden = rs_hidden (ib_release b) in
     if tselect (\<lambda>v. mv_user v = user \<and> mv_message_kind v = kind \<and> mv_message_id v = i) hidden \<noteq> [] then Inr b
     else Inr (b\<lparr>ib_release := (ib_release b)\<lparr>rs_hidden := snd (tinsert \<lparr>mv_user = user, mv_message_kind = kind,
            mv_message_id = i, mv_hidden_at = now\<rparr> hidden)\<rparr>\<rparr>))"

section \<open>Handlers for the administrator\<close>

definition list_feedback_for_admin :: "pystr \<Rightarrow> inbox \<Rightarrow> error + feedback_read list" where
  "list_feedback_for_admin user b =
     bindE (require_admin user) (\<lambda>_.
     Inr (map (\<lambda>(i, f). to_feedback_read i f)
       (sort_key (\<lambda>(i, f). feedback_sort_key f) (rows (ib_feedback b)))))"

definition list_for_admin ::
  "(user_feedback \<Rightarrow> bool) \<Rightarrow> pystr \<Rightarrow> nat \<Rightarrow> nat \<Rightarrow> pystr option \<Rightarrow> pystr option \<Rightarrow> bool \<Rightarrow> inbox \<Rightarrow> error + feedback_page" where
  "list_for_admin P user page page_size status priority include_hidden b =
     bindE (require_admin user) (\<lambda>_.
     bindE (parse_feedback_filter_values status FEEDBACK_STATUSES) (\<lambda>status_filter.
     bindE (parse_feedback_filter_values priority FEEDBACK_PRIORITIES) (\<lambda>priority_filter.
     let hidden = (if include_hidden then [] else hidden_feedback_ids user b)
     in Inr (build_admin_feedback_list (filter (\<lambda>(i, f). i \<notin> set hidden) (tselect P (ib_feedback b)))
          status_filter priority_filter page page_size))))"

definition list_user_feedback_for_admin where
  "list_user_feedback_for_admin = list_for_admin (\<lambda>f. \<not> is_system_feedback_item f)"

definition list_system_feedback_for_admin where
  "list_system_feedback_for_admin = list_for_admin is_system_feedback_item"

definition with_feedback ::
  "pystr \<Rightarrow> nat \<Rightarrow> (user_feedback \<Rightarrow> error + user_feedback) \<Rightarrow> inbox \<Rightarrow> error + admin_feedback_read \<times> inbox" where
  \<comment> \<open>the frame of the handlers that change one ticket\<close>
  "with_feedback user i change b =
     bindE (require_admin user) (\<lambda>_.
     case tget (ib_feedback b) i of
       None \<Rightarrow> Inl (HTTPException 404 FeedbackNotFound)
     | Some f \<Rightarrow> bindE (change f) (\<lambda>f1. Inr (to_admin_feedback_read i f1, put_feedback i f1 b)))"

definition reply_to_feedback_for_admin ::
  "datetime \<Rightarrow> pystr \<Rightarrow> nat \<Rightarrow> pystr \<Rightarrow> bool \<Rightarrow> inbox \<Rightarrow> error + admin_feedback_read \<times> inbox" where
  "reply_to_feedback_for_admin now user i reply_message close b =
     with_feedback user i (\<lambda>f.
       if is_system_feedback_item f then Inl (HTTPException 400 SystemFeedbackNoReply)
       else (let f1 = f\<lparr>fb_reply_message := Some reply_message, fb_replied_at := Some now,
               fb_replied_by := Some user, fb_reply_seen_at := None\<rparr>
         in Inr (if close \<and> fb_resolved_at f = None
              then f1\<lparr>fb_resolved_at := Some now, fb_closed_by := Some user, fb_status := lit ''RESOLVED''\<rparr>
              else f1\<lparr>fb_status := lit ''IN_PROGRESS''\<rparr>))) b"

definition close_feedback_for_admin ::
  "datetime \<Rightarrow> pystr \<Rightarrow> nat \<Rightarrow> inbox \<Rightarrow> error + admin_feedback_read \<times> inbox" where
  "close_feedback_for_admin now user i b =
     with_feedback user i (\<lambda>f. Inr (if fb_resolved_at f = None
         then f\<lparr>fb_resolved_at := Some now, fb_closed_by := Some user, fb_status := lit ''RESOLVED''\<rparr> else f)) b"

definition set_details :: "datetime \<Rightarrow> pystr \<Rightarrow> 'a feedback_details_scheme \<Rightarrow> user_feedback \<Rightarrow> user_feedback" where
  "set_details now user p f =
     (let f1 = (case fbd_assignee p of None \<Rightarrow> f | Some v \<Rightarrow> f\<lparr>fb_assignee := v\<rparr>);
          f2 = (case fbd_ack_deadline p of None \<Rightarrow> f1 | Some v \<Rightarrow> f1\<lparr>fb_ack_deadline := v\<rparr>)
      in case fbd_internal_note p of None \<Rightarrow> f2
         | Some v \<Rightarrow> f2\<lparr>fb_internal_note := v, fb_internal_note_updated_at := Some now,
             fb_internal_note_updated_by := Some user\<rparr>)"

definition acknowledge_feedback_for_admin ::
  "datetime \<Rightarrow> pystr \<Rightarrow> nat \<Rightarrow> feedback_details \<Rightarrow> inbox \<Rightarrow> error + admin_feedback_read \<times> inbox" where
  "acknowledge_feedback_for_admin now user i p b =
     with_feedback user i (\<lambda>f.
       if fb_resolved_at f \<noteq> None then Inl (HTTPException 400 ResolvedFeedback)
       else Inr (set_details now user p (f\<lparr>fb_status := lit ''ACKED'', fb_acknowledged_at := Some now,
              fb_acknowledged_by := Some user\<rparr>))) b"

definition classify_feedback_for_admin ::
  "datetime \<Rightarrow> pystr \<Rightarrow> nat \<Rightarrow> feedback_classify \<Rightarrow> inbox \<Rightarrow> error + admin_feedback_read \<times> inbox" where
  "classify_feedback_for_admin now user i p b =
     with_feedback user i (\<lambda>f.
       let f1 = (case field_value (fbl_category p) of None \<Rightarrow> f | Some v \<Rightarrow> f\<lparr>fb_category := v\<rparr>);
           f2 = (case field_value (fbl_priority p) of None \<Rightarrow> f1 | Some v \<Rightarrow> f1\<lparr>fb_priority := v\<rparr>);
           f3 = (case field_value (fbl_source p) of None \<Rightarrow> f2 | Some v \<Rightarrow> f2\<lparr>fb_source := v\<rparr>)
       in bindE (case fbl_status p of None \<Rightarrow> Inr f3
            | Some v \<Rightarrow> apply_feedback_status_transition now user
                (case v of None \<Rightarrow> lit ''OPEN'' | Some s \<Rightarrow> if s = [] then lit ''OPEN'' else s) f3) (\<lambda>f4.
          Inr (set_details now user p f4))) b"

end
