(* ===== verification/Request_Properties.thy ===== *)
theory Request_Properties
  imports Validators
begin

text \<open>
  Properties of the request validators: what a service may assume about a payload, and that the
  validators accept every such payload and leave it as it is.
\<close>

section \<open>Choices are their own normal form\<close>

lemma listed_choices:
  "list_all (\<lambda>s. py_upper (py_strip s) = s) SUPPORTED_CURRENCIES"
  "list_all (\<lambda>s. py_upper (py_strip s) = s) SECURITY_MARKETS"
  "list_all (\<lambda>(s, x). py_upper (py_strip s) = s) HOLDING_TRANSACTION_SIDES"
  "list_all (\<lambda>(s, x). py_upper (py_strip s) = s) SELL_PROCEEDS_HANDLINGS"
  "list_all (\<lambda>(s, x). py_upper (py_strip s) = s) BUY_FUNDING_HANDLINGS"
  by (simp_all add: SUPPORTED_CURRENCIES_def SECURITY_MARKETS_def HOLDING_TRANSACTION_SIDES_def
      SELL_PROCEEDS_HANDLINGS_def BUY_FUNDING_HANDLINGS_def lit_def py_upper_def py_strip_def
      py_lstrip_def py_rstrip_def py_isspace_def upper_char_def)

lemma normalize_choice_id:
  "list_all (\<lambda>s. py_upper (py_strip s) = s) allowed \<Longrightarrow> s \<in> set allowed \<Longrightarrow> normalize_choice allowed s = Inr s"
  by (simp add: normalize_choice_def list_all_iff)

definition name_of :: "(pystr \<times> 'a) list \<Rightarrow> 'a \<Rightarrow> pystr" where
  "name_of allowed x = fst (hd (filter (\<lambda>(s, y). y = x) allowed))"

lemma normalize_enum_name:
  assumes "list_all (\<lambda>(s, x). py_upper (py_strip s) = s) allowed" "distinct (map fst allowed)"
    "x \<in> snd ` set allowed"
  shows "normalize_enum allowed (name_of allowed x) = Inr x"
proof -
  from assms(3) have "filter (\<lambda>(s, y). y = x) allowed \<noteq> []" by (auto simp: filter_empty_conv)
  then have "hd (filter (\<lambda>(s, y). y = x) allowed) \<in> {p \<in> set allowed. snd p = x}"
    using hd_in_set [of "filter (\<lambda>(s, y). y = x) allowed"] by auto
  then have m: "(name_of allowed x, x) \<in> set allowed"
    by (cases "hd (filter (\<lambda>(s, y). y = x) allowed)") (simp add: name_of_def)
  with assms(1) have "py_upper (py_strip (name_of allowed x)) = name_of allowed x"
    by (auto simp: list_all_iff)
  with m assms(2) show ?thesis by (simp add: normalize_enum_def)
qed

lemma normalize_enum_ok [field_ok]: "normalize_enum allowed v = Inr x \<Longrightarrow> x \<in> snd ` set allowed"
  by (auto simp: normalize_enum_def split: option.splits dest!: map_of_SomeD) force

lemma optional_enum_ok [field_ok]:
  "optional_enum allowed v = Inr (Some x) \<Longrightarrow> x \<in> snd ` set allowed"
  by (auto simp: optional_enum_def bindE_eq_Inr split: option.splits dest: normalize_enum_ok)

lemma optional_id_ok [field_ok]: "optional_id v = Inr (Some n) \<Longrightarrow> 0 < n"
  by (auto simp: optional_id_def bindE_eq_Inr split: option.splits dest: id_field_ok)

section \<open>Numbers\<close>

lemma is_integral_decimal_iff:
  assumes "\<bar>n\<bar> < 10 ^ PREC"
  shows "is_integral_decimal (Some (of_fixed n)) = Inr (10 ^ 8 dvd n)"
proof -
  have b: "2 * \<bar>half_up_div n (10 ^ 8) * 10 ^ 8 - n\<bar> \<le> 10 ^ 8" by (rule half_up_div_bounds) simp
  then have "\<bar>half_up_div n (10 ^ 8)\<bar> < 10 ^ PREC" using assms by simp
  then have q: "dec_quantize 0 (of_fixed n) = Inr (half_up_div n (10 ^ 8))"
    using ndigits_le_prec [of "half_up_div n (10 ^ 8)"] by (simp add: dec_quantize_def of_fixed_def)
  have "n = half_up_div n (10 ^ 8) * 10 ^ 8 \<longleftrightarrow> 10 ^ 8 dvd n"
    using half_up_div_exact [of "10 ^ 8"] by (metis dvd_def dvd_triv_right mult.commute zero_less_numeral zero_less_power)
  then show ?thesis using assms
    by (simp add: is_integral_decimal_def to_decimal_def quantize_decimal_fixed q)
      (simp add: dec_eq_def of_fixed_def scale_to_def)
qed

lemma positive_decimal_range [field_ok]: "normalize_positive_decimal v = Inr n \<Longrightarrow> \<bar>n\<bar> < 10 ^ PREC"
  by (auto simp: normalize_positive_decimal_def bindE_eq_Inr dest!: quantize_decimal_Inr split: if_splits)

lemma optional_positive_decimal_range [field_ok]:
  "normalize_optional_positive_decimal v = Inr (Some n) \<Longrightarrow> \<bar>n\<bar> < 10 ^ PREC"
  by (auto simp: normalize_optional_positive_decimal_def quantize_optional_decimal_def bindE_eq_Inr
      dest!: quantize_decimal_Inr split: if_splits option.splits)

section \<open>Trades\<close>

definition positive_amount :: "fixed \<Rightarrow> bool" where
  "positive_amount n \<longleftrightarrow> EPSILON < n \<and> n < 10 ^ PREC"

definition short_text :: "nat \<Rightarrow> pystr option \<Rightarrow> bool" where
  \<comment> \<open>absent, or a stripped text that is not empty\<close>
  "short_text hi v = (case v of None \<Rightarrow> True | Some s \<Rightarrow> s \<noteq> [] \<and> length s \<le> hi \<and> py_strip s = s)"

definition cash_options_ok :: "transaction_create \<Rightarrow> bool" where
  \<comment> \<open>a purchase names an account exactly if it deducts from it, any other trade exactly if the
    proceeds are added to it\<close>
  "cash_options_ok p =
     (if txc_side p = BUY
      then txc_sell_handling p = None \<and> txc_sell_account p = None
        \<and> (txc_buy_handling p \<noteq> None \<longrightarrow> txc_buy_account p \<noteq> None)
      else txc_buy_handling p = None \<and> txc_buy_account p = None
        \<and> (txc_sell_account p \<noteq> None \<longleftrightarrow> txc_sell_handling p = Some ADD_TO_EXISTING_CASH))"

definition trade_ok :: "transaction_create \<Rightarrow> bool" where
  "trade_ok p \<longleftrightarrow>
     1 \<le> length (txc_symbol p) \<and> length (txc_symbol p) \<le> 32
     \<and> 1 \<le> length (txc_name p) \<and> length (txc_name p) \<le> 120
     \<and> positive_amount (txc_quantity p) \<and> (\<forall>c. txc_price p = Some c \<longrightarrow> positive_amount c)
     \<and> txc_fallback_currency p \<in> set SUPPORTED_CURRENCIES \<and> txc_market p \<in> set SECURITY_MARKETS
     \<and> (txc_market p \<in> {lit ''FUND'', lit ''CRYPTO''} \<or> 10 ^ 8 dvd txc_quantity p)
     \<and> short_text 120 (txc_broker p) \<and> short_text 500 (txc_note p)
     \<and> txc_sell_account p \<noteq> Some 0 \<and> txc_buy_account p \<noteq> Some 0
     \<and> (\<forall>h. txc_sell_handling p = Some h \<longrightarrow> h \<noteq> DEDUCT_FROM_EXISTING_CASH)
     \<and> (\<forall>h. txc_buy_handling p = Some h \<longrightarrow> h = DEDUCT_FROM_EXISTING_CASH)
     \<and> cash_options_ok p"

definition raw_of :: "transaction_create \<Rightarrow> raw_transaction" where
  \<comment> \<open>the payload, written as a request\<close>
  "raw_of p = \<lparr>raw_side = Some (name_of HOLDING_TRANSACTION_SIDES (txc_side p)), raw_symbol = txc_symbol p,
     raw_name = txc_name p, raw_quantity = Some (of_fixed (txc_quantity p)),
     raw_price = map_option of_fixed (txc_price p), raw_currency = Some (txc_fallback_currency p),
     raw_market = Some (txc_market p), raw_broker = txc_broker p, raw_traded_on = txc_traded_on p,
     raw_note = txc_note p,
     raw_sell_handling = map_option (name_of SELL_PROCEEDS_HANDLINGS) (txc_sell_handling p),
     raw_sell_account = map_option int (txc_sell_account p),
     raw_buy_handling = map_option (name_of BUY_FUNDING_HANDLINGS) (txc_buy_handling p),
     raw_buy_account = map_option int (txc_buy_account p)\<rparr>"

lemma check_cash_options_iff:
  assumes "\<And>h. txc_buy_handling p = Some h \<Longrightarrow> h = DEDUCT_FROM_EXISTING_CASH"
    and "\<And>h. txc_sell_handling p = Some h \<Longrightarrow> h \<noteq> DEDUCT_FROM_EXISTING_CASH"
  shows "check_cash_options p = Inr () \<longleftrightarrow> cash_options_ok p"
  using assms
  by (cases "txc_sell_handling p"; cases "txc_buy_handling p")
    (auto simp: check_cash_options_def cash_options_ok_def bindE_eq_Inr Let_def or_else_def)

lemma quantity_fits_market_iff:
  "\<bar>n\<bar> < 10 ^ PREC \<Longrightarrow> quantity_fits_market m n = Inr () \<longleftrightarrow> m \<in> {lit ''FUND'', lit ''CRYPTO''} \<or> 10 ^ 8 dvd n"
  by (simp add: quantity_fits_market_def is_integral_decimal_iff)

lemma short_text_field: "optional_text hi v = Inr s \<Longrightarrow> short_text hi s"
  by (auto simp: short_text_def split: option.split dest: optional_text_ok)

lemma optional_text_id: "short_text hi v \<Longrightarrow> optional_text hi v = Inr v"
  by (auto simp: short_text_def optional_text_def normalize_optional_text_def Let_def split: option.splits)

lemma optional_positive_id:
  "(\<forall>c. v = Some c \<longrightarrow> positive_amount c) \<Longrightarrow> normalize_optional_positive_decimal (map_option of_fixed v) = Inr v"
  by (cases v) (auto simp: normalize_optional_positive_decimal_def quantize_optional_decimal_def
      quantize_decimal_fixed positive_amount_def)

lemma positive_id: "positive_amount n \<Longrightarrow> normalize_positive_decimal (Some (of_fixed n)) = Inr n"
  by (simp add: normalize_positive_decimal_def to_decimal_def quantize_decimal_fixed positive_amount_def)

lemma positive_amountI: "normalize_positive_decimal v = Inr n \<Longrightarrow> positive_amount n"
  using positive_decimal_ok [of v n] positive_decimal_range [of v n] by (simp add: positive_amount_def)

lemma optional_positive_amountI: "normalize_optional_positive_decimal v = Inr (Some n) \<Longrightarrow> positive_amount n"
  using optional_positive_decimal_ok [of v n] optional_positive_decimal_range [of v n]
  by (simp add: positive_amount_def)

lemma optional_id_id: "v \<noteq> Some 0 \<Longrightarrow> optional_id (map_option int v) = Inr v"
  by (cases v) (auto simp: optional_id_def id_field_def)

lemma optional_enum_name:
  assumes "list_all (\<lambda>(s, x). py_upper (py_strip s) = s) allowed" "distinct (map fst allowed)"
    "\<forall>x. v = Some x \<longrightarrow> x \<in> snd ` set allowed"
  shows "optional_enum allowed (map_option (name_of allowed) v) = Inr v"
  using assms by (cases v) (simp_all add: optional_enum_def normalize_enum_name)

lemma trade_fields:
  assumes "validate_transaction_create r = Inr p"
  shows "trade_ok p"
proof -
  from assms have q: "quantity_fits_market (txc_market p) (txc_quantity p) = Inr ()"
    and c: "check_cash_options p = Inr ()"
    and n: "normalize_positive_decimal (raw_quantity r) = Inr (txc_quantity p)"
    and t: "text_field 1 32 (raw_symbol r) = Inr (txc_symbol p)" "text_field 1 120 (raw_name r) = Inr (txc_name p)"
    and v: "normalize_optional_positive_decimal (raw_price r) = Inr (txc_price p)"
    and f: "choice_field SUPPORTED_CURRENCIES (lit ''CNY'') (raw_currency r) = Inr (txc_fallback_currency p)"
      "choice_field SECURITY_MARKETS (lit ''OTHER'') (raw_market r) = Inr (txc_market p)"
    and x: "optional_text 120 (raw_broker r) = Inr (txc_broker p)" "optional_text 500 (raw_note r) = Inr (txc_note p)"
    and e: "optional_enum SELL_PROCEEDS_HANDLINGS (raw_sell_handling r) = Inr (txc_sell_handling p)"
      "optional_enum BUY_FUNDING_HANDLINGS (raw_buy_handling r) = Inr (txc_buy_handling p)"
    and i: "optional_id (raw_sell_account r) = Inr (txc_sell_account p)"
      "optional_id (raw_buy_account r) = Inr (txc_buy_account p)"
    by (auto simp: validate_transaction_create_def bindE_eq_Inr Let_def)
  have h: "txc_sell_handling p = Some h \<Longrightarrow> h \<noteq> DEDUCT_FROM_EXISTING_CASH"
    "txc_buy_handling p = Some h \<Longrightarrow> h = DEDUCT_FROM_EXISTING_CASH" for h
    using e optional_enum_ok [of SELL_PROCEEDS_HANDLINGS _ h] optional_enum_ok [of BUY_FUNDING_HANDLINGS _ h]
    by (auto simp: SELL_PROCEEDS_HANDLINGS_def BUY_FUNDING_HANDLINGS_def)
  have "txc_fallback_currency p \<in> set SUPPORTED_CURRENCIES" "txc_market p \<in> set SECURITY_MARKETS"
    using choice_field_ok [OF f(1)] choice_field_ok [OF f(2)]
    by (auto simp: SUPPORTED_CURRENCIES_def SECURITY_MARKETS_def)
  moreover have "cash_options_ok p" using c h by (simp add: check_cash_options_iff)
  moreover have "txc_market p \<in> {lit ''FUND'', lit ''CRYPTO''} \<or> 10 ^ 8 dvd txc_quantity p"
    using q positive_decimal_range [OF n] by (simp only: quantity_fits_market_iff)
  ultimately show ?thesis
    using positive_amountI [OF n] text_field_ok [OF t(1)] text_field_ok [OF t(2)] v
      short_text_field [OF x(1)] short_text_field [OF x(2)] h i
    by (auto simp: trade_ok_def dest: optional_positive_amountI optional_id_ok)
qed

lemma trade_accepted:
  assumes "trade_ok p"
  shows "validate_transaction_create (raw_of p) = Inr p"
proof -
  have d: "distinct (map fst HOLDING_TRANSACTION_SIDES)" "distinct (map fst SELL_PROCEEDS_HANDLINGS)"
    "distinct (map fst BUY_FUNDING_HANDLINGS)"
    by (simp_all add: HOLDING_TRANSACTION_SIDES_def SELL_PROCEEDS_HANDLINGS_def BUY_FUNDING_HANDLINGS_def lit_def)
  have s: "normalize_enum HOLDING_TRANSACTION_SIDES (name_of HOLDING_TRANSACTION_SIDES (txc_side p)) = Inr (txc_side p)"
    by (rule normalize_enum_name [OF listed_choices(3) d(1)])
      (cases "txc_side p"; simp add: HOLDING_TRANSACTION_SIDES_def)
  have e: "optional_enum SELL_PROCEEDS_HANDLINGS (map_option (name_of SELL_PROCEEDS_HANDLINGS) (txc_sell_handling p))
      = Inr (txc_sell_handling p)"
    by (rule optional_enum_name [OF listed_choices(4) d(2)])
      (use assms in \<open>auto simp: trade_ok_def SELL_PROCEEDS_HANDLINGS_def intro: handling.exhaust\<close>)
  have b: "optional_enum BUY_FUNDING_HANDLINGS (map_option (name_of BUY_FUNDING_HANDLINGS) (txc_buy_handling p))
      = Inr (txc_buy_handling p)"
    by (rule optional_enum_name [OF listed_choices(5) d(3)])
      (use assms in \<open>auto simp: trade_ok_def BUY_FUNDING_HANDLINGS_def\<close>)
  have c: "check_cash_options p = Inr ()" using assms by (subst check_cash_options_iff) (auto simp: trade_ok_def)
  have q: "quantity_fits_market (txc_market p) (txc_quantity p) = Inr ()"
    using assms by (subst quantity_fits_market_iff) (auto simp: trade_ok_def positive_amount_def)
  have p: "\<lparr>txc_side = txc_side p, txc_symbol = txc_symbol p, txc_name = txc_name p,
      txc_quantity = txc_quantity p, txc_price = txc_price p, txc_fallback_currency = txc_fallback_currency p,
      txc_market = txc_market p, txc_broker = txc_broker p, txc_traded_on = txc_traded_on p,
      txc_note = txc_note p, txc_sell_handling = txc_sell_handling p, txc_sell_account = txc_sell_account p,
      txc_buy_handling = txc_buy_handling p, txc_buy_account = txc_buy_account p\<rparr> = p" by simp
  show ?thesis
    using assms c q
    by (simp add: p validate_transaction_create_def raw_of_def s e b trade_ok_def choice_field_def
        normalize_choice_id listed_choices optional_text_id optional_positive_id positive_id optional_id_id
        text_field_def Let_def)
qed

text \<open>
  C16: a trade that passes the request's validation has a positive quantity and price within 28
  digits, whole units unless it is a fund or a crypto currency, a known market and currency, texts
  within their bounds, and names a cash account exactly when its handling of the cash needs one;
  conversely, a payload with these properties, written as a request, is accepted unchanged.
\<close>

theorem validated_trade_is_well_formed:
  "((\<exists>r. validate_transaction_create r = Inr p) \<longleftrightarrow> trade_ok p)
   \<and> (validate_transaction_create (raw_of p) = Inr p \<longleftrightarrow> trade_ok p)"
  using trade_fields trade_accepted by blast

end
