(* ===== verification/Auth_Properties.thy ===== *)
theory Auth_Properties
  imports Auth
begin

text \<open>
  Properties of passwords, API keys and the authentication of a request.
\<close>

section \<open>Passwords\<close>

definition scrypt_ok :: "crypto \<Rightarrow> bool" where
  \<comment> \<open>\<open>hashlib.scrypt\<close> returns as many bytes as it is asked for\<close>
  "scrypt_ok cr \<longleftrightarrow> (\<forall>pw salt n r p len key. cr_scrypt cr pw salt n r p len = Some key
     \<longrightarrow> length key = len \<and> (\<forall>b \<in> set key. b < 256))"

lemma split_digest:
  assumes "36 \<notin> set a" "36 \<notin> set b" "36 \<notin> set c" "36 \<notin> set d" "36 \<notin> set e"
  shows "py_split_max 36 5 (a @ lit ''$'' @ b @ lit ''$'' @ c @ lit ''$'' @ d @ lit ''$'' @ e @ lit ''$'' @ f)
    = [a, b, c, d, e, f]"
  using assms by (simp add: lit_def py_split_max_cons eval_nat_numeral del: py_split_max.simps(2))

lemma parameters_text:
  "36 \<notin> set PASSWORD_SCHEME" "36 \<notin> set (show_int SCRYPT_N)" "36 \<notin> set (show_int SCRYPT_R)"
  "36 \<notin> set (show_int SCRYPT_P)" "py_int (show_int SCRYPT_N) = Some SCRYPT_N"
  "py_int (show_int SCRYPT_R) = Some SCRYPT_R" "py_int (show_int SCRYPT_P) = Some SCRYPT_P"
  by (simp_all add: PASSWORD_SCHEME_def SCRYPT_N_def SCRYPT_R_def SCRYPT_P_def lit_def show_int_def show_nat.simps
      py_int_def py_strip_def py_lstrip_def py_rstrip_def py_isspace_def unsigned_value_def py_isdigit_def)

text \<open>
  C30: a digest that was made from a password accepts a password exactly if its length is admitted
  and scrypt derives the same key from it under the stored salt; in particular it accepts the
  password itself.
\<close>

theorem password_round_trip:
  assumes "scrypt_ok cr" "\<forall>b \<in> set salt. b < 256" "hash_password cr salt password = Inr digest"
  shows "verify_password cr password digest
    \<and> (verify_password cr other digest \<longleftrightarrow>
        PASSWORD_MIN_LENGTH \<le> length other \<and> length other \<le> PASSWORD_MAX_LENGTH
        \<and> cr_scrypt cr other salt SCRYPT_N SCRYPT_R SCRYPT_P SCRYPT_DKLEN
          = cr_scrypt cr password salt SCRYPT_N SCRYPT_R SCRYPT_P SCRYPT_DKLEN)"
proof -
  from assms(3) obtain key where
      p: "PASSWORD_MIN_LENGTH \<le> length password \<and> length password \<le> PASSWORD_MAX_LENGTH"
    and k: "cr_scrypt cr password salt SCRYPT_N SCRYPT_R SCRYPT_P SCRYPT_DKLEN = Some key"
    and d: "digest = PASSWORD_SCHEME @ lit ''$'' @ show_int SCRYPT_N @ lit ''$'' @ show_int SCRYPT_R
         @ lit ''$'' @ show_int SCRYPT_P @ lit ''$'' @ bytes_hex salt @ lit ''$'' @ bytes_hex key"
    by (auto simp: hash_password_def validate_password_strength_def bindE_eq_Inr split: if_splits option.splits)
  have key: "length key = SCRYPT_DKLEN" "\<forall>b \<in> set key. b < 256"
    using assms(1) k unfolding scrypt_ok_def by blast+
  have split: "py_split_max 36 5 digest = [PASSWORD_SCHEME, show_int SCRYPT_N, show_int SCRYPT_R,
      show_int SCRYPT_P, bytes_hex salt, bytes_hex key]"
    unfolding d by (rule split_digest) (simp_all add: parameters_text bytes_hex_dollar assms(2))
  have v: "verify_password cr x digest \<longleftrightarrow> PASSWORD_MIN_LENGTH \<le> length x \<and> length x \<le> PASSWORD_MAX_LENGTH
      \<and> cr_scrypt cr x salt SCRYPT_N SCRYPT_R SCRYPT_P SCRYPT_DKLEN = Some key" for x
  proof (cases "cr_scrypt cr x salt SCRYPT_N SCRYPT_R SCRYPT_P SCRYPT_DKLEN")
    case None
    then show ?thesis
      by (simp add: verify_password_def split parameters_text bytes_fromhex_hex assms(2) key
          validate_password_strength_def)
  next
    case (Some other_key)
    then have "\<forall>b \<in> set other_key. b < 256" using assms(1) unfolding scrypt_ok_def by blast
    with Some show ?thesis
      by (simp add: verify_password_def split parameters_text bytes_fromhex_hex assms(2) key
          validate_password_strength_def bytes_hex_inj) auto
  qed
  show ?thesis unfolding v k using p by simp
qed

definition toy_crypto :: crypto where
  \<comment> \<open>a function of the right shape; it does not hide anything\<close>
  "toy_crypto = \<lparr>cr_email_hmac = (\<lambda>s. s), cr_sha256 = (\<lambda>s. s),
     cr_scrypt = (\<lambda>pw salt n r p len. Some (take len (map (\<lambda>c. c mod 256) pw @ replicate len 0)))\<rparr>"

lemma scrypt_ok_toy: "scrypt_ok toy_crypto"
  by (auto simp: scrypt_ok_def toy_crypto_def dest!: in_set_takeD)

theorem password_round_trip_witness:
  "\<exists>digest. hash_password toy_crypto [7, 255] (lit ''correct horse'') = Inr digest
     \<and> verify_password toy_crypto (lit ''correct horse'') digest
     \<and> \<not> verify_password toy_crypto (lit ''battery staple'') digest"
proof -
  define digest where "digest = PASSWORD_SCHEME @ lit ''$'' @ show_int SCRYPT_N @ lit ''$'' @ show_int SCRYPT_R
    @ lit ''$'' @ show_int SCRYPT_P @ lit ''$'' @ bytes_hex [7, 255] @ lit ''$''
    @ bytes_hex (take 64 (map (\<lambda>c. c mod 256) (lit ''correct horse'') @ replicate 64 0))"
  have h: "hash_password toy_crypto [7, 255] (lit ''correct horse'') = Inr digest"
    by (simp add: hash_password_def toy_crypto_def validate_password_strength_def PASSWORD_MIN_LENGTH_def
        PASSWORD_MAX_LENGTH_def SCRYPT_DKLEN_def digest_def lit_def)
  have "hd (take 64 (map (\<lambda>c. c mod 256) (lit ''correct horse'') @ replicate 64 0))
      \<noteq> hd (take 64 (map (\<lambda>c. c mod 256) (lit ''battery staple'') @ replicate 64 (0::nat)))"
    by (simp add: lit_def)
  then show ?thesis
    using h password_round_trip [OF scrypt_ok_toy _ h, of "lit ''battery staple''"]
    by (auto simp: toy_crypto_def SCRYPT_DKLEN_def)
qed

section \<open>Authentication of a request\<close>

lemma get_user_found:
  "get_user a v = Inr (Some (u, row)) \<longleftrightarrow> normalize_user_id v = Inr u \<and> map_of (as_users a) u = Some row"
  by (auto simp: get_user_def bindE_eq_Inr)

lemma redis_incr_expire:
  assumes "redis_incr now k d = (n, d1)"
  shows "redis_get now (if n = 1 then redis_expire now k (2 * US_SECOND) d1 else d1) k = Some n"
proof -
  from assms obtain e where "map_of d1 k = Some (n, e)" "lives now e"
    by (auto simp: redis_incr_def update_conv' lives_def split: option.splits if_splits prod.splits)
  then show ?thesis
    by (auto simp: redis_get_def redis_expire_def update_conv' lives_def US_SECOND_def)
qed

lemma request_counted:
  assumes "enforce_authenticated_request_rate_limit user now a = (Inr v, a')" "normalize_user_id user = Inr user"
  shows "\<exists>n. redis_get now (as_counts a') (user, now div US_SECOND) = Some n
    \<and> n \<le> AUTHENTICATED_REQUESTS_PER_SECOND"
proof -
  obtain n d where r: "redis_incr now (user, now div US_SECOND) (as_counts a) = (n, d)" by fastforce
  with assms have "n \<le> AUTHENTICATED_REQUESTS_PER_SECOND"
    and "as_counts a' = (if n = 1 then redis_expire now (user, now div US_SECOND) (2 * US_SECOND) d else d)"
    by (auto simp: enforce_authenticated_request_rate_limit_def Let_def split: if_splits)
  with redis_incr_expire [OF r] show ?thesis by auto
qed

lemma limited_ok:
  assumes "limited now (m, a) = (Inr who, a')" "\<And>u. m = Inr u \<Longrightarrow> normalize_user_id (si_user u) = Inr (si_user u)"
  shows "m = Inr who \<and> (\<exists>n. redis_get now (as_counts a') (si_user who, now div US_SECOND) = Some n
    \<and> n \<le> AUTHENTICATED_REQUESTS_PER_SECOND)"
  using assms
  by (auto simp: limited_def split: sum.splits prod.splits dest!: request_counted)

lemma session_user_ok:
  assumes "get_session_current_user s a = (Inr who, s')"
  shows "\<exists>v row. s = Some v \<and> normalize_user_id v = Inr (si_user who)
    \<and> map_of (as_users a) (si_user who) = Some row \<and> si_api_key_name who = None"
  using assms
  by (auto simp: get_session_current_user_def require_session_user_id_def get_session_user_id_def get_user_found
      dest: normalize_user_id_idem split: sum.splits option.splits prod.splits)

lemma key_user_ok:
  assumes "authenticate_agent_access_token cr is_word raw name now a = (Inr who, a')"
  shows "\<exists>i t digest row. hash_agent_token cr raw = Inr digest \<and> (i, t) \<in> set (rows (as_tokens a))
     \<and> tk_token_digest t = digest \<and> is_agent_token_active t now
     \<and> normalize_user_id (tk_user t) = Inr (si_user who) \<and> si_api_key_name who = Some (tk_name t)
     \<and> map_of (as_users a) (si_user who) = Some row"
proof -
  from assms obtain digest i t user row where h: "hash_agent_token cr raw = Inr digest"
    "get_agent_access_token_by_digest a digest = Some (i, t)" "tk_revoked_at t = None"
    "\<not> (case tk_expires_at t of None \<Rightarrow> False | Some e \<Rightarrow> e \<le> now)"
    "get_user a (tk_user t) = Inr (Some (user, row))" "si_user who = user" "si_api_key_name who = Some (tk_name t)"
    by (auto simp: authenticate_agent_access_token_def Let_def split: sum.splits option.splits if_splits prod.splits)
  then have "(i, t) \<in> set (tselect (\<lambda>t. tk_token_digest t = digest) (as_tokens a))"
    by (auto simp: get_agent_access_token_by_digest_def split: list.splits)
  moreover have "is_agent_token_active t now"
    using h(3,4) by (auto simp: is_agent_token_active_def split: option.splits)
  ultimately show ?thesis
    using h by (auto simp: tselect_def get_user_found)
qed

text \<open>
  C5: a request is taken as coming from a user only if that user has an account, made no more than
  ten requests in this second, and either presented a key of this user whose digest is stored and
  which is neither revoked nor expired, or, without an \<^verbatim>\<open>Authorization\<close> header, a session that
  names the user.
\<close>

theorem authenticated_requests_are_entitled:
  assumes "get_current_user cr is_word req now s a = (Inr who, s', a')"
  shows "(\<exists>row. map_of (as_users a) (si_user who) = Some row)
    \<and> (\<exists>n. redis_get now (as_counts a') (si_user who, now div US_SECOND) = Some n
          \<and> n \<le> AUTHENTICATED_REQUESTS_PER_SECOND)
    \<and> (case extract_bearer_token (rq_authorization req) of
         Some raw \<Rightarrow> \<exists>i t digest. hash_agent_token cr raw = Inr digest \<and> (i, t) \<in> set (rows (as_tokens a))
           \<and> tk_token_digest t = digest \<and> is_agent_token_active t now
           \<and> normalize_user_id (tk_user t) = Inr (si_user who) \<and> si_api_key_name who = Some (tk_name t)
       | None \<Rightarrow> rq_authorization req \<in> {None, Some []} \<and> si_api_key_name who = None
           \<and> (\<exists>v. s = Some v \<and> normalize_user_id v = Inr (si_user who)))"
proof (cases "extract_bearer_token (rq_authorization req)")
  case None
  with assms obtain r s1 where r: "get_session_current_user s a = (r, s1)" "limited now (r, a) = (Inr who, a')"
      "rq_authorization req \<in> {None, Some []}"
    by (auto simp: get_current_user_def Let_def split: if_splits prod.splits option.splits)
  moreover have "normalize_user_id (si_user u) = Inr (si_user u)" if "r = Inr u" for u
    using r(1) that session_user_ok [of s a u s1] by (auto dest: normalize_user_id_idem)
  ultimately show ?thesis
    using None limited_ok [OF r(2)] session_user_ok [of s a who s1] by auto
next
  case (Some raw)
  with assms obtain name m where
      m: "normalize_agent_name_header is_word (rq_agent_name req) = Inr name"
      "limited now (authenticate_agent_access_token cr is_word raw name now a) = (Inr who, a')"
    by (auto simp: get_current_user_def Let_def split: if_splits prod.splits option.splits sum.splits)
  obtain r a1 where r: "authenticate_agent_access_token cr is_word raw name now a = (r, a1)" by fastforce
  have "normalize_user_id (si_user u) = Inr (si_user u)" if "r = Inr u" for u
    using key_user_ok [of cr is_word raw name now a u a1] r that by (auto dest: normalize_user_id_idem)
  then show ?thesis
    using Some limited_ok [of now r a1 who a'] m(2) key_user_ok [of cr is_word raw name now a who a1] r by fastforce
qed

lemmas text_eval = lit_def py_strip_def py_lstrip_def py_rstrip_def py_isspace_def py_lower_def lower_char_def

definition bearer_request :: http_request where
  "bearer_request = \<lparr>rq_authorization = Some (lit ''Bearer sk-x''), rq_agent_name = None, rq_device_id = None,
     rq_client_host = None, rq_user_agent = None\<rparr>"

definition keyed_state :: auth_state where
  \<comment> \<open>one user with one key\<close>
  "keyed_state = \<lparr>as_users = [(lit ''ann'', \<lparr>us_email = None, us_password_digest = [], us_email_digest = None,
       us_created_at = 0, us_updated_at = 0\<rparr>)],
     as_tokens = snd (tinsert (new_access_token (lit ''ann'') (lit ''key'') None (lit ''sk-x'') (lit ''sk-x'') 0) empty_table),
     as_registrations = empty_table, as_attempts = [], as_counts = []\<rparr>"

theorem authenticated_requests_are_entitled_witness:
  "\<exists>who a'. get_current_user toy_crypto (\<lambda>c. True) bearer_request 5 None keyed_state = (Inr who, None, a')
     \<and> si_user who = lit ''ann''
     \<and> (\<exists>n. redis_get 5 (as_counts a') (si_user who, 5 div US_SECOND) = Some n
          \<and> n \<le> AUTHENTICATED_REQUESTS_PER_SECOND)"
proof -
  have "\<exists>a' who. get_current_user toy_crypto (\<lambda>c. True) bearer_request 5 None keyed_state = (Inr who, None, a')
      \<and> si_user who = lit ''ann''"
  proof -
    have b: "extract_bearer_token (rq_authorization bearer_request) = Some (lit ''sk-x'')"
      by (simp add: bearer_request_def extract_bearer_token_def text_eval)
    have h: "hash_agent_token toy_crypto (lit ''sk-x'') = Inr (lit ''sk-x'')"
      by (simp add: hash_agent_token_def toy_crypto_def has_prefix_def AGENT_TOKEN_PREFIX_def text_eval)
    define t where "t = new_access_token (lit ''ann'') (lit ''key'') None (lit ''sk-x'') (lit ''sk-x'') 0"
    have g: "get_agent_access_token_by_digest keyed_state (lit ''sk-x'') = Some (1, t)"
      by (simp add: get_agent_access_token_by_digest_def keyed_state_def t_def [symmetric] tinsert_def
          tselect_def empty_table_def) (simp add: t_def new_access_token_def)
    have u: "normalize_user_id (lit ''ann'') = Inr (lit ''ann'')"
      by (simp add: normalize_user_id_def USERNAME_PATTERN_def username_char_def text_eval)
    have f: "get_user keyed_state (tk_user t) = Inr (Some (lit ''ann'', \<lparr>us_email = None, us_password_digest = [],
        us_email_digest = None, us_created_at = 0, us_updated_at = 0\<rparr>))"
      by (simp add: get_user_def t_def new_access_token_def u keyed_state_def)
    have c: "as_counts keyed_state = []" by (simp add: keyed_state_def)
    have t: "tk_revoked_at t = None" "tk_expires_at t = None" "tk_last_used_at t = None"
      by (simp_all add: t_def new_access_token_def resolve_agent_token_expiry_def)
    have r: "rq_authorization bearer_request \<noteq> None" "rq_agent_name bearer_request = None"
      by (simp_all add: bearer_request_def)
    show ?thesis
      by (simp add: get_current_user_def b r normalize_agent_name_header_def
          authenticate_agent_access_token_def h g f t limited_def enforce_authenticated_request_rate_limit_def
          u key_used_def redis_incr_def c Let_def AUTHENTICATED_REQUESTS_PER_SECOND_def)
  qed
  then show ?thesis
    using authenticated_requests_are_entitled [of toy_crypto "\<lambda>c. True" bearer_request 5 None keyed_state] by blast
qed

end
