(* ===== verification/Login_Properties.thy ===== *)
theory Login_Properties
  imports Auth_Properties
begin

text \<open>
  The limit on login attempts as a sliding window: which of a sequence of logins get to the check of
  the password, whatever else happens to the store of attempts in between.
\<close>

section \<open>Traces of logins\<close>

type_synonym login = "datetime \<times> attempt_key \<times> login_credentials"

fun admitted_times :: "crypto \<Rightarrow> attempt_key \<Rightarrow> login list \<Rightarrow> auth_state \<Rightarrow> datetime list" where
  \<comment> \<open>when a login under the key was not turned away for too many attempts\<close>
  "admitted_times cr key [] a = []"
| "admitted_times cr key ((now, k, c) # es) a =
     (case authenticate_user_account cr c k now a of
        (r, a1) \<Rightarrow> if k = key \<and> r \<noteq> Inl (HTTPException 429 TooManyLoginAttempts)
          then now # admitted_times cr key es a1 else admitted_times cr key es a1)"

definition recent :: "datetime \<Rightarrow> datetime list \<Rightarrow> datetime list" where
  "recent now ts = filter (\<lambda>t. now - LOGIN_ATTEMPT_WINDOW \<le> t) ts"

fun sliding_window :: "datetime list \<Rightarrow> datetime list \<Rightarrow> datetime list" where
  \<comment> \<open>the specification: a time is admitted if fewer than eight admitted times are recent\<close>
  "sliding_window seen [] = []"
| "sliding_window seen (now # ts) =
     (if length (recent now seen) < MAX_LOGIN_ATTEMPTS_PER_WINDOW
      then now # sliding_window (seen @ [now]) ts else sliding_window seen ts)"

lemma prune_recent: "prune_login_attempt_timestamps ts now = recent now ts"
  by (simp add: prune_login_attempt_timestamps_def recent_def)

lemma recent_later: "recent now xs = recent now ys \<Longrightarrow> now \<le> later \<Longrightarrow> recent later xs = recent later ys"
proof -
  assume a: "recent now xs = recent now ys" "now \<le> later"
  have "recent later zs = recent later (recent now zs)" for zs
    using a(2) by (auto simp: recent_def intro!: filter_cong)
  with a(1) show ?thesis by metis
qed

lemma recent_append [simp]: "recent now (xs @ ys) = recent now xs @ recent now ys"
  by (simp add: recent_def)

lemma recent_none: "\<forall>s \<in> set xs. s < now - LOGIN_ATTEMPT_WINDOW \<Longrightarrow> recent now xs = []"
  by (auto simp: recent_def filter_empty_conv)

section \<open>What the store remembers\<close>

definition tracks :: "attempt_key \<Rightarrow> datetime \<Rightarrow> datetime list \<Rightarrow> auth_state \<Rightarrow> bool" where
  \<comment> \<open>from now on, the stored timestamps of the key agree with the admitted times on what is recent\<close>
  "tracks key now seen a \<longleftrightarrow> distinct (map fst (as_attempts a)) \<and> (\<forall>s \<in> set seen. s \<le> now)
     \<and> (\<forall>later \<ge> now. case get_attempts later a key of
          None \<Rightarrow> recent later seen = []
        | Some st \<Rightarrow> recent later (la_timestamps st) = recent later seen \<and> (\<forall>s \<in> set seen. s \<le> la_last st))"

lemma tracks_later: "tracks key now seen a \<Longrightarrow> now \<le> later \<Longrightarrow> tracks key later seen a"
  unfolding tracks_def by (meson order_trans)

lemma get_put_attempts:
  "get_attempts later (put_attempts now k st a) key =
     (if key = k then if later < now + LOGIN_ATTEMPT_TTL_SECONDS then Some st else None
      else get_attempts later a key)"
  by (simp add: get_attempts_def put_attempts_def redis_simps lives_def)

lemma distinct_put_attempts [simp]:
  "distinct (map fst (as_attempts a)) \<Longrightarrow> distinct (map fst (as_attempts (put_attempts now k st a)))"
  by (simp add: put_attempts_def redis_set_def distinct_update)

lemma tracks_put_other: "tracks key now seen a \<Longrightarrow> k \<noteq> key \<Longrightarrow> tracks key now seen (put_attempts now k st a)"
  by (simp add: tracks_def get_put_attempts)

lemma tracks_put:
  assumes "tracks key now old a" "\<forall>s \<in> set seen. s \<le> now" "recent now (la_timestamps st) = recent now seen"
    "la_last st = now"
  shows "tracks key now seen (put_attempts now key st a)"
proof -
  have "recent later seen = []" if "now + LOGIN_ATTEMPT_TTL_SECONDS \<le> later" for later
    by (rule recent_none) (use assms(2) that in \<open>auto simp: LOGIN_ATTEMPT_TTL_SECONDS_def LOGIN_ATTEMPT_WINDOW_def
      US_SECOND_def US_MINUTE_def\<close>)
  moreover have "recent later (la_timestamps st) = recent later seen" if "now \<le> later" for later
    using recent_later [OF assms(3) that] .
  ultimately show ?thesis
    using assms(1,2,4) by (auto simp: tracks_def get_put_attempts not_less)
qed

lemma redis_get_fold_delete:
  "redis_get later (fold redis_delete ks d) key = (if key \<in> set ks then None else redis_get later d key)"
  by (induction ks arbitrary: d) (auto simp: redis_map.get_delete)

lemma get_fold_delete:
  "get_attempts later (a\<lparr>as_attempts := fold redis_delete ks (as_attempts a)\<rparr>) key =
     (if key \<in> set ks then None else get_attempts later a key)"
  by (simp add: get_attempts_def redis_get_fold_delete)

lemma distinct_fold_delete:
  "distinct (map fst d) \<Longrightarrow> distinct (map fst (fold redis_delete ks d))"
  by (induction ks arbitrary: d) (simp_all add: redis_delete_def distinct_delete)

lemma tracks_cleanup:
  assumes "tracks key now seen a"
  shows "tracks key now seen (cleanup_expired_login_attempt_states now a)"
proof -
  define ks where "ks = map fst (filter (\<lambda>(k, st). la_last st < now - LOGIN_ATTEMPT_STATE_TTL)
    (redis_items now (as_attempts a)))"
  have "recent later seen = []" if "key \<in> set ks" "now \<le> later" for later
  proof -
    from that(1) obtain st where "(key, st) \<in> set (redis_items now (as_attempts a))"
      "la_last st < now - LOGIN_ATTEMPT_STATE_TTL"
      by (auto simp: ks_def)
    moreover from this assms have "get_attempts now a key = Some st"
      by (auto simp: tracks_def get_attempts_def redis_get_def redis_items_def)
    ultimately have "\<forall>s \<in> set seen. s < now - LOGIN_ATTEMPT_STATE_TTL"
      using assms unfolding tracks_def by fastforce
    then show ?thesis
      using that(2) by (intro recent_none) (auto simp: LOGIN_ATTEMPT_STATE_TTL_def LOGIN_ATTEMPT_WINDOW_def US_HOUR_def
          US_MINUTE_def)
  qed
  then show ?thesis
    using assms unfolding cleanup_expired_login_attempt_states_def ks_def [symmetric] Let_def
    by (auto simp: tracks_def get_fold_delete distinct_fold_delete)
qed

lemma reserve_other:
  assumes "tracks key now seen a" "reserve_login_attempt k now a = (r, a1)" "k \<noteq> key"
  shows "tracks key now seen a1"
  using assms
  by (auto simp: reserve_login_attempt_def Let_def tracks_put_other tracks_cleanup split: option.splits if_splits)

lemma reserve_tracks:
  assumes t: "tracks key now seen a" and r: "reserve_login_attempt key now a = (r, a1)"
  shows "if length (recent now seen) < MAX_LOGIN_ATTEMPTS_PER_WINDOW
    then r = Inr () \<and> tracks key now (seen @ [now]) a1
    else r = Inl (HTTPException 429 TooManyLoginAttempts) \<and> tracks key now seen a1"
proof -
  define st where "st = (case get_attempts now a key of Some st \<Rightarrow> st
    | None \<Rightarrow> \<lparr>la_timestamps = [], la_failed = 0, la_last = now\<rparr>)"
  define a0 where "a0 = (case get_attempts now a key of Some st \<Rightarrow> a | None \<Rightarrow> put_attempts now key st a)"
  have st: "recent now (la_timestamps st) = recent now seen"
    using t by (auto simp: tracks_def st_def recent_def split: option.split_asm option.split)
  have t0: "tracks key now seen a0"
  proof (cases "get_attempts now a key")
    case None
    have "tracks key now seen (put_attempts now key st a)"
      by (rule tracks_put [OF t]) (use t st None in \<open>auto simp: tracks_def st_def\<close>)
    with None show ?thesis by (simp add: a0_def)
  qed (simp add: a0_def t)
  let ?st = "st\<lparr>la_timestamps := recent now seen @ [now], la_last := now\<rparr>"
  have "tracks key now (seen @ [now]) (put_attempts now key ?st a0)"
    using t by (intro tracks_put [OF t0]) (auto simp: tracks_def recent_def)
  moreover have "reserve_login_attempt key now a =
    (if length (recent now seen) \<ge> MAX_LOGIN_ATTEMPTS_PER_WINDOW
     then (Inl (HTTPException 429 TooManyLoginAttempts), a0)
     else (Inr (), if redis_len now (as_attempts (put_attempts now key ?st a0)) > 2048
       then cleanup_expired_login_attempt_states now (put_attempts now key ?st a0)
       else put_attempts now key ?st a0))"
    unfolding reserve_login_attempt_def st_def a0_def
    by (cases "get_attempts now a key")
      (use st in \<open>simp_all add: Let_def prune_recent st_def [symmetric]\<close>, simp_all add: st_def)
  ultimately show ?thesis using r t0 by (auto simp: tracks_cleanup split: if_splits)
qed

lemma tracks_touch:
  assumes t: "tracks key now seen a" and "get_attempts now a k = Some st" "la_timestamps st' = la_timestamps st"
    "la_last st' = now"
  shows "tracks key now seen (put_attempts now k st' a)"
proof (cases "k = key")
  case True
  have "tracks key now seen (put_attempts now key st' a)"
    by (rule tracks_put [OF t]) (use assms True in \<open>auto simp: tracks_def split: option.splits\<close>)
  with True show ?thesis by simp
qed (use t in \<open>simp add: tracks_put_other\<close>)

lemma record_failed_tracks:
  assumes t: "tracks key now seen a" and k: "k = key \<Longrightarrow> get_attempts now a key \<noteq> None"
  shows "tracks key now seen (snd (record_failed_login_attempt k now a))"
proof (cases "get_attempts now a k")
  case None
  with k have "k \<noteq> key" by auto
  then show ?thesis by (simp add: record_failed_login_attempt_def Let_def tracks_put_other t)
next
  case (Some st)
  with t show ?thesis
    by (simp add: record_failed_login_attempt_def Let_def tracks_touch [where st = st])
qed

lemma record_successful_tracks:
  assumes t: "tracks key now seen a"
  shows "tracks key now seen (record_successful_login k now a)"
  using t by (auto simp: record_successful_login_def split: option.split intro: tracks_touch)

lemma authenticate_tracks:
  assumes t: "tracks key now seen a" and r: "authenticate_user_account cr c k now a = (r, a1)"
  shows "if k = key \<and> length (recent now seen) < MAX_LOGIN_ATTEMPTS_PER_WINDOW
    then r \<noteq> Inl (HTTPException 429 TooManyLoginAttempts) \<and> tracks key now (seen @ [now]) a1
    else tracks key now seen a1 \<and> (k = key \<longrightarrow> r = Inl (HTTPException 429 TooManyLoginAttempts))"
proof -
  obtain v a0 where v: "reserve_login_attempt k now a = (v, a0)" by fastforce
  define seen' where "seen' = (if k = key \<and> length (recent now seen) < MAX_LOGIN_ATTEMPTS_PER_WINDOW
    then seen @ [now] else seen)"
  have t0: "tracks key now seen' a0"
    and e: "k = key \<Longrightarrow> v = (if length (recent now seen) < MAX_LOGIN_ATTEMPTS_PER_WINDOW then Inr ()
      else Inl (HTTPException 429 TooManyLoginAttempts))"
    using reserve_tracks [OF t, of v a0] reserve_other [OF t v] v
    by (cases "k = key"; auto simp: seen'_def split: if_splits)+
  show ?thesis
  proof (cases v)
    case (Inl x)
    with r v have "r = Inl x" "a1 = a0" by (auto simp: authenticate_user_account_def)
    with Inl t0 e show ?thesis by (auto simp: seen'_def split: if_splits)
  next
    case (Inr u)
    have g: "get_attempts now a0 key \<noteq> None" if "k = key"
    proof
      assume "get_attempts now a0 key = None"
      with t0 have "recent now seen' = []" by (force simp: tracks_def)
      moreover have "now \<in> set (recent now seen')"
        using e [OF that] Inr that by (auto simp: seen'_def recent_def LOGIN_ATTEMPT_WINDOW_def US_MINUTE_def split: if_splits)
      ultimately show False by simp
    qed
    from r v Inr have "r \<noteq> Inl (HTTPException 429 TooManyLoginAttempts)
      \<and> a1 \<in> {a0, record_successful_login k now a0, snd (record_failed_login_attempt k now a0)}"
      by (auto simp: authenticate_user_account_def get_user_def bindE_def normalize_user_id_def Let_def
          split: option.splits if_splits sum.splits prod.splits)
    moreover have "tracks key now seen' (snd (record_failed_login_attempt k now a0))"
      using g by (rule record_failed_tracks [OF t0])
    moreover note record_successful_tracks [OF t0, of k]
    ultimately show ?thesis using t0 e Inr by (auto simp: seen'_def split: if_splits)
  qed
qed

lemma admitted_sliding:
  assumes "tracks key start seen a" "sorted (map fst es)" "\<forall>x \<in> set es. start \<le> fst x"
  shows "admitted_times cr key es a = sliding_window seen (map fst (filter (\<lambda>(t, k, c). k = key) es))"
  using assms
proof (induction es arbitrary: start seen a)
  case (Cons x es)
  obtain now k c where x: "x = (now, k, c)" by (metis surj_pair)
  obtain r a1 where r: "authenticate_user_account cr c k now a = (r, a1)" by fastforce
  have t: "tracks key now seen a" using Cons.prems(1,3) x by (auto intro: tracks_later)
  have s: "sorted (map fst es)" "\<forall>y \<in> set es. now \<le> fst y" using Cons.prems(2) x by auto
  show ?case
    using authenticate_tracks [OF t r] Cons.IH [OF _ s] x r by (auto split: if_splits)
qed simp

section \<open>The bound\<close>

definition in_window :: "datetime \<Rightarrow> datetime list \<Rightarrow> nat" where
  \<comment> \<open>how many times fall into the window that starts there\<close>
  "in_window start ts = length (filter (\<lambda>t. start \<le> t \<and> t \<le> start + LOGIN_ATTEMPT_WINDOW) ts)"

lemma sliding_window_bound:
  assumes "sorted ts" "\<forall>s \<in> set seen. \<forall>t \<in> set ts. s \<le> t" "in_window start seen \<le> MAX_LOGIN_ATTEMPTS_PER_WINDOW"
  shows "in_window start (seen @ sliding_window seen ts) \<le> MAX_LOGIN_ATTEMPTS_PER_WINDOW"
  using assms
proof (induction seen ts rule: sliding_window.induct)
  case (2 seen now ts)
  show ?case
  proof (cases "length (recent now seen) < MAX_LOGIN_ATTEMPTS_PER_WINDOW")
    case True
    have "in_window start (seen @ [now]) \<le> MAX_LOGIN_ATTEMPTS_PER_WINDOW"
    proof (cases "start \<le> now \<and> now \<le> start + LOGIN_ATTEMPT_WINDOW")
      case win: True
      have "in_window start seen \<le> length (recent now seen)"
        unfolding in_window_def recent_def using win
        by (simp add: length_filter_conv_card) (rule card_mono, auto)
      with win True show ?thesis by (simp add: in_window_def)
    qed (use "2.prems"(3) in \<open>auto simp: in_window_def\<close>)
    then show ?thesis
      using "2.IH"(1) [OF True] "2.prems"(1,2) True by auto
  qed (use 2 in auto)
qed simp

text \<open>
  C12: whatever the passwords, users and devices, the logins under one key that are not turned away
  with 429 are those of a sliding window: one is admitted exactly if fewer than eight were admitted
  in the minute before it. No interval of one minute holds more than eight of them.
\<close>

theorem logins_are_limited:
  assumes "as_attempts a = []" "sorted (map fst es)"
  shows "admitted_times cr key es a = sliding_window [] (map fst (filter (\<lambda>(t, k, c). k = key) es))
    \<and> in_window start (admitted_times cr key es a) \<le> MAX_LOGIN_ATTEMPTS_PER_WINDOW"
proof -
  define first where "first = (case es of [] \<Rightarrow> 0 | x # xs \<Rightarrow> fst x)"
  have "tracks key first [] a"
    by (simp add: tracks_def assms(1) get_attempts_def redis_get_def recent_def)
  moreover have "\<forall>x \<in> set es. first \<le> fst x"
    using assms(2) by (cases es) (auto simp: first_def)
  ultimately have e: "admitted_times cr key es a = sliding_window [] (map fst (filter (\<lambda>(t, k, c). k = key) es))"
    using assms(2) by (intro admitted_sliding)
  have "sorted (map fst (filter (\<lambda>(t, k, c). k = key) es))"
    using assms(2) by (rule sorted_filter)
  then show ?thesis
    using sliding_window_bound [of _ "[]" start] by (simp add: e in_window_def)
qed

theorem logins_are_limited_witness:
  "admitted_times toy_crypto (lit ''ann'', lit ''device:1'')
      (map (\<lambda>t. (t, (lit ''ann'', lit ''device:1''), \<lparr>lc_user_id = lit ''ann'', lc_password = lit ''guess''\<rparr>))
        [0, 1, 2, 3, 4, 5, 6, 7, 8, 9])
      \<lparr>as_users = [], as_tokens = empty_table, as_registrations = empty_table, as_attempts = [], as_counts = []\<rparr>
    = [0, 1, 2, 3, 4, 5, 6, 7]"
proof -
  let ?es = "map (\<lambda>t. (t, (lit ''ann'', lit ''device:1''), \<lparr>lc_user_id = lit ''ann'', lc_password = lit ''guess''\<rparr>))
    [0, 1, 2, 3, 4, 5, 6, 7, 8, 9 :: int]"
  have "sliding_window [] (map fst (filter (\<lambda>(t, k, c). k = (lit ''ann'', lit ''device:1'')) ?es))
    = [0, 1, 2, 3, 4, 5, 6, 7]"
    by (simp add: recent_def LOGIN_ATTEMPT_WINDOW_def US_MINUTE_def MAX_LOGIN_ATTEMPTS_PER_WINDOW_def)
  then show ?thesis by (subst logins_are_limited [THEN conjunct1]) simp_all
qed

end
