(* ===== verification/Table_Counts.thy ===== *)
theory Table_Counts
  imports Tables
begin

text \<open>
  How the number of selected rows of a table changes when a row is replaced.
\<close>

section \<open>Counting rows\<close>

lemma length_filter_put:
  assumes "distinct (map fst xs)" "map_of xs i = Some r0"
  shows "length (filter (\<lambda>(j, x). P x) (map (\<lambda>(j, x). if j = i then (j, r) else (j, x)) xs))
      + (if P r0 then 1 else 0) = length (filter (\<lambda>(j, x). P x) xs) + (if P r then 1 else 0)"
  using assms
proof (induction xs)
  case (Cons y ys)
  obtain j x where y: "y = (j, x)" by (cases y)
  show ?case
  proof (cases "j = i")
    case True
    with Cons.prems y have "map (\<lambda>(j, x). if j = i then (j, r) else (j, x)) ys = ys"
      by (intro map_idI) (auto simp: rev_image_eqI)
    with True y Cons.prems show ?thesis by simp
  qed (use y Cons in auto)
qed simp

lemma count_tput:
  assumes "twf t" "tget t i = Some r0"
  shows "length (tselect P (tput i r t)) + (if P r0 then 1 else 0)
    = length (tselect P t) + (if P r then 1 else 0)"
  using length_filter_put [of "rows t" i r0 P r] assms
  by (simp add: tselect_def tput_def twf_def tget_def)

lemma tput_tput: "tput i r (tput i q t) = tput i r t"
  by (simp add: tput_def comp_def case_prod_unfold cong: map_cong)

end
