(* ===== verification/Worker_Properties.thy ===== *)
theory Worker_Properties
  imports Background_Jobs Scenario Table_Counts
begin

text \<open>
  Properties of the worker's loop over the requests to rebuild a history: when it returns, and when
  it never does.
\<close>

section \<open>A rebuild keeps the requests\<close>

lemma backfill_keeps_requests [simp]:
  "sync_requests (backfill_missing_holding_transactions env user w) = sync_requests w"
proof -
  have "sync_requests (snd (fold (\<lambda>(i, h) (pairs, w).
      if (sh_symbol h, sh_market h) \<in> set pairs then (pairs, w)
      else ((sh_symbol h, sh_market h) # pairs, ensure_transaction_baseline_from_holding_snapshot env h w))
      hs (pairs, x))) = sync_requests x" for hs pairs x
    by (induction hs arbitrary: pairs x)
      (auto simp: ensure_transaction_baseline_from_holding_snapshot_def add_transaction_def)
  then show ?thesis by (simp add: backfill_missing_holding_transactions_def Let_def)
qed

lemma portfolio_rebuild_keeps_requests:
  "rebuild_user_portfolio_snapshots env user (w, s) = (e, w', s') \<Longrightarrow> sync_requests w' = sync_requests w"
  by (auto simp: rebuild_user_portfolio_snapshots_def Let_def split: list.splits if_splits sum.splits)

lemma rebuild_keeps_requests:
  "rebuild_user_holding_history_snapshots env user (w, s) = (e, w', s') \<Longrightarrow> sync_requests w' = sync_requests w"
  by (auto simp: rebuild_user_holding_history_snapshots_def Let_def split: option.splits sum.splits prod.splits
      dest!: portfolio_rebuild_keeps_requests)

section \<open>One round of the loop\<close>

definition requests :: "sync_status \<Rightarrow> pystr \<Rightarrow> world \<Rightarrow> nat" where
  "requests status user w = length (tselect (\<lambda>r. hs_user r = user \<and> hs_status r = status) (sync_requests w))"

definition drain_round :: "env \<Rightarrow> pystr \<Rightarrow> history \<Rightarrow> history" where
  "drain_round env user = process_pending_holding_history_sync_requests env 1 (Some user)"

definition rebuild_succeeds :: "env \<Rightarrow> pystr \<Rightarrow> history \<Rightarrow> bool" where
  \<comment> \<open>the rebuild for the next request, if there is one, does not raise\<close>
  "rebuild_succeeds env user h =
     (case claim_next_pending_holding_history_sync_request (en_now env) (Some user) (fst h) of
        (None, w) \<Rightarrow> True
      | (Some i, w) \<Rightarrow> fst (rebuild_user_holding_history_snapshots env user (w, snd h)) = None)"

lemma pending_iff:
  "has_holding_history_sync_pending user w \<longleftrightarrow> requests SYNC_PENDING user w + requests SYNC_RUNNING user w \<noteq> 0"
  by (auto simp: has_holding_history_sync_pending_def requests_def tselect_def filter_empty_conv)

lemma claim_select:
  "tselect (\<lambda>r. hs_status r = SYNC_PENDING \<and> (Some user = None \<or> Some user = Some (hs_user r))) t
    = tselect (\<lambda>r. hs_user r = user \<and> hs_status r = SYNC_PENDING) t"
  by (rule tselect_cong) auto

lemma claim_of:
  "claim_next_pending_holding_history_sync_request now (Some user) w =
     (case sort_key (\<lambda>p. (hs_requested_at (snd p), fst p))
        (tselect (\<lambda>r. hs_user r = user \<and> hs_status r = SYNC_PENDING) (sync_requests w)) of
        [] \<Rightarrow> (None, w)
      | (i, r) # ps \<Rightarrow> (Some i, w\<lparr>sync_requests := tput i (r\<lparr>hs_status := SYNC_RUNNING,
            hs_started_at := Some now, hs_completed_at := None, hs_error_message := None\<rparr>)
            (sync_requests w)\<rparr>))"
  by (simp only: claim_next_pending_holding_history_sync_request_def claim_select)

lemma no_claim:
  assumes "requests SYNC_PENDING user (fst h) = 0"
  shows "drain_round env user h = h"
proof -
  have "claim_next_pending_holding_history_sync_request (en_now env) (Some user) (fst h) = (None, fst h)"
    using assms by (simp add: claim_of requests_def sort_key_def)
  then show ?thesis by (cases h) (simp add: drain_round_def)
qed

lemma round_settles:
  assumes "twf (sync_requests (fst h))" "requests SYNC_PENDING user (fst h) = Suc n"
    "rebuild_succeeds env user h"
  shows "twf (sync_requests (fst (drain_round env user h)))"
    "requests SYNC_PENDING user (fst (drain_round env user h)) = n"
    "requests SYNC_RUNNING user (fst (drain_round env user h)) = requests SYNC_RUNNING user (fst h)"
proof -
  obtain w s where h: "h = (w, s)" by (cases h)
  let ?t = "sync_requests w" and ?P = "\<lambda>r. hs_user r = user \<and> hs_status r = SYNC_PENDING"
  have ne: "length (sort_key (\<lambda>p. (hs_requested_at (snd p), fst p)) (tselect ?P ?t)) = Suc n"
    using assms(2) h by (simp add: requests_def)
  then obtain i r ps where srt: "sort_key (\<lambda>p. (hs_requested_at (snd p), fst p)) (tselect ?P ?t) = (i, r) # ps"
    by (cases "sort_key (\<lambda>p. (hs_requested_at (snd p), fst p)) (tselect ?P ?t)") auto
  have "set ((i, r) # ps) = set (tselect ?P ?t)" unfolding srt [symmetric] by (rule set_sort)
  then have "(i, r) \<in> set (tselect ?P ?t)" by auto
  then have i: "tget ?t i = Some r" and r: "hs_user r = user" "hs_status r = SYNC_PENDING"
    using assms(1) h by (simp_all add: tbl.select_iff)
  define run where "run = r\<lparr>hs_status := SYNC_RUNNING, hs_started_at := Some (en_now env),
    hs_completed_at := None, hs_error_message := None\<rparr>"
  define w1 where "w1 = w\<lparr>sync_requests := tput i run ?t\<rparr>"
  have claim: "claim_next_pending_holding_history_sync_request (en_now env) (Some user) w = (Some i, w1)"
    by (simp add: claim_of srt run_def w1_def)
  have get: "tget (sync_requests w1) i = Some run" by (simp add: w1_def tbl.get_put i)
  obtain e w2 s2 where rb: "rebuild_user_holding_history_snapshots env user (w1, s) = (e, w2, s2)"
    by (metis surj_pair)
  have "e = None" using assms(3) by (simp add: rebuild_succeeds_def h claim rb)
  moreover have "hs_user run = user" by (simp add: run_def r)
  moreover have w2: "sync_requests w2 = sync_requests w1" using rebuild_keeps_requests [OF rb] .
  ultimately have "drain_round env user h = (w2\<lparr>sync_requests := tput i (sync_done env run) (sync_requests w1)\<rparr>, s2)"
    by (simp add: drain_round_def h claim get rb set_sync_request_def)
  then have t: "sync_requests (fst (drain_round env user h)) = tput i (sync_done env run) ?t"
    by (simp add: w1_def tput_tput)
  with assms(1) h show "twf (sync_requests (fst (drain_round env user h)))" by simp
  have c: "requests st user (fst (drain_round env user h)) + (if st = SYNC_PENDING then 1 else 0)
      = requests st user w + (if st = SYNC_DONE then 1 else 0)" for st
    unfolding requests_def t
    using count_tput [OF _ i, of "\<lambda>r. hs_user r = user \<and> hs_status r = st" "sync_done env run"] assms(1) h r
    by (auto simp: sync_done_def run_def)
  show "requests SYNC_PENDING user (fst (drain_round env user h)) = n"
    using c [of SYNC_PENDING] assms(2) h by simp
  show "requests SYNC_RUNNING user (fst (drain_round env user h)) = requests SYNC_RUNNING user (fst h)"
    using c [of SYNC_RUNNING] h by simp
qed

lemma drain_unfold:
  "drain_history_sync env user h =
     (if has_holding_history_sync_pending user (fst h) then drain_history_sync env user (drain_round env user h)
      else Some h)"
  unfolding drain_round_def by (rule drain_history_sync.simps)

lemma drain_rounds:
  assumes "twf (sync_requests (fst h))" "requests SYNC_RUNNING user (fst h) = 0"
    "\<forall>k < requests SYNC_PENDING user (fst h). rebuild_succeeds env user ((drain_round env user ^^ k) h)"
  shows "drain_history_sync env user h = Some ((drain_round env user ^^ requests SYNC_PENDING user (fst h)) h)
    \<and> \<not> has_holding_history_sync_pending user (fst ((drain_round env user ^^ requests SYNC_PENDING user (fst h)) h))"
  using assms
proof (induction "requests SYNC_PENDING user (fst h)" arbitrary: h)
  case 0
  then show ?case by (simp add: drain_unfold [of env user h] pending_iff)
next
  case (Suc n)
  let ?h = "drain_round env user h"
  have "rebuild_succeeds env user h" using Suc.prems(3) Suc.hyps(2) by (metis funpow_0 zero_less_Suc)
  note settled = round_settles [OF Suc.prems(1) Suc.hyps(2) [symmetric] this]
  have "rebuild_succeeds env user ((drain_round env user ^^ k) ?h)" if "k < n" for k
    using Suc.prems(3) Suc.hyps(2) that by (metis Suc_less_eq comp_apply funpow_Suc_right)
  with Suc.hyps(1) [of ?h] settled Suc.prems(2) have
    "drain_history_sync env user ?h = Some ((drain_round env user ^^ n) ?h)
      \<and> \<not> has_holding_history_sync_pending user (fst ((drain_round env user ^^ n) ?h))" by simp
  moreover have "drain_history_sync env user h = drain_history_sync env user ?h"
    using Suc.hyps(2) by (subst drain_unfold) (simp add: pending_iff)
  ultimately show ?case
    unfolding Suc.hyps(2) [symmetric] by (simp add: funpow_Suc_right del: funpow.simps)
qed

lemma drain_result:
  "drain_history_sync env user h = Some h' \<Longrightarrow>
   requests SYNC_PENDING user (fst h) = 0 \<longrightarrow> requests SYNC_RUNNING user (fst h) = 0"
proof (induction rule: drain_history_sync.raw_induct [rotated, consumes 1, case_names round])
  case (round drain env user h h')
  show ?case
  proof (cases "has_holding_history_sync_pending user (fst h)")
    case True
    have "drain env user h = Some h'" if "requests SYNC_PENDING user (fst h) = 0"
      using round.hyps True no_claim [OF that, of env] by (simp add: drain_round_def)
    then show ?thesis using round.IH by blast
  qed (simp add: pending_iff)
qed

text \<open>
  C13: a rebuild job whose user has n waiting requests, none of them in progress, and whose rebuilds
  do not raise, returns: its loop makes n rounds, one request each, and leaves none waiting.
\<close>

theorem drain_returns:
  assumes "twf (sync_requests (fst h))" "requests SYNC_RUNNING user (fst h) = 0"
    "\<forall>k < requests SYNC_PENDING user (fst h). rebuild_succeeds env user ((drain_round env user ^^ k) h)"
  shows "\<exists>h'. drain_history_sync env user h = Some h' \<and> h' = (drain_round env user ^^ requests SYNC_PENDING user (fst h)) h
    \<and> \<not> has_holding_history_sync_pending user (fst h')"
  using drain_rounds [OF assms] by blast

definition one_request :: "sync_status \<Rightarrow> history" where
  "one_request status = (empty_world\<lparr>sync_requests := snd (tinsert \<lparr>hs_user = lit ''ada'', hs_status = status,
     hs_trigger_symbol = None, hs_error_message = None, hs_requested_at = 0, hs_started_at = None,
     hs_completed_at = None\<rparr> empty_table)\<rparr>,
     \<lparr>portfolio_snapshots = [], performance_snapshots = [], live_portfolio_users = [], live_return_users = []\<rparr>)"

theorem drain_returns_witness:
  "\<exists>h'. drain_history_sync ada (lit ''ada'') (one_request SYNC_PENDING) = Some h'
    \<and> h' = (drain_round ada (lit ''ada'') ^^ 1) (one_request SYNC_PENDING)
    \<and> \<not> has_holding_history_sync_pending (lit ''ada'') (fst h')"
proof -
  let ?h = "one_request SYNC_PENDING"
  have t: "twf (sync_requests (fst ?h))" by (simp add: one_request_def empty_world_def)
  have p: "requests SYNC_PENDING (lit ''ada'') (fst ?h) = 1" "requests SYNC_RUNNING (lit ''ada'') (fst ?h) = 0"
    by (simp_all add: one_request_def requests_def empty_world_def tinsert_def tselect_def empty_table_def)
  have ok: "fst (rebuild_user_holding_history_snapshots env user (w, s)) = None"
    if "holdings w = empty_table" "transactions w = empty_table" "ledger w = empty_table"
      "fixed_assets w = empty_table" "liabilities w = empty_table" "other_assets w = empty_table" for env user w s
    using that
    by (simp add: rebuild_user_holding_history_snapshots_def rebuild_user_portfolio_snapshots_def
        backfill_missing_holding_transactions_def user_transactions_def transactions_by_symbol_def
        start_candidates_def user_rows_def tselect_def empty_table_def Let_def sort_key_def)
  have "rebuild_succeeds ada (lit ''ada'') ?h"
    by (auto simp: rebuild_succeeds_def claim_of split: list.split)
      (simp_all add: one_request_def empty_world_def ok)
  with p show ?thesis using drain_returns [OF t p(2), of ada] by simp
qed

text \<open>
  C37: a rebuild job whose user has a request in progress, left behind by a worker that died, and
  no waiting one never returns: nothing in its loop ever takes up that request.
\<close>

theorem drain_never_returns:
  assumes "requests SYNC_RUNNING user (fst h) \<noteq> 0" "requests SYNC_PENDING user (fst h) = 0"
    and "oj_payload job = RebuildPayload v" "v \<noteq> []" "normalize_job_user_id (Some v) = Some user"
  shows "process_snapshot_rebuild_job env job h = None"
proof -
  have "drain_history_sync env user h = None"
    using drain_result [of env user h] assms(1,2) by (cases "drain_history_sync env user h") auto
  then show ?thesis
    using assms by (simp add: process_snapshot_rebuild_job_def Let_def pending_iff)
qed

theorem drain_never_returns_witness:
  "process_snapshot_rebuild_job ada (new_job 0 SNAPSHOT_REBUILD (Some (lit ''ada'')) (RebuildPayload (lit ''ada'')) None)
    (one_request SYNC_RUNNING) = None"
  by (rule drain_never_returns [where v = "lit ''ada''" and user = "lit ''ada''"])
    (simp_all add: one_request_def requests_def empty_world_def tinsert_def tselect_def empty_table_def new_job_def
      normalize_job_user_id_def eval_text)

end
