(* ===== verification/Feedback_Properties.thy ===== *)
theory Feedback_Properties
  imports Feedback Table_Counts
begin

text \<open>
  The states of feedback tickets as a transition relation over the inbox, with what holds of every
  ticket in every reachable state and how many tickets a user can open in a day.
\<close>

section \<open>Transitions\<close>

inductive inbox_step :: "inbox \<Rightarrow> inbox \<Rightarrow> bool" where
  submit: "submit_feedback now user p b = Inr (r, b') \<Longrightarrow> inbox_step b b'"
| reply: "reply_to_feedback_for_admin now user i message close b = Inr (ar, b') \<Longrightarrow> inbox_step b b'"
| close: "close_feedback_for_admin now user i b = Inr (ar, b') \<Longrightarrow> inbox_step b b'"
| acknowledge: "acknowledge_feedback_for_admin now user i d b = Inr (ar, b') \<Longrightarrow> inbox_step b b'"
| classify: "classify_feedback_for_admin now user i c b = Inr (ar, b') \<Longrightarrow> inbox_step b b'"
| seen: "mark_feedback_seen_for_current_user now user b = (any, b') \<Longrightarrow> inbox_step b b'"
| summary: "get_feedback_summary now user b = (counts, b') \<Longrightarrow> inbox_step b b'"
| hide: "hide_inbox_message_for_current_user now user kind i b = Inr b' \<Longrightarrow> inbox_step b b'"
| release: "inbox_step b (b\<lparr>ib_release := notes\<rparr>)"  \<comment> \<open>any handler of the release notes\<close>

definition empty_inbox :: inbox where
  "empty_inbox = \<lparr>ib_feedback = empty_table, ib_release = \<lparr>rs_notes = empty_table, rs_deliveries = empty_table,
     rs_hidden = empty_table\<rparr>\<rparr>"

text \<open>Every step inserts a new ticket, or changes some tickets in a way that is known.\<close>

inductive ticket_change :: "user_feedback \<Rightarrow> user_feedback \<Rightarrow> bool" where
  again: "ticket_change f (seen_again now f)"
| answered: "ticket_change f (f\<lparr>fb_reply_message := Some m, fb_replied_at := Some now, fb_replied_by := Some user,
    fb_reply_seen_at := None, fb_status := lit ''IN_PROGRESS''\<rparr>)"
| answered_closed: "fb_resolved_at f = None \<Longrightarrow>
    ticket_change f (f\<lparr>fb_reply_message := Some m, fb_replied_at := Some now, fb_replied_by := Some user,
      fb_reply_seen_at := None, fb_resolved_at := Some now, fb_closed_by := Some user, fb_status := lit ''RESOLVED''\<rparr>)"
| closed: "fb_resolved_at f = None \<Longrightarrow>
    ticket_change f (f\<lparr>fb_resolved_at := Some now, fb_closed_by := Some user, fb_status := lit ''RESOLVED''\<rparr>)"
| acknowledged: "fb_resolved_at f = None \<Longrightarrow> ticket_change f (set_details now user (d :: feedback_details) (f\<lparr>fb_status := lit ''ACKED'',
    fb_acknowledged_at := Some now, fb_acknowledged_by := Some user\<rparr>))"
| relabelled: "ticket_change f (f\<lparr>fb_category := c, fb_priority := p, fb_source := s\<rparr>)"
| moved: "apply_feedback_status_transition now user status f = Inr f' \<Longrightarrow> ticket_change f f'"
| detailed: "ticket_change f (set_details now user (d :: feedback_details) f)"
| read_reply: "fb_replied_at f \<noteq> None \<Longrightarrow> ticket_change f (f\<lparr>fb_reply_seen_at := Some now\<rparr>)"

inductive feedback_change :: "user_feedback table \<Rightarrow> user_feedback table \<Rightarrow> bool" where
  same: "feedback_change t t"
| put: "feedback_change t t' \<Longrightarrow> tget t' i = Some f \<Longrightarrow> ticket_change\<^sup>*\<^sup>* f f' \<Longrightarrow> feedback_change t (tput i f' t')"

inductive_cases inbox_stepE: "inbox_step b b'"

lemma change_one: "tget t i = Some f \<Longrightarrow> ticket_change\<^sup>*\<^sup>* f f' \<Longrightarrow> feedback_change t (tput i f' t)"
  by (rule feedback_change.put [OF feedback_change.same])

lemma with_feedback_change:
  assumes "with_feedback user i change b = Inr (r, b')"
    "\<And>f f'. change f = Inr f' \<Longrightarrow> ticket_change\<^sup>*\<^sup>* f f'"
  shows "feedback_change (ib_feedback b) (ib_feedback b')"
proof -
  from assms(1) obtain f f' where "tget (ib_feedback b) i = Some f" "change f = Inr f'" "b' = put_feedback i f' b"
    by (auto simp: with_feedback_def bindE_eq_Inr split: option.splits)
  then show ?thesis by (auto simp: put_feedback_def intro!: change_one assms(2))
qed

lemma reply_change:
  assumes "reply_to_feedback_for_admin now user i m close b = Inr (r, b')"
  shows "feedback_change (ib_feedback b) (ib_feedback b')"
  using assms unfolding reply_to_feedback_for_admin_def
  by (rule with_feedback_change)
    (auto simp: Let_def split: if_splits intro!: r_into_rtranclp ticket_change.answered ticket_change.answered_closed)

lemma close_change:
  assumes "close_feedback_for_admin now user i b = Inr (r, b')"
  shows "feedback_change (ib_feedback b) (ib_feedback b')"
  using assms unfolding close_feedback_for_admin_def
  by (rule with_feedback_change) (auto split: if_splits intro!: r_into_rtranclp ticket_change.closed)

lemma acknowledge_change:
  assumes "acknowledge_feedback_for_admin now user i d b = Inr (r, b')"
  shows "feedback_change (ib_feedback b) (ib_feedback b')"
  using assms unfolding acknowledge_feedback_for_admin_def
  by (rule with_feedback_change) (auto split: if_splits intro!: r_into_rtranclp ticket_change.acknowledged)

lemma relabel:
  "ticket_change f (case c of None \<Rightarrow> f | Some v \<Rightarrow> f\<lparr>fb_category := v\<rparr>)"
  "ticket_change f (case c of None \<Rightarrow> f | Some v \<Rightarrow> f\<lparr>fb_priority := v\<rparr>)"
  "ticket_change f (case c of None \<Rightarrow> f | Some v \<Rightarrow> f\<lparr>fb_source := v\<rparr>)"
proof -
  have f: "f = f\<lparr>fb_category := fb_category f, fb_priority := fb_priority f, fb_source := fb_source f\<rparr>" by simp
  have "ticket_change f f" by (subst (2) f) (rule ticket_change.relabelled)
  moreover have "ticket_change f (f\<lparr>fb_category := v\<rparr>)" "ticket_change f (f\<lparr>fb_priority := v\<rparr>)"
    "ticket_change f (f\<lparr>fb_source := v\<rparr>)" for v
    using ticket_change.relabelled [where f = f and c = v and p = "fb_priority f" and s = "fb_source f"]
      ticket_change.relabelled [where f = f and c = "fb_category f" and p = v and s = "fb_source f"]
      ticket_change.relabelled [where f = f and c = "fb_category f" and p = "fb_priority f" and s = v]
    by simp_all
  ultimately show "ticket_change f (case c of None \<Rightarrow> f | Some v \<Rightarrow> f\<lparr>fb_category := v\<rparr>)"
    "ticket_change f (case c of None \<Rightarrow> f | Some v \<Rightarrow> f\<lparr>fb_priority := v\<rparr>)"
    "ticket_change f (case c of None \<Rightarrow> f | Some v \<Rightarrow> f\<lparr>fb_source := v\<rparr>)"
    by (auto split: option.split)
qed

lemma classify_change:
  assumes "classify_feedback_for_admin now user i p b = Inr (r, b')"
  shows "feedback_change (ib_feedback b) (ib_feedback b')"
  using assms unfolding classify_feedback_for_admin_def
proof (rule with_feedback_change)
  fix f f' :: user_feedback
  define f1 where "f1 = (case field_value (fbl_category p) of None \<Rightarrow> f | Some v \<Rightarrow> f\<lparr>fb_category := v\<rparr>)"
  define f2 where "f2 = (case field_value (fbl_priority p) of None \<Rightarrow> f1 | Some v \<Rightarrow> f1\<lparr>fb_priority := v\<rparr>)"
  define f3 where "f3 = (case field_value (fbl_source p) of None \<Rightarrow> f2 | Some v \<Rightarrow> f2\<lparr>fb_source := v\<rparr>)"
  assume "(let f1 = (case field_value (fbl_category p) of None \<Rightarrow> f | Some v \<Rightarrow> f\<lparr>fb_category := v\<rparr>);
           f2 = (case field_value (fbl_priority p) of None \<Rightarrow> f1 | Some v \<Rightarrow> f1\<lparr>fb_priority := v\<rparr>);
           f3 = (case field_value (fbl_source p) of None \<Rightarrow> f2 | Some v \<Rightarrow> f2\<lparr>fb_source := v\<rparr>)
       in bindE (case fbl_status p of None \<Rightarrow> Inr f3
            | Some v \<Rightarrow> apply_feedback_status_transition now user
                (case v of None \<Rightarrow> lit ''OPEN'' | Some s \<Rightarrow> if s = [] then lit ''OPEN'' else s) f3) (\<lambda>f4.
          Inr (set_details now user p f4))) = Inr f'"
  then obtain f4 where m: "(case fbl_status p of None \<Rightarrow> Inr f3
      | Some v \<Rightarrow> apply_feedback_status_transition now user
          (case v of None \<Rightarrow> lit ''OPEN'' | Some s \<Rightarrow> if s = [] then lit ''OPEN'' else s) f3) = Inr f4"
    and f': "f' = set_details now user p f4"
    unfolding f1_def [symmetric] f2_def [symmetric] f3_def [symmetric] Let_def
    by (auto simp: bindE_eq_Inr)
  have "ticket_change\<^sup>*\<^sup>* f f3"
    using relabel(1) [of f] relabel(2) [of f1] relabel(3) [of f2] unfolding f1_def f2_def f3_def
    by (meson converse_rtranclp_into_rtranclp r_into_rtranclp)
  also have "ticket_change\<^sup>*\<^sup>* f3 f4"
    using m by (auto split: option.splits intro: ticket_change.moved)
  also have "ticket_change\<^sup>*\<^sup>* f4 f'" unfolding f'
    using ticket_change.detailed [of f4 now user "feedback_details.truncate p"]
    by (intro r_into_rtranclp) (simp add: set_details_def feedback_details.truncate_def)
  finally show "ticket_change\<^sup>*\<^sup>* f f'" .
qed

lemma seen_change:
  assumes "twf (ib_feedback b)" "mark_feedback_seen_for_current_user now user b = (any, b')"
  shows "feedback_change (ib_feedback b) (ib_feedback b')"
proof -
  have "feedback_change t (fold (\<lambda>(i, f). tput i (f\<lparr>fb_reply_seen_at := Some now\<rparr>)) xs t')"
    if "feedback_change t t'" "distinct (map fst xs)" "\<forall>(i, f) \<in> set xs. tget t' i = Some f \<and> fb_replied_at f \<noteq> None"
    for xs t t'
    using that
  proof (induction xs arbitrary: t')
    case (Cons x xs)
    obtain i f where x: "x = (i, f)" by (cases x)
    have "feedback_change t (tput i (f\<lparr>fb_reply_seen_at := Some now\<rparr>) t')"
      using Cons.prems x by (auto intro!: feedback_change.put r_into_rtranclp ticket_change.read_reply)
    moreover have "\<forall>(j, g) \<in> set xs. tget (tput i (f\<lparr>fb_reply_seen_at := Some now\<rparr>) t') j = Some g
        \<and> fb_replied_at g \<noteq> None"
      using Cons.prems x by (force simp: tbl.get_put)
    ultimately show ?case using Cons x by simp
  qed simp
  note this [OF feedback_change.same]
  moreover have "distinct (map fst (filter (\<lambda>(i, f). i \<notin> set (hidden_feedback_ids user b)) (tselect P (ib_feedback b))))" for P
    using assms(1) by (intro distinct_map_filter tbl.select_distinct)
  ultimately show ?thesis
    using assms by (auto simp: mark_feedback_seen_for_current_user_def Let_def tbl.select_iff
        intro: feedback_change.same)
qed

lemma frame_steps:
  "get_feedback_summary now user b = (counts, b') \<Longrightarrow> ib_feedback b' = ib_feedback b"
  "hide_inbox_message_for_current_user now user kind i b = Inr b' \<Longrightarrow> ib_feedback b' = ib_feedback b"
  by (auto simp: get_feedback_summary_def hide_inbox_message_for_current_user_def Let_def bindE_eq_Inr split: if_splits)

text \<open>What a step does to the tickets: a submission, or changes of tickets that exist.\<close>

lemma inbox_step_change:
  assumes "inbox_step b b'" "twf (ib_feedback b)"
  obtains (submitted) now user p r where "submit_feedback now user p b = Inr (r, b')"
  | (changed) "feedback_change (ib_feedback b) (ib_feedback b')"
  using assms(1)
  by (rule inbox_stepE)
    (use assms(2) that in \<open>auto simp: frame_steps intro: feedback_change.same reply_change close_change
      acknowledge_change classify_change seen_change\<close>)

section \<open>Tickets in reachable states\<close>

definition paired :: "'a option \<Rightarrow> 'b option \<Rightarrow> bool" where
  "paired x y \<longleftrightarrow> (x = None \<longleftrightarrow> y = None)"

lemma paired_simps [simp]:
  "paired None y \<longleftrightarrow> y = None" "paired x None \<longleftrightarrow> x = None"
  "paired (Some v) y \<longleftrightarrow> y \<noteq> None" "paired x (Some w) \<longleftrightarrow> x \<noteq> None"
  by (auto simp: paired_def)

definition ticket_ok :: "user_feedback \<Rightarrow> bool" where
  "ticket_ok f \<longleftrightarrow> paired (fb_resolved_at f) (fb_closed_by f)
     \<and> (fb_status f = lit ''RESOLVED'' \<longrightarrow> fb_resolved_at f \<noteq> None)
     \<and> paired (fb_acknowledged_at f) (fb_acknowledged_by f)
     \<and> paired (fb_replied_at f) (fb_replied_by f) \<and> paired (fb_replied_at f) (fb_reply_message f)
     \<and> (fb_reply_seen_at f \<noteq> None \<longrightarrow> fb_replied_at f \<noteq> None) \<and> 1 \<le> fb_occurrence_count f"

lemma status_names [simp]:
  "lit ''RESOLVED'' \<noteq> lit ''OPEN''" "lit ''RESOLVED'' \<noteq> lit ''ACKED''" "lit ''RESOLVED'' \<noteq> lit ''IN_PROGRESS''"
  "lit ''RESOLVED'' \<noteq> lit ''SILENCED''" "lit ''OPEN'' \<noteq> lit ''RESOLVED''" "lit ''ACKED'' \<noteq> lit ''RESOLVED''"
  "lit ''IN_PROGRESS'' \<noteq> lit ''RESOLVED''" "lit ''SILENCED'' \<noteq> lit ''RESOLVED''"
  by (simp_all add: lit_def)

lemma set_details_fields [simp]:
  "fb_user (set_details now user d f) = fb_user f" "fb_created_at (set_details now user d f) = fb_created_at f"
  "fb_resolved_at (set_details now user d f) = fb_resolved_at f" "fb_closed_by (set_details now user d f) = fb_closed_by f"
  "fb_status (set_details now user d f) = fb_status f"
  "fb_acknowledged_at (set_details now user d f) = fb_acknowledged_at f"
  "fb_acknowledged_by (set_details now user d f) = fb_acknowledged_by f"
  "fb_replied_at (set_details now user d f) = fb_replied_at f" "fb_replied_by (set_details now user d f) = fb_replied_by f"
  "fb_reply_message (set_details now user d f) = fb_reply_message f"
  "fb_reply_seen_at (set_details now user d f) = fb_reply_seen_at f"
  "fb_occurrence_count (set_details now user d f) = fb_occurrence_count f"
  by (simp_all add: set_details_def Let_def split: option.split)

lemma transition_ok: "apply_feedback_status_transition now user status f = Inr f' \<Longrightarrow> ticket_ok f \<Longrightarrow> ticket_ok f'"
  by (auto simp: apply_feedback_status_transition_def Let_def split: if_splits)
    (simp_all add: ticket_ok_def del: not_None_eq)

lemma seen_again_ok: "ticket_ok f \<Longrightarrow> ticket_ok (seen_again now f)"
  by (simp add: seen_again_def ticket_ok_def Let_def del: not_None_eq)

lemma ticket_change_ok: "ticket_change f f' \<Longrightarrow> ticket_ok f \<Longrightarrow> ticket_ok f'"
  by (induction rule: ticket_change.induct)
    (simp_all add: transition_ok seen_again_ok del: not_None_eq, simp_all add: ticket_ok_def del: not_None_eq)

lemma ticket_change_owner: "ticket_change f f' \<Longrightarrow> fb_user f' = fb_user f \<and> fb_created_at f' = fb_created_at f"
  by (induction rule: ticket_change.induct)
    (auto simp: seen_again_def apply_feedback_status_transition_def Let_def split: if_splits)

lemma ticket_changes_ok: "ticket_change\<^sup>*\<^sup>* f f' \<Longrightarrow> ticket_ok f \<Longrightarrow> ticket_ok f'"
  by (induction rule: rtranclp_induct) (auto simp: ticket_change_ok)

lemma ticket_changes_owner:
  "ticket_change\<^sup>*\<^sup>* f f' \<Longrightarrow> fb_user f' = fb_user f \<and> fb_created_at f' = fb_created_at f"
  by (induction rule: rtranclp_induct) (auto dest: ticket_change_owner)

lemma new_feedback_ok: "ticket_ok (new_feedback now user m c)"
  by (simp add: new_feedback_def ticket_ok_def Let_def)

definition inbox_ok :: "inbox \<Rightarrow> bool" where
  "inbox_ok b \<longleftrightarrow> twf (ib_feedback b) \<and> (\<forall>i f. tget (ib_feedback b) i = Some f \<longrightarrow> ticket_ok f)"

lemma feedback_change_ok:
  "feedback_change t t' \<Longrightarrow> twf t \<Longrightarrow> (\<forall>i f. tget t i = Some f \<longrightarrow> ticket_ok f)
   \<Longrightarrow> twf t' \<and> (\<forall>i f. tget t' i = Some f \<longrightarrow> ticket_ok f)"
  by (induction rule: feedback_change.induct) (auto simp: tbl.get_put ticket_changes_ok split: if_splits)

lemma duplicate_found:
  "duplicate_of now user c b = Some (i, f) \<Longrightarrow> twf (ib_feedback b) \<Longrightarrow> tget (ib_feedback b) i = Some f"
proof -
  assume d: "duplicate_of now user c b = Some (i, f)" and t: "twf (ib_feedback b)"
  then obtain P qs where "rev (sort_key (\<lambda>(i, f). (fb_created_at f, i)) (tselect P (ib_feedback b))) = (i, f) # qs"
    by (auto simp: duplicate_of_def split: option.splits if_splits list.splits)
  then have "(i, f) \<in> set (rev (sort_key (\<lambda>(i, f). (fb_created_at f, i)) (tselect P (ib_feedback b))))"
    by simp
  with t show ?thesis by (simp add: tbl.select_iff)
qed

text \<open>What a submission does: count one more occurrence, or open a ticket within the limit.\<close>

lemma submit_cases:
  assumes "submit_feedback now user p b = Inr (r, b')" "twf (ib_feedback b)"
  obtains (again) "feedback_change (ib_feedback b) (ib_feedback b')"
  | (opened) m c where "ib_feedback b' = snd (tinsert (new_feedback now user m c) (ib_feedback b))"
      "user \<noteq> lit ''admin'' \<Longrightarrow> submissions_today now user b < MAX_DAILY_FEEDBACK_SUBMISSIONS"
proof -
  define c where "c = classify_submission user p"
  have lim: "submissions_today now user b < MAX_DAILY_FEEDBACK_SUBMISSIONS" if "user \<noteq> lit ''admin''"
    using assms(1) that by (auto simp: submit_feedback_def bindE_eq_Inr classify_submission_def Let_def assertE_def
        split: if_splits)
  show thesis
  proof (cases "duplicate_of now user c b")
    case None
    with assms(1) have "ib_feedback b' = snd (tinsert (new_feedback now user (fbc_message p) c) (ib_feedback b))"
      by (auto simp: submit_feedback_def bindE_eq_Inr Let_def c_def [symmetric] split: prod.splits)
    with lim opened show thesis by blast
  next
    case (Some q)
    then obtain i f where d: "duplicate_of now user c b = Some (i, f)" by (cases q) auto
    with assms(1) have "ib_feedback b' = tput i (seen_again now f) (ib_feedback b)"
      by (auto simp: submit_feedback_def bindE_eq_Inr Let_def c_def [symmetric] put_feedback_def)
    moreover have "tget (ib_feedback b) i = Some f" using duplicate_found [OF d assms(2)] .
    ultimately show thesis
      using again by (auto intro!: change_one r_into_rtranclp ticket_change.again)
  qed
qed

lemma step_ok: "inbox_step b b' \<Longrightarrow> inbox_ok b \<Longrightarrow> inbox_ok b'"
proof -
  assume b: "inbox_step b b'" "inbox_ok b"
  have ch: "inbox_ok b'" if "feedback_change (ib_feedback b) (ib_feedback b')"
    using feedback_change_ok [OF that] b(2) by (simp add: inbox_ok_def)
  from b have t: "twf (ib_feedback b)" by (simp add: inbox_ok_def)
  from b(1) t show "inbox_ok b'"
  proof (cases rule: inbox_step_change)
    case (submitted now user p r)
    from this t show ?thesis
      by (rule submit_cases)
        (use b(2) ch in \<open>auto simp: inbox_ok_def tbl.get_insert new_feedback_ok split: if_splits\<close>)
  qed (rule ch)
qed

lemma reachable_ok: "inbox_step\<^sup>*\<^sup>* empty_inbox b \<Longrightarrow> inbox_ok b"
proof (induction rule: rtranclp_induct)
  case base
  show ?case by (simp add: inbox_ok_def empty_inbox_def tget_def empty_table_def)
       (simp add: twf_def)
qed (rule step_ok)

text \<open>
  C31: in every state the inbox can reach, a ticket is resolved exactly if someone closed it, a
  ticket whose stored status is RESOLVED is resolved, and the status shown is RESOLVED exactly for
  resolved tickets; acknowledgements and replies carry their author, a reply is only marked as seen
  if there is one, and every ticket has occurred at least once.
\<close>

theorem tickets_are_consistent:
  assumes "inbox_step\<^sup>*\<^sup>* empty_inbox b" "tget (ib_feedback b) i = Some f"
  shows "ticket_ok f \<and> (derive_feedback_status f = lit ''RESOLVED'' \<longleftrightarrow> fb_closed_by f \<noteq> None)"
proof -
  have "ticket_ok f" using reachable_ok [OF assms(1)] assms(2) by (auto simp: inbox_ok_def)
  moreover have "derive_feedback_status f = lit ''RESOLVED'' \<longleftrightarrow> fb_resolved_at f \<noteq> None"
    by (auto simp: derive_feedback_status_def Let_def)
  ultimately show ?thesis by (auto simp: ticket_ok_def paired_def)
qed

section \<open>The daily limit\<close>

definition opened_between :: "datetime \<Rightarrow> datetime \<Rightarrow> pystr \<Rightarrow> user_feedback table \<Rightarrow> nat" where
  "opened_between from to user t = length (tselect (\<lambda>f. fb_user f = user \<and> fb_created_at f \<ge> from \<and> fb_created_at f < to) t)"

lemma submissions_opened:
  "submissions_today now user b = opened_between (fst (feedback_day_window now)) (snd (feedback_day_window now)) user (ib_feedback b)"
  by (simp add: submissions_today_def opened_between_def case_prod_unfold Let_def)

lemma day_window_eq:
  "t \<ge> fst (feedback_day_window now) \<Longrightarrow> t < snd (feedback_day_window now) \<Longrightarrow> feedback_day_window t = feedback_day_window now"
proof -
  assume a: "t \<ge> fst (feedback_day_window now)" "t < snd (feedback_day_window now)"
  have w: "feedback_day_window x = ((x + LOCAL_OFFSET) div US_DAY * US_DAY - LOCAL_OFFSET,
      ((x + LOCAL_OFFSET) div US_DAY + 1) * US_DAY - LOCAL_OFFSET)" for x
    using div_mult_mod_eq [of "x + LOCAL_OFFSET" US_DAY]
    by (simp add: feedback_day_window_def Let_def algebra_simps)
  have "0 < US_DAY" by (simp add: US_DAY_def)
  with a have "(t + LOCAL_OFFSET) div US_DAY = (now + LOCAL_OFFSET) div US_DAY"
    by (intro int_div_pos_eq [where r = "t + LOCAL_OFFSET - (now + LOCAL_OFFSET) div US_DAY * US_DAY"])
      (simp_all add: w algebra_simps)
  then show "feedback_day_window t = feedback_day_window now" by (simp add: w)
qed

lemma ticket_changes_opened:
  assumes "feedback_change t t'" "twf t"
  shows "twf t' \<and> opened_between from to user t' = opened_between from to user t"
  using assms
proof (induction rule: feedback_change.induct)
  case (put t t' i f f')
  let ?P = "\<lambda>f. fb_user f = user \<and> fb_created_at f \<ge> from \<and> fb_created_at f < to"
  have "?P f' = ?P f" using ticket_changes_owner [OF put.hyps(3)] by simp
  then have "length (tselect ?P (tput i f' t')) = length (tselect ?P t')"
    using count_tput [of t' i f ?P f'] put by (simp split: if_splits)
  with put show ?case by (simp add: opened_between_def)
qed simp

definition daily_limit_ok :: "inbox \<Rightarrow> bool" where
  "daily_limit_ok b \<longleftrightarrow> (\<forall>user now. user \<noteq> lit ''admin'' \<longrightarrow>
     submissions_today now user b \<le> MAX_DAILY_FEEDBACK_SUBMISSIONS)"

lemma opened_limit:
  assumes "daily_limit_ok b" "ib_feedback b' = snd (tinsert (new_feedback t who m c) (ib_feedback b))"
    "who \<noteq> lit ''admin'' \<Longrightarrow> submissions_today t who b < MAX_DAILY_FEEDBACK_SUBMISSIONS"
  shows "daily_limit_ok b'"
  unfolding daily_limit_ok_def
proof (intro allI impI)
  fix user now
  assume u: "user \<noteq> lit ''admin''"
  let ?w = "feedback_day_window now"
  have f: "fb_user (new_feedback t who m c) = who" "fb_created_at (new_feedback t who m c) = t"
    by (simp_all add: new_feedback_def Let_def)
  have "submissions_today now user b' = submissions_today now user b
      + (if who = user \<and> fst ?w \<le> t \<and> t < snd ?w then 1 else 0)"
    by (simp add: submissions_opened opened_between_def assms(2) tbl.select_insert f)
  moreover have "submissions_today now user b < MAX_DAILY_FEEDBACK_SUBMISSIONS"
    if "who = user" "fst ?w \<le> t" "t < snd ?w"
    using assms(3) u that day_window_eq [OF that(2,3)] by (simp add: submissions_opened)
  ultimately show "submissions_today now user b' \<le> MAX_DAILY_FEEDBACK_SUBMISSIONS"
    using assms(1) u by (auto simp: daily_limit_ok_def)
qed

lemma step_limit: "inbox_step b b' \<Longrightarrow> twf (ib_feedback b) \<Longrightarrow> daily_limit_ok b \<Longrightarrow> daily_limit_ok b'"
proof -
  assume b: "inbox_step b b'" "twf (ib_feedback b)" "daily_limit_ok b"
  have ch: "daily_limit_ok b'" if "feedback_change (ib_feedback b) (ib_feedback b')"
    using b(3) ticket_changes_opened [OF that b(2)] by (simp add: daily_limit_ok_def submissions_opened)
  from b(1,2) show "daily_limit_ok b'"
  proof (cases rule: inbox_step_change)
    case (submitted now user p r)
    from this b(2) show ?thesis
      by (rule submit_cases) (use b(3) ch in \<open>auto intro: opened_limit\<close>)
  qed (rule ch)
qed

text \<open>
  In every state the inbox can reach, no user but the administrator has opened more than three
  tickets on the same day of the server's calendar.
\<close>

theorem feedback_is_limited:
  assumes "inbox_step\<^sup>*\<^sup>* empty_inbox b" "user \<noteq> lit ''admin''"
  shows "submissions_today now user b \<le> MAX_DAILY_FEEDBACK_SUBMISSIONS"
proof -
  have "daily_limit_ok b" using assms(1)
  proof (induction rule: rtranclp_induct)
    case base
    show ?case
      by (auto simp: daily_limit_ok_def submissions_opened opened_between_def empty_inbox_def tselect_def empty_table_def)
  next
    case (step b b')
    then show ?case using reachable_ok [OF step.hyps(1)] by (auto simp: inbox_ok_def intro: step_limit)
  qed
  with assms(2) show ?thesis by (simp add: daily_limit_ok_def)
qed

section \<open>A reachable state\<close>

definition ann_message :: feedback_create where
  "ann_message = \<lparr>fbc_message = lit ''hello'', fbc_category = None, fbc_priority = None, fbc_source = None,
     fbc_fingerprint = None, fbc_dedupe_window_minutes = None\<rparr>"

definition ann_ticket :: user_feedback where
  "ann_ticket = new_feedback 7 (lit ''ann'') (lit ''hello'') (classify_submission (lit ''ann'') ann_message)"

definition ann_inbox :: inbox where
  \<comment> \<open>ann has opened a ticket\<close>
  "ann_inbox = empty_inbox\<lparr>ib_feedback := snd (tinsert ann_ticket empty_table)\<rparr>"

lemma ann_reachable: "inbox_step\<^sup>*\<^sup>* empty_inbox ann_inbox"
proof -
  have "lit ''ann'' \<noteq> lit ''admin''" by (simp add: lit_def)
  then have "duplicate_of 7 (lit ''ann'') (classify_submission (lit ''ann'') ann_message) empty_inbox = None"
    by (simp add: duplicate_of_def classify_submission_def)
  moreover have "submissions_today 7 (lit ''ann'') empty_inbox = 0"
    by (simp add: submissions_today_def feedback_day_window_def Let_def empty_inbox_def tselect_def empty_table_def)
  moreover have e: "ib_feedback empty_inbox = empty_table" "fbc_message ann_message = lit ''hello''"
    by (simp_all add: empty_inbox_def ann_message_def)
  moreover have t: "fst (tinsert ann_ticket empty_table) = 1"
    by (simp add: tinsert_def empty_table_def)
  ultimately have "submit_feedback 7 (lit ''ann'') ann_message empty_inbox = Inr (to_feedback_read 1 ann_ticket, ann_inbox)"
    by (simp add: submit_feedback_def MAX_DAILY_FEEDBACK_SUBMISSIONS_def assertE_def Let_def e ann_inbox_def
        ann_ticket_def [symmetric] t case_prod_unfold)
  then show ?thesis by (blast intro: inbox_step.submit)
qed

theorem tickets_are_consistent_witness:
  "ticket_ok ann_ticket \<and> (derive_feedback_status ann_ticket = lit ''RESOLVED'' \<longleftrightarrow> fb_closed_by ann_ticket \<noteq> None)"
  using tickets_are_consistent [OF ann_reachable, of 1 ann_ticket]
  by (simp add: ann_inbox_def tget_def tinsert_def empty_table_def)

theorem feedback_is_limited_witness:
  "submissions_today 8 (lit ''ann'') ann_inbox \<le> MAX_DAILY_FEEDBACK_SUBMISSIONS"
  by (rule feedback_is_limited [OF ann_reachable]) (simp add: lit_def)

end
