(* ===== verification/Release_Properties.thy ===== *)
theory Release_Properties
  imports Release_Notes
begin

text \<open>
  The deliveries of release notes: every user has one row, which points to the note that was
  published last.
\<close>

section \<open>One row per user\<close>

lemma filter_one_key:
  assumes "distinct (map fst xs)" "(k, v) \<in> set xs"
  shows "filter (\<lambda>(j, x). j = k) xs = [(k, v)]"
  using assms
proof (induction xs)
  case (Cons y ys)
  obtain j x where y: "y = (j, x)" by (cases y)
  show ?case
  proof (cases "j = k")
    case True
    with Cons.prems y have "v = x" "filter (\<lambda>(j, x). j = k) ys = []"
      by (auto simp: filter_empty_conv rev_image_eqI)
    with True y show ?thesis by simp
  qed (use Cons y in auto)
qed simp

definition of_user :: "pystr \<Rightarrow> release_state \<Rightarrow> (nat \<times> release_note_delivery) list" where
  "of_user u s = tselect (\<lambda>d. rd_user d = u) (rs_deliveries s)"

definition delivered :: "nat \<Rightarrow> datetime \<Rightarrow> pystr \<Rightarrow> release_state \<Rightarrow> bool" where
  \<comment> \<open>the only delivery of the user is of this note, from this time, and unread\<close>
  "delivered i date u s \<longleftrightarrow> (\<exists>k. of_user u s = [(k, \<lparr>rd_release_note = i, rd_user = u, rd_delivered_at = date,
     rd_seen_at = None\<rparr>)])"

lemma upsert_delivers:
  assumes t: "twf (rs_deliveries s)" and n: "rn_published_at n = Some date"
    and r: "upsert_release_note_stream_delivery now u i n True s = (c, s')"
  shows "twf (rs_deliveries s')" "delivered i date u s'" "v \<noteq> u \<Longrightarrow> of_user v s' = of_user v s"
proof -
  let ?L = "tselect (\<lambda>d. rd_user d = u) (rs_deliveries s)"
  have "twf (rs_deliveries s') \<and> delivered i date u s' \<and> (v \<noteq> u \<longrightarrow> of_user v s' = of_user v s)"
  proof (cases "user_deliveries s u")
    case Nil
    then have "?L = []" by (simp add: user_deliveries_def)
    moreover have "rs_deliveries s' = snd (tinsert \<lparr>rd_release_note = i, rd_user = u, rd_delivered_at = date,
        rd_seen_at = None\<rparr> (rs_deliveries s))"
      using r n Nil by (auto simp: upsert_release_note_stream_delivery_def)
    ultimately show ?thesis using t by (auto simp: delivered_def of_user_def tbl.select_insert)
  next
    case (Cons p stale)
    obtain k d where p: "p = (k, d)" by (cases p)
    have perm: "mset (p # stale) = mset ?L"
      using Cons by (metis mset_rev mset_sort user_deliveries_def)
    have "distinct (map fst ?L)" using t by (rule tbl.select_distinct)
    then have dist: "distinct (map fst (p # stale))"
      using mset_eq_imp_distinct_iff [of "map fst (p # stale)" "map fst ?L"] perm by (metis mset_map)
    have mem: "set (p # stale) = set ?L" using perm by (metis set_mset_mset)
    have kd: "tget (rs_deliveries s) k = Some d" "rd_user d = u"
      using mem p t by (auto simp: tbl.select_iff [symmetric]) (auto simp: tbl.select_iff set_eq_iff)
    define e where "e = \<lparr>rd_release_note = i, rd_user = u, rd_delivered_at = date, rd_seen_at = None\<rparr>"
    have e: "d\<lparr>rd_release_note := i, rd_delivered_at := date,
        rd_seen_at := if (rd_release_note d \<noteq> i \<or> True) \<and> rd_seen_at d \<noteq> None then None else rd_seen_at d\<rparr> = e"
      using kd(2) by (cases "rd_seen_at d") (simp_all add: e_def)
    have s': "rs_deliveries s' = tdel_ids (map fst stale) (tput k e (rs_deliveries s))"
      using r n Cons p e by (auto simp: upsert_release_note_stream_delivery_def Let_def)
    have "of_user u s' = filter (\<lambda>(j, x). j \<notin> set (map fst stale)) (tselect (\<lambda>d. rd_user d = u) (tput k e (rs_deliveries s)))"
      by (simp add: of_user_def s' tselect_tdel_ids)
    also have "\<dots> = filter (\<lambda>(j, x). j = k) (tselect (\<lambda>d. rd_user d = u) (tput k e (rs_deliveries s)))"
    proof (rule filter_cong [OF refl])
      fix q
      assume "q \<in> set (tselect (\<lambda>d. rd_user d = u) (tput k e (rs_deliveries s)))"
      moreover have "tselect (\<lambda>d. rd_user d = u) (tput k e (rs_deliveries s))
          = map (\<lambda>(i, x). if i = k then (i, e) else (i, x)) ?L"
        by (rule tselect_tput_same [OF t kd(1)]) (simp_all add: kd e_def)
      ultimately have "fst q \<in> fst ` set ?L" by (force split: if_splits)
      then have "fst q \<in> fst ` set (p # stale)" by (simp only: mem)
      then show "(case q of (j, x) \<Rightarrow> j \<notin> set (map fst stale)) = (case q of (j, x) \<Rightarrow> j = k)"
        using dist p by (cases q) auto
    qed
    also have "\<dots> = [(k, e)]"
      using t kd by (intro filter_one_key tbl.select_distinct) (auto simp: tbl.select_iff tbl.get_put e_def)
    finally have u: "of_user u s' = [(k, e)]" .
    have "of_user v s' = of_user v s" if "v \<noteq> u"
    proof -
      have "of_user v s' = filter (\<lambda>(j, x). j \<notin> set (map fst stale)) (of_user v s)"
        using tbl.select_put_frame [OF t kd(1), of "\<lambda>d. rd_user d = v" e] that kd(2)
        by (simp add: of_user_def s' tselect_tdel_ids e_def)
      also have "\<dots> = of_user v s"
      proof (rule filter_True, clarify)
        fix j x
        assume "(j, x) \<in> set (of_user v s)" "j \<in> set (map fst stale)"
        moreover from this(2) obtain y where "(j, y) \<in> set (p # stale)"
          by (metis (no_types, lifting) imageE list.set_intros(2) list.set_map prod.collapse)
        then have "(j, y) \<in> set ?L" by (simp only: mem)
        ultimately show False using t that by (auto simp: of_user_def tbl.select_iff)
      qed
      finally show ?thesis .
    qed
    with u t s' show ?thesis by (auto simp: delivered_def e_def)
  qed
  then show "twf (rs_deliveries s')" "delivered i date u s'" "v \<noteq> u \<Longrightarrow> of_user v s' = of_user v s" by auto
qed

lemma sync_delivers:
  assumes "twf (rs_deliveries s)" "rn_published_at n = Some date"
  shows "twf (rs_deliveries (sync_release_note_deliveries_for_all_users now users i n True s))
    \<and> (if u \<in> set users then delivered i date u (sync_release_note_deliveries_for_all_users now users i n True s)
       else of_user u (sync_release_note_deliveries_for_all_users now users i n True s) = of_user u s)"
  using assms(1)
proof (induction users arbitrary: s)
  case (Cons v users)
  obtain c s1 where s1: "upsert_release_note_stream_delivery now v i n True s = (c, s1)" by fastforce
  note up = upsert_delivers [OF Cons.prems assms(2) s1]
  show ?case
    using Cons.IH [OF up(1)] up(2) up(3) [of u]
    by (auto simp: sync_release_note_deliveries_for_all_users_def s1 delivered_def split: if_splits)
qed (simp add: sync_release_note_deliveries_for_all_users_def)

lemma sync_keeps_notes [simp]:
  "rs_notes (sync_release_note_deliveries_for_all_users now users i n reset s) = rs_notes s"
  unfolding sync_release_note_deliveries_for_all_users_def
  by (induction users arbitrary: s)
    (simp_all add: upsert_release_note_stream_delivery_def Let_def split: list.split)

text \<open>
  C33: when the administrator publishes a note, every registered user has exactly one delivery
  afterwards: it points to this note, is dated with its publication and is unread. Deliveries of
  anyone else stay as they were.
\<close>

theorem published_note_reaches_everyone:
  assumes "publish_release_note_for_admin now users user i s = Inr (r, s')" "twf (rs_deliveries s)"
  shows "\<exists>n. tget (rs_notes s') i = Some n \<and> (\<exists>date. rn_published_at n = Some date
    \<and> (if u \<in> set users then delivered i date u s' else of_user u s' = of_user u s))"
proof -
  from assms(1) obtain n where n: "tget (rs_notes s) i = Some n" "published now users i n s = (r, s')"
    by (auto simp: publish_release_note_for_admin_def bindE_eq_Inr split: option.splits)
  define n1 where "n1 = (if rn_published_at n = None then n\<lparr>rn_published_at := Some now\<rparr> else n)"
  define s1 where "s1 = (if rn_published_at n = None then s\<lparr>rs_notes := tput i n1 (rs_notes s)\<rparr> else s)"
  have s': "s' = sync_release_note_deliveries_for_all_users now users i n1 True s1"
    using n(2) by (auto simp: published_def publish_release_note_def n1_def s1_def Let_def split: if_splits)
  obtain date where date: "rn_published_at n1 = Some date" by (cases "rn_published_at n") (auto simp: n1_def)
  have "tget (rs_notes s') i = Some n1"
    using n(1) by (auto simp: s' sync_keeps_notes s1_def n1_def tbl.get_put)
  moreover have "rs_deliveries s1 = rs_deliveries s" by (simp add: s1_def)
  ultimately show ?thesis
    using sync_delivers [of s1 n1 date now users i u] assms(2) date by (auto simp: s' of_user_def)
qed

definition draft_note :: release_note where
  "draft_note = \<lparr>rn_version = lit ''1.0.0'', rn_title = lit ''First'', rn_content = lit ''Hello'',
     rn_source_feedback_ids = None, rn_created_by = lit ''admin'', rn_created_at = 0, rn_published_at = None\<rparr>"

definition draft_state :: release_state where
  "draft_state = \<lparr>rs_notes = snd (tinsert draft_note empty_table), rs_deliveries = empty_table, rs_hidden = empty_table\<rparr>"

theorem published_note_reaches_everyone_witness:
  "\<exists>r s' date. publish_release_note_for_admin 5 [lit ''admin'', lit ''ann''] (lit ''admin'') 1 draft_state = Inr (r, s')
    \<and> delivered 1 date (lit ''ann'') s'"
proof -
  obtain r s' where p: "published 5 [lit ''admin'', lit ''ann''] 1 draft_note draft_state = (r, s')" by fastforce
  then have "publish_release_note_for_admin 5 [lit ''admin'', lit ''ann''] (lit ''admin'') 1 draft_state = Inr (r, s')"
    by (simp add: publish_release_note_for_admin_def require_admin_def assertE_def draft_state_def tget_def
        tinsert_def empty_table_def)
  moreover from this have "\<exists>n. tget (rs_notes s') 1 = Some n \<and> (\<exists>date. rn_published_at n = Some date
      \<and> (if lit ''ann'' \<in> set [lit ''admin'', lit ''ann''] then delivered 1 date (lit ''ann'') s'
         else of_user (lit ''ann'') s' = of_user (lit ''ann'') draft_state))"
    by (rule published_note_reaches_everyone) (simp add: draft_state_def)
  ultimately show ?thesis by auto
qed

end
