(* ===== verification/Dashboard_Properties.thy ===== *)
theory Dashboard_Properties
  imports Dashboard_Corrections Scenario
begin

text \<open>
  Properties of the dashboard's series: what a timeline shows, and what a correction changes.
\<close>

section \<open>Timelines\<close>

lemma display_hundredths:
  "display_money (Dec n (-2)) = Inr m \<Longrightarrow> m = n" "display_percent (Dec n (-2)) = Inr m \<Longrightarrow> m = n"
  by (auto simp: display_money_def display_percent_def dec_quantize_def scale_to_def Let_def split: if_splits)

text \<open>
  A timeline has one point for each bucket that has a snapshot, in the order of time, and the
  value of a point is that of a snapshot of its bucket than which no other of the bucket is newer.
\<close>

theorem timeline_shows_newest:
  assumes "build_timeline snaps g = Inr points"
  shows "map tp_timestamp_utc points = sorted_list_of_set ((\<lambda>s. bucket_start g (pf_created_at s)) ` set snaps)
    \<and> (\<forall>p \<in> set points. tp_label p = bucket_label (tp_timestamp_utc p) g \<and>
        (\<exists>s \<in> set snaps. bucket_start g (pf_created_at s) = tp_timestamp_utc p \<and> tp_value p = pf_total_value_cny s
          \<and> (\<forall>t \<in> set snaps. bucket_start g (pf_created_at t) = tp_timestamp_utc p \<longrightarrow> pf_created_at t \<le> pf_created_at s)))"
proof (intro conjI ballI)
  note b = assms [unfolded build_timeline_def]
  show "map tp_timestamp_utc points = sorted_list_of_set ((\<lambda>s. bucket_start g (pf_created_at s)) ` set snaps)"
    using b by (rule timeline_buckets)
  fix p
  assume "p \<in> set points"
  from timeline_point [OF b this] obtain s where s: "s \<in> set snaps" "bucket_start g (pf_created_at s) = tp_timestamp_utc p"
      "display_money (Dec (pf_total_value_cny s) (-2)) = Inr (tp_value p)"
      "tp_label p = bucket_label (tp_timestamp_utc p) g"
      "\<And>t. t \<in> set snaps \<Longrightarrow> bucket_start g (pf_created_at t) = tp_timestamp_utc p \<Longrightarrow> pf_created_at t \<le> pf_created_at s"
    by blast
  then show "tp_label p = bucket_label (tp_timestamp_utc p) g" by simp
  show "\<exists>s \<in> set snaps. bucket_start g (pf_created_at s) = tp_timestamp_utc p \<and> tp_value p = pf_total_value_cny s
      \<and> (\<forall>t \<in> set snaps. bucket_start g (pf_created_at t) = tp_timestamp_utc p \<longrightarrow> pf_created_at t \<le> pf_created_at s)"
    using s display_hundredths(1) [OF s(3)] by blast
qed

theorem timeline_shows_newest_witness:
  "\<exists>points. build_timeline [\<lparr>pf_user = lit ''ada'', pf_total_value_cny = 100, pf_created_at = 5\<rparr>,
      \<lparr>pf_user = lit ''ada'', pf_total_value_cny = 200, pf_created_at = 9\<rparr>] G_HOUR = Inr points
    \<and> map tp_timestamp_utc points = [0]"
proof -
  let ?snaps = "[\<lparr>pf_user = lit ''ada'', pf_total_value_cny = 100, pf_created_at = 5\<rparr>,
      \<lparr>pf_user = lit ''ada'', pf_total_value_cny = 200, pf_created_at = 9\<rparr>]"
  have b: "bucket_start G_HOUR 5 = 0" "bucket_start G_HOUR 9 = 0"
    by (simp_all add: bucket_start_def LOCAL_OFFSET_def US_HOUR_def)
  obtain points where p: "build_timeline ?snaps G_HOUR = Inr points"
    by (simp add: build_timeline_def build_timeline_from_snapshots_def b Let_def display_money_def dec_quantize_def
        scale_to_def ndigits_prec sort_key_def del: One_nat_def)
  with timeline_shows_newest [OF p] show ?thesis by (simp add: b)
qed

section \<open>Corrections\<close>

lemma insort_key_snoc: "f a \<le> f x \<Longrightarrow> insort_key f a (ys @ [x]) = insort_key f a ys @ [x]"
  by (induction ys) auto

lemma sort_key_snoc: "\<forall>y \<in> set xs. f y \<le> f x \<Longrightarrow> sort_key f (xs @ [x]) = sort_key f xs @ [x]"
  by (induction xs) (auto simp: insort_key_snoc)

lemma map_of_fold_update:
  "map_of (fold (\<lambda>(i, c). AList.update (key c) c) xs acc) k =
     (let found = filter (\<lambda>(i, c). key c = k) xs in
      if found = [] then map_of acc k else Some (snd (last found)))"
  by (induction xs arbitrary: acc) (auto simp: update_conv' Let_def)

definition key_of :: "dashboard_correction \<Rightarrow> correction_key" where
  "key_of c = correction_key (dc_series_scope c) (dc_symbol c) (dc_granularity c) (dc_bucket_utc c)"

lemma lookup_after_insert:
  assumes "\<And>j d. (j, d) \<in> set (rows t) \<Longrightarrow> dc_user d = dc_user c \<Longrightarrow> dc_updated_at d \<le> dc_updated_at c"
  shows "map_of (load_dashboard_correction_lookup (snd (tinsert c t)) (dc_user c)) k =
    (if key_of c = k then Some c else map_of (load_dashboard_correction_lookup t (dc_user c)) k)"
proof -
  let ?f = "\<lambda>(i, c). (dc_bucket_utc c, dc_updated_at c)" and ?P = "\<lambda>(i, c). key_of c = k"
  let ?xs = "tselect (\<lambda>d. dc_user d = dc_user c) t"
  have new: "tselect (\<lambda>d. dc_user d = dc_user c) (snd (tinsert c t)) = ?xs @ [(next_id t, c)]"
    by (simp add: tselect_def tinsert_def)
  have "filter ?P (sort_key ?f (?xs @ [(next_id t, c)])) =
      filter ?P (sort_key ?f ?xs) @ (if key_of c = k then [(next_id t, c)] else [])"
  proof (cases "key_of c = k")
    case True
    have "\<forall>y \<in> set (filter ?P ?xs). ?f y \<le> ?f (next_id t, c)"
      using True assms by (auto simp: key_of_def correction_key_def tselect_def)
    then have "sort_key ?f (filter ?P ?xs @ [(next_id t, c)]) = sort_key ?f (filter ?P ?xs) @ [(next_id t, c)]"
      by (rule sort_key_snoc)
    with True show ?thesis by (simp add: filter_sort)
  qed (simp add: filter_sort)
  then show ?thesis
    unfolding load_dashboard_correction_lookup_def new key_of_def [symmetric]
    by (simp add: map_of_fold_update [of key_of] Let_def)
qed

lemma apply_cons:
  "apply_dashboard_corrections l sc g sy (p # ps) =
     bindE (apply_dashboard_corrections l sc g sy [p]) (\<lambda>a.
     bindE (apply_dashboard_corrections l sc g sy ps) (\<lambda>b. Inr (a @ b)))"
  by (cases "map_of l (correction_key sc sy g (tp_timestamp_utc p))")
    (auto simp: bindE_def split: sum.splits option.splits)

lemma corrected_value_is_stable:
  "display_corrected_value sc v = Inr n \<Longrightarrow> display_corrected_value sc (n * 10 ^ 6) = Inr n"
  by (auto simp: display_corrected_value_def display_money_def display_percent_def dec_quantize_def of_fixed_def
      Let_def half_up_div_exact split: if_splits)

definition requested_point :: "pystr \<Rightarrow> pystr option \<Rightarrow> pystr \<Rightarrow> datetime \<Rightarrow> pystr \<Rightarrow> pystr \<Rightarrow> pystr option \<Rightarrow> datetime \<Rightarrow> bool" where
  \<comment> \<open>the request is for the point at this time of the series: scope and granularity are compared after
    stripping, whatever their case; the symbol counts for the return of one holding only; the time is the
    start of the period with the requested instant\<close>
  "requested_point scope symbol gran instant sc g sy timestamp \<longleftrightarrow>
     py_upper (py_strip scope) = sc \<and> py_lower (py_strip gran) = g
   \<and> py_upper (case sy of None \<Rightarrow> [] | Some s \<Rightarrow> s) =
       (if sc = lit ''HOLDING_RETURN'' then py_upper (py_strip (case symbol of None \<Rightarrow> [] | Some s \<Rightarrow> s)) else [])
   \<and> (g = lit ''hour'' \<and> timestamp = bucket_start G_HOUR instant \<or> g = lit ''day'' \<and> timestamp = bucket_start G_DAY instant
      \<or> g = lit ''month'' \<and> timestamp = bucket_start G_MONTH instant \<or> g = lit ''year'' \<and> timestamp = bucket_start G_YEAR instant)"

definition corrected_point :: "pystr \<Rightarrow> pystr \<Rightarrow> dec option \<Rightarrow> timeline_point \<Rightarrow> error + timeline_point list" where
  \<comment> \<open>what the requested point is to be: gone, or with the value of the request as the series shows it\<close>
  "corrected_point scope action value p =
     (if py_upper (py_strip action) = lit ''DELETE'' then Inr []
      else bindE (liftA (quantize_decimal (the value))) (\<lambda>v.
           bindE (display_corrected_value (py_upper (py_strip scope)) v)
        (\<lambda>n. Inr [p\<lparr>tp_value := n, tp_corrected := True\<rparr>])))"

lemma normalize_choice_Inr: "normalize_choice allowed v = Inr x \<Longrightarrow> x = py_upper (py_strip v) \<and> x \<in> set allowed"
  by (auto simp: normalize_choice_def Let_def split: if_splits)

lemma validate_correction_fields:
  assumes "validate_correction_create scope symbol gran bucket action value reason = Inr payload"
  shows "coc_series_scope payload = py_upper (py_strip scope)" "coc_granularity payload = py_lower (py_strip gran)"
    "coc_bucket_utc payload = bucket" "coc_action payload = py_upper (py_strip action)"
    "quantize_optional_decimal value = Inr (coc_corrected_value payload)"
    "coc_action payload \<noteq> lit ''DELETE'' \<Longrightarrow> value \<noteq> None"
    "py_upper (case coc_symbol payload of None \<Rightarrow> [] | Some s \<Rightarrow> s) =
       (if coc_series_scope payload = lit ''HOLDING_RETURN'' then py_upper (py_strip (case symbol of None \<Rightarrow> [] | Some s \<Rightarrow> s)) else [])"
proof -
  obtain p where p: "validate_corrected_value p = Inr payload" "coc_series_scope p = py_upper (py_strip scope)"
      "coc_granularity p = py_lower (py_strip gran)" "coc_bucket_utc p = bucket" "coc_action p = py_upper (py_strip action)"
      "coc_action p \<in> set DASHBOARD_CORRECTION_ACTIONS"
      "quantize_optional_decimal value = Inr (coc_corrected_value p)" "coc_symbol p = normalize_optional_text symbol"
    using assms by (auto simp: validate_correction_create_def validate_correction_granularity_def bindE_eq_Inr Let_def
        liftA_eq_Inr split: option.splits if_splits dest!: normalize_choice_Inr)
  have keep: "coc_series_scope payload = coc_series_scope p" "coc_granularity payload = coc_granularity p"
    "coc_bucket_utc payload = coc_bucket_utc p" "coc_action payload = coc_action p"
    "coc_corrected_value payload = coc_corrected_value p"
    "coc_symbol payload = (if coc_series_scope p = lit ''HOLDING_RETURN'' then coc_symbol p else None)"
    using p(1) by (auto simp: validate_corrected_value_def split: if_splits)
  show "coc_series_scope payload = py_upper (py_strip scope)" "coc_granularity payload = py_lower (py_strip gran)"
    "coc_bucket_utc payload = bucket" "coc_action payload = py_upper (py_strip action)"
    "quantize_optional_decimal value = Inr (coc_corrected_value payload)"
    using p(2-) keep by simp_all
  show "value \<noteq> None" if "coc_action payload \<noteq> lit ''DELETE''"
    using that p(1,6,7) keep(4)
    by (auto simp: DASHBOARD_CORRECTION_ACTIONS_def validate_corrected_value_def quantize_optional_decimal_def split: if_splits option.splits)
  show "py_upper (case coc_symbol payload of None \<Rightarrow> [] | Some s \<Rightarrow> s) =
       (if coc_series_scope payload = lit ''HOLDING_RETURN'' then py_upper (py_strip (case symbol of None \<Rightarrow> [] | Some s \<Rightarrow> s)) else [])"
    using keep(1,6) p(8) by (auto simp: normalize_optional_text_def Let_def py_upper_def py_strip_def py_lstrip_def py_rstrip_def split: option.splits)
qed

lemma parse_choice: "parse_granularity g = Inr G \<Longrightarrow> g \<in> set DASHBOARD_CORRECTION_GRANULARITIES \<Longrightarrow>
    g = lit ''hour'' \<and> G = G_HOUR \<or> g = lit ''day'' \<and> G = G_DAY \<or> g = lit ''month'' \<and> G = G_MONTH \<or> g = lit ''year'' \<and> G = G_YEAR"
  by (auto simp: parse_granularity_def DASHBOARD_CORRECTION_GRANULARITIES_def lit_def of_char_def)

lemma corrected_points:
  assumes "validate_correction_create scope symbol gran bucket action value reason = Inr payload"
    and "create_dashboard_correction payload env (t, w) = Inr (r, t', w')"
    and "\<And>j d. (j, d) \<in> set (rows t) \<Longrightarrow> dc_updated_at d \<le> en_now env"
  shows "apply_dashboard_corrections (load_dashboard_correction_lookup t' (en_user env)) sc g sy [p] =
    (if requested_point scope symbol gran bucket sc g sy (tp_timestamp_utc p)
     then corrected_point scope action value p
     else apply_dashboard_corrections (load_dashboard_correction_lookup t (en_user env)) sc g sy [p])"
proof -
  note f = validate_correction_fields [OF assms(1)]
  obtain v c G where c: "t' = snd (tinsert c t)" "dc_user c = en_user env" "dc_updated_at c = en_now env"
      "dc_series_scope c = coc_series_scope payload" "dc_action c = coc_action payload" "dc_corrected_value c = v"
      "dc_granularity c = coc_granularity payload" "dc_bucket_utc c = bucket_start G (coc_bucket_utc payload)"
      "dc_symbol c = (case coc_symbol payload of None \<Rightarrow> None | Some s \<Rightarrow> if s = [] then None else Some (py_upper s))"
    and G: "parse_granularity (coc_granularity payload) = Inr G" "coc_granularity payload \<in> set DASHBOARD_CORRECTION_GRANULARITIES"
    and v: "(case coc_corrected_value payload of None \<Rightarrow> Inr None
         | Some v \<Rightarrow> bindE (display_corrected_value (coc_series_scope payload) v) (\<lambda>n.
             bindE (stored_hundredths n) (\<lambda>f. Inr (Some f)))) = Inr v"
    using assms(2) by (auto simp: create_dashboard_correction_def bucket_start_utc_def bindE_eq_Inr Let_def split_def)
  have "key_of c = (coc_series_scope payload, py_upper (case coc_symbol payload of None \<Rightarrow> [] | Some s \<Rightarrow> s),
      coc_granularity payload, bucket_start G (coc_bucket_utc payload))"
    by (auto simp: key_of_def correction_key_def c split: option.split)
  then have kr: "key_of c = correction_key sc sy g (tp_timestamp_utc p) \<longleftrightarrow>
      requested_point scope symbol gran bucket sc g sy (tp_timestamp_utc p)"
    using f(1-3,7) parse_choice [OF G]
    by (auto simp: correction_key_def requested_point_def lit_def of_char_def)
  have look: "map_of (load_dashboard_correction_lookup t' (en_user env)) k =
      (if key_of c = k then Some c else map_of (load_dashboard_correction_lookup t (en_user env)) k)" for k
    using lookup_after_insert [of t c k] assms(3) c(2,3) by (simp add: c(1))
  show ?thesis
  proof (cases "key_of c = correction_key sc sy g (tp_timestamp_utc p)")
    case True
    with kr have r: "requested_point scope symbol gran bucket sc g sy (tp_timestamp_utc p)" by simp
    from True have "sc = coc_series_scope payload" by (simp add: key_of_def correction_key_def c)
    with True r show ?thesis using v f(1,4,5,6)
      by (auto simp: look c(2-) corrected_point_def corrected_value_is_stable [simplified] stored_hundredths_def bindE_eq_Inr
          quantize_optional_decimal_def liftA_eq_Inr split: option.splits)
  next
    case False
    with kr show ?thesis
      by (cases "map_of (load_dashboard_correction_lookup t (en_user env)) (correction_key sc sy g (tp_timestamp_utc p))")
        (auto simp: look)
  qed
qed

text \<open>
  C32: once a correction is accepted (no stored one being from the future), every timeline of the user
  shows it: each point of any series is
  treated on its own, the point that was requested (of the scope, the granularity and, for the return of one
  holding, the symbol of the request, at the start of the period with the requested instant) is dropped or has the
  requested value, whatever corrections it had before, and all the others are as they were. The
  corrections of other users stay.
\<close>

theorem corrections_take_effect:
  assumes "validate_correction_create scope symbol gran bucket action value reason = Inr payload"
    and "create_dashboard_correction payload env (t, w) = Inr (r, t', w')"
    and "\<And>j d. (j, d) \<in> set (rows t) \<Longrightarrow> dc_updated_at d \<le> en_now env"
  shows "apply_dashboard_corrections (load_dashboard_correction_lookup t' (en_user env)) sc g sy (p # ps) =
      bindE (if requested_point scope symbol gran bucket sc g sy (tp_timestamp_utc p)
       then corrected_point scope action value p
       else apply_dashboard_corrections (load_dashboard_correction_lookup t (en_user env)) sc g sy [p])
      (\<lambda>shown. bindE (apply_dashboard_corrections (load_dashboard_correction_lookup t' (en_user env)) sc g sy ps)
        (\<lambda>others. Inr (shown @ others)))
    \<and> (u \<noteq> en_user env \<longrightarrow> load_dashboard_correction_lookup t' u = load_dashboard_correction_lookup t u)"
proof -
  obtain c where "t' = snd (tinsert c t)" "dc_user c = en_user env"
    using assms(2) by (auto simp: create_dashboard_correction_def bindE_eq_Inr Let_def split_def)
  then have "u \<noteq> en_user env \<longrightarrow> load_dashboard_correction_lookup t' u = load_dashboard_correction_lookup t u"
    by (simp add: load_dashboard_correction_lookup_def tselect_def tinsert_def)
  then show ?thesis by (subst apply_cons) (simp only: corrected_points [OF assms] simp_thms)
qed

text \<open>The return of a holding on the first of January 1970 is corrected, the other holding and the hours keep theirs.\<close>

definition toy_correction :: "dec option \<Rightarrow> error + correction_create" where
  "toy_correction v = validate_correction_create (lit ''holding_return'') (Some (lit '' aapl'')) (lit ''Day'') 5 (lit ''override'') v (lit ''typo'')"

theorem corrections_take_effect_witness:
  "\<exists>payload r t' w'. toy_correction (Some (Dec 12 0)) = Inr payload
    \<and> create_dashboard_correction payload ada (empty_table, empty_world) = Inr (r, t', w')
    \<and> (\<forall>label. let p = \<lparr>tp_label = label, tp_value = 1000, tp_timestamp_utc = - LOCAL_OFFSET, tp_corrected = False\<rparr>;
          show = (\<lambda>g sy. apply_dashboard_corrections (load_dashboard_correction_lookup t' (en_user ada)) (lit ''HOLDING_RETURN'') g sy [p])
        in show (lit ''day'') (Some (lit ''AAPL'')) = Inr [p\<lparr>tp_value := 1200, tp_corrected := True\<rparr>]
         \<and> show (lit ''day'') (Some (lit ''MSFT'')) = Inr [p] \<and> show (lit ''hour'') (Some (lit ''AAPL'')) = Inr [p])"
proof -
  let ?c = "\<lparr>coc_series_scope = lit ''HOLDING_RETURN'', coc_symbol = Some (lit ''aapl''), coc_granularity = lit ''day'',
     coc_bucket_utc = 5, coc_action = lit ''OVERRIDE'', coc_corrected_value = Some 1200000000, coc_reason = lit ''typo''\<rparr>"
  have c: "toy_correction (Some (Dec 12 0)) = Inr ?c"
    by (simp add: toy_correction_def eval validate_correction_create_def validate_corrected_value_def normalize_choice_def
        validate_correction_granularity_def normalize_optional_text_def py_lower_def lower_char_def DASHBOARD_CORRECTION_ACTIONS_def
        DASHBOARD_CORRECTION_GRANULARITIES_def DASHBOARD_SERIES_SCOPES_def quantize_optional_decimal_def)
  obtain r t' w' where r: "create_dashboard_correction ?c ada (empty_table, empty_world) = Inr (r, t', w')"
    by (simp add: create_dashboard_correction_def DASHBOARD_CORRECTION_ACTIONS_def DASHBOARD_CORRECTION_GRANULARITIES_def
        DASHBOARD_SERIES_SCOPES_def bucket_start_utc_def parse_granularity_def
        display_corrected_value_def stored_hundredths_def eval)
  have names: "py_upper (py_strip (lit ''holding_return'')) = lit ''HOLDING_RETURN''" "py_lower (py_strip (lit ''Day'')) = lit ''day''"
    "py_upper (py_strip (lit '' aapl'')) = lit ''AAPL''" "py_upper (py_strip (lit ''override'')) \<noteq> lit ''DELETE''"
    "py_upper (lit ''AAPL'') = lit ''AAPL''" "py_upper (lit ''MSFT'') \<noteq> lit ''AAPL''" "lit ''hour'' \<noteq> lit ''day''"
    "lit ''HOLDING_RETURN'' \<noteq> lit ''PORTFOLIO_TOTAL''" "lit ''day'' \<noteq> lit ''hour''"
    by (simp_all add: eval_text py_lower_def lower_char_def)
  have "bucket_start G_DAY 5 = - LOCAL_OFFSET" by (simp add: bucket_start_def LOCAL_OFFSET_def US_DAY_def)
  then have "apply_dashboard_corrections (load_dashboard_correction_lookup t' (en_user ada)) (lit ''HOLDING_RETURN'') g sy [p]
      = (if g = lit ''day'' \<and> sy = Some (lit ''AAPL'') then Inr [p\<lparr>tp_value := 1200, tp_corrected := True\<rparr>] else Inr [p])"
    if "tp_timestamp_utc p = - LOCAL_OFFSET" "g \<in> {lit ''day'', lit ''hour''}" "sy \<in> {Some (lit ''AAPL''), Some (lit ''MSFT'')}" for p g sy
    using that names
    by (subst corrections_take_effect [OF c [unfolded toy_correction_def] r, THEN conjunct1])
      (auto simp: requested_point_def corrected_point_def display_corrected_value_def empty_table_def eval_decimals
        load_dashboard_correction_lookup_def tselect_def sort_key_def)
  with c r names show ?thesis by (auto simp: Let_def)
qed

end
