(* ===== verification/Rebuild_Properties.thy ===== *)
theory Rebuild_Properties
  imports History_Rebuild History_Properties Scenario
begin

text \<open>
  Properties of the rebuild of a user's snapshots: which hours get a row, whose rows are touched,
  and that one pass over the trades and ledger entries gives what a replay from the beginning
  would give at every hour.
\<close>

section \<open>One pass\<close>

lemma replay_until_later:
  "h \<le> h' \<Longrightarrow> replay_until h' events st =
     bindE (replay_until h events st) (\<lambda>(events', st'). replay_until h' events' st')"
proof (induction events arbitrary: st)
  case (Cons e events)
  obtain i tx where "e = (i, tx)" by (cases e)
  with Cons show ?case by (cases "apply_holding_transaction_to_state st tx") auto
qed simp

lemma post_entries_until_later:
  "h \<le> h' \<Longrightarrow> post_entries_until h' entries balances =
     bindE (post_entries_until h entries balances) (\<lambda>(entries', balances'). post_entries_until h' entries' balances')"
proof (induction entries arbitrary: balances)
  case (Cons x entries)
  obtain k e where "x = (k, e)" by (cases x)
  with Cons show ?case by (auto simp: bindE_def split: sum.splits)
qed simp

definition holding_hour ::
  "(datetime \<Rightarrow> projected_state \<Rightarrow> error + fixed option) \<Rightarrow> (nat \<times> holding_transaction) list \<Rightarrow> projected_state
   \<Rightarrow> datetime \<times> dec \<Rightarrow> error + datetime \<times> dec" where
  \<comment> \<open>what the holding adds at an hour, its trades replayed from the first\<close>
  "holding_hour val events st = (\<lambda>(hour, amount).
     bindE (replay_until hour events st) (\<lambda>(later, st').
     bindE (val hour st') (\<lambda>v. Inr (hour, case v of None \<Rightarrow> amount | Some n \<Rightarrow> dec_add amount (of_fixed n)))))"

definition cash_hour ::
  "env \<Rightarrow> (nat \<times> pystr) list \<Rightarrow> (nat \<times> ledger_entry) list \<Rightarrow> (nat \<times> fixed) list
   \<Rightarrow> datetime \<times> dec \<Rightarrow> error + datetime \<times> dec" where
  \<comment> \<open>what the cash adds at an hour, all entries up to it posted from the first\<close>
  "cash_hour env currencies entries balances = (\<lambda>(hour, amount).
     bindE (post_entries_until hour entries balances) (\<lambda>(later, balances').
     bindE (cash_total env currencies balances' DECIMAL_ZERO) (\<lambda>cash.
     bindE (liftA (quantize_decimal cash)) (\<lambda>n. Inr (hour, dec_add amount (of_fixed n))))))"

lemma holding_hours_from_scratch:
  "sorted_wrt (<) (map fst totals) \<Longrightarrow> holding_hours val events st totals = mapE (holding_hour val events st) totals"
proof (induction totals arbitrary: events st)
  case (Cons t totals)
  obtain h a where t: "t = (h, a)" by (cases t)
  show ?case
  proof (cases "replay_until h events st")
    case (Inr r)
    obtain events' st' where r: "r = (events', st')" by (cases r)
    have "mapE (holding_hour val events' st') totals = mapE (holding_hour val events st) totals"
      using Cons.prems by (intro mapE_cong [OF refl])
        (auto simp: t holding_hour_def replay_until_later [of h _ events st] Inr r less_imp_le)
    with Cons show ?thesis by (simp add: t Inr r holding_hour_def bindE_assoc)
  qed (simp add: t holding_hour_def)
qed simp

lemma cash_hours_from_scratch:
  "sorted_wrt (<) (map fst totals) \<Longrightarrow>
     cash_hours env currencies entries balances totals = mapE (cash_hour env currencies entries balances) totals"
proof (induction totals arbitrary: entries balances)
  case (Cons t totals)
  obtain h a where t: "t = (h, a)" by (cases t)
  show ?case
  proof (cases "post_entries_until h entries balances")
    case (Inr r)
    obtain entries' balances' where r: "r = (entries', balances')" by (cases r)
    have "mapE (cash_hour env currencies entries' balances') totals = mapE (cash_hour env currencies entries balances) totals"
      using Cons.prems by (intro mapE_cong [OF refl])
        (auto simp: t cash_hour_def post_entries_until_later [of h _ entries balances] Inr r less_imp_le)
    with Cons show ?thesis by (simp add: t Inr r cash_hour_def bindE_assoc)
  qed (simp add: t cash_hour_def)
qed simp

text \<open>
  C15: over the hours of a rebuild, the single pass that carries the state of a holding and the
  balances of the accounts from one hour to the next computes, at every hour and errors included, what
  a replay of all trades and all ledger entries from the first to that hour computes.
\<close>

theorem hourly_replay_is_from_scratch:
  "holding_hours val events st (map (\<lambda>h. (h, before h)) (build_hour_buckets start_at end_at)) =
     mapE (holding_hour val events st) (map (\<lambda>h. (h, before h)) (build_hour_buckets start_at end_at))
   \<and> cash_hours env currencies entries balances (map (\<lambda>h. (h, before h)) (build_hour_buckets start_at end_at)) =
     mapE (cash_hour env currencies entries balances) (map (\<lambda>h. (h, before h)) (build_hour_buckets start_at end_at))"
proof -
  have "sorted_wrt (<) (map fst (map (\<lambda>h. (h, before h)) (build_hour_buckets start_at end_at)))"
    by (simp add: comp_def build_hour_buckets_def Let_def hours_from_sorted)
  then show ?thesis by (simp only: holding_hours_from_scratch cash_hours_from_scratch simp_thms)
qed

section \<open>The rows of a rebuild\<close>

lemma cash_hours_hours:
  "cash_hours env cs entries balances totals = Inr totals' \<Longrightarrow> map fst totals' = map fst totals"
  by (induction totals arbitrary: entries balances totals') (auto simp: bindE_eq_Inr)

lemma holding_hours_hours:
  "holding_hours val events st totals = Inr totals' \<Longrightarrow> map fst totals' = map fst totals"
  by (induction totals arbitrary: events st totals') (auto simp: bindE_eq_Inr)

lemma add_holding_values_hours:
  "add_holding_values env end_hour groups totals = Inr totals' \<Longrightarrow> map fst totals' = map fst totals"
proof (induction groups arbitrary: totals)
  case (Cons g groups)
  obtain symbol market txs where "g = ((symbol, market), txs)" by (metis surj_pair)
  with Cons show ?case
    by (auto simp: Let_def bindE_eq_Inr split: list.splits dest!: holding_hours_hours)
qed simp

lemma portfolio_rows_hours:
  "portfolio_rows user deltas running totals = Inr found \<Longrightarrow>
     map pf_created_at found = map fst totals \<and> (\<forall>r \<in> set found. pf_user r = user)"
  by (induction totals arbitrary: running found) (auto simp: bindE_eq_Inr Let_def)

lemma compute_portfolio_rows_hours:
  assumes "compute_portfolio_rows env user w start_at end_hour = Inr found"
  shows "map pf_created_at found = build_hour_buckets start_at end_hour \<and> (\<forall>r \<in> set found. pf_user r = user)"
proof -
  obtain t1 t2 deltas where
    t1: "cash_hours env (account_currencies w user (sort_key ledger_order (tselect (\<lambda>e. le_user e = user) (ledger w))))
        (sort_key ledger_order (tselect (\<lambda>e. le_user e = user) (ledger w))) []
        (map (\<lambda>h. (h, DECIMAL_ZERO)) (build_hour_buckets start_at end_hour)) = Inr t1"
    and t2: "add_holding_values env end_hour (transactions_by_symbol (user_transactions w user)) t1 = Inr t2"
    and f: "portfolio_rows user deltas DECIMAL_ZERO t2 = Inr found"
    using assms by (auto simp: compute_portfolio_rows_def bindE_eq_Inr Let_def)
  show ?thesis
    using cash_hours_hours [OF t1] add_holding_values_hours [OF t2] portfolio_rows_hours [OF f] by (simp add: comp_def)
qed

definition dated :: "world \<Rightarrow> pystr \<Rightarrow> date \<Rightarrow> bool" where
  \<comment> \<open>an entry, a trade, an asset or a liability of the user has this date\<close>
  "dated w user d \<longleftrightarrow>
     (\<exists>p \<in> set (rows (ledger w)). le_user (snd p) = user \<and> le_happened_on (snd p) = d)
   \<or> (\<exists>p \<in> set (rows (transactions w)). tx_user (snd p) = user \<and> tx_traded_on (snd p) = d)
   \<or> (\<exists>p \<in> set (rows (fixed_assets w)). fa_user (snd p) = user
        \<and> (fa_started_on (snd p) = Some d \<or> fa_started_on (snd p) = None \<and> utc_date (fa_created_at (snd p)) = d))
   \<or> (\<exists>p \<in> set (rows (liabilities w)). li_user (snd p) = user
        \<and> (li_started_on (snd p) = Some d \<or> li_started_on (snd p) = None \<and> utc_date (li_created_at (snd p)) = d))
   \<or> (\<exists>p \<in> set (rows (other_assets w)). oa_user (snd p) = user
        \<and> (oa_started_on (snd p) = Some d \<or> oa_started_on (snd p) = None \<and> utc_date (oa_created_at (snd p)) = d))"

definition is_baseline :: "env \<Rightarrow> security_holding \<Rightarrow> holding_transaction \<Rightarrow> bool" where
  \<comment> \<open>the trade buys what the holding says, at its cost, on the day it started\<close>
  "is_baseline env h t \<longleftrightarrow>
     tx_user t = sh_user h \<and> tx_symbol t = sh_symbol h \<and> tx_market t = sh_market h \<and> tx_name t = sh_name h
   \<and> tx_broker t = sh_broker h \<and> tx_note t = sh_note h \<and> tx_fallback_currency t = normalize_currency (sh_fallback_currency h)
   \<and> tx_side t = BUY \<and> tx_quantity t = max (sh_quantity h) 0
   \<and> (\<forall>p. tx_price t = Some p \<longleftrightarrow> sh_cost_basis_price h = Some p \<and> 0 < p)
   \<and> (case sh_started_on h of Some d \<Rightarrow> tx_traded_on t = d | None \<Rightarrow> tx_traded_on t = server_today_date (sh_created_at h))
   \<and> tx_created_at t = en_now env"

definition user_pairs :: "pystr \<Rightarrow> (nat \<times> holding_transaction) list \<Rightarrow> (pystr \<times> pystr) set" where
  "user_pairs user txs = {(tx_symbol t, tx_market t) | i t. (i, t) \<in> set txs \<and> tx_user t = user}"

definition baselines_added :: "env \<Rightarrow> pystr \<Rightarrow> world \<Rightarrow> (nat \<times> holding_transaction) list \<Rightarrow> world \<Rightarrow> bool" where
  \<comment> \<open>the trades added are baselines, one for each symbol of a holding without trades; all else stays\<close>
  "baselines_added env user w added w' \<longleftrightarrow>
     w'\<lparr>transactions := transactions w, cached_dashboards := cached_dashboards w\<rparr> = w
   \<and> rows (transactions w') = rows (transactions w) @ added
   \<and> distinct (map (\<lambda>p. (tx_symbol (snd p), tx_market (snd p))) added)
   \<and> (\<forall>p \<in> set added. (tx_symbol (snd p), tx_market (snd p)) \<notin> user_pairs user (rows (transactions w))
        \<and> (\<exists>q \<in> set (rows (holdings w)). sh_user (snd q) = user \<and> is_baseline env (snd q) (snd p)))"

definition portfolio_hours :: "pystr \<Rightarrow> snapshots \<Rightarrow> datetime list" where
  "portfolio_hours user s = map pf_created_at (filter (\<lambda>r. pf_user r = user) (portfolio_snapshots s))"

lemma baseline_is_baseline: "is_baseline env h (baseline_transaction env h)"
  by (auto simp: is_baseline_def baseline_transaction_def positive_price_def split: option.split)

lemma user_pairs_append [simp]: "user_pairs u (xs @ ys) = user_pairs u xs \<union> user_pairs u ys"
  by (auto simp: user_pairs_def)

lemma ensure_baseline_adds:
  assumes "baselines_added env user w added x" "(i, h) \<in> set (rows (holdings w))" "sh_user h = user"
    "(sh_symbol h, sh_market h) \<notin> user_pairs user (rows (transactions x))"
  shows "\<exists>added'. baselines_added env user w added' (ensure_transaction_baseline_from_holding_snapshot env h x)
    \<and> user_pairs user (rows (transactions (ensure_transaction_baseline_from_holding_snapshot env h x)))
        = insert (sh_symbol h, sh_market h) (user_pairs user (rows (transactions x)))"
proof -
  let ?t = "baseline_transaction env h"
  have none: "transactions_for_symbol x (sh_user h) (sh_symbol h) (sh_market h) = []"
    using assms(3,4) by (auto simp: transactions_for_symbol_def user_pairs_def tselect_def filter_empty_conv)
  have t: "tx_user ?t = user" "tx_symbol ?t = sh_symbol h" "tx_market ?t = sh_market h"
    using assms(3) by (simp_all add: baseline_transaction_def)
  have own: "(tx_symbol (snd p), tx_market (snd p)) \<in> user_pairs user (rows (transactions x))" if "p \<in> set added" for p
  proof -
    from assms(1) that have "tx_user (snd p) = user" by (auto simp: baselines_added_def is_baseline_def)
    with that have "(tx_symbol (snd p), tx_market (snd p)) \<in> user_pairs user added"
      unfolding user_pairs_def by (intro CollectI exI [of _ "fst p"] exI [of _ "snd p"]) simp
    with assms(1) show ?thesis by (simp add: baselines_added_def)
  qed
  have "distinct (map (\<lambda>p. (tx_symbol (snd p), tx_market (snd p))) (added @ [(next_id (transactions x), ?t)]))"
    using assms(1,4) own t by (auto simp: baselines_added_def)
  moreover have "\<forall>p \<in> set (added @ [(next_id (transactions x), ?t)]).
      (tx_symbol (snd p), tx_market (snd p)) \<notin> user_pairs user (rows (transactions w))
        \<and> (\<exists>q \<in> set (rows (holdings w)). sh_user (snd q) = user \<and> is_baseline env (snd q) (snd p))"
  proof -
    have "(tx_symbol ?t, tx_market ?t) \<notin> user_pairs user (rows (transactions w))"
      using assms(1,4) t by (simp add: baselines_added_def)
    moreover have "\<exists>q \<in> set (rows (holdings w)). sh_user (snd q) = user \<and> is_baseline env (snd q) ?t"
      using assms(2,3) baseline_is_baseline [of env h] by force
    ultimately show ?thesis using assms(1) unfolding baselines_added_def by simp
  qed
  ultimately have "baselines_added env user w (added @ [(next_id (transactions x), ?t)]) (add_transaction ?t x)"
    using assms(1) by (simp add: baselines_added_def add_transaction_def tinsert_def)
  moreover have "user_pairs user (rows (transactions (add_transaction ?t x)))
      = insert (sh_symbol h, sh_market h) (user_pairs user (rows (transactions x)))"
  proof -
    have "user_pairs user [(k, ?t)] = {(sh_symbol h, sh_market h)}" for k using t by (simp add: user_pairs_def)
    then show ?thesis by (simp add: add_transaction_def tinsert_def)
  qed
  ultimately show ?thesis using none by (auto simp: ensure_transaction_baseline_from_holding_snapshot_def)
qed

lemma backfill_fold_adds:
  assumes "baselines_added env user w added x" "set pairs = user_pairs user (rows (transactions x))"
    "\<forall>p \<in> set hs. p \<in> set (rows (holdings w)) \<and> sh_user (snd p) = user"
  shows "\<exists>added'. let x' = snd (fold (\<lambda>(i, h) (pairs, w).
           if (sh_symbol h, sh_market h) \<in> set pairs then (pairs, w)
           else ((sh_symbol h, sh_market h) # pairs, ensure_transaction_baseline_from_holding_snapshot env h w))
           hs (pairs, x)) in baselines_added env user w added' x' \<and>
     user_pairs user (rows (transactions x')) =
       user_pairs user (rows (transactions x)) \<union> (\<lambda>p. (sh_symbol (snd p), sh_market (snd p))) ` set hs"
  using assms
proof (induction hs arbitrary: pairs x added)
  case Nil
  then show ?case by (auto simp: Let_def)
next
  case (Cons p hs)
  obtain i h where p: "p = (i, h)" by (cases p)
  show ?case
  proof (cases "(sh_symbol h, sh_market h) \<in> set pairs")
    case True
    with Cons.IH [OF Cons.prems(1,2)] Cons.prems p show ?thesis by (simp add: Let_def insert_absorb)
  next
    case False
    with ensure_baseline_adds [OF Cons.prems(1), of i h] Cons.prems p obtain added'
      where a: "baselines_added env user w added' (ensure_transaction_baseline_from_holding_snapshot env h x)"
        "user_pairs user (rows (transactions (ensure_transaction_baseline_from_holding_snapshot env h x)))
          = insert (sh_symbol h, sh_market h) (user_pairs user (rows (transactions x)))" by auto
    with Cons.IH [OF a(1), of "(sh_symbol h, sh_market h) # pairs"] Cons.prems p False show ?thesis
      by (simp add: Let_def)
  qed
qed

lemma backfill_adds:
  "\<exists>added. baselines_added env user w added (backfill_missing_holding_transactions env user w)"
  "p \<in> set (rows (holdings w)) \<Longrightarrow> sh_user (snd p) = user \<Longrightarrow>
    (sh_symbol (snd p), sh_market (snd p)) \<in> user_pairs user (rows (transactions (backfill_missing_holding_transactions env user w)))"
proof -
  let ?hs = "sort_key (\<lambda>(i, h). (sh_symbol h, sh_market h, i)) (tselect (\<lambda>h. sh_user h = user) (holdings w))"
  let ?ex = "map (\<lambda>(i, t). (tx_symbol t, tx_market t)) (tselect (\<lambda>t. tx_user t = user) (transactions w))"
  have "baselines_added env user w [] w" by (simp add: baselines_added_def)
  moreover have "set ?ex = user_pairs user (rows (transactions w))"
    by (force simp: user_pairs_def tselect_def)
  moreover have "\<forall>p \<in> set ?hs. p \<in> set (rows (holdings w)) \<and> sh_user (snd p) = user"
    by (auto simp: tselect_def)
  ultimately obtain added where a: "let x' = backfill_missing_holding_transactions env user w in
      baselines_added env user w added x' \<and> user_pairs user (rows (transactions x')) =
       user_pairs user (rows (transactions w)) \<union> (\<lambda>p. (sh_symbol (snd p), sh_market (snd p))) ` set ?hs"
    unfolding backfill_missing_holding_transactions_def Let_def using backfill_fold_adds [unfolded Let_def] by meson
  then show "\<exists>added. baselines_added env user w added (backfill_missing_holding_transactions env user w)"
    by (auto simp: Let_def)
  show "(sh_symbol (snd p), sh_market (snd p)) \<in> user_pairs user (rows (transactions (backfill_missing_holding_transactions env user w)))"
    if "p \<in> set (rows (holdings w))" "sh_user (snd p) = user"
    using a that by (cases p) (force simp: Let_def tselect_def)
qed

lemma date_start_is_full_hour: "current_hour_bucket (date_start_utc d) = date_start_utc d"
proof -
  have "date_start_utc d = (24 * d - 8) * US_HOUR" by (simp add: date_start_utc_def US_DAY_def LOCAL_OFFSET_def US_HOUR_def)
  then show ?thesis by (simp add: current_hour_bucket_def)
qed

lemma start_candidates_cached [simp]:
  "start_candidates (invalidate_dashboard_cache u w) user = start_candidates w user"
  by (cases u) (simp_all add: invalidate_dashboard_cache_def start_candidates_def user_transactions_def)

lemma no_buckets_before_start:
  "date_start_utc d > current_hour_bucket t \<Longrightarrow> build_hour_buckets (date_start_utc d) (current_hour_bucket t) = []"
  using date_start_is_full_hour [of d] by (auto simp: build_hour_buckets_def Let_def current_hour_bucket_def)

lemma dates_of_rows:
  "d \<in> set (map (\<lambda>(k, r). f r) (user_rows owner user t)) \<longleftrightarrow> (\<exists>p \<in> set (rows t). owner (snd p) = user \<and> f (snd p) = d)"
  "d \<in> set (map (\<lambda>(k, t). tx_traded_on t) (user_transactions w user)) \<longleftrightarrow>
     (\<exists>p \<in> set (rows (transactions w)). tx_user (snd p) = user \<and> tx_traded_on (snd p) = d)"
  by (force simp: user_rows_def user_transactions_def tselect_def)+

lemma resolve_asset_start_date_iff:
  "resolve_asset_start_date s c = d \<longleftrightarrow> s = Some d \<or> s = None \<and> utc_date c = d"
  by (simp add: resolve_asset_start_date_def split: option.split)

lemma start_candidates_dated: "d \<in> set (start_candidates w user) \<longleftrightarrow> dated w user d"
  unfolding start_candidates_def set_append Un_iff dates_of_rows resolve_asset_start_date_iff dated_def by (rule refl)

lemma hours_of_start:
  assumes "ds \<noteq> []"
  shows "h \<in> set (build_hour_buckets (date_start_utc (Min (set ds))) (current_hour_bucket now)) \<longleftrightarrow>
    US_HOUR dvd h \<and> h \<le> now \<and> (\<exists>d \<in> set ds. date_start_utc d \<le> h)"
proof -
  have "h \<in> set (build_hour_buckets (date_start_utc (Min (set ds))) (current_hour_bucket now)) \<longleftrightarrow>
    current_hour_bucket h = h \<and> date_start_utc (Min (set ds)) \<le> h \<and> h \<le> current_hour_bucket now"
    using hour_bucket_iff [of h "date_start_utc (Min (set ds))" "current_hour_bucket now"] date_start_is_full_hour [of "Min (set ds)"]
    by (simp add: current_hour_bucket_def)
  moreover have "current_hour_bucket h = h \<longleftrightarrow> US_HOUR dvd h" by (simp add: current_hour_bucket_def dvd_eq_mod_eq_0)
  moreover have "h \<le> current_hour_bucket now \<longleftrightarrow> h \<le> now" if "US_HOUR dvd h"
  proof -
    from that obtain k where h: "h = US_HOUR * k" ..
    have "h \<le> now \<longleftrightarrow> k \<le> now div US_HOUR"
      by (simp add: h US_HOUR_def) linarith
    moreover have "current_hour_bucket now = US_HOUR * (now div US_HOUR)" by (simp add: current_hour_bucket_def minus_mod_eq_mult_div)
    ultimately show ?thesis by (simp add: h US_HOUR_def)
  qed
  moreover have "date_start_utc (Min (set ds)) \<le> h \<longleftrightarrow> (\<exists>d \<in> set ds. date_start_utc d \<le> h)"
  proof
    show "date_start_utc (Min (set ds)) \<le> h \<Longrightarrow> \<exists>d \<in> set ds. date_start_utc d \<le> h"
      using assms Min_in [of "set ds"] by auto
  next
    assume "\<exists>d \<in> set ds. date_start_utc d \<le> h"
    then obtain d where d: "d \<in> set ds" "date_start_utc d \<le> h" ..
    then have "Min (set ds) \<le> d" by simp
    then have "date_start_utc (Min (set ds)) \<le> date_start_utc d" by (simp add: date_start_utc_def US_DAY_def)
    with d show "date_start_utc (Min (set ds)) \<le> h" by simp
  qed
  ultimately show ?thesis by blast
qed


lemma baselines_added_cached [simp]:
  "baselines_added env user w added (invalidate_dashboard_cache u w') = baselines_added env user w added w'"
  by (cases u) (simp_all add: baselines_added_def invalidate_dashboard_cache_def)

lemma dated_cached [simp]: "dated (invalidate_dashboard_cache u w) user d = dated w user d"
  by (cases u) (simp_all add: dated_def invalidate_dashboard_cache_def)

lemma rebuild_hours:
  assumes "rebuild_user_portfolio_snapshots env user (w, s) = (None, (w', s'))"
  shows "portfolio_hours user s' = (if start_candidates w' user = [] then []
       else build_hour_buckets (date_start_utc (Min (set (start_candidates w' user)))) (current_hour_bucket (en_now env)))"
    "filter (\<lambda>r. pf_user r \<noteq> user) (portfolio_snapshots s') = filter (\<lambda>r. pf_user r \<noteq> user) (portfolio_snapshots s)"
    "performance_snapshots s' = performance_snapshots s"
    "w' = backfill_missing_holding_transactions env user w
      \<or> w' = invalidate_dashboard_cache (Some user) (backfill_missing_holding_transactions env user w)"
proof -
  let ?w1 = "backfill_missing_holding_transactions env user w" and ?stop = "current_hour_bucket (en_now env)"
  let ?concl = "portfolio_hours user s' = (if start_candidates w' user = [] then []
       else build_hour_buckets (date_start_utc (Min (set (start_candidates w' user)))) ?stop)
    \<and> filter (\<lambda>r. pf_user r \<noteq> user) (portfolio_snapshots s') = filter (\<lambda>r. pf_user r \<noteq> user) (portfolio_snapshots s)
    \<and> performance_snapshots s' = performance_snapshots s
    \<and> (w' = ?w1 \<or> w' = invalidate_dashboard_cache (Some user) ?w1)"
  have ?concl
  proof (cases "start_candidates ?w1 user")
    case Nil
    with assms show ?thesis
      by (auto simp: rebuild_user_portfolio_snapshots_def drop_portfolio_snapshots_def portfolio_hours_def)
  next
    case (Cons d ds)
    let ?start = "date_start_utc (fold min ds d)"
    have m: "fold min ds d = Min (set (d # ds))" by (rule Min.set_eq_fold [symmetric])
    show ?thesis
    proof (cases "?start > ?stop")
      case True
      with Cons assms no_buckets_before_start [OF True] show ?thesis
        by (auto simp: rebuild_user_portfolio_snapshots_def drop_portfolio_snapshots_def m portfolio_hours_def)
    next
      case False
      with Cons assms obtain found where f: "compute_portfolio_rows env user ?w1 ?start ?stop = Inr found"
        and w: "w' = invalidate_dashboard_cache (Some user) ?w1"
        and s: "portfolio_snapshots s' = filter (\<lambda>r. pf_user r \<noteq> user) (portfolio_snapshots s) @ found"
          "performance_snapshots s' = performance_snapshots s"
        by (auto simp: rebuild_user_portfolio_snapshots_def drop_portfolio_snapshots_def Let_def split: sum.splits)
      have "filter (\<lambda>r. pf_user r = user) found = found" "filter (\<lambda>r. pf_user r \<noteq> user) found = []"
        using compute_portfolio_rows_hours [OF f] by (auto simp: filter_id_conv filter_empty_conv)
      then have "portfolio_hours user s' = build_hour_buckets ?start ?stop"
        using compute_portfolio_rows_hours [OF f] by (simp add: s portfolio_hours_def)
      moreover have "start_candidates w' user = d # ds" by (simp add: w Cons)
      moreover have "filter (\<lambda>r. pf_user r \<noteq> user) (portfolio_snapshots s') = filter (\<lambda>r. pf_user r \<noteq> user) (portfolio_snapshots s)"
        using \<open>filter (\<lambda>r. pf_user r \<noteq> user) found = []\<close> by (simp add: s(1))
      ultimately show ?thesis using m s(2) w by simp
    qed
  qed
  then show "portfolio_hours user s' = (if start_candidates w' user = [] then []
       else build_hour_buckets (date_start_utc (Min (set (start_candidates w' user)))) ?stop)"
    "filter (\<lambda>r. pf_user r \<noteq> user) (portfolio_snapshots s') = filter (\<lambda>r. pf_user r \<noteq> user) (portfolio_snapshots s)"
    "performance_snapshots s' = performance_snapshots s"
    "w' = ?w1 \<or> w' = invalidate_dashboard_cache (Some user) ?w1" by blast+
qed

lemma start_hours:
  assumes "start_candidates w user = [] \<and> hs = [] \<or> start_candidates w user \<noteq> []
    \<and> hs = build_hour_buckets (date_start_utc (Min (set (start_candidates w user)))) (current_hour_bucket now)"
  shows "sorted_wrt (<) hs" "h \<in> set hs \<longleftrightarrow> US_HOUR dvd h \<and> h \<le> now \<and> (\<exists>d. dated w user d \<and> date_start_utc d \<le> h)"
proof -
  show "sorted_wrt (<) hs" using assms by (auto simp: build_hour_buckets_def Let_def hours_from_sorted)
  show "h \<in> set hs \<longleftrightarrow> US_HOUR dvd h \<and> h \<le> now \<and> (\<exists>d. dated w user d \<and> date_start_utc d \<le> h)"
  proof (cases "start_candidates w user = []")
    case True
    then have "\<not> dated w user d" for d using start_candidates_dated [of d w user] by simp
    with True assms show ?thesis by simp
  next
    case False
    from hours_of_start [OF this, of h now] False assms show ?thesis by (simp add: Bex_def start_candidates_dated)
  qed
qed

text \<open>
  C14: a rebuild that returns leaves, in order of time, exactly one row of the user for every full hour
  up to now that does not precede the start of some date of the user: the day of a ledger entry or of a
  trade, or the starting day of a fixed asset, a liability or another asset. The rows of other users and
  the return points stay. No row of any other table changes (the cached dashboard apart), and the trades
  stay with a baseline trade added for each symbol of the user's holdings that had none, so that
  every holding of the user has a trade afterwards.
\<close>

theorem rebuild_writes_every_hour:
  assumes "rebuild_user_portfolio_snapshots env user (w, s) = (None, (w', s'))"
  shows "sorted_wrt (<) (portfolio_hours user s')
    \<and> (\<forall>h. h \<in> set (portfolio_hours user s') \<longleftrightarrow>
          US_HOUR dvd h \<and> h \<le> en_now env \<and> (\<exists>d. dated w' user d \<and> date_start_utc d \<le> h))
    \<and> filter (\<lambda>r. pf_user r \<noteq> user) (portfolio_snapshots s') = filter (\<lambda>r. pf_user r \<noteq> user) (portfolio_snapshots s)
    \<and> performance_snapshots s' = performance_snapshots s
    \<and> (\<exists>added. baselines_added env user w added w')
    \<and> (\<forall>q \<in> set (rows (holdings w)). sh_user (snd q) = user \<longrightarrow>
          (sh_symbol (snd q), sh_market (snd q)) \<in> user_pairs user (rows (transactions w')))"
proof -
  note r = rebuild_hours [OF assms]
  have "start_candidates w' user = [] \<and> portfolio_hours user s' = [] \<or> start_candidates w' user \<noteq> []
      \<and> portfolio_hours user s' =
        build_hour_buckets (date_start_utc (Min (set (start_candidates w' user)))) (current_hour_bucket (en_now env))"
    using r(1) by simp
  from start_hours [OF this] have "sorted_wrt (<) (portfolio_hours user s')"
    "\<forall>h. h \<in> set (portfolio_hours user s') \<longleftrightarrow>
      US_HOUR dvd h \<and> h \<le> en_now env \<and> (\<exists>d. dated w' user d \<and> date_start_utc d \<le> h)" by blast+
  moreover have "transactions w' = transactions (backfill_missing_holding_transactions env user w)"
    using r(4) by (auto simp: invalidate_dashboard_cache_def)
  then have "\<forall>q \<in> set (rows (holdings w)). sh_user (snd q) = user \<longrightarrow>
      (sh_symbol (snd q), sh_market (snd q)) \<in> user_pairs user (rows (transactions w'))"
    using backfill_adds(2) [of _ w user env] by simp
  moreover have "\<exists>added. baselines_added env user w added w'"
    using r(4) backfill_adds(1) [of env user w] by auto
  ultimately show ?thesis using r(2,3) by blast
qed

text \<open>An hour after the opening entries of the two accounts, the user has two rows of a hundred yuan.\<close>

theorem rebuild_writes_every_hour_witness:
  "\<exists>w' s'. rebuild_user_portfolio_snapshots (ada\<lparr>en_now := date_start_utc 0 + US_HOUR\<rparr>) (lit ''ada'')
      (two_accounts, \<lparr>portfolio_snapshots =
         [\<lparr>pf_user = lit ''ada'', pf_total_value_cny = 100, pf_created_at = 0\<rparr>,
          \<lparr>pf_user = lit ''bob'', pf_total_value_cny = 200, pf_created_at = 0\<rparr>],
         performance_snapshots = [], live_portfolio_users = [], live_return_users = []\<rparr>) = (None, (w', s'))
    \<and> filter (\<lambda>r. pf_user r \<noteq> lit ''ada'') (portfolio_snapshots s') =
        [\<lparr>pf_user = lit ''bob'', pf_total_value_cny = 200, pf_created_at = 0\<rparr>]
    \<and> date_start_utc 0 \<in> set (portfolio_hours (lit ''ada'') s')
    \<and> date_start_utc 0 - US_HOUR \<notin> set (portfolio_hours (lit ''ada'') s')"
proof -
  let ?env = "ada\<lparr>en_now := date_start_utc 0 + US_HOUR\<rparr>" and ?u = "lit ''ada''"
  have b: "backfill_missing_holding_transactions ?env ?u two_accounts = two_accounts"
    by (simp add: backfill_missing_holding_transactions_def eval_tables two_accounts_def empty_world_def)
  have c: "start_candidates two_accounts ?u = [0, 0]"
    by (simp add: start_candidates_def user_rows_def user_transactions_def eval_tables two_accounts_def empty_world_def
        sort_key_def opening_entry_def)
  have now: "current_hour_bucket (en_now ?env) = date_start_utc 0 + US_HOUR"
    by (simp add: current_hour_bucket_def date_start_utc_def US_HOUR_def LOCAL_OFFSET_def US_DAY_def)
  have hour: "\<not> US_HOUR < 0" by (simp add: US_HOUR_def)
  have "build_hour_buckets (date_start_utc 0) (date_start_utc 0 + US_HOUR) = [date_start_utc 0, date_start_utc 0 + US_HOUR]"
    by (simp add: build_hour_buckets_def current_hour_bucket_def date_start_utc_def US_HOUR_def LOCAL_OFFSET_def
        US_DAY_def hours_from.simps)
  then have "\<exists>found. compute_portfolio_rows ?env ?u two_accounts (date_start_utc 0) (date_start_utc 0 + US_HOUR) = Inr found"
    by (simp add: compute_portfolio_rows_def ledger_order_def eval_tables sort_key_def user_transactions_def static_values_def user_rows_def
        transactions_by_symbol_def account_currencies_def two_accounts_def empty_world_def opening_entry_def cny_account_def
        date_start_utc_def US_DAY_def LOCAL_OFFSET_def US_HOUR_def eval_decimals balance_of_def resolve_fx_rate_def eval_text Let_def
        dict_get_def del: scenario_rows One_nat_def cong: eval_cong)
  then obtain w' s' where r: "rebuild_user_portfolio_snapshots ?env ?u (two_accounts, \<lparr>portfolio_snapshots =
         [\<lparr>pf_user = lit ''ada'', pf_total_value_cny = 100, pf_created_at = 0\<rparr>,
          \<lparr>pf_user = lit ''bob'', pf_total_value_cny = 200, pf_created_at = 0\<rparr>],
         performance_snapshots = [], live_portfolio_users = [], live_return_users = []\<rparr>) = (None, (w', s'))"
    using now hour by (auto simp: rebuild_user_portfolio_snapshots_def b c Let_def)
  from rebuild_writes_every_hour [OF r] obtain added where a: "baselines_added ?env ?u two_accounts added w'"
    and others: "filter (\<lambda>r. pf_user r \<noteq> ?u) (portfolio_snapshots s') =
        [\<lparr>pf_user = lit ''bob'', pf_total_value_cny = 200, pf_created_at = 0\<rparr>]"
    and hours: "\<And>h. h \<in> set (portfolio_hours ?u s') \<longleftrightarrow>
        US_HOUR dvd h \<and> h \<le> en_now ?env \<and> (\<exists>d. dated w' ?u d \<and> date_start_utc d \<le> h)"
    by (auto simp: lit_def)
  from a have x: "w'\<lparr>transactions := transactions two_accounts, cached_dashboards := cached_dashboards two_accounts\<rparr> = two_accounts"
    by (simp add: baselines_added_def)
  have "p \<notin> set (rows (transactions w'))" for p
    using a by (cases p) (auto simp: baselines_added_def two_accounts_def empty_world_def empty_table_def)
  then have "rows (transactions w') = []" by (metis list.set_intros(1) neq_Nil_conv)
  then have "dated w' ?u d \<longleftrightarrow> d = 0" for d
    using arg_cong [OF x, of ledger] arg_cong [OF x, of fixed_assets] arg_cong [OF x, of liabilities] arg_cong [OF x, of other_assets]
    by (auto simp: dated_def two_accounts_def empty_world_def empty_table_def opening_entry_def)
  then have "date_start_utc 0 \<in> set (portfolio_hours ?u s')" "date_start_utc 0 - US_HOUR \<notin> set (portfolio_hours ?u s')"
    unfolding hours by (simp_all add: date_start_utc_def US_HOUR_def LOCAL_OFFSET_def US_DAY_def)
  with r others show ?thesis by blast
qed

end
