(* ===== verification/Dashboard_Query.thy ===== *)
theory Dashboard_Query
  imports Live_State Holding_Transactions
begin

text \<open>
  Model of \<^verbatim>\<open>backend/app/services/dashboard_query_service.py\<close>: the dashboard of a user and its
  cache, and the list handlers of accounts, holdings, fixed assets, liabilities and other assets, which
  show the values of the cached dashboard. The world says whose dashboard is cached, and the entries are
  here; a change of data that drops a user from the world's list makes the entry unreadable. The lock
  around the cache is always acquired. Warnings are left out. Text is ordered by code points.
\<close>

section \<open>State and response\<close>

record series_set =
  ss_second :: "timeline_point list"
  ss_minute :: "timeline_point list"
  ss_hour :: "timeline_point list"
  ss_day :: "timeline_point list"
  ss_month :: "timeline_point list"
  ss_year :: "timeline_point list"

record holding_return_series =
  hrs_symbol :: pystr
  hrs_name :: pystr
  hrs_quantity :: int
  hrs_series :: series_set

record dashboard =
  da_server_today :: date
  da_total_value_cny :: int
  da_cash_value_cny :: int
  da_holdings_value_cny :: int
  da_fixed_assets_value_cny :: int
  da_liabilities_value_cny :: int
  da_other_assets_value_cny :: int
  da_usd_cny_rate :: "int option"
  da_hkd_cny_rate :: "int option"
  da_cash_accounts :: "cash_account_read list"
  da_holdings :: "valued_holding_item list"
  da_fixed_assets :: "valued_asset_read list"
  da_liabilities :: "liability_read list"
  da_other_assets :: "valued_asset_read list"
  da_allocation :: "(pystr \<times> int) list"
  da_series :: series_set
  da_holdings_return_series :: series_set
  da_holding_return_series :: "holding_return_series list"
  da_recent_holding_transactions :: "transaction_read list"

record dashboards =
  db_world :: world
  db_analytics :: analytics
  db_live_portfolios :: "(pystr, live_portfolio_state) redis"
  db_live_returns :: "(pystr, live_returns_state) redis"
  db_corrections :: "dashboard_correction table"
  db_cache :: "(pystr, dashboard \<times> datetime) redis"
  db_last_force_refresh :: "datetime option"

section \<open>Series\<close>

definition load_series :: "pystr \<Rightarrow> datetime \<Rightarrow> portfolio_snapshot list \<Rightarrow> portfolio_snapshot list" where
  "load_series user since snaps =
     sort_key pf_created_at (filter (\<lambda>r. pf_user r = user \<and> pf_created_at r \<ge> since) snaps)"

definition with_live_snapshot :: "('r \<Rightarrow> datetime) \<Rightarrow> datetime \<Rightarrow> 'r option \<Rightarrow> 'r list \<Rightarrow> 'r list" where
  "with_live_snapshot created since live snaps = (case live of None \<Rightarrow> snaps
     | Some r \<Rightarrow> if created r \<ge> since then snaps @ [r] else snaps)"

definition load_series_with_live_snapshot where
  "load_series_with_live_snapshot user since live an =
     with_live_snapshot pf_created_at since live (load_series user since (fst (an_hourly an)))"

definition load_hybrid_portfolio_series_with_live_snapshot where
  "load_hybrid_portfolio_series_with_live_snapshot user historical_since realtime_since live an =
     with_live_snapshot pf_created_at realtime_since live
       ((case historical_since of None \<Rightarrow> [] | Some h \<Rightarrow> load_series user h (fst (an_hourly an)))
        @ load_series user realtime_since (fst (an_realtime an)))"

definition load_holdings_return_series ::
  "pystr \<Rightarrow> datetime \<Rightarrow> snapshot_scope \<Rightarrow> pystr option \<Rightarrow> performance_snapshot list \<Rightarrow> performance_snapshot list" where
  "load_holdings_return_series user since scope symbol snaps =
     sort_key hp_created_at (filter (\<lambda>r. hp_user r = user \<and> hp_created_at r \<ge> since \<and> hp_scope r = scope
       \<and> hp_symbol r = symbol) snaps)"

type_synonym live_returns = "((snapshot_scope \<times> pystr option) \<times> performance_snapshot) list"

definition load_holdings_return_series_with_live_snapshot where
  "load_holdings_return_series_with_live_snapshot user since scope symbol (live :: live_returns) an =
     with_live_snapshot hp_created_at since (map_of live (scope, symbol))
       (load_holdings_return_series user since scope symbol (snd (an_hourly an)))"

definition load_hybrid_holdings_return_series_with_live_snapshot where
  "load_hybrid_holdings_return_series_with_live_snapshot user historical_since realtime_since scope symbol (live :: live_returns) an =
     with_live_snapshot hp_created_at realtime_since (map_of live (scope, symbol))
       ((case historical_since of None \<Rightarrow> []
         | Some h \<Rightarrow> load_holdings_return_series user h scope symbol (snd (an_hourly an)))
        @ load_holdings_return_series user realtime_since scope symbol (snd (an_realtime an)))"

definition minute_history_since :: "datetime \<Rightarrow> datetime" where
  "minute_history_since now = current_hour_bucket (now - US_HOUR)"

definition corrected_series ::
  "(correction_key \<times> dashboard_correction) list \<Rightarrow> pystr \<Rightarrow> pystr option
   \<Rightarrow> (granularity \<Rightarrow> error + timeline_point list) \<Rightarrow> error + series_set" where
  \<comment> \<open>the six series of one quantity; corrections are made to the four coarse ones\<close>
  "corrected_series lookup scope symbol raw =
     bindE (raw G_SECOND) (\<lambda>second. bindE (raw G_MINUTE) (\<lambda>minute.
     bindE (raw G_HOUR) (\<lambda>hour. bindE (raw G_DAY) (\<lambda>day.
     bindE (raw G_MONTH) (\<lambda>month. bindE (raw G_YEAR) (\<lambda>year.
     bindE (apply_dashboard_corrections lookup scope (lit ''hour'') symbol hour) (\<lambda>hour.
     bindE (apply_dashboard_corrections lookup scope (lit ''day'') symbol day) (\<lambda>day.
     bindE (apply_dashboard_corrections lookup scope (lit ''month'') symbol month) (\<lambda>month.
     bindE (apply_dashboard_corrections lookup scope (lit ''year'') symbol year) (\<lambda>year.
     Inr \<lparr>ss_second = second, ss_minute = minute, ss_hour = hour, ss_day = day, ss_month = month,
       ss_year = year\<rparr>))))))))))"

definition portfolio_timeline ::
  "pystr \<Rightarrow> datetime \<Rightarrow> portfolio_snapshot option \<Rightarrow> analytics \<Rightarrow> granularity \<Rightarrow> error + timeline_point list" where
  "portfolio_timeline user now live an g = build_timeline (case g of
       G_SECOND \<Rightarrow> load_hybrid_portfolio_series_with_live_snapshot user None (now - 61 * US_SECOND) live an
     | G_MINUTE \<Rightarrow> load_hybrid_portfolio_series_with_live_snapshot user (Some (minute_history_since now))
         (now - 61 * US_MINUTE) live an
     | G_HOUR \<Rightarrow> load_series_with_live_snapshot user (now - 24 * US_HOUR) live an
     | G_DAY \<Rightarrow> load_series_with_live_snapshot user (now - 30 * US_DAY) live an
     | G_MONTH \<Rightarrow> load_series_with_live_snapshot user (now - 366 * US_DAY) live an
     | G_YEAR \<Rightarrow> load_series_with_live_snapshot user (now - 366 * 5 * US_DAY) live an) g"

definition return_timeline ::
  "pystr \<Rightarrow> datetime \<Rightarrow> snapshot_scope \<Rightarrow> pystr option \<Rightarrow> live_returns \<Rightarrow> analytics \<Rightarrow> granularity
   \<Rightarrow> error + timeline_point list" where
  "return_timeline user now scope symbol live an g = build_return_timeline (case g of
       G_SECOND \<Rightarrow> load_hybrid_holdings_return_series_with_live_snapshot user None (now - 61 * US_SECOND) scope symbol live an
     | G_MINUTE \<Rightarrow> load_hybrid_holdings_return_series_with_live_snapshot user (Some (minute_history_since now))
         (now - 61 * US_MINUTE) scope symbol live an
     | G_HOUR \<Rightarrow> load_holdings_return_series_with_live_snapshot user (now - 24 * US_HOUR) scope symbol live an
     | G_DAY \<Rightarrow> load_holdings_return_series_with_live_snapshot user (now - 30 * US_DAY) scope symbol live an
     | G_MONTH \<Rightarrow> load_holdings_return_series_with_live_snapshot user (now - 366 * US_DAY) scope symbol live an
     | G_YEAR \<Rightarrow> load_holdings_return_series_with_live_snapshot user (now - 366 * 5 * US_DAY) scope symbol live an) g"

definition holding_series ::
  "(correction_key \<times> dashboard_correction) list \<Rightarrow> pystr \<Rightarrow> datetime \<Rightarrow> live_returns \<Rightarrow> analytics
   \<Rightarrow> valued_holding_item \<Rightarrow> error + holding_return_series" where
  "holding_series lookup user now live an h =
     bindE (corrected_series lookup (lit ''HOLDING_RETURN'') (Some (vi_symbol h))
         (return_timeline user now SCOPE_HOLDING (Some (vi_symbol h)) live an)) (\<lambda>series.
     Inr \<lparr>hrs_symbol = vi_symbol h, hrs_name = vi_name h, hrs_quantity = vi_quantity h, hrs_series = series\<rparr>)"

section \<open>The rows of a user, as the dashboard shows them\<close>

definition ordered_rows :: "('r \<Rightarrow> pystr) \<Rightarrow> ('r \<Rightarrow> pystr \<times> pystr) \<Rightarrow> pystr \<Rightarrow> 'r table \<Rightarrow> (nat \<times> 'r) list" where
  \<comment> \<open>\<open>ORDER BY\<close> two text columns\<close>
  "ordered_rows owner key user t = sort_key (\<lambda>(i, r). key r) (tselect (\<lambda>r. owner r = user) t)"

definition dashboard_accounts :: "world \<Rightarrow> pystr \<Rightarrow> (nat \<times> cash_account) list" where
  "dashboard_accounts w user = ordered_rows ca_user (\<lambda>a. (ca_platform a, ca_name a)) user (accounts w)"

definition dashboard_holdings :: "world \<Rightarrow> pystr \<Rightarrow> (nat \<times> security_holding) list" where
  "dashboard_holdings w user = ordered_rows sh_user (\<lambda>h. (sh_symbol h, sh_name h)) user (holdings w)"

definition dashboard_fixed_assets :: "world \<Rightarrow> pystr \<Rightarrow> (nat \<times> fixed_asset) list" where
  "dashboard_fixed_assets w user = ordered_rows fa_user (\<lambda>a. (fa_category a, fa_name a)) user (fixed_assets w)"

definition dashboard_liabilities :: "world \<Rightarrow> pystr \<Rightarrow> (nat \<times> liability_entry) list" where
  "dashboard_liabilities w user = ordered_rows li_user (\<lambda>l. (li_category l, li_name l)) user (liabilities w)"

definition dashboard_other_assets :: "world \<Rightarrow> pystr \<Rightarrow> (nat \<times> other_asset) list" where
  "dashboard_other_assets w user = ordered_rows oa_user (\<lambda>a. (oa_category a, oa_name a)) user (other_assets w)"

record valuation =
  va_fx :: "int option \<times> int option"
  va_cash :: "cash_account_read list \<times> int"
  va_holdings :: "valued_holding_item list \<times> int"
  va_fixed :: "valued_asset_read list \<times> int"
  va_owed :: "liability_read list \<times> int"
  va_other :: "valued_asset_read list \<times> int"
  va_total :: int
  va_has_assets :: bool
  va_returns :: "int option \<times> return_point list"

definition value_everything :: "env \<Rightarrow> world \<Rightarrow> error + valuation" where
  \<comment> \<open>the first half of \<open>_build_dashboard\<close>, which only reads\<close>
  "value_everything env w =
     bindE (load_display_fx_rates env) (\<lambda>(overrides, usd_cny_rate, hkd_cny_rate).
     let user = en_user env;
         as = dashboard_accounts w user; hs = dashboard_holdings w user; fs = dashboard_fixed_assets w user;
         ls = dashboard_liabilities w user; os = dashboard_other_assets w user in
     bindE (value_cash_accounts env overrides as) (\<lambda>cash.
     bindE (value_holdings env overrides (has_holding_history_sync_pending user w) hs) (\<lambda>valued.
     bindE (value_fixed_assets fs) (\<lambda>fixed.
     bindE (value_liabilities env overrides ls) (\<lambda>owed.
     bindE (value_other_assets os) (\<lambda>other.
     bindE (liftA (display_money (dec_sub (dec_add (dec_add (dec_add (hundredths (snd cash)) (hundredths (snd valued)))
         (hundredths (snd fixed))) (hundredths (snd other))) (hundredths (snd owed))))) (\<lambda>total_value_cny.
     bindE (summarize_holdings_return_state (fst valued)) (\<lambda>returns.
     Inr \<lparr>va_fx = (usd_cny_rate, hkd_cny_rate), va_cash = cash, va_holdings = valued, va_fixed = fixed,
       va_owed = owed, va_other = other, va_total = total_value_cny,
       va_has_assets = (as \<noteq> [] \<or> hs \<noteq> [] \<or> fs \<noteq> [] \<or> ls \<noteq> [] \<or> os \<noteq> []), va_returns = returns\<rparr>))))))))"

definition update_live_states :: "env \<Rightarrow> valuation \<Rightarrow> dashboards \<Rightarrow> dashboards" where
  \<comment> \<open>roll the hour that is over into the tables, then note the new values\<close>
  "update_live_states env v s =
     (let user = en_user env; now = en_now env;
          (live, ps) = roll_live_portfolio_state_if_needed user now (db_live_portfolios s, fst (an_hourly (db_analytics s)));
          (returns, rs) = roll_live_holdings_return_state_if_needed user now (db_live_returns s, snd (an_hourly (db_analytics s)))
      in s\<lparr>db_analytics := (db_analytics s)\<lparr>an_hourly := (ps, rs)\<rparr>,
           db_live_portfolios := update_live_portfolio_state user now (va_total v) (va_has_assets v) live,
           db_live_returns := update_live_holdings_return_state user now (fst (va_returns v)) (snd (va_returns v)) returns\<rparr>)"

definition dashboard_allocation :: "valuation \<Rightarrow> (pystr \<times> int) list" where
  "dashboard_allocation v =
     filter (\<lambda>(label, value). value > 0)
       [([29616, 37329], snd (va_cash v)), ([25237, 36164, 31867], snd (va_holdings v)),
        ([22266, 23450, 36164, 20135], snd (va_fixed v)), ([20854, 20182], snd (va_other v))]"

definition dashboard_response :: "env \<Rightarrow> valuation \<Rightarrow> dashboards \<Rightarrow> error + dashboard" where
  \<comment> \<open>the second half of \<open>_build_dashboard\<close>\<close>
  "dashboard_response env v s =
     (let user = en_user env; now = en_now env; an = db_analytics s; w = db_world s;
          live = build_transient_portfolio_snapshot user now (va_total v) (va_has_assets v);
          live_returns = build_transient_holdings_return_snapshots user now (fst (va_returns v)) (snd (va_returns v));
          lookup = load_dashboard_correction_lookup (db_corrections s) user in
      bindE (corrected_series lookup (lit ''PORTFOLIO_TOTAL'') None (portfolio_timeline user now live an)) (\<lambda>totals.
      bindE (corrected_series lookup (lit ''HOLDINGS_RETURN_TOTAL'') None
          (return_timeline user now SCOPE_TOTAL None live_returns an)) (\<lambda>return_totals.
      bindE (bindE (list_holding_transactions_for_user w user None None None 5000)
          (to_holding_transaction_reads w user)) (\<lambda>recent.
      bindE (mapE (holding_series lookup user now live_returns an)
          (filter (\<lambda>h. vi_cost_basis_price h \<noteq> None) (fst (va_holdings v)))) (\<lambda>series.
      Inr \<lparr>da_server_today = server_today_date now, da_total_value_cny = va_total v,
        da_cash_value_cny = snd (va_cash v), da_holdings_value_cny = snd (va_holdings v),
        da_fixed_assets_value_cny = snd (va_fixed v), da_liabilities_value_cny = snd (va_owed v),
        da_other_assets_value_cny = snd (va_other v), da_usd_cny_rate = fst (va_fx v), da_hkd_cny_rate = snd (va_fx v),
        da_cash_accounts = fst (va_cash v), da_holdings = fst (va_holdings v), da_fixed_assets = fst (va_fixed v),
        da_liabilities = fst (va_owed v), da_other_assets = fst (va_other v), da_allocation = dashboard_allocation v,
        da_series = totals, da_holdings_return_series = return_totals, da_holding_return_series = series,
        da_recent_holding_transactions = recent\<rparr>)))))"

definition build_dashboard :: "env \<Rightarrow> dashboards \<Rightarrow> (error + dashboard) \<times> dashboards" where
  "build_dashboard env s =
     (case value_everything env (db_world s) of
        Inl e \<Rightarrow> (Inl e, s)
      | Inr v \<Rightarrow> (let s1 = update_live_states env v s in (dashboard_response env v s1, s1)))"

section \<open>The cache\<close>

definition DASHBOARD_CACHE_TTL :: int where
  "DASHBOARD_CACHE_TTL = 10 * US_MINUTE"

definition GLOBAL_FORCE_REFRESH_INTERVAL :: int where
  "GLOBAL_FORCE_REFRESH_INTERVAL = US_MINUTE"

definition cache_lookup :: "env \<Rightarrow> dashboards \<Rightarrow> (dashboard \<times> datetime) option" where
  "cache_lookup env s =
     (if en_user env \<in> set (cached_dashboards (db_world s)) then redis_get (en_now env) (db_cache s) (en_user env) else None)"

definition is_current_second :: "datetime \<Rightarrow> datetime \<Rightarrow> bool" where
  "is_current_second t now \<longleftrightarrow> current_second_bucket t = current_second_bucket now"

definition cache_store :: "env \<Rightarrow> dashboard \<Rightarrow> dashboards \<Rightarrow> dashboards" where
  "cache_store env d s = s\<lparr>
     db_world := (db_world s)\<lparr>cached_dashboards := en_user env # removeAll (en_user env) (cached_dashboards (db_world s))\<rparr>,
     db_cache := redis_set (en_now env) (Some DASHBOARD_CACHE_TTL) (en_user env) (d, en_now env) (db_cache s)\<rparr>"

definition get_cached_dashboard :: "env \<Rightarrow> bool \<Rightarrow> dashboards \<Rightarrow> (error + dashboard) \<times> dashboards" where
  \<comment> \<open>the entry is looked up again under the lock, which at a standing clock changes nothing\<close>
  "get_cached_dashboard env force_refresh s =
     (let cached = (case cache_lookup env s of
            Some (d, generated_at) \<Rightarrow> if \<not> force_refresh \<and> is_current_second generated_at (en_now env) then Some d else None
          | None \<Rightarrow> None)
      in case cached of
           Some d \<Rightarrow> (Inr d, s)
         | None \<Rightarrow> (case build_dashboard env s of
               (Inl e, s1) \<Rightarrow> (Inl e, s1)
             | (Inr d, s1) \<Rightarrow> (Inr d, cache_store env d s1)))"

definition consume_global_force_refresh_slot :: "datetime \<Rightarrow> datetime option \<Rightarrow> bool \<times> datetime option" where
  "consume_global_force_refresh_slot now last_force_refresh_at = (case last_force_refresh_at of
       Some t \<Rightarrow> if now - t < GLOBAL_FORCE_REFRESH_INTERVAL then (False, Some t) else (True, Some now)
     | None \<Rightarrow> (True, Some now))"

definition get_dashboard :: "pystr list \<Rightarrow> env \<Rightarrow> bool \<Rightarrow> dashboards \<Rightarrow> (error + dashboard) \<times> dashboards" where
  \<comment> \<open>a refresh that has the slot clears the market data, which is a parameter here, and samples all users\<close>
  "get_dashboard registered env refresh s =
     (if \<not> refresh then get_cached_dashboard env False s
      else (let (slot, last) = consume_global_force_refresh_slot (en_now env) (db_last_force_refresh s);
                s1 = s\<lparr>db_last_force_refresh := last\<rparr>
            in case (if slot then sample_realtime_analytics_once env registered (en_now env) (db_world s1) (db_analytics s1)
                     else Inr (db_analytics s1)) of
                 Inl e \<Rightarrow> (Inl e, s1)
               | Inr an \<Rightarrow> get_cached_dashboard env True
                   (s1\<lparr>db_analytics := an, db_world := invalidate_dashboard_cache (Some (en_user env)) (db_world s1)\<rparr>)))"

fun refresh_user_dashboards :: "env list \<Rightarrow> dashboards \<Rightarrow> (error + unit) \<times> dashboards" where
  \<comment> \<open>one environment per user; the first error is raised\<close>
  "refresh_user_dashboards [] s = (Inr (), s)"
| "refresh_user_dashboards (env # envs) s =
     (case get_cached_dashboard env True s of
        (Inl e, s1) \<Rightarrow> (Inl e, s1)
      | (Inr d, s1) \<Rightarrow> refresh_user_dashboards envs s1)"

section \<open>List handlers\<close>

text \<open>
  The amounts of the rows are shown as they are stored; what the cached dashboard says of a row,
  if it has it, is added.
\<close>

definition listing ::
  "(env \<Rightarrow> dashboard \<Rightarrow> world \<Rightarrow> error + 'a) \<Rightarrow> env \<Rightarrow> dashboards \<Rightarrow> (error + 'a) \<times> dashboards" where
  "listing items env s =
     (case get_cached_dashboard env False s of
        (Inl e, s1) \<Rightarrow> (Inl e, s1)
      | (Inr d, s1) \<Rightarrow> (items env d (db_world s1), s1))"

definition list_accounts ::
  "env \<Rightarrow> dashboards \<Rightarrow> (error + (nat \<times> cash_account \<times> int option \<times> int option) list) \<times> dashboards" where
  "list_accounts = listing (\<lambda>env d w.
     let valued = map_of (map (\<lambda>r. (car_id r, r)) (da_cash_accounts d)) in
     Inr (map (\<lambda>(i, a). (i, a, case valued i of None \<Rightarrow> (None, None) | Some r \<Rightarrow> (car_fx_to_cny r, car_value_cny r)))
       (dashboard_accounts w (en_user env))))"

definition list_holdings ::
  "env \<Rightarrow> dashboards \<Rightarrow> (error + (nat \<times> security_holding \<times> valued_holding option) list) \<times> dashboards" where
  "list_holdings = listing (\<lambda>env d w.
     let valued = map_of (map (\<lambda>r. (vi_id r, vi_valuation r)) (da_holdings d)) in
     Inr (map (\<lambda>(i, h). (i, h, valued i)) (dashboard_holdings w (en_user env))))"

definition listed_asset ::
  "valued_asset_read list \<Rightarrow> nat \<Rightarrow> pystr \<Rightarrow> pystr \<Rightarrow> fixed \<Rightarrow> fixed option \<Rightarrow> date option \<Rightarrow> pystr option
   \<Rightarrow> error + valued_asset_read" where
  "listed_asset items i name category current basis started_on asset_note =
     bindE (liftA (display_money (of_fixed current))) (\<lambda>value_cny.
     bindE (display_optional_money basis) (\<lambda>basis_value.
     let valued = map_of (map (\<lambda>r. (var_id r, r)) items) i in
     Inr \<lparr>var_id = i, var_name = name, var_category = category, var_current_value_cny = value_cny,
       var_basis_value_cny = basis_value, var_started_on = started_on, var_note = asset_note,
       var_value_cny = (case valued of None \<Rightarrow> value_cny | Some r \<Rightarrow> var_value_cny r),
       var_return_pct = (case valued of None \<Rightarrow> None | Some r \<Rightarrow> var_return_pct r)\<rparr>))"

definition list_fixed_assets :: "env \<Rightarrow> dashboards \<Rightarrow> (error + valued_asset_read list) \<times> dashboards" where
  "list_fixed_assets = listing (\<lambda>env d w.
     mapE (\<lambda>(i, a). listed_asset (da_fixed_assets d) i (fa_name a) (fa_category a) (fa_current_value_cny a)
         (fa_purchase_value_cny a) (fa_started_on a) (fa_note a)) (dashboard_fixed_assets w (en_user env)))"

definition list_other_assets :: "env \<Rightarrow> dashboards \<Rightarrow> (error + valued_asset_read list) \<times> dashboards" where
  "list_other_assets = listing (\<lambda>env d w.
     mapE (\<lambda>(i, a). listed_asset (da_other_assets d) i (oa_name a) (oa_category a) (oa_current_value_cny a)
         (oa_original_value_cny a) (oa_started_on a) (oa_note a)) (dashboard_other_assets w (en_user env)))"

definition list_liabilities :: "env \<Rightarrow> dashboards \<Rightarrow> (error + liability_read list) \<times> dashboards" where
  "list_liabilities = listing (\<lambda>env d w.
     let valued = map_of (map (\<lambda>r. (lir_id r, r)) (da_liabilities d)) in
     mapE (\<lambda>(i, l). bindE (liftA (display_money (of_fixed (li_balance l)))) (\<lambda>balance.
         Inr \<lparr>lir_id = i, lir_name = li_name l, lir_category = li_category l, lir_currency = li_currency l,
           lir_balance = balance, lir_started_on = li_started_on l, lir_note = li_note l,
           lir_fx_to_cny = (case valued i of None \<Rightarrow> None | Some r \<Rightarrow> lir_fx_to_cny r),
           lir_value_cny = (case valued i of None \<Rightarrow> None | Some r \<Rightarrow> lir_value_cny r)\<rparr>))
       (dashboard_liabilities w (en_user env)))"

end
