(* ===== verification/Dashboard_Query_Properties.thy ===== *)
theory Dashboard_Query_Properties
  imports Dashboard_Query Api Scenario
begin

text \<open>
  Properties of the dashboard: its sums, its newest point, and that a change of the user's data is
  never hidden by the cache.
\<close>

section \<open>Sums\<close>

lemma dec_add_cents: "\<bar>a + b\<bar> < 10 ^ 28 \<Longrightarrow> dec_add (Dec a (-2)) (Dec b (-2)) = Dec (a + b) (-2)"
  by (simp add: dec_add_def scale_to_def ctx_round_exact)

lemma dec_add_first_cents: "\<bar>b\<bar> < 10 ^ 28 \<Longrightarrow> dec_add DECIMAL_ZERO (Dec b (-2)) = Dec b (-2)"
  by (simp add: dec_add_def scale_to_def ctx_round_exact DECIMAL_ZERO_def)

lemma dec_sub_cents: "\<bar>b\<bar> < 10 ^ 28 \<Longrightarrow> \<bar>a - b\<bar> < 10 ^ 28 \<Longrightarrow> dec_sub (Dec a (-2)) (Dec b (-2)) = Dec (a - b) (-2)"
  by (simp add: dec_sub_def dec_neg_def dec_add_def scale_to_def ctx_round_exact)

definition modest :: "int list \<Rightarrow> bool" where
  \<comment> \<open>fewer than \<open>10 ^ 9\<close> amounts of at most \<open>10 ^ 16\<close> yuan\<close>
  "modest cs \<longleftrightarrow> length cs < 10 ^ 9 \<and> (\<forall>c \<in> set cs. \<bar>c\<bar> \<le> 10 ^ 18)"

lemma total_cents_exact:
  "\<forall>c \<in> set cs. \<bar>c\<bar> \<le> 10 ^ 18 \<Longrightarrow> \<bar>a\<bar> + 10 ^ 18 * int (length cs) < 10 ^ 28 \<Longrightarrow>
     total_cents cs (Dec a (-2)) = Dec (a + sum_list cs) (-2)"
proof (induction cs arbitrary: a)
  case (Cons c cs)
  then have "\<bar>a + c\<bar> + 10 ^ 18 * int (length cs) < 10 ^ 28" by auto
  with Cons show ?case by (simp add: dec_add_cents)
qed simp

lemma modest_sum: "modest cs \<Longrightarrow> \<bar>sum_list cs\<bar> < 10 ^ 27"
proof -
  assume m: "modest cs"
  then have "\<bar>sum_list cs\<bar> \<le> 10 ^ 18 * int (length cs)"
    unfolding modest_def by (induction cs) auto
  with m show ?thesis by (simp add: modest_def)
qed

lemma total_cents_modest:
  assumes "modest cs"
  shows "display_money (total_cents cs DECIMAL_ZERO) = Inr (sum_list cs)"
proof (cases cs)
  case (Cons c cs')
  with assms have "total_cents cs DECIMAL_ZERO = Dec (sum_list cs) (-2)"
    by (simp add: modest_def dec_add_first_cents total_cents_exact)
  with modest_sum [OF assms] show ?thesis
    by (simp add: display_money_def dec_quantize_def scale_to_def ndigits_prec Let_def)
qed (simp add: DECIMAL_ZERO_def display_money_def dec_quantize_def scale_to_def ndigits_prec Let_def)

lemma with_sum_modest: "modest (map val items) \<Longrightarrow> with_sum val items = Inr (items, sum_list (map val items))"
  by (simp add: with_sum_def total_cents_modest)

lemma with_sumD: "with_sum val items = Inr r \<Longrightarrow> modest (map val items) \<Longrightarrow> r = (items, sum_list (map val items))"
  by (simp add: with_sum_modest)

lemma with_sum_fst: "with_sum val items = Inr r \<Longrightarrow> fst r = items"
  by (auto simp: with_sum_def bindE_eq_Inr)

lemma mapE_keys:
  assumes "mapE f xs = Inr ys" "\<And>x y. f x = Inr y \<Longrightarrow> key y = idx x"
  shows "map key ys = map idx xs"
  using assms(1) by (induction xs arbitrary: ys) (auto simp: bindE_eq_Inr assms(2))

lemma build_dashboard_cases:
  assumes "build_dashboard env s = (Inr d, s')"
  obtains v where "value_everything env (db_world s) = Inr v" "s' = update_live_states env v s"
    "dashboard_response env v s' = Inr d"
  using assms by (auto simp: build_dashboard_def Let_def split: sum.splits)

lemma dashboard_fields:
  assumes "dashboard_response env v s = Inr d"
  shows "da_total_value_cny d = va_total v" "da_cash_value_cny d = snd (va_cash v)"
    "da_holdings_value_cny d = snd (va_holdings v)" "da_fixed_assets_value_cny d = snd (va_fixed v)"
    "da_liabilities_value_cny d = snd (va_owed v)" "da_other_assets_value_cny d = snd (va_other v)"
    "da_cash_accounts d = fst (va_cash v)" "da_holdings d = fst (va_holdings v)"
    "da_fixed_assets d = fst (va_fixed v)" "da_liabilities d = fst (va_owed v)"
    "da_other_assets d = fst (va_other v)" "da_allocation d = dashboard_allocation v"
  using assms by (auto simp: dashboard_response_def bindE_eq_Inr Let_def)

text \<open>The amounts of a dashboard, each with the amounts it is the sum of.\<close>

definition part_sums :: "dashboard \<Rightarrow> (int \<times> int list) list" where
  "part_sums d =
     [(da_cash_value_cny d, map (\<lambda>r. the (car_value_cny r)) (da_cash_accounts d)),
      (da_holdings_value_cny d, map (\<lambda>r. vh_value_cny (vi_valuation r)) (da_holdings d)),
      (da_fixed_assets_value_cny d, map var_value_cny (da_fixed_assets d)),
      (da_other_assets_value_cny d, map var_value_cny (da_other_assets d)),
      (da_liabilities_value_cny d, map (\<lambda>r. the (lir_value_cny r)) (da_liabilities d))]"

lemma valued_everything:
  assumes "value_everything env w = Inr v" "user = en_user env"
  shows "with_sum (\<lambda>r. the (car_value_cny r)) (fst (va_cash v)) = Inr (va_cash v)"
    "with_sum (\<lambda>r. vh_value_cny (vi_valuation r)) (fst (va_holdings v)) = Inr (va_holdings v)"
    "with_sum var_value_cny (fst (va_fixed v)) = Inr (va_fixed v)"
    "with_sum (\<lambda>r. the (lir_value_cny r)) (fst (va_owed v)) = Inr (va_owed v)"
    "with_sum var_value_cny (fst (va_other v)) = Inr (va_other v)"
    "display_money (dec_sub (dec_add (dec_add (dec_add (hundredths (snd (va_cash v))) (hundredths (snd (va_holdings v))))
       (hundredths (snd (va_fixed v)))) (hundredths (snd (va_other v)))) (hundredths (snd (va_owed v)))) = Inr (va_total v)"
    "map car_id (fst (va_cash v)) = map fst (dashboard_accounts w user)"
    "map vi_id (fst (va_holdings v)) = map fst (dashboard_holdings w user)"
    "map var_id (fst (va_fixed v)) = map fst (dashboard_fixed_assets w user)"
    "map lir_id (fst (va_owed v)) = map fst (dashboard_liabilities w user)"
    "map var_id (fst (va_other v)) = map fst (dashboard_other_assets w user)"
    "va_has_assets v \<longleftrightarrow> dashboard_accounts w user \<noteq> [] \<or> dashboard_holdings w user \<noteq> [] \<or> dashboard_fixed_assets w user \<noteq> []
      \<or> dashboard_liabilities w user \<noteq> [] \<or> dashboard_other_assets w user \<noteq> []"
proof -
  obtain fx as hs fs ls os cash valued fixed owed other where
    ws: "with_sum (\<lambda>r. the (car_value_cny r)) as = Inr cash" "with_sum (\<lambda>r. vh_value_cny (vi_valuation r)) hs = Inr valued"
      "with_sum var_value_cny fs = Inr fixed" "with_sum (\<lambda>r. the (lir_value_cny r)) ls = Inr owed" "with_sum var_value_cny os = Inr other"
    and m: "mapE (valued_account_item env fx) (dashboard_accounts w user) = Inr as"
      "mapE (valued_holding_row env fx (has_holding_history_sync_pending user w)) (dashboard_holdings w user) = Inr hs"
      "mapE (\<lambda>(i, a). valued_asset_response i (fa_name a) (fa_category a) (fa_current_value_cny a)
         (fa_purchase_value_cny a) (fa_started_on a) (fa_note a)) (dashboard_fixed_assets w user) = Inr fs"
      "mapE (valued_liability_item env fx) (dashboard_liabilities w user) = Inr ls"
      "mapE (\<lambda>(i, a). valued_asset_response i (oa_name a) (oa_category a) (oa_current_value_cny a)
         (oa_original_value_cny a) (oa_started_on a) (oa_note a)) (dashboard_other_assets w user) = Inr os"
    and v: "va_cash v = cash" "va_holdings v = valued" "va_fixed v = fixed" "va_owed v = owed" "va_other v = other"
    and t: "display_money (dec_sub (dec_add (dec_add (dec_add (hundredths (snd cash)) (hundredths (snd valued)))
       (hundredths (snd fixed))) (hundredths (snd other))) (hundredths (snd owed))) = Inr (va_total v)"
    and h: "va_has_assets v \<longleftrightarrow> dashboard_accounts w user \<noteq> [] \<or> dashboard_holdings w user \<noteq> [] \<or> dashboard_fixed_assets w user \<noteq> []
      \<or> dashboard_liabilities w user \<noteq> [] \<or> dashboard_other_assets w user \<noteq> []"
    using assms unfolding value_everything_def value_cash_accounts_def value_holdings_def value_fixed_assets_def
      value_liabilities_def value_other_assets_def Let_def
    by (auto simp: bindE_eq_Inr)
  note ws' = ws [THEN with_sum_fst]
  show "with_sum (\<lambda>r. the (car_value_cny r)) (fst (va_cash v)) = Inr (va_cash v)"
    "with_sum (\<lambda>r. vh_value_cny (vi_valuation r)) (fst (va_holdings v)) = Inr (va_holdings v)"
    "with_sum var_value_cny (fst (va_fixed v)) = Inr (va_fixed v)"
    "with_sum (\<lambda>r. the (lir_value_cny r)) (fst (va_owed v)) = Inr (va_owed v)"
    "with_sum var_value_cny (fst (va_other v)) = Inr (va_other v)"
    using ws by (simp_all add: v ws')
  show "display_money (dec_sub (dec_add (dec_add (dec_add (hundredths (snd (va_cash v))) (hundredths (snd (va_holdings v))))
       (hundredths (snd (va_fixed v)))) (hundredths (snd (va_other v)))) (hundredths (snd (va_owed v)))) = Inr (va_total v)"
    using t by (simp add: v)
  show "map car_id (fst (va_cash v)) = map fst (dashboard_accounts w user)"
    unfolding v ws' by (rule mapE_keys [OF m(1)]) (auto simp: valued_account_item_def bindE_eq_Inr split: prod.splits)
  show "map vi_id (fst (va_holdings v)) = map fst (dashboard_holdings w user)"
    unfolding v ws' by (rule mapE_keys [OF m(2)]) (auto simp: valued_holding_row_def bindE_eq_Inr split: prod.splits)
  show "map var_id (fst (va_fixed v)) = map fst (dashboard_fixed_assets w user)"
    unfolding v ws' by (rule mapE_keys [OF m(3)]) (auto simp: valued_asset_response_def bindE_eq_Inr split: prod.splits)
  show "map lir_id (fst (va_owed v)) = map fst (dashboard_liabilities w user)"
    unfolding v ws' by (rule mapE_keys [OF m(4)]) (auto simp: valued_liability_item_def bindE_eq_Inr split: prod.splits)
  show "map var_id (fst (va_other v)) = map fst (dashboard_other_assets w user)"
    unfolding v ws' by (rule mapE_keys [OF m(5)]) (auto simp: valued_asset_response_def bindE_eq_Inr split: prod.splits)
  show "va_has_assets v \<longleftrightarrow> dashboard_accounts w user \<noteq> [] \<or> dashboard_holdings w user \<noteq> [] \<or> dashboard_fixed_assets w user \<noteq> []
      \<or> dashboard_liabilities w user \<noteq> [] \<or> dashboard_other_assets w user \<noteq> []"
    by (fact h)
qed

lemma total_of_parts:
  assumes "display_money (dec_sub (dec_add (dec_add (dec_add (hundredths a) (hundredths b)) (hundredths c)) (hundredths e)) (hundredths f)) = Inr n"
    and "\<bar>a\<bar> < 10 ^ 27" "\<bar>b\<bar> < 10 ^ 27" "\<bar>c\<bar> < 10 ^ 27" "\<bar>e\<bar> < 10 ^ 27" "\<bar>f\<bar> < 10 ^ 27"
  shows "n = a + b + c + e - f"
proof -
  have "dec_sub (dec_add (dec_add (dec_add (hundredths a) (hundredths b)) (hundredths c)) (hundredths e)) (hundredths f)
      = Dec (a + b + c + e - f) (-2)"
    using assms(2-) by (simp add: hundredths_def dec_add_cents dec_sub_cents)
  with assms(1) show ?thesis
    by (auto simp: display_money_def dec_quantize_def scale_to_def Let_def split: if_splits)
qed

section \<open>A dashboard of two accounts\<close>

definition fresh_start :: "world \<Rightarrow> dashboards" where
  "fresh_start w = \<lparr>db_world = w, db_analytics = \<lparr>an_hourly = ([], []), an_realtime = ([], [])\<rparr>,
     db_live_portfolios = [], db_live_returns = [], db_corrections = empty_table, db_cache = [],
     db_last_force_refresh = None\<rparr>"

lemma no_corrections: "apply_dashboard_corrections [] sc g sy points = Inr points"
  by (induction points) auto

lemma uncorrected_series:
  "(\<And>g. \<exists>points. raw g = Inr points) \<Longrightarrow> \<exists>series. corrected_series [] scope symbol raw = Inr series"
proof -
  assume "\<And>g. \<exists>points. raw g = Inr points"
  then obtain f where "\<And>g. raw g = Inr (f g)" by metis
  then show ?thesis by (simp add: corrected_series_def no_corrections)
qed

lemma two_accounts_rows:
  "dashboard_accounts two_accounts (lit ''ada'') = [(1, cny_account [65] 10000000000), (2, cny_account [66] 0)]"
  "dashboard_holdings two_accounts (lit ''ada'') = []" "dashboard_fixed_assets two_accounts (lit ''ada'') = []"
  "dashboard_liabilities two_accounts (lit ''ada'') = []" "dashboard_other_assets two_accounts (lit ''ada'') = []"
  by (simp_all add: dashboard_accounts_def dashboard_holdings_def dashboard_fixed_assets_def dashboard_liabilities_def
      dashboard_other_assets_def ordered_rows_def tselect_def two_accounts_def empty_world_def empty_table_def cny_account_def
      sort_key_def)

lemma ada_fields: "en_user ada = lit ''ada''" "en_fx_rate ada a b = Some (Dec 7 0)"
  by (simp_all add: ada_def)

lemma ada_amounts:
  fixes rates defines "rates \<equiv> [(lit ''CNY'', Dec 1 0), (lit ''USD'', Dec 700000000 (-8)), (lit ''HKD'', Dec 700000000 (-8))]"
  shows "value_amount ada rates (lit ''CNY'') 10000000000 = Inr (1000000, 10000)"
    "value_amount ada rates (lit ''CNY'') 0 = Inr (1000000, 0)"
    "display_money (of_fixed 10000000000) = Inr 10000" "display_money (of_fixed 0) = Inr 0"
proof -
  have rate: "lookup_fx ada rates (lit ''CNY'') = Some (Dec 1 0)" "quantize_decimal (Dec 1 0) = Inr 100000000"
    "display_fx_rate (of_fixed 100000000) = Inr 1000000"
    by (simp_all add: rates_def lookup_fx_def eval_decimals Let_def cong: eval_cong)
  have m: "multiply_decimals (Some (of_fixed b)) (Some (of_fixed 100000000)) = Inr b \<and> display_money (of_fixed b) = Inr (b div 1000000)"
    if "b \<in> {10000000000, 0}" for b
    using that by (elim insertE) (simp_all add: eval_decimals Let_def cong: eval_cong)
  from rate m [of 10000000000] m [of 0] show "value_amount ada rates (lit ''CNY'') 10000000000 = Inr (1000000, 10000)"
    "value_amount ada rates (lit ''CNY'') 0 = Inr (1000000, 0)"
    "display_money (of_fixed 10000000000) = Inr 10000" "display_money (of_fixed 0) = Inr 0"
    by (simp_all add: value_amount_def)
qed

lemma two_accounts_valued:
  obtains v where "value_everything ada two_accounts = Inr v" "va_total v = 10000" "va_has_assets v" "va_returns v = (None, [])"
    "snd (va_cash v) = 10000" "map (\<lambda>r. the (car_value_cny r)) (fst (va_cash v)) = [10000, 0]" "va_holdings v = ([], 0)"
    "va_fixed v = ([], 0)" "va_owed v = ([], 0)" "va_other v = ([], 0)"
proof -
  have fx: "load_display_fx_rates ada = Inr ([(lit ''CNY'', Dec 1 0), (lit ''USD'', Dec 700000000 (-8)),
      (lit ''HKD'', Dec 700000000 (-8))], Some 7000000, Some 7000000)"
    by (simp add: load_display_fx_rates_def ada_fields eval_decimals Let_def List.map_filter_def lit_def)
  have "\<exists>a b. mapE (valued_account_item ada [(lit ''CNY'', Dec 1 0), (lit ''USD'', Dec 700000000 (-8)), (lit ''HKD'', Dec 700000000 (-8))])
      [(1, cny_account [65] 10000000000), (2, cny_account [66] 0)] = Inr [a, b] \<and> car_value_cny a = Some 10000 \<and> car_value_cny b = Some 0"
    by (simp add: valued_account_item_def value_cash_account_def ada_amounts del: One_nat_def)
  then obtain a b where ab: "mapE (valued_account_item ada [(lit ''CNY'', Dec 1 0), (lit ''USD'', Dec 700000000 (-8)),
      (lit ''HKD'', Dec 700000000 (-8))]) [(1, cny_account [65] 10000000000), (2, cny_account [66] 0)] = Inr [a, b]"
      "car_value_cny a = Some 10000" "car_value_cny b = Some 0" by blast
  have "modest [10000, 0]" by (simp add: modest_def)
  then have "with_sum (\<lambda>r. the (car_value_cny r)) [a, b] = Inr ([a, b], 10000)"
    using with_sum_modest [of "\<lambda>r. the (car_value_cny r)" "[a, b]"] ab by simp
  with ab have cash: "value_cash_accounts ada [(lit ''CNY'', Dec 1 0), (lit ''USD'', Dec 700000000 (-8)),
      (lit ''HKD'', Dec 700000000 (-8))] [(1, cny_account [65] 10000000000), (2, cny_account [66] 0)] = Inr ([a, b], 10000)"
      "map (\<lambda>r. the (car_value_cny r)) [a, b] = [10000, 0]"
    unfolding value_cash_accounts_def by simp_all
  have none: "with_sum f [] = Inr ([], 0)" for f :: "'a \<Rightarrow> int"
    by (simp add: with_sum_modest modest_def)
  have total: "display_money (dec_sub (dec_add (dec_add (dec_add (hundredths 10000) (hundredths 0)) (hundredths 0)) (hundredths 0))
      (hundredths 0)) = Inr 10000"
    by (simp add: hundredths_def dec_add_cents dec_sub_cents) (simp add: display_money_def dec_quantize_def scale_to_def ndigits_prec Let_def)
  have returns: "summarize_holdings_return_state [] = Inr (None, [])"
    by (simp add: summarize_holdings_return_state_def aggregate_return_def DECIMAL_ZERO_def dec_le_def scale_to_def)
  have empty: "value_holdings env fx pending [] = Inr ([], 0)" "value_fixed_assets [] = Inr ([], 0)"
    "value_liabilities env fx [] = Inr ([], 0)" "value_other_assets [] = Inr ([], 0)" for env fx pending
    by (simp_all add: value_holdings_def value_fixed_assets_def value_liabilities_def value_other_assets_def none)
  have "value_everything ada two_accounts = Inr \<lparr>va_fx = (Some 7000000, Some 7000000), va_cash = ([a, b], 10000),
      va_holdings = ([], 0), va_fixed = ([], 0), va_owed = ([], 0), va_other = ([], 0), va_total = 10000,
      va_has_assets = True, va_returns = (None, [])\<rparr>"
    unfolding value_everything_def fx bindE_simps prod.case Let_def ada_fields two_accounts_rows cash(1) empty
        snd_conv fst_conv total liftA_simps returns by simp
  then show thesis by (rule that) (simp_all add: ab)
qed

lemma first_timelines:
  assumes "an_hourly an = ([], [])" "an_realtime an = ([], [])"
  shows "pf_created_at x = now \<Longrightarrow> portfolio_timeline u now (Some x) an g = build_timeline [x] g"
    "return_timeline u now scope symbol [] an g = build_return_timeline [] g"
  using assms by (cases g; simp add: portfolio_timeline_def load_series_with_live_snapshot_def load_series_def
      load_hybrid_portfolio_series_with_live_snapshot_def with_live_snapshot_def sort_key_def US_SECOND_def US_MINUTE_def
      US_HOUR_def US_DAY_def return_timeline_def load_holdings_return_series_with_live_snapshot_def
      load_holdings_return_series_def load_hybrid_holdings_return_series_with_live_snapshot_def)+

lemma first_points:
  assumes "display_money (Dec (pf_total_value_cny x) (-2)) = Inr n"
  shows "\<exists>points. build_timeline [x] g = Inr points" "\<exists>points. build_return_timeline [] g = Inr points"
  using assms by (simp_all add: build_timeline_def build_return_timeline_def build_timeline_from_snapshots_def Let_def sort_key_def)

lemma two_accounts_dashboard:
  obtains d s' where "build_dashboard ada (fresh_start two_accounts) = (Inr d, s')"
    "part_sums d = [(10000, [10000, 0]), (0, []), (0, []), (0, []), (0, [])]"
proof -
  obtain v where v: "value_everything ada two_accounts = Inr v" "va_total v = 10000" "va_has_assets v" "va_returns v = (None, [])"
    "snd (va_cash v) = 10000" "map (\<lambda>r. the (car_value_cny r)) (fst (va_cash v)) = [10000, 0]" "va_holdings v = ([], 0)"
    "va_fixed v = ([], 0)" "va_owed v = ([], 0)" "va_other v = ([], 0)"
    by (rule two_accounts_valued)
  define s' where "s' = update_live_states ada v (fresh_start two_accounts)"
  have s': "db_world s' = two_accounts" "db_analytics s' = \<lparr>an_hourly = ([], []), an_realtime = ([], [])\<rparr>" "db_corrections s' = empty_table"
    by (simp_all add: s'_def update_live_states_def fresh_start_def roll_live_portfolio_state_if_needed_def
        roll_live_holdings_return_state_if_needed_def redis_get_def Let_def)
  have lookup: "load_dashboard_correction_lookup empty_table u = []" for u
    by (simp add: load_dashboard_correction_lookup_def tselect_def empty_table_def sort_key_def)
  let ?x = "\<lparr>pf_user = lit ''ada'', pf_total_value_cny = 10000, pf_created_at = en_now ada\<rparr>"
  have shown: "display_money (Dec 10000 (-2)) = Inr 10000"
    by (simp add: display_money_def dec_quantize_def scale_to_def ndigits_prec Let_def)
  have "\<exists>points. portfolio_timeline (lit ''ada'') (en_now ada) (Some ?x) (db_analytics s') g = Inr points" for g
    using first_points(1) [of ?x 10000 g] shown by (subst first_timelines(1)) (simp_all only: s' analytics.simps portfolio_snapshot.simps)
  from uncorrected_series [OF this, of "lit ''PORTFOLIO_TOTAL''" None] obtain totals where totals: "corrected_series [] (lit ''PORTFOLIO_TOTAL'') None
      (portfolio_timeline (lit ''ada'') (en_now ada) (Some ?x) (db_analytics s')) = Inr totals" ..
  have "\<exists>points. return_timeline (lit ''ada'') (en_now ada) SCOPE_TOTAL None [] (db_analytics s') g = Inr points" for g
    by (subst first_timelines(2)) (simp_all add: s' build_return_timeline_def build_timeline_from_snapshots_def sort_key_def)
  from uncorrected_series [OF this, of "lit ''HOLDINGS_RETURN_TOTAL''" None] obtain returns where returns: "corrected_series [] (lit ''HOLDINGS_RETURN_TOTAL'') None
      (return_timeline (lit ''ada'') (en_now ada) SCOPE_TOTAL None [] (db_analytics s')) = Inr returns" ..
  have recent: "bindE (list_holding_transactions_for_user two_accounts u None None None 5000)
      (to_holding_transaction_reads two_accounts u) = Inr []" for u
    by (simp add: list_holding_transactions_for_user_def truthy_def tselect_def empty_table_def sort_key_def
        to_holding_transaction_reads_def)
  have live: "build_transient_portfolio_snapshot (lit ''ada'') (en_now ada) 10000 True = Some ?x"
    "build_transient_holdings_return_snapshots (lit ''ada'') (en_now ada) None [] = []"
    by (simp_all add: build_transient_portfolio_snapshot_def build_transient_holdings_return_snapshots_def)
  have "\<exists>d. dashboard_response ada v s' = Inr d"
    unfolding dashboard_response_def Let_def ada_fields s'(1,3) v(2,4,7) fst_conv snd_conv lookup
    by (simp add: v(3) live totals returns recent)
  then obtain d where d: "dashboard_response ada v s' = Inr d" ..
  have "build_dashboard ada (fresh_start two_accounts) = (Inr d, s')"
    using d v(1) by (simp add: build_dashboard_def fresh_start_def s'_def Let_def)
  moreover have "part_sums d = [(10000, [10000, 0]), (0, []), (0, []), (0, []), (0, [])]"
    unfolding part_sums_def dashboard_fields [OF d] v(7-10) by (simp add: v(5,6))
  ultimately show thesis by (rule that)
qed

text \<open>
  C11: a dashboard adds up to the cent: it lists every account, holding, asset and liability of the
  user once, the five amounts are the sums of the values listed, and the total is what the user has less what
  the user owes.
\<close>

theorem dashboard_adds_up:
  assumes "build_dashboard env s = (Inr d, s')" and "\<forall>(amount, parts) \<in> set (part_sums d). modest parts"
  shows "(\<forall>(amount, parts) \<in> set (part_sums d). amount = sum_list parts)
    \<and> da_total_value_cny d = da_cash_value_cny d + da_holdings_value_cny d + da_fixed_assets_value_cny d
        + da_other_assets_value_cny d - da_liabilities_value_cny d
    \<and> map car_id (da_cash_accounts d) = map fst (dashboard_accounts (db_world s) (en_user env))
    \<and> map vi_id (da_holdings d) = map fst (dashboard_holdings (db_world s) (en_user env))
    \<and> map var_id (da_fixed_assets d) = map fst (dashboard_fixed_assets (db_world s) (en_user env))
    \<and> map lir_id (da_liabilities d) = map fst (dashboard_liabilities (db_world s) (en_user env))
    \<and> map var_id (da_other_assets d) = map fst (dashboard_other_assets (db_world s) (en_user env))"
proof -
  obtain v where v: "value_everything env (db_world s) = Inr v" "dashboard_response env v s' = Inr d"
    using assms(1) by (rule build_dashboard_cases)
  note f = dashboard_fields [OF v(2)] and e = valued_everything [OF v(1) refl]
  have m: "modest (map (\<lambda>r. the (car_value_cny r)) (fst (va_cash v)))"
    "modest (map (\<lambda>r. vh_value_cny (vi_valuation r)) (fst (va_holdings v)))"
    "modest (map var_value_cny (fst (va_fixed v)))" "modest (map (\<lambda>r. the (lir_value_cny r)) (fst (va_owed v)))"
    "modest (map var_value_cny (fst (va_other v)))"
    using assms(2) by (auto simp: part_sums_def f)
  have sums: "snd (va_cash v) = sum_list (map (\<lambda>r. the (car_value_cny r)) (fst (va_cash v)))"
    "snd (va_holdings v) = sum_list (map (\<lambda>r. vh_value_cny (vi_valuation r)) (fst (va_holdings v)))"
    "snd (va_fixed v) = sum_list (map var_value_cny (fst (va_fixed v)))"
    "snd (va_owed v) = sum_list (map (\<lambda>r. the (lir_value_cny r)) (fst (va_owed v)))"
    "snd (va_other v) = sum_list (map var_value_cny (fst (va_other v)))"
    using with_sumD [OF e(1) m(1)] with_sumD [OF e(2) m(2)] with_sumD [OF e(3) m(3)] with_sumD [OF e(4) m(4)]
      with_sumD [OF e(5) m(5)] by (metis snd_conv)+
  have total: "va_total v = snd (va_cash v) + snd (va_holdings v) + snd (va_fixed v) + snd (va_other v) - snd (va_owed v)"
    by (rule total_of_parts [OF e(6)]) (simp_all only: sums m modest_sum)
  have parts: "\<forall>(amount, parts) \<in> set (part_sums d). amount = sum_list parts"
    by (simp add: part_sums_def f sums)
  with total e(7-11) show ?thesis by (simp only: f simp_thms)
qed

theorem dashboard_adds_up_witness:
  "\<exists>d s'. build_dashboard ada (fresh_start two_accounts) = (Inr d, s') \<and> da_total_value_cny d = 10000"
proof -
  obtain d s' where d: "build_dashboard ada (fresh_start two_accounts) = (Inr d, s')"
      "part_sums d = [(10000, [10000, 0]), (0, []), (0, []), (0, []), (0, [])]"
    by (rule two_accounts_dashboard)
  have "\<forall>(amount, parts) \<in> set (part_sums d). modest parts" by (simp add: d(2) modest_def)
  from dashboard_adds_up [OF d(1) this] d(2) have "da_total_value_cny d = 10000" by (auto simp: part_sums_def)
  with d(1) show ?thesis by (intro exI conjI)
qed

section \<open>The newest point\<close>

lemma newest_snoc:
  "newest created (ss @ [x]) m = (case newest created ss m of None \<Rightarrow> Some x
     | Some c \<Rightarrow> if created x \<ge> created c then Some x else Some c)"
  by (induction ss arbitrary: m) (auto split: option.splits)

lemma newest_last:
  assumes "\<forall>s \<in> set ss. created s \<le> created x"
  shows "newest created (ss @ [x]) None = Some x"
proof (cases "newest created ss None")
  case (Some c)
  then have "created c \<le> created x" using newest_max [OF Some] assms by auto
  with Some show ?thesis by (simp add: newest_snoc)
qed (simp add: newest_snoc)

lemma timeline_newest_point:
  assumes b: "build_timeline_from_snapshots created format_value (ss @ [x]) g = Inr points" and p: "p \<in> set points"
    and here: "tp_timestamp_utc p = bucket_start g (created x)" and old: "\<forall>s \<in> set ss. created s \<le> created x"
  shows "format_value x = Inr (tp_value p)"
proof -
  let ?cs = "collect_buckets created g (ss @ [x]) []"
  from b p obtain k s where ks: "(k, s) \<in> set ?cs" "format_value s = Inr (tp_value p)" "tp_timestamp_utc p = k"
    unfolding build_timeline_from_snapshots_def by (fastforce simp: bindE_eq_Inr dest!: mapE_elem)
  then have "map_of ?cs k = Some s"
    using collect_buckets_distinct [of "[]" created g "ss @ [x]"] by simp
  moreover have "map_of ?cs (bucket_start g (created x)) = Some x"
    unfolding collect_buckets_lookup using old by (simp add: newest_last)
  ultimately show ?thesis using ks here by simp
qed

lemma fine_bucket_mono: "g \<in> {G_SECOND, G_MINUTE} \<Longrightarrow> a \<le> b \<Longrightarrow> bucket_start g a \<le> bucket_start g b"
proof -
  have "a - a mod k \<le> b - b mod k" if "a \<le> b" "0 < k" for a b k :: int
    using that by (simp add: minus_mod_eq_mult_div zdiv_mono1)
  then show "g \<in> {G_SECOND, G_MINUTE} \<Longrightarrow> a \<le> b \<Longrightarrow> bucket_start g a \<le> bucket_start g b"
    by (auto simp: bucket_start_def US_SECOND_def US_MINUTE_def)
qed

lemma last_sorted_Max: "sorted xs \<Longrightarrow> xs \<noteq> [] \<Longrightarrow> last xs = Max (set xs)"
  by (induction xs rule: rev_induct) (auto intro!: Max_eqI [symmetric] simp: sorted_append)

lemma timeline_last_point:
  assumes b: "build_timeline_from_snapshots created format_value (ss @ [x]) g = Inr points"
    and g: "g \<in> {G_SECOND, G_MINUTE}" and old: "\<forall>s \<in> set ss. created s \<le> created x"
  shows "points \<noteq> [] \<and> tp_timestamp_utc (last points) = bucket_start g (created x)
    \<and> format_value x = Inr (tp_value (last points))"
proof -
  let ?S = "(\<lambda>s. bucket_start g (created s)) ` set (ss @ [x])"
  have ts: "map tp_timestamp_utc points = sorted_list_of_set ?S" using b by (rule timeline_buckets)
  have ne: "?S \<noteq> {}" by simp
  then have "points \<noteq> []" using ts by (metis sorted_list_of_set_eq_Nil_iff finite_imageI finite_set list.map_disc_iff)
  moreover have "tp_timestamp_utc (last points) = bucket_start g (created x)"
  proof -
    have "tp_timestamp_utc (last points) = last (map tp_timestamp_utc points)"
      using \<open>points \<noteq> []\<close> by (simp add: last_map)
    also have "\<dots> = Max (set (map tp_timestamp_utc points))"
      by (rule last_sorted_Max) (simp_all only: ts sorted_list_of_set.sorted_sorted_key_list_of_set,
        use \<open>points \<noteq> []\<close> ts in \<open>simp flip: ts\<close>)
    also have "Max (set (map tp_timestamp_utc points)) = Max ?S" by (simp only: ts set_sorted_list_of_set finite_imageI finite_set)
    also have "\<dots> = bucket_start g (created x)"
      using old g by (intro Max_eqI) (auto intro: fine_bucket_mono)
    finally show ?thesis .
  qed
  ultimately show ?thesis using timeline_newest_point [OF b _ _ old] by simp
qed

lemma persist_hour_snapshot_elem:
  assumes "r \<in> set (persist_hour_snapshot user hour v snaps)"
  shows "pf_created_at r = current_hour_bucket hour \<or> r \<in> set snaps"
proof -
  have "set (map snd (filter P (List.enumerate 0 snaps))) \<subseteq> set snaps" for P :: "nat \<times> portfolio_snapshot \<Rightarrow> bool"
    by (auto simp: in_set_enumerate_eq)
  then show ?thesis using assms
    by (fastforce simp: persist_hour_snapshot_def Let_def in_set_enumerate_eq split: list.splits if_splits)
qed

lemma hour_bucket_le: "current_hour_bucket t \<le> t"
  by (simp add: current_hour_bucket_def US_HOUR_def)

lemma rolled_rows_are_old:
  assumes "\<forall>r \<in> set (fst (an_hourly (db_analytics s))). pf_created_at r \<le> en_now env"
  shows "\<forall>r \<in> set (fst (an_hourly (db_analytics (update_live_states env v s)))). pf_created_at r \<le> en_now env"
proof -
  obtain live ps where r: "roll_live_portfolio_state_if_needed (en_user env) (en_now env)
      (db_live_portfolios s, fst (an_hourly (db_analytics s))) = (live, ps)" by (cases "roll_live_portfolio_state_if_needed (en_user env) (en_now env)
      (db_live_portfolios s, fst (an_hourly (db_analytics s)))")
  have ps: "fst (an_hourly (db_analytics (update_live_states env v s))) = ps"
    by (simp add: update_live_states_def Let_def r split: prod.split)
  have "pf_created_at q \<le> en_now env" if q: "q \<in> set ps" for q
  proof (cases "ps = fst (an_hourly (db_analytics s))")
    case False
    from r False obtain st where g: "redis_get (en_now env) (db_live_portfolios s) (en_user env) = Some st"
      by (cases "redis_get (en_now env) (db_live_portfolios s) (en_user env)") (auto simp: roll_live_portfolio_state_if_needed_def)
    from r False have st: "lp_hour_bucket st < current_hour_bucket (en_now env)"
        "ps = persist_hour_snapshot (en_user env) (lp_hour_bucket st) (lp_latest_value_cny st) (fst (an_hourly (db_analytics s)))"
      by (auto simp: roll_live_portfolio_state_if_needed_def g split: if_splits)
    show ?thesis
      using persist_hour_snapshot_elem [OF q [unfolded st(2)]] st(1) assms hour_bucket_le [of "lp_hour_bucket st"]
        hour_bucket_le [of "en_now env"] by fastforce
  qed (use assms q in auto)
  then show ?thesis by (simp add: ps)
qed

definition has_assets :: "world \<Rightarrow> pystr \<Rightarrow> bool" where
  \<comment> \<open>the user has an account, a holding, a fixed asset, a liability or another asset\<close>
  "has_assets w user \<longleftrightarrow>
     (\<exists>p \<in> set (rows (accounts w)). ca_user (snd p) = user) \<or> (\<exists>p \<in> set (rows (holdings w)). sh_user (snd p) = user)
   \<or> (\<exists>p \<in> set (rows (fixed_assets w)). fa_user (snd p) = user) \<or> (\<exists>p \<in> set (rows (liabilities w)). li_user (snd p) = user)
   \<or> (\<exists>p \<in> set (rows (other_assets w)). oa_user (snd p) = user)"

lemma ordered_rows_nonempty: "ordered_rows owner key user t \<noteq> [] \<longleftrightarrow> (\<exists>p \<in> set (rows t). owner (snd p) = user)"
proof -
  have "ordered_rows owner key user t = [] \<longleftrightarrow> set (ordered_rows owner key user t) = {}" by simp
  also have "\<dots> \<longleftrightarrow> \<not> (\<exists>p \<in> set (rows t). owner (snd p) = user)"
    unfolding ordered_rows_def set_sort by (force simp: tselect_def)
  finally show ?thesis by blast
qed

text \<open>
  C23: for a user who has at least one account, holding, fixed asset, liability or other asset, the newest
  points of the seconds and of the minutes of a dashboard are the total it shows, at its own time,
  whatever was recorded before, as long as no snapshot is from the future.
\<close>

theorem dashboard_ends_with_total:
  assumes "build_dashboard env s = (Inr d, s')"
    and "has_assets (db_world s) (en_user env)"
    and "\<forall>r \<in> set (fst (an_hourly (db_analytics s))) \<union> set (fst (an_realtime (db_analytics s))). pf_created_at r \<le> en_now env"
  shows "(\<exists>before p. ss_second (da_series d) = before @ [p] \<and> tp_value p = da_total_value_cny d
        \<and> tp_timestamp_utc p = bucket_start G_SECOND (en_now env))
    \<and> (\<exists>before p. ss_minute (da_series d) = before @ [p] \<and> tp_value p = da_total_value_cny d
        \<and> tp_timestamp_utc p = bucket_start G_MINUTE (en_now env))"
proof -
  obtain v where v: "value_everything env (db_world s) = Inr v" "dashboard_response env v s' = Inr d"
      "s' = update_live_states env v s"
    using assms(1) by (rule build_dashboard_cases)
  let ?an = "db_analytics s'" and ?user = "en_user env" and ?now = "en_now env"
  let ?x = "\<lparr>pf_user = ?user, pf_total_value_cny = va_total v, pf_created_at = ?now\<rparr>"
  have live: "build_transient_portfolio_snapshot ?user ?now (va_total v) (va_has_assets v) = Some ?x"
    using valued_everything(12) [OF v(1) refl] assms(2)
    unfolding has_assets_def dashboard_accounts_def dashboard_holdings_def dashboard_fixed_assets_def
      dashboard_liabilities_def dashboard_other_assets_def ordered_rows_nonempty
    by (simp only: build_transient_portfolio_snapshot_def not_True_eq_False if_False)
  have rt: "an_realtime (db_analytics (update_live_states env v s)) = an_realtime (db_analytics s)"
    by (simp add: update_live_states_def Let_def split: prod.split)
  have old: "\<forall>r \<in> set (fst (an_hourly ?an)) \<union> set (fst (an_realtime ?an)). pf_created_at r \<le> ?now"
    using rolled_rows_are_old [of s env v] assms(3) unfolding rt v(3) by blast
  have point: "\<exists>before p. points = before @ [p] \<and> tp_value p = da_total_value_cny d \<and> tp_timestamp_utc p = bucket_start g ?now"
    if "portfolio_timeline ?user ?now (Some ?x) ?an g = Inr points" and g: "g \<in> {G_SECOND, G_MINUTE}" for g points
  proof -
    let ?rt = "load_series ?user (?now - 61 * (if g = G_SECOND then US_SECOND else US_MINUTE)) (fst (an_realtime ?an))"
    let ?h = "if g = G_SECOND then [] else load_series ?user (minute_history_since ?now) (fst (an_hourly ?an))"
    have b: "build_timeline ((?h @ ?rt) @ [?x]) g = Inr points" and old': "\<forall>r \<in> set (?h @ ?rt). pf_created_at r \<le> ?now"
      using that old by (auto simp: portfolio_timeline_def load_hybrid_portfolio_series_with_live_snapshot_def
          with_live_snapshot_def load_series_def US_SECOND_def US_MINUTE_def)
    from timeline_last_point [OF b [unfolded build_timeline_def] g] old' have "points \<noteq> []"
      "tp_timestamp_utc (last points) = bucket_start g ?now" "tp_value (last points) = va_total v"
      by (auto simp: display_money_def dec_quantize_def scale_to_def Let_def split: if_splits)
    then show ?thesis using dashboard_fields(1) [OF v(2)] append_butlast_last_id by metis
  qed
  obtain lookup where c: "corrected_series lookup (lit ''PORTFOLIO_TOTAL'') None (portfolio_timeline ?user ?now (Some ?x) ?an) = Inr (da_series d)"
    using v(2) unfolding dashboard_response_def live Let_def by (auto simp: bindE_eq_Inr)
  then have "portfolio_timeline ?user ?now (Some ?x) ?an G_SECOND = Inr (ss_second (da_series d))"
    "portfolio_timeline ?user ?now (Some ?x) ?an G_MINUTE = Inr (ss_minute (da_series d))"
    by (auto simp: corrected_series_def bindE_eq_Inr dest!: sym [of _ "da_series d"])
  then show ?thesis by (simp add: point)
qed

theorem dashboard_ends_with_total_witness:
  "\<exists>d s' before p. build_dashboard ada (fresh_start two_accounts) = (Inr d, s')
    \<and> ss_second (da_series d) = before @ [p] \<and> tp_value p = da_total_value_cny d"
proof -
  obtain d s' where d: "build_dashboard ada (fresh_start two_accounts) = (Inr d, s')"
    by (rule two_accounts_dashboard)
  have "\<exists>before p. ss_second (da_series d) = before @ [p] \<and> tp_value p = da_total_value_cny d
      \<and> tp_timestamp_utc p = bucket_start G_SECOND (en_now ada)"
    by (rule dashboard_ends_with_total [OF d, THEN conjunct1])
      (simp_all add: fresh_start_def ada_fields has_assets_def two_accounts_def cny_account_def)
  then show ?thesis using d by (elim exE conjE) (intro exI conjI, assumption+)
qed

section \<open>Changes are never hidden\<close>

abbreviation not_cached :: "env \<Rightarrow> world \<Rightarrow> bool" where
  "not_cached env w \<equiv> en_user env \<notin> set (cached_dashboards w)"

lemma invalidated [simp]: "u \<notin> set (cached_dashboards (invalidate_dashboard_cache (Some u) w))"
  by (simp add: invalidate_dashboard_cache_def)

lemma finished: "finish_request env w = Inr w' \<Longrightarrow> not_cached env w'"
  by (auto simp: finish_request_def bindE_eq_Inr)

lemma finished_trade: "finish_trade env symbol w = Inr w' \<Longrightarrow> not_cached env w'"
  by (auto simp: finish_trade_def Let_def bindE_eq_Inr finished)

text \<open>A handler either leaves the world as it is or drops the user's cached dashboard.\<close>

definition drops :: "env \<Rightarrow> world \<Rightarrow> world \<Rightarrow> bool" where
  "drops env w w' \<longleftrightarrow> w' = w \<or> not_cached env w'"

lemma drops_intros: "drops env w w" "not_cached env w' \<Longrightarrow> drops env w w'"
  by (simp_all add: drops_def)

lemma drops_finished: "finish_request env w1 = Inr w' \<Longrightarrow> drops env w w'" "finish_trade env symbol w1 = Inr w' \<Longrightarrow> drops env w w'"
  by (simp_all add: drops_def finished finished_trade)

lemmas walk = okp_bind_any okp_cases

lemma okp_finished: "okp (finish_request env w1) (drops env w)" "okp (finish_trade env symbol w1) (drops env w)"
  by (auto intro!: okpI intro: drops_finished)

lemma account_changes:
  "okp (create_account p env w) (\<lambda>(r, w'). drops env w w')"
  "okp (update_account i q env w) (\<lambda>(r, w'). drops env w w')"
  "okp (delete_account i env w) (drops env w)"
  "okp (create_cash_ledger_adjustment a k env w) (\<lambda>(r, w'). drops env w w')"
  "okp (update_cash_ledger_adjustment i b env w) (\<lambda>(r, w'). drops env w w')"
  "okp (delete_cash_ledger_adjustment i env w) (drops env w)"
  "okp (create_cash_transfer c k env w) (\<lambda>(r, w'). drops env w w')"
  "okp (update_cash_transfer i t env w) (\<lambda>(r, w'). drops env w w')"
  "okp (delete_cash_transfer i env w) (drops env w)"
  unfolding create_account_def update_account_def delete_account_def create_cash_ledger_adjustment_def
    update_cash_ledger_adjustment_def delete_cash_ledger_adjustment_def create_cash_transfer_def update_cash_transfer_def
    delete_cash_transfer_def
  by (auto simp del: okp_bind okp_if simp: drops_def intro!: walk okp_finished split: stored_response.split dest!: finished)

lemma asset_changes:
  "okp (create_fixed_asset p env w) (\<lambda>(r, w'). drops env w w')"
  "okp (update_fixed_asset i p env w) (\<lambda>(r, w'). drops env w w')"
  "okp (delete_fixed_asset i env w) (drops env w)"
  "okp (create_liability l env w) (\<lambda>(r, w'). drops env w w')"
  "okp (update_liability i u env w) (\<lambda>(r, w'). drops env w w')"
  "okp (delete_liability i env w) (drops env w)"
  "okp (create_other_asset p env w) (\<lambda>(r, w'). drops env w w')"
  "okp (update_other_asset i p env w) (\<lambda>(r, w'). drops env w w')"
  "okp (delete_other_asset i env w) (drops env w)"
  unfolding create_fixed_asset_def update_fixed_asset_def delete_fixed_asset_def create_liability_def
    update_liability_def delete_liability_def create_other_asset_def update_other_asset_def delete_other_asset_def
  by (auto simp del: okp_bind okp_if simp: drops_def intro!: walk okp_finished dest!: finished)

lemma holding_changes:
  "okp (create_holding p env w) (\<lambda>(r, w'). drops env w w')"
  "okp (update_holding i q env w) (\<lambda>(r, w'). drops env w w')"
  "okp (delete_holding i env w) (drops env w)"
  "okp (create_holding_transaction t k env w) (\<lambda>(r, w'). (\<exists>body. r = Inr body) \<longrightarrow> drops env w w')"
  "okp (update_holding_transaction x u env w) (\<lambda>(r, w'). drops env w w')"
  "okp (delete_holding_transaction x env w) (drops env w)"
  unfolding create_holding_def update_holding_def save_holding_edit_def delete_holding_def create_holding_transaction_def
    update_holding_transaction_def delete_holding_transaction_def
  by (auto simp del: okp_bind okp_if simp: drops_def intro!: walk okp_finished split: stored_response.split sum.split
      dest!: finished finished_trade split: if_splits)

text \<open>
  C10: the dashboard never hides a change. After a request that changed the user's data, the next
  dashboard served to the user is built from the changed data, whatever was cached before; for a trade
  this holds if its response could be built.
\<close>

theorem changes_reach_the_dashboard:
  assumes "handle env q (db_world s) = Inr w'" "w' \<noteq> db_world s" "en_user env' = en_user env"
    and "\<And>p k. q = CreateTransaction p k \<Longrightarrow> \<exists>body. create_holding_transaction p k env (db_world s) = Inr (Inr body, w')"
  shows "get_cached_dashboard env' False (s\<lparr>db_world := w'\<rparr>) = get_cached_dashboard env' True (s\<lparr>db_world := w'\<rparr>)"
proof -
  have "drops env (db_world s) w'"
    using assms(1,4) by (cases q) (auto simp: handle_def committed_def bindE_eq_Inr
        dest!: account_changes [THEN okpD] asset_changes [THEN okpD] holding_changes [THEN okpD])
  with assms(2,3) have "cache_lookup env' (s\<lparr>db_world := w'\<rparr>) = None"
    by (simp add: drops_def cache_lookup_def)
  then show ?thesis by (simp add: get_cached_dashboard_def)
qed

definition one_asset :: world where
  "one_asset = empty_world\<lparr>other_assets := \<lparr>next_id = 2, rows = [(1, \<lparr>oa_user = lit ''ada'', oa_name = lit ''Watch'',
     oa_category = lit ''OTHER'', oa_current_value_cny = 10000000000, oa_original_value_cny = None, oa_started_on = None,
     oa_note = None, oa_created_at = 0, oa_updated_at = 0\<rparr>)]\<rparr>\<rparr>"

theorem changes_reach_the_dashboard_witness:
  "\<exists>w'. handle ada (DeleteOtherAsset 1) one_asset = Inr w' \<and> rows (other_assets w') = []
    \<and> get_cached_dashboard ada False ((fresh_start one_asset)\<lparr>db_world := w'\<rparr>)
      = get_cached_dashboard ada True ((fresh_start one_asset)\<lparr>db_world := w'\<rparr>)"
proof -
  have "\<exists>w'. handle ada (DeleteOtherAsset 1) one_asset = Inr w' \<and> rows (other_assets w') = []"
    by (simp add: handle_def delete_other_asset_def owned_other_asset_def one_asset_def empty_world_def ada_fields eval_tables
        eval_request eval_text Let_def)
  then obtain w' where w': "handle ada (DeleteOtherAsset 1) one_asset = Inr w'" "rows (other_assets w') = []"
    by (elim exE conjE)
  have "rows (other_assets one_asset) \<noteq> []" by (simp add: one_asset_def)
  with w'(2) have "w' \<noteq> one_asset" by auto
  then have "get_cached_dashboard ada False ((fresh_start one_asset)\<lparr>db_world := w'\<rparr>)
      = get_cached_dashboard ada True ((fresh_start one_asset)\<lparr>db_world := w'\<rparr>)"
    using w'(1) by (intro changes_reach_the_dashboard [where env = ada and q = "DeleteOtherAsset 1"])
      (simp_all add: fresh_start_def)
  with w' show ?thesis by (intro exI conjI)
qed

end
