(* ===== verification/Asset_Records.thy ===== *)
theory Asset_Records
  imports Holding_Repository Security
begin

text \<open>
  Model of \<^verbatim>\<open>backend/app/services/asset_record_service.py\<close>: the journal of a user's assets, read
  from the audit log. An audit is numbered by its place in the log. A state that is not of the kind
  its entity type asks for, which the handlers never record, gives no record. The texts are the ones the
  code builds, with \<^verbatim>\<open>:g\<close> formatting from the environment.
\<close>

section \<open>Records\<close>

record asset_record =
  ar_id :: nat
  ar_source :: actor_source
  ar_api_key_name :: "pystr option"
  ar_agent_name :: "pystr option"
  ar_agent_task_id :: "nat option"
  ar_asset_class :: pystr
  ar_operation_kind :: pystr
  ar_entity_type :: entity_type
  ar_entity_id :: "nat option"
  ar_title :: pystr
  ar_summary :: "pystr option"
  ar_symbol :: "pystr option"
  ar_effective_date :: "date option"
  ar_amount :: "dec option"  \<comment> \<open>cents, or \<open>10 ^ -4\<close> for a price\<close>
  ar_currency :: "pystr option"
  ar_profit :: "(int \<times> pystr \<times> int) option"  \<comment> \<open>amount in cents, currency, rate in hundredths\<close>
  ar_created_at :: datetime

definition ASSET_RECORD_CLASSES :: "pystr list" where
  "ASSET_RECORD_CLASSES = map lit [''cash'', ''investment'', ''fixed'', ''liability'', ''other'']"

definition ASSET_RECORD_OPERATIONS :: "pystr list" where
  "ASSET_RECORD_OPERATIONS = map lit [''NEW'', ''EDIT'', ''DELETE'', ''BUY'', ''SELL'', ''TRANSFER'', ''ADJUST'']"

definition ASSET_RECORD_SOURCES :: "(pystr \<times> actor_source) list" where
  "ASSET_RECORD_SOURCES = [(lit ''USER'', USER), (lit ''SYSTEM'', SYSTEM), (lit ''API'', API), (lit ''AGENT'', AGENT)]"

definition CANONICAL_AUDIT_ENTITY_TYPES :: "entity_type list" where
  "CANONICAL_AUDIT_ENTITY_TYPES = [CASH_ACCOUNT, CASH_TRANSFER, CASH_LEDGER_ADJUSTMENT, HOLDING,
     HOLDING_TRANSACTION, FIXED_ASSET, LIABILITY, OTHER_ASSET]"

definition SIDE_EFFECT_REASON_PREFIXES :: "pystr list" where
  "SIDE_EFFECT_REASON_PREFIXES = map lit [''TRANSFER_'', ''LEDGER_ADJUSTMENT_'', ''SELL_PROCEEDS'', ''BUY_FUNDING'']"

definition normalize_asset_record_filter ::
  "(pystr \<Rightarrow> pystr) \<Rightarrow> pystr list \<Rightarrow> pystr option \<Rightarrow> error + pystr option" where
  "normalize_asset_record_filter letters allowed value = (case value of
       None \<Rightarrow> Inr None
     | Some v \<Rightarrow> (let normalized = letters (py_strip v) in
         if normalized = [] then Inr None
         else if normalized \<in> set allowed then Inr (Some normalized)
         else Inl (HTTPException 422 InvalidFilterValue)))"

definition present :: "pystr option \<Rightarrow> bool" where
  "present v \<longleftrightarrow> v \<noteq> None \<and> v \<noteq> Some []"

definition resolve_audit_source :: "mutation_audit \<Rightarrow> actor_source" where
  "resolve_audit_source a =
     (if au_actor_source a \<in> {USER, SYSTEM} then au_actor_source a
      else if present (au_agent_name a) then AGENT
      else if present (au_api_key_name a) \<or> au_agent_task_id a \<noteq> None \<or> au_actor_source a \<in> {API, AGENT} then API
      else USER)"

definition is_cash_account_business_record :: "mutation_audit \<Rightarrow> bool" where
  "is_cash_account_business_record a =
     (let reason = py_upper (py_strip (case au_reason a of None \<Rightarrow> [] | Some r \<Rightarrow> r)) in
      case au_operation a of
        CREATE \<Rightarrow> \<not> has_prefix (lit ''AUTO_SELL_PROCEEDS'') reason
      | UPDATE \<Rightarrow> \<not> list_ex (\<lambda>p. has_prefix p reason) SIDE_EFFECT_REASON_PREFIXES
      | DELETE \<Rightarrow> True)"

definition current_state :: "mutation_audit \<Rightarrow> model_state option" where
  \<comment> \<open>the state a record is about\<close>
  "current_state a = (if au_operation a \<noteq> DELETE then au_after a else au_before a)"

definition upper_or_none :: "pystr \<Rightarrow> pystr option" where
  "upper_or_none c = (if c = [] then None else Some (py_upper c))"

definition record_of ::
  "nat \<Rightarrow> mutation_audit \<Rightarrow> pystr \<Rightarrow> pystr \<Rightarrow> pystr \<Rightarrow> pystr option \<Rightarrow> date option \<Rightarrow> dec option \<Rightarrow> pystr option
   \<Rightarrow> asset_record" where
  "record_of i a asset_class operation_kind title summary effective_date amount currency =
     \<lparr>ar_id = i, ar_source = resolve_audit_source a, ar_api_key_name = au_api_key_name a,
      ar_agent_name = au_agent_name a, ar_agent_task_id = au_agent_task_id a, ar_asset_class = asset_class,
      ar_operation_kind = operation_kind, ar_entity_type = au_entity_type a, ar_entity_id = au_entity_id a,
      ar_title = title, ar_summary = summary, ar_symbol = None, ar_effective_date = effective_date,
      ar_amount = amount, ar_currency = currency, ar_profit = None, ar_created_at = au_created_at a\<rparr>"

definition money :: "fixed \<Rightarrow> error + int" where
  "money n = liftA (display_money (of_fixed n))"

definition new_edit_delete :: "mutation_operation \<Rightarrow> pystr" where
  "new_edit_delete op = (case op of CREATE \<Rightarrow> lit ''NEW'' | UPDATE \<Rightarrow> lit ''EDIT'' | DELETE \<Rightarrow> lit ''DELETE'')"

definition prefix_text :: "mutation_operation \<Rightarrow> pystr" where
  "prefix_text op = (case op of CREATE \<Rightarrow> [26032, 24314] | UPDATE \<Rightarrow> [32534, 36753] | DELETE \<Rightarrow> [21024, 38500])"

section \<open>Cash\<close>

definition DOT :: pystr where
  "DOT = lit '' '' @ [183] @ lit '' ''"

fun join_text :: "pystr \<Rightarrow> pystr list \<Rightarrow> pystr" where
  "join_text sep [] = []"
| "join_text sep [s] = s"
| "join_text sep (s # t # ss) = s @ sep @ join_text sep (t # ss)"

definition resolve_cash_account_record :: "env \<Rightarrow> nat \<Rightarrow> mutation_audit \<Rightarrow> error + asset_record option" where
  "resolve_cash_account_record env i a =
     (if \<not> is_cash_account_business_record a then Inr None
      else case current_state a of
        Some (AccountState k c) \<Rightarrow>
          bindE (money (ca_balance c)) (\<lambda>balance.
          let platform = py_strip (ca_platform c);
              name = py_strip (if ca_name c = [] then [29616, 37329, 36134, 25143] else ca_name c);
              action = prefix_text (au_operation a) @ [29616, 37329, 36134, 25143];
              place = (if platform = [] then action else action @ DOT @ platform);
              summary = (if ca_currency c = [] then place
                else place @ DOT @ en_float_g env (-2) balance @ lit '' '' @ ca_currency c)
          in Inr (Some (record_of i a (lit ''cash'') (new_edit_delete (au_operation a)) name (Some summary) None
               (Some (Dec balance (-2))) (upper_or_none (ca_currency c)))))
      | _ \<Rightarrow> Inr None)"

definition resolve_cash_transfer_summary :: "env \<Rightarrow> cash_transfer \<Rightarrow> error + pystr" where
  "resolve_cash_transfer_summary env t =
     bindE (money (ct_source_amount t)) (\<lambda>from_amount.
     bindE (money (ct_target_amount t)) (\<lambda>to_amount.
     let segments = [[36134, 25143] @ lit '' #'' @ show_nat (ct_from t) @ lit '' '' @ [8594] @ lit '' '' @ [36134, 25143] @ lit '' #'' @ show_nat (ct_to t)]
           @ (if ct_source_currency t = [] then []
              else [en_float_g env (-2) from_amount @ lit '' '' @ ct_source_currency t])
           @ (if ct_target_currency t \<noteq> []
                \<and> (ct_target_currency t \<noteq> ct_source_currency t \<or> ct_target_amount t \<noteq> ct_source_amount t)
              then [[36716, 20837] @ lit '' '' @ en_float_g env (-2) to_amount @ lit '' '' @ ct_target_currency t] else [])
     in Inr (join_text DOT segments)))"

definition resolve_cash_transfer_record :: "env \<Rightarrow> nat \<Rightarrow> mutation_audit \<Rightarrow> error + asset_record option" where
  "resolve_cash_transfer_record env i a =
     (case current_state a of
        Some (TransferState k t) \<Rightarrow>
          bindE (resolve_cash_transfer_summary env t) (\<lambda>summary.
          bindE (money (ct_source_amount t)) (\<lambda>amount.
          Inr (Some (record_of i a (lit ''cash'')
            (if au_operation a = CREATE then lit ''TRANSFER'' else new_edit_delete (au_operation a))
            [36134, 25143, 21010, 36716] (Some summary) (Some (ct_transferred_on t)) (Some (Dec amount (-2)))
            (upper_or_none (ct_source_currency t))))))
      | _ \<Rightarrow> Inr None)"

definition resolve_cash_adjustment_record :: "nat \<Rightarrow> mutation_audit \<Rightarrow> error + asset_record option" where
  "resolve_cash_adjustment_record i a =
     (case current_state a of
        Some (LedgerState k e) \<Rightarrow>
          bindE (money (le_amount e)) (\<lambda>amount.
          Inr (Some (record_of i a (lit ''cash'')
            (case au_operation a of CREATE \<Rightarrow> lit ''ADJUST'' | UPDATE \<Rightarrow> lit ''EDIT'' | DELETE \<Rightarrow> lit ''DELETE'')
            [29616, 37329, 20313, 39069, 35843, 25972] (Some (case le_note e of Some n \<Rightarrow> if n = [] then [25163, 24037, 36134, 26412, 35843, 25972] else n | None \<Rightarrow> [25163, 24037, 36134, 26412, 35843, 25972]))
            (Some (le_happened_on e)) (Some (Dec amount (-2))) (upper_or_none (le_currency e)))))
      | _ \<Rightarrow> Inr None)"

section \<open>Investments\<close>

definition resolve_holding_title :: "pystr \<Rightarrow> pystr \<Rightarrow> pystr \<times> pystr option" where
  "resolve_holding_title symbol name =
     (let s = py_strip symbol; n = py_strip name; shown = (if s = [] then None else Some s) in
      if n \<noteq> [] \<and> s \<noteq> [] then (n @ lit '' ('' @ s @ lit '')'', shown)
      else if n \<noteq> [] then (n, shown)
      else (if s = [] then [25237, 36164, 35760, 24405] else s, shown))"

type_synonym profit_map = "(nat \<times> (int \<times> pystr \<times> int) option) list"

definition sale_profit :: "(nat \<times> holding_transaction) list \<Rightarrow> holding_transaction \<Rightarrow> error + (int \<times> pystr \<times> int) option" where
  \<comment> \<open>profit and rate of a sale against the cost basis of the trades before\<close>
  "sale_profit before tx =
     bindE (project_holding_state_from_sorted_transactions before (tx_symbol tx) (tx_market tx)) (\<lambda>projected.
     bindE (case projected of None \<Rightarrow> Inr None | Some st \<Rightarrow> projected_holding_cost_basis st) (\<lambda>cost_basis.
     case (cost_basis, tx_price tx) of
       (Some cost, Some price) \<Rightarrow>
         if price > 0 \<and> tx_quantity tx > 0
         then bindE (liftA (display_money (dec_mul (of_fixed (tx_quantity tx)) (dec_sub (of_fixed price) (of_fixed cost)))))
                (\<lambda>amount.
              bindE (liftA (bindE (dec_div (dec_sub (of_fixed price) (of_fixed cost)) (of_fixed cost))
                (\<lambda>ratio. display_percent (dec_mul ratio (Dec 100 0))))) (\<lambda>rate.
              Inr (Some (amount, tx_fallback_currency tx, rate))))
         else Inr None
     | _ \<Rightarrow> Inr None))"

fun resolve_investment_profit_map ::
  "(nat \<times> mutation_audit) list \<Rightarrow> (nat \<times> nat \<times> holding_transaction) list \<Rightarrow> profit_map \<Rightarrow> error + profit_map" where
  \<comment> \<open>the audits from the oldest; the versions of the trades so far, by id; the map so far\<close>
  "resolve_investment_profit_map [] versions m = Inr m"
| "resolve_investment_profit_map ((i, a) # as) versions m =
     (if au_entity_type a \<noteq> HOLDING_TRANSACTION then resolve_investment_profit_map as versions m
      else case current_state a of
        Some (TransactionState k tx) \<Rightarrow>
          (let entity = (case au_entity_id a of None \<Rightarrow> 0 | Some x \<Rightarrow> x);
               before = filter (\<lambda>(j, t). tx_symbol t = tx_symbol tx \<and> tx_market t = tx_market tx
                   \<and> (au_operation a = UPDATE \<longrightarrow> j \<noteq> entity)) (map snd versions)
           in bindE (if tx_side tx = SELL then bindE (sale_profit before tx) (\<lambda>p. Inr (AList.update i p m)) else Inr m)
                (\<lambda>m1. resolve_investment_profit_map as
                  (if au_operation a = DELETE then AList.delete entity versions else AList.update entity (k, tx) versions) m1))
      | _ \<Rightarrow> resolve_investment_profit_map as versions m)"

definition resolve_holding_transaction_record ::
  "env \<Rightarrow> nat \<Rightarrow> mutation_audit \<Rightarrow> profit_map \<Rightarrow> error + asset_record option" where
  "resolve_holding_transaction_record env i a profits =
     (case current_state a of
        Some (TransactionState k tx) \<Rightarrow>
          (let (title, symbol) = resolve_holding_title (tx_symbol tx) (tx_name tx);
               currency = upper_or_none (tx_fallback_currency tx);
               (operation_kind, action) = (case tx_side tx of
                   BUY \<Rightarrow> if au_operation a = CREATE then (lit ''BUY'', [26032, 22686, 20080, 20837]) else (lit ''EDIT'', [32534, 36753, 25237, 36164, 35760, 24405])
                 | SELL \<Rightarrow> if au_operation a = CREATE then (lit ''SELL'', [26032, 22686, 21334, 20986]) else (lit ''EDIT'', [32534, 36753, 25237, 36164, 35760, 24405])
                 | ADJUST \<Rightarrow> (lit ''EDIT'', [32534, 36753, 25345, 20179]))
           in bindE (liftA (display_quantity (of_fixed (tx_quantity tx)))) (\<lambda>quantity.
              bindE (case tx_price tx of None \<Rightarrow> Inr None
                  | Some p \<Rightarrow> bindE (liftA (display_price (of_fixed p))) (\<lambda>n. Inr (Some n))) (\<lambda>price.
              let summary = action @ DOT @ [25968, 37327] @ lit '' '' @ en_float_g env (-4) quantity
                    @ (case (price, currency) of
                         (Some n, Some c) \<Rightarrow> DOT @ [20215, 26684] @ lit '' '' @ en_float_g env (-4) n @ lit '' '' @ c | _ \<Rightarrow> [])
              in Inr (Some ((record_of i a (lit ''investment'') operation_kind title (Some summary) (Some (tx_traded_on tx))
                   (map_option (\<lambda>n. Dec n (-4)) price) currency)
                   \<lparr>ar_symbol := symbol, ar_profit := (case map_of profits i of Some p \<Rightarrow> p | None \<Rightarrow> None)\<rparr>)))))
      | _ \<Rightarrow> Inr None)"

definition resolve_holding_delete_record :: "nat \<Rightarrow> mutation_audit \<Rightarrow> asset_record option" where
  "resolve_holding_delete_record i a =
     (case au_before a of
        Some (HoldingState k h) \<Rightarrow>
          (let (title, symbol) = resolve_holding_title (sh_symbol h) (sh_name h)
           in Some ((record_of i a (lit ''investment'') (lit ''DELETE'') title (Some [21024, 38500, 25345, 20179]) (sh_started_on h) None None)
                \<lparr>ar_symbol := symbol\<rparr>))
      | _ \<Rightarrow> None)"

section \<open>Other assets\<close>

definition resolve_asset_entry_record ::
  "nat \<Rightarrow> mutation_audit \<Rightarrow> pystr \<Rightarrow> pystr \<Rightarrow> pystr \<Rightarrow> fixed \<Rightarrow> date option \<Rightarrow> pystr option \<Rightarrow> error + asset_record option" where
  "resolve_asset_entry_record i a asset_class title_fallback name amount started_on currency =
     (let stripped = py_strip (if name = [] then title_fallback else name);
          title = (if stripped = [] then title_fallback else stripped)
      in bindE (money amount) (\<lambda>n. Inr (Some (record_of i a asset_class (new_edit_delete (au_operation a)) title
           (Some (prefix_text (au_operation a) @ title_fallback)) started_on (Some (Dec n (-2))) currency))))"

section \<open>The journal\<close>

definition build_asset_record :: "env \<Rightarrow> profit_map \<Rightarrow> nat \<times> mutation_audit \<Rightarrow> error + asset_record option" where
  "build_asset_record env profits = (\<lambda>(i, a).
     (case au_entity_type a of
        CASH_ACCOUNT \<Rightarrow> resolve_cash_account_record env i a
      | CASH_TRANSFER \<Rightarrow> resolve_cash_transfer_record env i a
      | CASH_LEDGER_ADJUSTMENT \<Rightarrow> resolve_cash_adjustment_record i a
      | HOLDING_TRANSACTION \<Rightarrow> resolve_holding_transaction_record env i a profits
      | HOLDING \<Rightarrow> Inr (if au_operation a = DELETE then resolve_holding_delete_record i a else None)
      | FIXED_ASSET \<Rightarrow> (case current_state a of
            Some (FixedAssetState k f) \<Rightarrow> resolve_asset_entry_record i a (lit ''fixed'') [22266, 23450, 36164, 20135] (fa_name f)
              (fa_current_value_cny f) (fa_started_on f) (Some (lit ''CNY''))
          | _ \<Rightarrow> Inr None)
      | LIABILITY \<Rightarrow> (case current_state a of
            Some (LiabilityState k l) \<Rightarrow> resolve_asset_entry_record i a (lit ''liability'') [36127, 20538] (li_name l)
              (li_balance l) (li_started_on l) (upper_or_none (li_currency l))
          | _ \<Rightarrow> Inr None)
      | OTHER_ASSET \<Rightarrow> (case current_state a of
            Some (OtherAssetState k f) \<Rightarrow> resolve_asset_entry_record i a (lit ''other'') [20854, 20182, 36164, 20135] (oa_name f)
              (oa_current_value_cny f) (oa_started_on f) (Some (lit ''CNY''))
          | _ \<Rightarrow> Inr None)
      | HOLDING_CASH_SETTLEMENT \<Rightarrow> Inr None))"

fun collect_records ::
  "env \<Rightarrow> profit_map \<Rightarrow> (asset_record \<Rightarrow> bool) \<Rightarrow> nat \<Rightarrow> (nat \<times> mutation_audit) list \<Rightarrow> error + asset_record list" where
  \<comment> \<open>the loop, which stops when enough records are found\<close>
  "collect_records env profits wanted limit [] = Inr []"
| "collect_records env profits wanted limit (p # ps) =
     bindE (build_asset_record env profits p) (\<lambda>r.
     case r of
       None \<Rightarrow> collect_records env profits wanted limit ps
     | Some x \<Rightarrow>
         if \<not> wanted x then collect_records env profits wanted limit ps
         else if limit \<le> 1 then Inr [x]
         else bindE (collect_records env profits wanted (limit - 1) ps) (\<lambda>xs. Inr (x # xs)))"

definition journal_order :: "nat \<times> mutation_audit \<Rightarrow> datetime \<times> nat" where
  "journal_order p = (au_created_at (snd p), fst p)"

definition candidate_audits :: "pystr \<Rightarrow> nat \<Rightarrow> mutation_audit list \<Rightarrow> (nat \<times> mutation_audit) list" where
  \<comment> \<open>the newest first\<close>
  "candidate_audits user n entries =
     take n (rev (sort_key journal_order (filter (\<lambda>(i, a). au_user a = user
       \<and> au_entity_type a \<in> set CANONICAL_AUDIT_ENTITY_TYPES) (List.enumerate 1 entries))))"

definition clamped_limit :: "int \<Rightarrow> nat" where
  "clamped_limit limit = nat (max 1 (min limit 500))"

definition fetch_limit :: "int \<Rightarrow> nat" where
  "fetch_limit limit = min (max (clamped_limit limit * 12) 400) 5000"

definition list_asset_records ::
  "env \<Rightarrow> int \<Rightarrow> pystr option \<Rightarrow> pystr option \<Rightarrow> pystr option \<Rightarrow> world \<Rightarrow> error + asset_record list" where
  "list_asset_records env limit asset_class operation_kind origin w =
     bindE (normalize_asset_record_filter py_lower ASSET_RECORD_CLASSES asset_class) (\<lambda>asset_class.
      bindE (normalize_asset_record_filter py_upper ASSET_RECORD_OPERATIONS operation_kind) (\<lambda>operation_kind.
      bindE (normalize_asset_record_filter py_upper (map fst ASSET_RECORD_SOURCES) origin) (\<lambda>origin.
      let found = candidate_audits (en_user env) (fetch_limit limit) (audits w);
          wanted = (\<lambda>r. (asset_class = None \<or> asset_class = Some (ar_asset_class r))
            \<and> (operation_kind = None \<or> operation_kind = Some (ar_operation_kind r))
            \<and> (origin = None \<or> map_of ASSET_RECORD_SOURCES (the origin) = Some (ar_source r)))
      in bindE (resolve_investment_profit_map (sort_key journal_order found) [] []) (\<lambda>profits.
         collect_records env profits wanted (clamped_limit limit) found))))"

end
