(* ===== verification/Asset_Record_Properties.thy ===== *)
theory Asset_Record_Properties
  imports Asset_Records Scenario "HOL-Library.Sublist"
begin

text \<open>
  Properties of the journal: what it shows, and how it fails when the window of audits it reads
  cuts the purchases off from the sales.
\<close>

section \<open>The window\<close>

lemma candidate_audits_in_log:
  "(i, a) \<in> set (candidate_audits user n entries) \<Longrightarrow>
     0 < i \<and> i \<le> length entries \<and> entries ! (i - 1) = a \<and> au_user a = user"
  by (auto simp: candidate_audits_def in_set_enumerate_eq dest!: in_set_takeD)

lemma set_subseq: "subseq xs ys \<Longrightarrow> set xs \<subseteq> set ys"
  by (induction rule: list_emb.induct) auto

lemma sorted_wrt_subseq: "subseq xs ys \<Longrightarrow> sorted_wrt P ys \<Longrightarrow> sorted_wrt P xs"
  by (induction rule: list_emb.induct) (use set_subseq in fastforce)+

lemma sort_key_strict:
  fixes f :: "'a \<Rightarrow> 'k :: linorder"
  assumes "inj_on f (set xs)" "distinct xs"
  shows "sorted_wrt (\<lambda>x y. f x < f y) (sort_key f xs)"
proof -
  have "sorted (map f (sort_key f xs))" by simp
  moreover have "distinct (map f (sort_key f xs))" using assms by (simp add: distinct_map)
  ultimately have "sorted_wrt (<) (map f (sort_key f xs))" by (simp only: strict_sorted_iff)
  then show ?thesis by (simp add: sorted_wrt_map)
qed

lemma candidate_audits_newest_first:
  "sorted_wrt (\<lambda>p q. journal_order q < journal_order p) (candidate_audits user n entries)"
proof -
  let ?xs = "filter (\<lambda>(i, a). au_user a = user \<and> au_entity_type a \<in> set CANONICAL_AUDIT_ENTITY_TYPES) (List.enumerate 1 entries)"
  have "inj_on journal_order (set ?xs)"
  proof (rule inj_onI)
    fix p q assume "p \<in> set ?xs" "q \<in> set ?xs" and eq: "journal_order p = journal_order q"
    then have "p \<in> set (List.enumerate 1 entries)" "q \<in> set (List.enumerate 1 entries)" by simp_all
    then show "p = q" using eq unfolding in_set_enumerate_eq journal_order_def by (simp add: prod_eq_iff)
  qed
  moreover have "distinct ?xs" by (rule distinct_filter) simp
  ultimately have "sorted_wrt (\<lambda>p q. journal_order q < journal_order p) (rev (sort_key journal_order ?xs))"
    unfolding sorted_wrt_rev by (rule sort_key_strict)
  then show ?thesis unfolding candidate_audits_def by (rule sorted_wrt_take)
qed

lemma candidate_audits_oldest_first:
  "sort_key journal_order (candidate_audits user n entries) = rev (candidate_audits user n entries)"
proof (rule sort_key_inj_key_eq)
  let ?c = "candidate_audits user n entries"
  have "sorted_wrt (\<lambda>p q. journal_order p < journal_order q) (rev ?c)"
    using candidate_audits_newest_first unfolding sorted_wrt_rev .
  then have "sorted_wrt (<) (map journal_order (rev ?c))" by (simp only: sorted_wrt_map)
  then have "sorted (map journal_order (rev ?c))" "distinct (map journal_order (rev ?c))"
    by (simp_all only: strict_sorted_iff)
  then show "inj_on journal_order (set ?c)" "sorted (map journal_order (rev ?c))"
    by (simp_all add: distinct_map)
qed simp

section \<open>The records\<close>

lemma collect_records_selects:
  assumes "collect_records env profits wanted limit ps = Inr rs" "0 < limit"
  shows "length rs \<le> limit \<and> (\<exists>qs. subseq qs ps \<and> list_all2 (\<lambda>r p. build_asset_record env profits p = Inr (Some r) \<and> wanted r) rs qs)"
  using assms
proof (induction ps arbitrary: limit rs)
  case Nil
  then show ?case by (auto intro: exI [of _ "[]"])
next
  case (Cons p ps)
  from Cons.prems(1) obtain r where r: "build_asset_record env profits p = Inr r" by (auto simp: bindE_eq_Inr)
  show ?case
  proof (cases "\<exists>x. r = Some x \<and> wanted x")
    case False
    with Cons.prems r have "collect_records env profits wanted limit ps = Inr rs" by (auto split: option.splits)
    with Cons.IH Cons.prems(2) obtain qs where "length rs \<le> limit" "subseq qs ps"
      "list_all2 (\<lambda>r p. build_asset_record env profits p = Inr (Some r) \<and> wanted r) rs qs" by blast
    then show ?thesis by (blast intro: subseq_order.trans)
  next
    case True
    then obtain x where x: "r = Some x" "wanted x" by blast
    show ?thesis
    proof (cases "limit \<le> 1")
      case True
      with Cons.prems r x have "rs = [x]" by simp
      with r x Cons.prems(2) show ?thesis by (auto intro!: exI [of _ "[p]"])
    next
      case False
      with Cons.prems r x obtain xs where xs: "collect_records env profits wanted (limit - 1) ps = Inr xs" "rs = x # xs"
        by (auto simp: bindE_eq_Inr)
      from Cons.IH [OF xs(1)] False obtain qs where "length xs \<le> limit - 1" "subseq qs ps"
        "list_all2 (\<lambda>r p. build_asset_record env profits p = Inr (Some r) \<and> wanted r) xs qs" by auto
      with xs(2) r x False show ?thesis by (auto intro!: exI [of _ "p # qs"])
    qed
  qed
qed

lemma record_of_fields [simp]:
  "ar_id (record_of i a c k t s d m u) = i" "ar_created_at (record_of i a c k t s d m u) = au_created_at a"
  "ar_source (record_of i a c k t s d m u) = resolve_audit_source a"
  "ar_entity_type (record_of i a c k t s d m u) = au_entity_type a"
  "ar_entity_id (record_of i a c k t s d m u) = au_entity_id a"
  by (simp_all add: record_of_def)

definition stands_for :: "nat \<Rightarrow> mutation_audit \<Rightarrow> asset_record \<Rightarrow> bool" where
  "stands_for i a r \<longleftrightarrow> ar_id r = i \<and> ar_created_at r = au_created_at a \<and> ar_source r = resolve_audit_source a
    \<and> ar_entity_type r = au_entity_type a \<and> ar_entity_id r = au_entity_id a"

lemma stands_for_record_of [simp]:
  "stands_for i a (record_of i a c k t s d m u)"
  "stands_for i a (r\<lparr>ar_symbol := y\<rparr>) = stands_for i a r" "stands_for i a (r\<lparr>ar_profit := z\<rparr>) = stands_for i a r"
  by (simp_all add: stands_for_def)

lemma okp_option:
  "okp (Inr None) (\<lambda>v. \<forall>r. v = Some r \<longrightarrow> P r)" "P x \<Longrightarrow> okp (Inr (Some x)) (\<lambda>v. \<forall>r. v = Some r \<longrightarrow> P r)"
  by simp_all

lemma okp_state:
  "(\<And>k x. okp (f1 k x) P) \<Longrightarrow> (\<And>k x. okp (f2 k x) P) \<Longrightarrow> (\<And>k x. okp (f3 k x) P) \<Longrightarrow> (\<And>k x. okp (f4 k x) P) \<Longrightarrow>
   (\<And>k x. okp (f5 k x) P) \<Longrightarrow> (\<And>k x. okp (f6 k x) P) \<Longrightarrow> (\<And>k x. okp (f7 k x) P) \<Longrightarrow> (\<And>k x. okp (f8 k x) P) \<Longrightarrow>
   okp (case s of AccountState k x \<Rightarrow> f1 k x | LedgerState k x \<Rightarrow> f2 k x | TransferState k x \<Rightarrow> f3 k x
     | HoldingState k x \<Rightarrow> f4 k x | TransactionState k x \<Rightarrow> f5 k x | FixedAssetState k x \<Rightarrow> f6 k x
     | LiabilityState k x \<Rightarrow> f7 k x | OtherAssetState k x \<Rightarrow> f8 k x) P"
  by (cases s) simp_all

lemmas walk_records = okp_bind_any okp_cases okp_state okp_option

lemma resolved_cash_records:
  "okp (resolve_cash_account_record env i a) (\<lambda>v. \<forall>r. v = Some r \<longrightarrow> stands_for i a r)"
  "okp (resolve_cash_transfer_record env i a) (\<lambda>v. \<forall>r. v = Some r \<longrightarrow> stands_for i a r)"
  "okp (resolve_cash_adjustment_record i a) (\<lambda>v. \<forall>r. v = Some r \<longrightarrow> stands_for i a r)"
  "okp (resolve_asset_entry_record i a c t n m d u) (\<lambda>v. \<forall>r. v = Some r \<longrightarrow> stands_for i a r)"
  unfolding resolve_cash_account_record_def resolve_cash_transfer_record_def resolve_cash_adjustment_record_def
    resolve_asset_entry_record_def
  by (intro walk_records stands_for_record_of)+

lemma resolved_holding_records:
  "okp (resolve_holding_transaction_record env i a profits) (\<lambda>v. \<forall>r. v = Some r \<longrightarrow> stands_for i a r)"
  "resolve_holding_delete_record i a = Some r \<Longrightarrow> stands_for i a r"
  unfolding resolve_holding_transaction_record_def resolve_holding_delete_record_def
  subgoal
    by (cases "current_state a" rule: option.exhaust, simp, rename_tac s, case_tac s)
      (auto simp del: okp_bind okp_if intro!: walk_records split: prod.split)
  subgoal by (auto split: option.splits model_state.splits prod.splits)
  done

lemma built_record:
  assumes "build_asset_record env profits (i, a) = Inr (Some r)"
  shows "stands_for i a r"
proof -
  have "okp (build_asset_record env profits (i, a)) (\<lambda>v. \<forall>r. v = Some r \<longrightarrow> stands_for i a r)"
    unfolding build_asset_record_def prod.case
    by (cases "au_entity_type a") (auto intro!: resolved_cash_records resolved_holding_records(1) walk_records
        intro: resolved_holding_records(2))
  with assms show ?thesis by (simp add: okp_def)
qed

section \<open>What the journal shows\<close>

definition matches :: "(pystr \<Rightarrow> pystr) \<Rightarrow> pystr option \<Rightarrow> pystr \<Rightarrow> bool" where
  \<comment> \<open>a filter that is absent or blank asks for nothing\<close>
  "matches letters value field \<longleftrightarrow> (case value of None \<Rightarrow> True | Some v \<Rightarrow> letters (py_strip v) \<in> {[], field})"

lemma filter_matches:
  "normalize_asset_record_filter letters allowed value = Inr n \<Longrightarrow> n = None \<or> n = Some field \<Longrightarrow> matches letters value field"
  by (auto simp: normalize_asset_record_filter_def matches_def Let_def split: option.splits if_splits)

text \<open>
  C27: the journal shows nothing but the user's own changes, each once, the newest first, at most as
  many as were asked for (between 1 and 500), each with the time, the source and the entity of the audit it
  stands for, and all of the class and the kind of operation that were asked for.
\<close>

theorem journal_shows_own_changes:
  assumes "list_asset_records env limit asset_class operation_kind origin w = Inr rs"
  shows "length rs \<le> nat (max 1 (min limit 500))
    \<and> sorted_wrt (\<lambda>r s. (ar_created_at s, ar_id s) < (ar_created_at r, ar_id r)) rs
    \<and> (\<forall>r \<in> set rs. \<exists>a. 0 < ar_id r \<and> ar_id r \<le> length (audits w) \<and> audits w ! (ar_id r - 1) = a
        \<and> au_user a = en_user env \<and> stands_for (ar_id r) a r
        \<and> matches py_lower asset_class (ar_asset_class r) \<and> matches py_upper operation_kind (ar_operation_kind r))"
proof -
  let ?limit = "clamped_limit limit"
  let ?window = "candidate_audits (en_user env) (fetch_limit limit) (audits w)"
  let ?wanted = "\<lambda>cls kind src (r :: asset_record). (cls = None \<or> cls = Some (ar_asset_class r)) \<and> (kind = None \<or> kind = Some (ar_operation_kind r))
     \<and> (src = None \<or> map_of ASSET_RECORD_SOURCES (the src) = Some (ar_source r))"
  obtain profits cls kind src where c: "collect_records env profits (?wanted cls kind src) ?limit ?window = Inr rs"
    and filters: "normalize_asset_record_filter py_lower ASSET_RECORD_CLASSES asset_class = Inr cls"
      "normalize_asset_record_filter py_upper ASSET_RECORD_OPERATIONS operation_kind = Inr kind"
    using assms unfolding list_asset_records_def Let_def bindE_eq_Inr by (elim exE conjE) (rule that)
  define wanted where "wanted = ?wanted cls kind src"
  note c = c [folded wanted_def]
  have "0 < ?limit" by (simp add: clamped_limit_def max_def)
  from collect_records_selects [OF c this] obtain qs where qs: "length rs \<le> ?limit" "subseq qs ?window"
    "list_all2 (\<lambda>r p. build_asset_record env profits p = Inr (Some r) \<and> wanted r) rs qs" by blast
  have stands: "stands_for (fst (qs ! k)) (snd (qs ! k)) (rs ! k) \<and> wanted (rs ! k)" if "k < length rs" for k
    using list_all2_nthD [OF qs(3) that] built_record [of env profits "fst (qs ! k)" "snd (qs ! k)"] by simp
  have len: "length rs = length qs" using qs(3) by (rule list_all2_lengthD)
  have "sorted_wrt (\<lambda>p q. journal_order q < journal_order p) qs"
    using sorted_wrt_subseq [OF qs(2)] candidate_audits_newest_first by blast
  then have "sorted_wrt (\<lambda>r s. (ar_created_at s, ar_id s) < (ar_created_at r, ar_id r)) rs"
    using stands len by (auto simp: sorted_wrt_iff_nth_less journal_order_def stands_for_def)
  moreover have "\<exists>a. 0 < ar_id r \<and> ar_id r \<le> length (audits w) \<and> audits w ! (ar_id r - 1) = a
        \<and> au_user a = en_user env \<and> stands_for (ar_id r) a r
        \<and> matches py_lower asset_class (ar_asset_class r) \<and> matches py_upper operation_kind (ar_operation_kind r)" if "r \<in> set rs" for r
  proof -
    from that obtain k where k: "k < length rs" "r = rs ! k" by (auto simp: in_set_conv_nth)
    with len have "qs ! k \<in> set qs" by simp
    with qs(2) have "qs ! k \<in> set ?window" by (blast dest: set_subseq)
    then have "0 < fst (qs ! k) \<and> fst (qs ! k) \<le> length (audits w) \<and> audits w ! (fst (qs ! k) - 1) = snd (qs ! k)
        \<and> au_user (snd (qs ! k)) = en_user env" by (intro candidate_audits_in_log) simp
    moreover have "stands_for (fst (qs ! k)) (snd (qs ! k)) r" "wanted r" using stands [OF k(1)] k(2) by simp_all
    moreover from this(1) have "fst (qs ! k) = ar_id r" by (simp add: stands_for_def)
    moreover have "matches py_lower asset_class (ar_asset_class r) \<and> matches py_upper operation_kind (ar_operation_kind r)"
      using \<open>wanted r\<close> filters [THEN filter_matches] by (simp add: wanted_def)
    ultimately show ?thesis by auto
  qed
  ultimately show ?thesis using qs(1) by (simp add: clamped_limit_def)
qed

section \<open>How the journal fails\<close>

abbreviation trades_of :: "(nat \<times> mutation_audit) list \<Rightarrow> (nat \<times> mutation_audit) list" where
  "trades_of \<equiv> filter (\<lambda>(i, a). au_entity_type a = HOLDING_TRANSACTION)"

lemma profit_map_trades:
  "resolve_investment_profit_map as versions m = resolve_investment_profit_map (trades_of as) versions m"
proof (induction as arbitrary: versions m)
  case (Cons p as)
  then have "resolve_investment_profit_map as = resolve_investment_profit_map (trades_of as)" by (intro ext)
  then show ?case by (cases p) (auto simp: Let_def split: option.split model_state.split)
qed simp

lemma project_lone_sale:
  assumes "tx_side tx = SELL" "EPSILON < tx_quantity tx"
  shows "project_holding_state_from_sorted_transactions [(k, tx)] symbol market = Inl (HTTPException 422 InsufficientQuantity)"
  using assms by (simp add: project_holding_state_from_sorted_transactions_def apply_holding_transaction_to_state_def
      initial_projected_state_def max_def Let_def)

text \<open>
  C28: the journal reads a window of the newest 400 to 5000 audits. If the oldest two trades of the window are
  sales of one security, whose purchases are older than the window, the journal is not shown at all: the
  request is refused as if a sale exceeded the holding, whatever else the window holds.
\<close>

theorem cut_journal_fails:
  assumes "trades_of (rev (candidate_audits (en_user env) (fetch_limit limit) (audits w))) = (i, a) # (j, b) # later"
    and "au_operation a = CREATE" "au_after a = Some (TransactionState k tx)" "tx_side tx = SELL" "EPSILON < tx_quantity tx"
    and "au_operation b = CREATE" "au_after b = Some (TransactionState l ty)" "tx_side ty = SELL"
    and "tx_symbol ty = tx_symbol tx" "tx_market ty = tx_market tx"
  shows "list_asset_records env limit None None None w = Inl (HTTPException 422 InsufficientQuantity)"
proof -
  have "set ((i, a) # (j, b) # later) \<subseteq> {(i, a). au_entity_type a = HOLDING_TRANSACTION}"
    unfolding assms(1) [symmetric] by auto
  then have "resolve_investment_profit_map ((i, a) # (j, b) # later) [] [] = Inl (HTTPException 422 InsufficientQuantity)"
    using assms by (simp add: current_state_def Let_def sale_profit_def project_lone_sale
        project_holding_state_from_sorted_transactions_def [of "[]"])
  then have "resolve_investment_profit_map (sort_key journal_order
      (candidate_audits (en_user env) (fetch_limit limit) (audits w))) [] [] = Inl (HTTPException 422 InsufficientQuantity)"
    unfolding candidate_audits_oldest_first by (subst profit_map_trades) (simp only: assms(1))
  then show ?thesis by (simp add: list_asset_records_def normalize_asset_record_filter_def Let_def)
qed

section \<open>Two sales of a fund\<close>

definition fund_sale :: holding_transaction where
  "fund_sale = \<lparr>tx_user = lit ''ada'', tx_symbol = lit ''F'', tx_name = lit ''F'', tx_side = SELL, tx_quantity = 100000000,
     tx_price = Some 100000000, tx_fallback_currency = lit ''CNY'', tx_market = lit ''FUND'', tx_broker = None,
     tx_traded_on = 10, tx_note = None, tx_created_at = 0, tx_updated_at = 0\<rparr>"

definition sale_audit :: "nat \<Rightarrow> mutation_audit" where
  "sale_audit k = \<lparr>au_user = lit ''ada'', au_actor_user = lit ''ada'', au_actor_source = USER, au_api_key_name = None,
     au_agent_name = None, au_agent_task_id = None, au_entity_type = HOLDING_TRANSACTION, au_entity_id = Some k,
     au_operation = CREATE, au_before = None, au_after = Some (TransactionState k fund_sale), au_reason = None,
     au_created_at = int k\<rparr>"

lemma sale_window:
  "0 < n \<Longrightarrow> candidate_audits (lit ''ada'') n [sale_audit 7] = [(1, sale_audit 7)]"
  "1 < n \<Longrightarrow> candidate_audits (lit ''ada'') n [sale_audit 7, sale_audit 8] = [(2, sale_audit 8), (1, sale_audit 7)]"
  by (simp_all add: candidate_audits_def CANONICAL_AUDIT_ENTITY_TYPES_def sale_audit_def sort_key_def journal_order_def
      numeral_2_eq_2 take_Cons' less_prod_def')

lemma sale_fields:
  "au_operation (sale_audit k) = CREATE" "au_after (sale_audit k) = Some (TransactionState k fund_sale)"
  "au_entity_type (sale_audit k) = HOLDING_TRANSACTION" "tx_side fund_sale = SELL" "EPSILON < tx_quantity fund_sale"
  by (simp_all add: sale_audit_def fund_sale_def)

lemma ada_window: "fetch_limit 200 = 2400" "clamped_limit 200 = 200" "en_user ada = lit ''ada''"
  by (simp_all add: fetch_limit_def clamped_limit_def ada_def)

lemma sale_amounts: "display_quantity (of_fixed 100000000) = Inr 10000" "display_price (of_fixed 100000000) = Inr 10000"
  by (simp_all add: eval_decimals Let_def cong: eval_cong)

lemma investment_filter: "normalize_asset_record_filter py_lower ASSET_RECORD_CLASSES (Some (lit ''Investment'')) = Inr (Some (lit ''investment''))"
  by (simp add: normalize_asset_record_filter_def ASSET_RECORD_CLASSES_def eval_text py_lower_def lower_char_def Let_def)

lemma sale_journal:
  "\<exists>r. list_asset_records ada 200 (Some (lit ''Investment'')) None None (empty_world\<lparr>audits := [sale_audit 7]\<rparr>) = Inr [r]"
proof -
  have "resolve_investment_profit_map [(1, sale_audit 7)] [] [] = Inr [(1, None)]"
    by (simp add: current_state_def Let_def sale_profit_def sale_fields project_holding_state_from_sorted_transactions_def [of "[]"])
  moreover have "\<exists>r. build_asset_record ada [(1, None)] (1, sale_audit 7) = Inr (Some r) \<and> ar_asset_class r = lit ''investment''"
    by (simp add: build_asset_record_def resolve_holding_transaction_record_def current_state_def sale_fields Let_def
        sale_amounts fund_sale_def record_of_def split: prod.split)
  ultimately show ?thesis
    by (auto simp: list_asset_records_def ada_window sale_window investment_filter normalize_asset_record_filter_def [of _ _ None]
        sort_key_def Let_def)
qed

theorem journal_shows_own_changes_witness:
  "\<exists>r. list_asset_records ada 200 (Some (lit ''Investment'')) None None (empty_world\<lparr>audits := [sale_audit 7]\<rparr>) = Inr [r]
    \<and> stands_for 1 (sale_audit 7) r"
proof -
  obtain r where r: "list_asset_records ada 200 (Some (lit ''Investment'')) None None (empty_world\<lparr>audits := [sale_audit 7]\<rparr>) = Inr [r]"
    using sale_journal by (elim exE)
  from journal_shows_own_changes [OF this] have "ar_id r = 1" "stands_for (ar_id r) (sale_audit 7) r" by auto
  with r show ?thesis by (intro exI conjI) simp_all
qed

theorem cut_journal_fails_witness:
  "list_asset_records ada 200 None None None (empty_world\<lparr>audits := [sale_audit 7, sale_audit 8]\<rparr>)
     = Inl (HTTPException 422 InsufficientQuantity)"
  by (rule cut_journal_fails [where i = 1 and a = "sale_audit 7" and j = 2 and b = "sale_audit 8" and later = "[]"
        and tx = fund_sale and ty = fund_sale and k = 7 and l = 8])
    (simp_all add: ada_window sale_window sale_fields)

end
