(* ===== verification/Market_Data.thy ===== *)
theory Market_Data
  imports Redis_Store Symbols
begin

text \<open>
  Model of \<^verbatim>\<open>backend/app/services/market_data_parts/client.py\<close> and \<^verbatim>\<open>search_catalog.py\<close>, with the
  caches that \<^verbatim>\<open>service_context.py\<close> gives the client. The providers are parameters: the answer of a
  provider may depend on everything that was asked before, which the number of requests sent so far stands
  for. \<open>Lookup\<close> is a \<open>QuoteLookupError\<close> (or, of a rate provider, a \<open>ValueError\<close>) with its message; the
  pauses between retries take no time. A background refresh is started and finished by separate steps.
\<close>

section \<open>State\<close>

datatype market_error = Lookup pystr | Raised error

datatype quote_provider = YAHOO | EASTMONEY | TENCENT | BITGET

datatype rate_provider = FRANKFURTER | OPEN_EXCHANGE

record search_result =
  sr_symbol :: pystr
  sr_name :: pystr
  sr_market :: pystr
  sr_currency :: pystr
  sr_exchange :: "pystr option"
  sr_source :: "pystr option"

record chart_payload =
  ch_timestamps :: "int option list"  \<comment> \<open>seconds; \<open>None\<close> is not a number\<close>
  ch_closes :: "dec option list"
  ch_currency :: "pystr option"

record providers =
  ask_quote :: "quote_provider \<Rightarrow> pystr \<Rightarrow> nat \<Rightarrow> market_error + quote"
  ask_rate :: "rate_provider \<Rightarrow> pystr \<Rightarrow> pystr \<Rightarrow> nat \<Rightarrow> market_error + dec"
  ask_chart :: "pystr \<Rightarrow> datetime \<Rightarrow> datetime \<Rightarrow> pystr + chart_payload option"
    \<comment> \<open>the text of an HTTP error, an empty result or the first result\<close>
  ask_china_search :: "pystr \<Rightarrow> nat \<Rightarrow> market_error + search_result list"
  ask_global_search :: "pystr \<Rightarrow> nat \<Rightarrow> market_error + search_result list"

record market_client =
  mc_sent :: nat  \<comment> \<open>requests sent to quote and rate providers\<close>
  mc_quotes :: "quote redis_cache"
  mc_rates :: "dec redis_cache"
  mc_searches :: "search_result list ttl_cache"
  mc_quote_refreshes :: "(pystr \<times> pystr option) list"  \<comment> \<open>running tasks by symbol, with their market\<close>
  mc_rate_refreshes :: "(pystr \<times> pystr) list"

definition QUOTE_TTL :: int where "QUOTE_TTL = US_SECOND"
definition FX_TTL :: int where "FX_TTL = 600 * US_SECOND"
definition SEARCH_TTL :: int where "SEARCH_TTL = 300 * US_SECOND"
definition STALE_TTL :: "int option" where "STALE_TTL = Some (6 * US_HOUR)"

section \<open>Providers\<close>

fun with_retry :: "(nat \<Rightarrow> market_error + 'a) \<Rightarrow> nat \<Rightarrow> nat \<Rightarrow> (market_error + 'a) \<times> nat" where
  \<comment> \<open>\<open>_fetch_quote_with_retry\<close>, \<open>_fetch_fx_rate_with_retry\<close>: only a lookup error is tried again\<close>
  "with_retry ask retry_attempts sent =
     (case ask sent of
        Inr x \<Rightarrow> (Inr x, Suc sent)
      | Inl (Raised e) \<Rightarrow> (Inl (Raised e), Suc sent)
      | Inl (Lookup m) \<Rightarrow> (case retry_attempts of
            0 \<Rightarrow> (Inl (Lookup m), Suc sent)
          | Suc k \<Rightarrow> with_retry ask k (Suc sent)))"

declare with_retry.simps [simp del]

definition unique_in_order :: "'a list \<Rightarrow> 'a list" where
  \<comment> \<open>\<open>dict.fromkeys\<close>\<close>
  "unique_in_order xs = rev (remdups (rev xs))"

fun semicolons :: "pystr list \<Rightarrow> pystr" where
  "semicolons [] = []"
| "semicolons [m] = m"
| "semicolons (m # n # ms) = m @ lit ''; '' @ semicolons (n # ms)"

fun try_providers ::
  "('p \<Rightarrow> nat \<Rightarrow> market_error + 'a) \<Rightarrow> pystr \<Rightarrow> ('p \<times> nat) list \<Rightarrow> pystr list \<Rightarrow> nat \<Rightarrow> (market_error + 'a) \<times> nat" where
  \<comment> \<open>one provider after another; the messages of the failures are joined\<close>
  "try_providers ask no_message [] errors sent =
     (let m = semicolons (unique_in_order errors) in (Inl (Lookup (if m = [] then no_message else m)), sent))"
| "try_providers ask no_message ((p, retry_attempts) # ps) errors sent =
     (case with_retry (ask p) retry_attempts sent of
        (Inr x, n) \<Rightarrow> (Inr x, n)
      | (Inl (Raised e), n) \<Rightarrow> (Inl (Raised e), n)
      | (Inl (Lookup m), n) \<Rightarrow> try_providers ask no_message ps (errors @ [m]) n)"

definition resolve_quote_provider_chain :: "pystr \<Rightarrow> (quote_provider \<times> nat) list" where
  "resolve_quote_provider_chain resolved_market =
     (if resolved_market \<in> {lit ''HK'', lit ''CN''} then [(EASTMONEY, 1), (TENCENT, 1), (YAHOO, 0)]
      else if resolved_market = lit ''CRYPTO'' then [(BITGET, 0)]
      else [(YAHOO, 0)])"

definition fetch_quote_from_providers :: "providers \<Rightarrow> pystr \<Rightarrow> pystr \<Rightarrow> nat \<Rightarrow> (market_error + quote) \<times> nat" where
  "fetch_quote_from_providers net normalized_symbol resolved_market sent =
     try_providers (\<lambda>p. ask_quote net p normalized_symbol)
       (lit ''Quote provider request failed for '' @ normalized_symbol @ lit ''.'')
       (resolve_quote_provider_chain resolved_market) [] sent"

definition RATE_PROVIDERS :: "(rate_provider \<times> nat) list" where
  "RATE_PROVIDERS = [(FRANKFURTER, 1), (OPEN_EXCHANGE, 1)]"

definition quantized_rate :: "market_error + dec \<Rightarrow> market_error + dec" where
  "quantized_rate answer = (case answer of Inl e \<Rightarrow> Inl e
     | Inr r \<Rightarrow> (case quantize_decimal r of Inl e \<Rightarrow> Inl (Raised (DecimalError e)) | Inr f \<Rightarrow> Inr (of_fixed f)))"

definition fetch_fx_rate_from_providers :: "providers \<Rightarrow> pystr \<Rightarrow> pystr \<Rightarrow> nat \<Rightarrow> (market_error + dec) \<times> nat" where
  "fetch_fx_rate_from_providers net from_code to_code sent =
     try_providers (\<lambda>p n. quantized_rate (ask_rate net p from_code to_code n))
       (lit ''FX provider request failed for '' @ from_code @ lit ''/'' @ to_code @ lit ''.'')
       RATE_PROVIDERS [] sent"

section \<open>Cached lookups\<close>

type_synonym 'a lookup = "(market_error + 'a \<times> pystr list) \<times> market_client"

definition put_quote :: "datetime \<Rightarrow> pystr \<Rightarrow> quote \<Rightarrow> market_client \<Rightarrow> market_client" where
  "put_quote now symbol q c = c\<lparr>mc_quotes := cache_set STALE_TTL now symbol q QUOTE_TTL (mc_quotes c)\<rparr>"

definition put_rate :: "datetime \<Rightarrow> pystr \<Rightarrow> dec \<Rightarrow> market_client \<Rightarrow> market_client" where
  "put_rate now key r c = c\<lparr>mc_rates := cache_set STALE_TTL now key r FX_TTL (mc_rates c)\<rparr>"

definition ensure_quote_refresh :: "pystr \<Rightarrow> pystr \<Rightarrow> market_client \<Rightarrow> market_client" where
  "ensure_quote_refresh symbol market c =
     (if symbol \<in> fst ` set (mc_quote_refreshes c) then c
      else c\<lparr>mc_quote_refreshes := mc_quote_refreshes c @ [(symbol, Some market)]\<rparr>)"

definition refresh_quote_cache :: "providers \<Rightarrow> datetime \<Rightarrow> pystr \<Rightarrow> pystr \<Rightarrow> market_client \<Rightarrow> market_client" where
  \<comment> \<open>the task and its \<open>cleanup\<close>, which logs an error\<close>
  "refresh_quote_cache net now symbol market c =
     (let (answer, sent) = fetch_quote_from_providers net symbol market (mc_sent c);
          c1 = c\<lparr>mc_sent := sent, mc_quote_refreshes := filter (\<lambda>(s, m). s \<noteq> symbol) (mc_quote_refreshes c)\<rparr>
      in case answer of Inl e \<Rightarrow> c1 | Inr q \<Rightarrow> put_quote now symbol q c1)"

definition fx_key :: "pystr \<Rightarrow> pystr \<Rightarrow> pystr" where
  "fx_key from_code to_code = from_code @ lit '':'' @ to_code"

definition ensure_fx_refresh :: "pystr \<Rightarrow> pystr \<Rightarrow> market_client \<Rightarrow> market_client" where
  "ensure_fx_refresh from_code to_code c =
     (if fx_key from_code to_code \<in> (\<lambda>(f, t). fx_key f t) ` set (mc_rate_refreshes c) then c
      else c\<lparr>mc_rate_refreshes := mc_rate_refreshes c @ [(from_code, to_code)]\<rparr>)"

definition refresh_fx_cache :: "providers \<Rightarrow> datetime \<Rightarrow> pystr \<Rightarrow> pystr \<Rightarrow> market_client \<Rightarrow> market_client" where
  "refresh_fx_cache net now from_code to_code c =
     (let (answer, sent) = fetch_fx_rate_from_providers net from_code to_code (mc_sent c);
          c1 = c\<lparr>mc_sent := sent, mc_rate_refreshes := filter (\<lambda>(f, t). fx_key f t \<noteq> fx_key from_code to_code) (mc_rate_refreshes c)\<rparr>
      in case answer of Inl e \<Rightarrow> c1 | Inr r \<Rightarrow> put_rate now (fx_key from_code to_code) r c1)"

definition clear_runtime_caches :: "datetime \<Rightarrow> bool \<Rightarrow> market_client \<Rightarrow> market_client" where
  "clear_runtime_caches now clear_search c =
     c\<lparr>mc_quotes := cache_expire_all STALE_TTL now (mc_quotes c), mc_rates := cache_expire_all STALE_TTL now (mc_rates c),
       mc_searches := (if clear_search then ttl_expire_all now (mc_searches c) else mc_searches c)\<rparr>"

definition quote_fallback_warning :: "pystr \<Rightarrow> pystr \<Rightarrow> pystr" where
  "quote_fallback_warning s m = s @ (lit '' '' @ [34892, 24773, 28304, 19981, 21487, 29992, 65292, 24050, 22238, 36864, 21040, 26368, 36817, 32531, 23384, 20540] @ lit '': '') @ m"

definition fx_fallback_warning :: "pystr \<Rightarrow> pystr \<Rightarrow> pystr \<Rightarrow> pystr" where
  "fx_fallback_warning from_code to_code m = from_code @ lit ''/'' @ to_code @ (lit '' '' @ [27719, 29575, 28304, 19981, 21487, 29992, 65292, 24050, 22238, 36864, 21040, 26368, 36817, 32531, 23384, 20540] @ lit '': '') @ m"

definition quote_target :: "pystr \<Rightarrow> pystr option \<Rightarrow> error + pystr \<times> pystr" where
  \<comment> \<open>the symbol in its canonical form and the market to ask\<close>
  "quote_target symbol market =
     (let normalized_market = py_upper (py_strip (case market of None \<Rightarrow> [] | Some m \<Rightarrow> m));
          wanted = (if normalized_market = [] then None else Some normalized_market)
      in bindE (normalize_symbol_for_market symbol wanted) (\<lambda>normalized_symbol.
         Inr (normalized_symbol, case wanted of Some m \<Rightarrow> m | None \<Rightarrow> infer_security_market normalized_symbol None None)))"

definition fetch_quote ::
  "providers \<Rightarrow> datetime \<Rightarrow> pystr \<Rightarrow> pystr option \<Rightarrow> bool \<Rightarrow> bool \<Rightarrow> market_client \<Rightarrow> quote lookup" where
  "fetch_quote net now symbol market prefer_stale schedule_stale_refresh c =
     (case quote_target symbol market of
        Inl e \<Rightarrow> (Inl (Raised e), c)
      | Inr (s, resolved_market) \<Rightarrow>
          (case cache_get now (mc_quotes c) s of
             Some q \<Rightarrow> (Inr (q, []), c)
           | None \<Rightarrow>
               (case (prefer_stale, cache_get_stale now (mc_quotes c) s) of
                  (True, Some q) \<Rightarrow> (Inr (q, []), if schedule_stale_refresh then ensure_quote_refresh s resolved_market c else c)
                | (_, stale) \<Rightarrow>
                    if prefer_stale \<and> \<not> schedule_stale_refresh
                    then (Inl (Lookup (s @ lit '' quote cache is still warming.'')), c)
                    else (let (answer, sent) = fetch_quote_from_providers net s resolved_market (mc_sent c); c1 = c\<lparr>mc_sent := sent\<rparr>
                          in case answer of
                               Inr q \<Rightarrow> (Inr (q, []), put_quote now s q c1)
                             | Inl (Lookup m) \<Rightarrow> (case stale of
                                   Some q \<Rightarrow> (Inr (q, [quote_fallback_warning s m]), c1)
                                 | None \<Rightarrow> (Inl (Lookup m), c1))
                             | Inl e \<Rightarrow> (Inl e, c1)))))"

definition fetch_fx_rate ::
  "providers \<Rightarrow> datetime \<Rightarrow> pystr \<Rightarrow> pystr \<Rightarrow> bool \<Rightarrow> bool \<Rightarrow> market_client \<Rightarrow> dec lookup" where
  "fetch_fx_rate net now from_currency to_currency prefer_stale schedule_stale_refresh c =
     (let from_code = py_upper (py_strip from_currency); to_code = py_upper (py_strip to_currency);
          key = fx_key from_code to_code
      in if from_code = to_code then (Inr (Dec 1 0, []), c)
         else case cache_get now (mc_rates c) key of
             Some r \<Rightarrow> (Inr (r, []), c)
           | None \<Rightarrow>
               (case (prefer_stale, cache_get_stale now (mc_rates c) key) of
                  (True, Some r) \<Rightarrow> (Inr (r, []), if schedule_stale_refresh then ensure_fx_refresh from_code to_code c else c)
                | (_, stale) \<Rightarrow>
                    if prefer_stale \<and> \<not> schedule_stale_refresh
                    then (Inl (Lookup (from_code @ lit ''/'' @ to_code @ lit '' FX cache is still warming.'')), c)
                    else (let (answer, sent) = fetch_fx_rate_from_providers net from_code to_code (mc_sent c); c1 = c\<lparr>mc_sent := sent\<rparr>
                          in case answer of
                               Inr r \<Rightarrow> (Inr (r, []), put_rate now key r c1)
                             | Inl (Lookup m) \<Rightarrow> (case stale of
                                   Some r \<Rightarrow> (Inr (r, [fx_fallback_warning from_code to_code m]), c1)
                                 | None \<Rightarrow> (Inl (Lookup m), c1))
                             | Inl e \<Rightarrow> (Inl e, c1))))"

section \<open>Price series\<close>

definition HOURLY_WINDOW :: int where "HOURLY_WINDOW = 729 * US_DAY"

function hourly_segments :: "datetime \<Rightarrow> datetime \<Rightarrow> (datetime \<times> datetime) list" where
  "hourly_segments segment_start end_utc =
     (if segment_start < end_utc
      then (let segment_end = min (segment_start + HOURLY_WINDOW) end_utc
            in (segment_start, segment_end) # hourly_segments segment_end end_utc)
      else [])"
  by pat_completeness auto
termination
  by (relation "measure (\<lambda>(s, e). nat (e - s))") (auto simp: HOURLY_WINDOW_def US_DAY_def)

declare hourly_segments.simps [simp del]

definition chart_point :: "datetime \<Rightarrow> datetime \<Rightarrow> int option \<Rightarrow> dec option \<Rightarrow> (datetime \<times> fixed) option" where
  "chart_point segment_start segment_end raw_timestamp close_value =
     (case (raw_timestamp, close_value) of
        (Some seconds, Some close) \<Rightarrow>
          (let timestamp = seconds * US_SECOND in
           if timestamp < segment_start \<or> timestamp > segment_end \<or> coeff close = 0 then None
           else case quantize_decimal close of
               Inl e \<Rightarrow> None
             | Inr price \<Rightarrow> if price \<le> 0 then None else Some (current_hour_bucket timestamp, price))
      | _ \<Rightarrow> None)"

definition chart_points :: "datetime \<Rightarrow> datetime \<Rightarrow> chart_payload \<Rightarrow> (datetime \<times> fixed) list" where
  \<comment> \<open>a time stamp without a close value has none\<close>
  "chart_points segment_start segment_end p =
     List.map_filter (\<lambda>(t, v). chart_point segment_start segment_end t v)
       (zip (ch_timestamps p) (ch_closes p @ replicate (length (ch_timestamps p)) None))"

definition fetch_chart_points ::
  "providers \<Rightarrow> pystr \<Rightarrow> datetime \<Rightarrow> datetime \<Rightarrow> pystr + (datetime \<times> fixed) list \<times> pystr option" where
  \<comment> \<open>at the interval \<open>1h\<close>, the only one that is asked for\<close>
  "fetch_chart_points net symbol segment_start segment_end =
     (case ask_chart net symbol segment_start segment_end of
        Inl m \<Rightarrow> Inl (symbol @ (lit '' 1h '' @ [21382, 21490, 34892, 24773, 25289, 21462, 22833, 36133] @ lit '': '') @ m)
      | Inr None \<Rightarrow> Inl (symbol @ (lit '' 1h '' @ [21382, 21490, 34892, 24773, 20026, 31354, 12290]))
      | Inr (Some p) \<Rightarrow> Inr (chart_points segment_start segment_end p,
          case ch_currency p of None \<Rightarrow> None | Some u \<Rightarrow> if u = [] then None else Some (py_upper u)))"

fun gather_segments ::
  "providers \<Rightarrow> pystr \<Rightarrow> (datetime \<times> datetime) list \<Rightarrow> (datetime \<times> fixed) list \<Rightarrow> pystr option \<Rightarrow> pystr list
   \<Rightarrow> (datetime \<times> fixed) list \<times> pystr option \<times> pystr list" where
  "gather_segments net symbol [] all_points currency warnings = (all_points, currency, warnings)"
| "gather_segments net symbol ((s, e) # segments) all_points currency warnings =
     (case fetch_chart_points net symbol s e of
        Inl m \<Rightarrow> gather_segments net symbol segments all_points currency (warnings @ [m])
      | Inr (points, found) \<Rightarrow> gather_segments net symbol segments (all_points @ points)
          (if found = None then currency else found) warnings)"

definition fetch_hourly_price_series ::
  "providers \<Rightarrow> pystr \<Rightarrow> pystr option \<Rightarrow> datetime \<Rightarrow> datetime
   \<Rightarrow> error + (datetime \<times> fixed) list \<times> pystr option \<times> pystr list" where
  \<comment> \<open>of two points of an hour the later one counts\<close>
  "fetch_hourly_price_series net symbol market start_utc end_utc =
     (let normalized_market = py_upper (py_strip (case market of None \<Rightarrow> [] | Some m \<Rightarrow> m))
      in bindE (normalize_symbol_for_market symbol (if normalized_market = [] then None else Some normalized_market))
        (\<lambda>normalized_symbol.
         if end_utc \<le> start_utc then Inr ([], None, [])
         else (let (all_points, currency, warnings) =
                     gather_segments net normalized_symbol (hourly_segments start_utc end_utc) [] None []
               in Inr (sort_key fst (fold (\<lambda>(bucket, price). AList.update bucket price) all_points []), currency, warnings))))"

section \<open>Search\<close>

definition search_result_of :: "pystr \<Rightarrow> pystr \<Rightarrow> pystr \<Rightarrow> pystr \<Rightarrow> pystr \<Rightarrow> pystr \<Rightarrow> search_result" where
  "search_result_of symbol name market currency exchange source =
     \<lparr>sr_symbol = symbol, sr_name = name, sr_market = market, sr_currency = currency, sr_exchange = Some exchange,
      sr_source = Some source\<rparr>"

definition LOCAL_SEARCH_CATALOG :: "(pystr list \<times> search_result) list" where
  "LOCAL_SEARCH_CATALOG = [
     ([[33150, 35759], [33150, 35759, 25511, 32929], lit ''tencent''],
       search_result_of (lit ''0700.HK'') ([33150, 35759, 25511, 32929]) (lit ''HK'') (lit ''HKD'') (lit ''HKG'') ([26412, 22320, 26144, 23556])),
     ([[38463, 37324], [38463, 37324, 24052, 24052], lit ''alibaba''],
       search_result_of (lit ''9988.HK'') ([38463, 37324, 24052, 24052] @ lit ''-SW'') (lit ''HK'') (lit ''HKD'') (lit ''HKG'') ([26412, 22320, 26144, 23556])),
     ([[33529, 26524], lit ''apple'', lit ''aapl''],
       search_result_of (lit ''AAPL'') (lit ''Apple Inc.'') (lit ''US'') (lit ''USD'') (lit ''NMS'') ([26412, 22320, 26144, 23556])),
     ([[33521, 20255, 36798], lit ''nvidia'', lit ''nvda''],
       search_result_of (lit ''NVDA'') (lit ''NVIDIA Corporation'') (lit ''US'') (lit ''USD'') (lit ''NMS'') ([26412, 22320, 26144, 23556])),
     ([[29305, 26031, 25289], lit ''tesla'', lit ''tsla''],
       search_result_of (lit ''TSLA'') (lit ''Tesla, Inc.'') (lit ''US'') (lit ''USD'') (lit ''NMS'') ([26412, 22320, 26144, 23556])),
     ([[23567, 31859], lit ''xiaomi''],
       search_result_of (lit ''1810.HK'') ([23567, 31859, 38598, 22242] @ lit ''-W'') (lit ''HK'') (lit ''HKD'') (lit ''HKG'') ([26412, 22320, 26144, 23556])),
     ([[33541, 21488], [36149, 24030, 33541, 21488], lit ''kweichow moutai''],
       search_result_of (lit ''600519.SS'') ([36149, 24030, 33541, 21488]) (lit ''CN'') (lit ''CNY'') (lit ''SHH'') ([26412, 22320, 26144, 23556])),
     ([[29702, 24819], [29702, 24819, 27773, 36710], lit ''li auto'', lit ''li''],
       search_result_of (lit ''2015.HK'') ([29702, 24819, 27773, 36710] @ lit ''-W'') (lit ''HK'') (lit ''HKD'') (lit ''HKG'') ([26412, 22320, 26144, 23556])),
     ([[23506, 27494, 32426], lit ''cambricon''],
       search_result_of (lit ''688256.SS'') ([23506, 27494, 32426] @ lit ''-U'') (lit ''CN'') (lit ''CNY'') (lit ''SHH'') ([26412, 22320, 26144, 23556])),
     ([[27604, 29305, 24065], lit ''btc'', lit ''bitcoin''],
       search_result_of (lit ''BTC-USD'') (lit ''Bitcoin'') (lit ''CRYPTO'') (lit ''USD'') (lit ''BITGET'') (lit ''Bitget'')),
     ([[20197, 22826, 22346], lit ''eth'', lit ''ethereum''],
       search_result_of (lit ''ETH-USD'') (lit ''Ethereum'') (lit ''CRYPTO'') (lit ''USD'') (lit ''BITGET'') (lit ''Bitget'')),
     ([lit ''usdt'', [27888, 36798, 24065], lit ''tether''],
       search_result_of (lit ''USDT-USD'') (lit ''Tether USDt'') (lit ''CRYPTO'') (lit ''USD'') (lit ''BITGET'') (lit ''Bitget'')),
     ([lit ''usdc'', lit ''usd coin''],
       search_result_of (lit ''USDC-USD'') (lit ''USD Coin'') (lit ''CRYPTO'') (lit ''USD'') (lit ''BITGET'') (lit ''Bitget''))]"

definition or_empty :: "pystr option \<Rightarrow> pystr" where
  "or_empty v = (case v of None \<Rightarrow> [] | Some s \<Rightarrow> s)"

record eastmoney_item =
  em_code :: "pystr option"
  em_name :: "pystr option"
  em_quote_id :: "pystr option"
  em_classify :: "pystr option"
  em_jys :: "pystr option"

definition parse_eastmoney_search_item :: "eastmoney_item \<Rightarrow> error + search_result option" where
  "parse_eastmoney_search_item item =
     (let code = py_upper (py_strip (or_empty (em_code item))); name = py_strip (or_empty (em_name item));
          quote_id = py_strip (or_empty (em_quote_id item));
          classify = py_upper (py_strip (or_empty (em_classify item)));
          jys = py_upper (py_strip (or_empty (em_jys item)));
          exchange = (\<lambda>other. if jys = [] then other else Some jys);
          found = (\<lambda>symbol market currency other. Inr (Some \<lparr>sr_symbol = symbol, sr_name = name, sr_market = market,
            sr_currency = currency, sr_exchange = exchange other, sr_source = Some ([19996, 26041, 36130, 23500])\<rparr>))
      in if code = [] \<or> name = [] \<or> classify = lit ''NEEQ'' then Inr None
         else if starts_with (lit ''1.'') quote_id then found (code @ lit ''.SS'') (lit ''CN'') (lit ''CNY'') (Some (lit ''SHH''))
         else if starts_with (lit ''0.'') quote_id then found (code @ lit ''.SZ'') (lit ''CN'') (lit ''CNY'') (Some (lit ''SHE''))
         else if classify = lit ''HK'' \<or> jys = lit ''HK'' \<or> starts_with (lit ''116.'') quote_id
           then bindE (normalize_symbol (code @ lit ''.HK'')) (\<lambda>symbol. found symbol (lit ''HK'') (lit ''HKD'') (Some (lit ''HKG'')))
         else if classify = lit ''USSTOCK'' \<or> jys \<in> set US_EXCHANGES \<or> starts_with (lit ''105.'') quote_id
           then bindE (normalize_symbol code) (\<lambda>symbol. found symbol (lit ''US'') (lit ''USD'') None)
         else Inr None)"

definition dedupe_key :: "search_result \<Rightarrow> pystr" where
  "dedupe_key r = (if sr_market r = lit ''CRYPTO'' then sr_symbol r @ lit ''::'' @ or_empty (sr_source r) else sr_symbol r)"

fun keep_unseen :: "pystr list \<Rightarrow> search_result list \<Rightarrow> search_result list" where
  "keep_unseen seen_symbols [] = []"
| "keep_unseen seen_symbols (r # rs) =
     (if dedupe_key r \<in> set seen_symbols then keep_unseen seen_symbols rs
      else r # keep_unseen (dedupe_key r # seen_symbols) rs)"

definition merge_search_results :: "search_result list \<Rightarrow> search_result list \<Rightarrow> search_result list" where
  "merge_search_results primary_results secondary_results = keep_unseen [] (primary_results @ secondary_results)"

definition contains_cjk_characters :: "pystr \<Rightarrow> bool" where
  "contains_cjk_characters v \<longleftrightarrow> list_ex (\<lambda>c. 19968 \<le> c \<and> c \<le> 40959) v"

fun occurs_in :: "pystr \<Rightarrow> pystr \<Rightarrow> bool" where
  \<comment> \<open>\<open>in\<close> of strings\<close>
  "occurs_in p [] \<longleftrightarrow> p = []"
| "occurs_in p (c # cs) \<longleftrightarrow> starts_with p (c # cs) \<or> occurs_in p cs"

definition build_local_search_results :: "pystr \<Rightarrow> search_result list" where
  "build_local_search_results query =
     (let normalized_query = py_lower (py_strip query) in
      if normalized_query = [] then []
      else (let known = map snd (filter (\<lambda>(keywords, r). list_ex (\<lambda>k. occurs_in normalized_query k \<or> occurs_in k normalized_query) keywords)
                  LOCAL_SEARCH_CATALOG);
                typed = (if list_ex (\<lambda>r. sr_market r = lit ''CRYPTO'') known then []
                  else case normalize_symbol query of
                      Inl e \<Rightarrow> []
                    | Inr symbol \<Rightarrow> (let market = infer_security_market symbol None None; crypto = (market = lit ''CRYPTO'')
                        in if market = lit ''OTHER'' then []
                           else [\<lparr>sr_symbol = symbol, sr_name = symbol, sr_market = market,
                             sr_currency = default_currency_for_market market,
                             sr_exchange = (if crypto then Some (lit ''BITGET'') else None),
                             sr_source = (if crypto then Some (lit ''Bitget'') else None)\<rparr>]))
            in merge_search_results (known @ typed) []))"

definition no_results_on_lookup_error :: "market_error + search_result list \<Rightarrow> error + search_result list" where
  "no_results_on_lookup_error answer = (case answer of
       Inr rs \<Rightarrow> Inr rs | Inl (Lookup m) \<Rightarrow> Inr [] | Inl (Raised e) \<Rightarrow> Inl e)"

definition search_securities ::
  "providers \<Rightarrow> datetime \<Rightarrow> pystr \<Rightarrow> market_client \<Rightarrow> (error + search_result list) \<times> market_client" where
  \<comment> \<open>a lookup error of a provider counts as no results, any other error ends the search\<close>
  "search_securities net now query c =
     (let normalized_query = py_strip query; cache_key = py_lower normalized_query in
      if normalized_query = [] then (Inr [], c)
      else case ttl_get now (mc_searches c) cache_key of
          Some rs \<Rightarrow> (Inr rs, c)
        | None \<Rightarrow>
            (let local_results = build_local_search_results normalized_query;
                 found =
                   bindE (no_results_on_lookup_error (ask_china_search net normalized_query (mc_sent c))) (\<lambda>china_results.
                   bindE (if local_results = [] \<and> \<not> contains_cjk_characters normalized_query
                     then no_results_on_lookup_error (ask_global_search net normalized_query (mc_sent c)) else Inr []) (\<lambda>global_results.
                   Inr (merge_search_results local_results (merge_search_results china_results global_results))))
             in (found, case found of Inl e \<Rightarrow> c
                  | Inr rs \<Rightarrow> c\<lparr>mc_searches := ttl_set now cache_key rs SEARCH_TTL (mc_searches c)\<rparr>)))"

end
