(* ===== verification/Market_Properties.thy ===== *)
theory Market_Properties
  imports Market_Data Scenario
begin

text \<open>
  Properties of the market data client: reads from the cache alone, how long a quote outlives its
  providers, how many requests a lookup sends, and the shape of a price series.
\<close>

section \<open>Reads from the cache alone\<close>

definition cached_answer :: "'a option \<Rightarrow> pystr \<Rightarrow> market_error + 'a \<times> pystr list" where
  "cached_answer v message = (case v of Some x \<Rightarrow> Inr (x, []) | None \<Rightarrow> Inl (Lookup message))"

lemma cache_get_is_stale: "cache_get now c k = Some v \<Longrightarrow> cache_get_stale now c k = Some v"
  by (rule redis_cache.get_le_stale)

text \<open>
  C22: what the dashboard reads of the market (stale values preferred, no refresh scheduled) comes from
  the caches alone: no provider is asked, no refresh is started and nothing is cached, and the answer is the
  last value cached for the canonical symbol or pair, or a lookup error.
\<close>

theorem stale_reads_send_nothing:
  "(fetch_quote net now symbol market True False c =
     (case quote_target symbol market of Inl e \<Rightarrow> Inl (Raised e)
      | Inr (s, m) \<Rightarrow> cached_answer (cache_get_stale now (mc_quotes c) s) (s @ lit '' quote cache is still warming.''), c)) \<and>
   fetch_fx_rate net now from_currency to_currency True False c =
     (let f = py_upper (py_strip from_currency); t = py_upper (py_strip to_currency)
      in if f = t then Inr (Dec 1 0, [])
         else cached_answer (cache_get_stale now (mc_rates c) (fx_key f t)) (f @ lit ''/'' @ t @ lit '' FX cache is still warming.''), c)"
  by (auto simp: fetch_quote_def fetch_fx_rate_def cached_answer_def Let_def dest: cache_get_is_stale split: sum.split option.split)

section \<open>Outages\<close>

lemma stale_after_set:
  "later < now + 6 * US_HOUR \<Longrightarrow> cache_get_stale later (cache_set STALE_TTL now k v ttl c) k = Some v"
  by (simp add: cache_get_stale_def cache_set_def redis_simps STALE_TTL_def redis_ttl_def lives_def US_HOUR_def US_SECOND_def)

lemma fresh_after_set:
  "now \<le> later \<Longrightarrow> later < now + ttl \<Longrightarrow> ttl \<le> 6 * US_HOUR \<Longrightarrow> cache_get later (cache_set STALE_TTL now k v ttl c) k = Some v"
  by (rule redis_cache.get_set) (simp_all add: outlasts_def STALE_TTL_def redis_ttl_def US_HOUR_def US_SECOND_def)

definition sources_down :: "providers \<Rightarrow> pystr \<Rightarrow> pystr \<Rightarrow> bool" where
  \<comment> \<open>whenever it is asked, no provider of this market has a quote of the symbol\<close>
  "sources_down net s r \<longleftrightarrow>
     (\<forall>p \<in> fst ` set (resolve_quote_provider_chain r). \<forall>n. \<exists>m. ask_quote net p s n = Inl (Lookup m))"

lemma with_retry_down: "(\<And>n. \<exists>m. ask n = Inl (Lookup m)) \<Longrightarrow> \<exists>m n. with_retry ask k sent = (Inl (Lookup m), n)"
proof (induction k arbitrary: sent)
  case 0
  then obtain m where "ask sent = Inl (Lookup m)" by blast
  then show ?case by (simp add: with_retry.simps)
next
  case (Suc k)
  then obtain m where "ask sent = Inl (Lookup m)" by blast
  with Suc show ?case by (simp add: with_retry.simps [of _ "Suc k"])
qed

lemma try_providers_down:
  "(\<And>p n. p \<in> fst ` set ps \<Longrightarrow> \<exists>m. ask p n = Inl (Lookup m)) \<Longrightarrow> \<exists>m n. try_providers ask no_message ps errors sent = (Inl (Lookup m), n)"
proof (induction ps arbitrary: errors sent)
  case (Cons p ps)
  obtain q k where p: "p = (q, k)" by (cases p)
  have "q \<in> fst ` set (p # ps)" by (simp add: p)
  with with_retry_down [of "ask q" k sent] Cons.prems obtain m n where "with_retry (ask q) k sent = (Inl (Lookup m), n)" by blast
  moreover obtain m' n' where "try_providers ask no_message ps (errors @ [m]) n = (Inl (Lookup m'), n')"
    using Cons.IH [of "errors @ [m]" n] Cons.prems by (metis image_insert insertCI list.simps(15))
  ultimately show ?case by (simp add: p)
qed (simp add: Let_def)

lemma quotes_down: "sources_down net s r \<Longrightarrow> \<exists>m n. fetch_quote_from_providers net s r sent = (Inl (Lookup m), n)"
  unfolding fetch_quote_from_providers_def sources_down_def by (rule try_providers_down) blast

lemma asked_quote_is_cached:
  assumes "quote_target symbol market = Inr (s, r)"
    and "fetch_quote net now symbol market prefer_stale schedule c = (Inr (q, []), c1)" "mc_sent c < mc_sent c1"
  shows "mc_quotes c1 = cache_set STALE_TTL now s q QUOTE_TTL (mc_quotes c)"
proof -
  obtain answer n where a: "fetch_quote_from_providers net s r (mc_sent c) = (answer, n)" by (rule prod.exhaust)
  have refresh: "mc_sent (ensure_quote_refresh s r c) = mc_sent c" by (simp add: ensure_quote_refresh_def)
  show ?thesis
  proof (cases "cache_get now (mc_quotes c) s")
    case None
    show ?thesis
    proof (cases "prefer_stale \<and> cache_get_stale now (mc_quotes c) s \<noteq> None")
      case True
      with assms None show ?thesis by (auto simp: fetch_quote_def refresh split: if_splits)
    next
      case False
      with assms None have "\<not> (prefer_stale \<and> \<not> schedule)" by (auto simp: fetch_quote_def split: if_splits)
      moreover from False have "prefer_stale \<Longrightarrow> cache_get_stale now (mc_quotes c) s = None" by simp
      ultimately show ?thesis using assms None a
        by (cases prefer_stale; cases "cache_get_stale now (mc_quotes c) s")
          (auto simp: fetch_quote_def put_quote_def Let_def split: sum.splits market_error.splits)
    qed
  qed (use assms in \<open>simp add: fetch_quote_def\<close>)
qed

lemma quote_outlives:
  assumes "quote_target symbol market = Inr (s, r)"
    and "fetch_quote net now symbol market prefer_stale schedule c = (Inr (q, []), c1)" "mc_sent c < mc_sent c1"
    and "now \<le> later" "later < now + 6 * US_HOUR" "sources_down net' s r"
  shows "\<exists>warnings' c2. fetch_quote net' later symbol market prefer_stale' schedule' c1 = (Inr (q, warnings'), c2)
    \<and> (later < now + QUOTE_TTL \<longrightarrow> warnings' = [] \<and> c2 = c1)"
proof -
  note c1 = asked_quote_is_cached [OF assms(1-3)]
  have stale: "cache_get_stale later (mc_quotes c1) s = Some q"
    unfolding c1 using assms(5) by (rule stale_after_set)
  obtain m n where down: "fetch_quote_from_providers net' s r (mc_sent c1) = (Inl (Lookup m), n)"
    using quotes_down [OF assms(6)] by blast
  show ?thesis
  proof (cases "cache_get later (mc_quotes c1) s")
    case (Some q')
    with stale cache_get_is_stale [OF Some] show ?thesis using assms(1) by (simp add: fetch_quote_def)
  next
    case None
    have "\<not> later < now + QUOTE_TTL"
      using None fresh_after_set [OF assms(4), of QUOTE_TTL s q "mc_quotes c"] unfolding c1
      by (auto simp: QUOTE_TTL_def US_HOUR_def US_SECOND_def)
    with None stale down assms(1) show ?thesis by (cases prefer_stale') (simp_all add: fetch_quote_def Let_def)
  qed
qed

text \<open>
  C21: a quote outlives its providers: when a lookup asked the providers and one of them answered
  (requests were sent and no warning was given, whatever the cache held of the symbol before), then for
  six hours a lookup of the symbol answers with that quote even if every provider of its market fails,
  and without a warning and without asking while it is fresh.
\<close>

theorem quote_survives_outage:
  assumes "quote_target symbol market = Inr (s, r)"
    and "fetch_quote net now symbol market prefer_stale schedule c = (Inr (q, []), c1)" "mc_sent c < mc_sent c1"
    and "now \<le> later" "later < now + 6 * US_HOUR" "sources_down net' s r"
  shows "\<exists>warnings' c2. fetch_quote net' later symbol market prefer_stale' schedule' c1 = (Inr (q, warnings'), c2)
    \<and> (later < now + QUOTE_TTL \<longrightarrow> warnings' = [] \<and> c2 = c1)"
  using assms by (rule quote_outlives)

section \<open>Requests\<close>

lemma with_retry_sends: "snd (with_retry ask k sent) \<le> sent + Suc k \<and> sent < snd (with_retry ask k sent)"
proof (induction k arbitrary: sent)
  case 0
  then show ?case by (simp add: with_retry.simps split: sum.split market_error.split)
next
  case (Suc k)
  from Suc [of "Suc sent"] show ?case by (subst (1 2) with_retry.simps) (auto split: sum.split market_error.split)
qed

lemma try_providers_sends:
  "snd (try_providers ask no_message ps errors sent) \<le> sent + sum_list (map (\<lambda>(p, k). Suc k) ps)"
proof (induction ps arbitrary: errors sent)
  case (Cons p ps)
  obtain q k where p: "p = (q, k)" by (cases p)
  obtain answer n where w: "with_retry (ask q) k sent = (answer, n)" by (cases "with_retry (ask q) k sent")
  with with_retry_sends [of "ask q" k sent] have n: "n \<le> sent + Suc k" by simp
  have "snd (try_providers ask no_message ps (errors @ [m]) n) \<le> sent + Suc k + sum_list (map (\<lambda>(p, k). Suc k) ps)" for m
    using Cons [of "errors @ [m]" n] n by simp
  with w p n show ?case by (auto simp: add.assoc split: sum.split market_error.split)
qed (simp add: Let_def)

lemma sent_simps [simp]:
  "mc_sent (put_quote now s q c) = mc_sent c" "mc_sent (put_rate now k r c) = mc_sent c"
  "mc_sent (ensure_quote_refresh s u c) = mc_sent c" "mc_sent (ensure_fx_refresh f t c) = mc_sent c"
  by (simp_all add: put_quote_def put_rate_def ensure_quote_refresh_def ensure_fx_refresh_def)

lemma fetch_quote_sends:
  assumes "quote_target symbol market = Inr (s, r)"
  shows "mc_sent (snd (fetch_quote net now symbol market prefer_stale schedule c))
    \<in> {mc_sent c, snd (fetch_quote_from_providers net s r (mc_sent c))}"
proof -
  obtain answer n where f: "fetch_quote_from_providers net s r (mc_sent c) = (answer, n)" by (rule prod.exhaust)
  have sent: "mc_sent (snd (case answer of Inr q \<Rightarrow> (Inr (q, []), put_quote now s q (c\<lparr>mc_sent := n\<rparr>))
      | Inl (Lookup m) \<Rightarrow> (case stale of Some q \<Rightarrow> (Inr (q, [quote_fallback_warning s m]), c\<lparr>mc_sent := n\<rparr>)
          | None \<Rightarrow> (Inl (Lookup m), c\<lparr>mc_sent := n\<rparr>))
      | Inl e \<Rightarrow> (Inl e, c\<lparr>mc_sent := n\<rparr>))) = n" for stale
    by (simp split: sum.split market_error.split option.split)
  show ?thesis
    by (cases "cache_get now (mc_quotes c) s"; cases prefer_stale; cases "cache_get_stale now (mc_quotes c) s")
      (simp_all add: fetch_quote_def assms f Let_def sent)
qed

lemma fetch_fx_rate_sends:
  fixes from_currency to_currency defines "f \<equiv> py_upper (py_strip from_currency)" and "t \<equiv> py_upper (py_strip to_currency)"
  shows "mc_sent (snd (fetch_fx_rate net now from_currency to_currency prefer_stale schedule c))
    \<in> {mc_sent c, snd (fetch_fx_rate_from_providers net f t (mc_sent c))}"
proof -
  obtain answer n where p: "fetch_fx_rate_from_providers net f t (mc_sent c) = (answer, n)" by (rule prod.exhaust)
  have sent: "mc_sent (snd (case answer of Inr r \<Rightarrow> (Inr (r, []), put_rate now (fx_key f t) r (c\<lparr>mc_sent := n\<rparr>))
      | Inl (Lookup m) \<Rightarrow> (case stale of Some r \<Rightarrow> (Inr (r, [fx_fallback_warning f t m]), c\<lparr>mc_sent := n\<rparr>)
          | None \<Rightarrow> (Inl (Lookup m), c\<lparr>mc_sent := n\<rparr>))
      | Inl e \<Rightarrow> (Inl e, c\<lparr>mc_sent := n\<rparr>))) = n" for stale
    by (simp split: sum.split market_error.split option.split)
  show ?thesis
    by (cases "f = t"; cases "cache_get now (mc_rates c) (fx_key f t)"; cases prefer_stale;
        cases "cache_get_stale now (mc_rates c) (fx_key f t)")
      (simp_all add: fetch_fx_rate_def f_def [symmetric] t_def [symmetric] p Let_def sent)
qed

text \<open>
  A lookup sends few requests, whatever the providers answer: at most five for a quote of Hong Kong or
  mainland China (two providers tried twice and one once), one for any other quote, four for a rate.
\<close>

theorem requests_are_bounded:
  "mc_sent (snd (fetch_quote net now symbol market prefer_stale schedule c))
     \<le> mc_sent c + (case quote_target symbol market of Inl e \<Rightarrow> 0 | Inr (s, r) \<Rightarrow> if r \<in> {lit ''HK'', lit ''CN''} then 5 else 1)"
  "mc_sent (snd (fetch_fx_rate net now from_currency to_currency prefer_stale schedule c)) \<le> mc_sent c + 4"
proof -
  show "mc_sent (snd (fetch_quote net now symbol market prefer_stale schedule c))
     \<le> mc_sent c + (case quote_target symbol market of Inl e \<Rightarrow> 0 | Inr (s, r) \<Rightarrow> if r \<in> {lit ''HK'', lit ''CN''} then 5 else 1)"
  proof (cases "quote_target symbol market")
    case (Inr p)
    obtain s r where t: "quote_target symbol market = Inr (s, r)" using Inr by (cases p) simp
    have "snd (fetch_quote_from_providers net s r (mc_sent c)) \<le> mc_sent c + (if r \<in> {lit ''HK'', lit ''CN''} then 5 else 1)"
      unfolding fetch_quote_from_providers_def
      by (rule order_trans [OF try_providers_sends]) (simp add: resolve_quote_provider_chain_def)
    with fetch_quote_sends [OF t, of net now prefer_stale schedule c] t show ?thesis by (auto split: if_splits)
  qed (simp add: fetch_quote_def)
  have "snd (fetch_fx_rate_from_providers net f t (mc_sent c)) \<le> mc_sent c + 4" for f t
    unfolding fetch_fx_rate_from_providers_def
    by (rule order_trans [OF try_providers_sends]) (simp add: RATE_PROVIDERS_def)
  with fetch_fx_rate_sends [of net now from_currency to_currency prefer_stale schedule c]
  show "mc_sent (snd (fetch_fx_rate net now from_currency to_currency prefer_stale schedule c)) \<le> mc_sent c + 4"
    by auto
qed

section \<open>Price series\<close>

fun chained :: "datetime \<Rightarrow> (datetime \<times> datetime) list \<Rightarrow> datetime \<Rightarrow> bool" where
  \<comment> \<open>windows of at most 729 days, each starting where the one before ends\<close>
  "chained a [] b \<longleftrightarrow> a = b"
| "chained a ((s, e) # segments) b \<longleftrightarrow> s = a \<and> s < e \<and> e \<le> s + HOURLY_WINDOW \<and> chained e segments b"

lemma hourly_segments_chained: "a \<le> b \<Longrightarrow> chained a (hourly_segments a b) b"
proof (induction a b rule: hourly_segments.induct)
  case (1 a b)
  show ?case
  proof (cases "a < b")
    case True
    with "1.IH" [OF True refl] show ?thesis
      by (subst hourly_segments.simps) (auto simp: Let_def HOURLY_WINDOW_def US_DAY_def min_def)
  qed (use "1.prems" in \<open>simp add: hourly_segments.simps\<close>)
qed

lemma chained_within: "chained a segments b \<Longrightarrow> (s, e) \<in> set segments \<Longrightarrow> a \<le> s \<and> e \<le> b"
proof (induction segments arbitrary: a)
  case (Cons p segments)
  obtain x y where p: "p = (x, y)" by (cases p)
  have "y \<le> b" if "chained y segments b" for y
    using that
  proof (induction segments arbitrary: y)
    case (Cons p segments)
    then show ?case by (cases p) fastforce
  qed simp
  with Cons p show ?case by fastforce
qed simp

definition hour_point :: "datetime \<Rightarrow> datetime \<Rightarrow> datetime \<times> fixed \<Rightarrow> bool" where
  "hour_point a b = (\<lambda>(h, p). h mod US_HOUR = 0 \<and> 0 < p \<and> current_hour_bucket a \<le> h \<and> h \<le> b)"

lemma hour_bucket_mono: "a \<le> b \<Longrightarrow> current_hour_bucket a \<le> current_hour_bucket b"
proof -
  assume "a \<le> b"
  then have "a div US_HOUR * US_HOUR \<le> b div US_HOUR * US_HOUR"
    by (intro mult_right_mono zdiv_mono1) (simp_all add: US_HOUR_def)
  then show ?thesis by (simp add: current_hour_bucket_def minus_mod_eq_div_mult)
qed

lemma hour_bucket_floor: "current_hour_bucket a mod US_HOUR = 0 \<and> current_hour_bucket a \<le> a"
  by (simp add: current_hour_bucket_def US_HOUR_def mod_diff_right_eq minus_mod_eq_mult_div)

lemma hour_point_mono: "hour_point s e x \<Longrightarrow> a \<le> s \<Longrightarrow> e \<le> b \<Longrightarrow> hour_point a b x"
  using hour_bucket_mono [of a s] by (auto simp: hour_point_def)

lemma chart_point_hour: "chart_point s e t v = Some x \<Longrightarrow> hour_point s e x"
  using hour_bucket_mono [of s "the t * US_SECOND"] hour_bucket_floor [of "the t * US_SECOND"]
  by (auto simp: chart_point_def hour_point_def Let_def split: option.splits if_splits sum.splits)

lemma chart_points_hours: "x \<in> set (chart_points s e p) \<Longrightarrow> hour_point s e x"
  by (auto simp: chart_points_def List.map_filter_def dest: chart_point_hour)

lemma gathered_points:
  assumes "gather_segments net sy segments acc u ws = (points, u', ws')"
    and "\<forall>(s, e) \<in> set segments. a \<le> s \<and> e \<le> b" "\<forall>x \<in> set acc. hour_point a b x"
  shows "\<forall>x \<in> set points. hour_point a b x"
  using assms
proof (induction net sy segments acc u ws rule: gather_segments.induct)
  case (2 net sy s e segments acc u ws)
  from "2.prems" have se: "a \<le> s" "e \<le> b" by auto
  show ?case
  proof (cases "fetch_chart_points net sy s e")
    case (Inl m)
    show ?thesis using "2.prems" Inl by (intro "2.IH"(1) [OF Inl]) simp_all
  next
    case (Inr r)
    obtain new found where r: "r = (new, found)" by (cases r)
    with Inr have "\<exists>p. new = chart_points s e p"
      by (auto simp: fetch_chart_points_def split: sum.splits option.splits)
    then have "\<forall>x \<in> set new. hour_point a b x" using se by (auto dest!: chart_points_hours elim: hour_point_mono)
    with "2.prems" Inr r show ?thesis by (intro "2.IH"(2) [OF Inr r [symmetric]]) (simp_all add: ball_Un)
  qed
qed simp

lemma fold_update_points:
  "distinct (map fst al) \<Longrightarrow> distinct (map fst (fold (\<lambda>(k, v). AList.update k v) ps al))
    \<and> set (fold (\<lambda>(k, v). AList.update k v) ps al) \<subseteq> set ps \<union> set al"
proof (induction ps arbitrary: al)
  case (Cons p ps)
  obtain k v where p: "p = (k, v)" by (cases p)
  have "set (AList.update k v al) \<subseteq> insert (k, v) (set al)" by (induction al) auto
  with Cons.IH [of "AList.update k v al"] Cons.prems p show ?case by (auto simp: distinct_update)
qed simp

text \<open>
  A price series lists full hours in order, each once, from the hour of the start to the end, each with a
  positive price, however the provider's charts look. The windows it asks for are at most 729 days long
  and cover the whole period without gap or overlap.
\<close>

theorem price_series_is_hourly:
  assumes "fetch_hourly_price_series net symbol market a b = Inr (points, currency, warnings)"
  shows "sorted_wrt (<) (map fst points)
    \<and> (\<forall>(h, p) \<in> set points. h mod US_HOUR = 0 \<and> 0 < p \<and> current_hour_bucket a \<le> h \<and> h \<le> b)
    \<and> chained a (hourly_segments a b) (max a b)"
proof (cases "b \<le> a")
  case True
  with assms have "points = []" by (auto simp: fetch_hourly_price_series_def Let_def bindE_eq_Inr)
  with True show ?thesis by (simp add: hourly_segments.simps max_def)
next
  case False
  then have ch: "chained a (hourly_segments a b) (max a b)" by (simp add: hourly_segments_chained max_def)
  obtain s where s: "(let (all_points, currency, warnings) = gather_segments net s (hourly_segments a b) [] None []
      in Inr (sort_key fst (fold (\<lambda>(bucket, price). AList.update bucket price) all_points []), currency, warnings))
      = (Inr (points, currency, warnings) :: error + (datetime \<times> fixed) list \<times> pystr option \<times> pystr list)"
    using assms False by (auto simp: fetch_hourly_price_series_def Let_def bindE_eq_Inr)
  obtain all_points u ws where g': "gather_segments net s (hourly_segments a b) [] None [] = (all_points, u, ws)"
    by (rule prod_cases3)
  with s have g: "gather_segments net s (hourly_segments a b) [] None [] = (all_points, currency, warnings)"
    and points: "points = sort_key fst (fold (\<lambda>(k, v). AList.update k v) all_points [])" by simp_all
  have "\<forall>x \<in> set all_points. hour_point a b x"
    using gathered_points [OF g, of a b] chained_within [OF ch] False by (auto simp: max_def)
  with fold_update_points [of "[]" all_points] have "\<forall>x \<in> set points. hour_point a b x" by (auto simp: points)
  moreover have "distinct (map fst points)"
    using fold_update_points [of "[]" all_points] by (simp add: points distinct_map)
  then have "sorted_wrt (<) (map fst points)" by (simp add: points strict_sorted_iff)
  ultimately show ?thesis using ch by (auto simp: hour_point_def)
qed

section \<open>Bitcoin\<close>

definition one_bar :: providers where
  "one_bar = \<lparr>ask_quote = (\<lambda>p s n. Inl (Lookup (lit ''down''))), ask_rate = (\<lambda>p f t n. Inl (Lookup (lit ''down''))),
     ask_chart = (\<lambda>s a b. Inr (Some \<lparr>ch_timestamps = [Some 4000, None], ch_closes = [Some (Dec 125 (-1))],
       ch_currency = Some (lit ''usd'')\<rparr>)),
     ask_china_search = (\<lambda>q n. Inr []), ask_global_search = (\<lambda>q n. Inr [])\<rparr>"

definition btc :: quote where
  "btc = \<lparr>qt_symbol = lit ''BTC-USD'', qt_name = lit ''Bitcoin'', qt_price = Dec 60000 0, qt_currency = lit ''USD'',
     qt_market_time = None\<rparr>"

definition new_client :: market_client where
  "new_client = \<lparr>mc_sent = 0, mc_quotes = [], mc_rates = [], mc_searches = [], mc_quote_refreshes = [], mc_rate_refreshes = []\<rparr>"

lemma btc_symbol: "normalize_symbol_for_market (lit ''btc'') (Some (lit ''CRYPTO'')) = Inr (lit ''BTC-USD'')"
  by (simp add: normalize_symbol_for_market_def is_crypto_base_def is_AZ09_def is_AZ_def eval_text upper_char_def Let_def)

lemma btc_target: "quote_target (lit ''btc'') (Some (lit ''CRYPTO'')) = Inr (lit ''BTC-USD'', lit ''CRYPTO'')"
proof -
  have m: "py_upper (py_strip (lit ''CRYPTO'')) = lit ''CRYPTO''" "lit ''CRYPTO'' \<noteq> []"
    by (simp_all add: eval_text upper_char_def)
  then show ?thesis by (simp add: quote_target_def btc_symbol)
qed

text \<open>The price is fetched, two seconds later fetched again at another price, and then the providers fail.\<close>

theorem quote_survives_outage_witness:
  "\<exists>warnings c1 c2 c3.
      fetch_quote (one_bar\<lparr>ask_quote := \<lambda>p s n. Inr btc\<rparr>) 0 (lit ''btc'') (Some (lit ''CRYPTO'')) False True new_client = (Inr (btc, []), c1)
    \<and> cache_get_stale (2 * US_SECOND) (mc_quotes c1) (lit ''BTC-USD'') = Some btc
    \<and> fetch_quote (one_bar\<lparr>ask_quote := \<lambda>p s n. Inr (btc\<lparr>qt_price := Dec 61000 0\<rparr>)\<rparr>) (2 * US_SECOND) (lit ''btc'') (Some (lit ''CRYPTO''))
        False True c1 = (Inr (btc\<lparr>qt_price := Dec 61000 0\<rparr>, []), c2)
    \<and> fetch_quote one_bar (5 * US_HOUR) (lit ''btc'') (Some (lit ''CRYPTO'')) False True c2 = (Inr (btc\<lparr>qt_price := Dec 61000 0\<rparr>, warnings), c3)"
proof -
  let ?q = "btc\<lparr>qt_price := Dec 61000 0\<rparr>"
  have answer: "fetch_quote_from_providers (one_bar\<lparr>ask_quote := \<lambda>p s n. Inr q\<rparr>) s r n = (Inr q, Suc n)" for q s r n
    by (simp add: fetch_quote_from_providers_def resolve_quote_provider_chain_def with_retry.simps)
  define c1 where "c1 = put_quote 0 (lit ''BTC-USD'') btc (new_client\<lparr>mc_sent := 1\<rparr>)"
  define c2 where "c2 = put_quote (2 * US_SECOND) (lit ''BTC-USD'') ?q (c1\<lparr>mc_sent := 2\<rparr>)"
  have sent: "mc_sent new_client = 0" "mc_sent c1 = 1" "mc_sent c2 = 2" by (simp_all add: c1_def c2_def put_quote_def new_client_def)
  have empty: "cache_get 0 (mc_quotes new_client) s = None" for s
    by (simp add: new_client_def cache_get_def redis_get_def)
  have f1: "fetch_quote (one_bar\<lparr>ask_quote := \<lambda>p s n. Inr btc\<rparr>) 0 (lit ''btc'') (Some (lit ''CRYPTO'')) False True new_client = (Inr (btc, []), c1)"
    by (simp add: fetch_quote_def btc_target empty answer sent c1_def Let_def)
  have stale: "cache_get (2 * US_SECOND) (mc_quotes c1) (lit ''BTC-USD'') = None"
    "cache_get_stale (2 * US_SECOND) (mc_quotes c1) (lit ''BTC-USD'') = Some btc"
    by (simp_all add: c1_def put_quote_def new_client_def cache_set_def cache_get_def cache_get_stale_def redis_get_def
        redis_set_def redis_ttl_def lives_def QUOTE_TTL_def US_SECOND_def US_HOUR_def STALE_TTL_def Let_def)
  have f2: "fetch_quote (one_bar\<lparr>ask_quote := \<lambda>p s n. Inr ?q\<rparr>) (2 * US_SECOND) (lit ''btc'') (Some (lit ''CRYPTO'')) False True c1
      = (Inr (?q, []), c2)"
    by (simp add: fetch_quote_def btc_target stale(1) answer sent c2_def Let_def numeral_2_eq_2)
  have "\<exists>warnings c3. fetch_quote one_bar (5 * US_HOUR) (lit ''btc'') (Some (lit ''CRYPTO'')) False True c2 = (Inr (?q, warnings), c3)
      \<and> (5 * US_HOUR < 2 * US_SECOND + QUOTE_TTL \<longrightarrow> warnings = [] \<and> c3 = c2)"
    by (rule quote_survives_outage [OF btc_target f2])
      (simp_all add: sent US_HOUR_def US_SECOND_def sources_down_def one_bar_def)
  with f1 stale(2) f2 show ?thesis by blast
qed

lemma one_bar_series:
  "fetch_hourly_price_series one_bar (lit ''btc'') (Some (lit ''CRYPTO'')) 0 (2 * US_HOUR)
    = Inr ([(US_HOUR, 1250000000)], Some (lit ''USD''), [])"
proof -
  have m: "py_upper (py_strip (lit ''CRYPTO'')) = lit ''CRYPTO''" "lit ''CRYPTO'' \<noteq> []"
    by (simp_all add: eval_text upper_char_def)
  have segments: "hourly_segments 0 (2 * US_HOUR) = [(0, 2 * US_HOUR)]"
    by (subst hourly_segments.simps, subst hourly_segments.simps) (simp add: US_HOUR_def HOURLY_WINDOW_def US_DAY_def Let_def)
  have price: "quantize_decimal (Dec 125 (-1)) = Inr 1250000000"
    by (simp add: eval_decimals Let_def cong: eval_cong)
  have usd: "py_upper (lit ''usd'') = lit ''USD''" "lit ''usd'' \<noteq> []" by (simp_all add: eval_text upper_char_def)
  have "chart_points 0 (2 * US_HOUR) \<lparr>ch_timestamps = [Some 4000, None], ch_closes = [Some (Dec 125 (-1))],
       ch_currency = Some (lit ''usd'')\<rparr> = [(US_HOUR, 1250000000)]"
    by (simp add: chart_points_def chart_point_def List.map_filter_def price US_HOUR_def US_SECOND_def current_hour_bucket_def)
  then have "fetch_chart_points one_bar s 0 (2 * US_HOUR) = Inr ([(US_HOUR, 1250000000)], Some (lit ''USD''))" for s
    by (simp add: fetch_chart_points_def one_bar_def usd)
  then show ?thesis using m btc_symbol segments
    by (simp add: fetch_hourly_price_series_def Let_def US_HOUR_def sort_key_def)
qed

theorem price_series_is_hourly_witness:
  "\<exists>points currency. fetch_hourly_price_series one_bar (lit ''btc'') (Some (lit ''CRYPTO'')) 0 (2 * US_HOUR) = Inr (points, currency, [])
    \<and> sorted_wrt (<) (map fst points) \<and> length points = 1"
  using price_series_is_hourly [OF one_bar_series] one_bar_series by simp

end
