(* ===== verification/Codecs.thy ===== *)
theory Codecs
  imports Common_Service
begin

text \<open>
  Model of the codecs between values and JSON: \<^verbatim>\<open>backend/app/typed_json.py\<close>, the codec of
  \<^verbatim>\<open>runtime_state.py\<close> and that of \<^verbatim>\<open>services/cache.py\<close>. JSON is the tree that \<open>json.dumps\<close> writes and
  \<open>json.loads\<close> reads; the text of an instant or a decimal and the validation of a dashboard, which is kept
  as its JSON dump, are parameters.
\<close>

section \<open>JSON\<close>

text \<open>A number that is no integer stands for the decimal of its text.\<close>

datatype json = JNull | JBool bool | JInt int | JReal dec | JStr pystr | JList "json list" | JObj "(pystr \<times> json) list"

datatype codec_error = KeyError | TypeError | CodecValueError | ArithmeticError

type_synonym json_object = "(pystr \<times> json) list"

lemma bindE_cong [fundef_cong]:
  "m = m' \<Longrightarrow> (\<And>x. m' = Inr x \<Longrightarrow> f x = f' x) \<Longrightarrow> bindE m f = bindE m' f'"
  by (cases m') simp_all

definition JSON_TYPE_KEY :: pystr where "JSON_TYPE_KEY = lit ''__type__''"

definition typed_object :: "pystr \<Rightarrow> json_object \<Rightarrow> json" where
  "typed_object type_name kvs = JObj ((JSON_TYPE_KEY, JStr type_name) # kvs)"

definition get_type_name :: "json_object \<Rightarrow> codec_error + pystr option" where
  "get_type_name kvs = (case map_of kvs JSON_TYPE_KEY of
       None \<Rightarrow> Inr None | Some JNull \<Rightarrow> Inr None | Some (JStr s) \<Rightarrow> Inr (Some s) | _ \<Rightarrow> Inl CodecValueError)"

definition json_field :: "json_object \<Rightarrow> pystr \<Rightarrow> codec_error + json" where
  "json_field kvs k = (case map_of kvs k of None \<Rightarrow> Inl KeyError | Some j \<Rightarrow> Inr j)"

fun expect_json_value :: "json \<Rightarrow> codec_error + json" where
  "expect_json_value (JList js) = bindE (mapE expect_json_value js) (\<lambda>js. Inr (JList js))"
| "expect_json_value (JObj kvs) =
     bindE (mapE (\<lambda>(k, j). bindE (expect_json_value j) (\<lambda>j. Inr (k, j))) kvs) (\<lambda>kvs. Inr (JObj kvs))"
| "expect_json_value (JReal d) = Inl CodecValueError"
| "expect_json_value j = Inr j"

definition expect_json_object :: "json \<Rightarrow> codec_error + json_object" where
  "expect_json_object j = bindE (expect_json_value j) (\<lambda>j. case j of JObj kvs \<Rightarrow> Inr kvs | _ \<Rightarrow> Inl CodecValueError)"

definition expect_json_list :: "json \<Rightarrow> codec_error + json list" where
  "expect_json_list j = bindE (expect_json_value j) (\<lambda>j. case j of JList js \<Rightarrow> Inr js | _ \<Rightarrow> Inl CodecValueError)"

definition expect_string :: "json \<Rightarrow> codec_error + pystr" where
  "expect_string j = (case j of JStr s \<Rightarrow> Inr s | _ \<Rightarrow> Inl CodecValueError)"

definition expect_bool :: "json \<Rightarrow> codec_error + bool" where
  "expect_bool j = (case j of JBool b \<Rightarrow> Inr b | _ \<Rightarrow> Inl CodecValueError)"

definition expect_int :: "json \<Rightarrow> codec_error + int" where
  "expect_int j = (case j of JInt n \<Rightarrow> Inr n | _ \<Rightarrow> Inl CodecValueError)"

definition dumps_versioned_payload :: "int \<Rightarrow> json_object \<Rightarrow> json" where
  "dumps_versioned_payload version payload = JObj ((lit ''version'', JInt version) # payload)"

definition loads_versioned_payload :: "json option \<Rightarrow> int \<Rightarrow> json_object option" where
  "loads_versioned_payload raw version = (case raw of None \<Rightarrow> None
     | Some j \<Rightarrow> (case expect_json_object j of
           Inl e \<Rightarrow> None
         | Inr payload \<Rightarrow> if map_of payload (lit ''version'') = Some (JInt version) then Some payload else None))"

section \<open>Values\<close>

datatype pyval =
    VNone | VBool bool | VInt int | VStr pystr | VFloat
  | VList "pyval list" | VTuple "pyval list" | VDict "(pystr \<times> pyval) list"
  | VDatetime datetime | VDecimal dec
  | VDashboard json_object
  | VDashboardEntry json_object datetime
  | VLivePortfolio datetime dec datetime bool
  | VLivePoint pystr pystr dec
  | VLiveReturns datetime datetime "dec option" "(pystr \<times> pystr \<times> dec) list" bool
  | VLoginAttempts "datetime list" int datetime
  | VQuote quote
  | VSearchResult pystr pystr pystr pystr "pystr option" "pystr option"

record text_format =
  tf_of_datetime :: "datetime \<Rightarrow> pystr"  \<comment> \<open>\<open>isoformat\<close>\<close>
  tf_to_datetime :: "pystr \<Rightarrow> codec_error + datetime"
  tf_of_decimal :: "dec \<Rightarrow> pystr"  \<comment> \<open>\<open>str\<close>\<close>
  tf_to_decimal :: "pystr \<Rightarrow> codec_error + dec"
  tf_str :: "json \<Rightarrow> pystr"  \<comment> \<open>\<open>str\<close> of a value that is no string\<close>
  tf_validate :: "json_object \<Rightarrow> codec_error + json_object"  \<comment> \<open>\<open>DashboardResponse.model_validate\<close>, dumped again\<close>

definition utc_marks :: "pystr \<Rightarrow> pystr" where
  \<comment> \<open>\<open>replace("Z", "+00:00")\<close>\<close>
  "utc_marks s = concat (map (\<lambda>c. if c = 90 then lit ''+00:00'' else [c]) s)"

definition datetime_to_json :: "text_format \<Rightarrow> datetime \<Rightarrow> json" where
  "datetime_to_json F t = typed_object (lit ''datetime'') [(lit ''value'', JStr (tf_of_datetime F t))]"

definition decimal_to_json :: "text_format \<Rightarrow> dec \<Rightarrow> json" where
  "decimal_to_json F d = typed_object (lit ''decimal'') [(lit ''value'', JStr (tf_of_decimal F d))]"

definition datetime_of_json :: "text_format \<Rightarrow> json_object \<Rightarrow> codec_error + pyval" where
  "datetime_of_json F kvs = bindE (bindE (json_field kvs (lit ''value'')) expect_string) (\<lambda>s.
     bindE (tf_to_datetime F (utc_marks s)) (\<lambda>t. Inr (VDatetime t)))"

definition decimal_of_json :: "text_format \<Rightarrow> json_object \<Rightarrow> codec_error + pyval" where
  "decimal_of_json F kvs = bindE (bindE (json_field kvs (lit ''value'')) expect_string) (\<lambda>s.
     bindE (tf_to_decimal F s) (\<lambda>d. Inr (VDecimal d)))"

definition the_datetime :: "pyval \<Rightarrow> codec_error + datetime" where
  "the_datetime v = (case v of VDatetime t \<Rightarrow> Inr t | _ \<Rightarrow> Inl CodecValueError)"

definition the_decimal :: "pyval \<Rightarrow> codec_error + dec" where
  "the_decimal v = (case v of VDecimal d \<Rightarrow> Inr d | _ \<Rightarrow> Inl CodecValueError)"

definition the_decimal_or_none :: "pyval \<Rightarrow> codec_error + dec option" where
  "the_decimal_or_none v = (case v of VNone \<Rightarrow> Inr None | VDecimal d \<Rightarrow> Inr (Some d) | _ \<Rightarrow> Inl CodecValueError)"

definition the_datetime_or_none :: "pyval \<Rightarrow> codec_error + datetime option" where
  "the_datetime_or_none v = (case v of VNone \<Rightarrow> Inr None | VDatetime t \<Rightarrow> Inr (Some t) | _ \<Rightarrow> Inl CodecValueError)"

definition the_dashboard :: "pyval \<Rightarrow> codec_error + json_object" where
  "the_dashboard v = (case v of VDashboard d \<Rightarrow> Inr d | _ \<Rightarrow> Inl CodecValueError)"

definition the_point :: "pyval \<Rightarrow> codec_error + pystr \<times> pystr \<times> dec" where
  "the_point v = (case v of VLivePoint s n p \<Rightarrow> Inr (s, n, p) | _ \<Rightarrow> Inl CodecValueError)"

section \<open>The codec of the runtime state\<close>

definition RUNTIME_SERIALIZER_VERSION :: int where "RUNTIME_SERIALIZER_VERSION = 2"

definition dashboard_to_json :: "json_object \<Rightarrow> codec_error + json" where
  \<comment> \<open>a number that is no integer is not encoded\<close>
  "dashboard_to_json d = (case expect_json_value (JObj d) of Inl e \<Rightarrow> Inl TypeError
     | Inr j \<Rightarrow> Inr (typed_object (lit ''DashboardResponse'') [(lit ''value'', j)]))"

definition point_to_json :: "text_format \<Rightarrow> pystr \<times> pystr \<times> dec \<Rightarrow> json" where
  "point_to_json F = (\<lambda>(symbol, name, return_pct). typed_object (lit ''LiveHoldingReturnPoint'')
     [(lit ''symbol'', JStr symbol), (lit ''name'', JStr name), (lit ''return_pct'', decimal_to_json F return_pct)])"

fun runtime_to_json :: "text_format \<Rightarrow> pyval \<Rightarrow> codec_error + json" where
  "runtime_to_json F (VDatetime t) = Inr (datetime_to_json F t)"
| "runtime_to_json F (VDecimal d) = Inr (decimal_to_json F d)"
| "runtime_to_json F (VTuple vs) =
     bindE (mapE (runtime_to_json F) vs) (\<lambda>js. Inr (typed_object (lit ''tuple'') [(lit ''items'', JList js)]))"
| "runtime_to_json F (VDashboard d) = dashboard_to_json d"
| "runtime_to_json F (VDashboardEntry d t) =
     bindE (dashboard_to_json d) (\<lambda>j. Inr (typed_object (lit ''DashboardCacheEntry'')
       [(lit ''dashboard'', j), (lit ''generated_at'', datetime_to_json F t)]))"
| "runtime_to_json F (VLivePortfolio hour_bucket latest_value_cny latest_generated_at has_assets) =
     Inr (typed_object (lit ''LivePortfolioState'')
       [(lit ''hour_bucket'', datetime_to_json F hour_bucket), (lit ''latest_value_cny'', decimal_to_json F latest_value_cny),
        (lit ''latest_generated_at'', datetime_to_json F latest_generated_at), (lit ''has_assets_in_bucket'', JBool has_assets)])"
| "runtime_to_json F (VLivePoint symbol name return_pct) = Inr (point_to_json F (symbol, name, return_pct))"
| "runtime_to_json F (VLiveReturns hour_bucket latest_generated_at aggregate points has_tracked) =
     Inr (typed_object (lit ''LiveHoldingsReturnState'')
       [(lit ''hour_bucket'', datetime_to_json F hour_bucket), (lit ''latest_generated_at'', datetime_to_json F latest_generated_at),
        (lit ''aggregate_return_pct'', case aggregate of None \<Rightarrow> JNull | Some d \<Rightarrow> decimal_to_json F d),
        (lit ''holding_points'', JList (map (point_to_json F) points)),
        (lit ''has_tracked_holdings_in_bucket'', JBool has_tracked)])"
| "runtime_to_json F (VLoginAttempts timestamps failed last_at) =
     Inr (typed_object (lit ''LoginAttemptState'')
       [(lit ''attempt_timestamps'', JList (map (datetime_to_json F) timestamps)),
        (lit ''consecutive_failed_attempts'', JInt failed), (lit ''last_attempt_at'', datetime_to_json F last_at)])"
| "runtime_to_json F (VList vs) = bindE (mapE (runtime_to_json F) vs) (\<lambda>js. Inr (JList js))"
| "runtime_to_json F (VDict kvs) =
     bindE (mapE (\<lambda>(k, v). bindE (runtime_to_json F v) (\<lambda>j. Inr (k, j))) kvs) (\<lambda>kvs. Inr (JObj kvs))"
| "runtime_to_json F VNone = Inr JNull"
| "runtime_to_json F (VBool b) = Inr (JBool b)"
| "runtime_to_json F (VInt n) = Inr (JInt n)"
| "runtime_to_json F (VStr s) = Inr (JStr s)"
| "runtime_to_json F v = Inl TypeError"

lemma member_size: "(k, j) \<in> set kvs \<Longrightarrow> size j < size (JObj kvs)"
  by (induction kvs) (auto simp: less_Suc_eq_le)

lemma json_field_size: "json_field kvs k = Inr j \<Longrightarrow> size j < size (JObj kvs)"
  by (rule member_size) (auto simp: json_field_def split: option.splits dest: map_of_SomeD)

lemma mapE_id:
  "mapE f xs = Inr ys \<Longrightarrow> (\<And>x y. x \<in> set xs \<Longrightarrow> f x = Inr y \<Longrightarrow> y = x) \<Longrightarrow> ys = xs"
  by (induction xs arbitrary: ys) (auto simp: bindE_eq_Inr)

lemma expect_json_value_id: "expect_json_value j = Inr j' \<Longrightarrow> j' = j"
proof (induction j arbitrary: j' rule: expect_json_value.induct)
  case (1 js)
  then obtain js' where "mapE expect_json_value js = Inr js'" "j' = JList js'" by (auto simp: bindE_eq_Inr)
  with "1.IH" show ?case by (auto dest: mapE_id)
next
  case (2 kvs)
  then obtain kvs' where "mapE (\<lambda>(k, j). bindE (expect_json_value j) (\<lambda>j. Inr (k, j))) kvs = Inr kvs'" "j' = JObj kvs'"
    by (auto simp: bindE_eq_Inr)
  moreover have "kvs' = kvs" using calculation(1)
    by (rule mapE_id) (use "2.IH" in \<open>fastforce simp: bindE_eq_Inr\<close>)
  ultimately show ?case by simp
qed auto

lemma expect_json_list_is:
  assumes "expect_json_list j = Inr js" shows "j = JList js"
proof -
  obtain x where "expect_json_value j = Inr x" "(case x of JList js \<Rightarrow> Inr js | _ \<Rightarrow> Inl CodecValueError) = Inr js"
    using assms unfolding expect_json_list_def bindE_eq_Inr by (elim exE conjE)
  then show ?thesis by (cases x) (auto dest!: expect_json_value_id)
qed

lemma expect_json_list_size: "expect_json_list j = Inr js \<Longrightarrow> x \<in> set js \<Longrightarrow> size x < size j"
  using size_list_estimation' [of x js "size x" size] by (auto dest!: expect_json_list_is simp: less_Suc_eq_le)

lemma field_list_size: "json_field kvs k = Inr j \<Longrightarrow> expect_json_list j = Inr js \<Longrightarrow> x \<in> set js \<Longrightarrow> size x < size (JObj kvs)"
  using expect_json_list_size json_field_size less_trans by blast

function runtime_from_json :: "text_format \<Rightarrow> json \<Rightarrow> codec_error + pyval" where
  "runtime_from_json F (JList js) = bindE (mapE (\<lambda>j. runtime_from_json F j) js) (\<lambda>vs. Inr (VList vs))"
| "runtime_from_json F (JObj kvs) = bindE (get_type_name kvs) (\<lambda>ty. case ty of
     None \<Rightarrow> bindE (mapE (\<lambda>(k, j). bindE (runtime_from_json F j) (\<lambda>v. Inr (k, v))) kvs) (\<lambda>kvs. Inr (VDict kvs))
   | Some value_type \<Rightarrow>
       if value_type = lit ''datetime'' then datetime_of_json F kvs
       else if value_type = lit ''decimal'' then decimal_of_json F kvs
       else if value_type = lit ''tuple'' then
         bindE (json_field kvs (lit ''items'')) (\<lambda>j. bindE (expect_json_list j) (\<lambda>js.
         bindE (mapE (\<lambda>j. runtime_from_json F j) js) (\<lambda>vs. Inr (VTuple vs))))
       else if value_type = lit ''DashboardResponse'' then
         bindE (bindE (json_field kvs (lit ''value'')) expect_json_object) (\<lambda>d.
         bindE (tf_validate F d) (\<lambda>d. Inr (VDashboard d)))
       else if value_type = lit ''DashboardCacheEntry'' then
         bindE (json_field kvs (lit ''dashboard'')) (\<lambda>j. bindE (bindE (runtime_from_json F j) the_dashboard) (\<lambda>dashboard.
         bindE (json_field kvs (lit ''generated_at'')) (\<lambda>j. bindE (bindE (runtime_from_json F j) the_datetime) (\<lambda>generated_at.
         Inr (VDashboardEntry dashboard generated_at)))))
       else if value_type = lit ''LivePortfolioState'' then
         bindE (json_field kvs (lit ''hour_bucket'')) (\<lambda>j. bindE (bindE (runtime_from_json F j) the_datetime) (\<lambda>hour_bucket.
         bindE (json_field kvs (lit ''latest_value_cny'')) (\<lambda>j. bindE (bindE (runtime_from_json F j) the_decimal) (\<lambda>latest_value_cny.
         bindE (json_field kvs (lit ''latest_generated_at'')) (\<lambda>j. bindE (bindE (runtime_from_json F j) the_datetime) (\<lambda>latest_generated_at.
         bindE (bindE (json_field kvs (lit ''has_assets_in_bucket'')) expect_bool) (\<lambda>has_assets.
         Inr (VLivePortfolio hour_bucket latest_value_cny latest_generated_at has_assets))))))))
       else if value_type = lit ''LiveHoldingReturnPoint'' then
         bindE (json_field kvs (lit ''return_pct'')) (\<lambda>j. bindE (bindE (runtime_from_json F j) the_decimal) (\<lambda>return_pct.
         bindE (bindE (json_field kvs (lit ''symbol'')) expect_string) (\<lambda>symbol.
         bindE (bindE (json_field kvs (lit ''name'')) expect_string) (\<lambda>name.
         Inr (VLivePoint symbol name return_pct)))))
       else if value_type = lit ''LiveHoldingsReturnState'' then
         bindE (json_field kvs (lit ''hour_bucket'')) (\<lambda>j. bindE (bindE (runtime_from_json F j) the_datetime) (\<lambda>hour_bucket.
         bindE (json_field kvs (lit ''latest_generated_at'')) (\<lambda>j. bindE (bindE (runtime_from_json F j) the_datetime) (\<lambda>latest_generated_at.
         bindE (json_field kvs (lit ''aggregate_return_pct'')) (\<lambda>j. bindE (bindE (runtime_from_json F j) the_decimal_or_none) (\<lambda>aggregate.
         bindE (json_field kvs (lit ''holding_points'')) (\<lambda>j. bindE (expect_json_list j) (\<lambda>js.
         bindE (mapE (\<lambda>j. bindE (runtime_from_json F j) the_point) js) (\<lambda>points.
         bindE (bindE (json_field kvs (lit ''has_tracked_holdings_in_bucket'')) expect_bool) (\<lambda>has_tracked.
         Inr (VLiveReturns hour_bucket latest_generated_at aggregate points has_tracked)))))))))))
       else if value_type = lit ''LoginAttemptState'' then
         bindE (json_field kvs (lit ''attempt_timestamps'')) (\<lambda>j. bindE (expect_json_list j) (\<lambda>js.
         bindE (mapE (\<lambda>j. bindE (runtime_from_json F j) the_datetime) js) (\<lambda>timestamps.
         bindE (json_field kvs (lit ''last_attempt_at'')) (\<lambda>j. bindE (bindE (runtime_from_json F j) the_datetime) (\<lambda>last_attempt_at.
         bindE (bindE (json_field kvs (lit ''consecutive_failed_attempts'')) expect_int) (\<lambda>failed.
         Inr (VLoginAttempts timestamps failed last_attempt_at)))))))
       else Inl CodecValueError)"
| "runtime_from_json F JNull = Inr VNone"
| "runtime_from_json F (JBool b) = Inr (VBool b)"
| "runtime_from_json F (JInt n) = Inr (VInt n)"
| "runtime_from_json F (JStr s) = Inr (VStr s)"
| "runtime_from_json F (JReal d) = Inr VFloat"
  by pat_completeness auto
termination
  by (relation "measure (\<lambda>(F, j). size j)")
    (auto simp: less_Suc_eq_le size_list_estimation' dest: member_size json_field_size field_list_size)

declare runtime_from_json.simps(2) [simp del]

definition runtime_dumps :: "text_format \<Rightarrow> pyval \<Rightarrow> codec_error + json" where
  "runtime_dumps F v = bindE (runtime_to_json F v) (\<lambda>j.
     Inr (dumps_versioned_payload RUNTIME_SERIALIZER_VERSION [(lit ''value'', j)]))"

definition runtime_loads :: "text_format \<Rightarrow> json option \<Rightarrow> codec_error + pyval option" where
  \<comment> \<open>\<open>KeyError\<close>, \<open>TypeError\<close> and \<open>ValueError\<close> are caught\<close>
  "runtime_loads F raw = (case loads_versioned_payload raw RUNTIME_SERIALIZER_VERSION of
       None \<Rightarrow> Inr None
     | Some payload \<Rightarrow> (case bindE (json_field payload (lit ''value'')) (runtime_from_json F) of
           Inr v \<Rightarrow> Inr (Some v)
         | Inl ArithmeticError \<Rightarrow> Inl ArithmeticError
         | Inl e \<Rightarrow> Inr None))"

section \<open>The codec of the caches\<close>

definition CACHE_SERIALIZER_VERSION :: int where "CACHE_SERIALIZER_VERSION = 2"

definition optional_json :: "pystr option \<Rightarrow> json" where
  "optional_json v = (case v of None \<Rightarrow> JNull | Some s \<Rightarrow> JStr s)"

fun cache_to_json :: "text_format \<Rightarrow> pyval \<Rightarrow> codec_error + json" where
  "cache_to_json F (VDatetime t) = Inr (datetime_to_json F t)"
| "cache_to_json F (VDecimal d) = Inr (decimal_to_json F d)"
| "cache_to_json F (VQuote q) = Inr (typed_object (lit ''Quote'')
     [(lit ''symbol'', JStr (qt_symbol q)), (lit ''name'', JStr (qt_name q)), (lit ''price'', decimal_to_json F (qt_price q)),
      (lit ''currency'', JStr (qt_currency q)),
      (lit ''market_time'', case qt_market_time q of None \<Rightarrow> JNull | Some t \<Rightarrow> datetime_to_json F t)])"
| "cache_to_json F (VSearchResult symbol name market currency exchange source) = Inr (typed_object (lit ''SecuritySearchResult'')
     [(lit ''symbol'', JStr symbol), (lit ''name'', JStr name), (lit ''market'', JStr market), (lit ''currency'', JStr currency),
      (lit ''exchange'', optional_json exchange), (lit ''source'', optional_json source)])"
| "cache_to_json F (VTuple vs) =
     bindE (mapE (cache_to_json F) vs) (\<lambda>js. Inr (typed_object (lit ''tuple'') [(lit ''items'', JList js)]))"
| "cache_to_json F (VList vs) = bindE (mapE (cache_to_json F) vs) (\<lambda>js. Inr (JList js))"
| "cache_to_json F (VDict kvs) =
     bindE (mapE (\<lambda>(k, v). bindE (cache_to_json F v) (\<lambda>j. Inr (k, j))) kvs) (\<lambda>kvs. Inr (JObj kvs))"
| "cache_to_json F VNone = Inr JNull"
| "cache_to_json F (VBool b) = Inr (JBool b)"
| "cache_to_json F (VInt n) = Inr (JInt n)"
| "cache_to_json F (VStr s) = Inr (JStr s)"
| "cache_to_json F v = Inl TypeError"

definition optional_str :: "text_format \<Rightarrow> json_object \<Rightarrow> pystr \<Rightarrow> pystr option" where
  "optional_str F kvs k = (case map_of kvs k of None \<Rightarrow> None | Some JNull \<Rightarrow> None | Some (JStr s) \<Rightarrow> Some s
     | Some j \<Rightarrow> Some (tf_str F j))"

function cache_from_json :: "text_format \<Rightarrow> json \<Rightarrow> codec_error + pyval" where
  "cache_from_json F (JList js) = bindE (mapE (\<lambda>j. cache_from_json F j) js) (\<lambda>vs. Inr (VList vs))"
| "cache_from_json F (JObj kvs) = bindE (get_type_name kvs) (\<lambda>ty. case ty of
     None \<Rightarrow> bindE (mapE (\<lambda>(k, j). bindE (cache_from_json F j) (\<lambda>v. Inr (k, v))) kvs) (\<lambda>kvs. Inr (VDict kvs))
   | Some value_type \<Rightarrow>
       if value_type = lit ''datetime'' then datetime_of_json F kvs
       else if value_type = lit ''decimal'' then decimal_of_json F kvs
       else if value_type = lit ''tuple'' then
         bindE (json_field kvs (lit ''items'')) (\<lambda>j. bindE (expect_json_list j) (\<lambda>js.
         bindE (mapE (\<lambda>j. cache_from_json F j) js) (\<lambda>vs. Inr (VTuple vs))))
       else if value_type = lit ''Quote'' then
         bindE (json_field kvs (lit ''price'')) (\<lambda>j. bindE (bindE (cache_from_json F j) the_decimal) (\<lambda>price.
         bindE (json_field kvs (lit ''market_time'')) (\<lambda>j. bindE (bindE (cache_from_json F j) the_datetime_or_none) (\<lambda>market_time.
         bindE (bindE (json_field kvs (lit ''symbol'')) expect_string) (\<lambda>symbol.
         bindE (bindE (json_field kvs (lit ''name'')) expect_string) (\<lambda>name.
         bindE (bindE (json_field kvs (lit ''currency'')) expect_string) (\<lambda>currency.
         Inr (VQuote \<lparr>qt_symbol = symbol, qt_name = name, qt_price = price, qt_currency = currency,
           qt_market_time = market_time\<rparr>))))))))
       else if value_type = lit ''SecuritySearchResult'' then
         bindE (bindE (json_field kvs (lit ''symbol'')) expect_string) (\<lambda>symbol.
         bindE (bindE (json_field kvs (lit ''name'')) expect_string) (\<lambda>name.
         bindE (bindE (json_field kvs (lit ''market'')) expect_string) (\<lambda>market.
         bindE (bindE (json_field kvs (lit ''currency'')) expect_string) (\<lambda>currency.
         Inr (VSearchResult symbol name market currency (optional_str F kvs (lit ''exchange'')) (optional_str F kvs (lit ''source'')))))))
       else Inl CodecValueError)"
| "cache_from_json F JNull = Inr VNone"
| "cache_from_json F (JBool b) = Inr (VBool b)"
| "cache_from_json F (JInt n) = Inr (VInt n)"
| "cache_from_json F (JStr s) = Inr (VStr s)"
| "cache_from_json F (JReal d) = Inr VFloat"
  by pat_completeness auto
termination
  by (relation "measure (\<lambda>(F, j). size j)")
    (auto simp: less_Suc_eq_le size_list_estimation' dest: member_size json_field_size field_list_size)

declare cache_from_json.simps(2) [simp del]

definition serialize_entry :: "text_format \<Rightarrow> pyval \<Rightarrow> dec \<Rightarrow> codec_error + json" where
  "serialize_entry F v expires_at = bindE (cache_to_json F v) (\<lambda>j.
     Inr (dumps_versioned_payload CACHE_SERIALIZER_VERSION
       [(lit ''expires_at'', decimal_to_json F expires_at), (lit ''value'', j)]))"

definition deserialize_entry :: "text_format \<Rightarrow> json option \<Rightarrow> codec_error + (pyval \<times> dec) option" where
  "deserialize_entry F raw = (case loads_versioned_payload raw CACHE_SERIALIZER_VERSION of
       None \<Rightarrow> Inr None
     | Some payload \<Rightarrow> (case bindE (bindE (json_field payload (lit ''expires_at'')) (cache_from_json F)) (\<lambda>e. case e of
             VDecimal expires_at \<Rightarrow> bindE (bindE (json_field payload (lit ''value'')) (cache_from_json F)) (\<lambda>v. Inr (Some (v, expires_at)))
           | _ \<Rightarrow> Inr None) of
           Inr entry \<Rightarrow> Inr entry
         | Inl ArithmeticError \<Rightarrow> Inl ArithmeticError
         | Inl e \<Rightarrow> Inr None))"

end
