(* ===== verification/Codec_Properties.thy ===== *)
theory Codec_Properties
  imports Codecs
begin

text \<open>
  Properties of the codecs: every value that is encoded is decoded again.
\<close>

definition formats_ok :: "text_format \<Rightarrow> bool" where
  "formats_ok F \<longleftrightarrow> (\<forall>t. tf_to_datetime F (utc_marks (tf_of_datetime F t)) = Inr t)
     \<and> (\<forall>d. tf_to_decimal F (tf_of_decimal F d) = Inr d)"

lemmas tagged = typed_object_def get_type_name_def json_field_def JSON_TYPE_KEY_def

lemma datetime_back:
  "formats_ok F \<Longrightarrow> runtime_from_json F (datetime_to_json F t) = Inr (VDatetime t)"
  "formats_ok F \<Longrightarrow> cache_from_json F (datetime_to_json F t) = Inr (VDatetime t)"
  by (simp_all add: datetime_to_json_def tagged runtime_from_json.simps(2) cache_from_json.simps(2) datetime_of_json_def
      expect_string_def formats_ok_def)

lemma decimal_back:
  "formats_ok F \<Longrightarrow> runtime_from_json F (decimal_to_json F d) = Inr (VDecimal d)"
  "formats_ok F \<Longrightarrow> cache_from_json F (decimal_to_json F d) = Inr (VDecimal d)"
  by (simp_all add: decimal_to_json_def tagged runtime_from_json.simps(2) cache_from_json.simps(2) decimal_of_json_def
      expect_string_def formats_ok_def)

section \<open>Encoded values are JSON\<close>

lemma mapE_same: "(\<And>x. x \<in> set xs \<Longrightarrow> f x = Inr x) \<Longrightarrow> mapE f xs = Inr xs"
  by (induction xs) auto

lemma datetime_json: "expect_json_value (datetime_to_json F t) = Inr (datetime_to_json F t)"
  "expect_json_value (decimal_to_json F d) = Inr (decimal_to_json F d)"
  by (simp_all add: datetime_to_json_def decimal_to_json_def typed_object_def)

lemma point_json: "expect_json_value (point_to_json F p) = Inr (point_to_json F p)"
  by (cases p) (simp add: point_to_json_def typed_object_def datetime_json)

lemma mapE_each: "mapE f xs = Inr ys \<Longrightarrow> y \<in> set ys \<Longrightarrow> \<exists>x \<in> set xs. f x = Inr y"
  by (induction xs arbitrary: ys) (auto simp: bindE_eq_Inr)

lemma mapped_json:
  "mapE expect_json_value (map (point_to_json F) points) = Inr (map (point_to_json F) points)"
  "mapE expect_json_value (map (datetime_to_json F) ts) = Inr (map (datetime_to_json F) ts)"
  by (rule mapE_same, auto simp: point_json datetime_json)+

lemma dashboard_json:
  assumes "dashboard_to_json d = Inr j"
  shows "expect_json_value (JObj d) = Inr (JObj d)" "j = typed_object (lit ''DashboardResponse'') [(lit ''value'', JObj d)]"
    "expect_json_value j = Inr j"
proof -
  obtain x where x: "expect_json_value (JObj d) = Inr x" "j = typed_object (lit ''DashboardResponse'') [(lit ''value'', x)]"
    using assms by (auto simp: dashboard_to_json_def simp del: expect_json_value.simps split: sum.splits)
  have "x = JObj d" by (rule expect_json_value_id [OF x(1)])
  with x show d: "expect_json_value (JObj d) = Inr (JObj d)" "j = typed_object (lit ''DashboardResponse'') [(lit ''value'', JObj d)]"
    by simp_all
  have "expect_json_value (JObj [(k, JStr s), (l, y)]) = bindE (expect_json_value y) (\<lambda>y. Inr (JObj [(k, JStr s), (l, y)]))" for k s l y
    by (simp add: bindE_assoc)
  then show "expect_json_value j = Inr j" using d by (simp add: typed_object_def del: expect_json_value.simps)
qed

lemma encoded_list: "mapE f vs = Inr js \<Longrightarrow> (\<And>v j. v \<in> set vs \<Longrightarrow> f v = Inr j \<Longrightarrow> expect_json_value j = Inr j) \<Longrightarrow>
    mapE expect_json_value js = Inr js"
  by (rule mapE_same) (auto dest: mapE_each)

lemma encoded_members:
  "mapE (\<lambda>(k, v). bindE (f v) (\<lambda>j. Inr (k, j))) kvs = Inr js \<Longrightarrow>
   (\<And>k v j. (k, v) \<in> set kvs \<Longrightarrow> f v = Inr j \<Longrightarrow> expect_json_value j = Inr j) \<Longrightarrow>
   mapE (\<lambda>(k, j). bindE (expect_json_value j) (\<lambda>j. Inr (k, j))) js = Inr js"
  by (rule mapE_same) (fastforce simp: bindE_eq_Inr dest: mapE_each)

lemma runtime_json: "runtime_to_json F v = Inr j \<Longrightarrow> expect_json_value j = Inr j"
proof (induction F v arbitrary: j rule: runtime_to_json.induct)
  case (3 F vs)
  then show ?case by (auto simp: bindE_eq_Inr typed_object_def encoded_list)
next
  case (10 F vs)
  then show ?case by (auto simp: bindE_eq_Inr encoded_list)
next
  case (11 F kvs)
  then obtain js where js: "mapE (\<lambda>(k, v). bindE (runtime_to_json F v) (\<lambda>j. Inr (k, j))) kvs = Inr js" "j = JObj js"
    by (auto simp: bindE_eq_Inr)
  have "mapE (\<lambda>(k, j). bindE (expect_json_value j) (\<lambda>j. Inr (k, j))) js = Inr js"
    by (rule encoded_members [OF js(1)]) (use "11.IH" in blast)
  then show ?case by (simp add: js)
qed (auto simp: typed_object_def datetime_json point_json dashboard_json(3) bindE_eq_Inr mapped_json split: option.splits)

section \<open>Round trips\<close>

fun storable :: "text_format \<Rightarrow> pyval \<Rightarrow> bool" where
  \<comment> \<open>no dictionary uses the key of the type tags, and dashboards are valid\<close>
  "storable F (VList vs) \<longleftrightarrow> (\<forall>v \<in> set vs. storable F v)"
| "storable F (VTuple vs) \<longleftrightarrow> (\<forall>v \<in> set vs. storable F v)"
| "storable F (VDict kvs) \<longleftrightarrow> (\<forall>(k, v) \<in> set kvs. k \<noteq> JSON_TYPE_KEY \<and> storable F v)"
| "storable F (VDashboard d) \<longleftrightarrow> tf_validate F d = Inr d"
| "storable F (VDashboardEntry d t) \<longleftrightarrow> tf_validate F d = Inr d"
| "storable F v \<longleftrightarrow> True"

lemma list_back:
  "mapE f vs = Inr js \<Longrightarrow> (\<And>v j. v \<in> set vs \<Longrightarrow> f v = Inr j \<Longrightarrow> g j = Inr v) \<Longrightarrow> mapE g js = Inr vs"
  by (induction vs arbitrary: js) (auto simp: bindE_eq_Inr)

lemma members_back:
  "mapE (\<lambda>(k, v). bindE (f v) (\<lambda>j. Inr (k, j))) kvs = Inr js \<Longrightarrow>
   (\<And>k v j. (k, v) \<in> set kvs \<Longrightarrow> f v = Inr j \<Longrightarrow> g j = Inr v) \<Longrightarrow>
   mapE (\<lambda>(k, j). bindE (g j) (\<lambda>v. Inr (k, v))) js = Inr kvs"
  by (rule list_back) (auto simp: bindE_eq_Inr)

lemma members_keys: "mapE (\<lambda>(k, v). bindE (f v) (\<lambda>j. Inr (k, j))) kvs = Inr js \<Longrightarrow> map fst js = map fst kvs"
  by (induction kvs arbitrary: js) (auto simp: bindE_eq_Inr split: prod.splits)

lemma untagged: "JSON_TYPE_KEY \<notin> fst ` set js \<Longrightarrow> get_type_name js = Inr None"
  by (simp add: get_type_name_def map_of_eq_None_iff [THEN iffD2])

lemma point_back: "formats_ok F \<Longrightarrow> runtime_from_json F (point_to_json F (s, n, p)) = Inr (VLivePoint s n p)"
  by (simp add: point_to_json_def tagged runtime_from_json.simps(2) decimal_back expect_string_def the_decimal_def)

lemma json_list: "expect_json_value (JList js) = Inr (JList js) \<Longrightarrow> expect_json_list (JList js) = Inr js"
  by (simp add: expect_json_list_def del: expect_json_value.simps)

lemma points_back:
  "formats_ok F \<Longrightarrow> mapE (\<lambda>j. bindE (runtime_from_json F j) the_point) (map (point_to_json F) ps) = Inr ps"
  by (induction ps) (auto simp: point_back the_point_def)

lemma datetimes_back:
  "formats_ok F \<Longrightarrow> mapE (\<lambda>j. bindE (runtime_from_json F j) the_datetime) (map (datetime_to_json F) ts) = Inr ts"
  by (induction ts) (auto simp: datetime_back the_datetime_def)

lemma dashboard_back:
  assumes "dashboard_to_json d = Inr j" "tf_validate F d = Inr d"
  shows "runtime_from_json F j = Inr (VDashboard d)"
  unfolding dashboard_json(2) [OF assms(1)]
  by (simp add: tagged runtime_from_json.simps(2) expect_json_object_def dashboard_json(1) [OF assms(1)] assms(2) del: expect_json_value.simps)

lemma runtime_back:
  "formats_ok F \<Longrightarrow> storable F v \<Longrightarrow> runtime_to_json F v = Inr j \<Longrightarrow> runtime_from_json F j = Inr v"
proof (induction F v arbitrary: j rule: runtime_to_json.induct)
  case (3 F vs)
  then obtain js where js: "mapE (runtime_to_json F) vs = Inr js" "j = typed_object (lit ''tuple'') [(lit ''items'', JList js)]"
    by (auto simp: bindE_eq_Inr)
  have "expect_json_value (JList js) = Inr (JList js)" using encoded_list [OF js(1) runtime_json] by simp
  moreover have "mapE (\<lambda>j. runtime_from_json F j) js = Inr vs"
    by (rule list_back [OF js(1)]) (use "3.IH" "3.prems" in simp)
  ultimately show ?case by (simp add: js(2) tagged runtime_from_json.simps(2) json_list del: expect_json_value.simps)
next
  case (10 F vs)
  then obtain js where js: "mapE (runtime_to_json F) vs = Inr js" "j = JList js" by (auto simp: bindE_eq_Inr)
  have "mapE (\<lambda>j. runtime_from_json F j) js = Inr vs"
    by (rule list_back [OF js(1)]) (use "10.IH" "10.prems" in simp)
  then show ?case by (simp add: js(2))
next
  case (11 F kvs)
  then obtain js where js: "mapE (\<lambda>(k, v). bindE (runtime_to_json F v) (\<lambda>j. Inr (k, j))) kvs = Inr js" "j = JObj js"
    by (auto simp: bindE_eq_Inr)
  have "mapE (\<lambda>(k, j). bindE (runtime_from_json F j) (\<lambda>v. Inr (k, v))) js = Inr kvs"
    by (rule members_back [OF js(1)]) (use "11.IH" "11.prems" in fastforce)
  moreover have "fst ` set js = fst ` set kvs" using members_keys [OF js(1)] by (metis set_map)
  with "11.prems" have "get_type_name js = Inr None" by (intro untagged) auto
  ultimately show ?case by (simp add: js(2) runtime_from_json.simps(2))
next
  case (4 F d)
  then show ?case by (simp add: dashboard_back)
next
  case (5 F d t)
  then obtain x where "dashboard_to_json d = Inr x" "j = typed_object (lit ''DashboardCacheEntry'') [(lit ''dashboard'', x), (lit ''generated_at'', datetime_to_json F t)]"
    by (auto simp: bindE_eq_Inr)
  with 5 show ?case
    by (simp add: tagged runtime_from_json.simps(2) dashboard_back the_dashboard_def the_datetime_def datetime_back)
next
  case (6 F hour_bucket latest_value_cny latest_generated_at has_assets)
  then show ?case
    by (auto simp: tagged runtime_from_json.simps(2) the_datetime_def the_decimal_def datetime_back decimal_back expect_bool_def)
next
  case (8 F hour_bucket latest_generated_at aggregate points has_tracked)
  have "runtime_from_json F (case aggregate of None \<Rightarrow> JNull | Some d \<Rightarrow> decimal_to_json F d)
      = Inr (case aggregate of None \<Rightarrow> VNone | Some d \<Rightarrow> VDecimal d)"
    using 8 by (simp add: decimal_back split: option.split)
  moreover have "expect_json_list (JList (map (point_to_json F) points)) = Inr (map (point_to_json F) points)"
    by (rule json_list) (simp add: mapped_json)
  ultimately show ?case using 8
    by (auto simp: tagged runtime_from_json.simps(2) the_datetime_def the_decimal_or_none_def datetime_back points_back expect_bool_def
        split: option.splits)
next
  case (9 F timestamps failed last_at)
  have "expect_json_list (JList (map (datetime_to_json F) timestamps)) = Inr (map (datetime_to_json F) timestamps)"
    by (rule json_list) (simp add: mapped_json)
  with 9 show ?case
    by (auto simp: tagged runtime_from_json.simps(2) the_datetime_def datetime_back datetimes_back expect_int_def)
qed (auto simp: datetime_back decimal_back point_back)

lemma loads_dumped:
  assumes "expect_json_value (JObj payload) = Inr (JObj payload)" "lit ''version'' \<notin> fst ` set payload"
  shows "loads_versioned_payload (Some (dumps_versioned_payload n payload)) n = Some ((lit ''version'', JInt n) # payload)"
proof -
  have "expect_json_object (dumps_versioned_payload n payload) = Inr ((lit ''version'', JInt n) # payload)"
    using assms(1) by (auto simp: expect_json_object_def dumps_versioned_payload_def bindE_eq_Inr bindE_assoc)
  then show ?thesis by (simp add: loads_versioned_payload_def)
qed

lemma member_json: "expect_json_value j = Inr j \<Longrightarrow> expect_json_value (JObj [(k, j)]) = Inr (JObj [(k, j)])"
  by simp

text \<open>
  C29: what the runtime state stores in Redis is read back as it was: every value of the kinds it holds
  that is encoded at all (everything but floats and foreign objects) is decoded from what was written, if instants
  and decimals are read from their texts, the dashboards in it are valid, and no dictionary in it uses the key
  of the type tags.
\<close>

theorem runtime_values_round_trip:
  assumes "formats_ok F" "storable F v" "runtime_dumps F v = Inr raw"
  shows "runtime_loads F (Some raw) = Inr (Some v)"
proof -
  obtain j where j: "runtime_to_json F v = Inr j" "raw = dumps_versioned_payload RUNTIME_SERIALIZER_VERSION [(lit ''value'', j)]"
    using assms(3) by (auto simp: runtime_dumps_def bindE_eq_Inr)
  have "loads_versioned_payload (Some raw) RUNTIME_SERIALIZER_VERSION
      = Some [(lit ''version'', JInt RUNTIME_SERIALIZER_VERSION), (lit ''value'', j)]"
    unfolding j(2) by (rule loads_dumped) (rule member_json [OF runtime_json [OF j(1)]], simp)
  then show ?thesis
    by (simp add: runtime_loads_def json_field_def runtime_back [OF assms(1,2) j(1)])
qed

definition plain_format :: text_format where
  \<comment> \<open>a number is written as its sign and that many letters\<close>
  "plain_format = \<lparr>tf_of_datetime = (\<lambda>t. (if t < 0 then 45 else 43) # replicate (nat \<bar>t\<bar>) 97),
     tf_to_datetime = (\<lambda>s. Inr ((if hd s = 45 then - 1 else 1) * (int (length s) - 1))),
     tf_of_decimal = (\<lambda>d. replicate (nat (2 * \<bar>coeff d\<bar> + (if coeff d < 0 then 1 else 0))) 97 @ [98]
        @ replicate (nat (2 * \<bar>expo d\<bar> + (if expo d < 0 then 1 else 0))) 97),
     tf_to_decimal = (\<lambda>s. let num = (\<lambda>n :: nat. if odd n then - int (n div 2) else int (n div 2));
          front = takeWhile (\<lambda>c. c \<noteq> 98) s
        in Inr (Dec (num (length front)) (num (length s - length front - 1)))),
     tf_str = (\<lambda>j. []), tf_validate = Inr\<rparr>"

lemma plain_format_ok: "formats_ok plain_format"
proof -
  have z: "utc_marks (c # replicate n 97) = c # replicate n 97" if "c \<noteq> 90" for c n
    using that by (induction n) (simp_all add: utc_marks_def)
  have t: "tf_to_datetime plain_format (utc_marks (tf_of_datetime plain_format t)) = Inr t" for t
    by (simp add: plain_format_def z)
  have tw: "takeWhile (\<lambda>c. c \<noteq> 98) (replicate n 97 @ 98 # r) = replicate n (97 :: nat)" for n r
    by (induction n) simp_all
  have d: "tf_to_decimal plain_format (tf_of_decimal plain_format d) = Inr d" for d
    by (cases d) (auto simp: plain_format_def tw nat_add_distrib nat_mult_distrib)
  from t d show ?thesis by (simp add: formats_ok_def)
qed

definition login_state :: pyval where
  "login_state = VDict [(lit ''ada'', VTuple [VLoginAttempts [5, 7] 2 7, VDecimal (Dec 125 (-2))])]"

theorem runtime_values_round_trip_witness:
  "\<exists>raw. runtime_dumps plain_format login_state = Inr raw \<and> runtime_loads plain_format (Some raw) = Inr (Some login_state)"
proof -
  obtain raw where raw: "runtime_dumps plain_format login_state = Inr raw" by (simp add: runtime_dumps_def login_state_def)
  have "storable plain_format login_state" by (simp add: login_state_def JSON_TYPE_KEY_def)
  from runtime_values_round_trip [OF plain_format_ok this raw] raw show ?thesis by blast
qed

section \<open>Cached values\<close>

lemma optional_back:
  "map_of kvs k = Some (optional_json v) \<Longrightarrow> optional_str F kvs k = v"
  by (simp add: optional_str_def optional_json_def split: option.splits)

lemma optional_is_json: "expect_json_value (optional_json v) = Inr (optional_json v)"
  by (simp add: optional_json_def split: option.split)

lemma cache_json: "cache_to_json F v = Inr j \<Longrightarrow> expect_json_value j = Inr j"
proof (induction F v arbitrary: j rule: cache_to_json.induct)
  case (5 F vs)
  then show ?case by (auto simp: bindE_eq_Inr typed_object_def encoded_list)
next
  case (6 F vs)
  then show ?case by (auto simp: bindE_eq_Inr encoded_list)
next
  case (7 F kvs)
  then obtain js where js: "mapE (\<lambda>(k, v). bindE (cache_to_json F v) (\<lambda>j. Inr (k, j))) kvs = Inr js" "j = JObj js"
    by (auto simp: bindE_eq_Inr)
  have "mapE (\<lambda>(k, j). bindE (expect_json_value j) (\<lambda>j. Inr (k, j))) js = Inr js"
    by (rule encoded_members [OF js(1)]) (use "7.IH" in blast)
  then show ?case by (simp add: js)
qed (auto simp: typed_object_def datetime_json optional_is_json bindE_eq_Inr split: option.splits)

lemma cache_back:
  "formats_ok F \<Longrightarrow> storable F v \<Longrightarrow> cache_to_json F v = Inr j \<Longrightarrow> cache_from_json F j = Inr v"
proof (induction F v arbitrary: j rule: cache_to_json.induct)
  case (3 F q)
  have "cache_from_json F (case qt_market_time q of None \<Rightarrow> JNull | Some t \<Rightarrow> datetime_to_json F t)
      = Inr (case qt_market_time q of None \<Rightarrow> VNone | Some t \<Rightarrow> VDatetime t)"
    using 3 by (simp add: datetime_back split: option.split)
  with 3 show ?case
    by (auto simp: tagged cache_from_json.simps(2) the_datetime_or_none_def the_decimal_def decimal_back expect_string_def
        split: option.splits)
next
  case (4 F symbol name market currency exchange source)
  then show ?case
    by (auto simp: tagged cache_from_json.simps(2) expect_string_def optional_back)
next
  case (5 F vs)
  then obtain js where js: "mapE (cache_to_json F) vs = Inr js" "j = typed_object (lit ''tuple'') [(lit ''items'', JList js)]"
    by (auto simp: bindE_eq_Inr)
  have "expect_json_value (JList js) = Inr (JList js)" using encoded_list [OF js(1) cache_json] by simp
  moreover have "mapE (\<lambda>j. cache_from_json F j) js = Inr vs"
    by (rule list_back [OF js(1)]) (use "5.IH" "5.prems" in simp)
  ultimately show ?case by (simp add: js(2) tagged cache_from_json.simps(2) json_list del: expect_json_value.simps)
next
  case (6 F vs)
  then obtain js where js: "mapE (cache_to_json F) vs = Inr js" "j = JList js" by (auto simp: bindE_eq_Inr)
  have "mapE (\<lambda>j. cache_from_json F j) js = Inr vs"
    by (rule list_back [OF js(1)]) (use "6.IH" "6.prems" in simp)
  then show ?case by (simp add: js(2))
next
  case (7 F kvs)
  then obtain js where js: "mapE (\<lambda>(k, v). bindE (cache_to_json F v) (\<lambda>j. Inr (k, j))) kvs = Inr js" "j = JObj js"
    by (auto simp: bindE_eq_Inr)
  have "mapE (\<lambda>(k, j). bindE (cache_from_json F j) (\<lambda>v. Inr (k, v))) js = Inr kvs"
    by (rule members_back [OF js(1)]) (use "7.IH" "7.prems" in fastforce)
  moreover have "fst ` set js = fst ` set kvs" using members_keys [OF js(1)] by (metis set_map)
  with "7.prems" have "get_type_name js = Inr None" by (intro untagged) auto
  ultimately show ?case by (simp add: js(2) cache_from_json.simps(2))
qed (auto simp: datetime_back decimal_back)

text \<open>What a cache stores in Redis is read back as it was, with its expiry.\<close>

theorem cache_entries_round_trip:
  assumes "formats_ok F" "storable F v" "serialize_entry F v expires_at = Inr raw"
  shows "deserialize_entry F (Some raw) = Inr (Some (v, expires_at))"
proof -
  obtain j where j: "cache_to_json F v = Inr j"
      "raw = dumps_versioned_payload CACHE_SERIALIZER_VERSION [(lit ''expires_at'', decimal_to_json F expires_at), (lit ''value'', j)]"
    using assms(3) by (auto simp: serialize_entry_def bindE_eq_Inr)
  have "expect_json_value (JObj [(lit ''expires_at'', decimal_to_json F expires_at), (lit ''value'', j)])
      = Inr (JObj [(lit ''expires_at'', decimal_to_json F expires_at), (lit ''value'', j)])"
    by (simp add: datetime_json cache_json [OF j(1)])
  then have "loads_versioned_payload (Some raw) CACHE_SERIALIZER_VERSION
      = Some [(lit ''version'', JInt CACHE_SERIALIZER_VERSION), (lit ''expires_at'', decimal_to_json F expires_at), (lit ''value'', j)]"
    unfolding j(2) by (rule loads_dumped) simp
  then show ?thesis
    by (simp add: deserialize_entry_def json_field_def decimal_back assms(1) cache_back [OF assms(1,2) j(1)])
qed

end
