(* ===== verification/Agent_Context.thy ===== *)
theory Agent_Context
  imports Dashboard_Query Auth
begin

text \<open>
  Model of the read side of \<^verbatim>\<open>backend/app/services/agent_service.py\<close>: the registrations of agents, as
  users and the administrator see them, and the context of a user that an agent asks for. Warnings are
  left out.
\<close>

section \<open>Registrations\<close>

record agent_registration_read =
  arr_id :: nat
  arr_user :: pystr
  arr_name :: pystr
  arr_status :: registration_status
  arr_request_count :: int
  arr_latest_api_key_name :: "pystr option"
  arr_last_used_at :: "datetime option"
  arr_last_seen_at :: "datetime option"
  arr_created_at :: datetime
  arr_updated_at :: datetime

definition AGENT_REGISTRATION_ACTIVE_WINDOW :: int where
  "AGENT_REGISTRATION_ACTIVE_WINDOW = 24 * US_HOUR"

definition in_names :: "pystr option \<Rightarrow> pystr list \<Rightarrow> bool" where
  "in_names v names = (case v of None \<Rightarrow> False | Some n \<Rightarrow> n \<in> set names)"

definition resolve_agent_registration_status :: "agent_registration \<Rightarrow> pystr list \<Rightarrow> datetime \<Rightarrow> registration_status" where
  "resolve_agent_registration_status r active_api_key_names now =
     (case rg_last_seen_at r of
        None \<Rightarrow> REG_INACTIVE
      | Some seen \<Rightarrow>
          if \<not> in_names (rg_latest_api_key_name r) active_api_key_names then REG_INACTIVE
          else if now - seen \<le> AGENT_REGISTRATION_ACTIVE_WINDOW then REG_ACTIVE
          else REG_INACTIVE)"

definition to_agent_registration_read :: "pystr list \<Rightarrow> datetime \<Rightarrow> nat \<times> agent_registration \<Rightarrow> agent_registration_read" where
  "to_agent_registration_read active_api_key_names now = (\<lambda>(i, r).
     \<lparr>arr_id = i, arr_user = rg_user r, arr_name = rg_name r,
      arr_status = resolve_agent_registration_status r active_api_key_names now,
      arr_request_count = rg_request_count r,
      arr_latest_api_key_name = (if in_names (rg_latest_api_key_name r) active_api_key_names then rg_latest_api_key_name r else None),
      arr_last_used_at = rg_last_seen_at r, arr_last_seen_at = rg_last_seen_at r,
      arr_created_at = rg_created_at r, arr_updated_at = rg_updated_at r\<rparr>)"

definition list_active_api_key_names_by_user :: "auth_state \<Rightarrow> pystr list \<Rightarrow> datetime \<Rightarrow> pystr \<Rightarrow> pystr list" where
  \<comment> \<open>the dictionary as a function, empty for a user without an entry\<close>
  "list_active_api_key_names_by_user a user_ids now user =
     (if user \<in> set user_ids
      then map (\<lambda>(i, t). tk_name t) (filter (\<lambda>(i, t). is_agent_token_active t now) (tselect (\<lambda>t. tk_user t = user) (as_tokens a)))
      else [])"

definition list_agent_registrations :: "env \<Rightarrow> bool \<Rightarrow> auth_state \<Rightarrow> error + agent_registration_read list" where
  "list_agent_registrations env include_all_users a =
     (if include_all_users \<and> en_user env \<noteq> lit ''admin'' then Inl (HTTPException 403 AdminOnly)
      else (let registrations = rev (sort_key (\<lambda>(i, r). (rg_updated_at r, i))
                  (tselect (\<lambda>r. (include_all_users \<or> rg_user r = en_user env) \<and> rg_request_count r > 0) (as_registrations a)));
                names = list_active_api_key_names_by_user a (map (\<lambda>(i, r). rg_user r) registrations) (en_now env)
            in Inr (map (\<lambda>(i, r). to_agent_registration_read (names (rg_user r)) (en_now env) (i, r)) registrations)))"

section \<open>The context of a user\<close>

record agent_context =
  ac_user :: pystr
  ac_generated_at :: datetime
  ac_server_today :: date
  ac_values :: "int list"  \<comment> \<open>total, cash, holdings, fixed assets, liabilities, other assets, in cents\<close>
  ac_rates :: "int option \<times> int option"
  ac_allocation :: "(pystr \<times> int) list"
  ac_cash_accounts :: "cash_account_read list"
  ac_holdings :: "valued_holding_item list"
  ac_recent_holding_transactions :: "transaction_read list"
  ac_pending_history_sync_requests :: nat

definition get_agent_context ::
  "pystr list \<Rightarrow> env \<Rightarrow> bool \<Rightarrow> nat \<Rightarrow> dashboards \<Rightarrow> (error + agent_context) \<times> dashboards" where
  "get_agent_context registered env refresh transaction_limit s =
     (case get_dashboard registered env refresh s of
        (Inl e, s1) \<Rightarrow> (Inl e, s1)
      | (Inr d, s1) \<Rightarrow>
          (let w = db_world s1; user = en_user env in
           (bindE (bindE (list_holding_transactions_for_user w user None None None transaction_limit)
              (to_holding_transaction_reads w user)) (\<lambda>recent.
            Inr \<lparr>ac_user = user, ac_generated_at = en_now env, ac_server_today = da_server_today d,
              ac_values = [da_total_value_cny d, da_cash_value_cny d, da_holdings_value_cny d, da_fixed_assets_value_cny d,
                da_liabilities_value_cny d, da_other_assets_value_cny d],
              ac_rates = (da_usd_cny_rate d, da_hkd_cny_rate d), ac_allocation = da_allocation d,
              ac_cash_accounts = da_cash_accounts d, ac_holdings = da_holdings d,
              ac_recent_holding_transactions = recent,
              ac_pending_history_sync_requests =
                length (tselect (\<lambda>r. hs_user r = user \<and> hs_status r \<noteq> SYNC_DONE) (sync_requests w))\<rparr>), s1)))"

end
