(* ===== verification/Providers.thy ===== *)
theory Providers
  imports Market_Data Codecs Analytics
begin

text \<open>
  Model of \<^verbatim>\<open>backend/app/services/market_data_parts/providers.py\<close> and the helpers of \<^verbatim>\<open>common.py\<close> it uses:
  what the market data client learns from the answers of the upstream services. The upstream services are
  a parameter that gives each request an answer, an HTTP failure or a body, which is JSON or not. A number
  of a body stands for the decimal of its text; a text that spells a NaN or an infinity is taken as no
  number. \<open>Uncaught\<close> is an exception of a class that no caller handles.
\<close>

section \<open>Upstream services\<close>

datatype http_failure =
    HTTPStatusError nat "pystr option"  \<comment> \<open>status code and reason phrase\<close>
  | TimeoutException pystr  \<comment> \<open>the name of the class\<close>
  | RequestError pystr pystr  \<comment> \<open>the name of the class and the message\<close>
  | OtherHTTPError pystr

record http_reply =
  rp_json :: "pystr + json"  \<comment> \<open>\<open>response.json()\<close>: the text of its \<open>ValueError\<close> or the value\<close>
  rp_gbk :: pystr  \<comment> \<open>the content, decoded as GBK with errors ignored\<close>

record upstream =
  up_get :: "pystr \<Rightarrow> (pystr \<times> pystr) list \<Rightarrow> nat \<Rightarrow> http_failure + http_reply"
    \<comment> \<open>URL, parameters and the number of requests sent before\<close>
  up_chart :: "pystr \<Rightarrow> datetime \<Rightarrow> datetime \<Rightarrow> pystr + chart_payload option"
  up_str :: "json \<Rightarrow> pystr"  \<comment> \<open>\<open>str\<close> of a fraction, a list or an object\<close>

definition describe_http_error :: "http_failure \<Rightarrow> pystr" where
  "describe_http_error e = (case e of
       HTTPStatusError status_code reason \<Rightarrow>
         (let reason_phrase = py_strip (or_empty reason)
          in if reason_phrase = [] then lit ''HTTP '' @ show_nat status_code
             else lit ''HTTP '' @ show_nat status_code @ lit '' '' @ reason_phrase)
     | TimeoutException c \<Rightarrow> c
     | RequestError c m \<Rightarrow> (let error_message = py_strip m
         in if error_message = [] then c else c @ lit '': '' @ error_message)
     | OtherHTTPError c \<Rightarrow> c)"

section \<open>Values of a body\<close>

fun truthy :: "json \<Rightarrow> bool" where
  "truthy JNull \<longleftrightarrow> False"
| "truthy (JBool b) \<longleftrightarrow> b"
| "truthy (JInt n) \<longleftrightarrow> n \<noteq> 0"
| "truthy (JReal d) \<longleftrightarrow> coeff d \<noteq> 0"
| "truthy (JStr s) \<longleftrightarrow> s \<noteq> []"
| "truthy (JList js) \<longleftrightarrow> js \<noteq> []"
| "truthy (JObj kvs) \<longleftrightarrow> kvs \<noteq> []"

definition or_json :: "json \<Rightarrow> json \<Rightarrow> json" where
  "or_json v w = (if truthy v then v else w)"

fun is_none_or_zero :: "json \<Rightarrow> bool" where
  \<comment> \<open>\<open>in (None, 0)\<close>\<close>
  "is_none_or_zero JNull \<longleftrightarrow> True"
| "is_none_or_zero (JBool b) \<longleftrightarrow> \<not> b"
| "is_none_or_zero (JInt n) \<longleftrightarrow> n = 0"
| "is_none_or_zero (JReal d) \<longleftrightarrow> coeff d = 0"
| "is_none_or_zero _ \<longleftrightarrow> False"

fun json_text :: "upstream \<Rightarrow> json \<Rightarrow> pystr" where
  \<comment> \<open>\<open>str\<close>\<close>
  "json_text U JNull = lit ''None''"
| "json_text U (JBool b) = (if b then lit ''True'' else lit ''False'')"
| "json_text U (JInt n) = show_int n"
| "json_text U (JStr s) = s"
| "json_text U j = up_str U j"

definition text_or_empty :: "upstream \<Rightarrow> json \<Rightarrow> pystr" where
  \<comment> \<open>\<open>str(value or "").strip()\<close>\<close>
  "text_or_empty U j = py_strip (if truthy j then json_text U j else [])"

fun get_key :: "json \<Rightarrow> pystr \<Rightarrow> market_error + json" where
  \<comment> \<open>\<open>get\<close>, which only an object has\<close>
  "get_key (JObj kvs) k = Inr (case map_of kvs k of None \<Rightarrow> JNull | Some j \<Rightarrow> j)"
| "get_key _ k = Inl (Raised Uncaught)"

fun get_or :: "json \<Rightarrow> pystr \<Rightarrow> json \<Rightarrow> market_error + json" where
  \<comment> \<open>\<open>get\<close> with a default\<close>
  "get_or (JObj kvs) k fallback_value = Inr (case map_of kvs k of None \<Rightarrow> fallback_value | Some j \<Rightarrow> j)"
| "get_or _ k fallback_value = Inl (Raised Uncaught)"

fun first_item :: "json \<Rightarrow> market_error + json" where
  \<comment> \<open>\<open>[0]\<close> of a value that is not empty\<close>
  "first_item (JList (j # js)) = Inr j"
| "first_item (JStr (c # cs)) = Inr (JStr [c])"
| "first_item _ = Inl (Raised Uncaught)"

fun items_of :: "json \<Rightarrow> market_error + json list" where
  \<comment> \<open>iteration\<close>
  "items_of (JList js) = Inr js"
| "items_of (JStr s) = Inr (map (\<lambda>c. JStr [c]) s)"
| "items_of (JObj kvs) = Inr (map (JStr \<circ> fst) kvs)"
| "items_of _ = Inl (Raised Uncaught)"

definition object_or_empty :: "json \<Rightarrow> json" where
  "object_or_empty j = (case j of JObj kvs \<Rightarrow> JObj kvs | _ \<Rightarrow> JObj [])"

subsection \<open>Numbers\<close>

definition unsigned_decimal :: "pystr \<Rightarrow> (int \<times> int) option" where
  \<comment> \<open>digits with at most one point: the coefficient and the exponent\<close>
  "unsigned_decimal s =
     (let whole = takeWhile is_digit s; rest = drop (length whole) s;
          fraction = (case rest of [] \<Rightarrow> [] | c # cs \<Rightarrow> cs)
      in if (rest = [] \<or> hd rest = 46) \<and> list_all is_digit fraction \<and> whole @ fraction \<noteq> []
         then Some (int (int_of_digits (whole @ fraction)), - int (length fraction)) else None)"

definition signed_part :: "pystr \<Rightarrow> int \<times> pystr" where
  "signed_part s = (case s of [] \<Rightarrow> (1, []) | c # cs \<Rightarrow> if c = 43 then (1, cs) else if c = 45 then (- 1, cs) else (1, s))"

definition exponent_part :: "pystr \<Rightarrow> int option" where
  \<comment> \<open>what follows the digits: nothing, or \<open>e\<close> and an integer\<close>
  "exponent_part s = (case s of [] \<Rightarrow> Some 0
     | c # cs \<Rightarrow> (let (sign, ds) = signed_part cs
         in if lower_char c = 101 \<and> ds \<noteq> [] \<and> list_all is_digit ds then Some (sign * int (int_of_digits ds)) else None))"

definition decimal_of_text :: "pystr \<Rightarrow> dec option" where
  \<comment> \<open>\<open>Decimal(text)\<close> of a finite number: spaces around it and underscores are dropped\<close>
  "decimal_of_text text =
     (let (sign, s) = signed_part (filter (\<lambda>c. c \<noteq> 95) (py_strip text));
          number = takeWhile (\<lambda>c. lower_char c \<noteq> 101) s
      in case (unsigned_decimal number, exponent_part (drop (length number) s)) of
           (Some (c, e), Some x) \<Rightarrow> Some (Dec (sign * c) (e + x))
         | _ \<Rightarrow> None)"

fun decimal_of_value :: "json \<Rightarrow> arith_error + dec" where
  \<comment> \<open>\<open>to_decimal\<close>; the text of any other value is no number\<close>
  "decimal_of_value JNull = Inr DECIMAL_ZERO"
| "decimal_of_value (JInt n) = Inr (Dec n 0)"
| "decimal_of_value (JReal d) = Inr d"
| "decimal_of_value (JStr s) = (case decimal_of_text s of None \<Rightarrow> Inl InvalidOperation | Some d \<Rightarrow> Inr d)"
| "decimal_of_value _ = Inl InvalidOperation"

definition quantized_value :: "json \<Rightarrow> arith_error + fixed" where
  "quantized_value j = bindE (decimal_of_value j) quantize_decimal"

definition raising :: "error + 'a \<Rightarrow> market_error + 'a" where
  "raising m = (case m of Inl e \<Rightarrow> Inl (Raised e) | Inr x \<Rightarrow> Inr x)"

definition or_lookup_error :: "'e + 'a \<Rightarrow> pystr \<Rightarrow> market_error + 'a" where
  \<comment> \<open>an error that becomes a \<open>QuoteLookupError\<close> with this message\<close>
  "or_lookup_error m message = (case m of Inl e \<Rightarrow> Inl (Lookup message) | Inr x \<Rightarrow> Inr x)"

definition lookup_unless :: "bool \<Rightarrow> pystr \<Rightarrow> market_error + unit" where
  "lookup_unless ok message = (if ok then Inr () else Inl (Lookup message))"

subsection \<open>Instants\<close>

fun bit_length :: "nat \<Rightarrow> nat" where
  "bit_length n = (if n = 0 then 0 else Suc (bit_length (n div 2)))"

declare bit_length.simps [simp del]

definition double_thousandth :: "int \<Rightarrow> int \<times> nat" where
  \<comment> \<open>\<open>n / 1000\<close> as the nearest float: a significand of 53 bits over a power of two\<close>
  "double_thousandth n =
     (let k = 53 - bit_length (nat (n div 1000)) in (half_even_div (n * 2 ^ k) 1000, k))"

definition MAX_SECONDS :: int where
  \<comment> \<open>the first second of the year 10000\<close>
  "MAX_SECONDS = 253402300800"

definition instant_of_seconds :: "int \<Rightarrow> market_error + datetime option" where
  "instant_of_seconds n = (if n < MAX_SECONDS then Inr (Some (n * US_SECOND)) else Inl (Raised Uncaught))"

definition instant_of_millis :: "int \<Rightarrow> market_error + datetime option" where
  "instant_of_millis n =
     (if n div 1000 \<ge> MAX_SECONDS then Inl (Raised Uncaught)
      else (let (m, k) = double_thousandth n; t = half_even_div (m * 1000000) (2 ^ k)
            in if t < MAX_SECONDS * US_SECOND then Inr (Some t) else Inl (Raised Uncaught)))"

definition truncated :: "dec \<Rightarrow> int" where
  \<comment> \<open>\<open>int\<close> of a decimal\<close>
  "truncated d = (if 0 \<le> expo d then coeff d * 10 ^ nat (expo d)
     else sgn (coeff d) * (\<bar>coeff d\<bar> div 10 ^ nat (- expo d)))"

definition parse_epoch_millis :: "json \<Rightarrow> market_error + datetime option" where
  "parse_epoch_millis v =
     (if v \<in> {JNull, JStr []} then Inr None
      else case decimal_of_value v of
          Inl e \<Rightarrow> Inr None
        | Inr d \<Rightarrow> (let numeric_value = truncated d
            in if numeric_value \<le> 0 then Inr None
               else if numeric_value > 10000000000 then instant_of_millis numeric_value
               else instant_of_seconds numeric_value))"

subsection \<open>Market times of Tencent\<close>

datatype directive =
    Field "(nat \<Rightarrow> bool) list list"  \<comment> \<open>the alternatives of its regular expression, by preference\<close>
  | Spaces
  | Exactly nat

definition between :: "nat \<Rightarrow> nat \<Rightarrow> nat \<Rightarrow> bool" where
  "between lo hi c \<longleftrightarrow> lo \<le> c \<and> c \<le> hi"

definition DIRECTIVE_Y :: directive where "DIRECTIVE_Y = Field [[is_digit, is_digit, is_digit, is_digit]]"
definition DIRECTIVE_m :: directive where
  "DIRECTIVE_m = Field [[between 49 49, between 48 50], [between 48 48, between 49 57], [between 49 57]]"
definition DIRECTIVE_d :: directive where
  "DIRECTIVE_d = Field [[between 51 51, between 48 49], [between 49 50, is_digit], [between 48 48, between 49 57],
     [between 49 57], [between 32 32, between 49 57]]"
definition DIRECTIVE_H :: directive where
  "DIRECTIVE_H = Field [[between 50 50, between 48 51], [between 48 49, is_digit], [is_digit]]"
definition DIRECTIVE_M :: directive where "DIRECTIVE_M = Field [[between 48 53, is_digit], [is_digit]]"
definition DIRECTIVE_S :: directive where
  "DIRECTIVE_S = Field [[between 54 54, between 48 49], [between 48 53, is_digit], [is_digit]]"

definition fits :: "(nat \<Rightarrow> bool) list \<Rightarrow> pystr \<Rightarrow> bool" where
  "fits classes s \<longleftrightarrow> length classes \<le> length s \<and> list_all2 (\<lambda>p c. p c) classes (take (length classes) s)"

fun format_matches :: "directive list \<Rightarrow> pystr \<Rightarrow> (pystr list \<times> pystr) list" where
  \<comment> \<open>the matches of a prefix in the order in which \<open>re\<close> finds them: the fields and what is left\<close>
  "format_matches [] s = [([], s)]"
| "format_matches (Field alternatives # ds) s =
     concat (map (\<lambda>a. map (\<lambda>(fs, r). (take (length a) s # fs, r)) (format_matches ds (drop (length a) s)))
       (filter (\<lambda>a. fits a s) alternatives))"
| "format_matches (Spaces # ds) s =
     concat (map (\<lambda>n. format_matches ds (drop n s)) (rev [1 ..< Suc (length (takeWhile py_isspace s))]))"
| "format_matches (Exactly c # ds) s = (if s \<noteq> [] \<and> hd s = c then format_matches ds (tl s) else [])"

definition days_in_month :: "int \<Rightarrow> int \<Rightarrow> int" where
  "days_in_month y m = (if m = 12 then 31 else days_before_month y (m + 1) - days_before_month y m)"

definition make_datetime :: "int list \<Rightarrow> datetime option" where
  \<comment> \<open>\<open>datetime(...)\<close> of year, month, day, hour, minute and second, in UTC\<close>
  "make_datetime fs = (case fs of
       [y, m, d, hour, minute, second] \<Rightarrow>
         (if 1 \<le> y \<and> d \<le> days_in_month y m \<and> second \<le> 59
          then Some ((days_before_year y + days_before_month y m + d - EPOCH_ORDINAL) * US_DAY
            + hour * US_HOUR + minute * US_MINUTE + second * US_SECOND) else None)
     | _ \<Rightarrow> None)"

definition strptime :: "pystr \<Rightarrow> directive list \<Rightarrow> datetime option" where
  \<comment> \<open>of the first match, which must leave nothing\<close>
  "strptime candidate datetime_format = (case format_matches datetime_format candidate of
       (fs, []) # _ \<Rightarrow> make_datetime (map (\<lambda>f. int (int_of_digits (py_strip f))) fs)
     | _ \<Rightarrow> None)"

definition TENCENT_TIME_FORMATS :: "directive list list" where
  "TENCENT_TIME_FORMATS =
     (let clock = [DIRECTIVE_H, Exactly 58, DIRECTIVE_M, Exactly 58, DIRECTIVE_S] in
      [[DIRECTIVE_Y, Exactly 47, DIRECTIVE_m, Exactly 47, DIRECTIVE_d, Spaces] @ clock,
       [DIRECTIVE_Y, DIRECTIVE_m, DIRECTIVE_d, DIRECTIVE_H, DIRECTIVE_M, DIRECTIVE_S],
       [DIRECTIVE_Y, Exactly 45, DIRECTIVE_m, Exactly 45, DIRECTIVE_d, Spaces] @ clock])"

definition parse_tencent_market_time :: "pystr option \<Rightarrow> datetime option" where
  "parse_tencent_market_time v =
     (let candidate = py_strip (or_empty v)
      in if candidate = [] then None
         else case List.map_filter (strptime candidate) TENCENT_TIME_FORMATS of [] \<Rightarrow> None | t # _ \<Rightarrow> Some t)"

section \<open>Yahoo\<close>

definition YAHOO_QUOTE_URL :: pystr where "YAHOO_QUOTE_URL = lit ''https://query1.finance.yahoo.com/v7/finance/quote''"
definition YAHOO_CHART_URL :: pystr where "YAHOO_CHART_URL = lit ''https://query1.finance.yahoo.com/v8/finance/chart''"

definition request_json ::
  "upstream \<Rightarrow> pystr \<Rightarrow> pystr \<Rightarrow> (pystr \<times> pystr) list \<Rightarrow> pystr \<Rightarrow> nat \<Rightarrow> market_error + json" where
  "request_json U url symbol params source_label sent =
     (let invalid = Lookup (source_label @ lit '' returned invalid data for '' @ symbol @ lit ''.'') in
      case up_get U url params sent of
        Inl e \<Rightarrow> Inl (Lookup (source_label @ lit '' request failed for '' @ symbol @ lit '' ('' @ describe_http_error e @ lit '').''))
      | Inr reply \<Rightarrow> (case rp_json reply of
            Inr (JObj kvs) \<Rightarrow> Inr (JObj kvs)
          | _ \<Rightarrow> Inl invalid))"

definition parse_quote_payload :: "upstream \<Rightarrow> pystr \<Rightarrow> json \<Rightarrow> market_error + quote" where
  "parse_quote_payload U symbol payload =
     bindE (get_key payload (lit ''quoteResponse'')) (\<lambda>found.
     bindE (get_key (object_or_empty found) (lit ''result'')) (\<lambda>results.
     bindE (lookup_unless (truthy results) (lit ''No quote data returned for '' @ symbol @ lit ''.'')) (\<lambda>_.
     bindE (first_item results) (\<lambda>result.
       case result of JObj kvs \<Rightarrow>
         (let field = (\<lambda>k. case map_of kvs k of None \<Rightarrow> JNull | Some j \<Rightarrow> j);
              price = field (lit ''regularMarketPrice'');
              currency = or_json (field (lit ''currency'')) (field (lit ''financialCurrency''))
          in bindE (lookup_unless (\<not> is_none_or_zero price \<and> truthy currency)
               (lit ''Incomplete quote data returned for '' @ symbol @ lit ''.'')) (\<lambda>_.
             bindE (parse_epoch_millis (field (lit ''regularMarketTime''))) (\<lambda>market_time.
             bindE (raising (liftA (quantized_value price))) (\<lambda>price.
             Inr \<lparr>qt_symbol = (case map_of kvs (lit ''symbol'') of None \<Rightarrow> symbol | Some j \<Rightarrow> json_text U j),
                  qt_name = json_text U (or_json (or_json (field (lit ''shortName'')) (field (lit ''longName''))) (JStr symbol)),
                  qt_price = of_fixed price, qt_currency = py_upper (json_text U currency), qt_market_time = market_time\<rparr>))))
       | _ \<Rightarrow> Inl (Lookup (lit ''Invalid quote data returned for '' @ symbol @ lit ''.''))))))"

definition last_close :: "json \<Rightarrow> market_error + json" where
  \<comment> \<open>the last close that is neither missing nor zero, quantized\<close>
  "last_close result =
     bindE (get_key result (lit ''indicators'')) (\<lambda>indicators.
     bindE (get_key (or_json indicators (JObj [])) (lit ''quote'')) (\<lambda>quotes.
     bindE (if truthy quotes then first_item quotes else Inr (JObj [])) (\<lambda>bars.
     bindE (get_key bars (lit ''close'')) (\<lambda>closes.
     bindE (if truthy closes then items_of closes else Inr []) (\<lambda>closes.
     case filter (\<lambda>v. \<not> is_none_or_zero v) (rev closes) of
       [] \<Rightarrow> Inr JNull
     | v # _ \<Rightarrow> bindE (raising (liftA (quantized_value v))) (\<lambda>p. Inr (JReal (of_fixed p))))))))"

definition parse_chart_payload :: "upstream \<Rightarrow> pystr \<Rightarrow> json \<Rightarrow> market_error + quote" where
  "parse_chart_payload U symbol payload =
     bindE (get_key payload (lit ''chart'')) (\<lambda>found.
     bindE (get_key (object_or_empty found) (lit ''result'')) (\<lambda>result_list.
     bindE (lookup_unless (truthy result_list) (lit ''No chart quote data returned for '' @ symbol @ lit ''.'')) (\<lambda>_.
     bindE (first_item result_list) (\<lambda>result.
     bindE (case result of JObj kvs \<Rightarrow> get_key result (lit ''meta'')
       | _ \<Rightarrow> Inl (Lookup (lit ''Invalid chart quote data returned for '' @ symbol @ lit ''.''))) (\<lambda>meta.
       case or_json meta (JObj []) of JObj kvs \<Rightarrow>
         (let field = (\<lambda>k. case map_of kvs k of None \<Rightarrow> JNull | Some j \<Rightarrow> j); currency = field (lit ''currency'')
          in bindE (if is_none_or_zero (field (lit ''regularMarketPrice'')) then last_close result
               else Inr (field (lit ''regularMarketPrice''))) (\<lambda>price.
             bindE (lookup_unless (\<not> is_none_or_zero price \<and> truthy currency)
               (lit ''Incomplete chart quote data returned for '' @ symbol @ lit ''.'')) (\<lambda>_.
             bindE (raising (liftA (quantized_value price))) (\<lambda>price.
             bindE (parse_epoch_millis (field (lit ''regularMarketTime''))) (\<lambda>market_time.
             Inr \<lparr>qt_symbol = json_text U (or_json (field (lit ''symbol'')) (JStr symbol)),
                  qt_name = json_text U (or_json (or_json (field (lit ''shortName'')) (field (lit ''longName''))) (JStr symbol)),
                  qt_price = of_fixed price, qt_currency = py_upper (json_text U currency), qt_market_time = market_time\<rparr>)))))
       | _ \<Rightarrow> Inl (Lookup (lit ''Invalid chart metadata returned for '' @ symbol @ lit ''.'')))))))"

definition yahoo_fetch_quote :: "upstream \<Rightarrow> pystr \<Rightarrow> nat \<Rightarrow> market_error + quote" where
  "yahoo_fetch_quote U symbol sent =
     (case bindE (request_json U YAHOO_QUOTE_URL symbol [(lit ''symbols'', symbol)] (lit ''Yahoo quote'') sent)
         (parse_quote_payload U symbol) of
        Inl (Lookup quote_error) \<Rightarrow>
          (case bindE (request_json U (YAHOO_CHART_URL @ lit ''/'' @ symbol) symbol
                  [(lit ''interval'', lit ''1d''), (lit ''range'', lit ''1d''), (lit ''includePrePost'', lit ''false''),
                   (lit ''events'', lit ''history'')] (lit ''Yahoo chart quote fallback'') sent)
               (parse_chart_payload U symbol) of
             Inl (Lookup chart_error) \<Rightarrow> Inl (Lookup (quote_error @ lit ''; '' @ chart_error))
           | answer \<Rightarrow> answer)
      | answer \<Rightarrow> answer)"

section \<open>Eastmoney\<close>

definition INVALID_SYMBOL_MESSAGE :: pystr where
  "INVALID_SYMBOL_MESSAGE = lit (''Invalid symbol format. Use A-share (600519, 600519.SS, SH600519), '' @
     ''HK (00700, 00700.HK, HK00700), or US (AAPL, BRK-B).'')"

definition secid_error_text :: "pystr \<Rightarrow> pystr" where
  \<comment> \<open>the text of the \<open>ValueError\<close> of \<open>build_eastmoney_secid\<close>\<close>
  "secid_error_text symbol =
     (if py_upper (py_strip symbol) = [] then lit ''Symbol cannot be empty.''
      else case normalize_symbol symbol of
          Inl e \<Rightarrow> INVALID_SYMBOL_MESSAGE
        | Inr normalized_symbol \<Rightarrow> lit ''Eastmoney quote does not support symbol '' @ normalized_symbol @ lit ''.'')"

definition EASTMONEY_QUOTE_URL :: pystr where "EASTMONEY_QUOTE_URL = lit ''https://push2.eastmoney.com/api/qt/stock/get''"

definition eastmoney_quote_of :: "upstream \<Rightarrow> datetime \<Rightarrow> pystr \<Rightarrow> json \<Rightarrow> market_error + quote" where
  "eastmoney_quote_of U now normalized_symbol payload =
     (let hk = ends_with (lit ''.HK'') normalized_symbol in
      bindE (get_key payload (lit ''data'')) (\<lambda>found.
      bindE (get_key (or_json found (JObj [])) (lit ''f43'')) (\<lambda>raw_price.
      bindE (get_key (or_json found (JObj [])) (lit ''f58'')) (\<lambda>raw_name.
      bindE (lookup_unless (\<not> is_none_or_zero raw_price)
        (lit ''No Eastmoney quote data returned for '' @ normalized_symbol @ lit ''.'')) (\<lambda>_.
      bindE (raising (liftA (bindE (decimal_of_value raw_price) (\<lambda>p.
        bindE (dec_div p (Dec (if hk then 1000 else 100) 0)) quantize_decimal)))) (\<lambda>price.
      bindE (lookup_unless (0 < price)
        (lit ''Incomplete Eastmoney quote data returned for '' @ normalized_symbol @ lit ''.'')) (\<lambda>_.
      let name = py_strip (json_text U (or_json raw_name (JStr normalized_symbol)))
      in Inr \<lparr>qt_symbol = normalized_symbol, qt_name = (if name = [] then normalized_symbol else name),
           qt_price = of_fixed price, qt_currency = (if hk then lit ''HKD'' else lit ''CNY''), qt_market_time = Some now\<rparr>)))))))"

definition json_body :: "http_reply \<Rightarrow> market_error + json" where
  "json_body reply = (case rp_json reply of Inl m \<Rightarrow> Inl (Raised ValueError) | Inr payload \<Rightarrow> Inr payload)"

definition eastmoney_fetch_quote :: "upstream \<Rightarrow> datetime \<Rightarrow> pystr \<Rightarrow> nat \<Rightarrow> market_error + quote" where
  "eastmoney_fetch_quote U now symbol sent =
     bindE (or_lookup_error (build_eastmoney_secid symbol) (secid_error_text symbol)) (\<lambda>secid.
     bindE (raising (normalize_symbol symbol)) (\<lambda>normalized_symbol.
     case up_get U EASTMONEY_QUOTE_URL [(lit ''secid'', secid), (lit ''fields'', lit ''f43,f57,f58'')] sent of
       Inl e \<Rightarrow> Inl (Lookup (lit ''Eastmoney quote request failed for '' @ normalized_symbol @ lit '' (''
         @ describe_http_error e @ lit '').''))
     | Inr reply \<Rightarrow> bindE (json_body reply) (eastmoney_quote_of U now normalized_symbol)))"

section \<open>Tencent\<close>

definition TENCENT_QUOTE_URL :: pystr where "TENCENT_QUOTE_URL = lit ''https://qt.gtimg.cn/q=''"

definition build_tencent_symbol :: "pystr \<Rightarrow> market_error + pystr \<times> pystr" where
  "build_tencent_symbol symbol =
     bindE (raising (normalize_symbol symbol)) (\<lambda>normalized_symbol.
       if ends_with (lit ''.HK'') normalized_symbol
       then Inr (lit ''hk'' @ zfill 5 (removesuffix (lit ''.HK'') normalized_symbol), lit ''HKD'')
       else if ends_with (lit ''.SS'') normalized_symbol
       then Inr (lit ''sh'' @ removesuffix (lit ''.SS'') normalized_symbol, lit ''CNY'')
       else if ends_with (lit ''.SZ'') normalized_symbol
       then Inr (lit ''sz'' @ removesuffix (lit ''.SZ'') normalized_symbol, lit ''CNY'')
       else Inl (Lookup (lit ''Tencent quote does not support symbol '' @ normalized_symbol @ lit ''.'')))"

definition strip_char :: "nat \<Rightarrow> pystr \<Rightarrow> pystr" where
  \<comment> \<open>\<open>strip\<close> of a character\<close>
  "strip_char c s = rev (dropWhile (\<lambda>d. d = c) (rev (dropWhile (\<lambda>d. d = c) s)))"

fun split_on :: "nat \<Rightarrow> pystr \<Rightarrow> pystr list" where
  "split_on c [] = [[]]"
| "split_on c (d # ds) = (if d = c then [] # split_on c ds
     else (d # hd (split_on c ds)) # tl (split_on c ds))"

definition tencent_fields :: "pystr \<Rightarrow> pystr list" where
  \<comment> \<open>of a text with \<open>=\<close>\<close>
  "tencent_fields payload_text =
     split_on 126 (strip_char 34 (py_strip (strip_char 59 (py_strip (tl (dropWhile (\<lambda>c. c \<noteq> 61) payload_text))))))"

definition tencent_quote_of :: "pystr \<Rightarrow> pystr \<Rightarrow> pystr \<Rightarrow> market_error + quote" where
  "tencent_quote_of normalized_symbol currency payload_text =
     (let no_data = lit ''No Tencent quote data returned for '' @ normalized_symbol @ lit ''.'';
          incomplete = lit ''Incomplete Tencent quote data returned for '' @ normalized_symbol @ lit ''.'';
          fields = tencent_fields payload_text in
      bindE (lookup_unless (61 \<in> set payload_text \<and> 4 \<le> length fields) no_data) (\<lambda>_.
      bindE (or_lookup_error (quantized_value (JStr (fields ! 3))) incomplete) (\<lambda>price.
      bindE (lookup_unless (0 < price) incomplete) (\<lambda>_.
      let name = py_strip (fields ! 1)
      in Inr \<lparr>qt_symbol = normalized_symbol, qt_name = (if name = [] then normalized_symbol else name),
           qt_price = of_fixed price, qt_currency = currency,
           qt_market_time = parse_tencent_market_time (if 30 < length fields then Some (fields ! 30) else None)\<rparr>))))"

definition tencent_fetch_quote :: "upstream \<Rightarrow> pystr \<Rightarrow> nat \<Rightarrow> market_error + quote" where
  "tencent_fetch_quote U symbol sent =
     bindE (raising (normalize_symbol symbol)) (\<lambda>normalized_symbol.
     bindE (build_tencent_symbol normalized_symbol) (\<lambda>(tencent_symbol, currency).
     case up_get U (TENCENT_QUOTE_URL @ tencent_symbol) [] sent of
       Inl e \<Rightarrow> Inl (Lookup (lit ''Tencent quote request failed for '' @ normalized_symbol @ lit '' (''
         @ describe_http_error e @ lit '').''))
     | Inr reply \<Rightarrow> tencent_quote_of normalized_symbol currency (rp_gbk reply)))"

section \<open>Bitget\<close>

definition BITGET_TICKER_URL :: pystr where "BITGET_TICKER_URL = lit ''https://api.bitget.com/api/v2/spot/market/tickers''"

definition BITGET_STABLE_QUOTES :: "pystr list" where "BITGET_STABLE_QUOTES = [lit ''USDT'', lit ''USDC'']"

definition bitget_quote_of :: "upstream \<Rightarrow> pystr \<Rightarrow> pystr \<Rightarrow> json \<Rightarrow> market_error + quote" where
  "bitget_quote_of U normalized_symbol base payload =
     (let incomplete = lit ''Incomplete Bitget quote data returned for '' @ normalized_symbol @ lit ''.'' in
      bindE (get_key payload (lit ''code'')) (\<lambda>code.
      bindE (lookup_unless (text_or_empty U code \<in> {[], lit ''00000''})
        (lit ''Bitget quote request failed for '' @ normalized_symbol @ lit ''.'')) (\<lambda>_.
      bindE (get_key payload (lit ''data'')) (\<lambda>found.
      let data = (case or_json found (JObj []) of JList js \<Rightarrow> (case js of [] \<Rightarrow> JObj [] | j # _ \<Rightarrow> j) | j \<Rightarrow> j) in
      bindE (get_key data (lit ''close'')) (\<lambda>close.
      bindE (get_key data (lit ''lastPr'')) (\<lambda>lastPr.
      bindE (get_key data (lit ''last'')) (\<lambda>last_price.
      let raw_price = or_json (or_json close lastPr) last_price in
      bindE (lookup_unless (\<not> (is_none_or_zero raw_price \<or> raw_price \<in> {JStr [], JStr (lit ''0'')}))
        (lit ''No Bitget quote data returned for '' @ normalized_symbol @ lit ''.'')) (\<lambda>_.
      bindE (or_lookup_error (quantized_value raw_price) incomplete) (\<lambda>price.
      bindE (lookup_unless (0 < price) incomplete) (\<lambda>_.
      bindE (get_key data (lit ''ts'')) (\<lambda>ts.
      bindE (get_key data (lit ''timestamp'')) (\<lambda>timestamp.
      bindE (get_key payload (lit ''requestTime'')) (\<lambda>requestTime.
      bindE (parse_epoch_millis (or_json (or_json ts timestamp) requestTime)) (\<lambda>market_time.
      Inr \<lparr>qt_symbol = normalized_symbol, qt_name = base, qt_price = of_fixed price, qt_currency = lit ''USD'',
           qt_market_time = market_time\<rparr>))))))))))))))"

definition bitget_fetch_quote :: "upstream \<Rightarrow> datetime \<Rightarrow> pystr \<Rightarrow> nat \<Rightarrow> market_error + quote" where
  "bitget_fetch_quote U now symbol sent =
     bindE (raising (normalize_symbol_for_market symbol (Some (lit ''CRYPTO'')))) (\<lambda>normalized_symbol.
     let base = takeWhile (\<lambda>c. c \<noteq> 45) normalized_symbol in
     if base \<in> set BITGET_STABLE_QUOTES
     then Inr \<lparr>qt_symbol = normalized_symbol, qt_name = (if base = lit ''USDT'' then lit ''Tether USDt'' else lit ''USD Coin''),
       qt_price = Dec 1 0, qt_currency = lit ''USD'', qt_market_time = Some now\<rparr>
     else bindE (raising (build_bitget_symbol normalized_symbol)) (\<lambda>bitget_symbol.
       case up_get U BITGET_TICKER_URL [(lit ''symbol'', bitget_symbol)] sent of
         Inl e \<Rightarrow> Inl (Lookup (lit ''Bitget quote request failed for '' @ normalized_symbol @ lit ''.''))
       | Inr reply \<Rightarrow> bindE (json_body reply) (bitget_quote_of U normalized_symbol base)))"

section \<open>Search\<close>

definition SEARCHABLE_QUOTE_TYPES :: "pystr list" where
  "SEARCHABLE_QUOTE_TYPES = map lit [''EQUITY'', ''ETF'', ''MUTUALFUND'', ''CRYPTOCURRENCY'']"

definition yahoo_search_item :: "upstream \<Rightarrow> pystr list \<Rightarrow> json \<Rightarrow> market_error + search_result option" where
  \<comment> \<open>an item of the loop; \<open>None\<close> is \<open>continue\<close>\<close>
  "yahoo_search_item U seen_symbols item =
     bindE (get_key item (lit ''symbol'')) (\<lambda>symbol_value.
     bindE (get_key item (lit ''quoteType'')) (\<lambda>type_value.
     let raw_symbol = text_or_empty U symbol_value; quote_type = py_upper (text_or_empty U type_value) in
     if raw_symbol = [] \<or> quote_type \<noteq> [] \<and> quote_type \<notin> set SEARCHABLE_QUOTE_TYPES then Inr None
     else case normalize_symbol_for_market raw_symbol
         (if quote_type = lit ''CRYPTOCURRENCY'' then Some (lit ''CRYPTO'') else None) of
       Inl e \<Rightarrow> Inr None
     | Inr symbol \<Rightarrow>
         if symbol \<in> set seen_symbols then Inr None
         else bindE (get_key item (lit ''shortname'')) (\<lambda>short.
           bindE (get_key item (lit ''longname'')) (\<lambda>long.
           bindE (get_key item (lit ''exchange'')) (\<lambda>exchange_value.
           bindE (get_key item (lit ''currency'')) (\<lambda>currency_value.
           let name = py_strip (json_text U (or_json (or_json short long) (JStr symbol)));
               exchange = (let x = text_or_empty U exchange_value in if x = [] then None else Some x);
               market = infer_security_market symbol exchange (Some quote_type);
               currency = py_upper (text_or_empty U currency_value)
           in Inr (if market = lit ''OTHER'' then None
              else Some \<lparr>sr_symbol = symbol, sr_name = name, sr_market = market,
                sr_currency = (if currency = [] then default_currency_for_market market else currency),
                sr_exchange = exchange, sr_source = Some (lit ''Yahoo Finance'')\<rparr>)))))))"

fun search_items ::
  "(pystr list \<Rightarrow> json \<Rightarrow> market_error + search_result option) \<Rightarrow> pystr list \<Rightarrow> json list \<Rightarrow> market_error + search_result list" where
  \<comment> \<open>the loop over the items of both providers, with the symbols it has seen\<close>
  "search_items parse seen_symbols [] = Inr []"
| "search_items parse seen_symbols (item # rest) =
     bindE (parse seen_symbols item) (\<lambda>found. case found of
       None \<Rightarrow> search_items parse seen_symbols rest
     | Some r \<Rightarrow> bindE (search_items parse (sr_symbol r # seen_symbols) rest) (\<lambda>rs. Inr (r # rs)))"

definition search_reply :: "http_failure + http_reply \<Rightarrow> pystr \<Rightarrow> pystr \<Rightarrow> market_error + json" where
  "search_reply answer service query = (case answer of
       Inl e \<Rightarrow> Inl (Lookup (service @ lit '' request failed for '' @ query @ lit ''.''))
     | Inr reply \<Rightarrow> or_lookup_error (rp_json reply) (service @ lit '' returned invalid data for '' @ query @ lit ''.''))"

definition search_list ::
  "(pystr list \<Rightarrow> json \<Rightarrow> market_error + search_result option) \<Rightarrow> pystr \<Rightarrow> pystr \<Rightarrow> json \<Rightarrow> market_error + search_result list" where
  "search_list parse service query items = (case items of
       JNull \<Rightarrow> Inr []
     | JList js \<Rightarrow> search_items parse [] js
     | _ \<Rightarrow> Inl (Lookup (service @ lit '' returned invalid data for '' @ query @ lit ''.'')))"

definition item_or_none :: "json \<Rightarrow> pystr \<Rightarrow> json \<Rightarrow> json" where
  \<comment> \<open>\<open>value.get(key) if isinstance(value, dict) else default\<close>\<close>
  "item_or_none j k fallback_value = (case j of JObj kvs \<Rightarrow> (case map_of kvs k of None \<Rightarrow> JNull | Some v \<Rightarrow> v) | _ \<Rightarrow> fallback_value)"

definition yahoo_search :: "upstream \<Rightarrow> pystr \<Rightarrow> nat \<Rightarrow> market_error + search_result list" where
  "yahoo_search U query sent =
     (if py_strip query = [] then Inr []
      else bindE (search_reply (up_get U (lit ''https://query1.finance.yahoo.com/v1/finance/search'')
          [(lit ''q'', query), (lit ''quotesCount'', lit ''8''), (lit ''newsCount'', lit ''0''),
           (lit ''enableFuzzyQuery'', lit ''false'')] sent) (lit ''Security search'') query) (\<lambda>payload.
        search_list (yahoo_search_item U) (lit ''Security search'') query
          (item_or_none payload (lit ''quotes'') (JList []))))"

definition eastmoney_search_item :: "upstream \<Rightarrow> pystr list \<Rightarrow> json \<Rightarrow> market_error + search_result option" where
  "eastmoney_search_item U seen_symbols item =
     (let field = (\<lambda>k. bindE (get_key item (lit k)) (\<lambda>j. Inr (if truthy j then Some (json_text U j) else None))) in
      bindE (field ''Code'') (\<lambda>code. bindE (field ''Name'') (\<lambda>name. bindE (field ''QuoteID'') (\<lambda>quote_id.
      bindE (field ''Classify'') (\<lambda>classify. bindE (field ''JYS'') (\<lambda>jys.
      bindE (raising (parse_eastmoney_search_item \<lparr>em_code = code, em_name = name, em_quote_id = quote_id,
        em_classify = classify, em_jys = jys\<rparr>)) (\<lambda>parsed_result.
      Inr (case parsed_result of None \<Rightarrow> None
        | Some r \<Rightarrow> if sr_symbol r \<in> set seen_symbols then None else Some r))))))))"

definition EASTMONEY_SEARCH_URL :: pystr where
  "EASTMONEY_SEARCH_URL = lit ''https://searchapi.eastmoney.com/api/suggest/get''"

definition eastmoney_search_params :: "pystr \<Rightarrow> (pystr \<times> pystr) list" where
  "eastmoney_search_params query = [(lit ''input'', query), (lit ''type'', lit ''14''), (lit ''count'', lit ''10''),
     (lit ''token'', lit ''D43BF722C8E33BDC906FB84D85E326E8'')]"

definition eastmoney_search :: "upstream \<Rightarrow> pystr \<Rightarrow> nat \<Rightarrow> market_error + search_result list" where
  "eastmoney_search U query sent =
     (if py_strip query = [] then Inr []
      else bindE (search_reply (up_get U EASTMONEY_SEARCH_URL (eastmoney_search_params query) sent) (lit ''Eastmoney search'') query) (\<lambda>payload.
        search_list (eastmoney_search_item U) (lit ''Eastmoney search'') query
          (item_or_none (item_or_none payload (lit ''QuotationCodeTable'') (JObj [])) (lit ''Data'') (JList []))))"

section \<open>Exchange rates\<close>

definition rate_failure :: "pystr \<Rightarrow> pystr \<Rightarrow> pystr \<Rightarrow> pystr" where
  "rate_failure text from_currency to_currency = text @ from_currency @ lit ''/'' @ to_currency @ lit ''.''"

definition rate_body :: "http_failure + http_reply \<Rightarrow> pystr \<Rightarrow> pystr \<Rightarrow> market_error + json" where
  \<comment> \<open>the client takes the \<open>ValueError\<close> of a body that is not JSON for a lookup error\<close>
  "rate_body answer from_currency to_currency = (case answer of
       Inl e \<Rightarrow> Inl (Lookup (rate_failure (lit ''FX provider request failed for '') from_currency to_currency))
     | Inr reply \<Rightarrow> (case rp_json reply of Inl m \<Rightarrow> Inl (Lookup m) | Inr payload \<Rightarrow> Inr payload))"

definition rate_of :: "pystr \<Rightarrow> pystr \<Rightarrow> json \<Rightarrow> market_error + dec" where
  "rate_of from_currency to_currency payload =
     bindE (get_or payload (lit ''rates'') (JObj [])) (\<lambda>rates.
     bindE (get_key rates to_currency) (\<lambda>rate.
     bindE (lookup_unless (\<not> is_none_or_zero rate) (rate_failure (lit ''No FX rate returned for '') from_currency to_currency)) (\<lambda>_.
     bindE (raising (liftA (quantized_value rate))) (\<lambda>r. Inr (of_fixed r)))))"

definition frankfurter_fetch_rate :: "upstream \<Rightarrow> pystr \<Rightarrow> pystr \<Rightarrow> nat \<Rightarrow> market_error + dec" where
  "frankfurter_fetch_rate U from_currency to_currency sent =
     bindE (rate_body (up_get U (lit ''https://api.frankfurter.dev/v1/latest'')
       [(lit ''base'', from_currency), (lit ''symbols'', to_currency)] sent) from_currency to_currency)
       (rate_of from_currency to_currency)"

definition open_exchange_fetch_rate :: "upstream \<Rightarrow> pystr \<Rightarrow> pystr \<Rightarrow> nat \<Rightarrow> market_error + dec" where
  "open_exchange_fetch_rate U from_currency to_currency sent =
     bindE (rate_body (up_get U (lit ''https://open.er-api.com/v6/latest/'' @ from_currency) [] sent) from_currency to_currency)
     (\<lambda>payload. bindE (get_key payload (lit ''result'')) (\<lambda>found.
     let result = py_lower (text_or_empty U found) in
     bindE (lookup_unless (result = [] \<or> result = lit ''success'')
       (rate_failure (lit ''No FX rate returned for '') from_currency to_currency)) (\<lambda>_.
     rate_of from_currency to_currency payload)))"

section \<open>The providers of the client\<close>

fun quote_from :: "upstream \<Rightarrow> datetime \<Rightarrow> quote_provider \<Rightarrow> pystr \<Rightarrow> nat \<Rightarrow> market_error + quote" where
  "quote_from U now YAHOO = yahoo_fetch_quote U"
| "quote_from U now EASTMONEY = eastmoney_fetch_quote U now"
| "quote_from U now TENCENT = tencent_fetch_quote U"
| "quote_from U now BITGET = bitget_fetch_quote U now"

fun rate_from :: "upstream \<Rightarrow> rate_provider \<Rightarrow> pystr \<Rightarrow> pystr \<Rightarrow> nat \<Rightarrow> market_error + dec" where
  "rate_from U FRANKFURTER = frankfurter_fetch_rate U"
| "rate_from U OPEN_EXCHANGE = open_exchange_fetch_rate U"

definition network :: "upstream \<Rightarrow> datetime \<Rightarrow> providers" where
  "network U now = \<lparr>ask_quote = quote_from U now, ask_rate = rate_from U, ask_chart = up_chart U,
     ask_china_search = eastmoney_search U, ask_global_search = yahoo_search U\<rparr>"

end
