(* ===== verification/Provider_Properties.thy ===== *)
theory Provider_Properties
  imports Providers Market_Properties History_Properties
begin

text \<open>
  Properties of the quote, search and rate providers, and of the market data client on top of them.
\<close>

section \<open>Quotes\<close>

lemma raising_eq_Inr [simp]: "raising m = Inr x \<longleftrightarrow> m = Inr x"
  by (auto simp: raising_def split: sum.splits)

lemma or_lookup_error_eq_Inr [simp]: "or_lookup_error m message = Inr x \<longleftrightarrow> m = Inr x"
  by (auto simp: or_lookup_error_def split: sum.splits)

lemma lookup_unless_eq_Inr [simp]: "lookup_unless ok message = Inr u \<longleftrightarrow> ok"
  by (simp add: lookup_unless_def)

lemma answered [simp]: "(case m of Inl e \<Rightarrow> Inl (g e) | Inr x \<Rightarrow> f x) = Inr y \<longleftrightarrow> (\<exists>x. m = Inr x \<and> f x = Inr y)"
  by (cases m) auto

lemma bitget_reply: "bitget_quote_of U s base payload = Inr q \<Longrightarrow> qt_symbol q = s \<and> 0 < coeff (qt_price q) \<and> qt_currency q = lit ''USD''"
  by (auto simp: bitget_quote_of_def bindE_eq_Inr Let_def of_fixed_def)

lemma bitget_pair:
  assumes "bitget_fetch_quote U now symbol n = Inr q"
  shows "normalize_symbol_for_market symbol (Some (lit ''CRYPTO'')) = Inr (qt_symbol q) \<and> 0 < coeff (qt_price q)
    \<and> qt_currency q = lit ''USD''"
  using assms by (auto simp: bitget_fetch_quote_def bindE_eq_Inr Let_def dest!: bitget_reply split: if_splits)

lemma eastmoney_reply:
  "eastmoney_quote_of U now s payload = Inr q \<Longrightarrow> qt_symbol q = s \<and> 0 < coeff (qt_price q)
    \<and> qt_currency q = (if ends_with (lit ''.HK'') s then lit ''HKD'' else lit ''CNY'')"
  by (auto simp: eastmoney_quote_of_def bindE_eq_Inr Let_def of_fixed_def)

lemma eastmoney_share:
  assumes "eastmoney_fetch_quote U now symbol n = Inr q"
  shows "normalize_symbol symbol = Inr (qt_symbol q) \<and> 0 < coeff (qt_price q)
    \<and> qt_currency q = (if ends_with (lit ''.HK'') (qt_symbol q) then lit ''HKD'' else lit ''CNY'')"
  using assms by (auto simp: eastmoney_fetch_quote_def bindE_eq_Inr dest!: eastmoney_reply)

lemma tencent_reply:
  "tencent_quote_of s currency body = Inr q \<Longrightarrow> qt_symbol q = s \<and> 0 < coeff (qt_price q) \<and> qt_currency q = currency"
  by (auto simp: tencent_quote_of_def bindE_eq_Inr Let_def of_fixed_def)

lemma tencent_share:
  assumes "tencent_fetch_quote U symbol n = Inr q"
  shows "normalize_symbol symbol = Inr (qt_symbol q) \<and> 0 < coeff (qt_price q)
    \<and> qt_currency q = (if ends_with (lit ''.HK'') (qt_symbol q) then lit ''HKD'' else lit ''CNY'')"
proof -
  from assms obtain s t u body where s: "normalize_symbol symbol = Inr s" "build_tencent_symbol s = Inr (t, u)"
      "tencent_quote_of s u body = Inr q"
    by (auto simp: tencent_fetch_quote_def bindE_eq_Inr)
  from s(1) have "normalize_symbol s = Inr s" by (rule normal_symbols_are_fixed)
  with s(2) have "u = (if ends_with (lit ''.HK'') s then lit ''HKD'' else lit ''CNY'')"
    by (auto simp: build_tencent_symbol_def bindE_eq_Inr split: if_splits)
  with s(1) tencent_reply [OF s(3)] show ?thesis by auto
qed

definition wants :: "quote_provider \<Rightarrow> pystr \<Rightarrow> error + pystr" where
  "wants p symbol = (if p = BITGET then normalize_symbol_for_market symbol (Some (lit ''CRYPTO'')) else normalize_symbol symbol)"

text \<open>
  C19: a quote of Eastmoney, Tencent or Bitget is of the symbol that was asked for, in its canonical form, has
  a price above zero and is in the currency of its market; what the service answered does not matter.
\<close>

theorem provider_quotes_are_sane:
  assumes "p \<noteq> YAHOO" "ask_quote (network U now) p symbol n = Inr q"
  shows "wants p symbol = Inr (qt_symbol q) \<and> dec_less (Dec 0 0) (qt_price q)
    \<and> qt_currency q = (if p = BITGET then lit ''USD'' else if ends_with (lit ''.HK'') (qt_symbol q) then lit ''HKD'' else lit ''CNY'')"
  using assms tencent_share [of U symbol n q] eastmoney_share [of U now symbol n q] bitget_pair [of U now symbol n q]
  by (cases p) (auto simp: network_def wants_def dec_less_def scale_to_def)

section \<open>Outages\<close>

definition unplugged :: "upstream \<Rightarrow> bool" where
  \<comment> \<open>every request fails\<close>
  "unplugged U \<longleftrightarrow> (\<forall>url params n. \<exists>e. up_get U url params n = Inl e)"

lemma unplugged_get:
  assumes "unplugged U"
  obtains e where "up_get U url params n = Inl e"
  using assms unfolding unplugged_def by blast

lemma unplugged_request: "unplugged U \<Longrightarrow> \<exists>m. request_json U url s params label n = Inl (Lookup m)"
  by (erule unplugged_get [of U url params n]) (simp add: request_json_def)

lemma unplugged_yahoo:
  assumes "unplugged U"
  shows "\<exists>m. yahoo_fetch_quote U s n = Inl (Lookup m)"
proof -
  obtain m1 where "request_json U YAHOO_QUOTE_URL s [(lit ''symbols'', s)] (lit ''Yahoo quote'') n = Inl (Lookup m1)"
    using unplugged_request [OF assms] by blast
  moreover obtain m2 where "request_json U (YAHOO_CHART_URL @ lit ''/'' @ s) s
      [(lit ''interval'', lit ''1d''), (lit ''range'', lit ''1d''), (lit ''includePrePost'', lit ''false''),
       (lit ''events'', lit ''history'')] (lit ''Yahoo chart quote fallback'') n = Inl (Lookup m2)"
    using unplugged_request [OF assms] by blast
  ultimately show ?thesis by (simp add: yahoo_fetch_quote_def)
qed

lemma unplugged_eastmoney:
  assumes "unplugged U" "normalize_symbol s = Inr s"
  shows "\<exists>m. eastmoney_fetch_quote U now s n = Inl (Lookup m)"
proof (cases "build_eastmoney_secid s")
  case (Inl e)
  then show ?thesis by (simp add: eastmoney_fetch_quote_def or_lookup_error_def)
next
  case (Inr secid)
  obtain e where "up_get U EASTMONEY_QUOTE_URL [(lit ''secid'', secid), (lit ''fields'', lit ''f43,f57,f58'')] n = Inl e"
    by (rule unplugged_get [OF assms(1)])
  with Inr assms(2) show ?thesis by (simp add: eastmoney_fetch_quote_def or_lookup_error_def raising_def)
qed

lemma unplugged_tencent:
  assumes "unplugged U" "normalize_symbol s = Inr s"
  shows "\<exists>m. tencent_fetch_quote U s n = Inl (Lookup m)"
proof (cases "build_tencent_symbol s")
  case (Inl e)
  with assms(2) obtain m where "e = Lookup m" by (auto simp: build_tencent_symbol_def raising_def split: if_splits)
  with Inl assms(2) show ?thesis by (simp add: tencent_fetch_quote_def raising_def)
next
  case (Inr tc)
  obtain t u where "tc = (t, u)" by (cases tc)
  moreover obtain e where "up_get U (TENCENT_QUOTE_URL @ t) [] n = Inl e" by (rule unplugged_get [OF assms(1)])
  ultimately show ?thesis using Inr assms(2) by (simp add: tencent_fetch_quote_def raising_def)
qed

lemma clean_idem: "py_upper (py_strip (py_upper (py_strip s))) = py_upper (py_strip s)"
  by (simp add: py_strip_upper)

lemma target_is_normal: "quote_target symbol market = Inr (s, r) \<Longrightarrow> r \<noteq> lit ''CRYPTO'' \<Longrightarrow> normalize_symbol s = Inr s"
proof -
  have none: "py_upper (py_strip []) = []" "lit ''CRYPTO'' \<noteq> []" "[] \<noteq> lit ''CRYPTO''"
    by (simp_all add: eval_text lit_Cons)
  show "quote_target symbol market = Inr (s, r) \<Longrightarrow> r \<noteq> lit ''CRYPTO'' \<Longrightarrow> normalize_symbol s = Inr s"
    by (auto simp: quote_target_def Let_def bindE_eq_Inr normalize_symbol_for_market_def clean_idem none
        dest: normal_symbols_are_fixed split: if_splits option.splits)
qed

lemma unplugged_sources_down:
  assumes "unplugged U" "quote_target symbol market = Inr (s, r)" "r \<noteq> lit ''CRYPTO''"
  shows "sources_down (network U now) s r"
  using unplugged_yahoo [OF assms(1), of s] unplugged_eastmoney [OF assms(1) target_is_normal [OF assms(2,3)]]
    unplugged_tencent [OF assms(1) target_is_normal [OF assms(2,3)]] assms(3)
  by (auto simp: sources_down_def resolve_quote_provider_chain_def network_def)

theorem share_quote_survives_network_outage:
  assumes "quote_target symbol market = Inr (s, r)" "r \<noteq> lit ''CRYPTO''"
    and "fetch_quote (network U now) now symbol market prefer_stale schedule c = (Inr (q, []), c1)" "mc_sent c < mc_sent c1"
    and "now \<le> later" "later < now + 6 * US_HOUR" "unplugged U'"
  shows "\<exists>warnings' c2. fetch_quote (network U' later) later symbol market prefer_stale' schedule' c1 = (Inr (q, warnings'), c2)
    \<and> (later < now + QUOTE_TTL \<longrightarrow> warnings' = [] \<and> c2 = c1)"
  by (rule quote_outlives [OF assms(1,3-6) unplugged_sources_down [OF assms(7,1,2)]])

section \<open>Texts of Tencent\<close>

lemma split_on_append: "c \<notin> set f \<Longrightarrow> split_on c (f @ c # rest) = f # split_on c rest"
  by (induction f) auto

lemma split_on_none: "c \<notin> set f \<Longrightarrow> split_on c f = [f]"
  by (induction f) auto

fun joined :: "nat \<Rightarrow> pystr list \<Rightarrow> pystr" where
  "joined c [] = []"
| "joined c [f] = f"
| "joined c (f # g # fs) = f @ c # joined c (g # fs)"

lemma split_joined: "fs \<noteq> [] \<Longrightarrow> (\<And>f. f \<in> set fs \<Longrightarrow> c \<notin> set f) \<Longrightarrow> split_on c (joined c fs) = fs"
  by (induction c fs rule: joined.induct) (simp_all add: split_on_none split_on_append)

definition tencent_line :: "pystr \<Rightarrow> pystr list \<Rightarrow> pystr" where
  \<comment> \<open>a line of the service: an assignment of a quoted text\<close>
  "tencent_line variable fs = variable @ lit ''=\"'' @ joined 126 fs @ lit ''\";'' @ [10]"

lemma strip_char_quoted:
  assumes "hd s \<noteq> c" "last s \<noteq> c" "s \<noteq> []"
  shows "strip_char c (c # s @ [c]) = s"
proof -
  have "dropWhile (\<lambda>d. d = c) s = s" using assms by (cases s) auto
  moreover have "dropWhile (\<lambda>d. d = c) (rev s) = rev s" using assms by (cases s rule: rev_cases) auto
  ultimately show ?thesis using assms(3) by (cases s) (auto simp: strip_char_def dropWhile_append)
qed

lemma joined_last: "fs \<noteq> [] \<Longrightarrow> last fs \<noteq> [] \<Longrightarrow> joined c fs \<noteq> [] \<and> last (joined c fs) = last (last fs)"
  by (induction c fs rule: joined.induct) auto

lemma joined_hd: "fs \<noteq> [] \<Longrightarrow> hd fs \<noteq> [] \<Longrightarrow> hd (joined c fs) = hd (hd fs)"
  by (induction c fs rule: joined.induct) auto

lemma tencent_fields_line:
  assumes "61 \<notin> set variable" "fs \<noteq> []" "\<And>f. f \<in> set fs \<Longrightarrow> 126 \<notin> set f"
    and "hd fs \<noteq> []" "last fs \<noteq> []" "hd (hd fs) \<noteq> 34" "last (last fs) \<noteq> 34"
  shows "tencent_fields (tencent_line variable fs) = fs"
proof -
  let ?s = "joined 126 fs"
  have ends: "?s \<noteq> []" "hd ?s \<noteq> 34" "last ?s \<noteq> 34" using joined_last [OF assms(2,5), of 126] joined_hd [OF assms(2,4), of 126] assms(6,7) by auto
  have "tl (dropWhile (\<lambda>c. c \<noteq> 61) (tencent_line variable fs)) = 34 # ?s @ [34, 59, 10]"
    using assms(1) by (simp add: tencent_line_def dropWhile_append lit_Cons dropWhile_eq_Nil_conv)
  moreover have "py_strip (34 # ?s @ [34, 59, 10]) = 34 # ?s @ [34, 59]"
    by (simp add: py_strip_def py_lstrip_def py_rstrip_def py_isspace_def)
  moreover have "strip_char 59 (34 # ?s @ [34, 59]) = 34 # ?s @ [34]"
    by (simp add: strip_char_def)
  moreover have "py_strip (34 # ?s @ [34]) = 34 # ?s @ [34]"
    by (simp add: py_strip_def py_lstrip_def py_rstrip_def py_isspace_def)
  ultimately show ?thesis
    using strip_char_quoted [OF ends(2,3,1)] split_joined [of fs 126] assms(2,3) by (simp add: tencent_fields_def)
qed

theorem tencent_reads_its_lines:
  assumes "61 \<notin> set variable" "\<And>f. f \<in> set fs \<Longrightarrow> 126 \<notin> set f"
    and "hd fs \<noteq> []" "last fs \<noteq> []" "hd (hd fs) \<noteq> 34" "last (last fs) \<noteq> 34"
    and "3 < length fs" "quantized_value (JStr (fs ! 3)) = Inr price" "0 < price" "py_strip (fs ! 1) \<noteq> []"
  shows "tencent_quote_of s currency (tencent_line variable fs) =
    Inr \<lparr>qt_symbol = s, qt_name = py_strip (fs ! 1), qt_price = of_fixed price, qt_currency = currency,
      qt_market_time = parse_tencent_market_time (if 30 < length fs then Some (fs ! 30) else None)\<rparr>"
proof -
  have "tencent_fields (tencent_line variable fs) = fs"
    using assms(7) by (intro tencent_fields_line assms) auto
  moreover have "61 \<in> set (tencent_line variable fs)" by (simp add: tencent_line_def lit_Cons)
  ultimately show ?thesis
    using assms(7-) by (simp add: tencent_quote_of_def Let_def lookup_unless_def or_lookup_error_def)
qed

section \<open>Numbers\<close>

lemma show_nat_plain:
  assumes "c \<in> set (show_nat n)"
  shows "is_digit c \<and> \<not> py_isspace c \<and> c \<noteq> 95 \<and> c \<noteq> 43 \<and> c \<noteq> 45 \<and> lower_char c \<noteq> 101"
  using show_nat_digits [OF assms] digit_value_ascii [of "c - 48"] by (auto simp: is_digit_def py_isspace_def lower_char_def)

lemma show_nat_ne: "show_nat n \<noteq> []"
  by (subst show_nat.simps) simp

lemma takeWhile_same: "(\<And>x. x \<in> set xs \<Longrightarrow> P x) \<Longrightarrow> takeWhile P xs = xs"
  by (simp add: takeWhile_eq_all_conv)

lemma strip_same:
  assumes "s \<noteq> []" "\<not> py_isspace (hd s)" "\<not> py_isspace (last s)"
  shows "py_strip s = s"
proof -
  have "py_lstrip s = s" using assms(1,2) by (cases s) (auto simp: py_lstrip_def)
  moreover have "py_rstrip s = s" using assms(1,3) by (cases s rule: rev_cases) (auto simp: py_rstrip_def)
  ultimately show ?thesis by (simp add: py_strip_def)
qed

lemma show_nat_parts:
  "takeWhile is_digit (show_nat m) = show_nat m" "takeWhile (\<lambda>c. lower_char c \<noteq> 101) (show_nat m) = show_nat m"
  "filter (\<lambda>c. c \<noteq> 95) (show_nat m) = show_nat m" "signed_part (show_nat m) = (1, show_nat m)"
proof -
  note plain = show_nat_plain [of _ m]
  show "takeWhile is_digit (show_nat m) = show_nat m" by (rule takeWhile_same) (use plain in blast)
  show "takeWhile (\<lambda>c. lower_char c \<noteq> 101) (show_nat m) = show_nat m" by (rule takeWhile_same) (use plain in blast)
  show "filter (\<lambda>c. c \<noteq> 95) (show_nat m) = show_nat m" by (rule filter_True) (use plain in blast)
  from plain [OF hd_in_set [OF show_nat_ne]] show "signed_part (show_nat m) = (1, show_nat m)"
    by (cases "show_nat m") (auto simp: signed_part_def show_nat_ne)
qed

theorem integers_are_read_back: "decimal_of_text (show_int n) = Some (Dec n 0)"
proof -
  have unsigned: "unsigned_decimal (show_nat m) = Some (int m, 0)" for m
    by (simp add: unsigned_decimal_def show_nat_parts show_nat_ne int_of_show Let_def del: takeWhile_eq_all_conv)
  have stripped: "py_strip (show_int n) = show_int n"
    using show_nat_plain [OF hd_in_set [OF show_nat_ne]] show_nat_plain [OF last_in_set [OF show_nat_ne]]
    by (intro strip_same) (auto simp: show_int_def show_nat_ne lit_Cons py_isspace_def)
  show ?thesis
    by (simp add: decimal_of_text_def stripped)
      (simp add: show_int_def lit_Cons show_nat_parts unsigned exponent_part_def signed_part_def [of "45 # _"] Let_def)
qed

section \<open>Search\<close>

lemma search_items_distinct:
  assumes "\<And>seen item r. parse seen item = Inr (Some r) \<Longrightarrow> sr_symbol r \<notin> set seen"
  shows "search_items parse seen items = Inr rs \<Longrightarrow> distinct (map sr_symbol rs) \<and> set (map sr_symbol rs) \<inter> set seen = {}"
proof (induction items arbitrary: seen rs)
  case (Cons item items)
  from Cons.prems obtain found where f: "parse seen item = Inr found"
    and rest: "(case found of None \<Rightarrow> search_items parse seen items
      | Some r \<Rightarrow> bindE (search_items parse (sr_symbol r # seen) items) (\<lambda>rs. Inr (r # rs))) = Inr rs"
    by (auto simp: bindE_eq_Inr)
  show ?case
  proof (cases found)
    case None
    with rest Cons.IH show ?thesis by simp
  next
    case (Some r)
    with rest obtain rs' where rs: "search_items parse (sr_symbol r # seen) items = Inr rs'" "rs = r # rs'"
      by (auto simp: bindE_eq_Inr)
    with Cons.IH [OF rs(1)] assms f Some show ?thesis by auto
  qed
qed simp

lemma yahoo_item_new: "yahoo_search_item U seen item = Inr (Some r) \<Longrightarrow> sr_symbol r \<notin> set seen"
  by (auto simp: yahoo_search_item_def bindE_eq_Inr Let_def split: if_splits sum.split_asm)

lemma eastmoney_item_new: "eastmoney_search_item U seen item = Inr (Some r) \<Longrightarrow> sr_symbol r \<notin> set seen"
  by (auto simp: eastmoney_search_item_def bindE_eq_Inr Let_def split: if_splits option.split_asm)

lemma search_list_distinct:
  assumes "\<And>seen item r. parse seen item = Inr (Some r) \<Longrightarrow> sr_symbol r \<notin> set seen"
    "search_list parse service query items = Inr rs"
  shows "distinct (map sr_symbol rs)"
  using assms(2) search_items_distinct [OF assms(1)] by (cases items) (auto simp: search_list_def)

theorem provider_searches_are_distinct:
  "(yahoo_search U query n = Inr rs \<longrightarrow> distinct (map sr_symbol rs)) \<and> (eastmoney_search U query n = Inr rs \<longrightarrow> distinct (map sr_symbol rs))"
  using search_list_distinct [OF yahoo_item_new] search_list_distinct [OF eastmoney_item_new]
  by (auto simp: yahoo_search_def eastmoney_search_def bindE_eq_Inr split: if_splits)

lemma keep_unseen_distinct:
  "distinct (map dedupe_key (keep_unseen seen rs)) \<and> set (map dedupe_key (keep_unseen seen rs)) \<inter> set seen = {}"
proof (induction seen rs rule: keep_unseen.induct)
  case (2 seen r rs)
  then show ?case by (cases "dedupe_key r \<in> set seen") auto
qed simp

definition searches_distinct :: "market_client \<Rightarrow> bool" where
  "searches_distinct c \<longleftrightarrow> (\<forall>(k, rs, t) \<in> set (mc_searches c). distinct (map dedupe_key rs))"

lemma set_alist_update: "set (AList.update k v al) \<subseteq> insert (k, v) (set al)"
  by (induction al) auto

lemma search_cached:
  "ttl_get now (mc_searches c) (py_lower (py_strip query)) = Some rs \<Longrightarrow>
    search_securities net now query c = (if py_strip query = [] then (Inr [], c) else (Inr rs, c))"
  by (simp add: search_securities_def Let_def)

lemma search_asks:
  assumes "ttl_get now (mc_searches c) (py_lower (py_strip query)) = None" "py_strip query \<noteq> []"
  obtains e where "search_securities net now query c = (Inl e, c)"
  | a b where "search_securities net now query c = (Inr (merge_search_results a b),
      c\<lparr>mc_searches := ttl_set now (py_lower (py_strip query)) (merge_search_results a b) SEARCH_TTL (mc_searches c)\<rparr>)"
  using assms by (fastforce simp: search_securities_def Let_def bindE_def split: sum.splits)

theorem searches_have_no_duplicates:
  assumes "searches_distinct c" "search_securities net now query c = (answer, c1)"
  shows "searches_distinct c1 \<and> (\<forall>rs. answer = Inr rs \<longrightarrow> distinct (map dedupe_key rs))"
proof (cases "py_strip query = []")
  case True
  with assms show ?thesis by (auto simp: search_securities_def)
next
  case asked: False
  show ?thesis
  proof (cases "ttl_get now (mc_searches c) (py_lower (py_strip query))")
    case (Some rs)
    then obtain t where "(py_lower (py_strip query), rs, t) \<in> set (mc_searches c)"
      by (auto simp: ttl_get_def dest: map_of_SomeD split: option.split_asm if_splits)
    with assms asked search_cached [OF Some] show ?thesis by (auto simp: searches_distinct_def)
  next
    case None
    have new: "distinct (map dedupe_key (merge_search_results a b))" for a b
      using keep_unseen_distinct [of "[]"] by (simp add: merge_search_results_def)
    have "searches_distinct (c\<lparr>mc_searches := ttl_set now k (merge_search_results a b) SEARCH_TTL (mc_searches c)\<rparr>)" for k a b
      using assms(1) new set_alist_update [of k "(merge_search_results a b, now + SEARCH_TTL)" "mc_searches c"]
      by (auto simp: searches_distinct_def ttl_set_def)
    with new assms show ?thesis
      by (cases rule: search_asks [OF None asked, of net]) auto
  qed
qed

lemma search_items_error:
  assumes "\<And>seen. parse seen item = Inl e"
  shows "search_items parse seen pre = Inr rs \<Longrightarrow> search_items parse seen (pre @ item # post) = Inl e"
proof (induction pre arbitrary: seen rs)
  case (Cons i pre)
  from Cons.prems obtain found where "parse seen i = Inr found" by (auto simp: bindE_eq_Inr)
  with Cons show ?case by (cases found) (auto simp: bindE_eq_Inr)
qed (simp add: assms)

definition us_item :: "pystr \<Rightarrow> pystr \<Rightarrow> json" where
  \<comment> \<open>an American share among the suggestions of Eastmoney\<close>
  "us_item code name = JObj [(lit ''Code'', JStr code), (lit ''Name'', JStr name), (lit ''QuoteID'', JStr (lit ''106.'' @ code)),
     (lit ''Classify'', JStr (lit ''UsStock''))]"

definition suggestions :: "json list \<Rightarrow> http_reply" where
  "suggestions items = \<lparr>rp_json = Inr (JObj [(lit ''QuotationCodeTable'', JObj [(lit ''Data'', JList items)])]), rp_gbk = []\<rparr>"

lemma py_upper_eq_Nil: "py_upper s = [] \<longleftrightarrow> s = []"
  by (simp add: py_upper_def)

lemma py_upper_Nil: "py_upper (py_strip []) = []"
  by (simp add: eval_text)

lemma strip_106: "py_strip (49 # 48 # 54 # 46 # code) = 49 # 48 # 54 # 46 # py_rstrip code"
proof -
  have "dropWhile py_isspace (rev code @ [46, 54, 48, 49]) = dropWhile py_isspace (rev code) @ [46, 54, 48, 49]"
    by (auto simp: dropWhile_append py_isspace_def dropWhile_eq_Nil_conv)
  then show ?thesis by (simp add: py_strip_def py_lstrip_def py_rstrip_def py_isspace_def)
qed

lemma us_item_error:
  assumes "py_strip code \<noteq> []" "py_strip name \<noteq> []" "normalize_symbol code = Inl e"
  shows "eastmoney_search_item U seen (us_item code name) = Inl (Raised e)"
proof -
  have "code \<noteq> []" "name \<noteq> []" using assms(1,2) by (auto simp: py_strip_def py_lstrip_def py_rstrip_def)
  moreover have "normalize_symbol (py_upper (py_strip code)) = Inl e" using assms(3) by (simp add: normalize_symbol_def clean_idem)
  moreover have "py_upper (py_strip (lit ''UsStock'')) = lit ''USSTOCK''" by (simp add: eval_text upper_char_def)
  ultimately show ?thesis using assms(1,2)
    by (simp add: eastmoney_search_item_def us_item_def parse_eastmoney_search_item_def Let_def or_empty_def raising_def
      py_upper_Nil starts_with_def lit_Cons strip_106 py_upper_eq_Nil)
qed

text \<open>
  C20: one suggestion of Eastmoney that is an American share whose code has no canonical form (its codes of
  share classes have an underscore) makes the whole search fail with an unhandled \<open>ValueError\<close>, whatever
  else was found.
\<close>

theorem odd_code_fails_search:
  assumes "py_strip query \<noteq> []" "ttl_get now (mc_searches c) (py_lower (py_strip query)) = None"
    and "up_get U EASTMONEY_SEARCH_URL (eastmoney_search_params (py_strip query)) (mc_sent c)
      = Inr (suggestions (pre @ us_item code name # post))"
    and "search_items (eastmoney_search_item U) [] pre = Inr rs"
    and "py_strip code \<noteq> []" "py_strip name \<noteq> []" "normalize_symbol code = Inl e"
  shows "search_securities (network U now) now query c = (Inl e, c)"
proof -
  have "search_items (eastmoney_search_item U) [] (pre @ us_item code name # post) = Inl (Raised e)"
    by (rule search_items_error [OF us_item_error [OF assms(5-7)] assms(4)])
  then have "eastmoney_search U (py_strip query) (mc_sent c) = Inl (Raised e)"
    using assms(1,3) by (simp add: eastmoney_search_def search_reply_def or_lookup_error_def suggestions_def
        item_or_none_def search_list_def)
  then show ?thesis
    using assms(1,2) by (simp add: search_securities_def network_def no_results_on_lookup_error_def Let_def)
qed

definition answering :: "http_reply \<Rightarrow> upstream" where
  "answering reply = \<lparr>up_get = (\<lambda>url params n. Inr reply), up_chart = (\<lambda>s a b. Inr None), up_str = (\<lambda>j. [])\<rparr>"

theorem odd_code_fails_search_witness:
  "search_securities (network (answering (suggestions [us_item (lit ''BRK_A'') (lit ''Berkshire'')])) 0) 0 (lit ''brk'') new_client
    = (Inl ValueError, new_client)"
proof (rule odd_code_fails_search [where pre = "[]" and post = "[]" and rs = "[]"])
  show "normalize_symbol (lit ''BRK_A'') = Inl ValueError"
    by (simp add: normalize_symbol_def normalize_candidate_def is_fx_symbol_def starts_with_def ends_with_def digits_def
        is_digit_def digit_value_def ZERO_DIGITS_def is_ticker_def is_AZ_def is_AZ09_def eval_text upper_char_def)
  show "ttl_get 0 (mc_searches new_client) (py_lower (py_strip (lit ''brk''))) = None"
    by (simp add: ttl_get_def new_client_def)
  show "py_strip (lit ''Berkshire'') \<noteq> []" "py_strip (lit ''BRK_A'') \<noteq> []" "py_strip (lit ''brk'') \<noteq> []"
    by (simp_all add: py_strip_def py_lstrip_def py_rstrip_def lit_Cons py_isspace_def)
qed (simp_all add: answering_def)

definition tencent_answer :: http_reply where
  "tencent_answer = \<lparr>rp_json = Inl [], rp_gbk = tencent_line (lit ''v_hk00700'') [lit ''100'', lit ''TENCENT'', lit ''00700'', lit ''321.40'']\<rparr>"

definition tencent_quote :: quote where
  "tencent_quote = \<lparr>qt_symbol = lit ''0700.HK'', qt_name = lit ''TENCENT'', qt_price = of_fixed 32140000000, qt_currency = lit ''HKD'',
     qt_market_time = None\<rparr>"

lemma decimal_32140: "decimal_of_text (lit ''321.40'') = Some (Dec 32140 (-2))"
  by (simp add: decimal_of_text_def signed_part_def unsigned_decimal_def exponent_part_def is_digit_def digit_value_def
      ZERO_DIGITS_def int_of_digits_def lower_char_def eval_text Let_def)

lemma price_32140: "quantized_value (JStr (lit ''321.40'')) = Inr 32140000000"
  by (simp add: quantized_value_def decimal_32140 quantize_decimal_def dec_quantize_def scale_to_def ndigits.simps Let_def)

lemma tencent_answers: "ask_quote (network (answering tencent_answer) 0) TENCENT (lit ''hk700'') 0 = Inr tencent_quote"
proof -
  let ?fs = "[lit ''100'', lit ''TENCENT'', lit ''00700'', lit ''321.40'']"
  have "tencent_quote_of (lit ''0700.HK'') (lit ''HKD'') (tencent_line (lit ''v_hk00700'') ?fs) = Inr tencent_quote"
  proof (subst tencent_reads_its_lines [where price = 32140000000])
    have "py_strip (lit ''TENCENT'') = lit ''TENCENT''" by (simp add: py_strip_def py_lstrip_def py_rstrip_def py_isspace_def lit_Cons)
    then show "py_strip (?fs ! 1) \<noteq> []" "Inr \<lparr>qt_symbol = lit ''0700.HK'', qt_name = py_strip (?fs ! 1), qt_price = of_fixed 32140000000,
        qt_currency = lit ''HKD'', qt_market_time = parse_tencent_market_time (if 30 < length ?fs then Some (?fs ! 30) else None)\<rparr>
        = Inr tencent_quote"
      by (simp_all add: tencent_quote_def parse_tencent_market_time_def or_empty_def py_strip_def py_lstrip_def py_rstrip_def lit_Cons)
    show "quantized_value (JStr (?fs ! 3)) = Inr 32140000000" by (simp add: price_32140)
  qed (auto simp: lit_Cons)
  moreover have "build_tencent_symbol (lit ''0700.HK'') = Inr (lit ''hk00700'', lit ''HKD'')"
    by (simp add: build_tencent_symbol_def raising_def normal_symbols_are_fixed [OF symbol_hk700])
      (simp add: ends_with_def removesuffix_def zfill_def lit_Cons)
  ultimately show ?thesis
    by (simp add: network_def tencent_fetch_quote_def raising_def symbol_hk700 answering_def tencent_answer_def)
qed

theorem provider_quotes_are_sane_witness:
  "\<exists>q. ask_quote (network (answering tencent_answer) 0) TENCENT (lit ''hk700'') 0 = Inr q \<and> dec_less (Dec 0 0) (qt_price q)
    \<and> qt_symbol q = lit ''0700.HK'' \<and> qt_currency q = lit ''HKD''"
  using provider_quotes_are_sane [OF _ tencent_answers] tencent_answers by (auto simp: tencent_quote_def)

section \<open>A price that is no number\<close>

definition eastmoney_params :: "pystr \<Rightarrow> (pystr \<times> pystr) list" where
  "eastmoney_params secid = [(lit ''secid'', secid), (lit ''fields'', lit ''f43,f57,f58'')]"

definition priced :: "pystr \<Rightarrow> http_reply" where
  \<comment> \<open>an answer of Eastmoney with this text for a price\<close>
  "priced price = \<lparr>rp_json = Inr (JObj [(lit ''data'', JObj [(lit ''f43'', JStr price)])]), rp_gbk = []\<rparr>"

lemma eastmoney_raises:
  assumes "build_eastmoney_secid s = Inr secid" "normalize_symbol s = Inr s'" "decimal_of_text price = None"
    and "up_get U EASTMONEY_QUOTE_URL (eastmoney_params secid) n = Inr (priced price)"
  shows "eastmoney_fetch_quote U now s n = Inl (Raised (DecimalError InvalidOperation))"
  using assms
  by (simp add: eastmoney_fetch_quote_def eastmoney_quote_of_def priced_def json_body_def or_json_def lookup_unless_def
      eastmoney_params_def raising_def or_lookup_error_def Let_def)

text \<open>
  C18: a price of Eastmoney that is a text but no number (it sends a dash for a share that does not trade)
  ends the lookup of a quote with an unhandled error: Tencent and Yahoo are not asked, and a stale quote is
  not used.
\<close>

theorem dash_aborts_quote:
  assumes "quote_target symbol market = Inr (s, r)" "r \<in> {lit ''HK'', lit ''CN''}" "cache_get now (mc_quotes c) s = None"
    and "build_eastmoney_secid s = Inr secid" "decimal_of_text price = None"
    and "up_get U EASTMONEY_QUOTE_URL (eastmoney_params secid) (mc_sent c) = Inr (priced price)"
  shows "fetch_quote (network U now) now symbol market False schedule c =
    (Inl (Raised (DecimalError InvalidOperation)), c\<lparr>mc_sent := Suc (mc_sent c)\<rparr>)"
proof -
  from assms(1,2) have "normalize_symbol s = Inr s" by (intro target_is_normal) auto
  note raises = eastmoney_raises [OF assms(4) this assms(5,6)]
  have "fetch_quote_from_providers (network U now) s r (mc_sent c) = (Inl (Raised (DecimalError InvalidOperation)), Suc (mc_sent c))"
    using assms(2) by (simp add: fetch_quote_from_providers_def resolve_quote_provider_chain_def network_def raises with_retry.simps)
  with assms(1,3) show ?thesis by (simp add: fetch_quote_def split: option.split)
qed

lemma hk700_target: "quote_target (lit ''hk700'') (Some (lit ''HK'')) = Inr (lit ''0700.HK'', lit ''HK'')"
proof -
  have m: "py_upper (py_strip (lit ''HK'')) = lit ''HK''" "lit ''HK'' \<noteq> []" "lit ''HK'' \<noteq> lit ''CRYPTO''"
    by (simp_all add: eval_text upper_char_def)
  have "normalize_symbol (py_upper (py_strip (lit ''hk700''))) = Inr (lit ''0700.HK'')"
    using symbol_hk700 by (simp add: normalize_symbol_def clean_idem)
  with m show ?thesis by (simp add: quote_target_def normalize_symbol_for_market_def Let_def)
qed

theorem dash_aborts_quote_witness:
  "fetch_quote (network (answering (priced (lit ''-''))) 0) 0 (lit ''hk700'') (Some (lit ''HK'')) False True new_client
    = (Inl (Raised (DecimalError InvalidOperation)), new_client\<lparr>mc_sent := Suc (mc_sent new_client)\<rparr>)"
proof (rule dash_aborts_quote [OF hk700_target])
  show "build_eastmoney_secid (lit ''0700.HK'') = Inr (lit ''116.00700'')"
    by (simp add: build_eastmoney_secid_def normal_symbols_are_fixed [OF symbol_hk700])
      (simp add: ends_with_def removesuffix_def zfill_def lit_Cons)
  show "decimal_of_text (lit ''-'') = None"
    by (simp add: decimal_of_text_def signed_part_def unsigned_decimal_def eval_text)
  show "cache_get 0 (mc_quotes new_client) (lit ''0700.HK'') = None"
    by (simp add: new_client_def cache_get_def redis_get_def)
qed (simp_all add: answering_def)

end
