(* ===== verification/Settings.thy ===== *)
theory Settings
  imports Market_Data Security
begin

text \<open>
  Model of \<^verbatim>\<open>backend/app/settings.py\<close> and of what \<^verbatim>\<open>main.py\<close> makes of it: the origins and hosts that may talk to
  the service, the secret and the cookie of its sessions, the checks at start-up and the headers of every
  response. \<open>urlparse\<close> is modelled up to the network location; the address in brackets and characters whose
  normal form has a delimiter are not checked. The values are those of the environment variables.
\<close>

section \<open>URLs\<close>

record parsed_url =
  url_scheme :: pystr
  url_netloc :: pystr

definition is_scheme_char :: "nat \<Rightarrow> bool" where
  "is_scheme_char c \<longleftrightarrow> is_AZ09 (upper_char c) \<or> c \<in> {43, 45, 46}"

definition url_text :: "pystr \<Rightarrow> pystr" where
  \<comment> \<open>without leading control characters and spaces and without tabs and line ends\<close>
  "url_text url = filter (\<lambda>c. c \<notin> {9, 10, 13}) (dropWhile (\<lambda>c. c \<le> 32) url)"

definition scheme_split :: "pystr \<Rightarrow> pystr \<times> pystr" where
  "scheme_split url =
     (let s = takeWhile (\<lambda>c. c \<noteq> 58) url
      in if s \<noteq> [] \<and> length s < length url \<and> is_AZ (upper_char (hd s)) \<and> list_all is_scheme_char s
         then (py_lower s, drop (Suc (length s)) url) else ([], url))"

definition urlparse :: "pystr \<Rightarrow> error + parsed_url" where
  "urlparse url =
     (let (scheme, rest) = scheme_split (url_text url);
          netloc = (if starts_with (lit ''//'') rest then takeWhile (\<lambda>c. c \<notin> {47, 63, 35}) (drop 2 rest) else [])
      in if (91 \<in> set netloc) \<noteq> (93 \<in> set netloc) then Inl ValueError
         else Inr \<lparr>url_scheme = scheme, url_netloc = netloc\<rparr>)"

definition hostname :: "parsed_url \<Rightarrow> pystr option" where
  \<comment> \<open>what follows the user, without the port; a zone keeps its case\<close>
  "hostname u =
     (let hostinfo = rev (takeWhile (\<lambda>c. c \<noteq> 64) (rev (url_netloc u)));
          host = (if 91 \<in> set hostinfo then takeWhile (\<lambda>c. c \<noteq> 93) (tl (dropWhile (\<lambda>c. c \<noteq> 91) hostinfo))
            else takeWhile (\<lambda>c. c \<noteq> 58) hostinfo)
      in if host = [] then None
         else Some (py_lower (takeWhile (\<lambda>c. c \<noteq> 37) host) @ dropWhile (\<lambda>c. c \<noteq> 37) host))"

section \<open>Settings\<close>

record settings =
  app_env :: pystr
  session_secret :: "pystr option"
  public_origin :: "pystr option"
  allowed_origins :: "pystr option"
  allowed_hosts :: "pystr option"
  redis_url :: "pystr option"
  database_url :: "pystr option"
  runtime_session_secret :: "pystr option"

definition LOCAL_ORIGINS :: "pystr list" where
  "LOCAL_ORIGINS = map lit [''http://localhost:5173'', ''http://127.0.0.1:5173'', ''http://localhost:80'', ''http://127.0.0.1:80'']"

definition LOCAL_HOSTS :: "pystr list" where
  "LOCAL_HOSTS = map lit [''localhost'', ''127.0.0.1'']"

definition split_csv :: "pystr option \<Rightarrow> pystr list" where
  "split_csv v = (let s = or_empty v in filter (\<lambda>i. i \<noteq> []) (map py_strip (py_split_max 44 (length s) s)))"

definition normalize_origin :: "pystr \<Rightarrow> error + pystr" where
  "normalize_origin v = bindE (urlparse (py_strip v)) (\<lambda>parsed.
     if url_scheme parsed \<notin> {lit ''http'', lit ''https''} \<or> url_netloc parsed = [] then Inl ValueError
     else Inr (url_scheme parsed @ lit ''://'' @ url_netloc parsed))"

definition host_from_origin :: "pystr \<Rightarrow> error + pystr" where
  "host_from_origin v = bindE (urlparse v) (\<lambda>u. case hostname u of None \<Rightarrow> Inl ValueError | Some h \<Rightarrow> Inr h)"

definition is_production :: "settings \<Rightarrow> bool" where
  "is_production s \<longleftrightarrow> py_lower (py_strip (app_env s)) = lit ''production''"

definition stripped_or_none :: "pystr option \<Rightarrow> pystr option" where
  "stripped_or_none v = (case v of None \<Rightarrow> None | Some t \<Rightarrow> if py_strip t = [] then None else Some (py_strip t))"

definition configured_session_secret_value :: "settings \<Rightarrow> pystr option" where
  "configured_session_secret_value s = stripped_or_none (session_secret s)"

definition session_secret_value :: "pystr \<Rightarrow> settings \<Rightarrow> error + pystr \<times> settings" where
  \<comment> \<open>with the next random token\<close>
  "session_secret_value token s =
     (case configured_session_secret_value s of
        Some secret \<Rightarrow> Inr (secret, s)
      | None \<Rightarrow> if is_production s then Inl ValueError
          else (case runtime_session_secret s of
              Some secret \<Rightarrow> Inr (secret, s)
            | None \<Rightarrow> Inr (token, s\<lparr>runtime_session_secret := Some token\<rparr>)))"

definition redis_url_value :: "settings \<Rightarrow> pystr option" where
  "redis_url_value s = stripped_or_none (redis_url s)"

definition database_url_value :: "settings \<Rightarrow> pystr option" where
  "database_url_value s = stripped_or_none (database_url s)"

definition database_uses_postgresql :: "settings \<Rightarrow> error + bool" where
  "database_uses_postgresql s = (case database_url_value s of None \<Rightarrow> Inr False
     | Some url \<Rightarrow> bindE (urlparse url) (\<lambda>u. Inr (starts_with (lit ''postgresql'') (py_lower (url_scheme u)))))"

definition email_pepper_value :: "settings \<Rightarrow> pystr" where
  "email_pepper_value s = (case configured_session_secret_value s of
     Some secret \<Rightarrow> secret | None \<Rightarrow> lit ''asset-tracker-email-digest-pepper'')"

definition cors_origins :: "settings \<Rightarrow> error + pystr list" where
  "cors_origins s = bindE (mapE normalize_origin (split_csv (allowed_origins s))) (\<lambda>configured_origins.
     if configured_origins \<noteq> [] then Inr configured_origins
     else if or_empty (public_origin s) \<noteq> [] then bindE (normalize_origin (or_empty (public_origin s))) (\<lambda>origin. Inr [origin])
     else if is_production s then Inr [] else Inr LOCAL_ORIGINS)"

definition trusted_hosts :: "settings \<Rightarrow> error + pystr list" where
  "trusted_hosts s =
     (let configured_hosts = split_csv (allowed_hosts s) in
      if configured_hosts \<noteq> [] then Inr configured_hosts
      else bindE (cors_origins s) (\<lambda>origins. bindE (mapE host_from_origin origins) (\<lambda>hosts.
        let derived_hosts = hosts @ (if is_production s then [] else LOCAL_HOSTS)
        in Inr (unique_in_order (if derived_hosts = [] then LOCAL_HOSTS else derived_hosts)))))"

definition is_allowed_origin :: "settings \<Rightarrow> pystr \<Rightarrow> error + bool" where
  "is_allowed_origin s origin = (case normalize_origin origin of
       Inl e \<Rightarrow> Inr False
     | Inr normalized_origin \<Rightarrow> bindE (cors_origins s) (\<lambda>origins. Inr (normalized_origin \<in> set origins)))"

fun all_https :: "pystr list \<Rightarrow> error + bool" where
  "all_https [] = Inr True"
| "all_https (origin # origins) =
     bindE (urlparse origin) (\<lambda>u. if url_scheme u = lit ''https'' then all_https origins else Inr False)"

definition session_cookie_https_only :: "settings \<Rightarrow> error + bool" where
  "session_cookie_https_only s = bindE (cors_origins s) (\<lambda>origins.
     if origins = [] then Inr False else all_https origins)"

definition validate_runtime :: "settings \<Rightarrow> error + unit" where
  "validate_runtime s =
     bindE (assertE (\<not> (is_production s \<and> or_empty (public_origin s) = [] \<and> or_empty (allowed_origins s) = []
       \<and> or_empty (allowed_hosts s) = [])) ValueError) (\<lambda>_.
     bindE (assertE (\<not> (is_production s \<and> configured_session_secret_value s = None)) ValueError) (\<lambda>_.
     bindE (assertE (\<not> (is_production s \<and> redis_url_value s = None)) ValueError) (\<lambda>_.
     bindE (assertE (\<not> (is_production s \<and> database_url_value s = None)) ValueError) (\<lambda>_.
     if database_url_value s = None then Inr ()
     else bindE (database_uses_postgresql s) (\<lambda>postgresql. assertE postgresql ValueError)))))"

section \<open>The application\<close>

record application =
  app_hosts :: "pystr list"  \<comment> \<open>of the \<open>TrustedHostMiddleware\<close>\<close>
  app_origins :: "pystr list"  \<comment> \<open>of the \<open>CORSMiddleware\<close>\<close>
  app_secret_key :: pystr
  app_https_only :: bool

definition create_app :: "pystr \<Rightarrow> settings \<Rightarrow> error + application \<times> settings" where
  "create_app token s =
     bindE (trusted_hosts s) (\<lambda>hosts.
     bindE (cors_origins s) (\<lambda>origins.
     bindE (session_secret_value token s) (\<lambda>(secret, s1).
     bindE (session_cookie_https_only s1) (\<lambda>https_only.
     Inr (\<lparr>app_hosts = (if hosts = [] then LOCAL_HOSTS else hosts), app_origins = origins,
       app_secret_key = (if secret = [] then lit ''asset-tracker-session-fallback'' else secret), app_https_only = https_only\<rparr>, s1)))))"

definition SECURITY_HEADERS :: "(pystr \<times> pystr) list" where
  \<comment> \<open>Starlette keeps the names of headers in lower case\<close>
  "SECURITY_HEADERS = map (\<lambda>(k, v). (py_lower (lit k), lit v))
     [(''Cache-Control'', ''no-store''), (''Pragma'', ''no-cache''), (''Cross-Origin-Opener-Policy'', ''same-origin''),
      (''Cross-Origin-Resource-Policy'', ''same-origin''),
      (''Permissions-Policy'', ''camera=(), geolocation=(), microphone=()''), (''Referrer-Policy'', ''same-origin''),
      (''X-Content-Type-Options'', ''nosniff''), (''X-Frame-Options'', ''DENY'')]"

definition add_security_headers :: "pystr option \<Rightarrow> pystr \<Rightarrow> (pystr \<times> pystr) list \<Rightarrow> (pystr \<times> pystr) list" where
  \<comment> \<open>with the header \<open>x-forwarded-proto\<close> and the scheme of the request\<close>
  "add_security_headers forwarded_proto scheme headers =
     (let secured = fold (\<lambda>(k, v). AList.update k v) SECURITY_HEADERS headers
      in if (case forwarded_proto of None \<Rightarrow> scheme | Some p \<Rightarrow> p) = lit ''https''
         then AList.update (py_lower (lit ''Strict-Transport-Security'')) (lit ''max-age=31536000; includeSubDomains'') secured
         else secured)"

end
