(* ===== verification/Settings_Properties.thy ===== *)
theory Settings_Properties
  imports Settings Scenario
begin

text \<open>
  Properties of the settings: what the checks at start-up give in production, that the origins of the
  settings are allowed, and a production set-up that passes the checks without a secure cookie.
\<close>

theorem production_is_configured:
  assumes "validate_runtime s = Inr ()" "is_production s"
  shows "(\<exists>secret. secret \<noteq> [] \<and> session_secret s \<noteq> None \<and> session_secret_value token s = Inr (secret, s) \<and> email_pepper_value s = secret)
    \<and> redis_url_value s \<noteq> None \<and> database_uses_postgresql s = Inr True
    \<and> (public_origin s \<noteq> None \<or> allowed_origins s \<noteq> None \<or> allowed_hosts s \<noteq> None)"
proof -
  from assms have checks: "configured_session_secret_value s \<noteq> None" "redis_url_value s \<noteq> None" "database_uses_postgresql s = Inr True"
      "\<not> (or_empty (public_origin s) = [] \<and> or_empty (allowed_origins s) = [] \<and> or_empty (allowed_hosts s) = [])"
    by (auto simp: validate_runtime_def bindE_eq_Inr split: if_splits)
  from checks(1) obtain secret where secret: "configured_session_secret_value s = Some secret" by blast
  then have "secret \<noteq> []" "session_secret s \<noteq> None"
    by (auto simp: configured_session_secret_value_def stripped_or_none_def split: option.splits if_splits)
  moreover from secret have "session_secret_value token s = Inr (secret, s)" "email_pepper_value s = secret"
    by (simp_all add: session_secret_value_def email_pepper_value_def)
  moreover have "public_origin s \<noteq> None \<or> allowed_origins s \<noteq> None \<or> allowed_hosts s \<noteq> None"
    using checks(4) by (auto simp: or_empty_def)
  ultimately show ?thesis using checks(2,3) by blast
qed

lemma mapE_set: "mapE f xs = Inr ys \<Longrightarrow> y \<in> set ys \<Longrightarrow> \<exists>x \<in> set xs. f x = Inr y"
  by (induction xs arbitrary: ys) (auto simp: bindE_eq_Inr)

lemma urlparse_http:
  assumes "scheme \<in> {lit ''http'', lit ''https''}" "netloc \<noteq> []" "\<And>c. c \<in> set netloc \<Longrightarrow> c \<notin> {9, 10, 13, 47, 63, 35}"
    "(91 \<in> set netloc) = (93 \<in> set netloc)"
  shows "urlparse (scheme @ lit ''://'' @ netloc) = Inr \<lparr>url_scheme = scheme, url_netloc = netloc\<rparr>"
proof -
  have keep: "filter (\<lambda>c. c \<notin> {9, 10, 13}) netloc = netloc" "takeWhile (\<lambda>c. c \<notin> {47, 63, 35}) netloc = netloc"
    using assms(3) by (auto simp: filter_id_conv takeWhile_eq_all_conv)
  from assms(1) have "url_text (scheme @ lit ''://'' @ netloc) = scheme @ lit ''://'' @ netloc"
    using keep(1) by (auto simp: url_text_def lit_Cons)
  moreover from assms(1) have "scheme_split (scheme @ lit ''://'' @ netloc) = (scheme, lit ''//'' @ netloc)"
    by (auto simp: scheme_split_def lit_Cons is_AZ_def is_AZ09_def upper_char_def is_scheme_char_def py_lower_def lower_char_def Let_def)
  ultimately show ?thesis using keep(2) assms(4) by (simp add: urlparse_def starts_with_def lit_Cons cong: conj_cong del: takeWhile_eq_all_conv)
qed

lemma parsed_netloc:
  assumes "urlparse u = Inr p"
  shows "(\<forall>c \<in> set (url_netloc p). c \<notin> {9, 10, 13, 47, 63, 35}) \<and> (91 \<in> set (url_netloc p)) = (93 \<in> set (url_netloc p))"
proof -
  obtain scheme rest where split: "scheme_split (url_text u) = (scheme, rest)" by (cases "scheme_split (url_text u)")
  then have "set rest \<subseteq> set (url_text u)"
    by (auto simp: scheme_split_def Let_def split: if_splits dest: in_set_dropD)
  then have clean: "\<forall>c \<in> set rest. c \<notin> {9, 10, 13}" by (auto simp: url_text_def)
  let ?netloc = "if starts_with (lit ''//'') rest then takeWhile (\<lambda>c. c \<notin> {47, 63, 35}) (drop 2 rest) else []"
  from assms split have "url_netloc p = ?netloc" "(91 \<in> set ?netloc) = (93 \<in> set ?netloc)"
    by (auto simp: urlparse_def Let_def split: if_splits)
  moreover have "\<forall>c \<in> set ?netloc. c \<notin> {9, 10, 13, 47, 63, 35}"
    using clean by (auto dest: set_takeWhileD in_set_dropD)
  ultimately show ?thesis by (simp only:)
qed

lemma strip_without_spaces: "\<forall>c \<in> set s. \<not> py_isspace c \<Longrightarrow> py_strip s = s"
proof -
  assume "\<forall>c \<in> set s. \<not> py_isspace c"
  then have "dropWhile py_isspace s = s" "dropWhile py_isspace (rev s) = rev s"
    by (simp_all add: dropWhile_eq_self_iff hd_rev) (metis hd_in_set last_in_set)+
  then show ?thesis by (simp add: py_strip_def py_lstrip_def py_rstrip_def)
qed

lemma origin_again:
  assumes "normalize_origin v = Inr origin" "\<forall>c \<in> set origin. \<not> py_isspace c"
  shows "normalize_origin origin = Inr origin"
proof -
  from assms(1) obtain p where p: "urlparse (py_strip v) = Inr p" "url_scheme p \<in> {lit ''http'', lit ''https''}"
      "url_netloc p \<noteq> []" "origin = url_scheme p @ lit ''://'' @ url_netloc p"
    by (auto simp: normalize_origin_def bindE_eq_Inr split: if_splits)
  have "urlparse origin = Inr \<lparr>url_scheme = url_scheme p, url_netloc = url_netloc p\<rparr>"
    unfolding p(4) using parsed_netloc [OF p(1)] by (intro urlparse_http [OF p(2,3)]) blast+
  then show ?thesis using p(2,3) by (simp add: normalize_origin_def strip_without_spaces [OF assms(2)] p(4) [symmetric])
qed

lemma local_origin: "origin \<in> set LOCAL_ORIGINS \<Longrightarrow> normalize_origin origin = Inr origin"
proof -
  have n: "normalize_origin (lit ''http'' @ lit ''://'' @ host) = Inr (lit ''http'' @ lit ''://'' @ host)"
    if "\<forall>c \<in> set host. \<not> py_isspace c \<and> c \<notin> {9, 10, 13, 47, 63, 35, 91, 93}" "host \<noteq> []" for host
  proof -
    have "py_strip (lit ''http'' @ lit ''://'' @ host) = lit ''http'' @ lit ''://'' @ host"
      using that by (intro strip_without_spaces) (auto simp: lit_Cons py_isspace_def)
    moreover have "urlparse (lit ''http'' @ lit ''://'' @ host) = Inr \<lparr>url_scheme = lit ''http'', url_netloc = host\<rparr>"
      using that by (intro urlparse_http) auto
    ultimately show ?thesis using that(2) by (simp add: normalize_origin_def)
  qed
  show "origin \<in> set LOCAL_ORIGINS \<Longrightarrow> normalize_origin origin = Inr origin"
    using n [of "lit ''localhost:5173''"] n [of "lit ''127.0.0.1:5173''"] n [of "lit ''localhost:80''"] n [of "lit ''127.0.0.1:80''"]
    by (auto simp: LOCAL_ORIGINS_def lit_Cons py_isspace_def)
qed

theorem listed_origins_are_allowed:
  assumes "cors_origins s = Inr origins" "origin \<in> set origins" "\<forall>c \<in> set origin. \<not> py_isspace c"
  shows "is_allowed_origin s origin = Inr True"
proof -
  from assms(1,2) have "(\<exists>v. normalize_origin v = Inr origin) \<or> origin \<in> set LOCAL_ORIGINS"
    by (auto simp: cors_origins_def bindE_eq_Inr dest!: mapE_set split: if_splits)
  then have "normalize_origin origin = Inr origin" using origin_again [OF _ assms(3)] local_origin by blast
  with assms(1,2) show ?thesis by (simp add: is_allowed_origin_def)
qed

definition hosts_only :: settings where
  "hosts_only = \<lparr>app_env = lit ''production'', session_secret = Some (lit ''secret''), public_origin = None, allowed_origins = None,
     allowed_hosts = Some (lit ''wealth.example''), redis_url = Some (lit ''redis://cache''),
     database_url = Some (lit ''postgresql://db''), runtime_session_secret = None\<rparr>"

theorem hosts_only_cookie_is_not_secure:
  "is_production hosts_only \<and> validate_runtime hosts_only = Inr () \<and> session_cookie_https_only hosts_only = Inr False"
proof -
  have production: "is_production hosts_only" by (simp add: is_production_def hosts_only_def eval_text py_lower_def lower_char_def)
  have vals: "configured_session_secret_value hosts_only = Some (lit ''secret'')" "redis_url_value hosts_only = Some (lit ''redis://cache'')"
    "database_url_value hosts_only = Some (lit ''postgresql://db'')"
    by (simp_all add: configured_session_secret_value_def redis_url_value_def database_url_value_def stripped_or_none_def hosts_only_def eval_text)
  have "urlparse (lit ''postgresql://db'') = Inr \<lparr>url_scheme = lit ''postgresql'', url_netloc = lit ''db''\<rparr>"
    by (simp add: urlparse_def url_text_def scheme_split_def is_scheme_char_def is_AZ_def is_AZ09_def upper_char_def py_lower_def
        lower_char_def starts_with_def lit_Cons Let_def)
  then have "database_uses_postgresql hosts_only = Inr True"
    by (simp add: database_uses_postgresql_def vals) (simp add: starts_with_def py_lower_def lower_char_def lit_Cons)
  moreover have "or_empty (allowed_hosts hosts_only) \<noteq> []" by (simp add: hosts_only_def or_empty_def lit_Cons)
  ultimately have "validate_runtime hosts_only = Inr ()" by (simp add: validate_runtime_def production vals)
  moreover have "cors_origins hosts_only = Inr []"
    using production by (simp add: cors_origins_def split_csv_def or_empty_def hosts_only_def eval_text)
  ultimately show ?thesis using production by (simp add: session_cookie_https_only_def)
qed

end
