(* ===== verification/Spec2Isabelle.thy ===== *)
theory Spec2Isabelle
  imports Ledger_Properties Cash_Properties Trade_Properties Service_Properties Holding_Properties Queue_Properties History_Properties Background_Jobs Auth Live_State Feedback Portfolio_Read Symbols
    Request_Properties Login_Properties Worker_Properties Feedback_Properties Release_Properties
    Dashboard_Properties Rebuild_Properties Dashboard_Query_Properties Asset_Record_Properties Market_Properties Codec_Properties Agent_Context Provider_Properties Settings_Properties
begin

text \<open>
  Verification of the backend of opentrifi, a personal wealth tracker: a FastAPI service in
  \<^verbatim>\<open>backend/app\<close> over a SQL database (through SQLModel sessions), Redis and third-party market data. Users
  keep cash accounts with a ledger, trades of securities that are projected into holdings, fixed assets,
  liabilities and other assets; a worker rebuilds the history of their wealth; dashboards, a journal and an
  inbox show it. All paths below are relative to \<^verbatim>\<open>backend/app\<close>, those without a directory of the service
  theories to \<^verbatim>\<open>services\<close>.

  \<^bold>\<open>How the parts interact.\<close> A router (\<^verbatim>\<open>api/routers\<close>) authenticates a request (\<^verbatim>\<open>auth_service.py\<close>), the
  validators of \<^verbatim>\<open>schema_parts\<close> check its payload, and a handler of a service changes rows of the database, appends
  to the audit log, enqueues a rebuild of the user's snapshots (\<^verbatim>\<open>job_service.py\<close>), drops the user's cached
  dashboard (\<^verbatim>\<open>common_service.py\<close>), stores its response under the idempotency key and commits. A trade
  (\<^verbatim>\<open>holding_transaction_service.py\<close>) moves cash through \<^verbatim>\<open>settlements.py\<close> and \<^verbatim>\<open>cash_ledger.py\<close> and has its symbol
  projected again (\<^verbatim>\<open>state.py\<close>, \<^verbatim>\<open>repository.py\<close>). The worker claims jobs and rebuilds snapshots
  (\<^verbatim>\<open>history_service.py\<close>, \<^verbatim>\<open>history_sync_service.py\<close>) or runs the tasks of agents. The sampler
  (\<^verbatim>\<open>realtime_analytics_service.py\<close>) and the dashboard (\<^verbatim>\<open>dashboard_query_service.py\<close>) value the rows
  (\<^verbatim>\<open>portfolio_read_service.py\<close>) with market data (\<^verbatim>\<open>market_data_parts\<close>), keep the live value of the hour in Redis
  and build timelines (\<^verbatim>\<open>analytics.py\<close>) to which corrections are applied.

  \<^bold>\<open>Data.\<close> A table is a list of rows with ids and the next id (\<open>Tables\<close>, locale \<open>keyed_store\<close>), a row a record with
  the fields of the model class (\<open>Models\<close>, and beside the services that own the other tables), the database a record
  of tables, \<open>world\<close> (\<open>Common_Service\<close>). Text is a list of code points, an instant an integer of microseconds, a day
  an integer of days, a decimal a coefficient with an exponent; a stored amount is an integer of units of
  \<open>10 ^ -8\<close> (\<open>fixed\<close>), a displayed amount an integer of the units of its kind. Exceptions are values of the type
  \<open>error\<close>; an HTTP exception has its status and a constructor for its message.

  \<^bold>\<open>Handlers.\<close> A handler is a function of the request's environment (\<open>env\<close>: user, clock, market data), its payload
  and the world into \<open>error + (response \<times> world)\<close>: an exception rolls the session back, so that the world is as it was.
  Where the response is built after the commit the result is \<open>error + ((error + response) \<times> world)\<close>. Handlers
  that commit as they go (authentication, dashboards, jobs) return their outcome, exceptions included, with the state they
  leave. \<open>Api\<close> has the requests that change the portfolio as one datatype and \<open>handle\<close>, which serves any of them;
  properties of the service quantify over lists of requests served one after another.

  \<^bold>\<open>Theories.\<close> In the order of the code:
  \<^item> \<open>Prelude\<close>, \<open>Tables\<close>, \<open>Table_Counts\<close>, \<open>Service\<close>: exceptions, text, tables, and the interfaces \<open>keyed_store\<close>,
    \<open>invariant_service\<close>, \<open>isolated_service\<close>, interpreted by the tables and by the served requests.
  \<^item> \<open>Fixed_Precision\<close> (\<^verbatim>\<open>fixed_precision.py\<close>), \<open>Models\<close> (\<^verbatim>\<open>models.py\<close>), \<open>Schemas\<close> and \<open>Validators\<close>
    (\<^verbatim>\<open>schema_parts\<close>), \<open>Common_Service\<close> (\<^verbatim>\<open>common_service.py\<close>).
  \<^item> \<open>Holding_State\<close>, \<open>Cash_Ledger\<close>, \<open>Settlements\<close>, \<open>Holding_Repository\<close> (\<^verbatim>\<open>holding_projection_parts\<close>),
    \<open>Cash_Accounts\<close> and \<open>Cash_Transfers\<close> (\<^verbatim>\<open>cash_account_service.py\<close>), \<open>Holding_Transactions\<close>, \<open>Asset_Entries\<close>,
    \<open>Portfolio_Read\<close>, and \<open>Api\<close> over them.
  \<^item> \<open>Job_Queue\<close>, \<open>Queue_Sessions\<close>, \<open>History_Sync\<close>, \<open>History_Rebuild\<close>, \<open>Agent_Tasks\<close>, \<open>Background_Jobs\<close>: the queue, the
    queue under sessions that commit later than they enqueue, the requests to rebuild, the rebuild, the tasks of agents and
    the worker.
  \<^item> \<open>Redis_Store\<close> (expiring keys and the caches of \<^verbatim>\<open>cache.py\<close>, interfaces \<open>expiring_map\<close> and \<open>stale_cache\<close>),
    \<open>Codecs\<close> (\<^verbatim>\<open>typed_json.py\<close> and the codecs of \<^verbatim>\<open>runtime_state.py\<close> and \<^verbatim>\<open>cache.py\<close>), \<open>Symbols\<close>,
    \<open>Market_Data\<close> and \<open>Providers\<close> (\<^verbatim>\<open>symbols.py\<close>, \<^verbatim>\<open>client.py\<close>, \<^verbatim>\<open>search_catalog.py\<close>, \<^verbatim>\<open>providers.py\<close>): the client asks providers,
    a record of functions, and \<open>network\<close> builds it from the answers of the upstream services.
  \<^item> \<open>Settings\<close> (\<^verbatim>\<open>settings.py\<close>, \<^verbatim>\<open>main.py\<close>): origins, hosts, secrets, the checks at start-up and the response headers.
  \<^item> \<open>Security\<close>, \<open>Auth_State\<close>, \<open>Auth\<close> (\<^verbatim>\<open>security.py\<close>, \<^verbatim>\<open>auth_service.py\<close>).
  \<^item> \<open>Analytics\<close>, \<open>Dashboard_Corrections\<close>, \<open>Realtime\<close>, \<open>Live_State\<close>, \<open>Dashboard_Query\<close>, \<open>Agent_Context\<close>,
    \<open>Asset_Records\<close>: series, corrections, sampling, the live hour, the dashboard, its cache and the lists, what agents read,
    and the journal.
  \<^item> \<open>Release_Notes\<close>, \<open>Feedback\<close>: the inbox.

  \<^bold>\<open>What is shown.\<close>
  \<^item> Cash (\<open>Cash_Invariant\<close>, \<open>Cash_Correct\<close>, \<open>Trade_Correct\<close>, \<open>Trade_Handlers\<close>, \<open>Ledger_Totals\<close>, \<open>Ledger_Properties\<close>,
    \<open>Cash_Properties\<close>): \<open>cash_inv\<close> holds after every request: balances are the sums of the ledger, entries belong to
    accounts of their user and currency, a transfer has exactly its two entries, a trade exactly its settlements.
    \<open>cash_ok\<close> is the invariant with the exceptions a handler makes half-way.
  \<^item> Holdings (\<open>Projection\<close>, \<open>Holding_Properties\<close>, \<open>Trade_Properties\<close>): after every request but the few that edit a
    holding directly, each holding row is the projection of its trades; the projection refines the net quantity; sales
    consume the oldest lots; trades move exactly their proceeds or cost; a repeated request changes nothing.
  \<^item> Isolation (\<open>User_Writes\<close>, \<open>Cash_Writes\<close>, \<open>Trade_Writes\<close>, \<open>Isolation\<close>, \<open>Service_Properties\<close>): a request writes rows of
    its user only, as a sequence of writes \<open>user_write\<close>; the audit log only grows.
  \<^item> Queue and worker (\<open>Queue_Properties\<close>, \<open>Worker_Properties\<close>): the queue is an inductive step relation with its
    invariant, once with every step committed at once (\<open>queue_step\<close>) and once with open sessions (\<open>queue_run\<close>), where the
    invariant needs that enqueues under one key do not overlap, which the code does not ensure; when the loop over a
    user's requests returns, and when it never does.
  \<^item> History (\<open>History_Properties\<close>, \<open>Rebuild_Properties\<close>): hour buckets, prices carried forward (\<open>hour_price\<close> and
    \<open>price_before_points\<close> say which), the single pass over trades and entries equals a replay at every hour, and which
    rows a rebuild leaves and adds (\<open>dated\<close>, \<open>baselines_added\<close>).
  \<^item> Access (\<open>Auth_Properties\<close>, \<open>Login_Properties\<close>, \<open>Request_Properties\<close>): who is let in, sliding windows, passwords,
    what a validated payload is; \<open>Settings_Properties\<close>: what the checks at start-up give.
  \<^item> Views (\<open>Dashboard_Properties\<close>, \<open>Dashboard_Query_Properties\<close>, \<open>Asset_Record_Properties\<close>, \<open>Market_Properties\<close>,
    \<open>Provider_Properties\<close>, \<open>Codec_Properties\<close>): timelines, corrections, the sums and the newest point of a dashboard, that a change is never
    hidden by the cache, what the journal shows, how quotes outlive their providers, what any answer of
    a provider can become and which answers end a lookup, round trips of the codecs.
  \<^item> Inbox (\<open>Release_Properties\<close>, \<open>Feedback_Properties\<close>): deliveries of release notes, the states of tickets.
  \<open>Scenario\<close> has the concrete worlds on which witnesses evaluate.

  \<^bold>\<open>Bounds and termination.\<close> Decimal arithmetic has 28 digits; properties about sums assume amounts for which it is
  exact (\<open>exposure\<close>, \<open>modest\<close>), far above what the columns hold. Loops are recursive functions with a measure; the
  worker's loop, which may run for ever, is a \<open>partial_function\<close> into \<open>option\<close>, whose \<open>None\<close> is not returning, and both cases
  are properties. No fuel is used for anything but the splitting of text at a separator, where the length of the text is enough.

  \<^bold>\<open>Decisions.\<close> The clock stands still within a request; local time is UTC+8; letters are mapped between cases in ASCII;
  years are not limited; locks in Redis are always acquired (that an enqueue holds its lock for a
  shorter time than its transaction is in \<open>Queue_Sessions\<close>; every other handler is one step of the database); rows that a query orders by equal keys keep the order of
  their ids; sets of ids are lists without repetition; there are no foreign keys. Audit states are the captured rows,
  not their JSON. Parameters stand for what is not in the repository: the answers of market data services, cryptographic functions, the hash of a request,
  the \<open>%g\<close> format of floats, texts of instants and decimals, the validation of agent payloads (parsed inputs). The
  \<open>env\<close> of a dashboard reads market data as functions; \<open>Market_Properties\<close> shows why it may: reads that prefer stale values
  change nothing. There \<open>en_quote\<close> and \<open>en_fx_rate\<close> give no value for any lookup that fails, so a valuation that ends with an exception
  of a provider other than a lookup error (as in \<open>dash_aborts_quote\<close>) is not represented. The recipients of release notes
  are a parameter, the list of user names. \<open>Api\<close> also serves \<open>CreateHolding\<close>, a handler without a route.

  \<^bold>\<open>Not modelled.\<close> The parsing of a price chart, whose timestamps and closes are a parameter; the endless loops around the worker and the sampler, process start-up, database sessions and
  migrations (\<^verbatim>\<open>worker.py\<close>, \<^verbatim>\<open>database.py\<close>, \<^verbatim>\<open>alembic\<close>), which only wire the parts
  together; the demo data of \<^verbatim>\<open>agent_demo_service.py\<close>; deployment scripts; the warnings of dashboards and rebuilds; the
  frontend.
\<close>

end
